(* ===== verification/Prelude.thy ===== *)
theory Prelude
  imports Main "HOL-Library.Word" "HOL-Library.Sublist" "HOL-Library.List_Lexorder" "HOL-Library.Char_ord"
begin

section \<open>Prelude: shared types, integers at their width, and generic lemmas\<close>

text \<open>
  What every component uses: the names of the types (a Rust \<open>String\<close> is its UTF-8 bytes,
  a \<open>char list\<close> here; a \<open>Vec<u8>\<close> is a list of 8-bit words), \<open>i64\<close> and \<open>u32\<close>
  arithmetic with the wrap-around written out, little-endian byte encodings, and lemmas on
  lists and finite maps that several components need.
\<close>

named_theorems key_simps \<open>formatting and parsing of storage keys\<close>
named_theorems store_simps \<open>reading a tree after a write\<close>

type_synonym bytes = "8 word list"
type_synonym did = string
type_synonym millis = int

subsection \<open>Machine integers\<close>

text \<open>
  An \<open>i64\<close> or \<open>i32\<close> is an \<open>int\<close> in its range. Arithmetic that may leave the
  range is written with \<open>wrap_i64\<close>, which is what a release build computes (a debug
  build panics there instead).
\<close>

definition i64_min :: int where
  "i64_min = - (2 ^ 63)"

definition i64_max :: int where
  "i64_max = 2 ^ 63 - 1"

definition in_i64 :: "int \<Rightarrow> bool" where
  "in_i64 x \<longleftrightarrow> i64_min \<le> x \<and> x \<le> i64_max"

definition wrap_i64 :: "int \<Rightarrow> int" where
  "wrap_i64 x = (x + 2 ^ 63) mod 2 ^ 64 - 2 ^ 63"

definition sub_i64 :: "int \<Rightarrow> int \<Rightarrow> int" where
  "sub_i64 a b = wrap_i64 (a - b)"

definition add_i64 :: "int \<Rightarrow> int \<Rightarrow> int" where
  "add_i64 a b = wrap_i64 (a + b)"

definition saturating_add_i64 :: "int \<Rightarrow> int \<Rightarrow> int" where
  "saturating_add_i64 a b = max i64_min (min i64_max (a + b))"

definition u32_modulus :: nat where
  "u32_modulus = 2 ^ 32"

definition in_u32 :: "nat \<Rightarrow> bool" where
  "in_u32 n \<longleftrightarrow> n < u32_modulus"

definition add_u32 :: "nat \<Rightarrow> nat \<Rightarrow> nat" where
  "add_u32 a b = (a + b) mod u32_modulus"

lemma wrap_i64_id [simp]: "in_i64 x \<Longrightarrow> wrap_i64 x = x"
  by (simp add: wrap_i64_def in_i64_def i64_min_def i64_max_def)

lemma wrap_i64_range [simp]: "in_i64 (wrap_i64 x)"
proof -
  have "0 \<le> (x + 2 ^ 63) mod 2 ^ 64" and "(x + 2 ^ 63) mod 2 ^ 64 < 2 ^ 64"
    by simp_all
  then show ?thesis
    by (simp add: wrap_i64_def in_i64_def i64_min_def i64_max_def)
qed

lemma wrap_i64_mod: "wrap_i64 (x mod 2 ^ 64) = wrap_i64 x"
  by (simp add: wrap_i64_def mod_simps)

lemma sub_i64_exact: "in_i64 (a - b) \<Longrightarrow> sub_i64 a b = a - b"
  by (simp add: sub_i64_def)

lemma add_i64_exact: "in_i64 (a + b) \<Longrightarrow> add_i64 a b = a + b"
  by (simp add: add_i64_def)

lemma sub_i64_nonneg: "0 \<le> a \<Longrightarrow> 0 \<le> b \<Longrightarrow> in_i64 a \<Longrightarrow> in_i64 b \<Longrightarrow> sub_i64 a b = a - b"
  by (rule sub_i64_exact) (simp add: in_i64_def i64_min_def i64_max_def)

lemma saturating_add_i64_exact: "in_i64 (a + b) \<Longrightarrow> saturating_add_i64 a b = a + b"
  by (simp add: saturating_add_i64_def in_i64_def)

lemma add_u32_exact: "a + b < 2 ^ 32 \<Longrightarrow> add_u32 a b = a + b"
  by (simp add: add_u32_def u32_modulus_def)

subsection \<open>Bytes\<close>

definition as_bytes :: "string \<Rightarrow> bytes" where
  "as_bytes s = map (\<lambda>c. word_of_nat (of_char c)) s"

fun le_bytes :: "nat \<Rightarrow> int \<Rightarrow> bytes" where
  "le_bytes 0 x = []"
| "le_bytes (Suc n) x = word_of_int x # le_bytes n (x div 256)"

fun le_value :: "bytes \<Rightarrow> int" where
  "le_value [] = 0"
| "le_value (b # bs) = uint b + 256 * le_value bs"

definition i64_to_le :: "int \<Rightarrow> bytes" where
  "i64_to_le x = le_bytes 8 x"

definition i32_to_le :: "int \<Rightarrow> bytes" where
  "i32_to_le x = le_bytes 4 x"

definition i64_from_le :: "bytes \<Rightarrow> int" where
  "i64_from_le bs = wrap_i64 (le_value bs)"

lemma length_as_bytes [simp]: "length (as_bytes s) = length s"
  by (simp add: as_bytes_def)

lemma as_bytes_append [simp]: "as_bytes (s @ t) = as_bytes s @ as_bytes t"
  by (simp add: as_bytes_def)

lemma inj_as_bytes: "inj as_bytes"
proof -
  have "inj (\<lambda>c::char. word_of_nat (of_char c) :: 8 word)"
  proof (rule injI)
    fix c d :: char
    assume eq: "word_of_nat (of_char c) = (word_of_nat (of_char d) :: 8 word)"
    have lt: "of_char e < (256::nat)" for e :: char
      using nat_of_char_less_256 by simp
    from eq have "unat (word_of_nat (of_char c) :: 8 word) = unat (word_of_nat (of_char d) :: 8 word)"
      by simp
    then have "of_char c = (of_char d :: nat)"
      using lt [of c] lt [of d] by (simp add: unat_of_nat)
    then show "c = d" by simp
  qed
  then show ?thesis
    unfolding as_bytes_def by (rule inj_mapI)
qed

lemma as_bytes_eq_iff [simp]: "as_bytes s = as_bytes t \<longleftrightarrow> s = t"
  using inj_as_bytes by (auto dest: injD)

lemma length_le_bytes [simp]: "length (le_bytes n x) = n"
  by (induction n x rule: le_bytes.induct) auto

lemma le_value_le_bytes: "le_value (le_bytes n x) = x mod 256 ^ n"
proof (induction n x rule: le_bytes.induct)
  case (1 x)
  then show ?case by simp
next
  case (2 n x)
  have "uint (word_of_int x :: 8 word) = x mod 256"
    by (simp add: uint_word_of_int)
  with 2 show ?case
    by (simp add: zmod_zmult2_eq)
qed

lemma length_i64_to_le [simp]: "length (i64_to_le x) = 8"
  by (simp add: i64_to_le_def)

lemma length_i32_to_le [simp]: "length (i32_to_le x) = 4"
  by (simp add: i32_to_le_def)

lemma i64_le_roundtrip [simp]:
  assumes "in_i64 x"
  shows "i64_from_le (i64_to_le x) = x"
proof -
  have "le_value (i64_to_le x) = x mod 2 ^ 64"
    by (simp add: i64_to_le_def le_value_le_bytes)
  then have "i64_from_le (i64_to_le x) = wrap_i64 (x mod 2 ^ 64)"
    by (simp only: i64_from_le_def)
  also have "\<dots> = wrap_i64 x"
    by (rule wrap_i64_mod)
  finally show ?thesis
    using assms by simp
qed

lemma i64_to_le_inj: "in_i64 x \<Longrightarrow> in_i64 y \<Longrightarrow> i64_to_le x = i64_to_le y \<longleftrightarrow> x = y"
  using i64_le_roundtrip by metis

definition in_i32 :: "int \<Rightarrow> bool" where
  "in_i32 x \<longleftrightarrow> - (2 ^ 31) \<le> x \<and> x < 2 ^ 31"

lemma i32_to_le_inj:
  assumes "in_i32 x" and "in_i32 y" and "i32_to_le x = i32_to_le y"
  shows "x = y"
proof -
  have "x mod 2 ^ 32 = y mod 2 ^ 32"
    using arg_cong [OF assms(3), of le_value] by (simp add: i32_to_le_def le_value_le_bytes)
  then have "(x + 2 ^ 31) mod 2 ^ 32 = (y + 2 ^ 31) mod 2 ^ 32" by (metis mod_add_left_eq)
  with assms(1,2) show ?thesis by (simp add: in_i32_def)
qed

subsection \<open>Results\<close>

text \<open>A \<open>Result\<close> is a sum with the error on the left; \<open>and_then\<close> is the \<open>?\<close> operator, \<open>map_err\<close> itself.\<close>

definition and_then :: "'e + 'a \<Rightarrow> ('a \<Rightarrow> 'e + 'b) \<Rightarrow> 'e + 'b" where
  "and_then r f = (case r of Inl e \<Rightarrow> Inl e | Inr a \<Rightarrow> f a)"

definition map_err :: "('e \<Rightarrow> 'f) \<Rightarrow> 'e + 'a \<Rightarrow> 'f + 'a" where
  "map_err g r = (case r of Inl e \<Rightarrow> Inl (g e) | Inr a \<Rightarrow> Inr a)"

lemma and_then_simps [simp]: "and_then (Inl e) f = Inl e" "and_then (Inr a) f = f a"
  by (simp_all add: and_then_def)

lemma map_err_simps [simp]: "map_err g (Inl e) = Inl (g e)" "map_err g (Inr a) = Inr a"
  by (simp_all add: map_err_def)

lemma and_then_Inr [simp]: "and_then r f = Inr b \<longleftrightarrow> (\<exists>a. r = Inr a \<and> f a = Inr b)"
  by (cases r) simp_all

lemma map_err_Inr [simp]: "map_err g r = Inr a \<longleftrightarrow> r = Inr a"
  by (cases r) simp_all

subsection \<open>Lists and maps\<close>

lemma option_eqI: "(\<And>v. a = Some v \<longleftrightarrow> b = Some v) \<Longrightarrow> a = b"
  by (cases a; cases b) auto

abbreviation ordered_keys :: "('k::linorder \<times> 'v) list \<Rightarrow> bool" where
  "ordered_keys xs \<equiv> sorted_wrt (<) (map fst xs)"

lemma ordered_keys_unique:
  fixes xs ys :: "('k::linorder \<times> 'v) list"
  assumes "ordered_keys xs" and "ordered_keys ys" and "map_of xs = map_of ys"
  shows "xs = ys"
proof -
  have dx: "distinct (map fst xs)" and dy: "distinct (map fst ys)"
    using assms(1,2) by (simp_all add: strict_sorted_iff)
  have "set xs = set ys"
    using assms(3) dx dy by (simp flip: map_of_inject_set)
  moreover have "sorted (map fst xs)" and "sorted (map fst ys)"
    using assms(1,2) by (simp_all add: strict_sorted_iff)
  ultimately show ?thesis
    using dx dy by (intro map_sorted_distinct_set_unique [where f = fst])
      (auto simp: distinct_map inj_on_def)
qed

lemma take_rev_suffix: "rev (take n (rev xs)) = drop (length xs - n) xs"
  by (simp add: take_rev)

end
