(* ===== verification/Metering.thy ===== *)
theory Metering
  imports Prelude Complex_Main
begin

section \<open>The contract of a metered resource\<close>

text \<open>
  What a rate limiter promises, apart from how it is built: a state has at each instant a
  level of credit that is never negative, grows at most at a fixed rate, and pays one unit
  for every grant. Instants are nanoseconds (\<open>std::time::Instant\<close>), rates are per second.
  From the contract alone, the grants of a run are bounded by the credit at its start plus
  what accrues while it lasts. The token bucket and both budgets of the peer rate limiter
  interpret the locale.
\<close>

definition secs :: "nat \<Rightarrow> real" where
  "secs ns = real ns / 10 ^ 9"

lemma secs_nonneg [simp]: "0 \<le> secs ns"
  by (simp add: secs_def)

lemma secs_0 [simp]: "secs 0 = 0"
  by (simp add: secs_def)

lemma secs_diff: "t \<le> u \<Longrightarrow> u \<le> v \<Longrightarrow> secs (v - t) = secs (u - t) + secs (v - u)"
  by (simp add: secs_def flip: add_divide_distrib of_nat_add)

text \<open>The instants of a run never decrease.\<close>

fun timely :: "('e \<Rightarrow> nat) \<Rightarrow> nat \<Rightarrow> 'e list \<Rightarrow> bool" where
  "timely inst t [] \<longleftrightarrow> True"
| "timely inst t (e # es) \<longleftrightarrow> t \<le> inst e \<and> timely inst (inst e) es"

fun last_at :: "('e \<Rightarrow> nat) \<Rightarrow> nat \<Rightarrow> 'e list \<Rightarrow> nat" where
  "last_at inst t [] = t"
| "last_at inst t (e # es) = last_at inst (inst e) es"

fun grants :: "('s \<Rightarrow> 'e \<Rightarrow> 's) \<Rightarrow> ('s \<Rightarrow> 'e \<Rightarrow> bool) \<Rightarrow> 's \<Rightarrow> 'e list \<Rightarrow> nat" where
  "grants step granted s [] = 0"
| "grants step granted s (e # es) = of_bool (granted s e) + grants step granted (step s e) es"

lemma timely_last_at: "timely inst t es \<Longrightarrow> t \<le> last_at inst t es"
  by (induction es arbitrary: t) (auto intro: order_trans)

locale metered =
  fixes level :: "'s \<Rightarrow> nat \<Rightarrow> real"
    and step :: "'s \<Rightarrow> 'e \<Rightarrow> 's"
    and granted :: "'s \<Rightarrow> 'e \<Rightarrow> bool"
    and inst :: "'e \<Rightarrow> nat"
    and ready :: "'s \<Rightarrow> nat \<Rightarrow> bool"
    and admissible :: "'e \<Rightarrow> bool"
    and rate :: real
  assumes ready_step: "ready s t \<Longrightarrow> t \<le> inst e \<Longrightarrow> admissible e \<Longrightarrow> ready (step s e) (inst e)"
    and pays: "ready s t \<Longrightarrow> t \<le> inst e \<Longrightarrow> admissible e \<Longrightarrow>
      level (step s e) (inst e) \<le> level s (inst e) - of_bool (granted s e)"
    and accrues: "ready s t \<Longrightarrow> t \<le> u \<Longrightarrow> level s u \<le> level s t + rate * secs (u - t)"
    and nonneg: "ready s t \<Longrightarrow> 0 \<le> level s t"
begin

lemma grants_bound:
  assumes "ready s t" and "timely inst t es" and "list_all admissible es"
  shows "real (grants step granted s es) \<le> level s t + rate * secs (last_at inst t es - t)"
  using assms
proof (induction es arbitrary: s t)
  case Nil
  then show ?case by (simp add: nonneg)
next
  case (Cons e es)
  let ?u = "inst e" and ?s = "step s e"
  from Cons.prems have e: "t \<le> ?u" "admissible e" and es: "timely inst ?u es" "list_all admissible es"
    by auto
  have "ready ?s ?u" using Cons.prems(1) e by (rule ready_step)
  then have "real (grants step granted ?s es) \<le> level ?s ?u + rate * secs (last_at inst ?u es - ?u)"
    using es by (rule Cons.IH)
  moreover have "level ?s ?u \<le> level s ?u - of_bool (granted s e)"
    using Cons.prems(1) e by (rule pays)
  moreover have "level s ?u \<le> level s t + rate * secs (?u - t)"
    using Cons.prems(1) e(1) by (rule accrues)
  moreover have "secs (last_at inst ?u es - t) = secs (?u - t) + secs (last_at inst ?u es - ?u)"
    using e(1) timely_last_at [OF es(1)] by (rule secs_diff)
  ultimately show ?case
    by (simp add: algebra_simps)
qed

end

end
