(* ===== verification/Rate_Limiter.thy ===== *)
theory Rate_Limiter
  imports Metering
begin

section \<open>The per-peer rate limiter (\<open>variance-p2p/src/rate_limiter.rs\<close>)\<close>

text \<open>
  A token bucket, the configuration of the buckets, and \<open>PeerRateLimiter\<close>: a bucket per
  (peer, protocol), a global bucket per peer, and the index from a peer to the protocols it
  has used. Peers are a type variable (\<open>libp2p::PeerId\<close>), protocol labels are strings,
  every \<open>DashMap\<close> is a map. \<open>f64\<close> amounts are reals, so rounding is not modelled. A
  reading of \<open>Instant::now\<close> is an argument in nanoseconds; \<open>duration_since\<close>
  saturates at zero, as subtraction on \<open>nat\<close> does. A bucket that \<open>or_insert_with\<close> creates
  is stamped with the reading of the refill that follows it.
\<close>

subsection \<open>Token buckets\<close>

record token_bucket =
  tb_tokens :: real
  tb_max_tokens :: real
  tb_refill_rate :: real
  tb_last_refill :: nat

definition bucket_new :: "real \<Rightarrow> real \<Rightarrow> nat \<Rightarrow> token_bucket" where
  "bucket_new mx rate now =
     \<lparr>tb_tokens = mx, tb_max_tokens = mx, tb_refill_rate = rate, tb_last_refill = now\<rparr>"

definition bucket_refill :: "token_bucket \<Rightarrow> nat \<Rightarrow> token_bucket" where
  "bucket_refill b now =
     (let elapsed = secs (now - tb_last_refill b)
      in b\<lparr>tb_tokens := min (tb_tokens b + elapsed * tb_refill_rate b) (tb_max_tokens b),
           tb_last_refill := now\<rparr>)"

definition bucket_try_consume :: "token_bucket \<Rightarrow> nat \<Rightarrow> token_bucket \<times> bool" where
  "bucket_try_consume b now =
     (let b' = bucket_refill b now
      in if 1 \<le> tb_tokens b' then (b'\<lparr>tb_tokens := tb_tokens b' - 1\<rparr>, True) else (b', False))"

text \<open>The credit of a bucket at an instant: what \<open>refill\<close> would leave in it.\<close>

definition bucket_level :: "token_bucket \<Rightarrow> nat \<Rightarrow> real" where
  "bucket_level b t = tb_tokens (bucket_refill b t)"

definition bucket_ok :: "token_bucket \<Rightarrow> bool" where
  "bucket_ok b \<longleftrightarrow> 0 \<le> tb_tokens b \<and> tb_tokens b \<le> tb_max_tokens b \<and> 0 \<le> tb_refill_rate b"

definition bucket_ready :: "token_bucket \<Rightarrow> nat \<Rightarrow> bool" where
  "bucket_ready b t \<longleftrightarrow> bucket_ok b \<and> tb_last_refill b \<le> t"

lemma bucket_new_ok: "0 \<le> mx \<Longrightarrow> 0 \<le> rate \<Longrightarrow> bucket_ready (bucket_new mx rate t) t"
  by (simp add: bucket_ready_def bucket_ok_def bucket_new_def)

lemma refill_ok: "bucket_ok b \<Longrightarrow> bucket_ok (bucket_refill b t)"
  by (simp add: bucket_ok_def bucket_refill_def Let_def)

lemma refill_fields [simp]:
  "tb_max_tokens (bucket_refill b t) = tb_max_tokens b"
  "tb_refill_rate (bucket_refill b t) = tb_refill_rate b"
  "tb_last_refill (bucket_refill b t) = t"
  by (simp_all add: bucket_refill_def Let_def)

lemma refill_same_instant: "bucket_ok b \<Longrightarrow> bucket_refill b (tb_last_refill b) = b"
  by (simp add: bucket_refill_def bucket_ok_def)

lemma try_consume_fields [simp]:
  "tb_max_tokens (fst (bucket_try_consume b t)) = tb_max_tokens b"
  "tb_refill_rate (fst (bucket_try_consume b t)) = tb_refill_rate b"
  "tb_last_refill (fst (bucket_try_consume b t)) = t"
  by (simp_all add: bucket_try_consume_def Let_def)

lemma try_consume_tokens:
  "tb_tokens (fst (bucket_try_consume b t)) = bucket_level b t - of_bool (snd (bucket_try_consume b t))"
  "snd (bucket_try_consume b t) \<longleftrightarrow> 1 \<le> bucket_level b t"
  by (simp_all add: bucket_try_consume_def bucket_level_def Let_def)

lemma bucket_level_bounds:
  "bucket_ok b \<Longrightarrow> 0 \<le> bucket_level b t"
  "bucket_ok b \<Longrightarrow> bucket_level b t \<le> tb_max_tokens b"
  using refill_ok [of b t] by (simp_all add: bucket_level_def bucket_ok_def)

lemma try_consume_ok: "bucket_ok b \<Longrightarrow> bucket_ok (fst (bucket_try_consume b t))"
  using bucket_level_bounds [of b t]
  by (auto simp: bucket_ok_def try_consume_tokens of_bool_def)

lemma level_at_refill: "tb_last_refill b = t \<Longrightarrow> bucket_ok b \<Longrightarrow> bucket_level b t = tb_tokens b"
  using refill_same_instant [of b] by (simp add: bucket_level_def)

lemma bucket_level_accrues:
  assumes "bucket_ready b t" and "t \<le> u"
  shows "bucket_level b u \<le> bucket_level b t + tb_refill_rate b * secs (u - t)"
proof -
  have "secs (u - tb_last_refill b) = secs (t - tb_last_refill b) + secs (u - t)"
    using assms by (intro secs_diff) (simp_all add: bucket_ready_def)
  moreover have "0 \<le> tb_refill_rate b * secs (u - t)"
    using assms(1) by (simp add: bucket_ready_def bucket_ok_def)
  ultimately show ?thesis
    by (auto simp: bucket_level_def bucket_refill_def Let_def min_def algebra_simps)
qed

interpretation bucket: metered bucket_level "\<lambda>b t. fst (bucket_try_consume b t)"
  "\<lambda>b t. snd (bucket_try_consume b t)" "\<lambda>t. t"
  "\<lambda>b t. bucket_ready b t \<and> tb_refill_rate b = rate" "\<lambda>_. True" rate for rate
proof unfold_locales
  fix b and t e :: nat
  assume b: "bucket_ready b t \<and> tb_refill_rate b = rate" and "t \<le> e"
  show "bucket_ready (fst (bucket_try_consume b e)) e \<and> tb_refill_rate (fst (bucket_try_consume b e)) = rate"
    using b by (simp add: bucket_ready_def try_consume_ok)
  show "bucket_level (fst (bucket_try_consume b e)) e \<le> bucket_level b e - of_bool (snd (bucket_try_consume b e))"
    using b by (simp add: level_at_refill try_consume_ok bucket_ready_def try_consume_tokens(1))
next
  fix b and t u :: nat
  assume "bucket_ready b t \<and> tb_refill_rate b = rate" and "t \<le> u"
  then show "bucket_level b u \<le> bucket_level b t + rate * secs (u - t)"
    using bucket_level_accrues by blast
next
  fix b and t :: nat
  assume "bucket_ready b t \<and> tb_refill_rate b = rate"
  then show "0 \<le> bucket_level b t"
    by (simp add: bucket_level_bounds bucket_ready_def)
qed

subsection \<open>The limiter\<close>

record bucket_config =
  bc_max_tokens :: real
  bc_refill_rate :: real

definition bucket_config_new :: "real \<Rightarrow> real \<Rightarrow> bucket_config" where
  "bucket_config_new mx rate = \<lparr>bc_max_tokens = mx, bc_refill_rate = rate\<rparr>"

definition from_window :: "nat \<Rightarrow> nat \<Rightarrow> bucket_config" where
  "from_window tok window_secs =
     \<lparr>bc_max_tokens = real tok, bc_refill_rate = real tok / real window_secs\<rparr>"

datatype rate_limit_decision = Allowed | ProtocolLimited | GlobalLimited

definition is_allowed :: "rate_limit_decision \<Rightarrow> bool" where
  "is_allowed d \<longleftrightarrow> d = Allowed"

record 'p peer_rate_limiter =
  rl_protocol_buckets :: "'p \<times> string \<Rightarrow> token_bucket option"
  rl_global_buckets :: "'p \<Rightarrow> token_bucket option"
  rl_configs :: "string \<Rightarrow> bucket_config option"
  rl_global_config :: bucket_config
  rl_peer_protocols :: "'p \<Rightarrow> string list option"

definition default_configs :: "string \<Rightarrow> bucket_config option" where
  "default_configs =
     [''direct_messages'' \<mapsto> from_window 60 60,
      ''typing_indicators'' \<mapsto> from_window 20 60,
      ''signaling'' \<mapsto> from_window 30 60,
      ''identity'' \<mapsto> from_window 10 60,
      ''offline_messages'' \<mapsto> from_window 3 60,
      ''rename'' \<mapsto> from_window 2 60,
      ''group_sync'' \<mapsto> from_window 10 60]"

definition rl_new :: "'p peer_rate_limiter" where
  "rl_new =
     \<lparr>rl_protocol_buckets = Map.empty, rl_global_buckets = Map.empty,
      rl_configs = default_configs, rl_global_config = from_window 500 60,
      rl_peer_protocols = Map.empty\<rparr>"

definition rl_with_global_config :: "bucket_config \<Rightarrow> 'p peer_rate_limiter" where
  "rl_with_global_config c = rl_new\<lparr>rl_global_config := c\<rparr>"

definition rl_set_protocol_config ::
  "'p peer_rate_limiter \<Rightarrow> string \<Rightarrow> bucket_config \<Rightarrow> 'p peer_rate_limiter" where
  "rl_set_protocol_config l proto c = l\<lparr>rl_configs := (rl_configs l)(proto \<mapsto> c)\<rparr>"

text \<open>
  \<open>check\<close>, in its two halves. \<open>rl_entry_protocol\<close> is the entry of the (peer, protocol)
  bucket with its \<open>or_insert_with\<close> closure, and \<open>rl_entry_global\<close> that of the peer's global
  bucket; \<open>rl_check\<close> puts the protocol token back when the global bucket refuses.
\<close>

definition config_bucket :: "bucket_config \<Rightarrow> nat \<Rightarrow> token_bucket" where
  "config_bucket c now = bucket_new (bc_max_tokens c) (bc_refill_rate c) now"

definition rl_entry_protocol ::
  "'p peer_rate_limiter \<Rightarrow> 'p \<Rightarrow> string \<Rightarrow> bucket_config \<Rightarrow> nat \<Rightarrow> 'p peer_rate_limiter \<times> token_bucket" where
  "rl_entry_protocol l p proto c now =
     (case rl_protocol_buckets l (p, proto) of
        Some b \<Rightarrow> (l, b)
      | None \<Rightarrow>
          (let b = config_bucket c now;
               used = (case rl_peer_protocols l p of None \<Rightarrow> [] | Some ps \<Rightarrow> ps)
           in (l\<lparr>rl_peer_protocols := (rl_peer_protocols l)(p \<mapsto> used @ [proto]),
                 rl_protocol_buckets := (rl_protocol_buckets l)((p, proto) \<mapsto> b)\<rparr>, b)))"

definition rl_entry_global :: "'p peer_rate_limiter \<Rightarrow> 'p \<Rightarrow> nat \<Rightarrow> token_bucket" where
  "rl_entry_global l p now =
     (case rl_global_buckets l p of Some b \<Rightarrow> b | None \<Rightarrow> config_bucket (rl_global_config l) now)"

definition bucket_refund :: "token_bucket \<Rightarrow> token_bucket" where
  "bucket_refund b = b\<lparr>tb_tokens := min (tb_tokens b + 1) (tb_max_tokens b)\<rparr>"

definition rl_check ::
  "'p peer_rate_limiter \<Rightarrow> 'p \<Rightarrow> string \<Rightarrow> nat \<Rightarrow> nat \<Rightarrow> 'p peer_rate_limiter \<times> rate_limit_decision" where
  "rl_check l p proto now1 now2 =
     (case rl_configs l proto of
        None \<Rightarrow> (l, Allowed)
      | Some c \<Rightarrow>
          (let (l1, b) = rl_entry_protocol l p proto c now1;
               (b1, ok1) = bucket_try_consume b now1;
               l2 = l1\<lparr>rl_protocol_buckets := (rl_protocol_buckets l1)((p, proto) \<mapsto> b1)\<rparr>
           in if \<not> ok1 then (l2, ProtocolLimited)
              else
                let (g1, ok2) = bucket_try_consume (rl_entry_global l2 p now2) now2;
                    l3 = l2\<lparr>rl_global_buckets := (rl_global_buckets l2)(p \<mapsto> g1)\<rparr>
                in if \<not> ok2
                   then (l3\<lparr>rl_protocol_buckets :=
                            (rl_protocol_buckets l3)((p, proto) \<mapsto> bucket_refund b1)\<rparr>, GlobalLimited)
                   else (l3, Allowed)))"

fun remove_buckets :: "('p \<times> string \<Rightarrow> token_bucket option) \<Rightarrow> 'p \<Rightarrow> string list \<Rightarrow>
  ('p \<times> string \<Rightarrow> token_bucket option)" where
  "remove_buckets m p [] = m"
| "remove_buckets m p (proto # ps) = remove_buckets (m((p, proto) := None)) p ps"

definition rl_remove_peer :: "'p peer_rate_limiter \<Rightarrow> 'p \<Rightarrow> 'p peer_rate_limiter" where
  "rl_remove_peer l p =
     (let l1 = l\<lparr>rl_global_buckets := (rl_global_buckets l)(p := None)\<rparr>
      in case rl_peer_protocols l1 p of
           None \<Rightarrow> l1
         | Some protos \<Rightarrow>
             l1\<lparr>rl_peer_protocols := (rl_peer_protocols l1)(p := None),
                rl_protocol_buckets := remove_buckets (rl_protocol_buckets l1) p protos\<rparr>)"

definition rl_tracked_peer_count :: "'p peer_rate_limiter \<Rightarrow> nat" where
  "rl_tracked_peer_count l = card (dom (rl_global_buckets l))"

subsection \<open>The effect of a check\<close>

definition current_bucket :: "'p peer_rate_limiter \<Rightarrow> 'p \<Rightarrow> string \<Rightarrow> bucket_config \<Rightarrow> nat \<Rightarrow> token_bucket" where
  "current_bucket l p proto c now =
     (case rl_protocol_buckets l (p, proto) of Some b \<Rightarrow> b | None \<Rightarrow> config_bucket c now)"

definition config_ok :: "bucket_config \<Rightarrow> bool" where
  "config_ok c \<longleftrightarrow> 0 \<le> bc_max_tokens c \<and> 0 \<le> bc_refill_rate c"

lemma config_bucket_ready: "config_ok c \<Longrightarrow> bucket_ready (config_bucket c t) t"
  by (simp add: config_ok_def config_bucket_def bucket_new_ok)

lemma config_bucket_ok: "config_ok c \<Longrightarrow> bucket_ok (config_bucket c t)"
  using config_bucket_ready by (simp add: bucket_ready_def)

lemma config_bucket_fields [simp]:
  "tb_max_tokens (config_bucket c t) = bc_max_tokens c"
  "tb_refill_rate (config_bucket c t) = bc_refill_rate c"
  "tb_last_refill (config_bucket c t) = t"
  "bucket_level (config_bucket c t) t = bc_max_tokens c"
  by (simp_all add: config_bucket_def bucket_new_def bucket_level_def bucket_refill_def)

lemma rl_check_unknown: "rl_configs l proto = None \<Longrightarrow> rl_check l p proto t u = (l, Allowed)"
  by (simp add: rl_check_def)

lemma rl_entry_protocol_eq:
  "snd (rl_entry_protocol l p proto c t) = current_bucket l p proto c t"
  "rl_global_buckets (fst (rl_entry_protocol l p proto c t)) = rl_global_buckets l"
  "rl_configs (fst (rl_entry_protocol l p proto c t)) = rl_configs l"
  "rl_global_config (fst (rl_entry_protocol l p proto c t)) = rl_global_config l"
  "(rl_protocol_buckets (fst (rl_entry_protocol l p proto c t)))((p, proto) \<mapsto> b)
     = (rl_protocol_buckets l)((p, proto) \<mapsto> b)"
  by (simp_all add: rl_entry_protocol_def current_bucket_def Let_def split: option.splits)

lemma rl_entry_global_frame [simp]:
  "rl_entry_global (l\<lparr>rl_protocol_buckets := m\<rparr>) q u = rl_entry_global l q u"
  "rl_entry_global (fst (rl_entry_protocol l p proto c t)) q u = rl_entry_global l q u"
  by (simp_all add: rl_entry_global_def rl_entry_protocol_def Let_def split: option.splits)

lemma rl_check_decision:
  assumes "rl_configs l proto = Some c"
  shows "snd (rl_check l p proto t u) =
    (if bucket_level (current_bucket l p proto c t) t < 1 then ProtocolLimited
     else if bucket_level (rl_entry_global l p u) u < 1 then GlobalLimited else Allowed)"
  using assms
  by (simp add: rl_check_def rl_entry_protocol_eq try_consume_tokens(2) Let_def split_beta)

lemma rl_check_protocol_buckets:
  assumes "rl_configs l proto = Some c"
  shows "rl_protocol_buckets (fst (rl_check l p proto t u)) = (rl_protocol_buckets l)((p, proto) \<mapsto>
    (let b = fst (bucket_try_consume (current_bucket l p proto c t) t)
     in if snd (rl_check l p proto t u) = GlobalLimited then bucket_refund b else b))"
  using assms by (simp add: rl_check_def rl_entry_protocol_eq Let_def split_beta)

lemma rl_check_global_buckets:
  assumes "rl_configs l proto = Some c"
  shows "rl_global_buckets (fst (rl_check l p proto t u)) =
    (if snd (rl_check l p proto t u) = ProtocolLimited then rl_global_buckets l
     else (rl_global_buckets l)(p \<mapsto> fst (bucket_try_consume (rl_entry_global l p u) u)))"
  using assms by (simp add: rl_check_def rl_entry_protocol_eq Let_def split_beta)

lemma rl_check_configs [simp]:
  "rl_configs (fst (rl_check l p proto t u)) = rl_configs l"
  "rl_global_config (fst (rl_check l p proto t u)) = rl_global_config l"
  by (simp_all add: rl_check_def rl_entry_protocol_eq Let_def split_beta split: option.splits)

lemma rl_check_peer_protocols:
  assumes "rl_configs l proto = Some c"
  shows "rl_peer_protocols (fst (rl_check l p proto t u)) =
    (if rl_protocol_buckets l (p, proto) = None
     then (rl_peer_protocols l)(p \<mapsto> (case rl_peer_protocols l p of None \<Rightarrow> [] | Some ps \<Rightarrow> ps) @ [proto])
     else rl_peer_protocols l)"
  using assms by (auto simp: rl_check_def rl_entry_protocol_def Let_def split_beta split: option.splits)

lemma refund_restores:
  assumes "bucket_ok b" and "1 \<le> bucket_level b t"
  shows "bucket_refund (fst (bucket_try_consume b t)) = bucket_refill b t"
  using assms bucket_level_bounds(2) [OF assms(1), of t]
  by (simp add: bucket_refund_def bucket_try_consume_def Let_def bucket_level_def)

lemma refund_fields [simp]:
  "tb_max_tokens (bucket_refund b) = tb_max_tokens b"
  "tb_refill_rate (bucket_refund b) = tb_refill_rate b"
  "tb_last_refill (bucket_refund b) = tb_last_refill b"
  by (simp_all add: bucket_refund_def)

text \<open>A denied request leaves the protocol bucket refilled and otherwise as it was.\<close>

lemma rl_check_denied_bucket:
  assumes "rl_configs l proto = Some c" and "bucket_ok (current_bucket l p proto c t)"
    and "snd (rl_check l p proto t u) \<noteq> Allowed"
  shows "rl_protocol_buckets (fst (rl_check l p proto t u)) (p, proto)
    = Some (bucket_refill (current_bucket l p proto c t) t)"
proof (cases "snd (rl_check l p proto t u)")
  case ProtocolLimited
  then show ?thesis
    using assms(1) rl_check_decision [OF assms(1), of p t u]
    by (auto simp: rl_check_protocol_buckets bucket_try_consume_def bucket_level_def Let_def split: if_splits)
next
  case GlobalLimited
  then have "1 \<le> bucket_level (current_bucket l p proto c t) t"
    using rl_check_decision [OF assms(1), of p t u] by (auto split: if_splits)
  with GlobalLimited show ?thesis
    using assms(1,2) by (simp add: rl_check_protocol_buckets Let_def refund_restores)
qed (use assms in simp)

lemma rl_check_allowed_bucket:
  assumes "rl_configs l proto = Some c" and "snd (rl_check l p proto t u) = Allowed"
  shows "rl_protocol_buckets (fst (rl_check l p proto t u)) (p, proto)
      = Some (fst (bucket_try_consume (current_bucket l p proto c t) t))"
    and "1 \<le> bucket_level (current_bucket l p proto c t) t"
    and "1 \<le> bucket_level (rl_entry_global l p u) u"
  using assms rl_check_decision [OF assms(1), of p t u]
  by (auto simp: rl_check_protocol_buckets Let_def split: if_splits)

lemma remove_buckets_eq:
  "remove_buckets m p ps = (\<lambda>(q, proto). if q = p \<and> proto \<in> set ps then None else m (q, proto))"
  by (induction ps arbitrary: m) (auto simp: fun_eq_iff)

lemma rl_remove_peer_fields:
  "rl_global_buckets (rl_remove_peer l p) = (rl_global_buckets l)(p := None)"
  "rl_configs (rl_remove_peer l p) = rl_configs l"
  "rl_global_config (rl_remove_peer l p) = rl_global_config l"
  "rl_peer_protocols (rl_remove_peer l p) = (rl_peer_protocols l)(p := None)"
  "q \<noteq> p \<Longrightarrow> rl_protocol_buckets (rl_remove_peer l p) (q, proto) = rl_protocol_buckets l (q, proto)"
  by (auto simp: rl_remove_peer_def Let_def remove_buckets_eq split: option.splits)

subsection \<open>Runs\<close>

datatype 'p rl_event = RlCheck 'p string nat nat | RlRemove 'p nat

fun rl_step :: "'p peer_rate_limiter \<Rightarrow> 'p rl_event \<Rightarrow> 'p peer_rate_limiter" where
  "rl_step l (RlCheck p proto t u) = fst (rl_check l p proto t u)"
| "rl_step l (RlRemove p t) = rl_remove_peer l p"

text \<open>The instants at which an event reads the clock for the protocol and the global bucket.\<close>

fun rl_time1 :: "'p rl_event \<Rightarrow> nat" where
  "rl_time1 (RlCheck p proto t u) = t"
| "rl_time1 (RlRemove p t) = t"

fun rl_time2 :: "'p rl_event \<Rightarrow> nat" where
  "rl_time2 (RlCheck p proto t u) = u"
| "rl_time2 (RlRemove p t) = t"

fun rl_removes :: "'p \<Rightarrow> 'p rl_event \<Rightarrow> bool" where
  "rl_removes p (RlCheck q proto t u) = False"
| "rl_removes p (RlRemove q t) = (q = p)"

definition rl_keeps :: "'p \<Rightarrow> 'p rl_event \<Rightarrow> bool" where
  "rl_keeps p e \<longleftrightarrow> \<not> rl_removes p e"

fun rl_granted :: "'p \<Rightarrow> string \<Rightarrow> 'p peer_rate_limiter \<Rightarrow> 'p rl_event \<Rightarrow> bool" where
  "rl_granted p proto l (RlCheck q pr t u) = (q = p \<and> pr = proto \<and> is_allowed (snd (rl_check l q pr t u)))"
| "rl_granted p proto l (RlRemove q t) = False"

fun rl_granted_any :: "'p \<Rightarrow> 'p peer_rate_limiter \<Rightarrow> 'p rl_event \<Rightarrow> bool" where
  "rl_granted_any p l (RlCheck q pr t u) =
     (q = p \<and> rl_configs l pr \<noteq> None \<and> is_allowed (snd (rl_check l q pr t u)))"
| "rl_granted_any p l (RlRemove q t) = False"

definition proto_level :: "'p \<Rightarrow> string \<Rightarrow> bucket_config \<Rightarrow> 'p peer_rate_limiter \<Rightarrow> nat \<Rightarrow> real" where
  "proto_level p proto c l t = bucket_level (current_bucket l p proto c t) t"

definition proto_ready :: "'p \<Rightarrow> string \<Rightarrow> bucket_config \<Rightarrow> 'p peer_rate_limiter \<Rightarrow> nat \<Rightarrow> bool" where
  "proto_ready p proto c l t \<longleftrightarrow> config_ok c \<and> rl_configs l proto = Some c \<and>
     (case rl_protocol_buckets l (p, proto) of
        None \<Rightarrow> True | Some b \<Rightarrow> bucket_ready b t \<and> tb_refill_rate b = bc_refill_rate c)"

definition global_level :: "'p \<Rightarrow> 'p peer_rate_limiter \<Rightarrow> nat \<Rightarrow> real" where
  "global_level p l t = bucket_level (rl_entry_global l p t) t"

definition global_ready :: "'p \<Rightarrow> bucket_config \<Rightarrow> 'p peer_rate_limiter \<Rightarrow> nat \<Rightarrow> bool" where
  "global_ready p c l t \<longleftrightarrow> config_ok c \<and> rl_global_config l = c \<and>
     (case rl_global_buckets l p of
        None \<Rightarrow> True | Some b \<Rightarrow> bucket_ready b t \<and> tb_refill_rate b = bc_refill_rate c)"

lemma proto_ready_bucket:
  assumes "proto_ready p proto c l t" and "t \<le> u"
  shows "bucket_ready (current_bucket l p proto c u) u"
    and "tb_refill_rate (current_bucket l p proto c u) = bc_refill_rate c"
  using assms by (auto simp: proto_ready_def current_bucket_def config_bucket_ok bucket_ready_def split: option.splits)

lemma global_ready_bucket:
  assumes "global_ready p c l t" and "t \<le> u"
  shows "bucket_ready (rl_entry_global l p u) u"
    and "tb_refill_rate (rl_entry_global l p u) = bc_refill_rate c"
  using assms by (auto simp: global_ready_def rl_entry_global_def config_bucket_ok bucket_ready_def split: option.splits)

lemma bucket_ready_refill: "bucket_ready b t \<Longrightarrow> bucket_ready (bucket_refill b t) t"
  by (simp add: bucket_ready_def refill_ok)

lemma bucket_ready_consume: "bucket_ready b t \<Longrightarrow> bucket_ready (fst (bucket_try_consume b t)) t"
  by (simp add: bucket_ready_def try_consume_ok)

lemma bucket_level_refill: "bucket_ok b \<Longrightarrow> bucket_level (bucket_refill b t) t = bucket_level b t"
  using level_at_refill [of "bucket_refill b t" t] by (simp add: refill_ok bucket_level_def)

lemma bucket_level_consume:
  "bucket_ok b \<Longrightarrow> bucket_level (fst (bucket_try_consume b t)) t
     = bucket_level b t - of_bool (snd (bucket_try_consume b t))"
  by (simp add: level_at_refill try_consume_ok try_consume_tokens(1))

text \<open>What a check of the same (peer, protocol) makes of its bucket and of the credit.\<close>

lemma own_check:
  assumes "proto_ready p proto c l t" and "t \<le> v"
  shows "\<exists>b. rl_protocol_buckets (fst (rl_check l p proto v u)) (p, proto) = Some b \<and>
    bucket_ready b v \<and> tb_refill_rate b = bc_refill_rate c \<and>
    bucket_level b v = proto_level p proto c l v - of_bool (snd (rl_check l p proto v u) = Allowed)"
proof -
  note b = proto_ready_bucket [OF assms]
  have c: "rl_configs l proto = Some c" using assms(1) by (simp add: proto_ready_def)
  have ok: "bucket_ok (current_bucket l p proto c v)" using b(1) by (simp add: bucket_ready_def)
  show ?thesis
  proof (cases "snd (rl_check l p proto v u) = Allowed")
    case True
    note a = rl_check_allowed_bucket [OF c True]
    then have "snd (bucket_try_consume (current_bucket l p proto c v) v)"
      by (simp add: try_consume_tokens)
    with True a b ok show ?thesis
      by (simp add: bucket_level_consume proto_level_def bucket_ready_consume)
  next
    case False
    with rl_check_denied_bucket [OF c ok] b ok show ?thesis
      by (simp add: bucket_level_refill proto_level_def bucket_ready_refill)
  qed
qed

lemma other_check:
  assumes "(q, pr) \<noteq> (p, proto)"
  shows "rl_protocol_buckets (fst (rl_check l q pr t u)) (p, proto) = rl_protocol_buckets l (p, proto)"
  using assms by (cases "rl_configs l pr") (auto simp: rl_check_unknown rl_check_protocol_buckets)

interpretation budget: metered "proto_level p proto c" rl_step "rl_granted p proto" rl_time1
  "proto_ready p proto c" "rl_keeps p" "bc_refill_rate c" for p proto c
proof unfold_locales
  fix l :: "'a peer_rate_limiter" and t e
  assume l: "proto_ready p proto c l t" and te: "t \<le> rl_time1 e" and keep: "rl_keeps p e"
  show "proto_ready p proto c (rl_step l e) (rl_time1 e)"
  proof (cases e)
    case (RlCheck q pr v u)
    show ?thesis
    proof (cases "q = p \<and> pr = proto")
      case True
      with RlCheck te l own_check [of p proto c l t v u] show ?thesis
        by (auto simp: proto_ready_def)
    next
      case False
      with RlCheck te l other_check [of q pr p proto l v u] show ?thesis
        by (auto simp: proto_ready_def bucket_ready_def split: option.splits)
    qed
  next
    case (RlRemove q v)
    with keep te l show ?thesis
      by (auto simp: rl_keeps_def proto_ready_def rl_remove_peer_fields bucket_ready_def split: option.splits)
  qed
  show "proto_level p proto c (rl_step l e) (rl_time1 e)
      \<le> proto_level p proto c l (rl_time1 e) - of_bool (rl_granted p proto l e)"
  proof (cases e)
    case (RlCheck q pr v u)
    show ?thesis
    proof (cases "q = p \<and> pr = proto")
      case True
      with RlCheck te l own_check [of p proto c l t v u] show ?thesis
        by (auto simp: proto_level_def current_bucket_def is_allowed_def)
    next
      case False
      with RlCheck other_check [of q pr p proto l v u] show ?thesis
        by (auto simp: proto_level_def current_bucket_def)
    qed
  next
    case (RlRemove q v)
    with keep show ?thesis
      by (simp add: rl_keeps_def proto_level_def current_bucket_def rl_remove_peer_fields)
  qed
next
  fix l :: "'a peer_rate_limiter" and t u :: nat
  assume l: "proto_ready p proto c l t" and "t \<le> u"
  then show "proto_level p proto c l u \<le> proto_level p proto c l t + bc_refill_rate c * secs (u - t)"
    using bucket_level_accrues [of "current_bucket l p proto c t" t u]
    by (cases "rl_protocol_buckets l (p, proto)")
      (simp_all add: proto_level_def current_bucket_def proto_ready_def config_ok_def)
next
  fix l :: "'a peer_rate_limiter" and t :: nat
  assume "proto_ready p proto c l t"
  then show "0 \<le> proto_level p proto c l t"
    using proto_ready_bucket(1) [of p proto c l t t]
    by (simp add: proto_level_def bucket_level_bounds bucket_ready_def)
qed

lemma own_check_global:
  assumes "global_ready p c l t" and "t \<le> u" and "rl_configs l pr \<noteq> None"
  shows "global_ready p c (fst (rl_check l p pr v u)) u"
    and "global_level p (fst (rl_check l p pr v u)) u
      \<le> global_level p l u - of_bool (snd (rl_check l p pr v u) = Allowed)"
proof -
  note b = global_ready_bucket [OF assms(1,2)]
  obtain c' where c': "rl_configs l pr = Some c'" using assms(3) by auto
  have ok: "bucket_ok (rl_entry_global l p u)" using b(1) by (simp add: bucket_ready_def)
  have gc: "config_ok c" "rl_global_config l = c" using assms(1) by (auto simp: global_ready_def)
  show "global_ready p c (fst (rl_check l p pr v u)) u"
    using assms(1,2) b c'
    by (auto simp: global_ready_def rl_check_global_buckets bucket_ready_consume bucket_ready_def
        try_consume_ok split: option.splits)
  show "global_level p (fst (rl_check l p pr v u)) u
      \<le> global_level p l u - of_bool (snd (rl_check l p pr v u) = Allowed)"
  proof (cases "snd (rl_check l p pr v u) = ProtocolLimited")
    case True
    then show ?thesis
      using rl_check_global_buckets [OF c', of p v u]
      by (simp add: global_level_def rl_entry_global_def split: option.splits)
  next
    case False
    then have "rl_entry_global (fst (rl_check l p pr v u)) p u = fst (bucket_try_consume (rl_entry_global l p u) u)"
      using rl_check_global_buckets [OF c', of p v u] by (simp add: rl_entry_global_def)
    moreover have "snd (bucket_try_consume (rl_entry_global l p u) u) \<longleftrightarrow> snd (rl_check l p pr v u) = Allowed"
      using False rl_check_decision [OF c', of p v u] by (auto simp: try_consume_tokens(2) split: if_splits)
    ultimately show ?thesis
      using ok by (simp add: global_level_def bucket_level_consume)
  qed
qed

lemma other_check_global:
  assumes "q \<noteq> p \<or> rl_configs l pr = None"
  shows "rl_global_buckets (fst (rl_check l q pr t u)) p = rl_global_buckets l p"
  using assms by (cases "rl_configs l pr") (auto simp: rl_check_unknown rl_check_global_buckets)

interpretation global_budget: metered "global_level p" rl_step "rl_granted_any p" rl_time2
  "global_ready p c" "rl_keeps p" "bc_refill_rate c" for p c
proof unfold_locales
  fix l :: "'a peer_rate_limiter" and t e
  assume l: "global_ready p c l t" and te: "t \<le> rl_time2 e" and keep: "rl_keeps p e"
  show "global_ready p c (rl_step l e) (rl_time2 e)"
  proof (cases e)
    case (RlCheck q pr v u)
    show ?thesis
    proof (cases "q = p \<and> rl_configs l pr \<noteq> None")
      case True
      with RlCheck te l own_check_global(1) [of p c l t u pr v] show ?thesis by auto
    next
      case False
      with RlCheck te l other_check_global [of q p l pr v u] show ?thesis
        by (auto simp: global_ready_def bucket_ready_def split: option.splits)
    qed
  next
    case (RlRemove q v)
    with keep te l show ?thesis
      by (auto simp: rl_keeps_def global_ready_def rl_remove_peer_fields bucket_ready_def split: option.splits)
  qed
  show "global_level p (rl_step l e) (rl_time2 e)
      \<le> global_level p l (rl_time2 e) - of_bool (rl_granted_any p l e)"
  proof (cases e)
    case (RlCheck q pr v u)
    show ?thesis
    proof (cases "q = p \<and> rl_configs l pr \<noteq> None")
      case True
      with RlCheck te l own_check_global(2) [of p c l t u pr v] show ?thesis
        by (auto simp: is_allowed_def)
    next
      case False
      with RlCheck other_check_global [of q p l pr v u] show ?thesis
        by (auto simp: global_level_def rl_entry_global_def split: option.splits)
    qed
  next
    case (RlRemove q v)
    with keep show ?thesis
      by (simp add: rl_keeps_def global_level_def rl_entry_global_def rl_remove_peer_fields split: option.splits)
  qed
next
  fix l :: "'a peer_rate_limiter" and t u :: nat
  assume l: "global_ready p c l t" and "t \<le> u"
  then show "global_level p l u \<le> global_level p l t + bc_refill_rate c * secs (u - t)"
    using bucket_level_accrues [of "rl_entry_global l p t" t u]
    by (cases "rl_global_buckets l p")
      (simp_all add: global_level_def rl_entry_global_def global_ready_def config_ok_def)
next
  fix l :: "'a peer_rate_limiter" and t :: nat
  assume "global_ready p c l t"
  then show "0 \<le> global_level p l t"
    using global_ready_bucket(1) [of p c l t t]
    by (simp add: global_level_def bucket_level_bounds bucket_ready_def)
qed

subsection \<open>The index of a peer's protocols\<close>

definition rl_labels :: "'p peer_rate_limiter \<Rightarrow> 'p \<Rightarrow> string list" where
  "rl_labels l p = (case rl_peer_protocols l p of None \<Rightarrow> [] | Some ps \<Rightarrow> ps)"

definition rl_index_ok :: "'p peer_rate_limiter \<Rightarrow> bool" where
  "rl_index_ok l \<longleftrightarrow> (\<forall>p. distinct (rl_labels l p) \<and> set (rl_labels l p) \<subseteq> dom (rl_configs l) \<and>
     (\<forall>proto. rl_protocol_buckets l (p, proto) = None \<longleftrightarrow> proto \<notin> set (rl_labels l p)))"

text \<open>The limiters the program can have: a new one, then checks, removals and overrides.\<close>

inductive rl_reachable :: "'p peer_rate_limiter \<Rightarrow> bool" where
  rl_start: "rl_reachable rl_new"
| rl_custom: "rl_reachable (rl_with_global_config c)"
| rl_event: "rl_reachable l \<Longrightarrow> rl_reachable (rl_step l e)"
| rl_override: "rl_reachable l \<Longrightarrow> rl_reachable (rl_set_protocol_config l proto c)"

lemma rl_index_check:
  assumes "rl_index_ok l"
  shows "rl_index_ok (fst (rl_check l p proto t u))"
proof (cases "rl_configs l proto")
  case None
  with assms show ?thesis by (simp add: rl_check_unknown)
next
  case (Some c)
  have "rl_labels (fst (rl_check l p proto t u)) q =
    (if q = p \<and> rl_protocol_buckets l (p, proto) = None then rl_labels l p @ [proto] else rl_labels l q)" for q
    using Some by (auto simp: rl_labels_def rl_check_peer_protocols)
  moreover have "rl_protocol_buckets l (q, pr) = None \<longleftrightarrow> pr \<notin> set (rl_labels l q)" for q pr
    using assms by (simp add: rl_index_ok_def)
  ultimately show ?thesis
    using assms Some unfolding rl_index_ok_def by (auto simp: rl_check_protocol_buckets)
qed

text \<open>With the index, the buckets that \<open>remove_peer\<close> drops are all buckets of the peer.\<close>

lemma rl_remove_peer_buckets:
  assumes "rl_index_ok l"
  shows "rl_protocol_buckets (rl_remove_peer l p) (q, proto) =
    (if q = p then None else rl_protocol_buckets l (q, proto))"
proof -
  have "rl_protocol_buckets l (p, proto) = None" if "proto \<notin> set (rl_labels l p)"
    using assms that by (simp add: rl_index_ok_def)
  then show ?thesis
    by (auto simp: rl_labels_def rl_remove_peer_def Let_def remove_buckets_eq split: option.splits)
qed

lemma rl_index_remove: "rl_index_ok l \<Longrightarrow> rl_index_ok (rl_remove_peer l p)"
  unfolding rl_index_ok_def [of "rl_remove_peer l p"]
  by (auto simp: rl_remove_peer_buckets rl_remove_peer_fields rl_labels_def rl_index_ok_def split: option.splits)

lemma rl_reachable_index: "rl_reachable l \<Longrightarrow> rl_index_ok l"
proof (induction rule: rl_reachable.induct)
  case (rl_event l e)
  then show ?case by (cases e) (auto intro: rl_index_check rl_index_remove)
next
  case (rl_override l proto c)
  then show ?case by (auto simp: rl_index_ok_def rl_labels_def rl_set_protocol_config_def)
qed (auto simp: rl_index_ok_def rl_labels_def rl_new_def rl_with_global_config_def)

subsection \<open>Properties\<close>

text \<open>C28. The per-protocol limit: however the requests of a peer on a protocol are interleaved
  with other traffic and with the removal of other peers, the number that are allowed
  between two instants is at most the burst of the protocol's configuration plus its
  sustained rate times the time between them.
\<close>

theorem protocol_budget:
  assumes "config_ok c" and "rl_configs l proto = Some c" and "rl_protocol_buckets l (p, proto) = None"
    and "timely rl_time1 t es" and "list_all (rl_keeps p) es"
  shows "real (grants rl_step (rl_granted p proto) l es)
    \<le> bc_max_tokens c + bc_refill_rate c * secs (last_at rl_time1 t es - t)"
proof -
  have "proto_ready p proto c l t" using assms(1-3) by (simp add: proto_ready_def)
  moreover have "proto_level p proto c l t = bc_max_tokens c"
    using assms(3) by (simp add: proto_level_def current_bucket_def)
  ultimately show ?thesis
    using budget.grants_bound [of p proto c l t es] assms(4,5) by simp
qed

lemma from_window_ok: "config_ok (from_window a b)"
  by (simp add: config_ok_def from_window_def)

theorem protocol_budget_witness:
  "real (grants rl_step (rl_granted (7::nat) ''rename'') rl_new
      [RlCheck 7 ''rename'' 0 1, RlCheck 8 ''rename'' 2 3, RlRemove 8 4, RlCheck 7 ''rename'' 30000000000 30000000001])
    \<le> 3"
proof -
  have c: "rl_configs rl_new ''rename'' = Some (from_window 2 60)"
    by (simp add: rl_new_def default_configs_def)
  show ?thesis
    using protocol_budget [OF from_window_ok c, of 7 0 "[RlCheck 7 ''rename'' 0 1, RlCheck 8 ''rename'' 2 3,
        RlRemove 8 4, RlCheck 7 ''rename'' 30000000000 30000000001]"]
    by (simp add: rl_new_def rl_keeps_def from_window_def secs_def)
qed

text \<open>The global limit per peer: over all protocols with a configuration, the requests of a
  peer that are allowed between two instants are at most the global burst plus the global
  rate times the time between them, whatever the mix of protocols.
\<close>

theorem global_budget_bound:
  assumes "config_ok (rl_global_config l)" and "rl_global_buckets l p = None"
    and "timely rl_time2 t es" and "list_all (rl_keeps p) es"
  shows "real (grants rl_step (rl_granted_any p) l es)
    \<le> bc_max_tokens (rl_global_config l) + bc_refill_rate (rl_global_config l) * secs (last_at rl_time2 t es - t)"
proof -
  have "global_ready p (rl_global_config l) l t" using assms(1,2) by (simp add: global_ready_def)
  moreover have "global_level p l t = bc_max_tokens (rl_global_config l)"
    using assms(2) by (simp add: global_level_def rl_entry_global_def)
  ultimately show ?thesis
    using global_budget.grants_bound [of p "rl_global_config l" l t es] assms(3,4) by simp
qed

theorem global_budget_bound_witness:
  "real (grants rl_step (rl_granted_any (7::nat)) (rl_with_global_config (from_window 1 60))
      [RlCheck 7 ''rename'' 0 1, RlCheck 7 ''identity'' 2 3, RlCheck 7 ''signaling'' 4 60000000001]) \<le> 2"
proof -
  let ?l = "rl_with_global_config (from_window 1 60) :: nat peer_rate_limiter"
  have l: "rl_global_config ?l = from_window 1 60" "rl_global_buckets ?l 7 = None"
    by (simp_all add: rl_with_global_config_def rl_new_def)
  let ?es = "[RlCheck (7::nat) ''rename'' 0 1, RlCheck 7 ''identity'' 2 3, RlCheck 7 ''signaling'' 4 60000000001]"
  have es: "timely rl_time2 1 ?es" "list_all (rl_keeps 7) ?es" "last_at rl_time2 1 ?es - 1 = 60000000000"
    by (simp_all add: rl_keeps_def)
  have two: "bc_max_tokens (from_window 1 60) + bc_refill_rate (from_window 1 60) * secs 60000000000 = 2"
    by (simp add: from_window_def secs_def)
  show ?thesis
    using global_budget_bound [of ?l 7 1 ?es] es(1,2) unfolding l es(3) two by (simp only: l from_window_ok)
qed

text \<open>A denied request is free: when the protocol bucket or the global bucket refuses, the
  credit left in both is exactly what it was, so the token taken from the protocol bucket
  before the global check is given back.
\<close>

theorem denied_is_free:
  assumes "proto_ready p proto c l t" and "global_ready p g l u"
    and "snd (rl_check l p proto t u) \<noteq> Allowed"
  shows "proto_level p proto c (fst (rl_check l p proto t u)) t = proto_level p proto c l t \<and>
    global_level p (fst (rl_check l p proto t u)) u = global_level p l u"
proof (rule conjI)
  have c: "rl_configs l proto = Some c" using assms(1) by (simp add: proto_ready_def)
  show "proto_level p proto c (fst (rl_check l p proto t u)) t = proto_level p proto c l t"
    using own_check [OF assms(1) order_refl, of u] assms(3)
    by (auto simp: proto_level_def current_bucket_def)
  have ok: "bucket_ok (rl_entry_global l p u)"
    using global_ready_bucket(1) [OF assms(2) order_refl] by (simp add: bucket_ready_def)
  show "global_level p (fst (rl_check l p proto t u)) u = global_level p l u"
  proof (cases "snd (rl_check l p proto t u)")
    case ProtocolLimited
    then show ?thesis
      by (simp add: global_level_def rl_entry_global_def rl_check_global_buckets [OF c] split: option.splits)
  next
    case GlobalLimited
    then have "\<not> snd (bucket_try_consume (rl_entry_global l p u) u)"
      using rl_check_decision [OF c, of p t u] by (auto simp: try_consume_tokens(2) split: if_splits)
    moreover have "rl_entry_global (fst (rl_check l p proto t u)) p u
        = fst (bucket_try_consume (rl_entry_global l p u) u)"
      using GlobalLimited by (simp add: rl_entry_global_def [of "fst _"] rl_check_global_buckets [OF c])
    ultimately show ?thesis
      using ok by (simp add: global_level_def bucket_level_consume)
  qed (use assms in simp)
qed

theorem denied_is_free_witness:
  "proto_level (7::nat) ''rename'' (from_window 2 60)
     (fst (rl_check (rl_with_global_config (bucket_config_new 0 0)) 7 ''rename'' 5 6)) 5 = 2"
proof -
  let ?l = "rl_with_global_config (bucket_config_new 0 0) :: nat peer_rate_limiter"
  have r: "proto_ready 7 ''rename'' (from_window 2 60) ?l 5" "global_ready 7 (bucket_config_new 0 0) ?l 6"
    by (simp add: proto_ready_def from_window_ok rl_with_global_config_def rl_new_def default_configs_def)
      (simp add: global_ready_def config_ok_def bucket_config_new_def rl_with_global_config_def rl_new_def)
  have c: "rl_configs ?l ''rename'' = Some (from_window 2 60)" using r by (simp add: proto_ready_def)
  have "snd (rl_check ?l 7 ''rename'' 5 6) \<noteq> Allowed"
    using rl_check_decision [OF c, of 7 5 6]
    by (simp add: rl_entry_global_def rl_with_global_config_def rl_new_def bucket_config_new_def split: if_splits)
  from denied_is_free [OF r this, THEN conjunct1] show ?thesis
    by (simp add: proto_level_def current_bucket_def rl_with_global_config_def rl_new_def from_window_def)
qed

text \<open>Removing a peer forgets it and nobody else: in every limiter the program can reach,
  \<open>remove_peer\<close> leaves no protocol bucket, no global bucket and no index entry of the peer,
  although it only walks the index, and leaves every bucket of every other peer as it was.
\<close>

theorem remove_peer_forgets:
  assumes "rl_reachable l"
  shows "rl_protocol_buckets (rl_remove_peer l p) (p, proto) = None \<and>
    rl_global_buckets (rl_remove_peer l p) p = None \<and> rl_peer_protocols (rl_remove_peer l p) p = None \<and>
    (q \<noteq> p \<longrightarrow> rl_protocol_buckets (rl_remove_peer l p) (q, proto) = rl_protocol_buckets l (q, proto) \<and>
      rl_global_buckets (rl_remove_peer l p) q = rl_global_buckets l q)"
  using rl_remove_peer_buckets [OF rl_reachable_index [OF assms]]
  by (simp add: rl_remove_peer_fields)

theorem remove_peer_forgets_witness:
  "rl_protocol_buckets (rl_remove_peer (rl_step rl_new (RlCheck (7::nat) ''rename'' 0 1)) 7) (7, ''rename'') = None"
  using remove_peer_forgets [OF rl_reachable.rl_event [OF rl_reachable.rl_start, of "RlCheck (7::nat) ''rename'' 0 1"],
      of 7 "''rename''"] by blast

end
