(* ===== verification/Window_Limiter.thy ===== *)
theory Window_Limiter
  imports Metering
begin

section \<open>The HTTP request limiter (\<open>variance-app/src/api/rate_limit.rs\<close>)\<close>

text \<open>
  \<open>LocalRateLimitLayer\<close> and the counter of \<open>LocalRateLimit::call\<close>: a count and the
  start of its window, both \<open>u64\<close>, behind a mutex that every clone shares. The clock is
  seconds since the epoch and may step back; \<open>saturating_sub\<close> is subtraction on \<open>nat\<close>.
  The inner service is not modelled: a request is admitted or answered with 429.
\<close>

record window_state =
  ws_count :: nat
  ws_start :: nat

record window_layer =
  wl_state :: window_state
  wl_max_requests :: nat
  wl_window_secs :: nat

definition window_layer_new :: "nat \<Rightarrow> nat \<Rightarrow> window_layer" where
  "window_layer_new mx win =
     \<lparr>wl_state = \<lparr>ws_count = 0, ws_start = 0\<rparr>, wl_max_requests = mx, wl_window_secs = win\<rparr>"

definition window_call :: "window_layer \<Rightarrow> nat \<Rightarrow> window_layer \<times> bool" where
  "window_call w now =
     (let s = wl_state w
      in if wl_window_secs w \<le> now - ws_start s
         then (w\<lparr>wl_state := \<lparr>ws_count = 1, ws_start = now\<rparr>\<rparr>, True)
         else if ws_count s < wl_max_requests w
         then (w\<lparr>wl_state := s\<lparr>ws_count := ws_count s + 1\<rparr>\<rparr>, True)
         else (w, False))"

definition window_step :: "window_layer \<Rightarrow> nat \<Rightarrow> window_layer" where
  "window_step w now = fst (window_call w now)"

definition window_admits :: "window_layer \<Rightarrow> nat \<Rightarrow> bool" where
  "window_admits w now = snd (window_call w now)"

subsection \<open>Bounds\<close>

lemma window_step_fields [simp]:
  "wl_max_requests (window_step w t) = wl_max_requests w"
  "wl_window_secs (window_step w t) = wl_window_secs w"
  by (simp_all add: window_step_def window_call_def Let_def)

text \<open>Before the window ends, what can still be admitted is what the counter leaves.\<close>

lemma window_open_bound:
  assumes "list_all (\<lambda>t. t - ws_start (wl_state w) < wl_window_secs w) ts"
  shows "grants window_step window_admits w ts \<le> wl_max_requests w - ws_count (wl_state w)"
  using assms
proof (induction ts arbitrary: w)
  case (Cons t ts)
  show ?case
  proof (cases "ws_count (wl_state w) < wl_max_requests w")
    case True
    with Cons.prems have s: "window_step w t = w\<lparr>wl_state := (wl_state w)\<lparr>ws_count := ws_count (wl_state w) + 1\<rparr>\<rparr>"
      by (simp add: window_step_def window_call_def Let_def)
    with Cons.prems have "grants window_step window_admits (window_step w t) ts
        \<le> wl_max_requests w - (ws_count (wl_state w) + 1)"
      using Cons.IH [of "window_step w t"] by simp
    with True show ?thesis by (cases "window_admits w t") auto
  next
    case False
    with Cons.prems have "window_step w t = w" "\<not> window_admits w t"
      by (simp_all add: window_step_def window_admits_def window_call_def Let_def)
    with Cons show ?thesis by simp
  qed
qed simp

text \<open>A run shorter than the window opens at most one new window.\<close>

lemma window_short_run:
  assumes "timely (\<lambda>t. t) a ts" and "list_all (\<lambda>t. t < a + wl_window_secs w) ts"
    and "1 \<le> wl_max_requests w"
  shows "grants window_step window_admits w ts
    \<le> (wl_max_requests w - ws_count (wl_state w)) + wl_max_requests w"
  using assms
proof (induction ts arbitrary: a w)
  case (Cons t ts)
  from Cons.prems have at: "a \<le> t" and ts: "timely (\<lambda>t. t) t ts"
    and short: "list_all (\<lambda>u. u < t + wl_window_secs w) ts"
    by (auto simp: list_all_iff)
  show ?case
  proof (cases "wl_window_secs w \<le> t - ws_start (wl_state w)")
    case True
    then have s: "window_step w t = w\<lparr>wl_state := \<lparr>ws_count = 1, ws_start = t\<rparr>\<rparr>"
      by (simp add: window_step_def window_call_def Let_def)
    have "list_all (\<lambda>u. u - t < wl_window_secs w) ts"
      using short at Cons.prems(2) by (fastforce simp: list_all_iff)
    then have "grants window_step window_admits (window_step w t) ts \<le> wl_max_requests w - 1"
      using window_open_bound [of "window_step w t" ts] by (simp add: s)
    with Cons.prems(3) show ?thesis by (cases "window_admits w t") auto
  next
    case False
    note closed = False
    have IH: "grants window_step window_admits (window_step w t) ts
        \<le> (wl_max_requests w - ws_count (wl_state (window_step w t))) + wl_max_requests w"
      using Cons.IH [of t "window_step w t"] ts short Cons.prems(3) by simp
    show ?thesis
    proof (cases "ws_count (wl_state w) < wl_max_requests w")
      case True
      with closed have "ws_count (wl_state (window_step w t)) = ws_count (wl_state w) + 1"
        by (simp add: window_step_def window_call_def Let_def)
      with IH True show ?thesis by (cases "window_admits w t") auto
    next
      case False
      with closed have "window_step w t = w" "\<not> window_admits w t"
        by (simp_all add: window_step_def window_admits_def window_call_def Let_def)
      with IH show ?thesis by simp
    qed
  qed
qed simp

lemma window_step_denied: "\<not> window_admits w t \<Longrightarrow> window_step w t = w"
  by (simp add: window_admits_def window_step_def window_call_def Let_def split: if_splits)

subsection \<open>Properties\<close>

text \<open>The bound that the counter gives: in any stretch of time shorter than the window, with
  a clock that does not step back, at most twice \<open>max_requests\<close> requests are admitted.
\<close>

theorem window_twice_max:
  assumes "timely (\<lambda>t. t) a ts" and "list_all (\<lambda>t. t < a + wl_window_secs w) ts"
    and "1 \<le> wl_max_requests w"
  shows "grants window_step window_admits w ts \<le> 2 * wl_max_requests w"
  using window_short_run [OF assms] by simp

theorem window_twice_max_witness:
  "grants window_step window_admits (window_layer_new 2 10) [19, 19, 20, 21, 21] \<le> 4"
  using window_twice_max [of 19 "[19, 19, 20, 21, 21]" "window_layer_new 2 10"]
  by (simp add: window_layer_new_def del: grants.simps)

text \<open>
  C0. The window is not a sliding one, as the module's comment calls it: for every limit
  \<open>mx\<close> and every window of at least two seconds there are requests, all within two
  consecutive seconds, of which the limiter admits \<open>2 * mx - 1\<close>.
\<close>

lemma grants_append:
  "grants step granted s (xs @ ys) = grants step granted s xs + grants step granted (foldl step s xs) ys"
  by (induction xs arbitrary: s) simp_all

lemma window_fill:
  assumes "t - ws_start (wl_state w) < wl_window_secs w" and "ws_count (wl_state w) + n \<le> wl_max_requests w"
  shows "grants window_step window_admits w (replicate n t) = n \<and>
    foldl window_step w (replicate n t) = w\<lparr>wl_state := (wl_state w)\<lparr>ws_count := ws_count (wl_state w) + n\<rparr>\<rparr>"
  using assms
proof (induction n arbitrary: w)
  case (Suc n)
  let ?w = "w\<lparr>wl_state := (wl_state w)\<lparr>ws_count := ws_count (wl_state w) + 1\<rparr>\<rparr>"
  have "window_step w t = ?w" "window_admits w t"
    using Suc.prems by (simp_all add: window_step_def window_admits_def window_call_def Let_def)
  with Suc.IH [of ?w] Suc.prems show ?case by simp
qed simp

lemma window_fresh:
  assumes "wl_window_secs w \<le> t - ws_start (wl_state w)" and "1 \<le> wl_max_requests w" and "1 \<le> wl_window_secs w"
  shows "grants window_step window_admits w (replicate (wl_max_requests w) t) = wl_max_requests w"
    and "foldl window_step w (replicate (wl_max_requests w) t)
      = w\<lparr>wl_state := \<lparr>ws_count = wl_max_requests w, ws_start = t\<rparr>\<rparr>"
proof -
  let ?w = "w\<lparr>wl_state := \<lparr>ws_count = 1, ws_start = t\<rparr>\<rparr>"
  obtain n where n: "wl_max_requests w = Suc n" using assms(2) by (cases "wl_max_requests w") auto
  have s: "window_step w t = ?w" "window_admits w t"
    using assms(1) by (simp_all add: window_step_def window_admits_def window_call_def Let_def)
  have f: "grants window_step window_admits ?w (replicate n t) = n \<and>
    foldl window_step ?w (replicate n t) = ?w\<lparr>wl_state := (wl_state ?w)\<lparr>ws_count := ws_count (wl_state ?w) + n\<rparr>\<rparr>"
    using n assms(3) by (intro window_fill) simp_all
  from s f n show "grants window_step window_admits w (replicate (wl_max_requests w) t) = wl_max_requests w"
    and "foldl window_step w (replicate (wl_max_requests w) t)
      = w\<lparr>wl_state := \<lparr>ws_count = wl_max_requests w, ws_start = t\<rparr>\<rparr>"
    by simp_all
qed

text \<open>One request opens a window, the rest come at its end and at the start of the next.\<close>

definition burst_times :: "nat \<Rightarrow> nat \<Rightarrow> nat list" where
  "burst_times mx win = replicate (mx - 1) (2 * win - 1) @ replicate mx (2 * win)"

text \<open>The limiter does admit almost twice its maximum in two consecutive seconds, so it is a
  fixed window and not the sliding window its documentation names: after one request has opened a
  window, a full burst passes in the window's last second and another in the next one.\<close>

theorem window_admits_double_burst:
  assumes "1 \<le> mx" and "2 \<le> win"
  shows "grants window_step window_admits (window_step (window_layer_new mx win) win) (burst_times mx win)
    = 2 * mx - 1"
proof -
  let ?w = "window_step (window_layer_new mx win) win"
  have w: "?w = \<lparr>wl_state = \<lparr>ws_count = 1, ws_start = win\<rparr>, wl_max_requests = mx, wl_window_secs = win\<rparr>"
    by (simp add: window_step_def window_call_def window_layer_new_def)
  have f: "grants window_step window_admits ?w (replicate (mx - 1) (2 * win - 1)) = mx - 1 \<and>
    foldl window_step ?w (replicate (mx - 1) (2 * win - 1))
      = ?w\<lparr>wl_state := (wl_state ?w)\<lparr>ws_count := ws_count (wl_state ?w) + (mx - 1)\<rparr>\<rparr>"
    using assms by (intro window_fill) (simp_all add: w)
  let ?v = "foldl window_step ?w (replicate (mx - 1) (2 * win - 1))"
  have "?v = \<lparr>wl_state = \<lparr>ws_count = mx, ws_start = win\<rparr>, wl_max_requests = mx, wl_window_secs = win\<rparr>"
    using f assms by (simp add: w)
  then have "grants window_step window_admits ?v (replicate mx (2 * win)) = mx"
    using window_fresh(1) [of ?v "2 * win"] assms by simp
  with f assms show ?thesis by (simp add: burst_times_def grants_append)
qed

theorem window_admits_double_burst_witness:
  "grants window_step window_admits (window_step (window_layer_new 100 60) 60) (burst_times 100 60) = 199"
  using window_admits_double_burst [of 100 60] by simp

end
