(* ===== verification/Rust_Text.thy ===== *)
theory Rust_Text
  imports Prelude
begin

section \<open>The string operations of the standard library that the storage keys use\<close>

text \<open>
  \<open>format!("{n}")\<close>, \<open>format!("{t:020}")\<close>, \<open>str::parse\<close> for \<open>u32\<close> and \<open>i64\<close>,
  \<open>rfind\<close>, \<open>rsplit_once\<close>, \<open>strip_prefix\<close>, \<open>strip_suffix\<close> and \<open>hex::encode\<close>,
  as functions on byte strings. The lemmas say that parsing inverts printing and that
  zero-padded numbers of one width compare as the numbers do; both are what the
  storage keys rest on.
\<close>

subsection \<open>Printing numbers\<close>

definition digit_char :: "nat \<Rightarrow> char" where
  "digit_char d = char_of (48 + d)"

fun dec_digits :: "nat \<Rightarrow> string" where
  "dec_digits n = (if n < 10 then [digit_char n] else dec_digits (n div 10) @ [digit_char (n mod 10)])"

declare dec_digits.simps [simp del]

definition zero_pad :: "nat \<Rightarrow> string \<Rightarrow> string" where
  "zero_pad w s = replicate (w - length s) CHR ''0'' @ s"

text \<open>\<open>{x:0w}\<close> on a signed number: the sign counts for the width and stays in front.\<close>

definition fmt_signed :: "nat \<Rightarrow> int \<Rightarrow> string" where
  "fmt_signed w x =
     (if x < 0 then CHR ''-'' # zero_pad (w - 1) (dec_digits (nat (- x)))
      else zero_pad w (dec_digits (nat x)))"

definition fmt020 :: "int \<Rightarrow> string" where
  "fmt020 x = fmt_signed 20 x"

definition fmt04 :: "nat \<Rightarrow> string" where
  "fmt04 n = zero_pad 4 (dec_digits n)"

subsection \<open>Parsing numbers\<close>

definition digit_val :: "char \<Rightarrow> nat option" where
  "digit_val c = (let v = of_char c in if 48 \<le> v \<and> v \<le> 57 then Some (v - 48) else None)"

fun parse_digits :: "nat \<Rightarrow> string \<Rightarrow> nat option" where
  "parse_digits acc [] = Some acc"
| "parse_digits acc (c # cs) =
     (case digit_val c of None \<Rightarrow> None | Some d \<Rightarrow> parse_digits (10 * acc + d) cs)"

definition parse_nat :: "string \<Rightarrow> nat option" where
  "parse_nat s = (if s = [] then None else parse_digits 0 s)"

definition parse_u32 :: "string \<Rightarrow> nat option" where
  "parse_u32 s =
     (case parse_nat (case s of CHR ''+'' # r \<Rightarrow> r | _ \<Rightarrow> s) of
        None \<Rightarrow> None
      | Some n \<Rightarrow> if in_u32 n then Some n else None)"

definition checked_i64 :: "int \<Rightarrow> int option" where
  "checked_i64 x = (if in_i64 x then Some x else None)"

definition parse_i64 :: "string \<Rightarrow> int option" where
  "parse_i64 s =
     (case s of
        CHR ''-'' # r \<Rightarrow> Option.bind (parse_nat r) (\<lambda>n. checked_i64 (- int n))
      | CHR ''+'' # r \<Rightarrow> Option.bind (parse_nat r) (\<lambda>n. checked_i64 (int n))
      | _ \<Rightarrow> Option.bind (parse_nat s) (\<lambda>n. checked_i64 (int n)))"

subsection \<open>Searching and cutting\<close>

fun rfind :: "char \<Rightarrow> string \<Rightarrow> nat option" where
  "rfind c [] = None"
| "rfind c (x # xs) =
     (case rfind c xs of Some i \<Rightarrow> Some (Suc i) | None \<Rightarrow> if x = c then Some 0 else None)"

definition rsplit_once :: "char \<Rightarrow> string \<Rightarrow> (string \<times> string) option" where
  "rsplit_once c s = (case rfind c s of None \<Rightarrow> None | Some i \<Rightarrow> Some (take i s, drop (Suc i) s))"

definition strip_prefix :: "string \<Rightarrow> string \<Rightarrow> string option" where
  "strip_prefix p s = (if prefix p s then Some (drop (length p) s) else None)"

definition strip_suffix :: "string \<Rightarrow> string \<Rightarrow> string option" where
  "strip_suffix p s = (if suffix p s then Some (take (length s - length p) s) else None)"

text \<open>\<open>str::find\<close> with a string pattern: the position of the first occurrence.\<close>

fun find_sub :: "string \<Rightarrow> string \<Rightarrow> nat option" where
  "find_sub p [] = (if p = [] then Some 0 else None)"
| "find_sub p (x # xs) = (if prefix p (x # xs) then Some 0 else map_option Suc (find_sub p xs))"

definition hex_digit :: "nat \<Rightarrow> char" where
  "hex_digit d = (if d < 10 then char_of (48 + d) else char_of (87 + d))"

definition hex_encode :: "bytes \<Rightarrow> string" where
  "hex_encode bs = concat (map (\<lambda>b. [hex_digit (unat b div 16), hex_digit (unat b mod 16)]) bs)"

definition hex_value :: "char \<Rightarrow> nat option" where
  "hex_value c =
     (let n = of_char c in
      if 48 \<le> n \<and> n \<le> 57 then Some (n - 48)
      else if 97 \<le> n \<and> n \<le> 102 then Some (n - 87)
      else if 65 \<le> n \<and> n \<le> 70 then Some (n - 55)
      else None)"

fun hex_decode :: "string \<Rightarrow> bytes option" where
  "hex_decode [] = Some []"
| "hex_decode [c] = None"
| "hex_decode (c # d # cs) =
     (case (hex_value c, hex_value d, hex_decode cs) of
        (Some a, Some b, Some bs) \<Rightarrow> Some (word_of_nat (16 * a + b) # bs)
      | _ \<Rightarrow> None)"

subsection \<open>Digits\<close>

lemma of_char_digit: "d < 10 \<Longrightarrow> of_char (digit_char d) = 48 + d"
  by (simp add: digit_char_def)

lemma digit_val_digit_char [simp]: "d < 10 \<Longrightarrow> digit_val (digit_char d) = Some d"
  by (simp add: digit_val_def of_char_digit)

lemma digit_char_less: "a < b \<Longrightarrow> b < 10 \<Longrightarrow> digit_char a < digit_char b"
  by (simp add: less_char_def of_char_digit)

lemma digit_char_inj: "a < 10 \<Longrightarrow> b < 10 \<Longrightarrow> digit_char a = digit_char b \<longleftrightarrow> a = b"
  using digit_val_digit_char by (metis option.inject)

lemma digit_char_0: "digit_char 0 = CHR ''0''"
proof -
  have "of_char (CHR ''0'') = (48::nat)" by simp
  then show ?thesis by (metis add_0_right char_of_char digit_char_def)
qed

definition is_digit :: "char \<Rightarrow> bool" where
  "is_digit c \<longleftrightarrow> digit_val c \<noteq> None"

lemma is_digit_char [simp]: "d < 10 \<Longrightarrow> is_digit (digit_char d)"
  by (simp add: is_digit_def)

lemma not_digit_chars [simp]:
  "\<not> is_digit CHR '':''" "\<not> is_digit CHR ''-''" "\<not> is_digit CHR ''+''" "\<not> is_digit CHR ''#''"
  "is_digit CHR ''0''"
  by (simp_all add: is_digit_def digit_val_def)

lemma dec_digits_is_digit: "\<forall>c \<in> set (dec_digits n). is_digit c"
proof (induction n rule: dec_digits.induct)
  case (1 n)
  then show ?case
    by (subst dec_digits.simps) (auto simp: ball_Un)
qed

lemma dec_digits_nonempty [simp]: "dec_digits n \<noteq> []"
  by (subst dec_digits.simps) simp

lemma parse_digits_append:
  "parse_digits a (s @ t) = (case parse_digits a s of None \<Rightarrow> None | Some b \<Rightarrow> parse_digits b t)"
  by (induction s arbitrary: a) (auto split: option.splits)

lemma parse_digits_dec: "parse_digits 0 (dec_digits n) = Some n"
proof (induction n rule: dec_digits.induct)
  case (1 n)
  show ?case
  proof (cases "n < 10")
    case True
    then show ?thesis by (subst dec_digits.simps) simp
  next
    case False
    with 1 have "parse_digits 0 (dec_digits (n div 10)) = Some (n div 10)" by simp
    with False show ?thesis
      by (subst dec_digits.simps) (simp add: parse_digits_append)
  qed
qed

lemma parse_digits_zeros: "parse_digits 0 (replicate k CHR ''0'' @ s) = parse_digits 0 s"
  by (induction k) (simp_all add: digit_val_def)

lemma parse_nat_dec [simp]: "parse_nat (dec_digits n) = Some n"
  by (simp add: parse_nat_def parse_digits_dec)

lemma parse_nat_pad [simp]: "parse_nat (zero_pad w (dec_digits n)) = Some n"
  by (simp add: parse_nat_def zero_pad_def parse_digits_zeros parse_digits_dec)

lemma zero_pad_nonempty [simp]: "zero_pad w (dec_digits n) \<noteq> []"
  by (simp add: zero_pad_def)

lemma zero_pad_is_digit: "c \<in> set (zero_pad w (dec_digits n)) \<Longrightarrow> is_digit c"
  using dec_digits_is_digit [of n] by (auto simp: zero_pad_def split: if_splits)

lemma parse_unsigned_cases:
  assumes "s \<noteq> []" and "is_digit (hd s)"
  shows "parse_u32 s = (case parse_nat s of None \<Rightarrow> None | Some n \<Rightarrow> if in_u32 n then Some n else None)"
    and "parse_i64 s = Option.bind (parse_nat s) (\<lambda>n. checked_i64 (int n))"
proof -
  obtain c r where s: "s = c # r" using assms(1) by (cases s) auto
  with assms(2) have "c \<noteq> CHR ''+''" "c \<noteq> CHR ''-''" by auto
  then show "parse_u32 s = (case parse_nat s of None \<Rightarrow> None | Some n \<Rightarrow> if in_u32 n then Some n else None)"
    and "parse_i64 s = Option.bind (parse_nat s) (\<lambda>n. checked_i64 (int n))"
    unfolding s parse_u32_def parse_i64_def
    by (auto split: char.splits bool.splits)
qed

lemma hd_pad_is_digit [simp]: "is_digit (hd (zero_pad w (dec_digits n)))"
  by (rule zero_pad_is_digit, rule hd_in_set) simp

lemma hd_dec_is_digit [simp]: "is_digit (hd (dec_digits n))"
  using dec_digits_is_digit [of n] hd_in_set [OF dec_digits_nonempty] by blast

lemma parse_u32_dec [simp, key_simps]: "in_u32 n \<Longrightarrow> parse_u32 (dec_digits n) = Some n"
  by (simp add: parse_unsigned_cases)

lemma parse_u32_fmt04 [simp, key_simps]: "in_u32 n \<Longrightarrow> parse_u32 (fmt04 n) = Some n"
  by (simp add: parse_unsigned_cases fmt04_def)

lemma parse_i64_neg: "parse_i64 (CHR ''-'' # r) = Option.bind (parse_nat r) (\<lambda>n. checked_i64 (- int n))"
  by (simp add: parse_i64_def)

lemma parse_i64_fmt020 [simp, key_simps]:
  assumes "in_i64 x" shows "parse_i64 (fmt020 x) = Some x"
proof (cases "x < 0")
  case True
  then have "parse_i64 (fmt020 x) = Option.bind (Some (nat (- x))) (\<lambda>n. checked_i64 (- int n))"
    by (simp add: fmt020_def fmt_signed_def parse_i64_neg)
  with True assms show ?thesis by (simp add: checked_i64_def)
next
  case False
  then show ?thesis
    using assms by (simp add: fmt020_def fmt_signed_def parse_unsigned_cases checked_i64_def)
qed

lemma fmt020_chars: "c \<in> set (fmt020 x) \<Longrightarrow> is_digit c \<or> c = CHR ''-''"
  by (auto simp: fmt020_def fmt_signed_def split: if_splits dest: zero_pad_is_digit)

lemma colon_not_in_fmt020 [simp]: "CHR '':'' \<notin> set (fmt020 x)"
  using fmt020_chars [of "CHR '':''" x] by auto

lemma hash_not_in_digits [simp]: "CHR ''#'' \<notin> set (dec_digits n)" "CHR ''#'' \<notin> set (fmt04 n)"
  using dec_digits_is_digit [of n] zero_pad_is_digit [of "CHR ''#''" 4 n] by (auto simp: fmt04_def)

subsection \<open>Zero-padded numbers compare as numbers\<close>

text \<open>\<open>digits w n\<close>: the last \<open>w\<close> decimal digits of \<open>n\<close>, most significant first.\<close>

fun digits :: "nat \<Rightarrow> nat \<Rightarrow> string" where
  "digits 0 n = []"
| "digits (Suc w) n = digits w (n div 10) @ [digit_char (n mod 10)]"

lemma length_digits [simp]: "length (digits w n) = w"
  by (induction w n rule: digits.induct) auto

lemma digits_0: "digits w 0 = replicate w CHR ''0''"
  by (induction w) (simp_all add: digit_char_0 replicate_append_same)

lemma zero_pad_digits: "0 < w \<Longrightarrow> n < 10 ^ w \<Longrightarrow> zero_pad w (dec_digits n) = digits w n"
proof (induction w arbitrary: n)
  case 0
  then show ?case by simp
next
  case (Suc w)
  show ?case
  proof (cases "n < 10")
    case True
    then show ?thesis
      by (simp add: zero_pad_def dec_digits.simps [of n] digits_0)
  next
    case False
    with Suc.prems have w: "0 < w" by (cases w) auto
    have "n div 10 < 10 ^ w" using Suc.prems by simp
    with w have "zero_pad w (dec_digits (n div 10)) = digits w (n div 10)"
      by (rule Suc.IH)
    moreover have "zero_pad (Suc w) (dec_digits n)
      = zero_pad w (dec_digits (n div 10)) @ [digit_char (n mod 10)]"
      using False by (simp add: zero_pad_def dec_digits.simps [of n])
    ultimately show ?thesis by simp
  qed
qed

lemma list_less_append_same_length:
  fixes xs ys us vs :: "'a::linorder list"
  assumes "length xs = length ys" and "xs < ys"
  shows "xs @ us < ys @ vs"
  using assms by (induction xs ys rule: list_induct2) auto

lemma list_less_same_prefix [simp]: "(xs :: 'a::linorder list) @ us < xs @ vs \<longleftrightarrow> us < vs"
  by (induction xs) auto

lemma digits_less: "a < b \<Longrightarrow> b < 10 ^ w \<Longrightarrow> digits w a < digits w b"
proof (induction w arbitrary: a b)
  case 0
  then show ?case by simp
next
  case (Suc w)
  have "b div 10 < 10 ^ w" using Suc.prems(2) by simp
  consider "a div 10 < b div 10" | "a div 10 = b div 10" "a mod 10 < b mod 10"
    using Suc.prems(1) by (metis div_le_mono div_mult_mod_eq le_neq_implies_less less_imp_le_nat
        nat_add_left_cancel_less)
  then show ?case
  proof cases
    case 1
    then have "digits w (a div 10) < digits w (b div 10)"
      using Suc.IH \<open>b div 10 < 10 ^ w\<close> by blast
    then show ?thesis by (simp add: list_less_append_same_length)
  next
    case 2
    then show ?thesis by (simp add: digit_char_less)
  qed
qed

text \<open>The timestamps the keys hold: not negative, in the \<open>i64\<close> range.\<close>

definition stamp_ok :: "int \<Rightarrow> bool" where
  "stamp_ok t \<longleftrightarrow> 0 \<le> t \<and> in_i64 t"

lemma stamp_ok_i64 [simp]: "stamp_ok t \<Longrightarrow> in_i64 t"
  by (simp add: stamp_ok_def)

lemma fmt020_digits:
  assumes "stamp_ok t" shows "fmt020 t = digits 20 (nat t)" and "nat t < 10 ^ 20"
proof -
  show lt: "nat t < 10 ^ 20"
    using assms by (simp add: stamp_ok_def in_i64_def i64_max_def nat_less_iff)
  then show "fmt020 t = digits 20 (nat t)"
    using assms by (simp add: fmt020_def fmt_signed_def stamp_ok_def zero_pad_digits)
qed

lemma length_fmt020 [simp]: "stamp_ok t \<Longrightarrow> length (fmt020 t) = 20"
  by (simp add: fmt020_digits)

lemma fmt020_less:
  assumes "stamp_ok a" and "stamp_ok b" and "a < b"
  shows "fmt020 a < fmt020 b"
proof -
  have "nat a < nat b" using assms by (simp add: stamp_ok_def)
  then have "digits 20 (nat a) < digits 20 (nat b)"
    using fmt020_digits(2) [OF assms(2)] by (rule digits_less)
  then show ?thesis using assms by (simp add: fmt020_digits)
qed

lemma fmt020_less_iff:
  assumes "stamp_ok a" and "stamp_ok b"
  shows "fmt020 a < fmt020 b \<longleftrightarrow> a < b"
  using assms fmt020_less by (metis less_asym linorder_cases)

lemma fmt020_inj [simp]: "stamp_ok a \<Longrightarrow> stamp_ok b \<Longrightarrow> fmt020 a = fmt020 b \<longleftrightarrow> a = b"
  using fmt020_less by (metis less_irrefl linorder_cases)

lemma dec_digits_inj [simp]: "dec_digits a = dec_digits b \<longleftrightarrow> a = b"
  by (metis parse_nat_dec option.inject)

subsection \<open>Cutting at the last separator\<close>

lemma rfind_None [simp]: "rfind c s = None \<longleftrightarrow> c \<notin> set s"
  by (induction s) (auto split: option.splits)

lemma rfind_append [key_simps]: "c \<notin> set t \<Longrightarrow> rfind c (s @ c # t) = Some (length s)"
proof (induction s)
  case Nil
  then have "rfind c t = None" by simp
  then show ?case by (simp del: rfind_None)
qed simp

lemma rfind_Some: "rfind c s = Some i \<Longrightarrow> s = take i s @ c # drop (Suc i) s \<and> c \<notin> set (drop (Suc i) s)"
proof (induction s arbitrary: i)
  case (Cons x s)
  show ?case
  proof (cases "rfind c s")
    case None
    with Cons.prems show ?thesis by (auto split: if_splits)
  next
    case (Some j)
    with Cons show ?thesis by fastforce
  qed
qed simp

lemma rsplit_once_append [simp, key_simps]:
  "c \<notin> set t \<Longrightarrow> rsplit_once c (s @ c # t) = Some (s, t)"
  by (simp add: rsplit_once_def rfind_append)

lemma rsplit_once_Some: "rsplit_once c s = Some (a, b) \<Longrightarrow> s = a @ c # b \<and> c \<notin> set b"
  using rfind_Some by (fastforce simp: rsplit_once_def split: option.splits)

lemma rsplit_once_iff: "rsplit_once c s = Some (a, b) \<longleftrightarrow> s = a @ c # b \<and> c \<notin> set b"
  using rsplit_once_Some rsplit_once_append by blast

lemma split_at_last:
  fixes a b :: string
  assumes "a @ c # b = a' @ c # b'" and "c \<notin> set b" and "c \<notin> set b'"
  shows "a = a' \<and> b = b'"
proof -
  have 1: "rsplit_once c (a @ c # b) = Some (a, b)" using assms(2) by (rule rsplit_once_append)
  have 2: "rsplit_once c (a' @ c # b') = Some (a', b')" using assms(3) by (rule rsplit_once_append)
  from 1 2 have "Some (a, b) = Some (a', b')" by (simp only: assms(1))
  then show ?thesis by simp
qed

lemma strip_prefix_append [simp, key_simps]: "strip_prefix p (p @ s) = Some s"
  by (simp add: strip_prefix_def)

lemma strip_prefix_Some: "strip_prefix p s = Some r \<longleftrightarrow> s = p @ r"
  by (auto simp: strip_prefix_def prefix_def)

lemma strip_prefix_None: "strip_prefix p s = None \<longleftrightarrow> \<not> prefix p s"
  by (simp add: strip_prefix_def)

lemma strip_suffix_append [simp, key_simps]: "strip_suffix p (s @ p) = Some s"
  by (simp add: strip_suffix_def suffix_def)

lemma strip_suffix_Some: "strip_suffix p s = Some r \<longleftrightarrow> s = r @ p"
  by (auto simp: strip_suffix_def suffix_def)

subsection \<open>Hexadecimal\<close>

lemma hex_digit_inj: "a < 16 \<Longrightarrow> b < 16 \<Longrightarrow> hex_digit a = hex_digit b \<longleftrightarrow> a = b"
proof -
  assume ab: "a < 16" "b < 16"
  have "of_char (hex_digit d) = (if d < 10 then 48 + d else 87 + d)" if "d < 16" for d
    using that by (simp add: hex_digit_def)
  with ab have "hex_digit a = hex_digit b \<Longrightarrow> (if a < 10 then 48 + a else 87 + a) = (if b < 10 then 48 + b else 87 + b)"
    by metis
  then show ?thesis by (auto split: if_splits)
qed

lemma hex_encode_Nil [simp]: "hex_encode [] = []"
  by (simp add: hex_encode_def)

lemma hex_encode_Cons: "hex_encode (b # bs) = hex_digit (unat b div 16) # hex_digit (unat b mod 16) # hex_encode bs"
  by (simp add: hex_encode_def)

lemma hex_encode_inj [simp]: "hex_encode a = hex_encode b \<longleftrightarrow> a = b"
proof (induction a arbitrary: b)
  case Nil
  then show ?case by (cases b) (simp_all add: hex_encode_Cons)
next
  case (Cons x a)
  show ?case
  proof (cases b)
    case Nil
    then show ?thesis by (simp add: hex_encode_Cons)
  next
    case (Cons y b')
    have "unat x div 16 < 16" and "unat y div 16 < 16"
      using unsigned_less [of x, where 'a = nat] unsigned_less [of y, where 'a = nat] by simp_all
    moreover have "unat x = unat y" if "unat x div 16 = unat y div 16" "unat x mod 16 = unat y mod 16"
      using that by (metis div_mult_mod_eq)
    then have "unat x div 16 = unat y div 16 \<and> unat x mod 16 = unat y mod 16 \<longleftrightarrow> x = y"
      by (auto dest: word_unat_eq_iff [THEN iffD2])
    ultimately show ?thesis
      by (simp only: Cons hex_encode_Cons list.inject Cons.IH hex_digit_inj mod_less_divisor zero_less_numeral)
        blast
  qed
qed

lemma colon_not_in_hex [simp]: "CHR '':'' \<notin> set (hex_encode bs)"
proof -
  have "CHR '':'' \<noteq> hex_digit d" if "d < 16" for d
  proof
    assume "CHR '':'' = hex_digit d"
    then have "hex_digit d = CHR '':''" by (rule sym)
    then have "of_char (hex_digit d) = (58::nat)" by simp
    with that show False by (auto simp: hex_digit_def split: if_splits)
  qed
  moreover have "unat z div 16 < 16" "unat z mod 16 < 16" for z :: "8 word"
    using unsigned_less [of z, where 'a = nat] by simp_all
  ultimately show ?thesis
    by (induction bs) (auto simp: hex_encode_Cons)
qed

lemma hex_value_digit: "d < 16 \<Longrightarrow> hex_value (hex_digit d) = Some d"
  by (simp add: hex_value_def hex_digit_def)

lemma hex_decode_encode [simp]: "hex_decode (hex_encode bs) = Some bs"
proof (induction bs)
  case (Cons b bs)
  have b: "unat b < 256" using unsigned_less [of b] by simp
  then have "unat b div 16 < 16" "unat b mod 16 < 16" by auto
  with Cons show ?case
    by (simp add: hex_encode_Cons hex_value_digit del: unat_div unat_mod)
qed (simp add: hex_encode_def)

end
