(* ===== verification/Sled.thy ===== *)
theory Sled
  imports Rust_Text "HOL-Library.RBT"
begin

section \<open>The embedded store\<close>

text \<open>
  \<open>sled\<close> is a third-party crate: a tree of it is a parameter of the model. A value of
  \<open>'t sled\<close> holds the calls the program makes on a \<open>sled::Tree\<close>, and \<open>sled_ok\<close> states what
  their documentation promises: a tree is a map from keys to values, \<open>iter\<close> lists it in the
  order of the keys' bytes, and \<open>scan_prefix\<close> and \<open>range\<close> list the part of it they name.
  Failures of the disk (\<open>sled::Error\<close>) are not modelled: every call succeeds. A tree of
  red-black nodes satisfies \<open>sled_ok\<close>, so the hypothesis can hold.
\<close>

record 't sled =
  sl_new :: 't
  sl_get :: "'t \<Rightarrow> string \<Rightarrow> bytes option"
  sl_insert :: "'t \<Rightarrow> string \<Rightarrow> bytes \<Rightarrow> 't"
  sl_remove :: "'t \<Rightarrow> string \<Rightarrow> 't"
  sl_iter :: "'t \<Rightarrow> (string \<times> bytes) list"
  sl_scan_prefix :: "'t \<Rightarrow> string \<Rightarrow> (string \<times> bytes) list"
  sl_range :: "'t \<Rightarrow> string \<Rightarrow> string option \<Rightarrow> (string \<times> bytes) list"

definition in_range :: "string \<Rightarrow> string option \<Rightarrow> string \<Rightarrow> bool" where
  "in_range lo hi k \<longleftrightarrow> lo \<le> k \<and> (case hi of None \<Rightarrow> True | Some h \<Rightarrow> k < h)"

definition sled_ok :: "'t sled \<Rightarrow> bool" where
  "sled_ok S \<longleftrightarrow>
     (\<forall>t. ordered_keys (sl_iter S t)) \<and>
     (\<forall>t k. sl_get S t k = map_of (sl_iter S t) k) \<and>
     (\<forall>k. sl_get S (sl_new S) k = None) \<and>
     (\<forall>t k v j. sl_get S (sl_insert S t k v) j = (if j = k then Some v else sl_get S t j)) \<and>
     (\<forall>t k j. sl_get S (sl_remove S t k) j = (if j = k then None else sl_get S t j)) \<and>
     (\<forall>t p. sl_scan_prefix S t p = filter (\<lambda>e. prefix p (fst e)) (sl_iter S t)) \<and>
     (\<forall>t lo hi. sl_range S t lo hi = filter (\<lambda>e. in_range lo hi (fst e)) (sl_iter S t))"

lemma sled_okD:
  assumes "sled_ok S"
  shows sled_ordered: "ordered_keys (sl_iter S t)"
    and sled_get_map_of: "sl_get S t k = map_of (sl_iter S t) k"
    and sled_get_new: "sl_get S (sl_new S) k = None"
    and sled_get_insert: "sl_get S (sl_insert S t k v) j = (if j = k then Some v else sl_get S t j)"
    and sled_get_remove: "sl_get S (sl_remove S t k) j = (if j = k then None else sl_get S t j)"
    and sled_scan: "sl_scan_prefix S t p = filter (\<lambda>e. prefix p (fst e)) (sl_iter S t)"
    and sled_range: "sl_range S t lo hi = filter (\<lambda>e. in_range lo hi (fst e)) (sl_iter S t)"
  using assms unfolding sled_ok_def by blast+

lemmas sled_reads [store_simps] = sled_get_new sled_get_insert sled_get_remove

lemma sled_distinct: "sled_ok S \<Longrightarrow> distinct (map fst (sl_iter S t))"
  using sled_ordered by (metis strict_sorted_iff)

lemma sled_iter_iff: "sled_ok S \<Longrightarrow> (k, v) \<in> set (sl_iter S t) \<longleftrightarrow> sl_get S t k = Some v"
  by (simp add: sled_get_map_of sled_distinct)

lemma sled_iter_new: "sled_ok S \<Longrightarrow> sl_iter S (sl_new S) = []"
proof -
  assume S: "sled_ok S"
  have "(k, v) \<notin> set (sl_iter S (sl_new S))" for k v
    using S by (simp add: sled_iter_iff sled_get_new)
  then show ?thesis by (metis list.set_intros(1) neq_Nil_conv surj_pair)
qed

text \<open>A filtered listing depends only on the entries that pass the filter.\<close>

lemma sled_filter_cong:
  assumes "sled_ok S" and "\<And>k. P k \<Longrightarrow> sl_get S t k = sl_get S u k"
  shows "filter (\<lambda>e. P (fst e)) (sl_iter S t) = filter (\<lambda>e. P (fst e)) (sl_iter S u)"
proof (rule ordered_keys_unique)
  have sub: "ordered_keys (filter (\<lambda>e. P (fst e)) (sl_iter S w))" for w
    using sled_ordered [OF assms(1), of w] by (simp add: sorted_wrt_map sorted_wrt_filter)
  show "ordered_keys (filter (\<lambda>e. P (fst e)) (sl_iter S t))"
    and "ordered_keys (filter (\<lambda>e. P (fst e)) (sl_iter S u))" by (rule sub)+
  have "map_of (filter (\<lambda>e. P (fst e)) (sl_iter S w)) k = (if P k then sl_get S w k else None)" for w k
  proof (rule option_eqI)
    fix v
    have "distinct (map fst (filter (\<lambda>e. P (fst e)) (sl_iter S w)))"
      using sub [of w] by (simp add: strict_sorted_iff)
    then have "map_of (filter (\<lambda>e. P (fst e)) (sl_iter S w)) k = Some v
        \<longleftrightarrow> (k, v) \<in> set (filter (\<lambda>e. P (fst e)) (sl_iter S w))"
      by (rule map_of_eq_Some_iff)
    also have "\<dots> \<longleftrightarrow> P k \<and> sl_get S w k = Some v"
      using assms(1) by (auto simp: sled_iter_iff)
    finally show "map_of (filter (\<lambda>e. P (fst e)) (sl_iter S w)) k = Some v
        \<longleftrightarrow> (if P k then sl_get S w k else None) = Some v"
      by simp
  qed
  then show "map_of (filter (\<lambda>e. P (fst e)) (sl_iter S t)) = map_of (filter (\<lambda>e. P (fst e)) (sl_iter S u))"
    using assms(2) by (simp add: fun_eq_iff)
qed

lemma sled_scan_iff:
  "sled_ok S \<Longrightarrow> (k, v) \<in> set (sl_scan_prefix S t p) \<longleftrightarrow> prefix p k \<and> sl_get S t k = Some v"
  by (auto simp: sled_scan sled_iter_iff)

lemma sled_scan_ordered: "sled_ok S \<Longrightarrow> ordered_keys (sl_scan_prefix S t p)"
  using sled_ordered [of S t] by (simp add: sled_scan sorted_wrt_map sorted_wrt_filter)

lemma sled_scan_cong:
  assumes "sled_ok S" and "\<And>k. prefix p k \<Longrightarrow> sl_get S t k = sl_get S u k"
  shows "sl_scan_prefix S t p = sl_scan_prefix S u p"
  using sled_filter_cong [of S "prefix p" t u] assms by (simp add: sled_scan)

lemma sled_scan_insert_other [store_simps]:
  "sled_ok S \<Longrightarrow> \<not> prefix p k \<Longrightarrow> sl_scan_prefix S (sl_insert S t k v) p = sl_scan_prefix S t p"
  by (rule sled_scan_cong) (auto simp: sled_get_insert)

lemma sled_scan_remove_other [store_simps]:
  "sled_ok S \<Longrightarrow> \<not> prefix p k \<Longrightarrow> sl_scan_prefix S (sl_remove S t k) p = sl_scan_prefix S t p"
  by (rule sled_scan_cong) (auto simp: sled_get_remove)

lemma sled_scan_new [store_simps]: "sled_ok S \<Longrightarrow> sl_scan_prefix S (sl_new S) p = []"
  by (simp add: sled_scan sled_iter_new)

lemma length_as_card: "distinct xs \<Longrightarrow> length xs = card (set xs)"
  by (simp add: distinct_card)

lemma sled_scan_keys:
  assumes "sled_ok S"
  shows "set (map fst (sl_scan_prefix S t p)) = {k. prefix p k \<and> (\<exists>v. sl_get S t k = Some v)}"
proof (rule set_eqI)
  fix k
  have "k \<in> set (map fst (sl_scan_prefix S t p)) \<longleftrightarrow> (\<exists>v. (k, v) \<in> set (sl_scan_prefix S t p))"
    by force
  then show "k \<in> set (map fst (sl_scan_prefix S t p)) \<longleftrightarrow> k \<in> {k. prefix p k \<and> (\<exists>v. sl_get S t k = Some v)}"
    using assms by (simp add: sled_scan_iff)
qed

lemma sled_scan_length:
  assumes "sled_ok S"
  shows "length (sl_scan_prefix S t p) = card {k. prefix p k \<and> (\<exists>v. sl_get S t k = Some v)}"
proof -
  have "distinct (map fst (sl_scan_prefix S t p))"
    using sled_scan_ordered [OF assms] by (simp add: strict_sorted_iff)
  then show ?thesis
    unfolding sled_scan_keys [OF assms, symmetric] by (metis distinct_card length_map)
qed

lemma sled_finite: "sled_ok S \<Longrightarrow> finite {k. prefix p k \<and> (\<exists>v. sl_get S t k = Some v)}"
  unfolding sled_scan_keys [symmetric] by (rule finite_set)

text \<open>An insertion adds at most one entry to a listing.\<close>

lemma sled_scan_length_insert:
  assumes "sled_ok S"
  shows "length (sl_scan_prefix S (sl_insert S t k v) p) \<le> length (sl_scan_prefix S t p) + 1"
proof -
  have "{j. prefix p j \<and> (\<exists>v'. sl_get S (sl_insert S t k v) j = Some v')}
      \<subseteq> insert k {j. prefix p j \<and> (\<exists>v. sl_get S t j = Some v)}"
    using assms by (auto simp: sled_get_insert split: if_splits)
  then have "card {j. prefix p j \<and> (\<exists>v'. sl_get S (sl_insert S t k v) j = Some v')}
      \<le> card (insert k {j. prefix p j \<and> (\<exists>v. sl_get S t j = Some v)})"
    by (rule card_mono [rotated]) (simp add: sled_finite assms)
  also have "\<dots> \<le> card {j. prefix p j \<and> (\<exists>v. sl_get S t j = Some v)} + 1"
    using sled_finite [OF assms, of p t] by (simp add: card_insert_if)
  finally show ?thesis using assms by (simp add: sled_scan_length)
qed

lemma sled_scan_length_remove:
  assumes "sled_ok S"
  shows "length (sl_scan_prefix S (sl_remove S t k) p) \<le> length (sl_scan_prefix S t p)"
  unfolding sled_scan_length [OF assms]
  by (rule card_mono) (auto simp: sled_finite assms sled_get_remove split: if_splits)

text \<open>The loops \<open>for key in keys { tree.remove(key) }\<close>.\<close>

fun sl_remove_all :: "'t sled \<Rightarrow> 't \<Rightarrow> string list \<Rightarrow> 't" where
  "sl_remove_all S t [] = t"
| "sl_remove_all S t (k # ks) = sl_remove_all S (sl_remove S t k) ks"

lemma sled_get_remove_all [store_simps]:
  "sled_ok S \<Longrightarrow> sl_get S (sl_remove_all S t ks) j = (if j \<in> set ks then None else sl_get S t j)"
  by (induction ks arbitrary: t) (auto simp: sled_get_remove)

lemma sled_scan_removed [store_simps]:
  assumes "sled_ok S"
  shows "sl_scan_prefix S (sl_remove_all S t (map fst (sl_scan_prefix S t p))) p = []"
proof -
  let ?t = "sl_remove_all S t (map fst (sl_scan_prefix S t p))"
  have "(k, v) \<notin> set (sl_scan_prefix S ?t p)" for k v
  proof
    assume "(k, v) \<in> set (sl_scan_prefix S ?t p)"
    then have "k \<notin> fst ` set (sl_scan_prefix S t p)" "(k, v) \<in> set (sl_scan_prefix S t p)"
      using assms by (simp_all add: sled_scan_iff sled_get_remove_all split: if_splits)
    then show False by force
  qed
  then have "set (sl_scan_prefix S ?t p) = {}" by (metis equals0I surj_pair)
  then show ?thesis by (simp only: set_empty)
qed

lemma sled_scan_remove_all_other [store_simps]:
  "sled_ok S \<Longrightarrow> (\<And>k. k \<in> set ks \<Longrightarrow> \<not> prefix p k) \<Longrightarrow>
     sl_scan_prefix S (sl_remove_all S t ks) p = sl_scan_prefix S t p"
  by (rule sled_scan_cong) (auto simp: sled_get_remove_all)

subsection \<open>Prefixes that end in a separator\<close>

text \<open>
  \<open>range(p + ":" .. p + ";")\<close> is the listing of the prefix \<open>p + ":"\<close>, since \<open>;\<close> is the
  byte after \<open>:\<close>.
\<close>

lemma colon_range:
  "in_range (p @ '':'') (Some (p @ '';'')) k \<longleftrightarrow> prefix (p @ '':'') k"
proof (induction p arbitrary: k)
  case Nil
  show ?case
  proof (cases k)
    case (Cons c r)
    have "c < CHR '';'' \<and> \<not> c < CHR '':'' \<longleftrightarrow> c = CHR '':''"
    proof -
      have "of_char c < (59::nat) \<and> \<not> of_char c < (58::nat) \<longleftrightarrow> of_char c = (58::nat)" by auto
      also have "\<dots> \<longleftrightarrow> c = CHR '':''"
        using of_char_eq_iff [of c "CHR '':''", where 'a = nat] by (simp del: of_char_eq_iff)
      finally show ?thesis by (simp add: less_char_def)
    qed
    with Cons show ?thesis
      by (auto simp: in_range_def not_less)
  qed (simp add: in_range_def)
next
  case (Cons a p)
  show ?case
  proof (cases k)
    case (Cons c r)
    consider "c = a" | "c < a" | "a < c" by (rule linorder_cases [of c a]) auto
    then show ?thesis
    proof cases
      case 1
      with Cons Cons.IH [of r] show ?thesis by (simp add: in_range_def)
    next
      case 2
      with Cons show ?thesis by (auto simp: in_range_def)
    next
      case 3
      with Cons show ?thesis by (auto simp: in_range_def)
    qed
  qed (simp add: in_range_def)
qed

lemma sled_range_colon: "sled_ok S \<Longrightarrow> sl_range S t (p @ '':'') (Some (p @ '';'')) = sl_scan_prefix S t (p @ '':'')"
  by (simp add: sled_range sled_scan colon_range)

lemma prefix_colon_iff:
  assumes "c \<notin> set a" and "c \<notin> set b"
  shows "prefix (a @ [c]) (b @ c # r) \<longleftrightarrow> a = b"
  using assms
proof (induction a arbitrary: b)
  case Nil
  then show ?case by (cases b) auto
next
  case (Cons x a)
  then show ?case by (cases b) auto
qed

subsection \<open>A tree that satisfies the contract\<close>

definition rbt_sled :: "(string, bytes) rbt sled" where
  "rbt_sled =
     \<lparr>sl_new = RBT.empty, sl_get = RBT.lookup, sl_insert = (\<lambda>t k v. RBT.insert k v t),
      sl_remove = (\<lambda>t k. RBT.delete k t), sl_iter = RBT.entries,
      sl_scan_prefix = (\<lambda>t p. filter (\<lambda>e. prefix p (fst e)) (RBT.entries t)),
      sl_range = (\<lambda>t lo hi. filter (\<lambda>e. in_range lo hi (fst e)) (RBT.entries t))\<rparr>"

lemma rbt_sled_ok: "sled_ok rbt_sled"
  by (simp add: sled_ok_def rbt_sled_def RBT.map_of_entries strict_sorted_iff RBT.sorted_entries
      RBT.distinct_entries)

end
