(* ===== verification/Storage_Keys.thy ===== *)
theory Storage_Keys
  imports Sled
begin

section \<open>The keys of the message store (\<open>variance-messaging/src/storage/mod.rs\<close>)\<close>

text \<open>
  The functions that build and take apart the keys: conversation ids, direct, group and
  offline keys, and their parsers. DIDs contain colons, and so do conversation ids; the
  code cuts keys from the right, where neither the timestamp nor the message id has one.
  The lemmas give the round trips, injectivity, that keys of one conversation sort by time,
  and that the prefix of one conversation never lists a message of another.
\<close>

definition conversation_id :: "did \<Rightarrow> did \<Rightarrow> string" where
  "conversation_id did1 did2 = (if did1 \<le> did2 then did1 @ '':'' @ did2 else did2 @ '':'' @ did1)"

definition direct_key :: "did \<Rightarrow> did \<Rightarrow> int \<Rightarrow> string \<Rightarrow> string" where
  "direct_key sender recipient timestamp mid =
     conversation_id sender recipient @ '':'' @ fmt020 timestamp @ '':'' @ mid"

definition group_key :: "string \<Rightarrow> int \<Rightarrow> string \<Rightarrow> string" where
  "group_key group_id timestamp mid = group_id @ '':'' @ fmt020 timestamp @ '':'' @ mid"

definition offline_key :: "bytes \<Rightarrow> int \<Rightarrow> string \<Rightarrow> string" where
  "offline_key mailbox_token timestamp mid =
     hex_encode mailbox_token @ '':'' @ fmt020 timestamp @ '':'' @ mid"

definition parse_direct_key :: "string \<Rightarrow> (string \<times> int) option" where
  "parse_direct_key key =
     (case rfind CHR '':'' key of
        None \<Rightarrow> None
      | Some last_colon \<Rightarrow>
          (let before_id = take last_colon key
           in case rfind CHR '':'' before_id of
                None \<Rightarrow> None
              | Some ts_start \<Rightarrow>
                  (case parse_i64 (drop (Suc ts_start) before_id) of
                     None \<Rightarrow> None
                   | Some timestamp \<Rightarrow> Some (take ts_start before_id, timestamp))))"

definition peer_did_from_conv_id :: "string \<Rightarrow> did \<Rightarrow> did option" where
  "peer_did_from_conv_id conv_id local_did =
     (case strip_prefix (local_did @ '':'') conv_id of
        Some rest \<Rightarrow> Some rest
      | None \<Rightarrow> strip_suffix ('':'' @ local_did) conv_id)"

definition parse_group_key_timestamp :: "string \<Rightarrow> int option" where
  "parse_group_key_timestamp key =
     (case rfind CHR '':'' key of
        None \<Rightarrow> None
      | Some last_colon \<Rightarrow>
          (let before_id = take last_colon key
           in case rfind CHR '':'' before_id of
                None \<Rightarrow> None
              | Some ts_start \<Rightarrow> parse_i64 (drop (Suc ts_start) before_id)))"

subsection \<open>What the parts of a key look like\<close>

definition colons :: "string \<Rightarrow> nat" where
  "colons s = count_list s CHR '':''"

text \<open>A DID is \<open>did:method:id\<close>; message ids, group ids and mailbox tokens have no colon.\<close>

definition did_ok :: "did \<Rightarrow> bool" where
  "did_ok d \<longleftrightarrow> colons d = 2"

definition no_colon :: "string \<Rightarrow> bool" where
  "no_colon s \<longleftrightarrow> CHR '':'' \<notin> set s"

lemma colons_append [simp]: "colons (s @ t) = colons s + colons t"
  by (simp add: colons_def)

lemma colons_Cons [simp]: "colons (c # s) = (if c = CHR '':'' then 1 else 0) + colons s"
  by (simp add: colons_def)

lemma colons_Nil [simp]: "colons [] = 0"
  by (simp add: colons_def)

lemma colons_zero [simp]: "colons s = 0 \<longleftrightarrow> no_colon s"
  by (induction s) (auto simp: no_colon_def)

lemma no_colon_fmt020 [simp]: "no_colon (fmt020 t)" and no_colon_hex [simp]: "no_colon (hex_encode b)"
  by (simp_all add: no_colon_def)

lemma colons_no_colon: "no_colon s \<Longrightarrow> colons s = 0"
  by simp

text \<open>Parts with as many colons are cut at the same place.\<close>

lemma prefix_by_colons:
  assumes "prefix (a @ '':'') (b @ CHR '':'' # r)" and "colons a = colons b"
  shows "a = b"
  using assms
proof (induction a arbitrary: b)
  case Nil
  then show ?case by (cases b) (auto split: if_splits)
next
  case (Cons x a)
  then show ?case by (cases b) (auto split: if_splits)
qed

lemma split_by_colons:
  assumes "a @ CHR '':'' # b = a' @ CHR '':'' # b'" and "colons a = colons a'"
  shows "a = a' \<and> b = b'"
proof -
  have "prefix (a @ '':'') (a' @ CHR '':'' # b')"
    by (simp add: prefix_def assms(1) [symmetric])
  then have "a = a'" using assms(2) by (rule prefix_by_colons)
  with assms(1) show ?thesis by simp
qed

lemma conversation_id_sym: "conversation_id a b = conversation_id b a"
  by (auto simp: conversation_id_def)

lemma colons_conversation_id [simp]: "colons (conversation_id a b) = colons a + colons b + 1"
  by (simp add: conversation_id_def)

lemma did_pair_eq:
  "did_ok a \<Longrightarrow> did_ok c \<Longrightarrow> a @ CHR '':'' # b = c @ CHR '':'' # d \<longleftrightarrow> a = c \<and> b = d"
  using split_by_colons [of a b c d] by (simp add: did_ok_def) blast

lemma conversation_id_eq_iff:
  assumes "did_ok a" "did_ok b" "did_ok c" "did_ok d"
  shows "conversation_id a b = conversation_id c d \<longleftrightarrow> {a, b} = {c, d}"
  by (cases "a \<le> b"; cases "c \<le> d")
    (auto simp: conversation_id_def did_pair_eq assms doubleton_eq_iff)

subsection \<open>Keys\<close>

lemma direct_key_eq: "direct_key s r t i = conversation_id s r @ CHR '':'' # fmt020 t @ CHR '':'' # i"
  by (simp add: direct_key_def)

lemma group_key_eq: "group_key g t i = g @ CHR '':'' # fmt020 t @ CHR '':'' # i"
  by (simp add: group_key_def)

lemma offline_key_eq: "offline_key tok t i = hex_encode tok @ CHR '':'' # fmt020 t @ CHR '':'' # i"
  by (simp add: offline_key_def)

lemmas keys_eq = direct_key_eq group_key_eq offline_key_eq

lemma rfind_key:
  assumes "no_colon i"
  shows "rfind CHR '':'' (c @ CHR '':'' # fmt020 t @ CHR '':'' # i) = Some (length (c @ CHR '':'' # fmt020 t))"
  using rfind_append [of "CHR '':''" i "c @ CHR '':'' # fmt020 t"] assms by (simp add: no_colon_def)

lemma cut_key:
  assumes "no_colon i" and "in_i64 t"
  shows "parse_direct_key (c @ CHR '':'' # fmt020 t @ CHR '':'' # i) = Some (c, t)"
    and "parse_group_key_timestamp (c @ CHR '':'' # fmt020 t @ CHR '':'' # i) = Some t"
  using assms by (simp_all add: parse_direct_key_def parse_group_key_timestamp_def rfind_key rfind_append)

lemma stamped_key_inj:
  assumes "c @ CHR '':'' # fmt020 t @ CHR '':'' # i = c' @ CHR '':'' # fmt020 t' @ CHR '':'' # i'"
    and "no_colon i" and "no_colon i'" and "stamp_ok t" and "stamp_ok t'"
  shows "c = c' \<and> t = t' \<and> i = i'"
proof -
  have "(c @ CHR '':'' # fmt020 t) @ CHR '':'' # i = (c' @ CHR '':'' # fmt020 t') @ CHR '':'' # i'"
    using assms(1) by simp
  then have 1: "c @ CHR '':'' # fmt020 t = c' @ CHR '':'' # fmt020 t'" "i = i'"
    using split_at_last assms(2,3) unfolding no_colon_def by blast+
  then have "c = c' \<and> fmt020 t = fmt020 t'"
    using split_at_last [OF 1(1)] by simp
  with 1 assms(4,5) show ?thesis by simp
qed

text \<open>Keys of one conversation, group or mailbox sort by time.\<close>

lemma stamped_key_less:
  assumes "stamp_ok t" and "stamp_ok t'" and "t < t'"
  shows "c @ CHR '':'' # fmt020 t @ CHR '':'' # i < c @ CHR '':'' # fmt020 t' @ CHR '':'' # i'"
proof -
  have "fmt020 t @ CHR '':'' # i < fmt020 t' @ CHR '':'' # i'"
    using fmt020_less [OF assms] assms(1,2) by (intro list_less_append_same_length) simp_all
  then show ?thesis by simp
qed

lemma stamped_key_order:
  assumes "c @ CHR '':'' # fmt020 t @ CHR '':'' # i < c @ CHR '':'' # fmt020 t' @ CHR '':'' # i'"
    and "stamp_ok t" and "stamp_ok t'"
  shows "t \<le> t'"
  using stamped_key_less [OF assms(3,2), of c i' i] assms(1) by (meson not_less order.asym)

lemma direct_key_sym: "direct_key a b t i = direct_key b a t i"
  by (simp add: direct_key_def conversation_id_sym)

lemma direct_key_eq_iff:
  assumes "did_ok a" "did_ok b" "did_ok c" "did_ok d" "no_colon i" "no_colon j" "stamp_ok t" "stamp_ok u"
  shows "direct_key a b t i = direct_key c d u j \<longleftrightarrow> {a, b} = {c, d} \<and> t = u \<and> i = j"
proof
  assume "direct_key a b t i = direct_key c d u j"
  then show "{a, b} = {c, d} \<and> t = u \<and> i = j"
    unfolding direct_key_eq using stamped_key_inj conversation_id_eq_iff assms by blast
next
  assume "{a, b} = {c, d} \<and> t = u \<and> i = j"
  then show "direct_key a b t i = direct_key c d u j"
    using direct_key_sym by (auto simp: doubleton_eq_iff)
qed

lemma group_key_eq_iff:
  assumes "no_colon i" "no_colon j" "stamp_ok t" "stamp_ok u"
  shows "group_key g t i = group_key h u j \<longleftrightarrow> g = h \<and> t = u \<and> i = j"
proof
  assume "group_key g t i = group_key h u j"
  then show "g = h \<and> t = u \<and> i = j" unfolding group_key_eq by (rule stamped_key_inj) (rule assms)+
qed simp

lemma prefix_direct_key:
  assumes "did_ok a" "did_ok b" "did_ok c" "did_ok d"
  shows "prefix (conversation_id a b @ '':'') (direct_key c d t i) \<longleftrightarrow> {a, b} = {c, d}"
proof
  assume "prefix (conversation_id a b @ '':'') (direct_key c d t i)"
  then have "conversation_id a b = conversation_id c d"
    unfolding direct_key_eq by (rule prefix_by_colons) (use assms in \<open>simp add: did_ok_def\<close>)
  then show "{a, b} = {c, d}" using assms by (simp add: conversation_id_eq_iff)
next
  assume "{a, b} = {c, d}"
  then have "conversation_id a b = conversation_id c d" using assms by (simp add: conversation_id_eq_iff)
  then show "prefix (conversation_id a b @ '':'') (direct_key c d t i)"
    by (simp add: direct_key_eq)
qed

lemma prefix_group_key:
  assumes "no_colon g" "no_colon h"
  shows "prefix (g @ '':'') (group_key h t i) \<longleftrightarrow> g = h"
  using assms prefix_colon_iff [of "CHR '':''" g h] by (simp add: group_key_eq no_colon_def)

lemma prefix_offline_key [simp]: "prefix (hex_encode a @ '':'') (offline_key b t i) \<longleftrightarrow> a = b"
  using prefix_colon_iff [of "CHR '':''" "hex_encode a" "hex_encode b"] by (simp add: offline_key_eq)

lemma peer_of_conversation:
  assumes "did_ok a" and "did_ok b"
  shows "peer_did_from_conv_id (conversation_id a b) a = Some b"
proof (cases "a \<le> b")
  case True
  then have "strip_prefix (a @ '':'') (conversation_id a b) = Some b"
    by (simp add: conversation_id_def strip_prefix_Some)
  then show ?thesis by (simp add: peer_did_from_conv_id_def)
next
  case False
  then have c: "conversation_id a b = b @ CHR '':'' # a" by (simp add: conversation_id_def)
  show ?thesis
  proof (cases "strip_prefix (a @ '':'') (b @ CHR '':'' # a)")
    case None
    then show ?thesis by (simp add: peer_did_from_conv_id_def c strip_suffix_Some)
  next
    case (Some r)
    then have "b @ CHR '':'' # a = a @ CHR '':'' # r" by (simp add: strip_prefix_Some)
    then have "b = a" using split_by_colons assms unfolding did_ok_def by metis
    with False show ?thesis by simp
  qed
qed

lemma peer_did_from_conv_id_Some:
  assumes "peer_did_from_conv_id (conversation_id a b) l = Some p"
    and "did_ok a" "did_ok b" "did_ok l"
  shows "{a, b} = {l, p}"
proof -
  have eq: "x = l \<and> y = p" if "x @ CHR '':'' # y = l @ CHR '':'' # p" "did_ok x" for x y
    using split_by_colons [OF that(1)] that(2) assms(4) by (simp add: did_ok_def)
  have eq': "x = p \<and> y = l" if "x @ CHR '':'' # y = p @ CHR '':'' # l" "did_ok x" "did_ok y" for x y
  proof -
    have "colons x + colons y = colons p + colons l"
      using arg_cong [OF that(1), of colons] by simp
    then have "colons x = colons p" using that(2,3) assms(4) by (simp add: did_ok_def)
    with split_by_colons [OF that(1)] show ?thesis by simp
  qed
  have "conversation_id a b = l @ CHR '':'' # p \<or> conversation_id a b = p @ CHR '':'' # l"
    using assms(1) by (auto simp: peer_did_from_conv_id_def strip_prefix_Some strip_suffix_Some split: option.splits)
  then show ?thesis
    using eq [of a b] eq [of b a] eq' [of a b] eq' [of b a] assms(2,3)
    by (auto simp: conversation_id_def split: if_splits)
qed

end
