(* ===== verification/Proto.thy ===== *)
theory Proto
  imports Prelude "HOL-Library.Countable"
begin

section \<open>The wire messages (\<open>variance-proto/proto\<close>)\<close>

text \<open>
  The protobuf messages as records, field by field, a \<open>oneof\<close> as a datatype. \<open>int64\<close>
  and enum fields (which prost keeps as \<open>i32\<close>) are integers, \<open>uint32\<close> fields naturals,
  \<open>bytes\<close> byte lists. prost's \<open>encode_to_vec\<close> and \<open>decode\<close> are generated code: a \<open>codec\<close>
  is a parameter, and \<open>codec_ok\<close> states that decoding an encoded message gives it back.
\<close>

subsection \<open>Direct and group messages\<close>

record direct_message =
  dm_id :: string
  dm_sender_did :: did
  dm_recipient_did :: did
  dm_ciphertext :: bytes
  dm_olm_message_type :: nat
  dm_signature :: bytes
  dm_timestamp :: int
  dm_type :: int
  dm_reply_to :: "string option"
  dm_sender_identity_key :: "bytes option"

record group_message =
  gm_id :: string
  gm_sender_did :: did
  gm_group_id :: string
  gm_timestamp :: int
  gm_type :: int
  gm_reply_to :: "string option"
  gm_mls_ciphertext :: bytes

record attachment =
  at_type :: int
  at_cid :: string
  at_name :: string
  at_size :: nat
  at_mime_type :: string
  at_thumbnail_cid :: "string option"

record message_content =
  mc_text :: string
  mc_attachments :: "attachment list"
  mc_mentions :: "did list"
  mc_reply_to :: "string option"
  mc_metadata :: "(string \<times> string) list"

subsection \<open>Groups\<close>

record group_member =
  mb_did :: did
  mb_role :: int
  mb_joined_at :: int
  mb_nickname :: "string option"

record group_meta =
  gr_id :: string
  gr_name :: string
  gr_admin_did :: did
  gr_members :: "group_member list"
  gr_created_at :: int
  gr_avatar_cid :: "string option"
  gr_description :: "string option"
  gr_frozen :: bool

record group_invitation =
  gi_group_id :: string
  gi_group_name :: string
  gi_inviter_did :: did
  gi_invitee_did :: did
  gi_timestamp :: int
  gi_members :: "group_member list"
  gi_mls_welcome :: bytes
  gi_mls_commit :: bytes

subsection \<open>Receipts and typing\<close>

record read_receipt =
  rr_message_id :: string
  rr_reader_did :: did
  rr_status :: int
  rr_timestamp :: int
  rr_signature :: bytes

record group_read_receipt =
  gx_message_id :: string
  gx_group_id :: string
  gx_reader_did :: did
  gx_status :: int
  gx_timestamp :: int
  gx_signature :: bytes

definition receipt_delivered :: int where
  "receipt_delivered = 1"

definition receipt_read :: int where
  "receipt_read = 2"

datatype typing_recipient = RecipientDid did | GroupId string

record typing_indicator =
  ti_sender_did :: did
  ti_recipient :: "typing_recipient option"
  ti_is_typing :: bool
  ti_timestamp :: int

subsection \<open>The offline relay\<close>

datatype envelope_message = EnvDirect direct_message | EnvGroup group_message

record offline_envelope =
  oe_mailbox_token :: bytes
  oe_message :: "envelope_message option"
  oe_stored_at :: int
  oe_expires_at :: int

record offline_request =
  oq_mailbox_token :: bytes
  oq_since_timestamp :: "int option"
  oq_limit :: nat
  oq_verifying_key :: bytes
  oq_auth_signature :: bytes
  oq_auth_timestamp :: int

record offline_response =
  or_messages :: "offline_envelope list"
  or_has_more :: bool
  or_next_cursor :: "int option"
  or_error_code :: "string option"
  or_error_message :: "string option"

subsection \<open>Acknowledgements, history sync and renames\<close>

record direct_message_ack =
  da_message_id :: string
  da_error :: "string option"

record group_sync_request =
  gq_group_id :: string
  gq_requester_did :: did
  gq_since_timestamp :: int
  gq_limit :: nat

record group_sync_response =
  gs_messages :: "group_message list"
  gs_has_more :: bool
  gs_error_code :: "string option"
  gs_error_message :: "string option"

record username_changed =
  rn_did :: did
  rn_username :: string
  rn_discriminator :: nat
  rn_signature :: bytes
  rn_timestamp :: int

subsection \<open>Encoding\<close>

record 'm codec =
  cd_encode :: "'m \<Rightarrow> bytes"
  cd_decode :: "bytes \<Rightarrow> 'm option"

definition codec_ok :: "'m codec \<Rightarrow> bool" where
  "codec_ok c \<longleftrightarrow> (\<forall>m. cd_decode c (cd_encode c m) = Some m)"

lemma codec_decode [simp]: "codec_ok c \<Longrightarrow> cd_decode c (cd_encode c m) = Some m"
  by (simp add: codec_ok_def)

text \<open>
  A codec that satisfies it, for messages of any countable type: a message is encoded as as
  many bytes as its number.
\<close>

definition unary_codec :: "'m::countable codec" where
  "unary_codec = \<lparr>cd_encode = (\<lambda>m. replicate (to_nat m) 0), cd_decode = (\<lambda>bs. Some (from_nat (length bs)))\<rparr>"

lemma unary_codec_ok: "codec_ok unary_codec"
  by (simp add: codec_ok_def unary_codec_def)

instance direct_message_ext :: (countable) countable
  by (rule countable_classI [of "\<lambda>r. to_nat (dm_id r, dm_sender_did r, dm_recipient_did r, dm_ciphertext r,
        dm_olm_message_type r, dm_signature r, dm_timestamp r, dm_type r, dm_reply_to r,
        dm_sender_identity_key r, direct_message.more r)"]) simp

instance group_message_ext :: (countable) countable
  by (rule countable_classI [of "\<lambda>r. to_nat (gm_id r, gm_sender_did r, gm_group_id r, gm_timestamp r,
        gm_type r, gm_reply_to r, gm_mls_ciphertext r, group_message.more r)"]) simp

instance group_member_ext :: (countable) countable
  by (rule countable_classI [of "\<lambda>r. to_nat (mb_did r, mb_role r, mb_joined_at r, mb_nickname r,
        group_member.more r)"]) simp

instance group_meta_ext :: (countable) countable
  by (rule countable_classI [of "\<lambda>r. to_nat (gr_id r, gr_name r, gr_admin_did r, gr_members r,
        gr_created_at r, gr_avatar_cid r, gr_description r, gr_frozen r, group_meta.more r)"]) simp

instance group_invitation_ext :: (countable) countable
  by (rule countable_classI [of "\<lambda>r. to_nat (gi_group_id r, gi_group_name r, gi_inviter_did r,
        gi_invitee_did r, gi_timestamp r, gi_members r, gi_mls_welcome r, gi_mls_commit r,
        group_invitation.more r)"]) simp

instance read_receipt_ext :: (countable) countable
  by (rule countable_classI [of "\<lambda>r. to_nat (rr_message_id r, rr_reader_did r, rr_status r,
        rr_timestamp r, rr_signature r, read_receipt.more r)"]) simp

instance group_read_receipt_ext :: (countable) countable
  by (rule countable_classI [of "\<lambda>r. to_nat (gx_message_id r, gx_group_id r, gx_reader_did r,
        gx_status r, gx_timestamp r, gx_signature r, group_read_receipt.more r)"]) simp

instance attachment_ext :: (countable) countable
  by (rule countable_classI [of "\<lambda>r. to_nat (at_type r, at_cid r, at_name r, at_size r, at_mime_type r,
        at_thumbnail_cid r, attachment.more r)"]) simp

instance message_content_ext :: (countable) countable
  by (rule countable_classI [of "\<lambda>r. to_nat (mc_text r, mc_attachments r, mc_mentions r, mc_reply_to r,
        mc_metadata r, message_content.more r)"]) simp

instance envelope_message :: countable
  by countable_datatype

instance offline_envelope_ext :: (countable) countable
  by (rule countable_classI [of "\<lambda>r. to_nat (oe_mailbox_token r, oe_message r, oe_stored_at r,
        oe_expires_at r, offline_envelope.more r)"]) simp

end
