(* ===== verification/Message_Store.thy ===== *)
theory Message_Store
  imports Storage_Keys Proto
begin

section \<open>The local message store: its trees and what it rests on\<close>

text \<open>
  \<open>LocalMessageStorage\<close> holds one sled database; \<open>message_db\<close> has a field per tree it opens
  (\<open>storage/mod.rs\<close>, \<open>storage/invitations.rs\<close>, and the group plaintext cache of
  \<open>storage/group.rs\<close>). \<open>store_env\<close> is the third-party code the store calls: sled and
  the codecs of the messages it stores. Each \<open>impl_*\<close> method takes the environment and the
  database and returns the new database, the result, or both.
\<close>

subsection \<open>Errors\<close>

datatype msg_error =
    EEncryption string
  | EDecryption string
  | EInvalidSignature string
  | EMessageNotFound string
  | EGroupNotFound string
  | EUnauthorized string
  | EInvalidFormat string
  | EProtocol
  | EDoubleRatchet string
  | EStaleOneTimeKey string
  | EMessageExpired string
  | ERelayStorageFull
  | ECrypto string
  | EMlsGroup string
  | EMlsWelcome string
  | EMlsKeyPackage string
  | EMlsCommit string
  | EMlsPendingCommit
  | EMlsNoPendingCommit string
  | ESerialization

subsection \<open>The database\<close>

record 't message_db =
  db_direct :: 't
  db_group :: 't
  db_offline :: 't
  db_receipts :: 't
  db_plaintext :: 't
  db_session_pickles :: 't
  db_pending_messages :: 't
  db_group_metadata :: 't
  db_mls_state :: 't
  db_last_read_at :: 't
  db_peer_names :: 't
  db_olm_pickle :: 't
  db_pending_receipts :: 't
  db_group_receipts :: 't
  db_message_index :: 't
  db_group_plaintext :: 't
  db_pending_invitations :: 't
  db_outbound_invites :: 't

record 't store_env =
  se_sled :: "'t sled"
  se_direct :: "direct_message codec"
  se_group :: "group_message codec"
  se_group_meta :: "group_meta codec"
  se_envelope :: "offline_envelope codec"
  se_receipt :: "read_receipt codec"
  se_group_receipt :: "group_read_receipt codec"
  se_invitation :: "group_invitation codec"
  se_outbound :: "(bytes \<times> int) codec"

definition env_ok :: "'t store_env \<Rightarrow> bool" where
  "env_ok E \<longleftrightarrow> sled_ok (se_sled E) \<and> codec_ok (se_direct E) \<and> codec_ok (se_group E) \<and>
     codec_ok (se_group_meta E) \<and> codec_ok (se_envelope E) \<and> codec_ok (se_receipt E) \<and>
     codec_ok (se_group_receipt E) \<and> codec_ok (se_invitation E) \<and> codec_ok (se_outbound E)"

lemma env_okD [simp]:
  assumes "env_ok E"
  shows "sled_ok (se_sled E)" "codec_ok (se_direct E)" "codec_ok (se_group E)" "codec_ok (se_group_meta E)"
    "codec_ok (se_envelope E)" "codec_ok (se_receipt E)" "codec_ok (se_group_receipt E)"
    "codec_ok (se_invitation E)" "codec_ok (se_outbound E)"
  using assms by (simp_all add: env_ok_def)

text \<open>\<open>LocalMessageStorage::new\<close> on an empty directory: \<open>open_tree\<close> makes empty trees.\<close>

definition db_new :: "'t store_env \<Rightarrow> 't message_db" where
  "db_new E = (let t = sl_new (se_sled E) in
     \<lparr>db_direct = t, db_group = t, db_offline = t, db_receipts = t, db_plaintext = t,
      db_session_pickles = t, db_pending_messages = t, db_group_metadata = t, db_mls_state = t,
      db_last_read_at = t, db_peer_names = t, db_olm_pickle = t, db_pending_receipts = t,
      db_group_receipts = t, db_message_index = t, db_group_plaintext = t,
      db_pending_invitations = t, db_outbound_invites = t\<rparr>)"

lemma db_new_fields [simp]:
  "db_direct (db_new E) = sl_new (se_sled E)" "db_group (db_new E) = sl_new (se_sled E)"
  "db_offline (db_new E) = sl_new (se_sled E)" "db_message_index (db_new E) = sl_new (se_sled E)"
  "db_pending_messages (db_new E) = sl_new (se_sled E)" "db_group_receipts (db_new E) = sl_new (se_sled E)"
  "db_receipts (db_new E) = sl_new (se_sled E)" "db_plaintext (db_new E) = sl_new (se_sled E)"
  "db_outbound_invites (db_new E) = sl_new (se_sled E)" "db_group_metadata (db_new E) = sl_new (se_sled E)"
  by (simp_all add: db_new_def Let_def)

text \<open>An environment that satisfies the contract.\<close>

definition rbt_env :: "(string, bytes) rbt store_env" where
  "rbt_env =
     \<lparr>se_sled = rbt_sled, se_direct = unary_codec, se_group = unary_codec, se_group_meta = unary_codec,
      se_envelope = unary_codec, se_receipt = unary_codec, se_group_receipt = unary_codec,
      se_invitation = unary_codec, se_outbound = unary_codec\<rparr>"

lemma rbt_env_ok: "env_ok rbt_env"
  by (simp add: env_ok_def rbt_env_def rbt_sled_ok unary_codec_ok)

subsection \<open>Stored text\<close>

text \<open>\<open>String::from_utf8_lossy\<close> on bytes that were written from a string.\<close>

definition string_of_bytes :: "bytes \<Rightarrow> string" where
  "string_of_bytes bs = map (\<lambda>b. char_of (unat b)) bs"

lemma string_of_as_bytes [simp]: "string_of_bytes (as_bytes s) = s"
proof -
  have "char_of (unat (word_of_nat (of_char c) :: 8 word)) = c" for c :: char
  proof -
    have "unat (word_of_nat (of_char c) :: 8 word) = of_char c"
      using nat_of_char_less_256 [of c] by (simp add: unat_of_nat)
    then show ?thesis by simp
  qed
  then show ?thesis
    by (simp add: string_of_bytes_def as_bytes_def comp_def)
qed

subsection \<open>Logs: listings decoded in key order\<close>

text \<open>
  What a scan returns when every stored value decodes, and what taking its newest entries
  gives. Direct and group messages are both logs in this sense.
\<close>

definition decoded :: "'m codec \<Rightarrow> (string \<times> bytes) list \<Rightarrow> 'm list" where
  "decoded c es = List.map_filter (\<lambda>e. cd_decode c (snd e)) es"

lemma decoded_Nil [simp]: "decoded c [] = []"
  by (simp add: decoded_def List.map_filter_simps)

lemma decoded_Cons [simp]:
  "decoded c (e # es) = (case cd_decode c (snd e) of None \<Rightarrow> decoded c es | Some m \<Rightarrow> m # decoded c es)"
  by (simp add: decoded_def List.map_filter_simps split: option.splits)

lemma decoded_append [simp]: "decoded c (es @ fs) = decoded c es @ decoded c fs"
  by (induction es) (simp_all split: option.splits)

lemma decoded_rev: "decoded c (rev es) = rev (decoded c es)"
  by (induction es) (simp_all split: option.splits)

lemma set_decoded: "m \<in> set (decoded c es) \<longleftrightarrow> (\<exists>e \<in> set es. cd_decode c (snd e) = Some m)"
  by (induction es) (auto split: option.splits)

lemma set_decoded_pair: "m \<in> set (decoded c es) \<longleftrightarrow> (\<exists>k v. (k, v) \<in> set es \<and> cd_decode c v = Some m)"
  by (force simp: set_decoded)

lemma newest_eq:
  "rev (take n (filter P (decoded c (rev es)))) = drop (length (filter P (decoded c es)) - n) (filter P (decoded c es))"
  by (simp add: decoded_rev rev_filter [symmetric] take_rev)

text \<open>
  A log is well formed when every entry decodes to a message stored under that message's
  key, and the keys determine and order the messages' times.
\<close>

definition log_wf :: "'t sled \<Rightarrow> 'm codec \<Rightarrow> ('m \<Rightarrow> string) \<Rightarrow> ('m \<Rightarrow> bool) \<Rightarrow> 't \<Rightarrow> bool" where
  "log_wf S c key ok t \<longleftrightarrow>
     (\<forall>k v. sl_get S t k = Some v \<longrightarrow> (\<exists>m. cd_decode c v = Some m \<and> key m = k \<and> ok m))"

definition log_messages :: "'t sled \<Rightarrow> 'm codec \<Rightarrow> 't \<Rightarrow> 'm set" where
  "log_messages S c t = {m. \<exists>k v. sl_get S t k = Some v \<and> cd_decode c v = Some m}"

lemma log_wf_new: "sled_ok S \<Longrightarrow> log_wf S c key ok (sl_new S)"
  by (simp add: log_wf_def sled_get_new)

lemma log_wf_insert:
  "sled_ok S \<Longrightarrow> codec_ok c \<Longrightarrow> ok m \<Longrightarrow> log_wf S c key ok t \<Longrightarrow>
     log_wf S c key ok (sl_insert S t (key m) (cd_encode c m))"
  by (auto simp: log_wf_def sled_get_insert split: if_splits)

lemma log_wf_remove: "sled_ok S \<Longrightarrow> log_wf S c key ok t \<Longrightarrow> log_wf S c key ok (sl_remove S t k)"
  by (auto simp: log_wf_def sled_get_remove split: if_splits)

lemma log_wf_remove_all: "sled_ok S \<Longrightarrow> log_wf S c key ok t \<Longrightarrow> log_wf S c key ok (sl_remove_all S t ks)"
  by (auto simp: log_wf_def sled_get_remove_all split: if_splits)

lemma log_wf_get:
  "log_wf S c key ok t \<Longrightarrow> m \<in> log_messages S c t \<Longrightarrow> \<exists>v. sl_get S t (key m) = Some v \<and> cd_decode c v = Some m \<and> ok m"
  by (fastforce simp: log_wf_def log_messages_def)

lemma log_messages_new [store_simps]: "sled_ok S \<Longrightarrow> log_messages S c (sl_new S) = {}"
  by (simp add: log_messages_def sled_get_new)

lemma log_messages_insert:
  assumes "sled_ok S" and "codec_ok c" and "log_wf S c key ok t"
  shows "log_messages S c (sl_insert S t (key m) (cd_encode c m))
    = insert m {m' \<in> log_messages S c t. key m' \<noteq> key m}"
  using assms by (fastforce simp: log_messages_def log_wf_def sled_get_insert split: if_splits)

lemma log_messages_remove_all:
  assumes "sled_ok S" and "log_wf S c key ok t"
  shows "log_messages S c (sl_remove_all S t ks) = {m \<in> log_messages S c t. key m \<notin> set ks}"
  using assms by (fastforce simp: log_messages_def log_wf_def sled_get_remove_all split: if_splits)

lemma log_messages_remove:
  assumes "sled_ok S" and "log_wf S c key ok t"
  shows "log_messages S c (sl_remove S t k) = {m \<in> log_messages S c t. key m \<noteq> k}"
  using log_messages_remove_all [OF assms, of "[k]"] by simp

lemma set_decoded_filter:
  assumes "sled_ok S" and "log_wf S c key ok t"
  shows "set (decoded c (filter (\<lambda>e. P (fst e)) (sl_iter S t))) = {m \<in> log_messages S c t. P (key m)}"
  using assms by (fastforce simp: set_decoded_pair sled_iter_iff log_messages_def log_wf_def)

text \<open>A strictly ordered listing of a well-formed log decodes to messages in the order of their keys.\<close>

lemma decoded_sorted:
  assumes "ordered_keys es" and "\<forall>(k, v) \<in> set es. \<exists>m. cd_decode c v = Some m \<and> key m = k"
  shows "map key (decoded c es) = map fst es"
  using assms by (induction es) (auto split: option.splits)

lemma log_listing:
  assumes "sled_ok S" and "log_wf S c key ok t"
  shows "map key (decoded c (filter (\<lambda>e. P (fst e)) (sl_iter S t))) = map fst (filter (\<lambda>e. P (fst e)) (sl_iter S t))"
    and "sorted_wrt (\<lambda>m n. key m < key n) (decoded c (filter (\<lambda>e. P (fst e)) (sl_iter S t)))"
    and "distinct (decoded c (filter (\<lambda>e. P (fst e)) (sl_iter S t)))"
proof -
  let ?es = "filter (\<lambda>e. P (fst e)) (sl_iter S t)"
  have o: "ordered_keys ?es"
    using sled_ordered [OF assms(1), of t] by (simp add: sorted_wrt_map sorted_wrt_filter)
  show k: "map key (decoded c ?es) = map fst ?es"
    using o by (rule decoded_sorted) (use assms in \<open>fastforce simp: sled_iter_iff log_wf_def\<close>)
  show "sorted_wrt (\<lambda>m n. key m < key n) (decoded c ?es)"
    using o unfolding k [symmetric] by (simp add: sorted_wrt_map)
  have "distinct (map key (decoded c ?es))"
    using o unfolding k by (simp add: strict_sorted_iff)
  then show "distinct (decoded c ?es)" by (simp add: distinct_map)
qed

text \<open>The newest \<open>n\<close> entries of a list that is sorted by time.\<close>

lemma newest_sorted:
  fixes n :: nat
  assumes "sorted (map ts xs)" and "distinct xs"
  defines "ys \<equiv> drop (length xs - n) xs"
  shows "sorted (map ts ys)" and "length ys = min n (card (set xs))"
    and "\<forall>m \<in> set xs - set ys. \<forall>m' \<in> set ys. ts m \<le> ts m'"
proof -
  let ?k = "length xs - n"
  have xs: "xs = take ?k xs @ ys" by (simp add: ys_def)
  have s: "sorted (map ts (take ?k xs) @ map ts ys)"
    using assms(1) xs by (metis map_append)
  then show "sorted (map ts ys)" by (simp add: sorted_append)
  show "length ys = min n (card (set xs))"
    using assms(2) by (simp add: ys_def distinct_card)
  show "\<forall>m \<in> set xs - set ys. \<forall>m' \<in> set ys. ts m \<le> ts m'"
  proof (intro ballI)
    fix m m' assume m: "m \<in> set xs - set ys" and m': "m' \<in> set ys"
    then have "m \<in> set (take ?k xs)" using xs by (metis DiffE Un_iff set_append)
    with s m' show "ts m \<le> ts m'" by (auto simp: sorted_append)
  qed
qed

end
