(* ===== verification/Direct_Store.thy ===== *)
theory Direct_Store
  imports Message_Store "HOL-Library.AList"
begin

section \<open>Direct messages in the store (\<open>variance-messaging/src/storage/direct.rs\<close>)\<close>

text \<open>
  One definition per \<open>impl_*\<close> method, without the prefix: the direct message log, the
  conversation list, the plaintext cache, the session pickles, and the queue of pending
  messages with its reverse index. The invariant \<open>direct_wf\<close> says every entry of the log
  is a message under its own key; the lemmas give each method's effect on the set of stored
  messages, and what the listings return.
\<close>

subsection \<open>The message log\<close>

definition dm_key :: "direct_message \<Rightarrow> string" where
  "dm_key m = direct_key (dm_sender_did m) (dm_recipient_did m) (dm_timestamp m) (dm_id m)"

definition store_direct :: "'t store_env \<Rightarrow> 't message_db \<Rightarrow> direct_message \<Rightarrow> 't message_db" where
  "store_direct E db message =
     db\<lparr>db_direct := sl_insert (se_sled E) (db_direct db) (dm_key message) (cd_encode (se_direct E) message)\<rparr>"

definition before_cutoff :: "int option \<Rightarrow> int \<Rightarrow> bool" where
  "before_cutoff before t = (case before of None \<Rightarrow> True | Some ts \<Rightarrow> t < ts)"

definition fetch_direct ::
  "'t store_env \<Rightarrow> 't message_db \<Rightarrow> did \<Rightarrow> did \<Rightarrow> nat \<Rightarrow> int option \<Rightarrow> direct_message list" where
  "fetch_direct E db sender_did recipient_did limit before =
     (let conv_id = conversation_id sender_did recipient_did;
          entries = sl_scan_prefix (se_sled E) (db_direct db) (conv_id @ '':'')
      in rev (take limit (filter (\<lambda>m. before_cutoff before (dm_timestamp m))
           (decoded (se_direct E) (rev entries)))))"

text \<open>
  The conversation list: a \<open>HashMap\<close> from the peer to its newest timestamps, in order of
  first insertion here; \<open>sort_by_key\<close> with \<open>Reverse\<close> is a stable sort, so only the order
  of peers with the same newest timestamp depends on the order of the hash map.
\<close>

type_synonym conversations = "(did \<times> int \<times> int option) list"

definition conversation_entry ::
  "'t store_env \<Rightarrow> did \<Rightarrow> string \<times> bytes \<Rightarrow> conversations \<Rightarrow> conversations" where
  "conversation_entry E local_did kv conversations =
     (case parse_direct_key (fst kv) of
        None \<Rightarrow> conversations
      | Some (conv_id, timestamp) \<Rightarrow>
          (case peer_did_from_conv_id conv_id local_did of
             None \<Rightarrow> conversations
           | Some peer_did \<Rightarrow>
               (let (latest, peer_latest) =
                      (case map_of conversations peer_did of None \<Rightarrow> (i64_min, None) | Some e \<Rightarrow> e);
                    latest' = (if timestamp > latest then timestamp else latest);
                    peer_latest' =
                      (case cd_decode (se_direct E) (snd kv) of
                         None \<Rightarrow> peer_latest
                       | Some msg \<Rightarrow>
                           if dm_sender_did msg \<noteq> local_did
                           then (let peer_ts = (case peer_latest of None \<Rightarrow> i64_min | Some x \<Rightarrow> x)
                                 in Some (if timestamp > peer_ts then timestamp else peer_ts))
                           else peer_latest)
                in AList.update peer_did (latest', peer_latest') conversations)))"

definition list_direct_conversations :: "'t store_env \<Rightarrow> 't message_db \<Rightarrow> did \<Rightarrow> conversations" where
  "list_direct_conversations E db local_did =
     sort_key (\<lambda>item. - fst (snd item))
       (fold (conversation_entry E local_did) (sl_iter (se_sled E) (db_direct db)) [])"

definition after_last_colon :: "string \<Rightarrow> string option" where
  "after_last_colon key = map_option (\<lambda>last_colon. drop (Suc last_colon) key) (rfind CHR '':'' key)"

definition delete_direct_conversation :: "'t store_env \<Rightarrow> 't message_db \<Rightarrow> did \<Rightarrow> did \<Rightarrow> 't message_db" where
  "delete_direct_conversation E db did1 did2 =
     (let conv_id = conversation_id did1 did2;
          keys_to_delete = map fst (sl_scan_prefix (se_sled E) (db_direct db) (conv_id @ '':''));
          message_ids = List.map_filter after_last_colon keys_to_delete
      in db\<lparr>db_direct := sl_remove_all (se_sled E) (db_direct db) keys_to_delete,
            db_plaintext := sl_remove_all (se_sled E) (db_plaintext db) message_ids\<rparr>)"

definition delete_direct_by_id ::
  "'t store_env \<Rightarrow> 't message_db \<Rightarrow> did \<Rightarrow> did \<Rightarrow> int \<Rightarrow> string \<Rightarrow> 't message_db" where
  "delete_direct_by_id E db sender_did recipient_did timestamp message_id =
     db\<lparr>db_direct := sl_remove (se_sled E) (db_direct db) (direct_key sender_did recipient_did timestamp message_id),
        db_plaintext := sl_remove (se_sled E) (db_plaintext db) message_id\<rparr>"

definition cleanup_old_direct_messages ::
  "'t store_env \<Rightarrow> 't message_db \<Rightarrow> millis \<Rightarrow> nat \<Rightarrow> 't message_db \<times> nat" where
  "cleanup_old_direct_messages E db now max_age =
     (let cutoff_ms = sub_i64 now (wrap_i64 (int max_age));
          to_delete = filter (\<lambda>key. case parse_direct_key key of None \<Rightarrow> False | Some (_, ts) \<Rightarrow> ts < cutoff_ms)
            (map fst (sl_iter (se_sled E) (db_direct db)))
      in (db\<lparr>db_direct := sl_remove_all (se_sled E) (db_direct db) to_delete\<rparr>, length to_delete))"

subsection \<open>Plaintext cache and session pickles\<close>

definition store_plaintext :: "'t store_env \<Rightarrow> 't message_db \<Rightarrow> string \<Rightarrow> bytes \<Rightarrow> 't message_db" where
  "store_plaintext E db message_id encrypted =
     db\<lparr>db_plaintext := sl_insert (se_sled E) (db_plaintext db) message_id encrypted\<rparr>"

definition fetch_plaintext :: "'t store_env \<Rightarrow> 't message_db \<Rightarrow> string \<Rightarrow> bytes option" where
  "fetch_plaintext E db message_id = sl_get (se_sled E) (db_plaintext db) message_id"

definition store_session_pickle :: "'t store_env \<Rightarrow> 't message_db \<Rightarrow> did \<Rightarrow> string \<Rightarrow> 't message_db" where
  "store_session_pickle E db peer_did pickle_json =
     db\<lparr>db_session_pickles := sl_insert (se_sled E) (db_session_pickles db) peer_did (as_bytes pickle_json)\<rparr>"

definition fetch_session_pickle :: "'t store_env \<Rightarrow> 't message_db \<Rightarrow> did \<Rightarrow> string option" where
  "fetch_session_pickle E db peer_did =
     map_option string_of_bytes (sl_get (se_sled E) (db_session_pickles db) peer_did)"

definition load_all_session_pickles :: "'t store_env \<Rightarrow> 't message_db \<Rightarrow> (did \<times> string) list" where
  "load_all_session_pickles E db =
     map (\<lambda>(key, value). (key, string_of_bytes value)) (sl_iter (se_sled E) (db_session_pickles db))"

subsection \<open>Pending messages\<close>

definition pending_key :: "did \<Rightarrow> string \<Rightarrow> string" where
  "pending_key peer_did message_id = peer_did @ '':'' @ message_id"

definition index_key :: "string \<Rightarrow> string" where
  "index_key message_id = ''idx:'' @ message_id"

definition index_value :: "string \<Rightarrow> string \<Rightarrow> bytes" where
  "index_value tag key = as_bytes (tag @ key)"

definition store_pending_message ::
  "'t store_env \<Rightarrow> 't message_db \<Rightarrow> did \<Rightarrow> direct_message \<Rightarrow> 't message_db" where
  "store_pending_message E db peer_did message =
     (let key = pending_key peer_did (dm_id message)
      in db\<lparr>db_pending_messages :=
              sl_insert (se_sled E) (db_pending_messages db) key (cd_encode (se_direct E) message),
            db_message_index :=
              sl_insert (se_sled E) (db_message_index db) (index_key (dm_id message))
                (index_value ''pending:'' key)\<rparr>)"

fun decode_all :: "'m codec \<Rightarrow> (string \<times> bytes) list \<Rightarrow> msg_error + 'm list" where
  "decode_all c [] = Inr []"
| "decode_all c ((k, v) # es) =
     (case cd_decode c v of
        None \<Rightarrow> Inl EProtocol
      | Some m \<Rightarrow> (case decode_all c es of Inl e \<Rightarrow> Inl e | Inr ms \<Rightarrow> Inr (m # ms)))"

definition fetch_pending_messages ::
  "'t store_env \<Rightarrow> 't message_db \<Rightarrow> did \<Rightarrow> msg_error + direct_message list" where
  "fetch_pending_messages E db peer_did =
     decode_all (se_direct E) (sl_scan_prefix (se_sled E) (db_pending_messages db) (peer_did @ '':''))"

text \<open>The key the reverse index holds for a message id, under the tag of one tree.\<close>

definition indexed_key :: "'t store_env \<Rightarrow> 't message_db \<Rightarrow> string \<Rightarrow> string \<Rightarrow> string option" where
  "indexed_key E db tag message_id =
     (case sl_get (se_sled E) (db_message_index db) (index_key message_id) of
        None \<Rightarrow> None
      | Some idx_val \<Rightarrow> strip_prefix tag (string_of_bytes idx_val))"

definition delete_pending_message :: "'t store_env \<Rightarrow> 't message_db \<Rightarrow> string \<Rightarrow> 't message_db" where
  "delete_pending_message E db message_id =
     (case indexed_key E db ''pending:'' message_id of
        Some full_key \<Rightarrow>
          db\<lparr>db_pending_messages := sl_remove (se_sled E) (db_pending_messages db) full_key,
             db_message_index := sl_remove (se_sled E) (db_message_index db) (index_key message_id)\<rparr>
      | None \<Rightarrow>
          (case find (\<lambda>e. suffix ('':'' @ message_id) (fst e)) (sl_iter (se_sled E) (db_pending_messages db)) of
             None \<Rightarrow> db
           | Some (key, _) \<Rightarrow>
               db\<lparr>db_pending_messages := sl_remove (se_sled E) (db_pending_messages db) key\<rparr>))"

definition is_message_pending :: "'t store_env \<Rightarrow> 't message_db \<Rightarrow> string \<Rightarrow> bool" where
  "is_message_pending E db message_id =
     (indexed_key E db ''pending:'' message_id \<noteq> None \<or>
      list_ex (\<lambda>e. suffix ('':'' @ message_id) (fst e)) (sl_iter (se_sled E) (db_pending_messages db)))"

definition list_peers_with_pending_messages :: "'t store_env \<Rightarrow> 't message_db \<Rightarrow> did set" where
  "list_peers_with_pending_messages E db =
     set (List.map_filter (\<lambda>e. map_option fst (rsplit_once CHR '':'' (fst e)))
       (sl_iter (se_sled E) (db_pending_messages db)))"

subsection \<open>The log as a set of messages\<close>

text \<open>
  \<open>direct_ok\<close> is what the program gives the store: DIDs of the form \<open>did:method:id\<close>, a
  ULID, and a millisecond timestamp that is not negative.
\<close>

definition direct_ok :: "direct_message \<Rightarrow> bool" where
  "direct_ok m \<longleftrightarrow> did_ok (dm_sender_did m) \<and> did_ok (dm_recipient_did m) \<and>
     stamp_ok (dm_timestamp m) \<and> no_colon (dm_id m)"

abbreviation direct_wf :: "'t store_env \<Rightarrow> 't message_db \<Rightarrow> bool" where
  "direct_wf E db \<equiv> log_wf (se_sled E) (se_direct E) dm_key direct_ok (db_direct db)"

definition direct_messages :: "'t store_env \<Rightarrow> 't message_db \<Rightarrow> direct_message set" where
  "direct_messages E db = log_messages (se_sled E) (se_direct E) (db_direct db)"

definition between :: "did \<Rightarrow> did \<Rightarrow> direct_message \<Rightarrow> bool" where
  "between a b m \<longleftrightarrow> {dm_sender_did m, dm_recipient_did m} = {a, b}"

lemma dm_key_eq:
  "dm_key m = conversation_id (dm_sender_did m) (dm_recipient_did m) @ CHR '':'' # fmt020 (dm_timestamp m) @ CHR '':'' # dm_id m"
  by (simp add: dm_key_def direct_key_eq)

lemma prefix_dm_key:
  "direct_ok m \<Longrightarrow> did_ok a \<Longrightarrow> did_ok b \<Longrightarrow> prefix (conversation_id a b @ '':'') (dm_key m) \<longleftrightarrow> between a b m"
  by (auto simp: dm_key_def prefix_direct_key direct_ok_def between_def)

lemma dm_key_inj:
  "direct_ok m \<Longrightarrow> direct_ok n \<Longrightarrow> dm_key m = dm_key n \<longleftrightarrow>
     {dm_sender_did m, dm_recipient_did m} = {dm_sender_did n, dm_recipient_did n} \<and>
     dm_timestamp m = dm_timestamp n \<and> dm_id m = dm_id n"
  by (simp add: dm_key_def direct_key_eq_iff direct_ok_def)

lemma cut_dm_key [key_simps]:
  "direct_ok m \<Longrightarrow> parse_direct_key (dm_key m)
     = Some (conversation_id (dm_sender_did m) (dm_recipient_did m), dm_timestamp m)"
  "direct_ok m \<Longrightarrow> after_last_colon (dm_key m) = Some (dm_id m)"
  by (simp_all add: dm_key_eq cut_key direct_ok_def after_last_colon_def rfind_key)

lemma direct_message_ok: "direct_wf E db \<Longrightarrow> m \<in> direct_messages E db \<Longrightarrow> direct_ok m"
  unfolding direct_messages_def by (drule (1) log_wf_get) blast

lemma direct_wf_new: "env_ok E \<Longrightarrow> direct_wf E (db_new E)"
  by (simp add: log_wf_new)

lemma direct_wf_store: "env_ok E \<Longrightarrow> direct_ok m \<Longrightarrow> direct_wf E db \<Longrightarrow> direct_wf E (store_direct E db m)"
  by (simp add: store_direct_def log_wf_insert)

lemma direct_wf_delete_conversation:
  "env_ok E \<Longrightarrow> direct_wf E db \<Longrightarrow> direct_wf E (delete_direct_conversation E db a b)"
  by (simp add: delete_direct_conversation_def Let_def log_wf_remove_all)

lemma direct_wf_delete_by_id:
  "env_ok E \<Longrightarrow> direct_wf E db \<Longrightarrow> direct_wf E (delete_direct_by_id E db a b t i)"
  by (simp add: delete_direct_by_id_def log_wf_remove)

lemma direct_wf_cleanup:
  "env_ok E \<Longrightarrow> direct_wf E db \<Longrightarrow> direct_wf E (fst (cleanup_old_direct_messages E db now age))"
  by (simp add: cleanup_old_direct_messages_def Let_def log_wf_remove_all)

lemmas direct_wf_intros =
  direct_wf_new direct_wf_store direct_wf_delete_conversation direct_wf_delete_by_id direct_wf_cleanup

lemma direct_messages_new [simp]: "env_ok E \<Longrightarrow> direct_messages E (db_new E) = {}"
  by (simp add: direct_messages_def log_messages_new)

lemma direct_messages_store:
  assumes "env_ok E" and "direct_wf E db"
  shows "direct_messages E (store_direct E db m) = insert m {n \<in> direct_messages E db. dm_key n \<noteq> dm_key m}"
  using log_messages_insert [of "se_sled E" "se_direct E" dm_key direct_ok "db_direct db" m] assms
  by (simp add: direct_messages_def store_direct_def)

lemma direct_messages_remove_all:
  assumes "env_ok E" and "direct_wf E db" and "db_direct db' = sl_remove_all (se_sled E) (db_direct db) ks"
  shows "direct_messages E db' = {m \<in> direct_messages E db. dm_key m \<notin> set ks}"
  using log_messages_remove_all [of "se_sled E" "se_direct E" dm_key direct_ok "db_direct db" ks] assms
  by (simp add: direct_messages_def)

lemma direct_entry:
  assumes "env_ok E" and "direct_wf E db"
  shows "k \<in> fst ` set (sl_iter (se_sled E) (db_direct db)) \<longleftrightarrow> (\<exists>m \<in> direct_messages E db. k = dm_key m)"
proof
  assume "k \<in> fst ` set (sl_iter (se_sled E) (db_direct db))"
  then obtain v where "sl_get (se_sled E) (db_direct db) k = Some v"
    using assms(1) by (auto simp: sled_iter_iff)
  moreover from this obtain m where "cd_decode (se_direct E) v = Some m" "dm_key m = k"
    using assms(2) unfolding log_wf_def by blast
  ultimately show "\<exists>m \<in> direct_messages E db. k = dm_key m"
    unfolding direct_messages_def log_messages_def by blast
next
  assume "\<exists>m \<in> direct_messages E db. k = dm_key m"
  then obtain m v where "sl_get (se_sled E) (db_direct db) k = Some v"
    using assms(2) unfolding direct_messages_def by (blast dest: log_wf_get)
  then have "(k, v) \<in> set (sl_iter (se_sled E) (db_direct db))"
    using assms(1) by (simp add: sled_iter_iff)
  then show "k \<in> fst ` set (sl_iter (se_sled E) (db_direct db))" by force
qed

subsection \<open>Fetching a conversation\<close>

definition conversation_log ::
  "'t store_env \<Rightarrow> 't message_db \<Rightarrow> did \<Rightarrow> did \<Rightarrow> int option \<Rightarrow> direct_message list" where
  "conversation_log E db a b before = filter (\<lambda>m. before_cutoff before (dm_timestamp m))
     (decoded (se_direct E)
       (filter (\<lambda>e. prefix (conversation_id a b @ '':'') (fst e)) (sl_iter (se_sled E) (db_direct db))))"

lemma fetch_direct_as_suffix:
  "env_ok E \<Longrightarrow> fetch_direct E db a b n before =
     drop (length (conversation_log E db a b before) - n) (conversation_log E db a b before)"
  by (simp add: fetch_direct_def Let_def newest_eq sled_scan conversation_log_def)

lemma direct_sorted_by_time:
  assumes "sorted_wrt (\<lambda>m n. dm_key m < dm_key n) xs" and "\<forall>m \<in> set xs. direct_ok m \<and> between a b m"
  shows "sorted (map dm_timestamp xs)"
  using assms
proof (induction xs)
  case (Cons x xs)
  have "dm_timestamp x \<le> dm_timestamp y" if "y \<in> set xs" for y
  proof -
    have x: "direct_ok x" "between a b x" and y: "direct_ok y" "between a b y" and lt: "dm_key x < dm_key y"
      using Cons.prems that by auto
    have c: "conversation_id (dm_sender_did x) (dm_recipient_did x) = conversation_id (dm_sender_did y) (dm_recipient_did y)"
      using x y by (simp add: conversation_id_eq_iff direct_ok_def between_def)
    show ?thesis
      using lt x(1) y(1) unfolding dm_key_eq c by (intro stamped_key_order) (simp_all add: direct_ok_def)
  qed
  with Cons show ?case by auto
qed simp

lemma conversation_log:
  assumes "env_ok E" and "direct_wf E db" and "did_ok a" and "did_ok b"
  shows "set (conversation_log E db a b before)
      = {m \<in> direct_messages E db. between a b m \<and> before_cutoff before (dm_timestamp m)}"
    and "sorted (map dm_timestamp (conversation_log E db a b before))"
    and "distinct (conversation_log E db a b before)"
proof -
  let ?p = "prefix (conversation_id a b @ '':'')"
  let ?ds = "decoded (se_direct E) (filter (\<lambda>e. ?p (fst e)) (sl_iter (se_sled E) (db_direct db)))"
  note l = log_listing [of "se_sled E" "se_direct E" dm_key direct_ok "db_direct db" ?p,
      OF env_okD(1) [OF assms(1)] assms(2)]
  have set_ds: "set ?ds = {m \<in> direct_messages E db. between a b m}"
    using set_decoded_filter [of "se_sled E" "se_direct E" dm_key direct_ok "db_direct db" ?p]
      assms(1,2) direct_message_ok [OF assms(2)] prefix_dm_key [OF _ assms(3,4)]
    by (auto simp: direct_messages_def)
  then show set_log: "set (conversation_log E db a b before)
      = {m \<in> direct_messages E db. between a b m \<and> before_cutoff before (dm_timestamp m)}"
    by (auto simp: conversation_log_def)
  have "\<forall>m \<in> set (conversation_log E db a b before). direct_ok m \<and> between a b m"
    using set_log direct_message_ok [OF assms(2)] by auto
  moreover have "sorted_wrt (\<lambda>m n. dm_key m < dm_key n) (conversation_log E db a b before)"
    using l(2) by (simp add: conversation_log_def sorted_wrt_filter)
  ultimately show "sorted (map dm_timestamp (conversation_log E db a b before))"
    by (rule direct_sorted_by_time [rotated])
  show "distinct (conversation_log E db a b before)" using l(3) by (simp add: conversation_log_def)
qed

text \<open>C29. \<open>impl_fetch_direct\<close> returns, in chronological order and without repeats, messages of the
  conversation of the two DIDs (in either direction) that are older than the cutoff: as many as
  the limit allows, and the most recent ones, so that no message left out is newer than one returned.\<close>

theorem fetch_direct_recent:
  assumes "env_ok E" and "direct_wf E db" and "did_ok a" and "did_ok b"
  shows "let out = fetch_direct E db a b limit before;
             conv = {m \<in> direct_messages E db. between a b m \<and> before_cutoff before (dm_timestamp m)}
         in sorted (map dm_timestamp out) \<and> distinct out \<and> set out \<subseteq> conv \<and>
            length out = min limit (card conv) \<and>
            (\<forall>m \<in> conv - set out. \<forall>m' \<in> set out. dm_timestamp m \<le> dm_timestamp m')"
  using conversation_log [OF assms, of before]
    newest_sorted [OF conversation_log(2,3) [OF assms, of before], of limit]
  unfolding fetch_direct_as_suffix [OF assms(1)] Let_def
  by (auto dest: in_set_dropD)

text \<open>Two stored messages, limit one: the newer one is returned.\<close>

definition sample_direct :: "string \<Rightarrow> int \<Rightarrow> direct_message" where
  "sample_direct mid ts =
     \<lparr>dm_id = mid, dm_sender_did = ''did:variance:aa'', dm_recipient_did = ''did:variance:bb'', dm_ciphertext = [1, 2],
      dm_olm_message_type = 0, dm_signature = [], dm_timestamp = ts, dm_type = 0, dm_reply_to = None,
      dm_sender_identity_key = None\<rparr>"

lemma sample_direct_simps [simp]:
  "dm_id (sample_direct i t) = i" "dm_timestamp (sample_direct i t) = t"
  "dm_sender_did (sample_direct i t) = ''did:variance:aa''"
  "dm_recipient_did (sample_direct i t) = ''did:variance:bb''"
  by (simp_all add: sample_direct_def)

lemma sample_dids [simp]: "did_ok ''did:variance:aa''" "did_ok ''did:variance:bb''" "did_ok ''did:variance:cc''"
  by (simp_all add: did_ok_def)

lemma sample_direct_ok: "0 \<le> t \<Longrightarrow> t < 1000000 \<Longrightarrow> no_colon i \<Longrightarrow> direct_ok (sample_direct i t)"
  by (simp add: direct_ok_def stamp_ok_def in_i64_def i64_min_def i64_max_def)

definition sample_direct_db :: "(string, bytes) rbt message_db" where
  "sample_direct_db = store_direct rbt_env (store_direct rbt_env (db_new rbt_env) (sample_direct ''A'' 5)) (sample_direct ''B'' 7)"

lemma sample_direct_db:
  "direct_wf rbt_env sample_direct_db"
  "direct_messages rbt_env sample_direct_db = {sample_direct ''A'' 5, sample_direct ''B'' 7}"
proof -
  have ok: "direct_ok (sample_direct ''A'' 5)" "direct_ok (sample_direct ''B'' 7)"
    by (simp_all add: sample_direct_ok no_colon_def)
  have 1: "direct_wf rbt_env (store_direct rbt_env (db_new rbt_env) (sample_direct ''A'' 5))"
    by (intro direct_wf_intros rbt_env_ok ok)
  then show "direct_wf rbt_env sample_direct_db"
    unfolding sample_direct_db_def by (intro direct_wf_intros rbt_env_ok ok)
  have "dm_key (sample_direct ''A'' 5) \<noteq> dm_key (sample_direct ''B'' 7)"
    using ok by (simp add: dm_key_inj)
  then show "direct_messages rbt_env sample_direct_db = {sample_direct ''A'' 5, sample_direct ''B'' 7}"
    unfolding sample_direct_db_def
    using 1 direct_wf_new [OF rbt_env_ok]
    by (auto simp: direct_messages_store rbt_env_ok)
qed

theorem fetch_direct_recent_witness:
  "fetch_direct rbt_env sample_direct_db ''did:variance:bb'' ''did:variance:aa'' 1 None = [sample_direct ''B'' 7]"
proof -
  let ?out = "fetch_direct rbt_env sample_direct_db ''did:variance:bb'' ''did:variance:aa'' 1 None"
  let ?a = "sample_direct ''A'' 5" and ?b = "sample_direct ''B'' 7"
  have ne: "?a \<noteq> ?b" by (simp add: sample_direct_def)
  have conv: "{m \<in> direct_messages rbt_env sample_direct_db. between ''did:variance:bb'' ''did:variance:aa'' m
      \<and> before_cutoff None (dm_timestamp m)} = {?a, ?b}"
    unfolding sample_direct_db(2) by (auto simp: between_def before_cutoff_def)
  note f = fetch_direct_recent [OF rbt_env_ok sample_direct_db(1) sample_dids(2,1), of 1 None, unfolded Let_def conv]
  have "set ?out \<subseteq> {?a, ?b}" using f by (elim conjE)
  moreover have "\<forall>m \<in> {?a, ?b} - set ?out. \<forall>m' \<in> set ?out. dm_timestamp m \<le> dm_timestamp m'"
    using f by (elim conjE)
  ultimately have out: "set ?out \<subseteq> {?a, ?b}"
    "\<forall>m \<in> {?a, ?b} - set ?out. \<forall>m' \<in> set ?out. dm_timestamp m \<le> dm_timestamp m'" .
  have "length ?out = min 1 (card {?a, ?b})" using f by (elim conjE)
  with ne have "length ?out = 1" by simp
  then obtain x where x: "?out = [x]" by (auto simp: length_Suc_conv)
  have "x \<noteq> ?a"
  proof
    assume "x = ?a"
    then have "?b \<in> {?a, ?b} - set ?out" "?a \<in> set ?out"
      using ne unfolding x by simp_all
    from bspec [OF bspec [OF out(2) this(1)] this(2)] show False by simp
  qed
  moreover have "x \<in> {?a, ?b}" using out(1) unfolding x by (simp only: set_simps insert_subset)
  ultimately show ?thesis unfolding x by blast
qed

subsection \<open>Deleting\<close>

lemma scan_conversation_keys:
  assumes "env_ok E" and "direct_wf E db" and "did_ok a" and "did_ok b"
  shows "set (map fst (sl_scan_prefix (se_sled E) (db_direct db) (conversation_id a b @ '':'')))
    = dm_key ` {m \<in> direct_messages E db. between a b m}"
proof -
  have "set (map fst (filter (\<lambda>e. P (fst e)) xs)) = {k \<in> fst ` set xs. P k}" for P and xs :: "(string \<times> bytes) list"
    by auto
  then have "set (map fst (sl_scan_prefix (se_sled E) (db_direct db) (conversation_id a b @ '':'')))
    = {k \<in> fst ` set (sl_iter (se_sled E) (db_direct db)). prefix (conversation_id a b @ '':'') k}"
    using assms(1) by (simp only: sled_scan env_okD(1))
  also have "\<dots> = {k. \<exists>m \<in> direct_messages E db. k = dm_key m \<and> prefix (conversation_id a b @ '':'') (dm_key m)}"
    unfolding direct_entry [OF assms(1,2)] by blast
  also have "\<dots> = {k. \<exists>m \<in> direct_messages E db. k = dm_key m \<and> between a b m}"
    using prefix_dm_key [OF direct_message_ok [OF assms(2)] assms(3,4)] by (simp cong: bex_cong conj_cong)
  also have "\<dots> = dm_key ` {m \<in> direct_messages E db. between a b m}"
    by blast
  finally show ?thesis .
qed

lemma delete_conversation_ids:
  assumes "env_ok E" and "direct_wf E db" and "did_ok a" and "did_ok b"
  shows "set (List.map_filter after_last_colon
      (map fst (sl_scan_prefix (se_sled E) (db_direct db) (conversation_id a b @ '':''))))
    = dm_id ` {m \<in> direct_messages E db. between a b m}"
proof -
  have "set (List.map_filter after_last_colon ks) = {i. \<exists>k \<in> set ks. after_last_colon k = Some i}" for ks
    by (force simp: List.map_filter_def)
  then have "set (List.map_filter after_last_colon
      (map fst (sl_scan_prefix (se_sled E) (db_direct db) (conversation_id a b @ '':''))))
    = {i. \<exists>m \<in> {m \<in> direct_messages E db. between a b m}. after_last_colon (dm_key m) = Some i}"
    using scan_conversation_keys [OF assms] by (simp only: bex_simps)
  then show ?thesis
    using direct_message_ok [OF assms(2)] by (auto simp: key_simps)
qed

text \<open>Deleting a conversation removes from the log exactly the messages between the two DIDs, and
  from the plaintext cache exactly their ids: every other message and every other cached
  plaintext stays readable.\<close>

theorem delete_conversation_exact:
  assumes "env_ok E" and "direct_wf E db" and "did_ok a" and "did_ok b"
  shows "direct_messages E (delete_direct_conversation E db a b) = {m \<in> direct_messages E db. \<not> between a b m} \<and>
    (\<forall>i. fetch_plaintext E (delete_direct_conversation E db a b) i =
       (if \<exists>m \<in> direct_messages E db. between a b m \<and> dm_id m = i then None else fetch_plaintext E db i))"
proof (rule conjI)
  let ?ks = "map fst (sl_scan_prefix (se_sled E) (db_direct db) (conversation_id a b @ '':''))"
  have "db_direct (delete_direct_conversation E db a b) = sl_remove_all (se_sled E) (db_direct db) ?ks"
    by (simp add: delete_direct_conversation_def Let_def)
  then have "direct_messages E (delete_direct_conversation E db a b)
      = {m \<in> direct_messages E db. dm_key m \<notin> dm_key ` {m \<in> direct_messages E db. between a b m}}"
    unfolding scan_conversation_keys [OF assms, symmetric] by (rule direct_messages_remove_all [OF assms(1,2)])
  moreover have "dm_key m \<in> dm_key ` {m \<in> direct_messages E db. between a b m} \<longleftrightarrow> between a b m"
    if "m \<in> direct_messages E db" for m
  proof
    assume "dm_key m \<in> dm_key ` {m \<in> direct_messages E db. between a b m}"
    then obtain n where "n \<in> direct_messages E db" "between a b n" "dm_key m = dm_key n" by blast
    then show "between a b m"
      using that direct_message_ok [OF assms(2)] by (simp add: dm_key_inj between_def)
  qed (use that in blast)
  ultimately show "direct_messages E (delete_direct_conversation E db a b) = {m \<in> direct_messages E db. \<not> between a b m}"
    by blast
  show "\<forall>i. fetch_plaintext E (delete_direct_conversation E db a b) i =
       (if \<exists>m \<in> direct_messages E db. between a b m \<and> dm_id m = i then None else fetch_plaintext E db i)"
    using assms(1) delete_conversation_ids [OF assms]
    by (auto simp: fetch_plaintext_def delete_direct_conversation_def Let_def sled_get_remove_all)
qed

theorem delete_conversation_exact_witness:
  "direct_messages rbt_env (delete_direct_conversation rbt_env sample_direct_db ''did:variance:aa'' ''did:variance:bb'') = {} \<and>
   direct_messages rbt_env (delete_direct_conversation rbt_env sample_direct_db ''did:variance:aa'' ''did:variance:cc'')
     = {sample_direct ''A'' 5, sample_direct ''B'' 7}"
  using delete_conversation_exact [OF rbt_env_ok sample_direct_db(1) sample_dids(1,2)]
    delete_conversation_exact [OF rbt_env_ok sample_direct_db(1) sample_dids(1,3)]
  by (auto simp: sample_direct_db(2) between_def doubleton_eq_iff)

lemma delete_by_id_exact:
  assumes "env_ok E" and "direct_wf E db"
  shows "direct_messages E (delete_direct_by_id E db a b t i) = {m \<in> direct_messages E db. dm_key m \<noteq> direct_key a b t i}"
  using direct_messages_remove_all [OF assms, of _ "[direct_key a b t i]"] by (simp add: delete_direct_by_id_def)

end
