(* ===== verification/Conversations.thy ===== *)
theory Conversations
  imports Direct_Store
begin

section \<open>The conversation list and the retention of direct messages\<close>

text \<open>
  What \<open>impl_list_direct_conversations\<close> computes in one pass over the log is, for every
  peer, the maximum of two sets of timestamps; \<open>conversation_summary\<close> is that
  specification.
\<close>

definition conversation_summary :: "did \<Rightarrow> did \<Rightarrow> direct_message set \<Rightarrow> (int \<times> int option) option" where
  "conversation_summary l p M =
     (let C = {m \<in> M. between l p m};
          R = {m \<in> C. dm_sender_did m \<noteq> l}
      in if C = {} then None
         else Some (Max (dm_timestamp ` C), if R = {} then None else Some (Max (dm_timestamp ` R))))"

lemma conversation_summary_empty [simp]: "conversation_summary l p {} = None"
  by (simp add: conversation_summary_def)

definition summary_step :: "did \<Rightarrow> direct_message \<Rightarrow> (int \<times> int option) option \<Rightarrow> int \<times> int option" where
  "summary_step l m e =
     (let (latest, peer_latest) = (case e of None \<Rightarrow> (i64_min, None) | Some e \<Rightarrow> e)
      in (max latest (dm_timestamp m),
          if dm_sender_did m \<noteq> l
          then Some (max (case peer_latest of None \<Rightarrow> i64_min | Some x \<Rightarrow> x) (dm_timestamp m))
          else peer_latest))"

lemma Max_insert_cases:
  fixes t :: int
  shows "finite S \<Longrightarrow> Max (insert t S) = (if S = {} then t else max (Max S) t)"
  by (simp add: max.commute)

lemma conversation_summary_insert:
  assumes "finite M" and "stamp_ok (dm_timestamp m)"
  shows "conversation_summary l p (insert m M) =
    (if between l p m then Some (summary_step l m (conversation_summary l p M)) else conversation_summary l p M)"
proof (cases "between l p m")
  case False
  then have "{n \<in> insert m M. between l p n} = {n \<in> M. between l p n}" by auto
  with False show ?thesis by (simp add: conversation_summary_def)
next
  case True
  define C where "C = {n \<in> M. between l p n}"
  define R where "R = {n \<in> C. dm_sender_did n \<noteq> l}"
  have C: "{n \<in> insert m M. between l p n} = insert m C" using True by (auto simp: C_def)
  have R: "{n \<in> insert m C. dm_sender_did n \<noteq> l} = (if dm_sender_did m \<noteq> l then insert m R else R)"
    by (auto simp: R_def)
  have fin: "finite C" "finite R" using assms(1) by (simp_all add: C_def R_def)
  have lo: "max i64_min (dm_timestamp m) = dm_timestamp m"
    using assms(2) by (simp add: stamp_ok_def in_i64_def)
  have CR: "R \<noteq> {} \<Longrightarrow> C \<noteq> {}" by (auto simp: R_def)
  have s: "conversation_summary l p M =
    (if C = {} then None else Some (Max (dm_timestamp ` C), if R = {} then None else Some (Max (dm_timestamp ` R))))"
    unfolding conversation_summary_def Let_def C_def R_def by (rule refl)
  have "conversation_summary l p (insert m M) = Some (Max (dm_timestamp ` insert m C),
      let R' = (if dm_sender_did m \<noteq> l then insert m R else R)
      in if R' = {} then None else Some (Max (dm_timestamp ` R')))"
    by (simp only: conversation_summary_def Let_def C R) simp
  with True fin lo CR show ?thesis
    unfolding s by (auto simp: summary_step_def Max_insert_cases Let_def)
qed

lemma peer_of_dm_key:
  assumes "direct_ok m" and "did_ok l"
  shows "peer_did_from_conv_id (conversation_id (dm_sender_did m) (dm_recipient_did m)) l = Some p \<longleftrightarrow> between l p m"
proof
  assume "peer_did_from_conv_id (conversation_id (dm_sender_did m) (dm_recipient_did m)) l = Some p"
  then show "between l p m"
    using peer_did_from_conv_id_Some assms by (simp add: direct_ok_def between_def)
next
  assume b: "between l p m"
  then have p: "did_ok p" using assms by (auto simp: between_def direct_ok_def doubleton_eq_iff)
  have "conversation_id (dm_sender_did m) (dm_recipient_did m) = conversation_id l p"
    using b assms p by (simp add: conversation_id_eq_iff between_def direct_ok_def)
  then show "peer_did_from_conv_id (conversation_id (dm_sender_did m) (dm_recipient_did m)) l = Some p"
    using peer_of_conversation [OF assms(2) p] by simp
qed

lemma conversation_entry_step:
  assumes "cd_decode (se_direct E) v = Some m" and "direct_ok m" and "did_ok l"
  shows "map_of (conversation_entry E l (dm_key m, v) cs) p =
    (if between l p m then Some (summary_step l m (map_of cs p)) else map_of cs p)"
proof (cases "peer_did_from_conv_id (conversation_id (dm_sender_did m) (dm_recipient_did m)) l")
  case None
  then have "\<not> between l p m" using peer_of_dm_key [OF assms(2,3)] by simp
  with None assms show ?thesis by (simp add: conversation_entry_def key_simps)
next
  case (Some q)
  then have b: "between l p m \<longleftrightarrow> p = q" using peer_of_dm_key [OF assms(2,3), of p] by auto
  show ?thesis
    using Some assms
    by (auto simp: b conversation_entry_def key_simps summary_step_def update_conv max_def Let_def
        split: option.splits prod.splits)
qed

lemma conversation_fold:
  assumes "\<forall>(k, v) \<in> set es. \<exists>m. cd_decode (se_direct E) v = Some m \<and> dm_key m = k \<and> direct_ok m"
    and "did_ok l" and "finite M" and "\<forall>p. map_of cs p = conversation_summary l p M"
  shows "map_of (fold (conversation_entry E l) es cs) p = conversation_summary l p (M \<union> set (decoded (se_direct E) es))"
  using assms
proof (induction es arbitrary: cs M)
  case (Cons e es)
  obtain k v where e: "e = (k, v)" by (cases e)
  obtain m where m: "cd_decode (se_direct E) v = Some m" "dm_key m = k" "direct_ok m"
    using Cons.prems(1) e by auto
  have "\<forall>q. map_of (conversation_entry E l e cs) q = conversation_summary l q (insert m M)"
    using conversation_entry_step [OF m(1,3) Cons.prems(2)] conversation_summary_insert [OF Cons.prems(3)]
      m Cons.prems(4) by (simp add: e direct_ok_def)
  with Cons.IH [of "insert m M" "conversation_entry E l e cs"] Cons.prems m show ?case
    by (simp add: e)
qed simp

lemma distinct_conversation_fold:
  "distinct (map fst cs) \<Longrightarrow> distinct (map fst (fold (conversation_entry E l) es cs))"
proof (induction es arbitrary: cs)
  case (Cons e es)
  have "distinct (map fst (conversation_entry E l e cs))"
    using Cons.prems by (auto simp: conversation_entry_def Let_def distinct_update split: option.splits prod.splits)
  then show ?case by (simp add: Cons.IH)
qed simp

text \<open>C30. The conversation list has one row for every peer the local DID has a stored message with, no
  other row, no peer twice: its times are the newest message of the conversation and the newest
  one the peer sent, and the rows go from the most recently active conversation down.\<close>

theorem conversation_list_exact:
  assumes "env_ok E" and "direct_wf E db" and "did_ok l"
  shows "let rows = list_direct_conversations E db l
    in (\<forall>p latest peer_latest. (p, latest, peer_latest) \<in> set rows \<longleftrightarrow>
          conversation_summary l p (direct_messages E db) = Some (latest, peer_latest)) \<and>
       distinct (map fst rows) \<and> sorted_wrt (\<lambda>r s. fst (snd s) \<le> fst (snd r)) rows"
proof -
  define es where "es = sl_iter (se_sled E) (db_direct db)"
  define cs where "cs = fold (conversation_entry E l) es []"
  have wf: "\<forall>(k, v) \<in> set es. \<exists>m. cd_decode (se_direct E) v = Some m \<and> dm_key m = k \<and> direct_ok m"
    using assms(1,2) by (auto simp: es_def sled_iter_iff log_wf_def)
  have "set (decoded (se_direct E) es) = direct_messages E db"
    using set_decoded_filter [of "se_sled E" "se_direct E" dm_key direct_ok "db_direct db" "\<lambda>_. True"] assms(1,2)
    by (simp add: es_def direct_messages_def)
  then have m: "map_of cs p = conversation_summary l p (direct_messages E db)" for p
    using conversation_fold [OF wf assms(3), of "{}" "[]" p] by (simp add: cs_def)
  have d: "distinct (map fst cs)" by (simp add: cs_def distinct_conversation_fold)
  have rows: "list_direct_conversations E db l = sort_key (\<lambda>item. - fst (snd item)) cs"
    by (simp add: list_direct_conversations_def cs_def es_def)
  have "(p, q) \<in> set cs \<longleftrightarrow> conversation_summary l p (direct_messages E db) = Some q" for p q
    using m d by (metis map_of_eq_Some_iff)
  moreover have "distinct (map fst (sort_key f cs))" for f :: "did \<times> int \<times> int option \<Rightarrow> int"
    using d by (simp add: distinct_map)
  moreover have "sorted_wrt (\<lambda>r s. fst (snd s) \<le> fst (snd r)) (sort_key (\<lambda>item. - fst (snd item)) cs)"
    using sorted_sort_key [of "\<lambda>item. - fst (snd item)" cs] by (simp add: sorted_wrt_map)
  ultimately show ?thesis by (simp add: rows Let_def)
qed

theorem conversation_list_exact_witness:
  "(''did:variance:aa'', 7, Some 7) \<in> set (list_direct_conversations rbt_env sample_direct_db ''did:variance:bb'') \<and>
   (''did:variance:bb'', 7, None) \<in> set (list_direct_conversations rbt_env sample_direct_db ''did:variance:aa'')"
proof -
  have "{m \<in> {sample_direct ''A'' 5, sample_direct ''B'' 7}. between ''did:variance:bb'' ''did:variance:aa'' m}
      = {sample_direct ''A'' 5, sample_direct ''B'' 7}"
    "{m \<in> {sample_direct ''A'' 5, sample_direct ''B'' 7}. between ''did:variance:aa'' ''did:variance:bb'' m}
      = {sample_direct ''A'' 5, sample_direct ''B'' 7}"
    by (auto simp: between_def)
  moreover have "{m \<in> {sample_direct ''A'' 5, sample_direct ''B'' 7}. dm_sender_did m \<noteq> ''did:variance:bb''}
      = {sample_direct ''A'' 5, sample_direct ''B'' 7}"
    "{m \<in> {sample_direct ''A'' 5, sample_direct ''B'' 7}. dm_sender_did m \<noteq> ''did:variance:aa''} = {}"
    by auto
  ultimately have "conversation_summary ''did:variance:bb'' ''did:variance:aa'' (direct_messages rbt_env sample_direct_db) = Some (7, Some 7)"
    "conversation_summary ''did:variance:aa'' ''did:variance:bb'' (direct_messages rbt_env sample_direct_db) = Some (7, None)"
    by (simp_all add: conversation_summary_def sample_direct_db(2) Let_def)
  then show ?thesis
    using conversation_list_exact [OF rbt_env_ok sample_direct_db(1) sample_dids(2)]
      conversation_list_exact [OF rbt_env_ok sample_direct_db(1) sample_dids(1)]
    unfolding Let_def by blast
qed

subsection \<open>Retention\<close>

text \<open>\<open>cleanup_old_direct_messages\<close> keeps exactly the messages that are not older than
  \<open>now - max_age\<close> and reports how many it deleted.\<close>

theorem cleanup_direct_exact:
  assumes "env_ok E" and "direct_wf E db" and "in_i64 (now - int max_age)" and "in_i64 (int max_age)"
  shows "direct_messages E (fst (cleanup_old_direct_messages E db now max_age))
      = {m \<in> direct_messages E db. now - int max_age \<le> dm_timestamp m} \<and>
    snd (cleanup_old_direct_messages E db now max_age)
      = card {m \<in> direct_messages E db. dm_timestamp m < now - int max_age}"
proof -
  define old where "old = (\<lambda>key. case parse_direct_key key of None \<Rightarrow> False | Some (_, ts) \<Rightarrow> ts < now - int max_age)"
  define ks where "ks = filter old (map fst (sl_iter (se_sled E) (db_direct db)))"
  have cut: "cleanup_old_direct_messages E db now max_age
      = (db\<lparr>db_direct := sl_remove_all (se_sled E) (db_direct db) ks\<rparr>, length ks)"
    using assms(3,4) by (simp add: cleanup_old_direct_messages_def ks_def old_def sub_i64_exact Let_def)
  have old: "old (dm_key m) \<longleftrightarrow> dm_timestamp m < now - int max_age" if "m \<in> direct_messages E db" for m
    using direct_message_ok [OF assms(2) that] by (simp add: old_def key_simps)
  have inj: "inj_on dm_key (direct_messages E db)"
  proof (rule inj_onI)
    fix m n assume "m \<in> direct_messages E db" "n \<in> direct_messages E db" "dm_key m = dm_key n"
    then show "m = n"
      using log_wf_get [OF assms(2)] unfolding direct_messages_def by (metis option.inject)
  qed
  have set_ks: "set ks = dm_key ` {m \<in> direct_messages E db. dm_timestamp m < now - int max_age}"
  proof -
    have "set ks = {k \<in> fst ` set (sl_iter (se_sled E) (db_direct db)). old k}" by (simp add: ks_def)
    also have "\<dots> = {k. \<exists>m \<in> direct_messages E db. k = dm_key m \<and> old (dm_key m)}"
      unfolding direct_entry [OF assms(1,2)] by blast
    also have "\<dots> = {k. \<exists>m \<in> direct_messages E db. k = dm_key m \<and> dm_timestamp m < now - int max_age}"
      using old by (simp cong: bex_cong conj_cong)
    finally show ?thesis by blast
  qed
  have "direct_messages E (fst (cleanup_old_direct_messages E db now max_age)) = {m \<in> direct_messages E db. dm_key m \<notin> set ks}"
    by (rule direct_messages_remove_all [OF assms(1,2)]) (simp add: cut)
  also have "\<dots> = {m \<in> direct_messages E db. now - int max_age \<le> dm_timestamp m}"
    unfolding set_ks using inj by (auto simp: inj_on_def)
  finally have 1: "direct_messages E (fst (cleanup_old_direct_messages E db now max_age))
      = {m \<in> direct_messages E db. now - int max_age \<le> dm_timestamp m}" .
  have "distinct ks"
    using sled_distinct [of "se_sled E" "db_direct db"] assms(1) by (simp add: ks_def)
  then have "length ks = card (dm_key ` {m \<in> direct_messages E db. dm_timestamp m < now - int max_age})"
    unfolding set_ks [symmetric] by (simp add: distinct_card)
  also have "\<dots> = card {m \<in> direct_messages E db. dm_timestamp m < now - int max_age}"
    by (rule card_image) (rule inj_on_subset [OF inj], blast)
  finally show ?thesis using 1 by (simp add: cut)
qed

theorem cleanup_direct_exact_witness:
  "direct_messages rbt_env (fst (cleanup_old_direct_messages rbt_env sample_direct_db 10 4)) = {sample_direct ''B'' 7}"
proof -
  have "in_i64 (10 - int 4)" "in_i64 (int 4)" by (simp_all add: in_i64_def i64_min_def i64_max_def)
  note c = conjunct1 [OF cleanup_direct_exact [OF rbt_env_ok sample_direct_db(1) this]]
  have "{m \<in> {sample_direct ''A'' 5, sample_direct ''B'' 7}. 10 - int 4 \<le> dm_timestamp m} = {sample_direct ''B'' 7}"
    by auto
  then show ?thesis unfolding c sample_direct_db(2) .
qed

end
