(* ===== verification/Pending_Queue.thy ===== *)
theory Pending_Queue
  imports Conversations
begin

section \<open>The queue of pending messages\<close>

text \<open>
  The pending tree and its reverse index together represent a set of pairs of a peer and a
  message waiting for it. \<open>pending_wf\<close> is the representation invariant: every entry is a
  message under its own key, the index names that key, and no index entry dangles. Each
  operation is shown to act on the set.
\<close>

definition pending_entry_ok :: "'t store_env \<Rightarrow> 't message_db \<Rightarrow> string \<Rightarrow> bytes \<Rightarrow> bool" where
  "pending_entry_ok E db k v \<longleftrightarrow>
     (\<exists>p m. k = pending_key p (dm_id m) \<and> cd_decode (se_direct E) v = Some m \<and> did_ok p \<and> no_colon (dm_id m) \<and>
        indexed_key E db ''pending:'' (dm_id m) = Some k)"

definition pending_wf :: "'t store_env \<Rightarrow> 't message_db \<Rightarrow> bool" where
  "pending_wf E db \<longleftrightarrow>
     (\<forall>k v. sl_get (se_sled E) (db_pending_messages db) k = Some v \<longrightarrow> pending_entry_ok E db k v) \<and>
     (\<forall>i k. indexed_key E db ''pending:'' i = Some k \<longrightarrow>
        sl_get (se_sled E) (db_pending_messages db) k \<noteq> None \<and> (\<exists>p. k = pending_key p i \<and> did_ok p \<and> no_colon i))"

definition pending :: "'t store_env \<Rightarrow> 't message_db \<Rightarrow> (did \<times> direct_message) set" where
  "pending E db = {(p, m). \<exists>v. sl_get (se_sled E) (db_pending_messages db) (pending_key p (dm_id m)) = Some v \<and>
     cd_decode (se_direct E) v = Some m \<and> did_ok p \<and> no_colon (dm_id m)}"

lemma pending_key_eq: "pending_key p i = p @ CHR '':'' # i"
  by (simp add: pending_key_def)

lemma pending_key_inj: "no_colon i \<Longrightarrow> no_colon j \<Longrightarrow> pending_key p i = pending_key q j \<longleftrightarrow> p = q \<and> i = j"
  unfolding pending_key_eq no_colon_def using split_at_last [of p "CHR '':''" i q j] by auto

lemma suffix_pending_key: "no_colon i \<Longrightarrow> no_colon j \<Longrightarrow> suffix ('':'' @ j) (pending_key p i) \<longleftrightarrow> i = j"
proof
  assume ij: "no_colon i" "no_colon j" and "suffix ('':'' @ j) (pending_key p i)"
  then obtain z where "p @ CHR '':'' # i = z @ CHR '':'' # j" by (auto simp: suffix_def pending_key_eq)
  then show "i = j" using ij split_at_last unfolding no_colon_def by blast
qed (auto simp: suffix_def pending_key_eq)

lemma prefix_pending_key:
  "did_ok p \<Longrightarrow> did_ok q \<Longrightarrow> prefix (p @ '':'') (pending_key q i) \<longleftrightarrow> p = q"
  using prefix_by_colons [of p q i] by (auto simp: pending_key_eq did_ok_def)

lemma rsplit_pending_key: "no_colon i \<Longrightarrow> rsplit_once CHR '':'' (pending_key p i) = Some (p, i)"
  by (simp add: pending_key_eq no_colon_def)

lemma index_key_inj [simp]: "index_key i = index_key j \<longleftrightarrow> i = j"
  by (simp add: index_key_def)

lemma pending_entryE:
  assumes "pending_wf E db" and "sl_get (se_sled E) (db_pending_messages db) k = Some v"
  obtains p m where "k = pending_key p (dm_id m)" "cd_decode (se_direct E) v = Some m" "did_ok p"
    "no_colon (dm_id m)" "indexed_key E db ''pending:'' (dm_id m) = Some k" "(p, m) \<in> pending E db"
proof -
  from assms obtain p m where
    *: "k = pending_key p (dm_id m)" "cd_decode (se_direct E) v = Some m" "did_ok p" "no_colon (dm_id m)"
      "indexed_key E db ''pending:'' (dm_id m) = Some k"
    unfolding pending_wf_def pending_entry_ok_def by blast
  moreover have "(p, m) \<in> pending E db" using * assms(2) by (auto simp: pending_def)
  ultimately show ?thesis by (rule that)
qed

lemma pending_indexed:
  assumes "pending_wf E db" and "(p, m) \<in> pending E db"
  shows "indexed_key E db ''pending:'' (dm_id m) = Some (pending_key p (dm_id m))"
proof -
  from assms(2) obtain v where
    v: "sl_get (se_sled E) (db_pending_messages db) (pending_key p (dm_id m)) = Some v" "no_colon (dm_id m)"
    unfolding pending_def by blast
  show ?thesis
  proof (rule pending_entryE [OF assms(1) v(1)])
    fix q n
    assume "pending_key p (dm_id m) = pending_key q (dm_id n)" and "no_colon (dm_id n)"
      and x: "indexed_key E db ''pending:'' (dm_id n) = Some (pending_key p (dm_id m))"
    with v(2) have "dm_id n = dm_id m" by (simp add: pending_key_inj)
    with x show ?thesis by simp
  qed
qed

text \<open>A message id waits for one peer only.\<close>

lemma pending_unique:
  assumes "pending_wf E db" and "(p, m) \<in> pending E db" and "(q, n) \<in> pending E db" and "dm_id m = dm_id n"
  shows "p = q \<and> m = n"
proof -
  have "pending_key p (dm_id m) = pending_key q (dm_id m)"
    using pending_indexed [OF assms(1,2)] pending_indexed [OF assms(1,3)] assms(4) by simp
  then have "p = q" by (simp add: pending_key_eq)
  with assms(2-4) show ?thesis by (auto simp: pending_def)
qed

lemma pending_wf_new: "env_ok E \<Longrightarrow> pending_wf E (db_new E)"
  by (simp add: pending_wf_def indexed_key_def sled_get_new)

lemma pending_new [simp]: "env_ok E \<Longrightarrow> pending E (db_new E) = {}"
  by (simp add: pending_def sled_get_new)

lemma pending_listed:
  assumes "env_ok E" and "pending_wf E db" and "no_colon i"
  shows "(\<exists>e \<in> set (sl_iter (se_sled E) (db_pending_messages db)). suffix ('':'' @ i) (fst e))
    \<longleftrightarrow> (\<exists>(p, m) \<in> pending E db. dm_id m = i)"
proof
  assume "\<exists>e \<in> set (sl_iter (se_sled E) (db_pending_messages db)). suffix ('':'' @ i) (fst e)"
  then obtain k v where kv: "sl_get (se_sled E) (db_pending_messages db) k = Some v" "suffix ('':'' @ i) k"
    using assms(1) by (auto simp: sled_iter_iff)
  from pending_entryE [OF assms(2) kv(1)] obtain p m where
    pm: "k = pending_key p (dm_id m)" "no_colon (dm_id m)" "(p, m) \<in> pending E db" by metis
  have "dm_id m = i" using kv(2) pm(1,2) assms(3) by (simp only: suffix_pending_key)
  with pm(3) show "\<exists>(p, m) \<in> pending E db. dm_id m = i" by blast
next
  assume "\<exists>(p, m) \<in> pending E db. dm_id m = i"
  then obtain p m where "(p, m) \<in> pending E db" and i: "dm_id m = i" by blast
  then obtain v where pm: "sl_get (se_sled E) (db_pending_messages db) (pending_key p (dm_id m)) = Some v"
    unfolding pending_def by blast
  then have "(pending_key p i, v) \<in> set (sl_iter (se_sled E) (db_pending_messages db))"
    using assms(1) i by (simp add: sled_iter_iff)
  moreover have "suffix ('':'' @ i) (fst (pending_key p i, v))"
    unfolding fst_conv suffix_pending_key [OF assms(3) assms(3)] by (rule refl)
  ultimately show "\<exists>e \<in> set (sl_iter (se_sled E) (db_pending_messages db)). suffix ('':'' @ i) (fst e)"
    by (rule bexI [rotated])
qed

subsection \<open>Storing\<close>

lemma strip_index_value [simp]: "strip_prefix tag (string_of_bytes (index_value tag k)) = Some k"
  by (simp add: index_value_def strip_prefix_Some del: as_bytes_append)

lemma indexed_key_insert:
  "env_ok E \<Longrightarrow> db_message_index db' = sl_insert (se_sled E) (db_message_index db) (index_key j) v \<Longrightarrow>
     indexed_key E db' tag i = (if i = j then strip_prefix tag (string_of_bytes v) else indexed_key E db tag i)"
  by (simp add: indexed_key_def sled_get_insert)

lemma indexed_key_store_pending:
  assumes "env_ok E"
  shows "indexed_key E (store_pending_message E db p m) ''pending:'' i
     = (if i = dm_id m then Some (pending_key p i) else indexed_key E db ''pending:'' i)"
proof -
  have "db_message_index (store_pending_message E db p m) = sl_insert (se_sled E) (db_message_index db)
      (index_key (dm_id m)) (index_value ''pending:'' (pending_key p (dm_id m)))"
    by (simp add: store_pending_message_def Let_def)
  from indexed_key_insert [OF assms this] show ?thesis by simp
qed

lemma get_store_pending:
  "env_ok E \<Longrightarrow> sl_get (se_sled E) (db_pending_messages (store_pending_message E db p m)) k
     = (if k = pending_key p (dm_id m) then Some (cd_encode (se_direct E) m) else sl_get (se_sled E) (db_pending_messages db) k)"
  by (simp add: store_pending_message_def Let_def sled_get_insert)

text \<open>A message is stored for a peer when no other peer waits for the same id.\<close>

definition pending_free :: "'t store_env \<Rightarrow> 't message_db \<Rightarrow> did \<Rightarrow> string \<Rightarrow> bool" where
  "pending_free E db p i \<longleftrightarrow> (\<forall>(q, n) \<in> pending E db. dm_id n = i \<longrightarrow> q = p)"

lemma pending_wf_store:
  assumes "env_ok E" and "pending_wf E db" and "did_ok p" and "no_colon (dm_id m)" and "pending_free E db p (dm_id m)"
  shows "pending_wf E (store_pending_message E db p m)"
  unfolding pending_wf_def
proof (intro conjI allI impI)
  let ?db = "store_pending_message E db p m"
  fix k v assume kv: "sl_get (se_sled E) (db_pending_messages ?db) k = Some v"
  show "pending_entry_ok E ?db k v"
  proof (cases "k = pending_key p (dm_id m)")
    case True
    with kv assms(1) have "v = cd_encode (se_direct E) m" by (simp add: get_store_pending)
    with True assms show ?thesis
      unfolding pending_entry_ok_def by (intro exI [of _ p] exI [of _ m]) (simp add: indexed_key_store_pending)
  next
    case False
    with kv assms(1) have "sl_get (se_sled E) (db_pending_messages db) k = Some v" by (simp add: get_store_pending)
    from pending_entryE [OF assms(2) this] obtain q n where
      qn: "k = pending_key q (dm_id n)" "cd_decode (se_direct E) v = Some n" "did_ok q" "no_colon (dm_id n)"
      "indexed_key E db ''pending:'' (dm_id n) = Some k" "(q, n) \<in> pending E db" by metis
    have "dm_id n \<noteq> dm_id m"
      using False qn(1,6) assms(5) by (auto simp: pending_free_def)
    with qn assms(1) show ?thesis
      unfolding pending_entry_ok_def by (intro exI [of _ q] exI [of _ n]) (simp add: indexed_key_store_pending)
  qed
next
  let ?db = "store_pending_message E db p m"
  fix i k assume "indexed_key E ?db ''pending:'' i = Some k"
  then have "if i = dm_id m then k = pending_key p i else indexed_key E db ''pending:'' i = Some k"
    using assms(1) by (simp add: indexed_key_store_pending split: if_splits)
  moreover have "sl_get (se_sled E) (db_pending_messages db) k \<noteq> None \<and> (\<exists>p. k = pending_key p i \<and> did_ok p \<and> no_colon i)"
    if "indexed_key E db ''pending:'' i = Some k"
    using that assms(2) unfolding pending_wf_def by blast
  ultimately show "sl_get (se_sled E) (db_pending_messages ?db) k \<noteq> None"
    and "\<exists>p. k = pending_key p i \<and> did_ok p \<and> no_colon i"
    using assms by (auto simp: get_store_pending split: if_splits)
qed

lemma pending_store:
  assumes "env_ok E" and "pending_wf E db" and "did_ok p" and "no_colon (dm_id m)" and "pending_free E db p (dm_id m)"
  shows "pending E (store_pending_message E db p m) = insert (p, m) {(q, n) \<in> pending E db. dm_id n \<noteq> dm_id m}"
proof (rule set_eqI, clarify)
  fix q n
  have "(q, n) \<in> pending E db \<and> dm_id n = dm_id m \<Longrightarrow> q = p" using assms(5) by (auto simp: pending_free_def)
  then show "(q, n) \<in> pending E (store_pending_message E db p m)
      \<longleftrightarrow> (q, n) \<in> insert (p, m) {(q, n) \<in> pending E db. dm_id n \<noteq> dm_id m}"
    using assms by (auto simp: pending_def get_store_pending pending_key_inj)
qed

subsection \<open>Deleting\<close>

lemma indexed_key_remove:
  "env_ok E \<Longrightarrow> db_message_index db' = sl_remove (se_sled E) (db_message_index db) (index_key j) \<Longrightarrow>
     indexed_key E db' tag i = (if i = j then None else indexed_key E db tag i)"
  by (simp add: indexed_key_def sled_get_remove)

lemma delete_pending_cases:
  assumes "env_ok E" and "pending_wf E db" and "no_colon i"
  shows "(\<exists>(p, m) \<in> pending E db. dm_id m = i \<and> delete_pending_message E db i =
       db\<lparr>db_pending_messages := sl_remove (se_sled E) (db_pending_messages db) (pending_key p i),
          db_message_index := sl_remove (se_sled E) (db_message_index db) (index_key i)\<rparr>) \<or>
     (\<forall>(p, m) \<in> pending E db. dm_id m \<noteq> i) \<and> delete_pending_message E db i = db"
proof (cases "indexed_key E db ''pending:'' i")
  case None
  then have none: "\<forall>(p, m) \<in> pending E db. dm_id m \<noteq> i"
    using pending_indexed [OF assms(2)] by fastforce
  then have "find (\<lambda>e. suffix ('':'' @ i) (fst e)) (sl_iter (se_sled E) (db_pending_messages db)) = None"
    using pending_listed [OF assms] unfolding find_None_iff by blast
  then have "delete_pending_message E db i = db"
    unfolding delete_pending_message_def None by simp
  with none show ?thesis by blast
next
  case (Some k)
  then obtain v p where k: "sl_get (se_sled E) (db_pending_messages db) k = Some v" "k = pending_key p i"
    using assms(2) unfolding pending_wf_def by blast
  from pending_entryE [OF assms(2) k(1)] obtain q m where
    qm: "k = pending_key q (dm_id m)" "no_colon (dm_id m)" "(q, m) \<in> pending E db" by metis
  with k(2) assms(3) have "q = p" "dm_id m = i" by (simp_all add: pending_key_inj)
  moreover have "delete_pending_message E db i =
       db\<lparr>db_pending_messages := sl_remove (se_sled E) (db_pending_messages db) (pending_key p i),
          db_message_index := sl_remove (se_sled E) (db_message_index db) (index_key i)\<rparr>"
    unfolding delete_pending_message_def Some option.case k(2) by (rule refl)
  ultimately show ?thesis using qm(3) by blast
qed

lemma pending_delete:
  assumes "env_ok E" and "pending_wf E db" and "no_colon i"
  shows "pending E (delete_pending_message E db i) = {(p, m) \<in> pending E db. dm_id m \<noteq> i}"
  using delete_pending_cases [OF assms]
proof (elim disjE conjE)
  assume "\<exists>(p, m) \<in> pending E db. dm_id m = i \<and> delete_pending_message E db i =
       db\<lparr>db_pending_messages := sl_remove (se_sled E) (db_pending_messages db) (pending_key p i),
          db_message_index := sl_remove (se_sled E) (db_message_index db) (index_key i)\<rparr>"
  then obtain p m where pm: "(p, m) \<in> pending E db" "dm_id m = i" and
    t: "db_pending_messages (delete_pending_message E db i) = sl_remove (se_sled E) (db_pending_messages db) (pending_key p i)"
    by auto
  show ?thesis
  proof (rule set_eqI, clarify)
    fix q n
    have "(q, n) \<in> pending E db \<Longrightarrow> dm_id n = i \<Longrightarrow> q = p"
      using pending_unique [OF assms(2) pm(1)] pm(2) by blast
    then show "(q, n) \<in> pending E (delete_pending_message E db i) \<longleftrightarrow> (q, n) \<in> {(p, m) \<in> pending E db. dm_id m \<noteq> i}"
      using assms(1,3) by (auto simp: pending_def t sled_get_remove pending_key_inj split: if_splits)
  qed
qed auto

lemma pending_wf_delete:
  assumes "env_ok E" and "pending_wf E db" and "no_colon i"
  shows "pending_wf E (delete_pending_message E db i)"
  using delete_pending_cases [OF assms]
proof (elim disjE conjE)
  let ?db = "delete_pending_message E db i"
  assume "\<exists>(p, m) \<in> pending E db. dm_id m = i \<and> delete_pending_message E db i =
       db\<lparr>db_pending_messages := sl_remove (se_sled E) (db_pending_messages db) (pending_key p i),
          db_message_index := sl_remove (se_sled E) (db_message_index db) (index_key i)\<rparr>"
  then obtain p m where pm: "(p, m) \<in> pending E db" "dm_id m = i" and
    t: "db_pending_messages ?db = sl_remove (se_sled E) (db_pending_messages db) (pending_key p i)" and
    x: "db_message_index ?db = sl_remove (se_sled E) (db_message_index db) (index_key i)"
    by auto
  have ix: "indexed_key E ?db tag j = (if j = i then None else indexed_key E db tag j)" for tag j
    using assms(1) x by (rule indexed_key_remove)
  have gt: "sl_get (se_sled E) (db_pending_messages ?db) k
      = (if k = pending_key p i then None else sl_get (se_sled E) (db_pending_messages db) k)" for k
    using assms(1) by (simp add: t sled_get_remove)
  show ?thesis
    unfolding pending_wf_def
  proof (intro conjI allI impI)
    fix k v assume kv: "sl_get (se_sled E) (db_pending_messages ?db) k = Some v"
    then have k: "k \<noteq> pending_key p i" "sl_get (se_sled E) (db_pending_messages db) k = Some v"
      by (simp_all add: gt split: if_splits)
    from pending_entryE [OF assms(2) k(2)] obtain q n where
      qn: "k = pending_key q (dm_id n)" "cd_decode (se_direct E) v = Some n" "did_ok q" "no_colon (dm_id n)"
      "indexed_key E db ''pending:'' (dm_id n) = Some k" "(q, n) \<in> pending E db" by metis
    have "dm_id n \<noteq> i"
    proof
      assume "dm_id n = i"
      then have "p = q" using pending_unique [OF assms(2) pm(1) qn(6)] pm(2) by simp
      with qn(1) k(1) \<open>dm_id n = i\<close> show False by simp
    qed
    with qn show "pending_entry_ok E ?db k v"
      unfolding pending_entry_ok_def ix by (intro exI [of _ q] exI [of _ n]) simp
  next
    fix j k assume "indexed_key E ?db ''pending:'' j = Some k"
    then have j: "j \<noteq> i" "indexed_key E db ''pending:'' j = Some k" by (simp_all add: ix split: if_splits)
    then obtain q where q: "sl_get (se_sled E) (db_pending_messages db) k \<noteq> None" "k = pending_key q j" "did_ok q" "no_colon j"
      using assms(2) unfolding pending_wf_def by blast
    then show "\<exists>p. k = pending_key p j \<and> did_ok p \<and> no_colon j" by blast
    show "sl_get (se_sled E) (db_pending_messages ?db) k \<noteq> None"
      using q j(1) assms(3) by (simp add: gt pending_key_inj)
  qed
qed (simp add: assms(2))

text \<open>Deleting a pending message through the reverse index removes exactly the message with that id,
  whoever waits for it: every other pending message stays, the id is no longer reported as pending, and
  the index keeps naming what is left.\<close>

theorem delete_pending_exact:
  assumes "env_ok E" and "pending_wf E db" and "no_colon i"
  shows "pending E (delete_pending_message E db i) = {(p, m) \<in> pending E db. dm_id m \<noteq> i} \<and>
    \<not> is_message_pending E (delete_pending_message E db i) i \<and> pending_wf E (delete_pending_message E db i)"
proof -
  let ?db = "delete_pending_message E db i"
  note p = pending_delete [OF assms] and wf = pending_wf_delete [OF assms]
  have none: "\<not> (\<exists>(p, m) \<in> pending E ?db. dm_id m = i)" unfolding p by auto
  have "indexed_key E ?db ''pending:'' i = None"
  proof (rule ccontr)
    assume "indexed_key E ?db ''pending:'' i \<noteq> None"
    then obtain k v p where k: "sl_get (se_sled E) (db_pending_messages ?db) k = Some v" "k = pending_key p i"
      using wf unfolding pending_wf_def by blast
    from pending_entryE [OF wf k(1)] obtain q n where
      "k = pending_key q (dm_id n)" "no_colon (dm_id n)" "(q, n) \<in> pending E ?db" by metis
    with k(2) assms(3) none show False by (auto simp: pending_key_inj)
  qed
  then have "\<not> is_message_pending E ?db i"
    using pending_listed [OF assms(1) wf assms(3)] none unfolding is_message_pending_def list_ex_iff by simp
  with p wf show ?thesis by blast
qed

subsection \<open>Reading\<close>

lemma is_message_pending_iff:
  assumes "env_ok E" and "pending_wf E db" and "no_colon i"
  shows "is_message_pending E db i \<longleftrightarrow> (\<exists>(p, m) \<in> pending E db. dm_id m = i)"
proof -
  have "\<exists>(p, m) \<in> pending E db. dm_id m = i" if "indexed_key E db ''pending:'' i = Some k" for k
  proof -
    from that obtain v p where k: "sl_get (se_sled E) (db_pending_messages db) k = Some v" "k = pending_key p i"
      using assms(2) unfolding pending_wf_def by blast
    from pending_entryE [OF assms(2) k(1)] obtain q n where
      "k = pending_key q (dm_id n)" "no_colon (dm_id n)" "(q, n) \<in> pending E db" by metis
    with k(2) assms(3) show ?thesis by (auto simp: pending_key_inj)
  qed
  then show ?thesis
    using pending_listed [OF assms] unfolding is_message_pending_def list_ex_iff by (cases "indexed_key E db ''pending:'' i") auto
qed

lemma decode_all_ok:
  "(\<forall>e \<in> set es. cd_decode c (snd e) \<noteq> None) \<Longrightarrow> decode_all c es = Inr (map (\<lambda>e. the (cd_decode c (snd e))) es)"
  by (induction es) auto

lemma fetch_pending_set:
  assumes "env_ok E" and "pending_wf E db" and "did_ok p"
  shows "\<exists>ms. fetch_pending_messages E db p = Inr ms \<and> set ms = {m. (p, m) \<in> pending E db}"
proof -
  let ?es = "sl_scan_prefix (se_sled E) (db_pending_messages db) (p @ '':'')"
  have entry: "\<exists>m. cd_decode (se_direct E) v = Some m \<and> (p, m) \<in> pending E db" if "(k, v) \<in> set ?es" for k v
  proof -
    have kv: "sl_get (se_sled E) (db_pending_messages db) k = Some v" "prefix (p @ '':'') k"
      using that assms(1) by (simp_all add: sled_scan_iff)
    from pending_entryE [OF assms(2) kv(1)] obtain q m where
      "k = pending_key q (dm_id m)" "cd_decode (se_direct E) v = Some m" "did_ok q" "(q, m) \<in> pending E db" by metis
    with kv(2) assms(3) show ?thesis by (auto simp: prefix_pending_key)
  qed
  have "fetch_pending_messages E db p = Inr (map (\<lambda>e. the (cd_decode (se_direct E) (snd e))) ?es)"
    unfolding fetch_pending_messages_def by (rule decode_all_ok) (use entry in fastforce)
  moreover have "set (map (\<lambda>e. the (cd_decode (se_direct E) (snd e))) ?es) = {m. (p, m) \<in> pending E db}"
  proof (intro set_eqI iffI)
    fix m assume "m \<in> set (map (\<lambda>e. the (cd_decode (se_direct E) (snd e))) ?es)"
    then obtain k v where "(k, v) \<in> set ?es" "m = the (cd_decode (se_direct E) v)" by auto
    with entry show "m \<in> {m. (p, m) \<in> pending E db}" by force
  next
    fix m assume "m \<in> {m. (p, m) \<in> pending E db}"
    then obtain v where v: "sl_get (se_sled E) (db_pending_messages db) (pending_key p (dm_id m)) = Some v"
      "cd_decode (se_direct E) v = Some m" by (auto simp: pending_def)
    then have "(pending_key p (dm_id m), v) \<in> set ?es"
      using assms by (simp add: sled_scan_iff prefix_pending_key)
    with v(2) show "m \<in> set (map (\<lambda>e. the (cd_decode (se_direct E) (snd e))) ?es)" by force
  qed
  ultimately show ?thesis by blast
qed

lemma pending_peers:
  assumes "env_ok E" and "pending_wf E db"
  shows "list_peers_with_pending_messages E db = fst ` pending E db"
proof (intro set_eqI iffI)
  fix p assume "p \<in> list_peers_with_pending_messages E db"
  then obtain k v where kv: "sl_get (se_sled E) (db_pending_messages db) k = Some v" "map_option fst (rsplit_once CHR '':'' k) = Some p"
    using assms(1) by (auto simp: list_peers_with_pending_messages_def List.map_filter_def sled_iter_iff)
  from pending_entryE [OF assms(2) kv(1)] obtain q m where
    "k = pending_key q (dm_id m)" "no_colon (dm_id m)" "(q, m) \<in> pending E db" by metis
  with kv(2) show "p \<in> fst ` pending E db" by (force simp: rsplit_pending_key)
next
  fix p assume "p \<in> fst ` pending E db"
  then obtain m where "(p, m) \<in> pending E db" by auto
  then obtain v where v: "sl_get (se_sled E) (db_pending_messages db) (pending_key p (dm_id m)) = Some v" "no_colon (dm_id m)"
    unfolding pending_def by blast
  then have "(pending_key p (dm_id m), v) \<in> set (sl_iter (se_sled E) (db_pending_messages db))"
    using assms(1) by (simp add: sled_iter_iff)
  moreover have "map_option fst (rsplit_once CHR '':'' (pending_key p (dm_id m))) = Some p"
    using v(2) by (simp add: rsplit_pending_key)
  ultimately show "p \<in> list_peers_with_pending_messages E db"
    unfolding list_peers_with_pending_messages_def List.map_filter_def by force
qed

text \<open>The reads of the queue agree with each other: a peer is listed exactly when fetching its pending
  messages gives some, an id is reported as pending exactly when it is in one of those fetches, and
  fetching never fails.\<close>

theorem pending_reads_agree:
  assumes "env_ok E" and "pending_wf E db" and "did_ok p" and "no_colon i"
  shows "\<exists>ms. fetch_pending_messages E db p = Inr ms \<and> set ms = {m. (p, m) \<in> pending E db} \<and>
     (p \<in> list_peers_with_pending_messages E db \<longleftrightarrow> ms \<noteq> []) \<and>
     (is_message_pending E db i \<longleftrightarrow> i \<in> (dm_id \<circ> snd) ` pending E db)"
proof -
  obtain ms where ms: "fetch_pending_messages E db p = Inr ms" "set ms = {m. (p, m) \<in> pending E db}"
    using fetch_pending_set [OF assms(1-3)] by blast
  have "p \<in> list_peers_with_pending_messages E db \<longleftrightarrow> ms \<noteq> []"
  proof -
    have "p \<in> fst ` pending E db \<longleftrightarrow> {m. (p, m) \<in> pending E db} \<noteq> {}" by force
    then show ?thesis unfolding pending_peers [OF assms(1,2)] ms(2) [symmetric] set_empty .
  qed
  moreover have "is_message_pending E db i \<longleftrightarrow> i \<in> (dm_id \<circ> snd) ` pending E db"
    unfolding is_message_pending_iff [OF assms(1,2,4)] by force
  ultimately show ?thesis using ms by blast
qed

text \<open>Two messages pending for one peer; one is deleted.\<close>

definition sample_pending_db :: "(string, bytes) rbt message_db" where
  "sample_pending_db =
     store_pending_message rbt_env
       (store_pending_message rbt_env (db_new rbt_env) ''did:variance:bb'' (sample_direct ''A'' 5))
       ''did:variance:cc'' (sample_direct ''B'' 7)"

lemma sample_pending_db:
  "pending_wf rbt_env sample_pending_db"
  "pending rbt_env sample_pending_db
     = {(''did:variance:bb'', sample_direct ''A'' 5), (''did:variance:cc'', sample_direct ''B'' 7)}"
proof -
  let ?db = "store_pending_message rbt_env (db_new rbt_env) ''did:variance:bb'' (sample_direct ''A'' 5)"
  have ids: "no_colon (dm_id (sample_direct ''A'' 5))" "no_colon (dm_id (sample_direct ''B'' 7))"
    by (simp_all add: no_colon_def)
  have f: "pending_free rbt_env (db_new rbt_env) ''did:variance:bb'' (dm_id (sample_direct ''A'' 5))"
    by (simp add: pending_free_def rbt_env_ok)
  note a = rbt_env_ok pending_wf_new [OF rbt_env_ok] sample_dids(2) ids(1) f
  have wf: "pending_wf rbt_env ?db" and p: "pending rbt_env ?db = {(''did:variance:bb'', sample_direct ''A'' 5)}"
    using pending_wf_store [OF a] pending_store [OF a] by (simp_all add: rbt_env_ok)
  have "pending_free rbt_env ?db ''did:variance:cc'' (dm_id (sample_direct ''B'' 7))"
    unfolding pending_free_def p by simp
  note b = rbt_env_ok wf sample_dids(3) ids(2) this
  show "pending_wf rbt_env sample_pending_db"
    unfolding sample_pending_db_def by (rule pending_wf_store [OF b])
  show "pending rbt_env sample_pending_db
     = {(''did:variance:bb'', sample_direct ''A'' 5), (''did:variance:cc'', sample_direct ''B'' 7)}"
    unfolding sample_pending_db_def pending_store [OF b] p by auto
qed

lemma no_colon_A: "no_colon ''A''"
  by (simp add: no_colon_def)

theorem delete_pending_exact_witness:
  "pending rbt_env (delete_pending_message rbt_env sample_pending_db ''A'') = {(''did:variance:cc'', sample_direct ''B'' 7)}"
proof -
  note d = conjunct1 [OF delete_pending_exact [OF rbt_env_ok sample_pending_db(1) no_colon_A]]
  have "{(p, m). (p, m) \<in> {(''did:variance:bb'', sample_direct ''A'' 5), (''did:variance:cc'', sample_direct ''B'' 7)} \<and> dm_id m \<noteq> ''A''}
      = {(''did:variance:cc'', sample_direct ''B'' 7)}"
    by auto
  then show ?thesis unfolding d sample_pending_db(2) .
qed

theorem pending_reads_agree_witness:
  "fetch_pending_messages rbt_env sample_pending_db ''did:variance:aa'' = Inr [] \<and>
   is_message_pending rbt_env sample_pending_db ''A''"
proof -
  obtain ms where ms: "fetch_pending_messages rbt_env sample_pending_db ''did:variance:aa'' = Inr ms"
    "set ms = {m. (''did:variance:aa'', m) \<in> pending rbt_env sample_pending_db}"
    "is_message_pending rbt_env sample_pending_db ''A'' \<longleftrightarrow> ''A'' \<in> (dm_id \<circ> snd) ` pending rbt_env sample_pending_db"
    using pending_reads_agree [OF rbt_env_ok sample_pending_db(1) sample_dids(1) no_colon_A] by blast
  from ms(2) have "set ms = {}" unfolding sample_pending_db(2) by simp
  with ms(1,3) show ?thesis unfolding sample_pending_db(2) by simp
qed

end
