(* ===== verification/Queue_Runs.thy ===== *)
theory Queue_Runs
  imports Pending_Queue
begin

section \<open>Runs of the pending queue\<close>

text \<open>
  The sender's use of the queue of pending messages as a sequence of operations: a message that
  could not be delivered is enqueued, a message that went through is dequeued by its id. The
  abstract queue is the set of pairs of a peer and a message waiting for it.
\<close>

datatype queue_op = Enqueue did direct_message | Dequeue string

primrec queue_step :: "'t store_env \<Rightarrow> 't message_db \<Rightarrow> queue_op \<Rightarrow> 't message_db" where
  "queue_step E db (Enqueue p m) = store_pending_message E db p m"
| "queue_step E db (Dequeue i) = delete_pending_message E db i"

primrec waiting_step :: "(did \<times> direct_message) set \<Rightarrow> queue_op \<Rightarrow> (did \<times> direct_message) set" where
  "waiting_step W (Enqueue p m) = insert (p, m) {(q, n) \<in> W. dm_id n \<noteq> dm_id m}"
| "waiting_step W (Dequeue i) = {(q, n) \<in> W. dm_id n \<noteq> i}"

text \<open>
  What the callers respect: peers are well formed DIDs, ids are ULIDs and so hold no colon, and an
  id is never enqueued for a peer while it waits for another.
\<close>

primrec queue_op_ok :: "(did \<times> direct_message) set \<Rightarrow> queue_op \<Rightarrow> bool" where
  "queue_op_ok W (Enqueue p m) \<longleftrightarrow> did_ok p \<and> no_colon (dm_id m) \<and> (\<forall>(q, n) \<in> W. dm_id n = dm_id m \<longrightarrow> q = p)"
| "queue_op_ok W (Dequeue i) \<longleftrightarrow> no_colon i"

primrec queue_run_ok :: "(did \<times> direct_message) set \<Rightarrow> queue_op list \<Rightarrow> bool" where
  "queue_run_ok W [] \<longleftrightarrow> True"
| "queue_run_ok W (x # xs) \<longleftrightarrow> queue_op_ok W x \<and> queue_run_ok (waiting_step W x) xs"

lemma queue_step_simulates:
  assumes "env_ok E" and "pending_wf E db" and "queue_op_ok (pending E db) x"
  shows "pending_wf E (queue_step E db x) \<and> pending E (queue_step E db x) = waiting_step (pending E db) x"
  using assms by (cases x) (simp_all add: pending_wf_store pending_store pending_wf_delete pending_delete pending_free_def)

lemma queue_run_simulates:
  "env_ok E \<Longrightarrow> pending_wf E db \<Longrightarrow> queue_run_ok (pending E db) xs \<Longrightarrow>
     pending_wf E (foldl (queue_step E) db xs) \<and>
     pending E (foldl (queue_step E) db xs) = foldl waiting_step (pending E db) xs"
proof (induction xs arbitrary: db)
  case (Cons x xs)
  from queue_step_simulates [OF Cons.prems(1,2)] Cons.prems(3)
  have "pending_wf E (queue_step E db x)" "pending E (queue_step E db x) = waiting_step (pending E db) x" by simp_all
  with Cons.IH [OF Cons.prems(1)] Cons.prems(3) show ?case by simp
qed simp

text \<open>C18. From the empty database on, whatever messages are enqueued and dequeued, the pending tree and
  its reverse index stay well formed: every entry is a decodable message under its own key, the index
  names that key and names nothing else. The queue then holds exactly the set of waiting messages that
  the same operations build.\<close>

theorem queue_well_formed:
  assumes "env_ok E" and "queue_run_ok {} xs"
  shows "pending_wf E (foldl (queue_step E) (db_new E) xs) \<and>
    pending E (foldl (queue_step E) (db_new E) xs) = foldl waiting_step {} xs"
  using queue_run_simulates [OF assms(1) pending_wf_new [OF assms(1)]] assms by simp

theorem queue_well_formed_witness:
  "pending rbt_env (foldl (queue_step rbt_env) (db_new rbt_env)
     [Enqueue ''did:variance:bb'' (sample_direct ''A'' 5), Enqueue ''did:variance:cc'' (sample_direct ''B'' 7), Dequeue ''A''])
   = {(''did:variance:cc'', sample_direct ''B'' 7)}"
proof -
  let ?a = "(''did:variance:bb'', sample_direct ''A'' 5)" and ?b = "(''did:variance:cc'', sample_direct ''B'' 7)"
  let ?xs = "[Enqueue (fst ?a) (snd ?a), Enqueue (fst ?b) (snd ?b), Dequeue ''A'']"
  have ids: "no_colon ''A''" "no_colon ''B''" by (simp_all add: no_colon_def)
  have "waiting_step {} (Enqueue (fst ?a) (snd ?a)) = {?a}" by simp
  moreover have "waiting_step {?a} (Enqueue (fst ?b) (snd ?b)) = {?a, ?b}" by auto
  moreover have "waiting_step {?a, ?b} (Dequeue ''A'') = {?b}" by auto
  ultimately have w: "queue_run_ok {} ?xs" "foldl waiting_step {} ?xs = {?b}"
    using sample_dids ids by simp_all
  from conjunct2 [OF queue_well_formed [OF rbt_env_ok w(1)]] w(2) show ?thesis by simp
qed

end
