(* ===== verification/Group_Store.thy ===== *)
theory Group_Store
  imports Direct_Store
begin

section \<open>Group messages and metadata in the store (\<open>variance-messaging/src/storage/group.rs\<close>)\<close>

text \<open>
  One definition per \<open>impl_*\<close> method: the group message log with its two listings (the
  newest messages before a cutoff, and the oldest ones after a timestamp, which group sync
  uses), the group metadata, the MLS state and the plaintext cache.
\<close>

subsection \<open>The message log\<close>

definition gm_key :: "group_message \<Rightarrow> string" where
  "gm_key m = group_key (gm_group_id m) (gm_timestamp m) (gm_id m)"

definition store_group :: "'t store_env \<Rightarrow> 't message_db \<Rightarrow> group_message \<Rightarrow> 't message_db" where
  "store_group E db message =
     db\<lparr>db_group := sl_insert (se_sled E) (db_group db) (gm_key message) (cd_encode (se_group E) message)\<rparr>"

definition group_range :: "'t store_env \<Rightarrow> 't message_db \<Rightarrow> string \<Rightarrow> (string \<times> bytes) list" where
  "group_range E db group_id =
     sl_range (se_sled E) (db_group db) (group_id @ '':'') (Some (group_id @ '';''))"

definition fetch_group :: "'t store_env \<Rightarrow> 't message_db \<Rightarrow> string \<Rightarrow> nat \<Rightarrow> int option \<Rightarrow> group_message list" where
  "fetch_group E db group_id limit before =
     rev (take limit (filter (\<lambda>m. before_cutoff before (gm_timestamp m))
       (decoded (se_group E) (rev (group_range E db group_id)))))"

definition last_entry :: "(string \<times> bytes) list \<Rightarrow> (string \<times> bytes) option" where
  "last_entry es = (if es = [] then None else Some (last es))"

definition fetch_group_latest :: "'t store_env \<Rightarrow> 't message_db \<Rightarrow> string \<Rightarrow> group_message option" where
  "fetch_group_latest E db group_id =
     Option.bind (last_entry (group_range E db group_id)) (\<lambda>e. cd_decode (se_group E) (snd e))"

fun group_since_loop ::
  "group_message codec \<Rightarrow> string \<Rightarrow> nat \<Rightarrow> group_message list \<Rightarrow> (string \<times> bytes) list \<Rightarrow> msg_error + group_message list" where
  "group_since_loop c p limit messages [] = Inr messages"
| "group_since_loop c p limit messages ((key, val) # es) =
     (if \<not> prefix p key then Inr messages
      else case cd_decode c val of
          None \<Rightarrow> Inl EProtocol
        | Some message \<Rightarrow>
            (let messages' = messages @ [message]
             in if length messages' \<ge> limit then Inr messages'
                else group_since_loop c p limit messages' es))"

definition fetch_group_since ::
  "'t store_env \<Rightarrow> 't message_db \<Rightarrow> string \<Rightarrow> int \<Rightarrow> nat \<Rightarrow> msg_error + group_message list" where
  "fetch_group_since E db group_id since_timestamp limit =
     (let start = group_id @ '':'' @ fmt020 (saturating_add_i64 since_timestamp 1) @ '':''
      in group_since_loop (se_group E) (group_id @ '':'') limit []
           (sl_range (se_sled E) (db_group db) start None))"

definition latest_group_timestamp :: "'t store_env \<Rightarrow> 't message_db \<Rightarrow> string \<Rightarrow> msg_error + int option" where
  "latest_group_timestamp E db group_id =
     (case last_entry (group_range E db group_id) of
        None \<Rightarrow> Inr None
      | Some (_, v) \<Rightarrow>
          (case cd_decode (se_group E) v of None \<Rightarrow> Inl EProtocol | Some message \<Rightarrow> Inr (Some (gm_timestamp message))))"

definition has_group_message :: "'t store_env \<Rightarrow> 't message_db \<Rightarrow> string \<Rightarrow> string \<Rightarrow> bool" where
  "has_group_message E db group_id message_id =
     list_ex (\<lambda>e. suffix ('':'' @ message_id) (fst e)) (group_range E db group_id)"

definition delete_group_messages :: "'t store_env \<Rightarrow> 't message_db \<Rightarrow> string \<Rightarrow> 't message_db" where
  "delete_group_messages E db group_id =
     (let keys_to_delete = map fst (sl_scan_prefix (se_sled E) (db_group db) (group_id @ '':''));
          message_ids = List.map_filter after_last_colon keys_to_delete
      in db\<lparr>db_group := sl_remove_all (se_sled E) (db_group db) keys_to_delete,
            db_group_plaintext := sl_remove_all (se_sled E) (db_group_plaintext db) message_ids\<rparr>)"

definition cleanup_old_group_messages ::
  "'t store_env \<Rightarrow> 't message_db \<Rightarrow> millis \<Rightarrow> nat \<Rightarrow> 't message_db \<times> nat" where
  "cleanup_old_group_messages E db now max_age =
     (let cutoff_ms = sub_i64 now (wrap_i64 (int max_age));
          to_delete = filter (\<lambda>key. case parse_group_key_timestamp key of None \<Rightarrow> False | Some ts \<Rightarrow> ts < cutoff_ms)
            (map fst (sl_iter (se_sled E) (db_group db)))
      in (db\<lparr>db_group := sl_remove_all (se_sled E) (db_group db) to_delete\<rparr>, length to_delete))"

subsection \<open>Metadata, MLS state, pickles and plaintexts\<close>

definition delete_group_metadata :: "'t store_env \<Rightarrow> 't message_db \<Rightarrow> string \<Rightarrow> 't message_db" where
  "delete_group_metadata E db group_id =
     db\<lparr>db_group_metadata := sl_remove (se_sled E) (db_group_metadata db) group_id\<rparr>"

definition store_group_metadata :: "'t store_env \<Rightarrow> 't message_db \<Rightarrow> group_meta \<Rightarrow> 't message_db" where
  "store_group_metadata E db grp =
     db\<lparr>db_group_metadata := sl_insert (se_sled E) (db_group_metadata db) (gr_id grp) (cd_encode (se_group_meta E) grp)\<rparr>"

definition fetch_group_metadata :: "'t store_env \<Rightarrow> 't message_db \<Rightarrow> string \<Rightarrow> group_meta option" where
  "fetch_group_metadata E db group_id =
     Option.bind (sl_get (se_sled E) (db_group_metadata db) group_id) (cd_decode (se_group_meta E))"

definition fetch_all_group_metadata :: "'t store_env \<Rightarrow> 't message_db \<Rightarrow> msg_error + group_meta list" where
  "fetch_all_group_metadata E db = decode_all (se_group_meta E) (sl_iter (se_sled E) (db_group_metadata db))"

text \<open>\<open>iter_mut().find(..)\<close> changes the first member with the DID.\<close>

fun set_member_role :: "did \<Rightarrow> int \<Rightarrow> group_member list \<Rightarrow> group_member list option" where
  "set_member_role d r [] = None"
| "set_member_role d r (m # ms) =
     (if mb_did m = d then Some (m\<lparr>mb_role := r\<rparr> # ms) else map_option ((#) m) (set_member_role d r ms))"

definition update_member_role ::
  "'t store_env \<Rightarrow> 't message_db \<Rightarrow> string \<Rightarrow> did \<Rightarrow> int \<Rightarrow> 't message_db \<times> (msg_error + bool)" where
  "update_member_role E db group_id member_did new_role =
     (case sl_get (se_sled E) (db_group_metadata db) group_id of
        None \<Rightarrow> (db, Inr False)
      | Some raw \<Rightarrow>
          (case cd_decode (se_group_meta E) raw of
             None \<Rightarrow> (db, Inl EProtocol)
           | Some grp \<Rightarrow>
               (case set_member_role member_did new_role (gr_members grp) of
                  None \<Rightarrow> (db, Inr False)
                | Some members \<Rightarrow>
                    (db\<lparr>db_group_metadata := sl_insert (se_sled E) (db_group_metadata db) group_id
                          (cd_encode (se_group_meta E) (grp\<lparr>gr_members := members\<rparr>))\<rparr>,
                     Inr True))))"

definition store_mls_state :: "'t store_env \<Rightarrow> 't message_db \<Rightarrow> did \<Rightarrow> bytes \<Rightarrow> 't message_db" where
  "store_mls_state E db local_did state = db\<lparr>db_mls_state := sl_insert (se_sled E) (db_mls_state db) local_did state\<rparr>"

definition fetch_mls_state :: "'t store_env \<Rightarrow> 't message_db \<Rightarrow> did \<Rightarrow> bytes option" where
  "fetch_mls_state E db local_did = sl_get (se_sled E) (db_mls_state db) local_did"

definition store_olm_pickle :: "'t store_env \<Rightarrow> 't message_db \<Rightarrow> did \<Rightarrow> string \<Rightarrow> 't message_db" where
  "store_olm_pickle E db local_did pickle_json =
     db\<lparr>db_olm_pickle := sl_insert (se_sled E) (db_olm_pickle db) local_did (as_bytes pickle_json)\<rparr>"

definition load_olm_pickle_sync :: "'t store_env \<Rightarrow> 't message_db \<Rightarrow> did \<Rightarrow> string option" where
  "load_olm_pickle_sync E db local_did = map_option string_of_bytes (sl_get (se_sled E) (db_olm_pickle db) local_did)"

definition store_group_plaintext :: "'t store_env \<Rightarrow> 't message_db \<Rightarrow> string \<Rightarrow> bytes \<Rightarrow> 't message_db" where
  "store_group_plaintext E db message_id blob =
     db\<lparr>db_group_plaintext := sl_insert (se_sled E) (db_group_plaintext db) message_id blob\<rparr>"

definition fetch_group_plaintext :: "'t store_env \<Rightarrow> 't message_db \<Rightarrow> string \<Rightarrow> bytes option" where
  "fetch_group_plaintext E db message_id = sl_get (se_sled E) (db_group_plaintext db) message_id"

subsection \<open>The log as a set of messages\<close>

definition group_ok :: "group_message \<Rightarrow> bool" where
  "group_ok m \<longleftrightarrow> no_colon (gm_group_id m) \<and> stamp_ok (gm_timestamp m) \<and> no_colon (gm_id m)"

abbreviation group_wf :: "'t store_env \<Rightarrow> 't message_db \<Rightarrow> bool" where
  "group_wf E db \<equiv> log_wf (se_sled E) (se_group E) gm_key group_ok (db_group db)"

definition group_messages :: "'t store_env \<Rightarrow> 't message_db \<Rightarrow> group_message set" where
  "group_messages E db = log_messages (se_sled E) (se_group E) (db_group db)"

lemma gm_key_eq: "gm_key m = gm_group_id m @ CHR '':'' # fmt020 (gm_timestamp m) @ CHR '':'' # gm_id m"
  by (simp add: gm_key_def group_key_eq)

lemma prefix_gm_key: "group_ok m \<Longrightarrow> no_colon g \<Longrightarrow> prefix (g @ '':'') (gm_key m) \<longleftrightarrow> gm_group_id m = g"
  by (auto simp: gm_key_def prefix_group_key group_ok_def)

lemma gm_key_inj:
  "group_ok m \<Longrightarrow> group_ok n \<Longrightarrow> gm_key m = gm_key n \<longleftrightarrow>
     gm_group_id m = gm_group_id n \<and> gm_timestamp m = gm_timestamp n \<and> gm_id m = gm_id n"
  by (simp add: gm_key_def group_key_eq_iff group_ok_def)

lemma cut_gm_key [key_simps]:
  "group_ok m \<Longrightarrow> parse_group_key_timestamp (gm_key m) = Some (gm_timestamp m)"
  "group_ok m \<Longrightarrow> after_last_colon (gm_key m) = Some (gm_id m)"
  by (simp_all add: gm_key_eq cut_key group_ok_def after_last_colon_def rfind_key)

lemma suffix_gm_key:
  assumes "group_ok m" and "no_colon i"
  shows "suffix ('':'' @ i) (gm_key m) \<longleftrightarrow> gm_id m = i"
proof
  assume "suffix ('':'' @ i) (gm_key m)"
  then obtain z where "(gm_group_id m @ CHR '':'' # fmt020 (gm_timestamp m)) @ CHR '':'' # gm_id m = z @ CHR '':'' # i"
    by (auto simp: suffix_def gm_key_eq)
  then show "gm_id m = i"
    using assms split_at_last unfolding group_ok_def no_colon_def by blast
qed (auto simp: suffix_def gm_key_eq)

lemma group_message_ok: "group_wf E db \<Longrightarrow> m \<in> group_messages E db \<Longrightarrow> group_ok m"
  unfolding group_messages_def by (drule (1) log_wf_get) blast

lemma group_wf_new: "env_ok E \<Longrightarrow> group_wf E (db_new E)"
  by (simp add: log_wf_new)

lemma group_wf_store: "env_ok E \<Longrightarrow> group_ok m \<Longrightarrow> group_wf E db \<Longrightarrow> group_wf E (store_group E db m)"
  by (simp add: store_group_def log_wf_insert)

lemma group_wf_delete: "env_ok E \<Longrightarrow> group_wf E db \<Longrightarrow> group_wf E (delete_group_messages E db g)"
  by (simp add: delete_group_messages_def Let_def log_wf_remove_all)

lemma group_wf_cleanup:
  "env_ok E \<Longrightarrow> group_wf E db \<Longrightarrow> group_wf E (fst (cleanup_old_group_messages E db now age))"
  by (simp add: cleanup_old_group_messages_def Let_def log_wf_remove_all)

lemmas group_wf_intros = group_wf_new group_wf_store group_wf_delete group_wf_cleanup

lemma group_messages_new [simp]: "env_ok E \<Longrightarrow> group_messages E (db_new E) = {}"
  by (simp add: group_messages_def log_messages_new)

lemma group_messages_store:
  assumes "env_ok E" and "group_wf E db"
  shows "group_messages E (store_group E db m) = insert m {n \<in> group_messages E db. gm_key n \<noteq> gm_key m}"
  using log_messages_insert [of "se_sled E" "se_group E" gm_key group_ok "db_group db" m] assms
  by (simp add: group_messages_def store_group_def)

lemma group_messages_remove_all:
  assumes "env_ok E" and "group_wf E db" and "db_group db' = sl_remove_all (se_sled E) (db_group db) ks"
  shows "group_messages E db' = {m \<in> group_messages E db. gm_key m \<notin> set ks}"
  using log_messages_remove_all [of "se_sled E" "se_group E" gm_key group_ok "db_group db" ks] assms
  by (simp add: group_messages_def)

subsection \<open>The listing of one group\<close>

definition group_log :: "'t store_env \<Rightarrow> 't message_db \<Rightarrow> string \<Rightarrow> group_message list" where
  "group_log E db g = decoded (se_group E) (group_range E db g)"

lemma group_range_filter:
  "env_ok E \<Longrightarrow> group_range E db g = filter (\<lambda>e. prefix (g @ '':'') (fst e)) (sl_iter (se_sled E) (db_group db))"
  unfolding group_range_def by (subst sled_range_colon) (simp_all add: sled_scan)

lemma group_sorted_by_time:
  assumes "sorted_wrt (\<lambda>m n. gm_key m < gm_key n) xs" and "\<forall>m \<in> set xs. group_ok m \<and> gm_group_id m = g"
  shows "sorted (map gm_timestamp xs)"
  using assms
proof (induction xs)
  case (Cons x xs)
  have "gm_timestamp x \<le> gm_timestamp y" if "y \<in> set xs" for y
  proof -
    have "group_ok x" "gm_group_id x = g" and "group_ok y" "gm_group_id y = g" and "gm_key x < gm_key y"
      using Cons.prems that by auto
    then show ?thesis
      unfolding gm_key_eq by (intro stamped_key_order) (simp_all add: group_ok_def)
  qed
  with Cons show ?case by auto
qed simp

lemma group_log:
  assumes "env_ok E" and "group_wf E db" and "no_colon g"
  shows "set (group_log E db g) = {m \<in> group_messages E db. gm_group_id m = g}"
    and "sorted (map gm_timestamp (group_log E db g))" and "distinct (group_log E db g)"
    and "map gm_key (group_log E db g) = map fst (group_range E db g)"
    and "sorted_wrt (\<lambda>m n. gm_key m < gm_key n) (group_log E db g)"
proof -
  note l = log_listing [of "se_sled E" "se_group E" gm_key group_ok "db_group db" "prefix (g @ '':'')",
      OF env_okD(1) [OF assms(1)] assms(2), folded group_range_filter [OF assms(1)] group_log_def]
  show "map gm_key (group_log E db g) = map fst (group_range E db g)" by (rule l(1))
  show srt: "sorted_wrt (\<lambda>m n. gm_key m < gm_key n) (group_log E db g)" by (rule l(2))
  show "distinct (group_log E db g)" by (rule l(3))
  show set_log: "set (group_log E db g) = {m \<in> group_messages E db. gm_group_id m = g}"
    using set_decoded_filter [of "se_sled E" "se_group E" gm_key group_ok "db_group db" "prefix (g @ '':'')"]
      assms(1,2) group_message_ok [OF assms(2)] prefix_gm_key [OF _ assms(3)]
    by (auto simp: group_messages_def group_log_def group_range_filter)
  have "\<forall>m \<in> set (group_log E db g). group_ok m \<and> gm_group_id m = g"
    using set_log group_message_ok [OF assms(2)] by auto
  with srt show "sorted (map gm_timestamp (group_log E db g))" by (rule group_sorted_by_time)
qed

lemma fetch_group_as_suffix:
  "fetch_group E db g n before =
     drop (length (filter (\<lambda>m. before_cutoff before (gm_timestamp m)) (group_log E db g)) - n)
       (filter (\<lambda>m. before_cutoff before (gm_timestamp m)) (group_log E db g))"
  by (simp add: fetch_group_def newest_eq group_log_def)

end
