(* ===== verification/Group_Log.thy ===== *)
theory Group_Log
  imports Group_Store
begin

section \<open>What the group listings return\<close>

text \<open>
  The newest messages before a cutoff, the oldest ones after a timestamp, the newest
  timestamp, membership, deletion and retention, each stated over the set of messages of
  the group; and the effect of a role change on the metadata.
\<close>

text \<open>\<open>impl_fetch_group\<close> returns, in chronological order and without repeats, messages of that
  group alone that are older than the cutoff: as many as the limit allows, and the most recent ones.\<close>

theorem fetch_group_recent:
  assumes "env_ok E" and "group_wf E db" and "no_colon g"
  shows "let out = fetch_group E db g limit before;
             log = {m \<in> group_messages E db. gm_group_id m = g \<and> before_cutoff before (gm_timestamp m)}
         in sorted (map gm_timestamp out) \<and> distinct out \<and> set out \<subseteq> log \<and>
            length out = min limit (card log) \<and>
            (\<forall>m \<in> log - set out. \<forall>m' \<in> set out. gm_timestamp m \<le> gm_timestamp m')"
proof -
  define xs where "xs = filter (\<lambda>m. before_cutoff before (gm_timestamp m)) (group_log E db g)"
  note l = group_log [OF assms]
  have xs: "set xs = {m \<in> group_messages E db. gm_group_id m = g \<and> before_cutoff before (gm_timestamp m)}"
    using l(1) by (auto simp: xs_def)
  have "sorted (map gm_timestamp xs)" "distinct xs"
    using l(2,3) by (simp_all add: xs_def sorted_wrt_map sorted_wrt_filter)
  from newest_sorted [OF this, of limit] show ?thesis
    unfolding fetch_group_as_suffix xs_def [symmetric] xs [symmetric] Let_def
    using \<open>distinct xs\<close> by (auto dest: in_set_dropD)
qed

subsection \<open>Messages after a timestamp\<close>

lemma prefix_convex:
  fixes a b k p :: string
  shows "prefix p a \<Longrightarrow> prefix p b \<Longrightarrow> a \<le> k \<Longrightarrow> k \<le> b \<Longrightarrow> prefix p k"
proof (induction p arbitrary: a b k)
  case (Cons x p)
  then obtain a' b' where ab: "a = x # a'" "b = x # b'" by (auto simp: prefix_def)
  show ?case
  proof (cases k)
    case Nil
    with Cons.prems ab show ?thesis by simp
  next
    case (Cons y k')
    with Cons.prems ab have "y = x" by (auto simp: Cons_le_Cons)
    with Cons Cons.prems ab Cons.IH [of a' b' k'] show ?thesis by simp
  qed
qed simp

lemma takeWhile_prefix:
  fixes es :: "(string \<times> 'v) list"
  assumes "ordered_keys es" and "prefix p s" and "\<forall>e \<in> set es. s \<le> fst e"
  shows "takeWhile (\<lambda>e. prefix p (fst e)) es = filter (\<lambda>e. prefix p (fst e)) es"
  using assms
proof (induction es)
  case (Cons e es)
  show ?case
  proof (cases "prefix p (fst e)")
    case True
    with Cons show ?thesis by simp
  next
    case False
    have "\<not> prefix p (fst f)" if "f \<in> set es" for f
    proof
      assume "prefix p (fst f)"
      moreover have "s \<le> fst e" "fst e \<le> fst f" using Cons.prems that by auto
      ultimately show False using False prefix_convex [OF assms(2)] by blast
    qed
    with False show ?thesis by (simp add: filter_empty_conv)
  qed
qed simp

lemma group_since_loop_eq:
  assumes "\<forall>e \<in> set (takeWhile (\<lambda>e. prefix p (fst e)) es). cd_decode c (snd e) \<noteq> None"
  shows "group_since_loop c p limit acc es =
    Inr (acc @ take (max 1 (limit - length acc)) (decoded c (takeWhile (\<lambda>e. prefix p (fst e)) es)))"
  using assms
proof (induction es arbitrary: acc)
  case (Cons e es)
  obtain k v where e: "e = (k, v)" by (cases e)
  show ?case
  proof (cases "prefix p k")
    case True
    with Cons.prems e obtain m where m: "cd_decode c v = Some m" by auto
    show ?thesis
    proof (cases "length acc + 1 \<ge> limit")
      case True
      then have "max 1 (limit - length acc) = Suc 0" by simp
      with True \<open>prefix p k\<close> m show ?thesis by (simp add: e)
    next
      case False
      then have "max 1 (limit - length acc) = Suc (max 1 (limit - length (acc @ [m])))" by simp
      with False \<open>prefix p k\<close> m Cons show ?thesis by (simp add: e)
    qed
  qed (simp add: e)
qed simp

lemma oldest_sorted:
  fixes n :: nat
  assumes "sorted (map ts xs)" and "distinct xs"
  shows "sorted (map ts (take n xs))" and "length (take n xs) = min n (card (set xs))"
    and "\<forall>m \<in> set xs - set (take n xs). \<forall>m' \<in> set (take n xs). ts m' \<le> ts m"
proof -
  have xs: "xs = take n xs @ drop n xs" by simp
  have s: "sorted (map ts (take n xs) @ map ts (drop n xs))"
    using assms(1) xs by (metis map_append)
  then show "sorted (map ts (take n xs))" by (simp add: sorted_append)
  show "length (take n xs) = min n (card (set xs))"
    using assms(2) by (simp add: distinct_card min.commute)
  show "\<forall>m \<in> set xs - set (take n xs). \<forall>m' \<in> set (take n xs). ts m' \<le> ts m"
  proof (intro ballI)
    fix m m' assume m: "m \<in> set xs - set (take n xs)" and m': "m' \<in> set (take n xs)"
    then have "m \<in> set (drop n xs)" using xs by (metis DiffE Un_iff set_append)
    with s m' show "ts m' \<le> ts m" by (auto simp: sorted_append)
  qed
qed

lemma since_start:
  assumes "group_ok m" and "gm_group_id m = g" and "stamp_ok s"
  shows "g @ '':'' @ fmt020 s @ '':'' \<le> gm_key m \<longleftrightarrow> s \<le> gm_timestamp m"
proof -
  let ?f = "fmt020 s @ '':''" and ?k = "fmt020 (gm_timestamp m) @ CHR '':'' # gm_id m"
  have t: "stamp_ok (gm_timestamp m)" using assms(1) by (simp add: group_ok_def)
  have "g @ CHR '':'' # ?f \<le> g @ CHR '':'' # ?k \<longleftrightarrow> \<not> (g @ CHR '':'' # ?k < g @ CHR '':'' # ?f)"
    by (rule linorder_not_less [symmetric])
  also have "\<dots> \<longleftrightarrow> \<not> ?k < ?f" by simp
  also have "\<dots> \<longleftrightarrow> s \<le> gm_timestamp m"
  proof (cases "gm_timestamp m" s rule: linorder_cases)
    case less
    then have "?k < ?f"
      using fmt020_less [OF t assms(3)] t assms(3) by (intro list_less_append_same_length) simp_all
    with less show ?thesis by simp
  next
    case equal
    then show ?thesis by simp
  next
    case greater
    then have "?f < ?k"
      using fmt020_less [OF assms(3) t] t assms(3) by (intro list_less_append_same_length) simp_all
    then have "\<not> ?k < ?f" by (rule less_not_sym)
    with greater show ?thesis by simp
  qed
  finally show ?thesis using assms(2) by (simp add: gm_key_eq)
qed

definition since_log :: "'t store_env \<Rightarrow> 't message_db \<Rightarrow> string \<Rightarrow> int \<Rightarrow> group_message list" where
  "since_log E db g s = decoded (se_group E)
     (filter (\<lambda>e. prefix (g @ '':'') (fst e) \<and> g @ '':'' @ fmt020 s @ '':'' \<le> fst e) (sl_iter (se_sled E) (db_group db)))"

lemma since_log:
  assumes "env_ok E" and "group_wf E db" and "no_colon g" and "stamp_ok s"
  shows "set (since_log E db g s) = {m \<in> group_messages E db. gm_group_id m = g \<and> s \<le> gm_timestamp m}"
    and "sorted (map gm_timestamp (since_log E db g s))" and "distinct (since_log E db g s)"
proof -
  let ?P = "\<lambda>k. prefix (g @ '':'') k \<and> g @ '':'' @ fmt020 s @ '':'' \<le> k"
  note l = log_listing [of "se_sled E" "se_group E" gm_key group_ok "db_group db" ?P,
      OF env_okD(1) [OF assms(1)] assms(2), folded since_log_def]
  show "distinct (since_log E db g s)" by (rule l(3))
  have "set (since_log E db g s) = {m \<in> group_messages E db. ?P (gm_key m)}"
    using set_decoded_filter [of "se_sled E" "se_group E" gm_key group_ok "db_group db" ?P] assms(1,2)
    by (simp only: since_log_def group_messages_def env_okD)
  also have "\<dots> = {m \<in> group_messages E db. gm_group_id m = g \<and> s \<le> gm_timestamp m}"
  proof (rule Collect_cong, rule conj_cong [OF refl])
    fix m assume "m \<in> group_messages E db"
    then have ok: "group_ok m" using assms(2) by (rule group_message_ok [rotated])
    show "?P (gm_key m) \<longleftrightarrow> gm_group_id m = g \<and> s \<le> gm_timestamp m"
      unfolding prefix_gm_key [OF ok assms(3)] using since_start [OF ok _ assms(4)] by blast
  qed
  finally show set_log: "set (since_log E db g s) = {m \<in> group_messages E db. gm_group_id m = g \<and> s \<le> gm_timestamp m}" .
  have "\<forall>m \<in> set (since_log E db g s). group_ok m \<and> gm_group_id m = g"
    using set_log group_message_ok [OF assms(2)] by auto
  with l(2) show "sorted (map gm_timestamp (since_log E db g s))" by (rule group_sorted_by_time)
qed

lemma fetch_group_since_eq:
  assumes "env_ok E" and "group_wf E db" and "in_i64 (since + 1)"
  shows "fetch_group_since E db g since limit = Inr (take (max 1 limit) (since_log E db g (since + 1)))"
proof -
  let ?start = "g @ '':'' @ fmt020 (since + 1) @ '':''"
  let ?es = "filter (\<lambda>e. ?start \<le> fst e) (sl_iter (se_sled E) (db_group db))"
  have o: "ordered_keys ?es"
    using sled_ordered [of "se_sled E" "db_group db"] assms(1) by (simp add: sorted_wrt_map sorted_wrt_filter)
  have tw: "takeWhile (\<lambda>e. prefix (g @ '':'') (fst e)) ?es = filter (\<lambda>e. prefix (g @ '':'') (fst e)) ?es"
    by (rule takeWhile_prefix [OF o, of _ ?start]) (simp_all add: prefix_def)
  have r: "sl_range (se_sled E) (db_group db) ?start None = ?es"
    by (simp only: sled_range env_okD [OF assms(1)] in_range_def option.case simp_thms)
  have dec: "\<forall>e \<in> set (takeWhile (\<lambda>e. prefix (g @ '':'') (fst e)) ?es). cd_decode (se_group E) (snd e) \<noteq> None"
    unfolding tw using assms(1,2) by (fastforce simp: sled_iter_iff log_wf_def)
  have "fetch_group_since E db g since limit = group_since_loop (se_group E) (g @ '':'') limit [] ?es"
    unfolding fetch_group_since_def Let_def saturating_add_i64_exact [OF assms(3)] r by (rule refl)
  also have "\<dots> = Inr (take (max 1 limit) (decoded (se_group E) (filter (\<lambda>e. prefix (g @ '':'') (fst e)) ?es)))"
    unfolding group_since_loop_eq [OF dec] tw by simp
  also have "filter (\<lambda>e. prefix (g @ '':'') (fst e)) ?es
      = filter (\<lambda>e. prefix (g @ '':'') (fst e) \<and> ?start \<le> fst e) (sl_iter (se_sled E) (db_group db))"
    unfolding filter_filter by (rule filter_cong) auto
  finally show ?thesis unfolding since_log_def .
qed

text \<open>\<open>impl_fetch_group_since\<close>, which group sync pages through, never fails and returns the oldest
  messages of the group that are newer than the timestamp, in chronological order and without repeats:
  as many as the limit allows, but never none while there is one, since a limit of zero still returns
  one message.\<close>

theorem fetch_group_since_oldest:
  assumes "env_ok E" and "group_wf E db" and "no_colon g" and "stamp_ok (since + 1)"
  shows "\<exists>out. fetch_group_since E db g since limit = Inr out \<and>
     (let new = {m \<in> group_messages E db. gm_group_id m = g \<and> since < gm_timestamp m}
      in sorted (map gm_timestamp out) \<and> distinct out \<and> set out \<subseteq> new \<and>
         length out = min (max 1 limit) (card new) \<and>
         (\<forall>m \<in> new - set out. \<forall>m' \<in> set out. gm_timestamp m' \<le> gm_timestamp m))"
proof -
  let ?xs = "since_log E db g (since + 1)"
  note l = since_log [OF assms]
  have "set ?xs = {m \<in> group_messages E db. gm_group_id m = g \<and> since < gm_timestamp m}"
    unfolding l(1) by auto
  note xs = this [symmetric]
  have "fetch_group_since E db g since limit = Inr (take (max 1 limit) ?xs)"
    using assms by (intro fetch_group_since_eq) simp_all
  moreover have "distinct (take (max 1 limit) ?xs)" "set (take (max 1 limit) ?xs) \<subseteq> set ?xs"
    using l(3) by (simp_all add: set_take_subset)
  ultimately show ?thesis
    unfolding xs Let_def using oldest_sorted [OF l(2,3), of "max 1 limit"] by blast
qed

subsection \<open>Samples\<close>

definition sample_group_message :: "string \<Rightarrow> string \<Rightarrow> int \<Rightarrow> group_message" where
  "sample_group_message g i t =
     \<lparr>gm_id = i, gm_sender_did = ''did:variance:aa'', gm_group_id = g, gm_timestamp = t, gm_type = 0,
      gm_reply_to = None, gm_mls_ciphertext = [7]\<rparr>"

lemma sample_group_simps [simp]:
  "gm_id (sample_group_message g i t) = i" "gm_group_id (sample_group_message g i t) = g"
  "gm_timestamp (sample_group_message g i t) = t"
  by (simp_all add: sample_group_message_def)

definition sample_group_db :: "(string, bytes) rbt message_db" where
  "sample_group_db = store_group rbt_env (store_group rbt_env (store_group rbt_env (db_new rbt_env)
     (sample_group_message ''G'' ''A'' 5)) (sample_group_message ''G'' ''B'' 7)) (sample_group_message ''H'' ''C'' 9)"

lemma stamp_ok_small [simp]: "0 \<le> t \<Longrightarrow> t < 1000000 \<Longrightarrow> stamp_ok t"
  by (simp add: stamp_ok_def in_i64_def i64_min_def i64_max_def)

lemma sample_group_ok: "no_colon g \<Longrightarrow> no_colon i \<Longrightarrow> 0 \<le> t \<Longrightarrow> t < 1000000 \<Longrightarrow> group_ok (sample_group_message g i t)"
  by (simp add: group_ok_def)

lemma sample_group_db:
  "group_wf rbt_env sample_group_db"
  "group_messages rbt_env sample_group_db
     = {sample_group_message ''G'' ''A'' 5, sample_group_message ''G'' ''B'' 7, sample_group_message ''H'' ''C'' 9}"
proof -
  let ?a = "sample_group_message ''G'' ''A'' 5" and ?b = "sample_group_message ''G'' ''B'' 7"
    and ?c = "sample_group_message ''H'' ''C'' 9"
  have ok: "group_ok ?a" "group_ok ?b" "group_ok ?c"
    by (simp_all add: sample_group_ok no_colon_def)
  note w0 = group_wf_new [OF rbt_env_ok]
  note w1 = group_wf_store [OF rbt_env_ok ok(1) w0]
  note w2 = group_wf_store [OF rbt_env_ok ok(2) w1]
  show "group_wf rbt_env sample_group_db"
    unfolding sample_group_db_def by (rule group_wf_store [OF rbt_env_ok ok(3) w2])
  have "gm_key ?a \<noteq> gm_key ?b" "gm_key ?a \<noteq> gm_key ?c" "gm_key ?b \<noteq> gm_key ?c"
    using ok by (simp_all add: gm_key_inj)
  then show "group_messages rbt_env sample_group_db = {?a, ?b, ?c}"
    unfolding sample_group_db_def group_messages_store [OF rbt_env_ok w2] group_messages_store [OF rbt_env_ok w1]
      group_messages_store [OF rbt_env_ok w0] by (auto simp: rbt_env_ok)
qed

lemma no_colon_G: "no_colon ''G''"
  by (simp add: no_colon_def)

lemma singleton_subset_list: "length xs = 1 \<Longrightarrow> set xs \<subseteq> {a} \<Longrightarrow> xs = [a]"
  by (cases xs) auto

theorem fetch_group_recent_witness:
  "fetch_group rbt_env sample_group_db ''G'' 10 (Some 6) = [sample_group_message ''G'' ''A'' 5]"
proof -
  have log: "{m \<in> group_messages rbt_env sample_group_db. gm_group_id m = ''G'' \<and> before_cutoff (Some 6) (gm_timestamp m)}
      = {sample_group_message ''G'' ''A'' 5}"
    unfolding sample_group_db(2) before_cutoff_def by auto
  note f = fetch_group_recent [OF rbt_env_ok sample_group_db(1) no_colon_G, of 10 "Some 6", unfolded Let_def log]
  show ?thesis by (rule singleton_subset_list) (use f in simp_all)
qed

theorem fetch_group_since_oldest_witness:
  "fetch_group_since rbt_env sample_group_db ''G'' 5 0 = Inr [sample_group_message ''G'' ''B'' 7]"
proof -
  have new: "{m \<in> group_messages rbt_env sample_group_db. gm_group_id m = ''G'' \<and> 5 < gm_timestamp m}
      = {sample_group_message ''G'' ''B'' 7}"
    unfolding sample_group_db(2) by auto
  have "stamp_ok (5 + 1)" by simp
  from fetch_group_since_oldest [OF rbt_env_ok sample_group_db(1) no_colon_G this, of 0, unfolded Let_def new]
  obtain out where out: "fetch_group_since rbt_env sample_group_db ''G'' 5 0 = Inr out"
    "set out \<subseteq> {sample_group_message ''G'' ''B'' 7}" "length out = min (max 1 0) (card {sample_group_message ''G'' ''B'' 7})"
    by blast
  from out(3) have "length out = 1" by simp
  with out(2) have "out = [sample_group_message ''G'' ''B'' 7]" by (intro singleton_subset_list)
  with out(1) show ?thesis by simp
qed

subsection \<open>The newest message and membership\<close>

lemma group_range_nonempty: "map gm_key (group_log E db g) = map fst (group_range E db g) \<Longrightarrow>
    group_range E db g = [] \<longleftrightarrow> group_log E db g = []"
  by (metis map_is_Nil_conv)

lemma last_group_entry:
  assumes "env_ok E" and "group_wf E db" and "no_colon g" and "group_log E db g \<noteq> []"
  shows "\<exists>k v. last_entry (group_range E db g) = Some (k, v) \<and> cd_decode (se_group E) v = Some (last (group_log E db g))"
proof -
  have ne: "group_range E db g \<noteq> []"
    using assms(4) group_range_nonempty [OF group_log(4) [OF assms(1-3)]] by simp
  then obtain es k v where es: "group_range E db g = es @ [(k, v)]" by (metis rev_exhaust surj_pair)
  then have "(k, v) \<in> set (group_range E db g)" by simp
  then have "(k, v) \<in> set (sl_iter (se_sled E) (db_group db))"
    unfolding group_range_filter [OF assms(1), of db g] by simp
  then obtain m where m: "cd_decode (se_group E) v = Some m"
    using assms(1,2) by (auto simp: sled_iter_iff log_wf_def)
  have "group_log E db g = decoded (se_group E) es @ [m]" by (simp add: group_log_def es m)
  with es m show ?thesis by (simp add: last_entry_def)
qed

text \<open>\<open>impl_latest_group_timestamp\<close> is the maximum of the timestamps of the group's messages, or none
  when there is no message, and \<open>impl_fetch_group_latest\<close> is a message that has it.\<close>

theorem latest_group_exact:
  assumes "env_ok E" and "group_wf E db" and "no_colon g"
  shows "let M = {m \<in> group_messages E db. gm_group_id m = g}
    in latest_group_timestamp E db g = Inr (if M = {} then None else Some (Max (gm_timestamp ` M))) \<and>
       (M = {} \<longleftrightarrow> fetch_group_latest E db g = None) \<and>
       (\<forall>m. fetch_group_latest E db g = Some m \<longrightarrow> m \<in> M \<and> gm_timestamp m = Max (gm_timestamp ` M))"
proof (cases "group_log E db g = []")
  case True
  then have "{m \<in> group_messages E db. gm_group_id m = g} = {}"
    using group_log(1) [OF assms] by simp
  moreover have "last_entry (group_range E db g) = None"
    using True group_range_nonempty [OF group_log(4) [OF assms]] by (simp add: last_entry_def)
  ultimately show ?thesis by (simp add: latest_group_timestamp_def fetch_group_latest_def Let_def)
next
  case False
  let ?M = "{m \<in> group_messages E db. gm_group_id m = g}" and ?l = "last (group_log E db g)"
  obtain k v where kv: "last_entry (group_range E db g) = Some (k, v)" "cd_decode (se_group E) v = Some ?l"
    using last_group_entry [OF assms False] by blast
  have M: "set (group_log E db g) = ?M" by (rule group_log(1) [OF assms])
  have l: "?l \<in> ?M" using last_in_set [OF False] unfolding M .
  have "gm_timestamp m \<le> gm_timestamp ?l" if "m \<in> ?M" for m
  proof -
    obtain xs where xs: "group_log E db g = xs @ [?l]" using False by (metis append_butlast_last_id)
    have "sorted (map gm_timestamp xs @ [gm_timestamp ?l])"
      using group_log(2) [OF assms] xs by (metis list.map(1) list.map(2) map_append)
    moreover have "m \<in> set xs \<or> m = ?l" using that M xs by (metis Un_insert_right empty_set insert_iff list.simps(15) set_append sup_bot_right)
    ultimately show ?thesis by (auto simp: sorted_append)
  qed
  moreover have "finite ?M" unfolding M [symmetric] by simp
  ultimately have "Max (gm_timestamp ` ?M) = gm_timestamp ?l"
    using l by (intro Max_eqI) auto
  moreover have "?M \<noteq> {}" using l by blast
  moreover have "latest_group_timestamp E db g = Inr (Some (gm_timestamp ?l))" "fetch_group_latest E db g = Some ?l"
    by (simp_all add: latest_group_timestamp_def fetch_group_latest_def kv)
  ultimately show ?thesis using l by (simp only: Let_def) simp
qed

theorem latest_group_exact_witness:
  "latest_group_timestamp rbt_env sample_group_db ''G'' = Inr (Some 7)"
proof -
  have M: "{m \<in> group_messages rbt_env sample_group_db. gm_group_id m = ''G''}
      = {sample_group_message ''G'' ''A'' 5, sample_group_message ''G'' ''B'' 7}"
    unfolding sample_group_db(2) by auto
  note f = conjunct1 [OF latest_group_exact [OF rbt_env_ok sample_group_db(1) no_colon_G, unfolded Let_def M]]
  show ?thesis unfolding f by simp
qed

lemma has_group_message_iff:
  assumes "env_ok E" and "group_wf E db" and "no_colon g" and "no_colon i"
  shows "has_group_message E db g i \<longleftrightarrow> (\<exists>m \<in> group_messages E db. gm_group_id m = g \<and> gm_id m = i)"
proof -
  have "has_group_message E db g i \<longleftrightarrow> (\<exists>k \<in> set (map fst (group_range E db g)). suffix ('':'' @ i) k)"
    by (simp add: has_group_message_def list_ex_iff)
  also have "\<dots> \<longleftrightarrow> (\<exists>m \<in> set (group_log E db g). suffix ('':'' @ i) (gm_key m))"
    unfolding group_log(4) [OF assms(1-3), symmetric] by simp
  also have "\<dots> \<longleftrightarrow> (\<exists>m \<in> set (group_log E db g). gm_id m = i)"
  proof (rule bex_cong [OF refl])
    fix m assume "m \<in> set (group_log E db g)"
    then have "group_ok m" using group_log(1) [OF assms(1-3)] group_message_ok [OF assms(2)] by simp
    then show "suffix ('':'' @ i) (gm_key m) \<longleftrightarrow> gm_id m = i" using assms(4) by (rule suffix_gm_key)
  qed
  finally show ?thesis unfolding group_log(1) [OF assms(1-3)] by blast
qed

subsection \<open>Deleting a group's messages\<close>

lemma group_scan_range: "env_ok E \<Longrightarrow> sl_scan_prefix (se_sled E) (db_group db) (g @ '':'') = group_range E db g"
  by (simp add: group_range_filter sled_scan)

text \<open>Deleting the messages of a group removes exactly that group's messages from the log and exactly
  their ids from the group plaintext cache; messages of other groups, also of groups whose id starts
  with this one's, stay.\<close>

theorem delete_group_exact:
  assumes "env_ok E" and "group_wf E db" and "no_colon g"
  shows "group_messages E (delete_group_messages E db g) = {m \<in> group_messages E db. gm_group_id m \<noteq> g} \<and>
    (\<forall>i. fetch_group_plaintext E (delete_group_messages E db g) i =
       (if \<exists>m \<in> group_messages E db. gm_group_id m = g \<and> gm_id m = i then None else fetch_group_plaintext E db i))"
proof (rule conjI)
  let ?ks = "map fst (sl_scan_prefix (se_sled E) (db_group db) (g @ '':''))"
  let ?G = "{m \<in> group_messages E db. gm_group_id m = g}"
  have ks: "?ks = map gm_key (group_log E db g)"
    unfolding group_scan_range [OF assms(1)] by (rule group_log(4) [OF assms, symmetric])
  have set_ks: "set ?ks = gm_key ` ?G"
    unfolding ks set_map group_log(1) [OF assms] by (rule refl)
  have "db_group (delete_group_messages E db g) = sl_remove_all (se_sled E) (db_group db) ?ks"
    by (simp add: delete_group_messages_def Let_def)
  from group_messages_remove_all [OF assms(1,2) this]
  have 1: "group_messages E (delete_group_messages E db g) = {m \<in> group_messages E db. gm_key m \<notin> gm_key ` ?G}"
    unfolding set_ks .
  have "gm_key m \<in> gm_key ` ?G \<longleftrightarrow> gm_group_id m = g" if "m \<in> group_messages E db" for m
  proof
    assume "gm_key m \<in> gm_key ` ?G"
    then obtain n where "n \<in> group_messages E db" "gm_group_id n = g" "gm_key m = gm_key n" by blast
    then show "gm_group_id m = g"
      using that group_message_ok [OF assms(2)] by (simp add: gm_key_inj)
  qed (use that in blast)
  with 1 show "group_messages E (delete_group_messages E db g) = {m \<in> group_messages E db. gm_group_id m \<noteq> g}" by blast
  have "set (List.map_filter after_last_colon (map gm_key ms)) = gm_id ` set ms" if "\<forall>m \<in> set ms. group_ok m" for ms
    using that by (induction ms) (auto simp: List.map_filter_simps key_simps)
  moreover have "\<forall>m \<in> set (group_log E db g). group_ok m"
    unfolding group_log(1) [OF assms] using group_message_ok [OF assms(2)] by blast
  ultimately have "set (List.map_filter after_last_colon ?ks) = gm_id ` ?G"
    unfolding ks group_log(1) [OF assms, symmetric] by blast
  then show "\<forall>i. fetch_group_plaintext E (delete_group_messages E db g) i =
       (if \<exists>m \<in> group_messages E db. gm_group_id m = g \<and> gm_id m = i then None else fetch_group_plaintext E db i)"
    using assms(1) by (auto simp: fetch_group_plaintext_def delete_group_messages_def Let_def sled_get_remove_all)
qed

theorem delete_group_exact_witness:
  "group_messages rbt_env (delete_group_messages rbt_env sample_group_db ''G'') = {sample_group_message ''H'' ''C'' 9}"
proof -
  note d = conjunct1 [OF delete_group_exact [OF rbt_env_ok sample_group_db(1) no_colon_G]]
  have "{m \<in> {sample_group_message ''G'' ''A'' 5, sample_group_message ''G'' ''B'' 7, sample_group_message ''H'' ''C'' 9}.
      gm_group_id m \<noteq> ''G''} = {sample_group_message ''H'' ''C'' 9}" by auto
  then show ?thesis unfolding d sample_group_db(2) .
qed

subsection \<open>Roles\<close>

lemma set_member_role_None: "set_member_role d r ms = None \<longleftrightarrow> d \<notin> mb_did ` set ms"
  by (induction ms) auto

lemma set_member_role_Some:
  "set_member_role d r ms = Some ms' \<Longrightarrow> \<exists>xs m ys. ms = xs @ m # ys \<and> mb_did m = d \<and> d \<notin> mb_did ` set xs \<and>
     ms' = xs @ m\<lparr>mb_role := r\<rparr> # ys"
proof (induction ms arbitrary: ms')
  case (Cons m ms)
  show ?case
  proof (cases "mb_did m = d")
    case True
    with Cons.prems show ?thesis by (intro exI [of _ "[]"] exI [of _ m] exI [of _ ms]) simp
  next
    case False
    with Cons.prems obtain ms'' where "set_member_role d r ms = Some ms''" "ms' = m # ms''" by auto
    with Cons.IH obtain xs n ys where "ms = xs @ n # ys" "mb_did n = d" "d \<notin> mb_did ` set xs"
      "ms'' = xs @ n\<lparr>mb_role := r\<rparr> # ys" by blast
    with False \<open>ms' = m # ms''\<close> show ?thesis by (intro exI [of _ "m # xs"] exI [of _ n] exI [of _ ys]) simp
  qed
qed simp

text \<open>Changing a member's role rewrites the role of that member and nothing else of the group, touches
  no other group, and when no member has the DID it reports so and changes nothing.\<close>

theorem update_member_role_exact:
  assumes "env_ok E" and "fetch_group_metadata E db g = Some grp"
  shows "(\<forall>h. h \<noteq> g \<longrightarrow> fetch_group_metadata E (fst (update_member_role E db g d r)) h = fetch_group_metadata E db h) \<and>
    (if d \<in> mb_did ` set (gr_members grp)
     then snd (update_member_role E db g d r) = Inr True \<and>
       (\<exists>xs m ys. gr_members grp = xs @ m # ys \<and> mb_did m = d \<and> d \<notin> mb_did ` set xs \<and>
          fetch_group_metadata E (fst (update_member_role E db g d r)) g
            = Some (grp\<lparr>gr_members := xs @ m\<lparr>mb_role := r\<rparr> # ys\<rparr>))
     else update_member_role E db g d r = (db, Inr False))"
proof -
  obtain raw where raw: "sl_get (se_sled E) (db_group_metadata db) g = Some raw" "cd_decode (se_group_meta E) raw = Some grp"
    using assms(2) by (auto simp: fetch_group_metadata_def bind_eq_Some_conv)
  show ?thesis
  proof (cases "set_member_role d r (gr_members grp)")
    case None
    then have "update_member_role E db g d r = (db, Inr False)" by (simp add: update_member_role_def raw)
    with None show ?thesis by (simp add: set_member_role_None)
  next
    case (Some ms)
    then have d: "d \<in> mb_did ` set (gr_members grp)" by (metis option.distinct(1) set_member_role_None)
    obtain xs m ys where *: "gr_members grp = xs @ m # ys" "mb_did m = d" "d \<notin> mb_did ` set xs" "ms = xs @ m\<lparr>mb_role := r\<rparr> # ys"
      using set_member_role_Some [OF Some] by blast
    define db' where "db' = db\<lparr>db_group_metadata := sl_insert (se_sled E) (db_group_metadata db) g
        (cd_encode (se_group_meta E) (grp\<lparr>gr_members := ms\<rparr>))\<rparr>"
    have u: "update_member_role E db g d r = (db', Inr True)"
      by (simp add: update_member_role_def raw Some db'_def)
    have g: "fetch_group_metadata E db' h = (if h = g then Some (grp\<lparr>gr_members := ms\<rparr>) else fetch_group_metadata E db h)" for h
      using assms(1) by (simp add: fetch_group_metadata_def db'_def sled_get_insert)
    show ?thesis
      unfolding u fst_conv snd_conv g using d *
      by (intro conjI allI impI, simp, simp only: if_True) (intro conjI exI [of _ xs] exI [of _ m] exI [of _ ys], simp_all)
  qed
qed

definition sample_group_meta :: group_meta where
  "sample_group_meta =
     \<lparr>gr_id = ''G'', gr_name = ''group'', gr_admin_did = ''did:variance:aa'',
      gr_members = [\<lparr>mb_did = ''did:variance:aa'', mb_role = 2, mb_joined_at = 1, mb_nickname = None\<rparr>,
        \<lparr>mb_did = ''did:variance:bb'', mb_role = 0, mb_joined_at = 2, mb_nickname = None\<rparr>],
      gr_created_at = 1, gr_avatar_cid = None, gr_description = None, gr_frozen = False\<rparr>"

theorem update_member_role_exact_witness:
  "update_member_role rbt_env (store_group_metadata rbt_env (db_new rbt_env) sample_group_meta) ''G'' ''did:variance:cc'' 1
     = (store_group_metadata rbt_env (db_new rbt_env) sample_group_meta, Inr False)"
proof -
  have "fetch_group_metadata rbt_env (store_group_metadata rbt_env (db_new rbt_env) sample_group_meta) ''G'' = Some sample_group_meta"
    using rbt_env_ok by (simp add: fetch_group_metadata_def store_group_metadata_def sled_get_insert sample_group_meta_def)
  note u = conjunct2 [OF update_member_role_exact [OF rbt_env_ok this, of "''did:variance:cc''" 1]]
  have "\<not> ''did:variance:cc'' \<in> mb_did ` set (gr_members sample_group_meta)" by (simp add: sample_group_meta_def)
  with u show ?thesis by (simp only: if_False)
qed

end
