(* ===== verification/Offline_Store.thy ===== *)
theory Offline_Store
  imports Pending_Queue Group_Log
begin

section \<open>The offline mailboxes in the store (\<open>variance-messaging/src/storage/offline.rs\<close>)\<close>

text \<open>
  Envelopes under \<open>hex(mailbox_token):timestamp:id\<close>, with the reverse index from the message
  id to that key that the pending queue also uses. \<open>Utc::now()\<close> is an argument.
\<close>

definition envelope_id :: "envelope_message \<Rightarrow> string" where
  "envelope_id em = (case em of EnvDirect m \<Rightarrow> dm_id m | EnvGroup m \<Rightarrow> gm_id m)"

definition envelope_time :: "envelope_message \<Rightarrow> int" where
  "envelope_time em = (case em of EnvDirect m \<Rightarrow> dm_timestamp m | EnvGroup m \<Rightarrow> gm_timestamp m)"

definition store_offline ::
  "'t store_env \<Rightarrow> 't message_db \<Rightarrow> offline_envelope \<Rightarrow> 't message_db \<times> (msg_error + unit)" where
  "store_offline E db envelope =
     (case oe_message envelope of
        None \<Rightarrow> (db, Inl (EInvalidFormat ''Offline envelope has no message''))
      | Some em \<Rightarrow>
          (let key = offline_key (oe_mailbox_token envelope) (envelope_time em) (envelope_id em)
           in (db\<lparr>db_offline := sl_insert (se_sled E) (db_offline db) key (cd_encode (se_envelope E) envelope),
                  db_message_index := sl_insert (se_sled E) (db_message_index db) (index_key (envelope_id em))
                    (index_value ''offline:'' key)\<rparr>,
               Inr ())))"

text \<open>The \<open>since\<close> test of the fetch loop: \<open>rfind(':').unwrap_or(0)\<close>, then the segment before.\<close>

definition skipped_since :: "int option \<Rightarrow> string \<Rightarrow> bool" where
  "skipped_since since key =
     (case since of
        None \<Rightarrow> False
      | Some since_ts \<Rightarrow>
          (let last = (case rfind CHR '':'' key of None \<Rightarrow> 0 | Some i \<Rightarrow> i);
               before_id = take last key
           in case rfind CHR '':'' before_id of
                None \<Rightarrow> False
              | Some ts_start \<Rightarrow>
                  (case parse_i64 (drop (Suc ts_start) before_id) of
                     None \<Rightarrow> False
                   | Some ts \<Rightarrow> ts \<le> since_ts)))"

fun fetch_offline_loop ::
  "offline_envelope codec \<Rightarrow> int option \<Rightarrow> nat \<Rightarrow> offline_envelope list \<Rightarrow> (string \<times> bytes) list
     \<Rightarrow> msg_error + offline_envelope list" where
  "fetch_offline_loop c since limit messages [] = Inr messages"
| "fetch_offline_loop c since limit messages ((key, val) # es) =
     (if skipped_since since key then fetch_offline_loop c since limit messages es
      else case cd_decode c val of
          None \<Rightarrow> Inl EProtocol
        | Some envelope \<Rightarrow>
            (let messages' = messages @ [envelope]
             in if length messages' \<ge> limit then Inr messages'
                else fetch_offline_loop c since limit messages' es))"

definition fetch_offline ::
  "'t store_env \<Rightarrow> 't message_db \<Rightarrow> bytes \<Rightarrow> int option \<Rightarrow> nat \<Rightarrow> msg_error + offline_envelope list" where
  "fetch_offline E db mailbox_token since limit =
     fetch_offline_loop (se_envelope E) since limit []
       (sl_scan_prefix (se_sled E) (db_offline db) (hex_encode mailbox_token @ '':''))"

definition count_offline_for_mailbox :: "'t store_env \<Rightarrow> 't message_db \<Rightarrow> bytes \<Rightarrow> nat" where
  "count_offline_for_mailbox E db mailbox_token =
     length (sl_scan_prefix (se_sled E) (db_offline db) (hex_encode mailbox_token @ '':''))"

text \<open>The fallback of \<open>impl_delete_offline\<close>: the first entry whose message has the id.\<close>

fun find_offline :: "offline_envelope codec \<Rightarrow> string \<Rightarrow> (string \<times> bytes) list \<Rightarrow> msg_error + string" where
  "find_offline c message_id [] = Inl (EMessageNotFound message_id)"
| "find_offline c message_id ((key, val) # es) =
     (case cd_decode c val of
        None \<Rightarrow> Inl EProtocol
      | Some envelope \<Rightarrow>
          (case oe_message envelope of
             None \<Rightarrow> find_offline c message_id es
           | Some em \<Rightarrow> if envelope_id em = message_id then Inr key else find_offline c message_id es))"

definition delete_offline :: "'t store_env \<Rightarrow> 't message_db \<Rightarrow> string \<Rightarrow> 't message_db \<times> (msg_error + unit)" where
  "delete_offline E db message_id =
     (case indexed_key E db ''offline:'' message_id of
        Some full_key \<Rightarrow>
          (db\<lparr>db_offline := sl_remove (se_sled E) (db_offline db) full_key,
              db_message_index := sl_remove (se_sled E) (db_message_index db) (index_key message_id)\<rparr>, Inr ())
      | None \<Rightarrow>
          (case find_offline (se_envelope E) message_id (sl_iter (se_sled E) (db_offline db)) of
             Inl e \<Rightarrow> (db, Inl e)
           | Inr key \<Rightarrow> (db\<lparr>db_offline := sl_remove (se_sled E) (db_offline db) key\<rparr>, Inr ())))"

fun expired_keys :: "offline_envelope codec \<Rightarrow> millis \<Rightarrow> (string \<times> bytes) list \<Rightarrow> msg_error + string list" where
  "expired_keys c now [] = Inr []"
| "expired_keys c now ((key, val) # es) =
     (case cd_decode c val of
        None \<Rightarrow> Inl EProtocol
      | Some envelope \<Rightarrow>
          (case expired_keys c now es of
             Inl e \<Rightarrow> Inl e
           | Inr ks \<Rightarrow> Inr (if oe_expires_at envelope \<le> now then key # ks else ks)))"

definition offline_cleanup_expired ::
  "'t store_env \<Rightarrow> 't message_db \<Rightarrow> millis \<Rightarrow> 't message_db \<times> (msg_error + nat)" where
  "offline_cleanup_expired E db now =
     (case expired_keys (se_envelope E) now (sl_iter (se_sled E) (db_offline db)) of
        Inl e \<Rightarrow> (db, Inl e)
      | Inr ks \<Rightarrow> (db\<lparr>db_offline := sl_remove_all (se_sled E) (db_offline db) ks\<rparr>, Inr (length ks)))"

subsection \<open>The mailbox as a list\<close>

definition oe_key :: "offline_envelope \<Rightarrow> string" where
  "oe_key e = (case oe_message e of None \<Rightarrow> [] | Some em \<Rightarrow> offline_key (oe_mailbox_token e) (envelope_time em) (envelope_id em))"

definition oe_time :: "offline_envelope \<Rightarrow> int" where
  "oe_time e = (case oe_message e of None \<Rightarrow> 0 | Some em \<Rightarrow> envelope_time em)"

definition offline_ok :: "offline_envelope \<Rightarrow> bool" where
  "offline_ok e \<longleftrightarrow> (\<exists>em. oe_message e = Some em \<and> stamp_ok (envelope_time em) \<and> no_colon (envelope_id em))"

abbreviation offline_wf :: "'t store_env \<Rightarrow> 't message_db \<Rightarrow> bool" where
  "offline_wf E db \<equiv> log_wf (se_sled E) (se_envelope E) oe_key offline_ok (db_offline db)"

definition mailbox :: "'t store_env \<Rightarrow> 't message_db \<Rightarrow> bytes \<Rightarrow> offline_envelope set" where
  "mailbox E db tok = {e \<in> log_messages (se_sled E) (se_envelope E) (db_offline db). oe_mailbox_token e = tok}"

lemma oe_key_eq:
  "offline_ok e \<Longrightarrow> \<exists>i. no_colon i \<and> oe_key e = hex_encode (oe_mailbox_token e) @ CHR '':'' # fmt020 (oe_time e) @ CHR '':'' # i"
  by (auto simp: offline_ok_def oe_key_def oe_time_def offline_key_eq)

lemma prefix_oe_key: "offline_ok e \<Longrightarrow> prefix (hex_encode tok @ '':'') (oe_key e) \<longleftrightarrow> oe_mailbox_token e = tok"
proof -
  assume "offline_ok e"
  then obtain em where "oe_message e = Some em" by (auto simp: offline_ok_def)
  then have "oe_key e = offline_key (oe_mailbox_token e) (envelope_time em) (envelope_id em)" by (simp add: oe_key_def)
  then show ?thesis by (metis prefix_offline_key)
qed

lemma skipped_oe_key: "offline_ok e \<Longrightarrow> skipped_since since (oe_key e) \<longleftrightarrow> (\<exists>s. since = Some s \<and> oe_time e \<le> s)"
proof -
  assume ok: "offline_ok e"
  then obtain i where i: "no_colon i" "oe_key e = hex_encode (oe_mailbox_token e) @ CHR '':'' # fmt020 (oe_time e) @ CHR '':'' # i"
    using oe_key_eq by blast
  moreover have "in_i64 (oe_time e)" using ok by (auto simp: offline_ok_def oe_time_def)
  ultimately show ?thesis
    by (auto simp: skipped_since_def rfind_key rfind_append split: option.splits)
qed

lemma offline_wf_new: "env_ok E \<Longrightarrow> offline_wf E (db_new E)"
  by (simp add: log_wf_new)

lemma offline_wf_store:
  assumes "env_ok E" and "offline_wf E db" and "oe_message e \<noteq> None \<Longrightarrow> offline_ok e"
  shows "offline_wf E (fst (store_offline E db e))"
proof (cases "oe_message e")
  case (Some em)
  then have "oe_key e = offline_key (oe_mailbox_token e) (envelope_time em) (envelope_id em)" by (simp add: oe_key_def)
  with Some assms log_wf_insert [of "se_sled E" "se_envelope E" offline_ok e oe_key "db_offline db"]
  show ?thesis by (simp add: store_offline_def Let_def)
qed (simp add: store_offline_def assms(2))

lemma offline_wf_delete: "env_ok E \<Longrightarrow> offline_wf E db \<Longrightarrow> offline_wf E (fst (delete_offline E db i))"
  by (auto simp: delete_offline_def log_wf_remove split: option.splits sum.splits)

lemma offline_wf_cleanup: "env_ok E \<Longrightarrow> offline_wf E db \<Longrightarrow> offline_wf E (fst (offline_cleanup_expired E db now))"
  by (simp add: offline_cleanup_expired_def log_wf_remove_all split: sum.splits)

definition mailbox_log :: "'t store_env \<Rightarrow> 't message_db \<Rightarrow> bytes \<Rightarrow> offline_envelope list" where
  "mailbox_log E db tok = decoded (se_envelope E) (sl_scan_prefix (se_sled E) (db_offline db) (hex_encode tok @ '':''))"

lemma mailbox_log:
  assumes "env_ok E" and "offline_wf E db"
  shows "set (mailbox_log E db tok) = mailbox E db tok"
    and "sorted (map oe_time (mailbox_log E db tok))" and "distinct (mailbox_log E db tok)"
    and "\<forall>e \<in> set (mailbox_log E db tok). offline_ok e"
    and "length (mailbox_log E db tok) = count_offline_for_mailbox E db tok"
    and "map oe_key (mailbox_log E db tok)
      = map fst (sl_scan_prefix (se_sled E) (db_offline db) (hex_encode tok @ '':''))"
proof -
  let ?p = "prefix (hex_encode tok @ '':'')"
  note l = log_listing [of "se_sled E" "se_envelope E" oe_key offline_ok "db_offline db" ?p,
      OF env_okD(1) [OF assms(1)] assms(2)]
  note sc = mailbox_log_def sled_scan [OF env_okD(1) [OF assms(1)]]
  have okm: "offline_ok e" if "e \<in> log_messages (se_sled E) (se_envelope E) (db_offline db)" for e
    using log_wf_get [OF assms(2) that] by blast
  have "set (mailbox_log E db tok) = {e \<in> log_messages (se_sled E) (se_envelope E) (db_offline db). ?p (oe_key e)}"
    using set_decoded_filter [of "se_sled E" "se_envelope E" oe_key offline_ok "db_offline db" ?p] assms
    by (simp only: mailbox_log_def sled_scan env_okD)
  also have "\<dots> = mailbox E db tok"
    unfolding mailbox_def using prefix_oe_key okm by blast
  finally show set_log: "set (mailbox_log E db tok) = mailbox E db tok" .
  show "distinct (mailbox_log E db tok)" unfolding sc by (rule l(3))
  show ok: "\<forall>e \<in> set (mailbox_log E db tok). offline_ok e"
    unfolding set_log mailbox_def using okm by blast
  show k: "map oe_key (mailbox_log E db tok)
      = map fst (sl_scan_prefix (se_sled E) (db_offline db) (hex_encode tok @ '':''))" unfolding sc by (rule l(1))
  then show "length (mailbox_log E db tok) = count_offline_for_mailbox E db tok"
    unfolding count_offline_for_mailbox_def by (metis length_map)
  have "oe_time x \<le> oe_time y" if ok: "offline_ok x" "offline_ok y"
    and t: "oe_mailbox_token x = tok" "oe_mailbox_token y = tok" and lt: "oe_key x < oe_key y" for x y
  proof -
    obtain i where i: "oe_key x = hex_encode tok @ CHR '':'' # fmt020 (oe_time x) @ CHR '':'' # i"
      using oe_key_eq [OF ok(1)] t(1) by auto
    obtain j where j: "oe_key y = hex_encode tok @ CHR '':'' # fmt020 (oe_time y) @ CHR '':'' # j"
      using oe_key_eq [OF ok(2)] t(2) by auto
    have "stamp_ok (oe_time x)" "stamp_ok (oe_time y)"
      using ok by (auto simp: offline_ok_def oe_time_def)
    with lt show ?thesis unfolding i j by (rule stamped_key_order)
  qed
  moreover have "\<forall>e \<in> set (mailbox_log E db tok). offline_ok e \<and> oe_mailbox_token e = tok"
    using ok set_log by (simp add: mailbox_def)
  ultimately have "sorted_wrt (\<lambda>x y. oe_time x \<le> oe_time y) (mailbox_log E db tok)"
    using l(2) unfolding sc by (elim sorted_wrt_mono_rel [rotated]) blast
  then show "sorted (map oe_time (mailbox_log E db tok))" by (simp add: sorted_wrt_map)
qed

subsection \<open>Fetching\<close>

definition newer_than :: "int option \<Rightarrow> offline_envelope \<Rightarrow> bool" where
  "newer_than since e \<longleftrightarrow> (case since of None \<Rightarrow> True | Some s \<Rightarrow> s < oe_time e)"

lemma fetch_offline_loop_eq:
  assumes "\<forall>(k, v) \<in> set es. \<exists>e. cd_decode c v = Some e \<and> oe_key e = k \<and> offline_ok e"
  shows "fetch_offline_loop c since limit acc es =
    Inr (acc @ take (max 1 (limit - length acc)) (filter (newer_than since) (decoded c es)))"
  using assms
proof (induction es arbitrary: acc)
  case (Cons x es)
  obtain k v where x: "x = (k, v)" by (cases x)
  with Cons.prems obtain e where e: "cd_decode c v = Some e" "oe_key e = k" "offline_ok e" by auto
  have s: "skipped_since since k \<longleftrightarrow> \<not> newer_than since e"
    using skipped_oe_key [OF e(3), of since] e(2) by (auto simp: newer_than_def split: option.splits)
  show ?case
  proof (cases "newer_than since e")
    case False
    with s Cons e show ?thesis by (simp add: x)
  next
    case True
    show ?thesis
    proof (cases "length acc + 1 \<ge> limit")
      case True
      then have "max 1 (limit - length acc) = Suc 0" by simp
      with True \<open>newer_than since e\<close> s e show ?thesis by (simp add: x)
    next
      case False
      then have "max 1 (limit - length acc) = Suc (max 1 (limit - length (acc @ [e])))" by simp
      with False \<open>newer_than since e\<close> s e Cons show ?thesis by (simp add: x)
    qed
  qed
qed simp

lemma fetch_offline_eq:
  assumes "env_ok E" and "offline_wf E db"
  shows "fetch_offline E db tok since limit = Inr (take (max 1 limit) (filter (newer_than since) (mailbox_log E db tok)))"
proof -
  have "\<forall>(k, v) \<in> set (sl_scan_prefix (se_sled E) (db_offline db) (hex_encode tok @ '':'')).
      \<exists>e. cd_decode (se_envelope E) v = Some e \<and> oe_key e = k \<and> offline_ok e"
    using assms by (auto simp: sled_scan_iff log_wf_def)
  from fetch_offline_loop_eq [OF this] show ?thesis
    by (simp add: fetch_offline_def mailbox_log_def)
qed

subsection \<open>Counting\<close>

lemma count_store_offline:
  "env_ok E \<Longrightarrow> count_offline_for_mailbox E (fst (store_offline E db e)) tok
     \<le> count_offline_for_mailbox E db tok + (if oe_mailbox_token e = tok then 1 else 0)"
  using sled_scan_length_insert [of "se_sled E"]
  by (auto simp: count_offline_for_mailbox_def store_offline_def Let_def sled_scan_insert_other split: option.splits)

lemma count_delete_offline:
  "env_ok E \<Longrightarrow> count_offline_for_mailbox E (fst (delete_offline E db i)) tok \<le> count_offline_for_mailbox E db tok"
  using sled_scan_length_remove [of "se_sled E"]
  by (auto simp: count_offline_for_mailbox_def delete_offline_def split: option.splits sum.splits)

lemma count_cleanup_expired:
  "env_ok E \<Longrightarrow> count_offline_for_mailbox E (fst (offline_cleanup_expired E db now)) tok \<le> count_offline_for_mailbox E db tok"
proof -
  assume E: "env_ok E"
  have "length (sl_scan_prefix (se_sled E) (sl_remove_all (se_sled E) t ks) p) \<le> length (sl_scan_prefix (se_sled E) t p)" for t ks p
  proof (induction ks arbitrary: t)
    case (Cons k ks)
    show ?case
      using Cons.IH [of "sl_remove (se_sled E) t k"] sled_scan_length_remove [of "se_sled E" t k p] E
      by simp
  qed simp
  then show ?thesis by (simp add: count_offline_for_mailbox_def offline_cleanup_expired_def split: sum.splits)
qed

end
