(* ===== verification/Offline_Relay.thy ===== *)
theory Offline_Relay
  imports Offline_Store
begin

section \<open>The offline relay (\<open>variance-messaging/src/offline.rs\<close>, \<open>variance-p2p/src/handlers/offline.rs\<close>)\<close>

text \<open>
  \<open>OfflineRelayHandler\<close> sits on a \<open>dyn MessageStorage\<close>; the part of that trait it calls
  is the record \<open>offline_storage\<close>, and \<open>LocalMessageStorage\<close> is one value of it. What the
  relay relies on is the locale \<open>mailbox_storage\<close>, interpreted on the local store. The
  clock is an argument.
\<close>

record 'db offline_storage =
  os_store :: "'db \<Rightarrow> offline_envelope \<Rightarrow> 'db \<times> (msg_error + unit)"
  os_fetch :: "'db \<Rightarrow> bytes \<Rightarrow> int option \<Rightarrow> nat \<Rightarrow> msg_error + offline_envelope list"
  os_count :: "'db \<Rightarrow> bytes \<Rightarrow> msg_error + nat"
  os_delete :: "'db \<Rightarrow> string \<Rightarrow> 'db \<times> (msg_error + unit)"
  os_cleanup :: "'db \<Rightarrow> millis \<Rightarrow> 'db \<times> (msg_error + nat)"

definition local_offline_storage :: "'t store_env \<Rightarrow> 't message_db offline_storage" where
  "local_offline_storage E =
     \<lparr>os_store = store_offline E, os_fetch = fetch_offline E,
      os_count = (\<lambda>db tok. Inr (count_offline_for_mailbox E db tok)),
      os_delete = delete_offline E, os_cleanup = offline_cleanup_expired E\<rparr>"

subsection \<open>The handler\<close>

definition max_queued_per_mailbox :: nat where
  "max_queued_per_mailbox = 512"

definition relay_default_ttl_ms :: int where
  "relay_default_ttl_ms = 14 * 24 * 60 * 60 * 1000"

definition relay_store_message ::
  "'db offline_storage \<Rightarrow> 'db \<Rightarrow> millis \<Rightarrow> offline_envelope \<Rightarrow> 'db \<times> (msg_error + unit)" where
  "relay_store_message S db now envelope =
     (if oe_message envelope = None then (db, Inl (EInvalidFormat ''Envelope must contain a message''))
      else if oe_expires_at envelope < now then (db, Inl (EMessageExpired ''envelope''))
      else case os_count S db (oe_mailbox_token envelope) of
          Inl e \<Rightarrow> (db, Inl e)
        | Inr queued \<Rightarrow>
            if queued \<ge> max_queued_per_mailbox then (db, Inl ERelayStorageFull) else os_store S db envelope)"

definition relay_fetch_messages ::
  "'db offline_storage \<Rightarrow> 'db \<Rightarrow> offline_request \<Rightarrow> msg_error + offline_response" where
  "relay_fetch_messages S db request =
     (if oq_limit request = 0 then Inl (EInvalidFormat ''Limit must be greater than 0'')
      else case os_fetch S db (oq_mailbox_token request) (oq_since_timestamp request) (add_u32 (oq_limit request) 1) of
          Inl e \<Rightarrow> Inl e
        | Inr messages \<Rightarrow>
            (let has_more = length messages > oq_limit request;
                 actual_messages = (if has_more then take (oq_limit request) messages else messages);
                 next_cursor = (if actual_messages = [] then None else Some (oe_stored_at (last actual_messages)))
             in Inr \<lparr>or_messages = actual_messages, or_has_more = has_more, or_next_cursor = next_cursor,
                     or_error_code = None, or_error_message = None\<rparr>))"

definition relay_delete_message :: "'db offline_storage \<Rightarrow> 'db \<Rightarrow> string \<Rightarrow> 'db \<times> (msg_error + unit)" where
  "relay_delete_message S db message_id = os_delete S db message_id"

definition relay_cleanup_expired :: "'db offline_storage \<Rightarrow> 'db \<Rightarrow> millis \<Rightarrow> 'db \<times> (msg_error + nat)" where
  "relay_cleanup_expired S db now = os_cleanup S db now"

definition relay_create_envelope :: "int \<Rightarrow> millis \<Rightarrow> bytes \<Rightarrow> envelope_message \<Rightarrow> offline_envelope" where
  "relay_create_envelope ttl_ms now mailbox_token message =
     \<lparr>oe_mailbox_token = mailbox_token, oe_message = Some message, oe_stored_at = now,
      oe_expires_at = add_i64 now ttl_ms\<rparr>"

definition create_error_response :: "string \<Rightarrow> string \<Rightarrow> offline_response" where
  "create_error_response error_code error_message =
     \<lparr>or_messages = [], or_has_more = False, or_next_cursor = None,
      or_error_code = Some error_code, or_error_message = Some error_message\<rparr>"

text \<open>\<open>handle_request\<close> of the protocol handler; \<open>show_error\<close> is the \<open>Display\<close> of the error.\<close>

definition offline_handle_request ::
  "(msg_error \<Rightarrow> string) \<Rightarrow> 'db offline_storage \<Rightarrow> 'db \<Rightarrow> offline_request \<Rightarrow> offline_response" where
  "offline_handle_request show_error S db request =
     (case relay_fetch_messages S db request of
        Inr response \<Rightarrow> response
      | Inl e \<Rightarrow> create_error_response ''storage_error'' (''Failed to fetch messages: '' @ show_error e))"

subsection \<open>Runs of the relay\<close>

datatype relay_event = RelayStore millis offline_envelope | RelayDelete string | RelayCleanup millis

fun relay_step :: "'db offline_storage \<Rightarrow> 'db \<Rightarrow> relay_event \<Rightarrow> 'db" where
  "relay_step S db (RelayStore now e) = fst (relay_store_message S db now e)"
| "relay_step S db (RelayDelete i) = fst (relay_delete_message S db i)"
| "relay_step S db (RelayCleanup now) = fst (relay_cleanup_expired S db now)"

text \<open>An envelope that holds a message holds one the store can key.\<close>

fun relay_event_ok :: "relay_event \<Rightarrow> bool" where
  "relay_event_ok (RelayStore now e) = (oe_message e = None \<or> offline_ok e)"
| "relay_event_ok (RelayDelete i) = True"
| "relay_event_ok (RelayCleanup now) = True"

subsection \<open>What the relay relies on\<close>

locale mailbox_storage =
  fixes S :: "'db offline_storage"
    and ok :: "'db \<Rightarrow> bool"
    and box :: "'db \<Rightarrow> bytes \<Rightarrow> offline_envelope list"
  assumes count: "ok db \<Longrightarrow> os_count S db tok = Inr (length (box db tok))"
    and fetch: "ok db \<Longrightarrow> 0 < n \<Longrightarrow> os_fetch S db tok since n = Inr (take n (filter (newer_than since) (box db tok)))"
    and store_ok: "ok db \<Longrightarrow> oe_message e = None \<or> offline_ok e \<Longrightarrow> ok (fst (os_store S db e))"
    and store_grows: "ok db \<Longrightarrow> oe_message e = None \<or> offline_ok e \<Longrightarrow>
      length (box (fst (os_store S db e)) tok) \<le> length (box db tok) + (if oe_mailbox_token e = tok then 1 else 0)"
    and delete_ok: "ok db \<Longrightarrow> ok (fst (os_delete S db i))"
    and delete_shrinks: "ok db \<Longrightarrow> length (box (fst (os_delete S db i)) tok) \<le> length (box db tok)"
    and cleanup_ok: "ok db \<Longrightarrow> ok (fst (os_cleanup S db now))"
    and cleanup_shrinks: "ok db \<Longrightarrow> length (box (fst (os_cleanup S db now)) tok) \<le> length (box db tok)"
begin

lemma step_ok: "ok db \<Longrightarrow> relay_event_ok ev \<Longrightarrow> ok (relay_step S db ev)"
  by (cases ev) (auto simp: relay_store_message_def relay_delete_message_def relay_cleanup_expired_def
      store_ok delete_ok cleanup_ok count)

lemma step_quota:
  assumes "ok db" and "relay_event_ok ev" and "\<forall>tok. length (box db tok) \<le> max_queued_per_mailbox"
  shows "length (box (relay_step S db ev) tok) \<le> max_queued_per_mailbox"
proof (cases ev)
  case (RelayStore now e)
  show ?thesis
  proof (cases "fst (relay_store_message S db now e) = db")
    case True
    with RelayStore assms(3) show ?thesis by simp
  next
    case False
    then have "fst (relay_store_message S db now e) = fst (os_store S db e)"
      and "length (box db (oe_mailbox_token e)) < max_queued_per_mailbox"
      by (auto simp: relay_store_message_def count assms(1) split: if_splits)
    moreover have "length (box (fst (os_store S db e)) tok)
        \<le> length (box db tok) + (if oe_mailbox_token e = tok then 1 else 0)"
      using assms(1,2) RelayStore by (intro store_grows) simp_all
    moreover have "length (box db tok) \<le> max_queued_per_mailbox" using assms(3) by blast
    ultimately show ?thesis using RelayStore by (auto split: if_splits)
  qed
next
  case (RelayDelete i)
  then show ?thesis
    using delete_shrinks [OF assms(1), of i tok] assms(3) [rule_format, of tok]
    by (simp add: relay_delete_message_def)
next
  case (RelayCleanup now)
  then show ?thesis
    using cleanup_shrinks [OF assms(1), of now tok] assms(3) [rule_format, of tok]
    by (simp add: relay_cleanup_expired_def)
qed

lemma run_quota:
  assumes "ok db" and "\<forall>tok. length (box db tok) \<le> max_queued_per_mailbox" and "\<forall>ev \<in> set evs. relay_event_ok ev"
  shows "ok (foldl (relay_step S) db evs) \<and>
    (\<forall>tok. length (box (foldl (relay_step S) db evs) tok) \<le> max_queued_per_mailbox)"
  using assms
proof (induction evs arbitrary: db)
  case (Cons ev evs)
  have "ok (relay_step S db ev)" using Cons.prems by (intro step_ok) simp_all
  moreover have "\<forall>tok. length (box (relay_step S db ev) tok) \<le> max_queued_per_mailbox"
    using Cons.prems by (intro allI step_quota) simp_all
  ultimately show ?case using Cons by simp
qed simp

lemma fetch_page:
  assumes "ok db" and "0 < oq_limit req" and "oq_limit req + 1 < 2 ^ 32"
  defines "L \<equiv> filter (newer_than (oq_since_timestamp req)) (box db (oq_mailbox_token req))"
  defines "page \<equiv> take (oq_limit req) L"
  shows "relay_fetch_messages S db req =
    Inr \<lparr>or_messages = page, or_has_more = (length L > oq_limit req),
         or_next_cursor = (if page = [] then None else Some (oe_stored_at (last page))),
         or_error_code = None, or_error_message = None\<rparr>"
proof -
  have "os_fetch S db (oq_mailbox_token req) (oq_since_timestamp req) (oq_limit req + 1) = Inr (take (oq_limit req + 1) L)"
    using fetch [OF assms(1), of "oq_limit req + 1"] by (simp add: L_def)
  moreover have "length (take (oq_limit req + 1) L) > oq_limit req \<longleftrightarrow> length L > oq_limit req" by simp
  moreover have "(if length L > oq_limit req then take (oq_limit req) (take (oq_limit req + 1) L) else take (oq_limit req + 1) L) = page"
    by (simp add: page_def min_def)
  moreover have "oq_limit req \<noteq> 0" using assms(2) by simp
  ultimately show ?thesis
    using assms(3) by (simp only: relay_fetch_messages_def add_u32_exact sum.case Let_def if_False)
qed

text \<open>The cursor of a page is a time of storing, the filter of the next page a time of sending.\<close>

lemma cursor_skips:
  assumes "ok db" and "0 < oq_limit req" and "oq_limit req + 1 < 2 ^ 32"
    and "\<forall>e \<in> set (box db (oq_mailbox_token req)). oe_time e \<le> c"
  shows "relay_fetch_messages S db (req\<lparr>oq_since_timestamp := Some c\<rparr>) =
    Inr \<lparr>or_messages = [], or_has_more = False, or_next_cursor = None, or_error_code = None, or_error_message = None\<rparr>"
proof -
  have "filter (newer_than (Some c)) (box db (oq_mailbox_token req)) = []"
    using assms(4) by (simp add: filter_empty_conv newer_than_def not_less)
  with fetch_page [OF assms(1), of "req\<lparr>oq_since_timestamp := Some c\<rparr>"] assms(2,3) show ?thesis by simp
qed

end

interpretation local: mailbox_storage "local_offline_storage E" "\<lambda>db. env_ok E \<and> offline_wf E db" "mailbox_log E" for E
proof (unfold_locales, goal_cases)
  case (3 db e)
  then show ?case by (auto simp: local_offline_storage_def intro: offline_wf_store)
next
  case (4 db e tok)
  then have "offline_wf E (fst (store_offline E db e))" by (auto intro: offline_wf_store)
  with 4 count_store_offline [of E db e tok] show ?case by (simp add: local_offline_storage_def mailbox_log(5))
next
  case (6 db i tok)
  with count_delete_offline [of E db i tok] show ?case
    by (simp add: local_offline_storage_def mailbox_log(5) offline_wf_delete)
next
  case (8 db now tok)
  with count_cleanup_expired [of E db now tok] show ?case
    by (simp add: local_offline_storage_def mailbox_log(5) offline_wf_cleanup)
next
  case (2 db n tok since)
  then have "max 1 n = n" by simp
  with 2 show ?case by (simp add: local_offline_storage_def fetch_offline_eq)
qed (simp_all add: local_offline_storage_def mailbox_log(5) offline_wf_delete offline_wf_cleanup)

subsection \<open>Properties\<close>

text \<open>C31. However messages are stored, deleted and expired, no mailbox of the relay ever holds more than
  512 messages, so one mailbox cannot exhaust the relay's storage.\<close>

theorem relay_mailbox_quota:
  assumes "env_ok E" and "\<forall>ev \<in> set evs. relay_event_ok ev"
  shows "count_offline_for_mailbox E (foldl (relay_step (local_offline_storage E)) (db_new E) evs) tok \<le> 512"
proof -
  have "env_ok E \<and> offline_wf E (db_new E)" using assms(1) offline_wf_new by blast
  moreover have "\<forall>tok. length (mailbox_log E (db_new E) tok) \<le> max_queued_per_mailbox"
    using assms(1) by (simp add: mailbox_log_def sled_scan_new)
  ultimately have "(env_ok E \<and> offline_wf E (foldl (relay_step (local_offline_storage E)) (db_new E) evs)) \<and>
      (\<forall>tok. length (mailbox_log E (foldl (relay_step (local_offline_storage E)) (db_new E) evs) tok) \<le> max_queued_per_mailbox)"
    using assms(2) by (rule local.run_quota)
  then show ?thesis by (auto simp: mailbox_log(5) max_queued_per_mailbox_def)
qed

definition sample_envelope :: "string \<Rightarrow> int \<Rightarrow> int \<Rightarrow> offline_envelope" where
  "sample_envelope i t stored =
     \<lparr>oe_mailbox_token = [1], oe_message = Some (EnvDirect (sample_direct i t)), oe_stored_at = stored,
      oe_expires_at = 1000\<rparr>"

lemma sample_envelope_simps [simp]:
  "oe_mailbox_token (sample_envelope i t s) = [1]" "oe_stored_at (sample_envelope i t s) = s"
  "oe_message (sample_envelope i t s) = Some (EnvDirect (sample_direct i t))" "oe_time (sample_envelope i t s) = t"
  by (simp_all add: sample_envelope_def oe_time_def envelope_time_def)

lemma sample_envelope_ok: "no_colon i \<Longrightarrow> 0 \<le> t \<Longrightarrow> t < 1000000 \<Longrightarrow> offline_ok (sample_envelope i t s)"
  by (simp add: offline_ok_def envelope_time_def envelope_id_def)

theorem relay_mailbox_quota_witness:
  "count_offline_for_mailbox rbt_env
     (foldl (relay_step (local_offline_storage rbt_env)) (db_new rbt_env) (replicate 600 (RelayStore 3 (sample_envelope ''A'' 5 6)))) [1] \<le> 512"
  by (rule relay_mailbox_quota [OF rbt_env_ok]) (simp add: sample_envelope_ok no_colon_def)


definition sample_offline_db :: "(string, bytes) rbt message_db" where
  "sample_offline_db = fst (store_offline rbt_env (fst (store_offline rbt_env (db_new rbt_env) (sample_envelope ''A'' 5 8)))
     (sample_envelope ''B'' 7 9))"

definition sample_request :: "int option \<Rightarrow> offline_request" where
  "sample_request since = \<lparr>oq_mailbox_token = [1], oq_since_timestamp = since, oq_limit = 1,
     oq_verifying_key = [], oq_auth_signature = [], oq_auth_timestamp = 0\<rparr>"

lemma oe_key_store:
  "oe_message e = Some em \<Longrightarrow> db_offline (fst (store_offline E db e))
     = sl_insert (se_sled E) (db_offline db) (oe_key e) (cd_encode (se_envelope E) e)"
  by (simp add: store_offline_def oe_key_def Let_def)

lemma sample_offline_db:
  "offline_wf rbt_env sample_offline_db"
  "mailbox rbt_env sample_offline_db [1] = {sample_envelope ''A'' 5 8, sample_envelope ''B'' 7 9}"
proof -
  let ?a = "sample_envelope ''A'' 5 8" and ?b = "sample_envelope ''B'' 7 9"
  let ?db = "fst (store_offline rbt_env (db_new rbt_env) ?a)"
  have ok: "offline_ok ?a" "offline_ok ?b" by (simp_all add: sample_envelope_ok no_colon_def)
  note w0 = offline_wf_new [OF rbt_env_ok]
  have w1: "offline_wf rbt_env ?db" by (rule offline_wf_store [OF rbt_env_ok w0 ok(1)])
  show "offline_wf rbt_env sample_offline_db"
    unfolding sample_offline_db_def by (rule offline_wf_store [OF rbt_env_ok w1 ok(2)])
  have "oe_key ?a \<noteq> oe_key ?b"
    using stamped_key_less [of 5 7 "hex_encode [1]" "''A''" "''B''"]
    by (auto simp: oe_key_def offline_key_eq envelope_time_def envelope_id_def)
  moreover note log_messages_insert [OF _ _ w0, of ?a] log_messages_insert [OF _ _ w1, of ?b]
  ultimately show "mailbox rbt_env sample_offline_db [1] = {?a, ?b}"
    unfolding mailbox_def sample_offline_db_def
    by (auto simp: oe_key_store rbt_env_ok log_messages_new)
qed


text \<open>The cursor does not page: whenever every message of the mailbox was sent no later than the cursor a
  page returns, asking for the next page with that cursor returns nothing and reports that nothing is left,
  also when the first page reported more messages.\<close>

theorem relay_cursor_skips:
  assumes "env_ok E" and "offline_wf E db" and "0 < oq_limit req" and "oq_limit req + 1 < 2 ^ 32"
    and "relay_fetch_messages (local_offline_storage E) db req = Inr resp" and "or_next_cursor resp = Some c"
    and "\<forall>e \<in> mailbox E db (oq_mailbox_token req). oe_time e \<le> c"
  shows "relay_fetch_messages (local_offline_storage E) db (req\<lparr>oq_since_timestamp := or_next_cursor resp\<rparr>) =
    Inr \<lparr>or_messages = [], or_has_more = False, or_next_cursor = None, or_error_code = None, or_error_message = None\<rparr>"
  unfolding assms(6) by (rule local.cursor_skips) (use assms mailbox_log(1) [OF assms(1,2)] in simp_all)

lemma length_two: "length xs = 2 \<Longrightarrow> \<exists>x y. xs = [x, y]"
  by (auto simp: length_Suc_conv numeral_2_eq_2)

theorem relay_cursor_skips_witness:
  "\<exists>resp. relay_fetch_messages (local_offline_storage rbt_env) sample_offline_db (sample_request None) = Inr resp \<and>
     or_has_more resp \<and> or_messages resp = [sample_envelope ''A'' 5 8] \<and>
     relay_fetch_messages (local_offline_storage rbt_env) sample_offline_db ((sample_request None)\<lparr>oq_since_timestamp := or_next_cursor resp\<rparr>) =
       Inr \<lparr>or_messages = [], or_has_more = False, or_next_cursor = None, or_error_code = None, or_error_message = None\<rparr>"
proof -
  let ?a = "sample_envelope ''A'' 5 8" and ?b = "sample_envelope ''B'' 7 9"
  have r: "0 < oq_limit (sample_request None)" "oq_limit (sample_request None) + 1 < 2 ^ 32"
    and q: "oq_mailbox_token (sample_request None) = [1]" "oq_since_timestamp (sample_request None) = None"
    "oq_limit (sample_request None) = 1"
    by (simp_all add: sample_request_def)
  note m = mailbox_log [OF rbt_env_ok sample_offline_db(1), of "[1]", unfolded sample_offline_db(2)]
  have ne: "?a \<noteq> ?b" by (simp add: sample_envelope_def)
  have "length (mailbox_log rbt_env sample_offline_db [1]) = 2"
    using m(1,3) ne distinct_card by (metis card_2_iff)
  then obtain x y where xy: "mailbox_log rbt_env sample_offline_db [1] = [x, y]"
    using length_two by blast
  have "{x, y} = {?a, ?b}" using m(1) unfolding xy by simp
  moreover have "oe_time x \<le> oe_time y" using m(2) unfolding xy by simp
  moreover have "\<not> oe_time ?b \<le> oe_time ?a" by simp
  ultimately have "x = ?a \<and> y = ?b" unfolding doubleton_eq_iff by blast
  with xy have L: "mailbox_log rbt_env sample_offline_db [1] = [?a, ?b]" by simp
  define resp where "resp = \<lparr>or_messages = [?a], or_has_more = True, or_next_cursor = Some 8, or_error_code = None, or_error_message = None\<rparr>"
  have p: "relay_fetch_messages (local_offline_storage rbt_env) sample_offline_db (sample_request None) = Inr resp"
    using local.fetch_page [OF conjI [OF rbt_env_ok sample_offline_db(1)] r] by (simp add: q newer_than_def L resp_def)
  have c: "or_next_cursor resp = Some 8" by (simp add: resp_def)
  have "\<forall>e \<in> mailbox rbt_env sample_offline_db (oq_mailbox_token (sample_request None)). oe_time e \<le> 8"
    unfolding q sample_offline_db(2) by simp
  from relay_cursor_skips [OF rbt_env_ok sample_offline_db(1) r p c this] p show ?thesis
    by (intro exI [of _ resp]) (simp add: resp_def)
qed

text \<open>A limit of \<open>u32::MAX\<close> wraps to zero in a release build, and one message is returned as if it were all.\<close>

lemma relay_limit_wraps:
  assumes "env_ok E" and "offline_wf E db" and "oq_limit req = 2 ^ 32 - 1"
  shows "\<exists>resp. relay_fetch_messages (local_offline_storage E) db req = Inr resp \<and>
    length (or_messages resp) \<le> 1 \<and> \<not> or_has_more resp"
  using assms fetch_offline_eq [OF assms(1,2)]
  by (auto simp: relay_fetch_messages_def local_offline_storage_def add_u32_def u32_modulus_def Let_def)

end
