(* ===== verification/Receipt_Store.thy ===== *)
theory Receipt_Store
  imports Pending_Queue
begin

section \<open>Receipts in the store (\<open>variance-messaging/src/storage/receipts.rs\<close>)\<close>

text \<open>
  Read receipts under \<open>message:reader:timestamp\<close>, group receipts under
  \<open>group:message:reader:timestamp\<close>, the read markers, and the receipts that wait for a
  peer to come back. Direct and group receipts are two instances of one log of receipts;
  the lemmas are proved once for such a log.
\<close>

subsection \<open>Direct receipts\<close>

definition rr_key :: "read_receipt \<Rightarrow> string" where
  "rr_key r = rr_message_id r @ '':'' @ rr_reader_did r @ '':'' @ fmt020 (rr_timestamp r)"

definition store_receipt :: "'t store_env \<Rightarrow> 't message_db \<Rightarrow> read_receipt \<Rightarrow> 't message_db" where
  "store_receipt E db receipt =
     db\<lparr>db_receipts := sl_insert (se_sled E) (db_receipts db) (rr_key receipt) (cd_encode (se_receipt E) receipt)\<rparr>"

definition fetch_receipts :: "'t store_env \<Rightarrow> 't message_db \<Rightarrow> string \<Rightarrow> msg_error + read_receipt list" where
  "fetch_receipts E db message_id =
     decode_all (se_receipt E) (sl_scan_prefix (se_sled E) (db_receipts db) (message_id @ '':''))"

text \<open>The loop that keeps the receipt with the highest timestamp, the first of equal ones.\<close>

fun latest_loop :: "('r \<Rightarrow> int) \<Rightarrow> 'r codec \<Rightarrow> 'r option \<Rightarrow> (string \<times> bytes) list \<Rightarrow> msg_error + 'r option" where
  "latest_loop ts c latest [] = Inr latest"
| "latest_loop ts c latest ((k, v) # es) =
     (case cd_decode c v of
        None \<Rightarrow> Inl EProtocol
      | Some receipt \<Rightarrow>
          (case latest of
             Some current \<Rightarrow>
               latest_loop ts c (if ts receipt > ts current then Some receipt else Some current) es
           | None \<Rightarrow> latest_loop ts c (Some receipt) es))"

definition fetch_receipt_status ::
  "'t store_env \<Rightarrow> 't message_db \<Rightarrow> string \<Rightarrow> did \<Rightarrow> msg_error + read_receipt option" where
  "fetch_receipt_status E db message_id reader_did =
     latest_loop rr_timestamp (se_receipt E) None
       (sl_scan_prefix (se_sled E) (db_receipts db) (message_id @ '':'' @ reader_did @ '':''))"

subsection \<open>Read markers\<close>

definition last_read_key :: "did \<Rightarrow> did \<Rightarrow> string" where
  "last_read_key our_did peer_did = our_did @ ''::'' @ peer_did"

definition group_last_read_key :: "did \<Rightarrow> string \<Rightarrow> string" where
  "group_last_read_key our_did group_id = our_did @ ''::group::'' @ group_id"

text \<open>\<open>try_into().unwrap_or([0u8; 8])\<close>: a value of another length reads as zero.\<close>

definition read_i64 :: "bytes \<Rightarrow> int" where
  "read_i64 v = (if length v = 8 then i64_from_le v else 0)"

definition store_last_read_at :: "'t store_env \<Rightarrow> 't message_db \<Rightarrow> did \<Rightarrow> did \<Rightarrow> int \<Rightarrow> 't message_db" where
  "store_last_read_at E db our_did peer_did timestamp =
     db\<lparr>db_last_read_at := sl_insert (se_sled E) (db_last_read_at db) (last_read_key our_did peer_did) (i64_to_le timestamp)\<rparr>"

definition fetch_last_read_at :: "'t store_env \<Rightarrow> 't message_db \<Rightarrow> did \<Rightarrow> did \<Rightarrow> int option" where
  "fetch_last_read_at E db our_did peer_did =
     map_option read_i64 (sl_get (se_sled E) (db_last_read_at db) (last_read_key our_did peer_did))"

definition store_group_last_read_at :: "'t store_env \<Rightarrow> 't message_db \<Rightarrow> did \<Rightarrow> string \<Rightarrow> int \<Rightarrow> 't message_db" where
  "store_group_last_read_at E db our_did group_id timestamp =
     db\<lparr>db_last_read_at :=
       sl_insert (se_sled E) (db_last_read_at db) (group_last_read_key our_did group_id) (i64_to_le timestamp)\<rparr>"

definition fetch_group_last_read_at :: "'t store_env \<Rightarrow> 't message_db \<Rightarrow> did \<Rightarrow> string \<Rightarrow> int option" where
  "fetch_group_last_read_at E db our_did group_id =
     map_option read_i64 (sl_get (se_sled E) (db_last_read_at db) (group_last_read_key our_did group_id))"

definition delete_last_read_at :: "'t store_env \<Rightarrow> 't message_db \<Rightarrow> did \<Rightarrow> did \<Rightarrow> 't message_db" where
  "delete_last_read_at E db our_did peer_did =
     db\<lparr>db_last_read_at := sl_remove (se_sled E) (db_last_read_at db) (last_read_key our_did peer_did)\<rparr>"

definition delete_group_last_read_at :: "'t store_env \<Rightarrow> 't message_db \<Rightarrow> did \<Rightarrow> string \<Rightarrow> 't message_db" where
  "delete_group_last_read_at E db our_did group_id =
     db\<lparr>db_last_read_at := sl_remove (se_sled E) (db_last_read_at db) (group_last_read_key our_did group_id)\<rparr>"

subsection \<open>Group receipts\<close>

definition gx_key :: "group_read_receipt \<Rightarrow> string" where
  "gx_key r = gx_group_id r @ '':'' @ gx_message_id r @ '':'' @ gx_reader_did r @ '':'' @ fmt020 (gx_timestamp r)"

definition store_group_receipt :: "'t store_env \<Rightarrow> 't message_db \<Rightarrow> group_read_receipt \<Rightarrow> 't message_db" where
  "store_group_receipt E db receipt =
     db\<lparr>db_group_receipts :=
       sl_insert (se_sled E) (db_group_receipts db) (gx_key receipt) (cd_encode (se_group_receipt E) receipt)\<rparr>"

definition fetch_group_receipts ::
  "'t store_env \<Rightarrow> 't message_db \<Rightarrow> string \<Rightarrow> string \<Rightarrow> msg_error + group_read_receipt list" where
  "fetch_group_receipts E db group_id message_id =
     decode_all (se_group_receipt E)
       (sl_scan_prefix (se_sled E) (db_group_receipts db) (group_id @ '':'' @ message_id @ '':''))"

definition fetch_group_receipt_status ::
  "'t store_env \<Rightarrow> 't message_db \<Rightarrow> string \<Rightarrow> string \<Rightarrow> did \<Rightarrow> msg_error + group_read_receipt option" where
  "fetch_group_receipt_status E db group_id message_id reader_did =
     latest_loop gx_timestamp (se_group_receipt E) None
       (sl_scan_prefix (se_sled E) (db_group_receipts db)
         (group_id @ '':'' @ message_id @ '':'' @ reader_did @ '':''))"

subsection \<open>Receipts waiting for a peer\<close>

definition store_pending_receipt :: "'t store_env \<Rightarrow> 't message_db \<Rightarrow> did \<Rightarrow> read_receipt \<Rightarrow> 't message_db" where
  "store_pending_receipt E db target_did receipt =
     db\<lparr>db_pending_receipts := sl_insert (se_sled E) (db_pending_receipts db)
       (target_did @ '':'' @ rr_message_id receipt) (cd_encode (se_receipt E) receipt)\<rparr>"

definition drain_pending_receipts :: "'t store_env \<Rightarrow> 't message_db \<Rightarrow> did \<Rightarrow> 't message_db \<times> read_receipt list" where
  "drain_pending_receipts E db target_did =
     (let entries = sl_scan_prefix (se_sled E) (db_pending_receipts db) (target_did @ '':'')
      in (db\<lparr>db_pending_receipts := sl_remove_all (se_sled E) (db_pending_receipts db) (map fst entries)\<rparr>,
          decoded (se_receipt E) entries))"

subsection \<open>Logs of receipts\<close>

definition rr_ok :: "read_receipt \<Rightarrow> bool" where
  "rr_ok r \<longleftrightarrow> no_colon (rr_message_id r) \<and> did_ok (rr_reader_did r) \<and> stamp_ok (rr_timestamp r)"

definition gx_ok :: "group_read_receipt \<Rightarrow> bool" where
  "gx_ok r \<longleftrightarrow> no_colon (gx_group_id r) \<and> no_colon (gx_message_id r) \<and> did_ok (gx_reader_did r) \<and> stamp_ok (gx_timestamp r)"

abbreviation receipts_wf :: "'t store_env \<Rightarrow> 't message_db \<Rightarrow> bool" where
  "receipts_wf E db \<equiv> log_wf (se_sled E) (se_receipt E) rr_key rr_ok (db_receipts db)"

abbreviation group_receipts_wf :: "'t store_env \<Rightarrow> 't message_db \<Rightarrow> bool" where
  "group_receipts_wf E db \<equiv> log_wf (se_sled E) (se_group_receipt E) gx_key gx_ok (db_group_receipts db)"

definition receipts :: "'t store_env \<Rightarrow> 't message_db \<Rightarrow> read_receipt set" where
  "receipts E db = log_messages (se_sled E) (se_receipt E) (db_receipts db)"

definition group_receipts :: "'t store_env \<Rightarrow> 't message_db \<Rightarrow> group_read_receipt set" where
  "group_receipts E db = log_messages (se_sled E) (se_group_receipt E) (db_group_receipts db)"

lemma receipts_wf_new: "env_ok E \<Longrightarrow> receipts_wf E (db_new E)"
  by (simp add: log_wf_new)

lemma receipts_wf_store: "env_ok E \<Longrightarrow> rr_ok r \<Longrightarrow> receipts_wf E db \<Longrightarrow> receipts_wf E (store_receipt E db r)"
  by (simp add: store_receipt_def log_wf_insert)

lemma group_receipts_wf_new: "env_ok E \<Longrightarrow> group_receipts_wf E (db_new E)"
  by (simp add: log_wf_new)

lemma group_receipts_wf_store:
  "env_ok E \<Longrightarrow> gx_ok r \<Longrightarrow> group_receipts_wf E db \<Longrightarrow> group_receipts_wf E (store_group_receipt E db r)"
  by (simp add: store_group_receipt_def log_wf_insert)

text \<open>Which receipts a prefix lists.\<close>

lemma prefix_rr_message: "rr_ok r \<Longrightarrow> no_colon i \<Longrightarrow> prefix (i @ '':'') (rr_key r) \<longleftrightarrow> rr_message_id r = i"
  using prefix_colon_iff [of "CHR '':''" i "rr_message_id r"] by (auto simp: rr_key_def rr_ok_def no_colon_def)

lemma prefix_colons2:
  assumes "colons a = colons a'" and "colons b = colons b'"
  shows "prefix (a @ '':'' @ b @ '':'') (a' @ '':'' @ b' @ '':'' @ r) \<longleftrightarrow> a = a' \<and> b = b'"
proof
  assume "prefix (a @ '':'' @ b @ '':'') (a' @ '':'' @ b' @ '':'' @ r)"
  then obtain z where "a @ CHR '':'' # (b @ CHR '':'' # z) = a' @ CHR '':'' # (b' @ CHR '':'' # r)"
    by (auto simp: prefix_def)
  from split_by_colons [OF this assms(1)] split_by_colons [OF _ assms(2)] show "a = a' \<and> b = b'" by blast
qed simp

lemma prefix_rr_reader:
  assumes "rr_ok r" and "no_colon i" and "did_ok d"
  shows "prefix (i @ '':'' @ d @ '':'') (rr_key r) \<longleftrightarrow> rr_message_id r = i \<and> rr_reader_did r = d"
proof -
  have "colons i = colons (rr_message_id r)" "colons d = colons (rr_reader_did r)"
    using assms by (simp_all add: rr_ok_def colons_no_colon did_ok_def)
  from prefix_colons2 [OF this, of "fmt020 (rr_timestamp r)"] show ?thesis by (auto simp: rr_key_def)
qed

lemma prefix_gx_message:
  assumes "gx_ok r" and "no_colon g" and "no_colon i"
  shows "prefix (g @ '':'' @ i @ '':'') (gx_key r) \<longleftrightarrow> gx_group_id r = g \<and> gx_message_id r = i"
proof -
  have "colons g = colons (gx_group_id r)" "colons i = colons (gx_message_id r)"
    using assms by (simp_all add: gx_ok_def colons_no_colon)
  from prefix_colons2 [OF this, of "gx_reader_did r @ '':'' @ fmt020 (gx_timestamp r)"] show ?thesis
    by (auto simp: gx_key_def)
qed

lemma decode_all_decoded:
  "\<forall>e \<in> set es. cd_decode c (snd e) \<noteq> None \<Longrightarrow> decode_all c es = Inr (decoded c es)"
  by (induction es) auto

lemma decode_all_log:
  assumes "sled_ok S" and "log_wf S c key ok t"
  shows "\<exists>ms. decode_all c (sl_scan_prefix S t p) = Inr ms \<and> set ms = {m \<in> log_messages S c t. prefix p (key m)}"
proof -
  have "\<forall>e \<in> set (sl_scan_prefix S t p). cd_decode c (snd e) \<noteq> None"
    using assms by (fastforce simp: sled_scan_iff log_wf_def)
  moreover have "set (decoded c (sl_scan_prefix S t p)) = {m \<in> log_messages S c t. prefix p (key m)}"
    using set_decoded_filter [OF assms, of "prefix p"] assms(1) by (simp only: sled_scan)
  ultimately show ?thesis using decode_all_decoded by blast
qed

text \<open>The loop returns a receipt with the highest timestamp.\<close>

definition newest_of :: "('r \<Rightarrow> int) \<Rightarrow> 'r set \<Rightarrow> 'r option \<Rightarrow> bool" where
  "newest_of ts M r \<longleftrightarrow> (case r of None \<Rightarrow> M = {} | Some m \<Rightarrow> m \<in> M \<and> (\<forall>n \<in> M. ts n \<le> ts m))"

lemma latest_loop_newest:
  assumes "\<forall>e \<in> set es. cd_decode c (snd e) \<noteq> None" and "newest_of ts M latest"
  shows "\<exists>r. latest_loop ts c latest es = Inr r \<and> newest_of ts (M \<union> set (decoded c es)) r"
  using assms
proof (induction es arbitrary: M latest)
  case (Cons e es)
  obtain k v m where e: "e = (k, v)" "cd_decode c v = Some m"
    using Cons.prems(1) by (cases e) auto
  define l where "l = (case latest of Some cur \<Rightarrow> if ts m > ts cur then Some m else Some cur | None \<Rightarrow> Some m)"
  have "newest_of ts (insert m M) l"
    using Cons.prems(2) by (auto simp: newest_of_def l_def split: option.splits)
  then obtain r where "latest_loop ts c l es = Inr r" "newest_of ts (insert m M \<union> set (decoded c es)) r"
    using Cons.IH Cons.prems(1) by (metis list.set_intros(2))
  then show ?case by (auto simp: e l_def split: option.splits)
qed simp

lemma latest_log:
  assumes "sled_ok S" and "log_wf S c key ok t"
  shows "\<exists>r. latest_loop ts c None (sl_scan_prefix S t p) = Inr r \<and> newest_of ts {m \<in> log_messages S c t. prefix p (key m)} r"
proof -
  have "\<forall>e \<in> set (sl_scan_prefix S t p). cd_decode c (snd e) \<noteq> None"
    using assms by (fastforce simp: sled_scan_iff log_wf_def)
  from latest_loop_newest [OF this, of ts "{}" None] have
    "\<exists>r. latest_loop ts c None (sl_scan_prefix S t p) = Inr r \<and> newest_of ts (set (decoded c (sl_scan_prefix S t p))) r"
    by (simp add: newest_of_def)
  moreover have "set (decoded c (sl_scan_prefix S t p)) = {m \<in> log_messages S c t. prefix p (key m)}"
    using set_decoded_filter [OF assms, of "prefix p"] assms(1) by (simp only: sled_scan)
  ultimately show ?thesis by simp
qed

lemma log_member_ok: "log_wf S c key ok t \<Longrightarrow> m \<in> log_messages S c t \<Longrightarrow> ok m"
  by (drule (1) log_wf_get) blast

text \<open>The receipt status of a message for one reader never fails and is the receipt of that reader
  for that message with the highest timestamp, or none exactly when there is no such receipt.\<close>

theorem receipt_status_newest:
  assumes "env_ok E" and "receipts_wf E db" and "no_colon i" and "did_ok d"
  shows "\<exists>r. fetch_receipt_status E db i d = Inr r \<and>
    newest_of rr_timestamp {m \<in> receipts E db. rr_message_id m = i \<and> rr_reader_did m = d} r"
proof -
  obtain r where r: "fetch_receipt_status E db i d = Inr r"
    "newest_of rr_timestamp {m \<in> receipts E db. prefix (i @ '':'' @ d @ '':'') (rr_key m)} r"
    using latest_log [OF env_okD(1) [OF assms(1)] assms(2), of rr_timestamp "i @ '':'' @ d @ '':''"]
    unfolding fetch_receipt_status_def receipts_def by blast
  have "{m \<in> receipts E db. prefix (i @ '':'' @ d @ '':'') (rr_key m)}
      = {m \<in> receipts E db. rr_message_id m = i \<and> rr_reader_did m = d}"
    using prefix_rr_reader [OF log_member_ok [OF assms(2)] assms(3,4)] unfolding receipts_def by blast
  with r show ?thesis by auto
qed

lemma fetch_group_receipts_set:
  assumes "env_ok E" and "group_receipts_wf E db" and "no_colon g" and "no_colon i"
  shows "\<exists>rs. fetch_group_receipts E db g i = Inr rs \<and>
    set rs = {m \<in> group_receipts E db. gx_group_id m = g \<and> gx_message_id m = i}"
proof -
  obtain rs where rs: "fetch_group_receipts E db g i = Inr rs"
    "set rs = {m \<in> group_receipts E db. prefix (g @ '':'' @ i @ '':'') (gx_key m)}"
    using decode_all_log [OF env_okD(1) [OF assms(1)] assms(2), of "g @ '':'' @ i @ '':''"]
    unfolding fetch_group_receipts_def group_receipts_def by blast
  have "{m \<in> group_receipts E db. prefix (g @ '':'' @ i @ '':'') (gx_key m)}
      = {m \<in> group_receipts E db. gx_group_id m = g \<and> gx_message_id m = i}"
    using prefix_gx_message [OF log_member_ok [OF assms(2)] assms(3,4)] unfolding group_receipts_def by blast
  with rs show ?thesis by auto
qed

lemma group_receipts_new [simp]: "env_ok E \<Longrightarrow> group_receipts E (db_new E) = {}"
  by (simp add: group_receipts_def log_messages_new)

lemma group_receipts_store:
  assumes "env_ok E" and "group_receipts_wf E db"
  shows "group_receipts E (store_group_receipt E db r) = insert r {m \<in> group_receipts E db. gx_key m \<noteq> gx_key r}"
  using log_messages_insert [of "se_sled E" "se_group_receipt E" gx_key gx_ok "db_group_receipts db" r] assms
  by (simp add: group_receipts_def store_group_receipt_def)

lemma receipts_new [simp]: "env_ok E \<Longrightarrow> receipts E (db_new E) = {}"
  by (simp add: receipts_def log_messages_new)

lemma receipts_store:
  assumes "env_ok E" and "receipts_wf E db"
  shows "receipts E (store_receipt E db r) = insert r {m \<in> receipts E db. rr_key m \<noteq> rr_key r}"
  using log_messages_insert [of "se_sled E" "se_receipt E" rr_key rr_ok "db_receipts db" r] assms
  by (simp add: receipts_def store_receipt_def)

lemma last_read_roundtrip:
  assumes "env_ok E" and "in_i64 t"
  shows "fetch_last_read_at E (store_last_read_at E db a b t) a b = Some t"
    and "fetch_group_last_read_at E (store_group_last_read_at E db a g t) a g = Some t"
  using assms by (simp_all add: fetch_last_read_at_def store_last_read_at_def fetch_group_last_read_at_def
      store_group_last_read_at_def sled_get_insert read_i64_def)

definition sample_read :: "int \<Rightarrow> read_receipt" where
  "sample_read t = \<lparr>rr_message_id = ''A'', rr_reader_did = ''did:variance:aa'', rr_status = 2, rr_timestamp = t,
     rr_signature = []\<rparr>"

theorem receipt_status_newest_witness:
  "fetch_receipt_status rbt_env (store_receipt rbt_env (store_receipt rbt_env (db_new rbt_env) (sample_read 7)) (sample_read 5))
     ''A'' ''did:variance:aa'' = Inr (Some (sample_read 7))"
proof -
  let ?db1 = "store_receipt rbt_env (db_new rbt_env) (sample_read 7)"
  let ?db2 = "store_receipt rbt_env ?db1 (sample_read 5)"
  have ok: "rr_ok (sample_read 7)" "rr_ok (sample_read 5)"
    by (simp_all add: rr_ok_def sample_read_def no_colon_def stamp_ok_def in_i64_def i64_min_def i64_max_def)
  have w1: "receipts_wf rbt_env ?db1"
    by (rule receipts_wf_store [OF rbt_env_ok ok(1) receipts_wf_new [OF rbt_env_ok]])
  have w2: "receipts_wf rbt_env ?db2"
    by (rule receipts_wf_store [OF rbt_env_ok ok(2) w1])
  have s1: "receipts rbt_env ?db1 = {sample_read 7}"
    using receipts_store [OF rbt_env_ok receipts_wf_new [OF rbt_env_ok]] by (simp add: rbt_env_ok)
  have "rr_key (sample_read 7) \<noteq> rr_key (sample_read 5)"
    by (simp add: rr_key_def sample_read_def stamp_ok_def in_i64_def i64_min_def i64_max_def)
  then have s2: "{m \<in> receipts rbt_env ?db2. rr_message_id m = ''A'' \<and> rr_reader_did m = ''did:variance:aa''}
      = {sample_read 5, sample_read 7}"
    unfolding receipts_store [OF rbt_env_ok w1] s1 by (auto simp: sample_read_def)
  obtain r where r: "fetch_receipt_status rbt_env ?db2 ''A'' ''did:variance:aa'' = Inr r"
    "newest_of rr_timestamp {sample_read 5, sample_read 7} r"
    using receipt_status_newest [OF rbt_env_ok w2, of "''A''" "''did:variance:aa''"] unfolding s2
    by (auto simp: no_colon_def)
  from r(2) have "r = Some (sample_read 7)"
    by (auto simp: newest_of_def sample_read_def split: option.splits)
  with r(1) show ?thesis by simp
qed

end
