(* ===== verification/Receipts.thy ===== *)
theory Receipts
  imports Receipt_Store
begin

section \<open>The receipt handler (\<open>variance-messaging/src/receipts.rs\<close>)\<close>

text \<open>
  Signing, storing and aggregating receipts. The Ed25519 key pair is a parameter: \<open>sign\<close> is
  the signing key's function from data to signature, \<open>verify\<close> the verifying key's test. The
  properties about authenticity take as hypothesis that only signed data verifies.
\<close>

subsection \<open>Direct receipts\<close>

definition receipt_data :: "read_receipt \<Rightarrow> bytes" where
  "receipt_data receipt =
     as_bytes (rr_message_id receipt) @ as_bytes (rr_reader_did receipt) @
     i32_to_le (rr_status receipt) @ i64_to_le (rr_timestamp receipt)"

definition sign_receipt :: "(bytes \<Rightarrow> bytes) \<Rightarrow> read_receipt \<Rightarrow> bytes" where
  "sign_receipt sign receipt = sign (receipt_data receipt)"

definition send_receipt ::
  "'t store_env \<Rightarrow> (bytes \<Rightarrow> bytes) \<Rightarrow> did \<Rightarrow> 't message_db \<Rightarrow> millis \<Rightarrow> string \<Rightarrow> int \<Rightarrow> 't message_db \<times> read_receipt" where
  "send_receipt E sign local_did db now message_id status =
     (let unsigned = \<lparr>rr_message_id = message_id, rr_reader_did = local_did, rr_status = status,
                      rr_timestamp = now, rr_signature = []\<rparr>;
          receipt = unsigned\<lparr>rr_signature := sign_receipt sign unsigned\<rparr>
      in (store_receipt E db receipt, receipt))"

definition send_delivered ::
  "'t store_env \<Rightarrow> (bytes \<Rightarrow> bytes) \<Rightarrow> did \<Rightarrow> 't message_db \<Rightarrow> millis \<Rightarrow> string \<Rightarrow> 't message_db \<times> read_receipt" where
  "send_delivered E sign local_did db now message_id = send_receipt E sign local_did db now message_id receipt_delivered"

definition send_read ::
  "'t store_env \<Rightarrow> (bytes \<Rightarrow> bytes) \<Rightarrow> did \<Rightarrow> 't message_db \<Rightarrow> millis \<Rightarrow> string \<Rightarrow> 't message_db \<times> read_receipt" where
  "send_read E sign local_did db now message_id = send_receipt E sign local_did db now message_id receipt_read"

definition receive_receipt :: "'t store_env \<Rightarrow> 't message_db \<Rightarrow> read_receipt \<Rightarrow> 't message_db" where
  "receive_receipt E db receipt = store_receipt E db receipt"

definition get_receipts :: "'t store_env \<Rightarrow> 't message_db \<Rightarrow> string \<Rightarrow> msg_error + read_receipt list" where
  "get_receipts E db message_id = fetch_receipts E db message_id"

definition get_receipt_status ::
  "'t store_env \<Rightarrow> 't message_db \<Rightarrow> string \<Rightarrow> did \<Rightarrow> msg_error + read_receipt option" where
  "get_receipt_status E db message_id reader_did = fetch_receipt_status E db message_id reader_did"

text \<open>A signature that is not 64 bytes long fails the conversion, before any check of it.\<close>

definition verify_signed :: "(bytes \<Rightarrow> bytes \<Rightarrow> bool) \<Rightarrow> string \<Rightarrow> bytes \<Rightarrow> bytes \<Rightarrow> msg_error + unit" where
  "verify_signed verify message_id data signature =
     (if length signature \<noteq> 64 then Inl (EInvalidSignature message_id)
      else if verify data signature then Inr () else Inl (EInvalidSignature message_id))"

definition verify_receipt_with_key :: "(bytes \<Rightarrow> bytes \<Rightarrow> bool) \<Rightarrow> read_receipt \<Rightarrow> msg_error + unit" where
  "verify_receipt_with_key verify receipt =
     verify_signed verify (rr_message_id receipt) (receipt_data receipt) (rr_signature receipt)"

subsection \<open>Group receipts\<close>

definition group_receipt_data :: "group_read_receipt \<Rightarrow> bytes" where
  "group_receipt_data receipt =
     as_bytes (gx_message_id receipt) @ as_bytes (gx_group_id receipt) @ as_bytes (gx_reader_did receipt) @
     i32_to_le (gx_status receipt) @ i64_to_le (gx_timestamp receipt)"

definition sign_group_receipt :: "(bytes \<Rightarrow> bytes) \<Rightarrow> group_read_receipt \<Rightarrow> bytes" where
  "sign_group_receipt sign receipt = sign (group_receipt_data receipt)"

definition send_group_receipt ::
  "'t store_env \<Rightarrow> (bytes \<Rightarrow> bytes) \<Rightarrow> did \<Rightarrow> 't message_db \<Rightarrow> millis \<Rightarrow> string \<Rightarrow> string \<Rightarrow> int
     \<Rightarrow> 't message_db \<times> group_read_receipt" where
  "send_group_receipt E sign local_did db now group_id message_id status =
     (let unsigned = \<lparr>gx_message_id = message_id, gx_group_id = group_id, gx_reader_did = local_did,
                      gx_status = status, gx_timestamp = now, gx_signature = []\<rparr>;
          receipt = unsigned\<lparr>gx_signature := sign_group_receipt sign unsigned\<rparr>
      in (store_group_receipt E db receipt, receipt))"

definition send_group_delivered ::
  "'t store_env \<Rightarrow> (bytes \<Rightarrow> bytes) \<Rightarrow> did \<Rightarrow> 't message_db \<Rightarrow> millis \<Rightarrow> string \<Rightarrow> string \<Rightarrow> 't message_db \<times> group_read_receipt" where
  "send_group_delivered E sign local_did db now group_id message_id =
     send_group_receipt E sign local_did db now group_id message_id receipt_delivered"

definition send_group_read ::
  "'t store_env \<Rightarrow> (bytes \<Rightarrow> bytes) \<Rightarrow> did \<Rightarrow> 't message_db \<Rightarrow> millis \<Rightarrow> string \<Rightarrow> string \<Rightarrow> 't message_db \<times> group_read_receipt" where
  "send_group_read E sign local_did db now group_id message_id =
     send_group_receipt E sign local_did db now group_id message_id receipt_read"

definition receive_group_receipt :: "'t store_env \<Rightarrow> 't message_db \<Rightarrow> group_read_receipt \<Rightarrow> 't message_db" where
  "receive_group_receipt E db receipt = store_group_receipt E db receipt"

definition get_group_receipts ::
  "'t store_env \<Rightarrow> 't message_db \<Rightarrow> string \<Rightarrow> string \<Rightarrow> msg_error + group_read_receipt list" where
  "get_group_receipts E db group_id message_id = fetch_group_receipts E db group_id message_id"

definition verify_group_receipt_with_key :: "(bytes \<Rightarrow> bytes \<Rightarrow> bool) \<Rightarrow> group_read_receipt \<Rightarrow> msg_error + unit" where
  "verify_group_receipt_with_key verify receipt =
     verify_signed verify (gx_message_id receipt) (group_receipt_data receipt) (gx_signature receipt)"

subsection \<open>The aggregate status\<close>

fun raise_status :: "group_read_receipt list \<Rightarrow> (did \<Rightarrow> int option) \<Rightarrow> (did \<Rightarrow> int option)" where
  "raise_status [] m = m"
| "raise_status (r # rs) m =
     (let entry = (case m (gx_reader_did r) of None \<Rightarrow> 0 | Some s \<Rightarrow> s)
      in raise_status rs (m(gx_reader_did r \<mapsto> (if gx_status r > entry then gx_status r else entry))))"

definition status_of :: "(did \<Rightarrow> int option) \<Rightarrow> did \<Rightarrow> int" where
  "status_of m d = (case m d of None \<Rightarrow> 0 | Some s \<Rightarrow> s)"

definition min_or_zero :: "int list \<Rightarrow> int" where
  "min_or_zero xs = (case xs of [] \<Rightarrow> 0 | x # ys \<Rightarrow> fold min ys x)"

definition get_group_aggregate_status ::
  "'t store_env \<Rightarrow> 't message_db \<Rightarrow> string \<Rightarrow> string \<Rightarrow> did list \<Rightarrow> msg_error + string" where
  "get_group_aggregate_status E db group_id message_id member_dids =
     (if member_dids = [] then Inr ''sent''
      else case fetch_group_receipts E db group_id message_id of
          Inl e \<Rightarrow> Inl e
        | Inr rs \<Rightarrow>
            (let status_map = raise_status rs Map.empty;
                 min_status = min_or_zero (map (status_of status_map) member_dids)
             in Inr (if min_status \<ge> receipt_read then ''read''
                     else if min_status \<ge> receipt_delivered then ''delivered''
                     else ''sent'')))"

subsection \<open>What is signed\<close>

definition ulid_length :: nat where
  "ulid_length = 26"

lemma receipt_data_inj:
  assumes "receipt_data a = receipt_data b" and "length (rr_message_id a) = length (rr_message_id b)"
    and "in_i32 (rr_status a)" "in_i32 (rr_status b)" "in_i64 (rr_timestamp a)" "in_i64 (rr_timestamp b)"
  shows "rr_message_id a = rr_message_id b \<and> rr_reader_did a = rr_reader_did b \<and>
    rr_status a = rr_status b \<and> rr_timestamp a = rr_timestamp b"
proof -
  have len: "length (rr_reader_did a) = length (rr_reader_did b)"
    using arg_cong [OF assms(1), of length] assms(2) by (simp add: receipt_data_def)
  have "as_bytes (rr_message_id a) = as_bytes (rr_message_id b)" "as_bytes (rr_reader_did a) = as_bytes (rr_reader_did b)"
    "i32_to_le (rr_status a) = i32_to_le (rr_status b)" "i64_to_le (rr_timestamp a) = i64_to_le (rr_timestamp b)"
    using assms(1,2) len by (simp_all add: receipt_data_def del: as_bytes_eq_iff)
  with assms(3-6) show ?thesis using i32_to_le_inj by (simp add: i64_to_le_inj)
qed


definition sample_receipt :: "int \<Rightarrow> int \<Rightarrow> read_receipt" where
  "sample_receipt status t = \<lparr>rr_message_id = ''01ARZ3NDEKTSV4RRFFQ69G5FAV'', rr_reader_did = ''did:variance:aa'',
     rr_status = status, rr_timestamp = t, rr_signature = replicate 64 0\<rparr>"


subsection \<open>What the aggregate means\<close>

lemma raise_status_ge:
  "s \<le> status_of (raise_status rs m) d \<longleftrightarrow> s \<le> status_of m d \<or> (\<exists>r \<in> set rs. gx_reader_did r = d \<and> s \<le> gx_status r)"
  if "0 < s"
proof (induction rs arbitrary: m)
  case (Cons r rs)
  let ?m = "m(gx_reader_did r \<mapsto> (if gx_status r > status_of m (gx_reader_did r) then gx_status r else status_of m (gx_reader_did r)))"
  have "raise_status (r # rs) m = raise_status rs ?m"
    by (simp add: status_of_def Let_def)
  then have "s \<le> status_of (raise_status (r # rs) m) d \<longleftrightarrow>
      s \<le> status_of ?m d \<or> (\<exists>r \<in> set rs. gx_reader_did r = d \<and> s \<le> gx_status r)"
    by (simp only: Cons.IH [of ?m])
  moreover have "s \<le> status_of ?m d \<longleftrightarrow> s \<le> status_of m d \<or> gx_reader_did r = d \<and> s \<le> gx_status r"
    by (auto simp: status_of_def split: option.splits)
  ultimately show ?case by (simp only: list.set bex_simps) blast
qed simp

lemma fold_min_ge: "(s::int) \<le> fold min ys x \<longleftrightarrow> s \<le> x \<and> (\<forall>y \<in> set ys. s \<le> y)"
  by (induction ys arbitrary: x) auto

lemma min_or_zero_ge: "xs \<noteq> [] \<Longrightarrow> s \<le> min_or_zero xs \<longleftrightarrow> (\<forall>x \<in> set xs. s \<le> x)"
  by (cases xs) (simp_all add: min_or_zero_def fold_min_ge)

definition has_status :: "'t store_env \<Rightarrow> 't message_db \<Rightarrow> string \<Rightarrow> string \<Rightarrow> int \<Rightarrow> did \<Rightarrow> bool" where
  "has_status E db g i s d \<longleftrightarrow>
     (\<exists>r \<in> group_receipts E db. gx_group_id r = g \<and> gx_message_id r = i \<and> gx_reader_did r = d \<and> s \<le> gx_status r)"

text \<open>C34. The aggregate status of a group message never fails; it is \<open>read\<close> exactly when every member has
  a read receipt for it, \<open>delivered\<close> exactly when every member has at least a delivery receipt and not
  all have read it, and \<open>sent\<close> otherwise, also for an empty list of members.\<close>

theorem aggregate_status_exact:
  assumes "env_ok E" and "group_receipts_wf E db" and "no_colon g" and "no_colon i"
  shows "get_group_aggregate_status E db g i members = Inr
    (if members \<noteq> [] \<and> list_all (has_status E db g i receipt_read) members then ''read''
     else if members \<noteq> [] \<and> list_all (has_status E db g i receipt_delivered) members then ''delivered''
     else ''sent'')"
proof (cases "members = []")
  case True
  then show ?thesis by (simp add: get_group_aggregate_status_def)
next
  case False
  obtain rs where rs: "fetch_group_receipts E db g i = Inr rs"
    "set rs = {m \<in> group_receipts E db. gx_group_id m = g \<and> gx_message_id m = i}"
    using fetch_group_receipts_set [OF assms] by blast
  have ge: "s \<le> min_or_zero (map (status_of (raise_status rs Map.empty)) members) \<longleftrightarrow> list_all (has_status E db g i s) members"
    if "0 < s" for s
  proof -
    have "s \<le> min_or_zero (map (status_of (raise_status rs Map.empty)) members)
        \<longleftrightarrow> (\<forall>d \<in> set members. s \<le> status_of (raise_status rs Map.empty) d)"
      using False by (simp add: min_or_zero_ge)
    also have "\<dots> \<longleftrightarrow> (\<forall>d \<in> set members. has_status E db g i s d)"
      unfolding raise_status_ge [OF that] rs(2) has_status_def using that by (auto simp: status_of_def)
    finally show ?thesis by (simp add: list_all_iff)
  qed
  show ?thesis
    using False ge [of receipt_read] ge [of receipt_delivered]
    by (simp add: get_group_aggregate_status_def rs(1) Let_def receipt_read_def receipt_delivered_def)
qed

definition sample_group_receipt :: "did \<Rightarrow> int \<Rightarrow> int \<Rightarrow> group_read_receipt" where
  "sample_group_receipt d status t =
     \<lparr>gx_message_id = ''M'', gx_group_id = ''G'', gx_reader_did = d, gx_status = status, gx_timestamp = t, gx_signature = []\<rparr>"

lemma sample_group_receipt_ok: "did_ok d \<Longrightarrow> 0 \<le> t \<Longrightarrow> t < 1000000 \<Longrightarrow> gx_ok (sample_group_receipt d s t)"
  by (simp add: gx_ok_def sample_group_receipt_def no_colon_def stamp_ok_def in_i64_def i64_min_def i64_max_def)

theorem aggregate_status_exact_witness:
  "get_group_aggregate_status rbt_env (store_group_receipt rbt_env (db_new rbt_env) (sample_group_receipt ''did:variance:aa'' 2 9))
     ''G'' ''M'' [''did:variance:aa''] = Inr ''read''"
proof -
  let ?r = "sample_group_receipt ''did:variance:aa'' 2 9"
  let ?db = "store_group_receipt rbt_env (db_new rbt_env) ?r"
  have ok: "gx_ok ?r" by (rule sample_group_receipt_ok) simp_all
  have wf: "group_receipts_wf rbt_env ?db"
    using group_receipts_wf_store [OF rbt_env_ok ok group_receipts_wf_new [OF rbt_env_ok]] .
  have "group_receipts rbt_env ?db = {?r}"
    using group_receipts_store [OF rbt_env_ok group_receipts_wf_new [OF rbt_env_ok], of ?r] by (simp add: rbt_env_ok)
  then have "has_status rbt_env ?db ''G'' ''M'' receipt_read ''did:variance:aa''"
    by (simp add: has_status_def sample_group_receipt_def receipt_read_def)
  with aggregate_status_exact [OF rbt_env_ok wf, of "''G''" "''M''" "[''did:variance:aa'']"] show ?thesis
    by (simp add: no_colon_def)
qed

text \<open>
  Two receipts of one reader in the same millisecond share a key: the later one replaces the
  earlier, so a delivery receipt can take a read receipt away.
\<close>

lemma same_millisecond_overwrites:
  assumes "env_ok E" and "group_receipts_wf E db" and "gx_key a = gx_key b" and "a \<noteq> b" and "gx_ok a"
  shows "a \<notin> group_receipts E (store_group_receipt E (store_group_receipt E db a) b)"
  using group_receipts_store [OF assms(1) group_receipts_wf_store [OF assms(1,5,2)], of b] assms(3,4) by auto

end
