(* ===== verification/Invite_Store.thy ===== *)
theory Invite_Store
  imports Receipt_Store
begin

section \<open>Invitations and peer names in the store (\<open>storage/invitations.rs\<close>, \<open>storage/peer.rs\<close>)\<close>

text \<open>
  Invitations a user has received, one per group; invitations a user has sent, one per group
  and invitee, with the time they were made; and the display names of peers. An outbound
  invite is stored as JSON with the encoded invitation inside: \<open>se_outbound\<close> is serde's
  encoding of that pair.
\<close>

definition decode_result :: "'m codec \<Rightarrow> bytes \<Rightarrow> msg_error + 'm" where
  "decode_result c v = (case cd_decode c v of None \<Rightarrow> Inl EProtocol | Some m \<Rightarrow> Inr m)"

definition store_pending_invitation :: "'t store_env \<Rightarrow> 't message_db \<Rightarrow> group_invitation \<Rightarrow> 't message_db" where
  "store_pending_invitation E db invitation =
     db\<lparr>db_pending_invitations :=
       sl_insert (se_sled E) (db_pending_invitations db) (gi_group_id invitation) (cd_encode (se_invitation E) invitation)\<rparr>"

definition fetch_pending_invitations :: "'t store_env \<Rightarrow> 't message_db \<Rightarrow> msg_error + group_invitation list" where
  "fetch_pending_invitations E db = decode_all (se_invitation E) (sl_iter (se_sled E) (db_pending_invitations db))"

definition fetch_pending_invitation :: "'t store_env \<Rightarrow> 't message_db \<Rightarrow> string \<Rightarrow> msg_error + group_invitation option" where
  "fetch_pending_invitation E db group_id =
     (case sl_get (se_sled E) (db_pending_invitations db) group_id of
        None \<Rightarrow> Inr None
      | Some v \<Rightarrow> (case cd_decode (se_invitation E) v of None \<Rightarrow> Inl EProtocol | Some m \<Rightarrow> Inr (Some m)))"

definition delete_pending_invitation :: "'t store_env \<Rightarrow> 't message_db \<Rightarrow> string \<Rightarrow> 't message_db" where
  "delete_pending_invitation E db group_id =
     db\<lparr>db_pending_invitations := sl_remove (se_sled E) (db_pending_invitations db) group_id\<rparr>"

definition outbound_key :: "string \<Rightarrow> did \<Rightarrow> string" where
  "outbound_key group_id invitee_did = group_id @ '':'' @ invitee_did"

definition store_outbound_invite ::
  "'t store_env \<Rightarrow> 't message_db \<Rightarrow> string \<Rightarrow> did \<Rightarrow> group_invitation \<Rightarrow> int \<Rightarrow> 't message_db" where
  "store_outbound_invite E db group_id invitee_did invitation created_at_ms =
     db\<lparr>db_outbound_invites := sl_insert (se_sled E) (db_outbound_invites db) (outbound_key group_id invitee_did)
       (cd_encode (se_outbound E) (cd_encode (se_invitation E) invitation, created_at_ms))\<rparr>"

definition fetch_outbound_invite ::
  "'t store_env \<Rightarrow> 't message_db \<Rightarrow> string \<Rightarrow> did \<Rightarrow> msg_error + (group_invitation \<times> int) option" where
  "fetch_outbound_invite E db group_id invitee_did =
     (case sl_get (se_sled E) (db_outbound_invites db) (outbound_key group_id invitee_did) of
        None \<Rightarrow> Inr None
      | Some val \<Rightarrow>
          (case cd_decode (se_outbound E) val of
             None \<Rightarrow> Inl ESerialization
           | Some (invitation_bytes, created_at_ms) \<Rightarrow>
               (case cd_decode (se_invitation E) invitation_bytes of
                  None \<Rightarrow> Inl EProtocol
                | Some invitation \<Rightarrow> Inr (Some (invitation, created_at_ms)))))"

definition delete_outbound_invite :: "'t store_env \<Rightarrow> 't message_db \<Rightarrow> string \<Rightarrow> did \<Rightarrow> 't message_db" where
  "delete_outbound_invite E db group_id invitee_did =
     db\<lparr>db_outbound_invites := sl_remove (se_sled E) (db_outbound_invites db) (outbound_key group_id invitee_did)\<rparr>"

definition delete_all_outbound_invites_for_group :: "'t store_env \<Rightarrow> 't message_db \<Rightarrow> string \<Rightarrow> 't message_db" where
  "delete_all_outbound_invites_for_group E db group_id =
     db\<lparr>db_outbound_invites := sl_remove_all (se_sled E) (db_outbound_invites db)
       (map fst (sl_scan_prefix (se_sled E) (db_outbound_invites db) (group_id @ '':'')))\<rparr>"

text \<open>Entries that do not decode are skipped; the key is cut at the first \<open>:did:\<close>.\<close>

definition outbound_entry ::
  "'t store_env \<Rightarrow> string \<times> bytes \<Rightarrow> (string \<times> did \<times> group_invitation \<times> int) option" where
  "outbound_entry E kv =
     (case cd_decode (se_outbound E) (snd kv) of
        None \<Rightarrow> None
      | Some (invitation_bytes, created_at_ms) \<Rightarrow>
          (case find_sub '':did:'' (fst kv) of
             None \<Rightarrow> None
           | Some split_pos \<Rightarrow>
               (case cd_decode (se_invitation E) invitation_bytes of
                  None \<Rightarrow> None
                | Some invitation \<Rightarrow>
                    Some (take split_pos (fst kv), drop (Suc split_pos) (fst kv), invitation, created_at_ms))))"

definition fetch_outbound_invites_for_group ::
  "'t store_env \<Rightarrow> 't message_db \<Rightarrow> string \<Rightarrow> (did \<times> group_invitation \<times> int) list" where
  "fetch_outbound_invites_for_group E db group_id =
     map snd (List.map_filter (outbound_entry E)
       (sl_scan_prefix (se_sled E) (db_outbound_invites db) (group_id @ '':'')))"

definition fetch_expired_outbound_invites ::
  "'t store_env \<Rightarrow> 't message_db \<Rightarrow> int \<Rightarrow> int \<Rightarrow> (string \<times> did \<times> group_invitation) list" where
  "fetch_expired_outbound_invites E db timeout_ms now_ms =
     map (\<lambda>(g, d, iv, t). (g, d, iv))
       (filter (\<lambda>(g, d, iv, t). add_i64 t timeout_ms < now_ms)
         (List.map_filter (outbound_entry E) (sl_iter (se_sled E) (db_outbound_invites db))))"

definition store_peer_name :: "'t store_env \<Rightarrow> 't message_db \<Rightarrow> did \<Rightarrow> string \<Rightarrow> nat \<Rightarrow> 't message_db" where
  "store_peer_name E db did username discriminator =
     db\<lparr>db_peer_names := sl_insert (se_sled E) (db_peer_names db) did (as_bytes (username @ ''#'' @ fmt04 discriminator))\<rparr>"

definition peer_name_entry :: "string \<times> bytes \<Rightarrow> (did \<times> string \<times> nat) option" where
  "peer_name_entry kv =
     (case rsplit_once CHR ''#'' (string_of_bytes (snd kv)) of
        None \<Rightarrow> None
      | Some (username, disc_str) \<Rightarrow>
          (case parse_u32 disc_str of None \<Rightarrow> None | Some disc \<Rightarrow> Some (fst kv, username, disc)))"

definition load_all_peer_names :: "'t store_env \<Rightarrow> 't message_db \<Rightarrow> (did \<times> string \<times> nat) list" where
  "load_all_peer_names E db = List.map_filter peer_name_entry (sl_iter (se_sled E) (db_peer_names db))"

subsection \<open>Outbound invites as a set\<close>

definition invitee_ok :: "did \<Rightarrow> bool" where
  "invitee_ok d \<longleftrightarrow> did_ok d \<and> prefix ''did:'' d"

definition outbound_wf :: "'t store_env \<Rightarrow> 't message_db \<Rightarrow> bool" where
  "outbound_wf E db \<longleftrightarrow> (\<forall>k v. sl_get (se_sled E) (db_outbound_invites db) k = Some v \<longrightarrow>
     (\<exists>g d iv t. k = outbound_key g d \<and> no_colon g \<and> invitee_ok d \<and> in_i64 t \<and>
        v = cd_encode (se_outbound E) (cd_encode (se_invitation E) iv, t)))"

definition outbound :: "'t store_env \<Rightarrow> 't message_db \<Rightarrow> (string \<times> did \<times> group_invitation \<times> int) set" where
  "outbound E db = {(g, d, iv, t). no_colon g \<and> invitee_ok d \<and>
     sl_get (se_sled E) (db_outbound_invites db) (outbound_key g d)
       = Some (cd_encode (se_outbound E) (cd_encode (se_invitation E) iv, t))}"

lemma codec_inj: "codec_ok c \<Longrightarrow> cd_encode c a = cd_encode c b \<longleftrightarrow> a = b"
  by (metis codec_decode option.inject)

lemma find_sub_group:
  assumes "no_colon g" and "prefix '':did:'' r"
  shows "find_sub '':did:'' (g @ r) = Some (length g)"
  using assms(1)
proof (induction g)
  case Nil
  with assms(2) show ?case by (cases r) auto
next
  case (Cons c g)
  have "\<not> prefix '':did:'' (c # g @ r)" using Cons.prems by (auto simp: no_colon_def)
  with Cons show ?case by (simp add: no_colon_def)
qed

lemma outbound_key_inj:
  "no_colon g \<Longrightarrow> no_colon h \<Longrightarrow> outbound_key g d = outbound_key h e \<longleftrightarrow> g = h \<and> d = e"
  using split_by_colons [of g d h e] by (auto simp: outbound_key_def colons_no_colon)

lemma outbound_entry_ok:
  assumes "env_ok E" and "no_colon g" and "invitee_ok d"
  shows "outbound_entry E (outbound_key g d, cd_encode (se_outbound E) (cd_encode (se_invitation E) iv, t)) = Some (g, d, iv, t)"
proof -
  have "prefix '':did:'' (CHR '':'' # d)" using assms(3) by (simp add: invitee_ok_def)
  from find_sub_group [OF assms(2) this] have "find_sub '':did:'' (outbound_key g d) = Some (length g)"
    by (simp add: outbound_key_def)
  moreover have "take (length g) (outbound_key g d) = g" "drop (Suc (length g)) (outbound_key g d) = d"
    by (simp_all add: outbound_key_def)
  ultimately show ?thesis using assms(1) unfolding outbound_entry_def by simp
qed

lemma set_map_filter: "set (List.map_filter f xs) = {y. \<exists>x \<in> set xs. f x = Some y}"
  by (force simp: List.map_filter_def)

lemma set_map_filter_outbound:
  assumes "env_ok E" and "outbound_wf E db"
  shows "set (List.map_filter (outbound_entry E) (filter (\<lambda>e. P (fst e)) (sl_iter (se_sled E) (db_outbound_invites db))))
    = {(g, d, iv, t) \<in> outbound E db. P (outbound_key g d)}"
proof (intro set_eqI iffI)
  fix x assume "x \<in> set (List.map_filter (outbound_entry E) (filter (\<lambda>e. P (fst e)) (sl_iter (se_sled E) (db_outbound_invites db))))"
  then obtain k v where kv: "sl_get (se_sled E) (db_outbound_invites db) k = Some v" "P k" "outbound_entry E (k, v) = Some x"
    using assms(1) by (auto simp: set_map_filter sled_iter_iff)
  then obtain g d iv t where "k = outbound_key g d" "no_colon g" "invitee_ok d"
    "v = cd_encode (se_outbound E) (cd_encode (se_invitation E) iv, t)"
    using assms(2) unfolding outbound_wf_def by blast
  with kv show "x \<in> {(g, d, iv, t) \<in> outbound E db. P (outbound_key g d)}"
    using outbound_entry_ok [OF assms(1)] by (auto simp: outbound_def)
next
  fix x assume "x \<in> {(g, d, iv, t) \<in> outbound E db. P (outbound_key g d)}"
  then obtain g d iv t where x: "x = (g, d, iv, t)" "P (outbound_key g d)" "no_colon g" "invitee_ok d"
    "sl_get (se_sled E) (db_outbound_invites db) (outbound_key g d) = Some (cd_encode (se_outbound E) (cd_encode (se_invitation E) iv, t))"
    by (auto simp: outbound_def)
  have "(outbound_key g d, cd_encode (se_outbound E) (cd_encode (se_invitation E) iv, t)) \<in> set (filter (\<lambda>e. P (fst e)) (sl_iter (se_sled E) (db_outbound_invites db)))"
    using x assms(1) by (simp add: sled_iter_iff)
  moreover have "outbound_entry E (outbound_key g d, cd_encode (se_outbound E) (cd_encode (se_invitation E) iv, t)) = Some x"
    using outbound_entry_ok [OF assms(1) x(3,4)] x(1) by simp
  ultimately show "x \<in> set (List.map_filter (outbound_entry E) (filter (\<lambda>e. P (fst e)) (sl_iter (se_sled E) (db_outbound_invites db))))"
    unfolding set_map_filter by blast
qed

lemma outbound_wf_new: "env_ok E \<Longrightarrow> outbound_wf E (db_new E)"
  by (simp add: outbound_wf_def sled_get_new)

lemma outbound_new [simp]: "env_ok E \<Longrightarrow> outbound E (db_new E) = {}"
  by (simp add: outbound_def sled_get_new)

lemma outbound_wf_store:
  "env_ok E \<Longrightarrow> outbound_wf E db \<Longrightarrow> no_colon g \<Longrightarrow> invitee_ok d \<Longrightarrow> in_i64 t \<Longrightarrow>
     outbound_wf E (store_outbound_invite E db g d iv t)"
  unfolding outbound_wf_def
  by (simp add: store_outbound_invite_def sled_get_insert) metis

lemma outbound_store:
  assumes "env_ok E" and "no_colon g" and "invitee_ok d"
  shows "outbound E (store_outbound_invite E db g d iv t) = insert (g, d, iv, t) {(h, e, x) \<in> outbound E db. (h, e) \<noteq> (g, d)}"
  using assms
  by (auto simp: outbound_def store_outbound_invite_def sled_get_insert outbound_key_inj codec_inj split: if_splits)

lemma outbound_delete:
  "env_ok E \<Longrightarrow> no_colon g \<Longrightarrow> outbound E (delete_outbound_invite E db g d) = {(h, e, x) \<in> outbound E db. (h, e) \<noteq> (g, d)}"
  by (auto simp: outbound_def delete_outbound_invite_def sled_get_remove outbound_key_inj split: if_splits)

lemma drop_last_image:
  "(\<lambda>(g, d, iv, t). (g, d, iv)) ` {(g, d, iv, t) \<in> A. Q t} = {(g, d, iv). \<exists>t. (g, d, iv, t) \<in> A \<and> Q t}"
  by (auto simp: image_iff)

text \<open>The expired outbound invites are exactly the stored ones that are older than the timeout, each with
  the group and the invitee it was stored under, although the key that holds both is cut by searching
  for \<open>:did:\<close>.\<close>

theorem expired_invites_exact:
  assumes "env_ok E" and "outbound_wf E db" and "\<forall>(g, d, iv, t) \<in> outbound E db. in_i64 (t + timeout)"
  shows "set (fetch_expired_outbound_invites E db timeout now)
    = {(g, d, iv). \<exists>t. (g, d, iv, t) \<in> outbound E db \<and> t + timeout < now}"
proof -
  have "set (List.map_filter (outbound_entry E) (sl_iter (se_sled E) (db_outbound_invites db))) = outbound E db"
    using set_map_filter_outbound [OF assms(1,2), of "\<lambda>_. True"] by simp
  then have "set (fetch_expired_outbound_invites E db timeout now)
      = (\<lambda>(g, d, iv, t). (g, d, iv)) ` {(g, d, iv, t) \<in> outbound E db. add_i64 t timeout < now}"
    by (simp add: fetch_expired_outbound_invites_def) (rule arg_cong [where f = "image _"], auto)
  also have "{(g, d, iv, t) \<in> outbound E db. add_i64 t timeout < now} = {(g, d, iv, t) \<in> outbound E db. t + timeout < now}"
    using assms(3) by (auto simp: add_i64_exact)
  finally show ?thesis unfolding drop_last_image .
qed

definition sample_invitation :: group_invitation where
  "sample_invitation = \<lparr>gi_group_id = ''G'', gi_group_name = ''g'', gi_inviter_did = ''did:variance:aa'',
     gi_invitee_did = ''did:variance:bb'', gi_timestamp = 5, gi_members = [], gi_mls_welcome = [], gi_mls_commit = []\<rparr>"

theorem expired_invites_exact_witness:
  "set (fetch_expired_outbound_invites rbt_env
     (store_outbound_invite rbt_env (db_new rbt_env) ''G'' ''did:variance:bb'' sample_invitation 5) 300 306)
   = {(''G'', ''did:variance:bb'', sample_invitation)}"
proof -
  let ?db = "store_outbound_invite rbt_env (db_new rbt_env) ''G'' ''did:variance:bb'' sample_invitation 5"
  have g: "no_colon ''G''" and d: "invitee_ok ''did:variance:bb''" and t: "in_i64 5"
    by (simp_all add: no_colon_def invitee_ok_def in_i64_def i64_min_def i64_max_def)
  have wf: "outbound_wf rbt_env ?db"
    by (rule outbound_wf_store [OF rbt_env_ok outbound_wf_new [OF rbt_env_ok] g d t])
  have o: "outbound rbt_env ?db = {(''G'', ''did:variance:bb'', sample_invitation, 5)}"
    unfolding outbound_store [OF rbt_env_ok g d] by (auto simp: rbt_env_ok)
  have "\<forall>(g, d, iv, t) \<in> outbound rbt_env ?db. in_i64 (t + 300)"
    unfolding o by (simp add: in_i64_def i64_min_def i64_max_def)
  from expired_invites_exact [OF rbt_env_ok wf this, of 306] show ?thesis unfolding o by simp
qed

subsection \<open>Peer names\<close>

lemma peer_name_entry_stored:
  "in_u32 n \<Longrightarrow> peer_name_entry (d, as_bytes (u @ ''#'' @ fmt04 n)) = Some (d, u, n)"
proof -
  assume n: "in_u32 n"
  have "rsplit_once CHR ''#'' (u @ CHR ''#'' # fmt04 n) = Some (u, fmt04 n)" by simp
  then have "rsplit_once CHR ''#'' (string_of_bytes (as_bytes (u @ ''#'' @ fmt04 n))) = Some (u, fmt04 n)"
    by (simp only: string_of_as_bytes append_Cons append_Nil)
  with n show ?thesis unfolding peer_name_entry_def by simp
qed

text \<open>A peer's name, stored as \<open>name#1234\<close>, is loaded back as it was, also when the name itself contains a
  \<open>#\<close>, and storing it changes no other peer's name.\<close>

theorem peer_names_roundtrip:
  assumes "env_ok E" and "in_u32 n"
  shows "(d, u, n) \<in> set (load_all_peer_names E (store_peer_name E db d u n)) \<and>
    (\<forall>e v m. e \<noteq> d \<longrightarrow> (e, v, m) \<in> set (load_all_peer_names E (store_peer_name E db d u n)) \<longleftrightarrow>
       (e, v, m) \<in> set (load_all_peer_names E db))"
proof -
  have l: "(e, v, m) \<in> set (load_all_peer_names E x)
      \<longleftrightarrow> (\<exists>b. sl_get (se_sled E) (db_peer_names x) e = Some b \<and> peer_name_entry (e, b) = Some (e, v, m))" for e v m x
  proof -
    have "fst y = fst kv" if "peer_name_entry kv = Some y" for kv y
      using that by (auto simp: peer_name_entry_def split: option.splits)
    then have "(e, v, m) \<in> set (load_all_peer_names E x)
        \<longleftrightarrow> (\<exists>b. (e, b) \<in> set (sl_iter (se_sled E) (db_peer_names x)) \<and> peer_name_entry (e, b) = Some (e, v, m))"
      unfolding load_all_peer_names_def set_map_filter by fastforce
    then show ?thesis using assms(1) by (simp add: sled_iter_iff)
  qed
  show ?thesis
    unfolding l using assms peer_name_entry_stored [OF assms(2)] by (simp add: store_peer_name_def sled_get_insert)
qed

theorem peer_names_roundtrip_witness:
  "(''did:variance:aa'', ''a#b'', 7) \<in> set (load_all_peer_names rbt_env
     (store_peer_name rbt_env (db_new rbt_env) ''did:variance:aa'' ''a#b'' 7))"
  using peer_names_roundtrip [OF rbt_env_ok, of 7 "''did:variance:aa''" "''a#b''" "db_new rbt_env"]
  by (simp add: in_u32_def u32_modulus_def)

end
