(* ===== verification/Typing.thy ===== *)
theory Typing
  imports Proto
begin

section \<open>Typing indicators (\<open>variance-messaging/src/typing.rs\<close>)\<close>

text \<open>
  \<open>TypingHandler\<close>: who is typing to whom, with a timeout, and the limits on what is sent.
  Every \<open>DashMap\<close> is a map. \<open>Utc::now()\<close> is an argument in milliseconds; each reading of
  \<open>Instant::now()\<close> or \<open>elapsed()\<close> is an argument in nanoseconds, in the order the code
  takes them. A \<open>DashMap\<close> entry that \<open>entry(..).or_default()\<close> creates is an empty list.
\<close>

definition outbound_cooldown_ms :: nat where
  "outbound_cooldown_ms = 2000"

definition compose_threshold_ms :: nat where
  "compose_threshold_ms = 300"

record typing_handler =
  th_local_did :: did
  th_typing_states :: "string \<Rightarrow> (did \<times> int) list option"
  th_timeout_ms :: int
  th_last_outbound_start :: "string \<Rightarrow> nat option"
  th_compose_start :: "string \<Rightarrow> nat option"

definition typing_with_timeout :: "did \<Rightarrow> int \<Rightarrow> typing_handler" where
  "typing_with_timeout local_did timeout_ms =
     \<lparr>th_local_did = local_did, th_typing_states = Map.empty, th_timeout_ms = timeout_ms,
      th_last_outbound_start = Map.empty, th_compose_start = Map.empty\<rparr>"

definition typing_new :: "did \<Rightarrow> typing_handler" where
  "typing_new local_did =
     \<lparr>th_local_did = local_did, th_typing_states = Map.empty, th_timeout_ms = 5000,
      th_last_outbound_start = Map.empty, th_compose_start = Map.empty\<rparr>"

subsection \<open>Sending\<close>

definition send_typing_direct :: "typing_handler \<Rightarrow> millis \<Rightarrow> did \<Rightarrow> bool \<Rightarrow> typing_indicator" where
  "send_typing_direct h utc recipient_did is_typing =
     \<lparr>ti_sender_did = th_local_did h, ti_recipient = Some (RecipientDid recipient_did),
      ti_is_typing = is_typing, ti_timestamp = utc\<rparr>"

definition send_typing_group :: "typing_handler \<Rightarrow> millis \<Rightarrow> string \<Rightarrow> bool \<Rightarrow> typing_indicator" where
  "send_typing_group h utc group_id is_typing =
     \<lparr>ti_sender_did = th_local_did h, ti_recipient = Some (GroupId group_id),
      ti_is_typing = is_typing, ti_timestamp = utc\<rparr>"

definition elapsed_ms :: "nat \<Rightarrow> nat \<Rightarrow> nat" where
  "elapsed_ms start now = (now - start) div 1000000"

definition is_within_cooldown :: "typing_handler \<Rightarrow> nat \<Rightarrow> string \<Rightarrow> bool" where
  "is_within_cooldown h t key =
     (case th_last_outbound_start h key of
        None \<Rightarrow> False
      | Some start \<Rightarrow> elapsed_ms start t < outbound_cooldown_ms)"

definition try_start_typing_direct ::
  "typing_handler \<Rightarrow> nat \<Rightarrow> nat \<Rightarrow> millis \<Rightarrow> did \<Rightarrow> typing_handler \<times> typing_indicator option" where
  "try_start_typing_direct h t1 t2 utc recipient_did =
     (if is_within_cooldown h t1 recipient_did then (h, None)
      else (h\<lparr>th_last_outbound_start := (th_last_outbound_start h)(recipient_did \<mapsto> t2)\<rparr>,
            Some (send_typing_direct h utc recipient_did True)))"

definition group_typing_key :: "string \<Rightarrow> string" where
  "group_typing_key group_id = ''group:'' @ group_id"

definition try_start_typing_group ::
  "typing_handler \<Rightarrow> nat \<Rightarrow> nat \<Rightarrow> nat \<Rightarrow> nat \<Rightarrow> millis \<Rightarrow> string \<Rightarrow> typing_handler \<times> typing_indicator option" where
  "try_start_typing_group h now t1 t2 t3 utc group_id =
     (let key = group_typing_key group_id
      in case th_compose_start h key of
           None \<Rightarrow> (h\<lparr>th_compose_start := (th_compose_start h)(key \<mapsto> now)\<rparr>, None)
         | Some start \<Rightarrow>
             if elapsed_ms start t1 < compose_threshold_ms then (h, None)
             else if is_within_cooldown h t2 key then (h, None)
             else (h\<lparr>th_last_outbound_start := (th_last_outbound_start h)(key \<mapsto> t3)\<rparr>,
                   Some (send_typing_group h utc group_id True)))"

definition clear_cooldown :: "typing_handler \<Rightarrow> string \<Rightarrow> typing_handler" where
  "clear_cooldown h recipient = h\<lparr>th_last_outbound_start := (th_last_outbound_start h)(recipient := None)\<rparr>"

definition clear_compose_start :: "typing_handler \<Rightarrow> string \<Rightarrow> typing_handler" where
  "clear_compose_start h group_key = h\<lparr>th_compose_start := (th_compose_start h)(group_key := None)\<rparr>"

subsection \<open>Receiving\<close>

definition set_typing :: "typing_handler \<Rightarrow> string \<Rightarrow> (did \<times> int) list option \<Rightarrow> typing_handler" where
  "set_typing h key es = h\<lparr>th_typing_states := (th_typing_states h)(key := es)\<rparr>"

definition non_empty :: "'a list \<Rightarrow> 'a list option" where
  "non_empty es = (if es = [] then None else Some es)"

definition typing_cleanup_expired :: "typing_handler \<Rightarrow> millis \<Rightarrow> string \<Rightarrow> typing_handler" where
  "typing_cleanup_expired h now key =
     (case th_typing_states h key of
        None \<Rightarrow> h
      | Some es \<Rightarrow> set_typing h key (non_empty (filter (\<lambda>(_, ts). sub_i64 now ts < th_timeout_ms h) es)))"

definition indicator_key :: "typing_recipient \<Rightarrow> string" where
  "indicator_key r = (case r of RecipientDid d \<Rightarrow> d | GroupId g \<Rightarrow> group_typing_key g)"

definition receive_indicator :: "typing_handler \<Rightarrow> millis \<Rightarrow> typing_indicator \<Rightarrow> typing_handler" where
  "receive_indicator h now indicator =
     (case ti_recipient indicator of
        None \<Rightarrow> h
      | Some r \<Rightarrow>
          (let key = indicator_key r;
               others = filter (\<lambda>(d, _). d \<noteq> ti_sender_did indicator);
               h' = (if ti_is_typing indicator
                     then set_typing h key
                       (Some (others (case th_typing_states h key of None \<Rightarrow> [] | Some es \<Rightarrow> es)
                              @ [(ti_sender_did indicator, ti_timestamp indicator)]))
                     else (case th_typing_states h key of
                             None \<Rightarrow> h
                           | Some es \<Rightarrow> set_typing h key (non_empty (others es))))
           in typing_cleanup_expired h' now key))"

definition typing_users :: "typing_handler \<Rightarrow> string \<Rightarrow> did list" where
  "typing_users h key = (case th_typing_states h key of None \<Rightarrow> [] | Some es \<Rightarrow> map fst es)"

definition get_typing_users_direct :: "typing_handler \<Rightarrow> millis \<Rightarrow> did \<Rightarrow> typing_handler \<times> did list" where
  "get_typing_users_direct h now peer_did =
     (let h' = typing_cleanup_expired h now peer_did in (h', typing_users h' peer_did))"

definition get_typing_users_group :: "typing_handler \<Rightarrow> millis \<Rightarrow> string \<Rightarrow> typing_handler \<times> did list" where
  "get_typing_users_group h now group_id =
     (let key = group_typing_key group_id; h' = typing_cleanup_expired h now key in (h', typing_users h' key))"

text \<open>The loop over the collected keys; \<open>keys\<close> is the map's iteration order.\<close>

fun cleanup_all_expired :: "typing_handler \<Rightarrow> millis \<Rightarrow> string list \<Rightarrow> typing_handler" where
  "cleanup_all_expired h now [] = h"
| "cleanup_all_expired h now (key # keys) = cleanup_all_expired (typing_cleanup_expired h now key) now keys"

subsection \<open>Who is typing\<close>

definition typing_wf :: "typing_handler \<Rightarrow> bool" where
  "typing_wf h \<longleftrightarrow> (\<forall>k es. th_typing_states h k = Some es \<longrightarrow> es \<noteq> [] \<and> distinct (map fst es))"

definition typing_since :: "typing_handler \<Rightarrow> string \<Rightarrow> did \<Rightarrow> int option" where
  "typing_since h k s = (case th_typing_states h k of None \<Rightarrow> None | Some es \<Rightarrow> map_of es s)"

definition unexpired :: "typing_handler \<Rightarrow> millis \<Rightarrow> int option \<Rightarrow> int option" where
  "unexpired h now e = (case e of None \<Rightarrow> None | Some ts \<Rightarrow> if sub_i64 now ts < th_timeout_ms h then Some ts else None)"

lemma unexpired_cong: "th_timeout_ms h' = th_timeout_ms h \<Longrightarrow> unexpired h' = unexpired h"
  by (simp add: unexpired_def fun_eq_iff split: option.splits)

lemma distinct_filter_fst: "distinct (map fst es) \<Longrightarrow> distinct (map fst (filter P es))"
  by (induction es) auto

lemma map_of_filter_value:
  "distinct (map fst es) \<Longrightarrow> map_of (filter (\<lambda>(d, ts). P d ts) es) s
     = (case map_of es s of None \<Rightarrow> None | Some ts \<Rightarrow> if P s ts then Some ts else None)"
proof (induction es)
  case (Cons e es)
  have "s \<notin> fst ` set es \<Longrightarrow> map_of es s = None" by (simp add: map_of_eq_None_iff)
  with Cons show ?case by (cases e) (auto split: option.splits)
qed simp

lemma cleanup_fields [simp]:
  "th_timeout_ms (typing_cleanup_expired h now k) = th_timeout_ms h"
  "th_last_outbound_start (typing_cleanup_expired h now k) = th_last_outbound_start h"
  by (simp_all add: typing_cleanup_expired_def set_typing_def split: option.splits)

lemma typing_wf_cleanup: "typing_wf h \<Longrightarrow> typing_wf (typing_cleanup_expired h now k)"
  by (auto simp: typing_wf_def typing_cleanup_expired_def set_typing_def non_empty_def distinct_filter_fst
      split: option.splits if_splits)

lemma typing_since_cleanup:
  assumes "typing_wf h"
  shows "typing_since (typing_cleanup_expired h now k) j s
    = (if j = k then unexpired h now (typing_since h k s) else typing_since h j s)"
proof (cases "th_typing_states h k")
  case None
  then show ?thesis by (simp add: typing_cleanup_expired_def typing_since_def unexpired_def)
next
  case (Some es)
  with assms have "distinct (map fst es)" by (simp add: typing_wf_def)
  from map_of_filter_value [OF this, of "\<lambda>_ ts. sub_i64 now ts < th_timeout_ms h" s]
  have m: "map_of (filter (\<lambda>(_, ts). sub_i64 now ts < th_timeout_ms h) es) s = unexpired h now (map_of es s)"
    by (simp add: unexpired_def)
  have n: "(case non_empty xs of None \<Rightarrow> None | Some ys \<Rightarrow> map_of ys s) = map_of xs s" for xs :: "(did \<times> int) list"
    by (simp add: non_empty_def)
  show ?thesis
    using Some by (simp add: typing_cleanup_expired_def typing_since_def set_typing_def n m)
qed

lemma receive_state:
  assumes "typing_wf h" and "ti_recipient ind = Some r"
  obtains h' where "receive_indicator h now ind = typing_cleanup_expired h' now (indicator_key r)"
    and "typing_wf h'" and "th_timeout_ms h' = th_timeout_ms h"
    and "th_last_outbound_start h' = th_last_outbound_start h"
    and "\<And>j s. typing_since h' j s = (if j = indicator_key r \<and> s = ti_sender_did ind
        then (if ti_is_typing ind then Some (ti_timestamp ind) else None) else typing_since h j s)"
proof -
  let ?k = "indicator_key r" and ?d = "ti_sender_did ind"
  let ?o = "filter (\<lambda>(d, _). d \<noteq> ?d)"
  define es where "es = (case th_typing_states h ?k of None \<Rightarrow> [] | Some es \<Rightarrow> es)"
  have d: "distinct (map fst es)"
    using assms(1) by (auto simp: es_def typing_wf_def split: option.splits)
  have m: "map_of (?o es) s = (if s = ?d then None else map_of es s)" for s
    using map_of_filter_value [OF d, of "\<lambda>d _. d \<noteq> ?d" s] by (simp split: option.splits)
  have nd: "?d \<notin> fst ` set (?o es)" by auto
  have e: "typing_since h ?k s = map_of es s" for s by (simp add: typing_since_def es_def split: option.splits)
  show ?thesis
  proof (cases "ti_is_typing ind")
    case True
    let ?h = "set_typing h ?k (Some (?o es @ [(?d, ti_timestamp ind)]))"
    have "receive_indicator h now ind = typing_cleanup_expired ?h now ?k"
      using True assms(2) by (simp add: receive_indicator_def es_def Let_def)
    moreover have "typing_wf ?h"
      using assms(1) d nd by (simp add: typing_wf_def set_typing_def distinct_filter_fst)
    moreover have "typing_since ?h j s = (if j = ?k \<and> s = ?d then Some (ti_timestamp ind) else typing_since h j s)" for j s
      using m [of s] m [of ?d] e [of s]
      by (simp add: typing_since_def set_typing_def map_add_def) (simp split: option.splits)
    ultimately show ?thesis using True by (intro that [of ?h]) (simp_all add: set_typing_def)
  next
    case False
    define h' where "h' = (case th_typing_states h ?k of None \<Rightarrow> h | Some es \<Rightarrow> set_typing h ?k (non_empty (?o es)))"
    have "receive_indicator h now ind = typing_cleanup_expired h' now ?k"
      using False assms(2) by (simp add: receive_indicator_def h'_def Let_def)
    moreover have "typing_wf h'"
      using assms(1) d by (auto simp: h'_def typing_wf_def set_typing_def non_empty_def es_def distinct_filter_fst split: option.splits)
    moreover have "typing_since h' j s = (if j = ?k \<and> s = ?d then None else typing_since h j s)" for j s
    proof (cases "th_typing_states h ?k")
      case None
      then show ?thesis by (simp add: h'_def typing_since_def)
    next
      case (Some fs)
      then have "es = fs" by (simp add: es_def)
      with Some m [of s] show ?thesis
        by (simp add: h'_def typing_since_def set_typing_def non_empty_def) (auto split: if_splits)
    qed
    ultimately show ?thesis using False
      by (intro that [of h']) (simp_all add: h'_def set_typing_def split: option.splits)
  qed
qed

lemma typing_wf_receive: "typing_wf h \<Longrightarrow> typing_wf (receive_indicator h now ind)"
proof (cases "ti_recipient ind")
  case (Some r)
  assume "typing_wf h"
  from receive_state [OF this Some, of now] show ?thesis by (metis typing_wf_cleanup)
qed (simp add: receive_indicator_def)

lemma typing_since_receive:
  assumes "typing_wf h" and "ti_recipient ind = Some r"
  shows "typing_since (receive_indicator h now ind) j s =
    (let e = (if j = indicator_key r \<and> s = ti_sender_did ind
              then (if ti_is_typing ind then Some (ti_timestamp ind) else None) else typing_since h j s)
     in if j = indicator_key r then unexpired h now e else e)"
proof -
  obtain h' where h': "receive_indicator h now ind = typing_cleanup_expired h' now (indicator_key r)"
    "typing_wf h'" "th_timeout_ms h' = th_timeout_ms h"
    "\<And>j s. typing_since h' j s = (if j = indicator_key r \<and> s = ti_sender_did ind
        then (if ti_is_typing ind then Some (ti_timestamp ind) else None) else typing_since h j s)"
    using receive_state [OF assms, of now] by metis
  show ?thesis
    unfolding h'(1) typing_since_cleanup [OF h'(2)] h'(4) unexpired_cong [OF h'(3)] by (simp add: Let_def)
qed

lemma typing_users_since: "typing_wf h \<Longrightarrow> s \<in> set (typing_users h k) \<longleftrightarrow> typing_since h k s \<noteq> None"
proof (cases "th_typing_states h k")
  case (Some es)
  have "map_of es s \<noteq> None \<longleftrightarrow> s \<in> fst ` set es" by (simp add: map_of_eq_None_iff)
  with Some show ?thesis by (simp add: typing_users_def typing_since_def)
qed (simp add: typing_users_def typing_since_def)

lemma typing_wf_new: "typing_wf (typing_new d)"
  by (simp add: typing_wf_def typing_new_def)

text \<open>After an indicator is received and someone asks who is typing, its sender is listed exactly when the
  indicator says typing and is younger than the timeout, no one is listed twice, and everybody else in
  that conversation stays listed exactly as long as their own last indicator has not expired.\<close>

theorem typing_listing_exact:
  assumes "typing_wf h" and "ti_recipient ind = Some (GroupId g)"
  shows "let us = snd (get_typing_users_group (receive_indicator h now ind) now' g)
    in distinct us \<and> (\<forall>s. s \<in> set us \<longleftrightarrow>
         unexpired h now' (unexpired h now
           (if s = ti_sender_did ind then (if ti_is_typing ind then Some (ti_timestamp ind) else None)
            else typing_since h (group_typing_key g) s)) \<noteq> None)"
proof -
  let ?h = "receive_indicator h now ind" and ?k = "group_typing_key g"
  have wf: "typing_wf ?h" by (rule typing_wf_receive [OF assms(1)])
  have t: "th_timeout_ms ?h = th_timeout_ms h"
    using receive_state [OF assms, of now] by (metis cleanup_fields(1))
  have k: "indicator_key (GroupId g) = ?k" by (simp add: indicator_key_def)
  have us: "snd (get_typing_users_group ?h now' g) = typing_users (typing_cleanup_expired ?h now' ?k) ?k"
    by (simp add: get_typing_users_group_def Let_def)
  have wf': "typing_wf (typing_cleanup_expired ?h now' ?k)" by (rule typing_wf_cleanup [OF wf])
  then have "distinct (typing_users (typing_cleanup_expired ?h now' ?k) ?k)"
    by (auto simp: typing_users_def typing_wf_def split: option.splits)
  moreover have "s \<in> set (typing_users (typing_cleanup_expired ?h now' ?k) ?k) \<longleftrightarrow>
      unexpired h now' (typing_since ?h ?k s) \<noteq> None" for s
    unfolding typing_users_since [OF wf'] typing_since_cleanup [OF wf] unexpired_cong [OF t] by simp
  ultimately show ?thesis
    unfolding us typing_since_receive [OF assms] k by (simp add: Let_def)
qed

lemma distinct_singleton: "distinct xs \<Longrightarrow> set xs = {a} \<Longrightarrow> xs = [a]"
  by (cases xs; cases "tl xs") auto

theorem typing_listing_exact_witness:
  "snd (get_typing_users_group (receive_indicator (typing_new ''me'') 1000
      \<lparr>ti_sender_did = ''you'', ti_recipient = Some (GroupId ''G''), ti_is_typing = True, ti_timestamp = 990\<rparr>) 2000 ''G'')
   = [''you'']"
proof -
  let ?i = "\<lparr>ti_sender_did = ''you'', ti_recipient = Some (GroupId ''G''), ti_is_typing = True, ti_timestamp = 990\<rparr>"
  let ?us = "snd (get_typing_users_group (receive_indicator (typing_new ''me'') 1000 ?i) 2000 ''G'')"
  have r: "ti_recipient ?i = Some (GroupId ''G'')" by simp
  have n: "typing_since (typing_new ''me'') k s = None" for k s by (simp add: typing_since_def typing_new_def)
  have s: "sub_i64 1000 990 = 10" "sub_i64 2000 990 = 1010" by (simp_all add: sub_i64_def in_i64_def i64_min_def i64_max_def)
  have u: "unexpired (typing_new ''me'') 2000 (unexpired (typing_new ''me'') 1000 (Some 990)) = Some 990"
    "unexpired (typing_new ''me'') 2000 (unexpired (typing_new ''me'') 1000 None) = None"
    by (simp_all add: unexpired_def s typing_new_def)
  note l = typing_listing_exact [OF typing_wf_new r, of "''me''" 1000 2000, unfolded Let_def n]
  have "distinct ?us" using l by blast
  have "x \<in> set ?us \<longleftrightarrow> x = ''you''" for x
    using conjunct2 [OF l, rule_format, of x] u by (cases "x = ''you''") simp_all
  then have "set ?us = {''you''}" by blast
  with \<open>distinct ?us\<close> show ?thesis by (rule distinct_singleton)
qed

subsection \<open>The cooldown\<close>

datatype typing_event =
    TypeDirect nat nat millis did
  | TypeGroup nat nat nat nat millis string
  | ClearCooldown string
  | ClearCompose string
  | Receive millis typing_indicator

fun typing_step :: "typing_handler \<Rightarrow> typing_event \<Rightarrow> typing_handler" where
  "typing_step h (TypeDirect t1 t2 utc r) = fst (try_start_typing_direct h t1 t2 utc r)"
| "typing_step h (TypeGroup now t1 t2 t3 utc g) = fst (try_start_typing_group h now t1 t2 t3 utc g)"
| "typing_step h (ClearCooldown k) = clear_cooldown h k"
| "typing_step h (ClearCompose k) = clear_compose_start h k"
| "typing_step h (Receive now ind) = receive_indicator h now ind"

text \<open>Events after the instant \<open>t\<close> that do not clear the cooldown of \<open>r\<close>.\<close>

fun event_after :: "nat \<Rightarrow> string \<Rightarrow> typing_event \<Rightarrow> bool" where
  "event_after t r (TypeDirect t1 t2 utc d) = (t \<le> t2)"
| "event_after t r (TypeGroup now t1 t2 t3 utc g) = (t \<le> t3)"
| "event_after t r (ClearCooldown k) = (k \<noteq> r)"
| "event_after t r (ClearCompose k) = True"
| "event_after t r (Receive now ind) = True"

definition sent_after :: "typing_handler \<Rightarrow> string \<Rightarrow> nat \<Rightarrow> bool" where
  "sent_after h r t \<longleftrightarrow> (\<exists>t'. th_last_outbound_start h r = Some t' \<and> t \<le> t')"

lemma receive_outbound [simp]: "th_last_outbound_start (receive_indicator h now ind) = th_last_outbound_start h"
  by (auto simp: receive_indicator_def set_typing_def Let_def split: option.splits)

lemma sent_after_step: "event_after t r ev \<Longrightarrow> sent_after h r t \<Longrightarrow> sent_after (typing_step h ev) r t"
  by (cases ev) (auto simp: sent_after_def try_start_typing_direct_def try_start_typing_group_def Let_def
      clear_cooldown_def clear_compose_start_def split: option.splits)

lemma sent_after_run: "\<forall>ev \<in> set evs. event_after t r ev \<Longrightarrow> sent_after h r t \<Longrightarrow> sent_after (foldl typing_step h evs) r t"
  by (induction evs arbitrary: h) (auto simp: sent_after_step)

text \<open>Once a typing indicator has been sent to somebody, no second one is sent to them within two seconds,
  whatever happens in between, unless the cooldown is cleared explicitly.\<close>

theorem typing_cooldown:
  assumes "snd (try_start_typing_direct h t1 t2 utc r) \<noteq> None"
    and "\<forall>ev \<in> set evs. event_after t2 r ev" and "t < t2 + 2000 * 1000000"
  shows "snd (try_start_typing_direct (foldl typing_step (fst (try_start_typing_direct h t1 t2 utc r)) evs) t t' utc' r) = None"
proof -
  let ?h = "foldl typing_step (fst (try_start_typing_direct h t1 t2 utc r)) evs"
  have "sent_after (fst (try_start_typing_direct h t1 t2 utc r)) r t2"
    using assms(1) by (auto simp: try_start_typing_direct_def sent_after_def split: if_splits)
  from sent_after_run [OF assms(2) this] obtain l where
    "th_last_outbound_start ?h r = Some l" "t2 \<le> l" by (auto simp: sent_after_def)
  moreover from this assms(3) have "elapsed_ms l t < outbound_cooldown_ms"
    unfolding elapsed_ms_def outbound_cooldown_ms_def by (simp add: div_less_iff_less_mult)
  ultimately show ?thesis by (simp add: try_start_typing_direct_def is_within_cooldown_def)
qed

theorem typing_cooldown_witness:
  "snd (try_start_typing_direct (foldl typing_step (fst (try_start_typing_direct (typing_new ''me'') 5 6 0 ''you''))
     [ClearCompose ''group:g'', TypeDirect 7 8 1 ''you'']) 1000000000 1000000001 2 ''you'') = None"
  by (rule typing_cooldown) (simp_all add: try_start_typing_direct_def is_within_cooldown_def typing_new_def)

subsection \<open>Asking for a peer\<close>

text \<open>Indicators that peers send to this user are filed under this user's own DID, so asking who is typing
  in the conversation with a peer, by the peer's DID as the interface does, never shows that peer: the
  answer is empty whatever has been received.\<close>

theorem typing_direct_lookup_misses:
  assumes "\<forall>(now, ind) \<in> set inds. ti_recipient ind = Some (RecipientDid me)" and "peer \<noteq> me"
  shows "snd (get_typing_users_direct (foldl (\<lambda>h (now, ind). receive_indicator h now ind) (typing_new me) inds) t peer) = []"
proof -
  let ?run = "foldl (\<lambda>h (now, ind). receive_indicator h now ind)"
  have other: "th_typing_states (receive_indicator h now ind) peer = th_typing_states h peer"
    if "ti_recipient ind = Some (RecipientDid me)" for h now ind
    using that assms(2)
    by (simp add: receive_indicator_def indicator_key_def typing_cleanup_expired_def set_typing_def Let_def split: option.splits)
  have "th_typing_states (?run h inds) peer = th_typing_states h peer"
    if "\<forall>(now, ind) \<in> set inds. ti_recipient ind = Some (RecipientDid me)" for h
    using that by (induction inds arbitrary: h) (auto simp: other)
  then have "th_typing_states (?run (typing_new me) inds) peer = None"
    using assms(1) by (simp add: typing_new_def)
  then show ?thesis by (simp add: get_typing_users_direct_def typing_cleanup_expired_def typing_users_def)
qed

theorem typing_direct_lookup_misses_witness:
  "snd (get_typing_users_direct (foldl (\<lambda>h (now, ind). receive_indicator h now ind) (typing_new ''me'')
     [(1000, \<lparr>ti_sender_did = ''you'', ti_recipient = Some (RecipientDid ''me''), ti_is_typing = True, ti_timestamp = 1000\<rparr>)])
     1001 ''you'') = []"
  by (rule typing_direct_lookup_misses) simp_all

end
