(* ===== verification/Did.thy ===== *)
theory Did
  imports Rust_Text "HOL-Library.Countable"
begin

section \<open>DIDs and their signed documents (\<open>variance-identity/src/did.rs\<close>)\<close>

text \<open>
  \<open>Did\<close>, its document and the document signature. The signature scheme and the protobuf
  encoder are third-party: \<open>did_crypto\<close> holds the calls on them, with keys of a type of
  their own. A \<open>HashMap\<close> of service metadata is the list of its entries in iteration order;
  the protobuf document has the fields of \<open>DidDocument\<close> under other names, so the
  conversion between the two is the identity. The texts of errors are kept only where the
  code writes them itself.
\<close>

datatype identity_error =
    EDidCreation string
  | EInvalidDid string
  | EDidNotFound string
  | EUsernameNotFound string
  | EUsernameTaken string
  | EIpfs
  | EIpns
  | ECache string
  | EIdSerialization
  | EIdStorage
  | EIdCrypto string
  | ESignatureVerification did
  | EMissingSignature did

record verification_method =
  vm_id :: string
  vm_key_type :: string
  vm_controller :: string
  vm_public_key :: bytes

record did_service =
  sv_id :: string
  sv_type :: string
  sv_endpoint :: string
  sv_metadata :: "(string \<times> string) list"

record did_document =
  dd_id :: did
  dd_authentication :: "verification_method list"
  dd_key_agreement :: "verification_method list"
  dd_service :: "did_service list"
  dd_created_at :: int
  dd_updated_at :: int
  dd_display_name :: "string option"
  dd_avatar_cid :: "string option"
  dd_bio :: "string option"

record ('sk, 'xs) did_identity =
  di_id :: did
  di_document :: did_document
  di_signing_key :: "'sk option"
  di_x25519_secret :: "'xs option"
  di_document_signature :: "bytes option"

text \<open>
  \<open>dc_key_valid\<close> is the success of \<open>VerifyingKey::from_bytes\<close>, \<open>dc_verify key data signature\<close>
  that of \<open>verify\<close>; \<open>dc_encode\<close> is \<open>encode_to_vec\<close> on the document.
\<close>

record ('sk, 'xs) did_crypto =
  dc_verifying_key :: "'sk \<Rightarrow> bytes"
  dc_x25519_public :: "'xs \<Rightarrow> bytes"
  dc_sign :: "'sk \<Rightarrow> bytes \<Rightarrow> bytes"
  dc_key_valid :: "bytes \<Rightarrow> bool"
  dc_verify :: "bytes \<Rightarrow> bytes \<Rightarrow> bytes \<Rightarrow> bool"
  dc_encode :: "did_document \<Rightarrow> bytes"

text \<open>What Ed25519 promises of a key it generated.\<close>

definition did_crypto_ok :: "('sk, 'xs) did_crypto \<Rightarrow> bool" where
  "did_crypto_ok C \<longleftrightarrow>
     (\<forall>sk. length (dc_verifying_key C sk) = 32 \<and> dc_key_valid C (dc_verifying_key C sk)) \<and>
     (\<forall>sk d. length (dc_sign C sk d) = 64 \<and> dc_verify C (dc_verifying_key C sk) d (dc_sign C sk d))"

subsection \<open>Operations\<close>

definition document_signing_bytes :: "('sk, 'xs) did_crypto \<Rightarrow> ('sk, 'xs) did_identity \<Rightarrow> bytes" where
  "document_signing_bytes C d = dc_encode C (di_document d)"

definition sign_document ::
  "('sk, 'xs) did_crypto \<Rightarrow> ('sk, 'xs) did_identity \<Rightarrow> identity_error + ('sk, 'xs) did_identity" where
  "sign_document C d =
     (case di_signing_key d of
        None \<Rightarrow> Inl (EIdCrypto (di_id d @ '': cannot sign without signing key''))
      | Some sk \<Rightarrow> Inr (d\<lparr>di_document_signature := Some (dc_sign C sk (document_signing_bytes C d))\<rparr>))"

definition new_document :: "('sk, 'xs) did_crypto \<Rightarrow> did \<Rightarrow> 'sk \<Rightarrow> 'xs \<Rightarrow> string \<Rightarrow> int \<Rightarrow> did_document" where
  "new_document C did_id signing_key x25519_secret peer_id now =
     \<lparr>dd_id = did_id,
      dd_authentication =
        [\<lparr>vm_id = did_id @ ''#key-1'', vm_key_type = ''Ed25519VerificationKey2020'', vm_controller = did_id,
          vm_public_key = dc_verifying_key C signing_key\<rparr>],
      dd_key_agreement =
        [\<lparr>vm_id = did_id @ ''#key-2'', vm_key_type = ''X25519KeyAgreementKey2020'', vm_controller = did_id,
          vm_public_key = dc_x25519_public C x25519_secret\<rparr>],
      dd_service =
        [\<lparr>sv_id = did_id @ ''#libp2p'', sv_type = ''Libp2pPeer'', sv_endpoint = peer_id, sv_metadata = []\<rparr>],
      dd_created_at = now, dd_updated_at = now, dd_display_name = None, dd_avatar_cid = None, dd_bio = None\<rparr>"

definition from_signing_key ::
  "('sk, 'xs) did_crypto \<Rightarrow> did \<Rightarrow> 'sk \<Rightarrow> 'xs \<Rightarrow> string \<Rightarrow> int \<Rightarrow> identity_error + ('sk, 'xs) did_identity" where
  "from_signing_key C did_id signing_key x25519_secret peer_id now =
     sign_document C
       \<lparr>di_id = did_id, di_document = new_document C did_id signing_key x25519_secret peer_id now,
        di_signing_key = Some signing_key, di_x25519_secret = Some x25519_secret, di_document_signature = None\<rparr>"

definition update_profile ::
  "('sk, 'xs) did_crypto \<Rightarrow> ('sk, 'xs) did_identity \<Rightarrow> int \<Rightarrow> string option \<Rightarrow> string option \<Rightarrow> string option
     \<Rightarrow> ('sk, 'xs) did_identity" where
  "update_profile C d now display_name avatar_cid bio =
     (let d' = d\<lparr>di_document := (di_document d)\<lparr>dd_display_name := display_name, dd_avatar_cid := avatar_cid,
                   dd_bio := bio, dd_updated_at := now\<rparr>\<rparr>
      in if di_signing_key d' \<noteq> None
         then (case sign_document C d' of Inl _ \<Rightarrow> d' | Inr d'' \<Rightarrow> d'')
         else d')"

definition get_verifying_key :: "('sk, 'xs) did_crypto \<Rightarrow> ('sk, 'xs) did_identity \<Rightarrow> identity_error + bytes" where
  "get_verifying_key C d =
     (case dd_authentication (di_document d) of
        [] \<Rightarrow> Inl (EInvalidDid (di_id d @ '': No authentication method in DID document''))
      | auth_method # _ \<Rightarrow>
          if vm_key_type auth_method \<noteq> ''Ed25519VerificationKey2020''
          then Inl (EInvalidDid (di_id d @ '': Unsupported key type: '' @ vm_key_type auth_method
            @ ''. Expected Ed25519VerificationKey2020''))
          else if length (vm_public_key auth_method) \<noteq> 32
          then Inl (EInvalidDid (di_id d @ '': Public key must be 32 bytes, got ''
            @ dec_digits (length (vm_public_key auth_method))))
          else if \<not> dc_key_valid C (vm_public_key auth_method)
          then Inl (EInvalidDid (di_id d @ '': Invalid Ed25519 public key''))
          else Inr (vm_public_key auth_method))"

definition get_x25519_public_key :: "('sk, 'xs) did_identity \<Rightarrow> identity_error + bytes" where
  "get_x25519_public_key d =
     (case dd_key_agreement (di_document d) of
        [] \<Rightarrow> Inl (EInvalidDid (di_id d @ '': No key agreement method in DID document''))
      | ka_method # _ \<Rightarrow>
          if length (vm_public_key ka_method) \<noteq> 32
          then Inl (EInvalidDid (di_id d @ '': X25519 key must be 32 bytes, got '' @ dec_digits (length (vm_public_key ka_method))))
          else Inr (vm_public_key ka_method))"

definition verify_document :: "('sk, 'xs) did_crypto \<Rightarrow> ('sk, 'xs) did_identity \<Rightarrow> identity_error + unit" where
  "verify_document C d =
     (case di_document_signature d of
        None \<Rightarrow> Inl (EMissingSignature (di_id d))
      | Some sig \<Rightarrow>
          if length sig \<noteq> 64 then Inl (ESignatureVerification (di_id d))
          else case get_verifying_key C d of
              Inl e \<Rightarrow> Inl e
            | Inr key \<Rightarrow>
                if dc_verify C key (document_signing_bytes C d) sig then Inr ()
                else Inl (ESignatureVerification (di_id d)))"

definition from_proto_with_signature :: "did_document \<Rightarrow> bytes option \<Rightarrow> ('sk, 'xs) did_identity" where
  "from_proto_with_signature proto signature =
     \<lparr>di_id = dd_id proto, di_document = proto, di_signing_key = None, di_x25519_secret = None,
      di_document_signature = (case signature of None \<Rightarrow> None | Some s \<Rightarrow> if s = [] then None else Some s)\<rparr>"

definition from_proto :: "did_document \<Rightarrow> ('sk, 'xs) did_identity" where
  "from_proto proto = from_proto_with_signature proto None"

text \<open>The identifier an identity is given when it is made (\<open>variance-app/src/identity_gen.rs\<close>).\<close>

definition did_from_verifying_key :: "bytes \<Rightarrow> did" where
  "did_from_verifying_key key = ''did:variance:'' @ hex_encode (take 8 key)"

text \<open>A relay mailbox (\<open>variance-identity/src/mailbox.rs\<close>); \<open>sha256\<close> is the hash function.\<close>

definition mailbox_token :: "(bytes \<Rightarrow> bytes) \<Rightarrow> bytes \<Rightarrow> bytes" where
  "mailbox_token sha256 verifying_key = sha256 (verifying_key @ as_bytes ''variance-mailbox-v1'')"

subsection \<open>Signing and verifying\<close>

lemma sign_verify:
  assumes "did_crypto_ok C" and "sign_document C d = Inr d'"
    and "\<exists>sk vs. di_signing_key d = Some sk \<and> dd_authentication (di_document d)
      = \<lparr>vm_id = i, vm_key_type = ''Ed25519VerificationKey2020'', vm_controller = c, vm_public_key = dc_verifying_key C sk\<rparr> # vs"
  shows "verify_document C d' = Inr ()"
  using assms
  by (auto simp: sign_document_def verify_document_def get_verifying_key_def document_signing_bytes_def did_crypto_ok_def)

lemma from_signing_key_Inr:
  "from_signing_key C i sk xs p now = Inr d \<Longrightarrow> di_signing_key d = Some sk \<and> di_id d = i \<and>
     di_document d = new_document C i sk xs p now \<and>
     di_document_signature d = Some (dc_sign C sk (dc_encode C (di_document d)))"
  by (auto simp: from_signing_key_def sign_document_def document_signing_bytes_def)

lemma sign_verify_proto:
  assumes "did_crypto_ok C" and "from_signing_key C i sk xs p now = Inr d"
  shows "verify_document C (from_proto_with_signature (di_document d) (di_document_signature d) :: ('sk, 'xs) did_identity) = Inr ()"
proof -
  note d = from_signing_key_Inr [OF assms(2)]
  have len: "length (dc_sign C sk x) = 64" for x using assms(1) by (simp add: did_crypto_ok_def)
  then have ne: "dc_sign C sk x \<noteq> []" for x by (metis list.size(3) zero_neq_numeral)
  show ?thesis
    using d assms(1) ne by (simp add: from_proto_with_signature_def verify_document_def get_verifying_key_def new_document_def
        document_signing_bytes_def did_crypto_ok_def)
qed

text \<open>An identity made from a signing key carries a document whose signature verifies, and it still
  verifies after any change of the profile and after a trip through the protobuf form, which drops the
  secret keys.\<close>

theorem own_document_verifies:
  assumes "did_crypto_ok C" and "from_signing_key C i sk xs p now = Inr d"
  shows "verify_document C d = Inr () \<and>
    verify_document C (update_profile C d now' n a b) = Inr () \<and>
    verify_document C (from_proto_with_signature (di_document d) (di_document_signature d) :: ('sk, 'xs) did_identity) = Inr ()"
proof (intro conjI)
  note d = from_signing_key_Inr [OF assms(2)]
  show "verify_document C d = Inr ()"
    using d assms(1) by (simp add: verify_document_def get_verifying_key_def new_document_def document_signing_bytes_def did_crypto_ok_def)
  show "verify_document C (update_profile C d now' n a b) = Inr ()"
    using d assms(1) by (simp add: update_profile_def sign_document_def verify_document_def get_verifying_key_def
        new_document_def document_signing_bytes_def did_crypto_ok_def Let_def)
  show "verify_document C (from_proto_with_signature (di_document d) (di_document_signature d) :: ('sk, 'xs) did_identity) = Inr ()"
    by (rule sign_verify_proto [OF assms])
qed

text \<open>A signature scheme to evaluate on: a key is a byte, and signs with itself.\<close>

definition toy_crypto :: "(8 word, 8 word) did_crypto" where
  "toy_crypto = \<lparr>dc_verifying_key = (\<lambda>sk. replicate 32 sk), dc_x25519_public = (\<lambda>xs. replicate 32 xs),
     dc_sign = (\<lambda>sk d. replicate 64 sk), dc_key_valid = (\<lambda>k. True),
     dc_verify = (\<lambda>key d sig. take 32 sig = key), dc_encode = (\<lambda>d. [])\<rparr>"

lemma toy_crypto_ok: "did_crypto_ok toy_crypto"
  by (simp add: did_crypto_ok_def toy_crypto_def)

definition toy_did :: "did \<Rightarrow> 8 word \<Rightarrow> (8 word, 8 word) did_identity" where
  "toy_did i sk = \<lparr>di_id = i, di_document = new_document toy_crypto i sk 5 ''peer'' 9, di_signing_key = Some sk,
     di_x25519_secret = Some 5, di_document_signature = Some (replicate 64 sk)\<rparr>"

lemma toy_did: "from_signing_key toy_crypto i sk 5 ''peer'' 9 = Inr (toy_did i sk)"
  by (simp add: from_signing_key_def sign_document_def toy_did_def) (simp add: toy_crypto_def)

lemma toy_did_verifies [simp]: "verify_document toy_crypto (toy_did i sk) = Inr ()"
  by (simp add: verify_document_def get_verifying_key_def document_signing_bytes_def toy_did_def new_document_def)
    (simp add: toy_crypto_def)

theorem own_document_verifies_witness:
  "verify_document toy_crypto (update_profile toy_crypto (toy_did ''did:variance:aa'' 7) 10 (Some ''x'') None None) = Inr ()"
  using own_document_verifies [OF toy_crypto_ok toy_did] by blast

text \<open>A document that verifies was signed, as it is, with the key it names first: under a signature scheme
  where only what a key has signed verifies under it, no field of a signed document can be changed
  without the key, as long as the encoding tells documents apart.\<close>

theorem verified_document_untampered:
  assumes "\<forall>key data sig. dc_verify C key data sig \<longrightarrow> (key, data) \<in> {(k, dc_encode C doc) | k doc. (k, doc) \<in> issued}"
    and "inj (dc_encode C)" and "verify_document C d = Inr ()"
  shows "\<exists>vm vms. dd_authentication (di_document d) = vm # vms \<and> (vm_public_key vm, di_document d) \<in> issued"
proof -
  obtain sig key where s: "di_document_signature d = Some sig" "get_verifying_key C d = Inr key"
    "dc_verify C key (dc_encode C (di_document d)) sig"
    using assms(3) by (auto simp: verify_document_def document_signing_bytes_def split: option.splits sum.splits if_splits)
  from s(2) obtain vm vms where vm: "dd_authentication (di_document d) = vm # vms" "vm_public_key vm = key"
    by (auto simp: get_verifying_key_def split: list.splits if_splits)
  from assms(1) s(3) obtain doc where "(key, doc) \<in> issued" "dc_encode C (di_document d) = dc_encode C doc" by blast
  with assms(2) vm show ?thesis by (auto dest: injD)
qed

text \<open>A scheme where one key has signed one document, and an encoding that tells documents apart.\<close>

instance verification_method_ext :: (countable) countable
  by (rule countable_classI [of "\<lambda>r. to_nat (vm_id r, vm_key_type r, vm_controller r, vm_public_key r,
        verification_method.more r)"]) simp

instance did_service_ext :: (countable) countable
  by (rule countable_classI [of "\<lambda>r. to_nat (sv_id r, sv_type r, sv_endpoint r, sv_metadata r, did_service.more r)"]) simp

instance did_document_ext :: (countable) countable
  by (rule countable_classI [of "\<lambda>r. to_nat (dd_id r, dd_authentication r, dd_key_agreement r, dd_service r,
        dd_created_at r, dd_updated_at r, dd_display_name r, dd_avatar_cid r, dd_bio r, did_document.more r)"]) simp

definition unary_document :: "did_document \<Rightarrow> bytes" where
  "unary_document d = replicate (to_nat d) 0"

lemma inj_unary_document: "inj unary_document"
  by (rule injI) (simp add: unary_document_def)

definition signed_once :: "bytes \<Rightarrow> did_document \<Rightarrow> (8 word, 8 word) did_crypto" where
  "signed_once key doc = toy_crypto\<lparr>dc_verify := (\<lambda>k data sig. k = key \<and> data = unary_document doc),
     dc_encode := unary_document\<rparr>"

theorem verified_document_untampered_witness:
  "\<exists>vm vms. dd_authentication (di_document (toy_did ''did:variance:aa'' 7)) = vm # vms \<and>
     (vm_public_key vm, di_document (toy_did ''did:variance:aa'' 7)) \<in> {(replicate 32 7, di_document (toy_did ''did:variance:aa'' 7))}"
proof (rule verified_document_untampered)
  let ?d = "di_document (toy_did ''did:variance:aa'' 7)"
  show "\<forall>key data sig. dc_verify (signed_once (replicate 32 7) ?d) key data sig \<longrightarrow>
      (key, data) \<in> {(k, dc_encode (signed_once (replicate 32 7) ?d) doc) | k doc. (k, doc) \<in> {(replicate 32 7, ?d)}}"
    by (simp add: signed_once_def)
  show "inj (dc_encode (signed_once (replicate 32 7) ?d))"
    by (simp add: signed_once_def inj_unary_document)
  show "verify_document (signed_once (replicate 32 7) ?d) (toy_did ''did:variance:aa'' 7) = Inr ()"
    by (simp add: verify_document_def get_verifying_key_def document_signing_bytes_def signed_once_def toy_did_def
        new_document_def) (simp add: toy_crypto_def)
qed

end
