(* ===== verification/Usernames.thy ===== *)
theory Usernames
  imports Did "HOL-Library.AList"
begin

section \<open>The username registry (\<open>variance-identity/src/username.rs\<close>)\<close>

text \<open>
  The two caches of \<open>UsernameRegistry\<close> are association lists with distinct keys, so that
  \<open>lookup_all\<close> can go through them; the order of a \<open>DashMap\<close> is not specified, and no
  property depends on it. What the code uses of Unicode is the record \<open>unicode\<close>:
  \<open>to_lowercase\<close>, \<open>chars\<close> and \<open>is_alphanumeric\<close>. The random discriminators that
  \<open>register_local\<close> draws are an argument.
\<close>

definition max_discriminator :: nat where
  "max_discriminator = 9999"

definition min_discriminator :: nat where
  "min_discriminator = 1"

definition min_username_length :: nat where
  "min_username_length = 3"

definition max_username_length :: nat where
  "max_username_length = 32"

definition max_discriminator_attempts :: nat where
  "max_discriminator_attempts = 100"

record unicode =
  uc_to_lowercase :: "string \<Rightarrow> string"
  uc_chars :: "string \<Rightarrow> nat list"
  uc_is_alphanumeric :: "nat \<Rightarrow> bool"

record username_registry =
  ur_local_cache :: "(string \<times> did) list"
  ur_reverse_cache :: "(did \<times> string \<times> nat) list"

definition registry_new :: username_registry where
  "registry_new = \<lparr>ur_local_cache = [], ur_reverse_cache = []\<rparr>"

definition format_username :: "string \<Rightarrow> nat \<Rightarrow> string" where
  "format_username name discriminator = name @ ''#'' @ fmt04 discriminator"

definition parse_username :: "string \<Rightarrow> (string \<times> nat) option" where
  "parse_username formatted =
     (let s = (case strip_prefix ''@'' formatted of Some r \<Rightarrow> r | None \<Rightarrow> formatted)
      in case rsplit_once CHR ''#'' s of
           None \<Rightarrow> None
         | Some (name, disc_str) \<Rightarrow>
             (case parse_u32 disc_str of
                None \<Rightarrow> None
              | Some disc \<Rightarrow>
                  if \<not> (min_discriminator \<le> disc \<and> disc \<le> max_discriminator) then None else Some (name, disc)))"

definition compound_key :: "string \<Rightarrow> nat \<Rightarrow> string" where
  "compound_key name discriminator = name @ ''#'' @ dec_digits discriminator"

definition validate_username :: "unicode \<Rightarrow> string \<Rightarrow> identity_error + unit" where
  "validate_username U username =
     (if username = [] then Inl (EInvalidDid ''Username cannot be empty'')
      else if length username < min_username_length then Inl (EInvalidDid ''Username too short (min 3 chars)'')
      else if length username > max_username_length then Inl (EInvalidDid ''Username too long (max 32 chars)'')
      else if \<not> list_all (\<lambda>c. uc_is_alphanumeric U c \<or> c = 95 \<or> c = 45) (uc_chars U username)
        then Inl (EInvalidDid ''Username must be alphanumeric with underscores/hyphens'')
      else if \<not> uc_is_alphanumeric U (hd (uc_chars U username))
        then Inl (EInvalidDid ''Username must start with alphanumeric character'')
      else Inr ())"

text \<open>\<open>reverse_cache.remove(&did)\<close>, and the removal of the old key when there was one.\<close>

definition evict :: "username_registry \<Rightarrow> did \<Rightarrow> username_registry" where
  "evict r did =
     (case map_of (ur_reverse_cache r) did of
        None \<Rightarrow> r
      | Some (old_name, old_disc) \<Rightarrow>
          \<lparr>ur_local_cache = AList.delete (compound_key old_name old_disc) (ur_local_cache r),
           ur_reverse_cache = AList.delete did (ur_reverse_cache r)\<rparr>)"

definition insert_name :: "username_registry \<Rightarrow> string \<Rightarrow> nat \<Rightarrow> did \<Rightarrow> username_registry" where
  "insert_name r name disc did =
     \<lparr>ur_local_cache = AList.update (compound_key name disc) did (ur_local_cache r),
      ur_reverse_cache = AList.update did (name, disc) (ur_reverse_cache r)\<rparr>"

fun try_discriminators ::
  "username_registry \<Rightarrow> string \<Rightarrow> did \<Rightarrow> nat list \<Rightarrow> username_registry \<times> (identity_error + string \<times> nat)" where
  "try_discriminators r name did [] =
     (r, Inl (EUsernameTaken (name @ '' (no available discriminators after 100 attempts)'')))"
| "try_discriminators r name did (disc # discs) =
     (if map_of (ur_local_cache r) (compound_key name disc) = None
      then (insert_name r name disc did, Inr (name, disc))
      else try_discriminators r name did discs)"

definition register_local ::
  "unicode \<Rightarrow> username_registry \<Rightarrow> nat list \<Rightarrow> string \<Rightarrow> did \<Rightarrow> username_registry \<times> (identity_error + string \<times> nat)" where
  "register_local U r draws username did =
     (case validate_username U username of
        Inl e \<Rightarrow> (r, Inl e)
      | Inr _ \<Rightarrow>
          try_discriminators (evict r did) (uc_to_lowercase U username) did (take max_discriminator_attempts draws))"

definition register_with_discriminator ::
  "unicode \<Rightarrow> username_registry \<Rightarrow> string \<Rightarrow> nat \<Rightarrow> did \<Rightarrow> username_registry \<times> (identity_error + unit)" where
  "register_with_discriminator U r username discriminator did =
     (let name = uc_to_lowercase U username; key = compound_key name discriminator
      in if map_of (ur_local_cache r) key \<noteq> None then (r, Inl (EUsernameTaken key))
         else (insert_name r name discriminator did, Inr ()))"

definition lookup_exact :: "unicode \<Rightarrow> username_registry \<Rightarrow> string \<Rightarrow> nat \<Rightarrow> did option" where
  "lookup_exact U r username discriminator =
     map_of (ur_local_cache r) (compound_key (uc_to_lowercase U username) discriminator)"

definition lookup_all :: "unicode \<Rightarrow> username_registry \<Rightarrow> string \<Rightarrow> (nat \<times> did) list" where
  "lookup_all U r username =
     List.map_filter
       (\<lambda>(key, did). case strip_prefix (uc_to_lowercase U username @ ''#'') key of
            None \<Rightarrow> None
          | Some disc_str \<Rightarrow> (case parse_u32 disc_str of None \<Rightarrow> None | Some disc \<Rightarrow> Some (disc, did)))
       (ur_local_cache r)"

definition get_username :: "username_registry \<Rightarrow> did \<Rightarrow> (string \<times> nat) option" where
  "get_username r did = map_of (ur_reverse_cache r) did"

definition get_display_name :: "username_registry \<Rightarrow> did \<Rightarrow> string option" where
  "get_display_name r did = map_option (\<lambda>(n, x). format_username n x) (map_of (ur_reverse_cache r) did)"

definition cache_mapping :: "unicode \<Rightarrow> username_registry \<Rightarrow> string \<Rightarrow> nat \<Rightarrow> did \<Rightarrow> username_registry" where
  "cache_mapping U r username discriminator did =
     insert_name (evict r did) (uc_to_lowercase U username) discriminator did"

subsection \<open>Names\<close>

lemma compound_key_inj [simp]: "compound_key n x = compound_key m y \<longleftrightarrow> n = m \<and> x = y"
proof
  assume "compound_key n x = compound_key m y"
  then have "rsplit_once CHR ''#'' (n @ CHR ''#'' # dec_digits x) = rsplit_once CHR ''#'' (m @ CHR ''#'' # dec_digits y)"
    by (simp add: compound_key_def)
  then show "n = m \<and> x = y" by simp
qed simp

text \<open>A formatted name parses back to the name and the discriminator it was made of, with or without a
  leading \<open>@\<close>, for every name that does not start with \<open>@\<close> and every discriminator that can be given out.\<close>

theorem username_roundtrip:
  assumes "min_discriminator \<le> x" and "x \<le> max_discriminator" and "\<not> prefix ''@'' n"
  shows "parse_username (format_username n x) = Some (n, x) \<and>
    parse_username (''@'' @ format_username n x) = Some (n, x)"
proof -
  have "in_u32 x" using assms(2) by (simp add: in_u32_def u32_modulus_def max_discriminator_def)
  moreover have "\<not> prefix ''@'' (format_username n x)"
    using assms(3) by (cases n) (auto simp: format_username_def)
  moreover have "rsplit_once CHR ''#'' (format_username n x) = Some (n, fmt04 x)"
    by (simp add: format_username_def)
  moreover have "strip_prefix ''@'' (''@'' @ format_username n x) = Some (format_username n x)"
    unfolding strip_prefix_Some by (rule refl)
  ultimately show ?thesis
    using assms(1,2) by (simp only: parse_username_def strip_prefix_None [symmetric]) simp
qed

theorem username_roundtrip_witness:
  "parse_username (format_username ''alice'' 42) = Some (''alice'', 42)"
  using username_roundtrip [of 42 "''alice''"] by (simp add: min_discriminator_def max_discriminator_def)

subsection \<open>Registration\<close>

text \<open>
  \<open>registry_ok\<close>: the caches have no duplicate keys, every key of the forward cache is a
  compound key, and the reverse cache points at entries of the forward cache.
\<close>

definition registry_ok :: "username_registry \<Rightarrow> bool" where
  "registry_ok r \<longleftrightarrow> distinct (map fst (ur_local_cache r)) \<and> distinct (map fst (ur_reverse_cache r)) \<and>
     (\<forall>k d. map_of (ur_local_cache r) k = Some d \<longrightarrow> (\<exists>n x. k = compound_key n x \<and> in_u32 x)) \<and>
     (\<forall>d n x. map_of (ur_reverse_cache r) d = Some (n, x) \<longrightarrow> map_of (ur_local_cache r) (compound_key n x) = Some d)"

lemma registry_ok_new: "registry_ok registry_new"
  by (simp add: registry_ok_def registry_new_def)

lemma evict_local:
  "map_of (ur_local_cache (evict r d)) k
     = (if \<exists>n x. map_of (ur_reverse_cache r) d = Some (n, x) \<and> k = compound_key n x then None else map_of (ur_local_cache r) k)"
  by (auto simp: evict_def delete_conv split: option.splits)

lemma evict_reverse: "map_of (ur_reverse_cache (evict r d)) e = (if e = d then None else map_of (ur_reverse_cache r) e)"
  by (auto simp: evict_def delete_conv split: option.splits)

lemma insert_name_maps [simp]:
  "map_of (ur_local_cache (insert_name r n x d)) k = (if k = compound_key n x then Some d else map_of (ur_local_cache r) k)"
  "map_of (ur_reverse_cache (insert_name r n x d)) e = (if e = d then Some (n, x) else map_of (ur_reverse_cache r) e)"
  by (auto simp: insert_name_def update_conv)

lemma registry_ok_evict: "registry_ok r \<Longrightarrow> registry_ok (evict r d)"
proof -
  assume r: "registry_ok r"
  then have 1: "distinct (map fst (ur_local_cache (evict r d)))" "distinct (map fst (ur_reverse_cache (evict r d)))"
    by (auto simp: registry_ok_def evict_def distinct_delete split: option.splits)
  have 2: "\<exists>n x. k = compound_key n x \<and> in_u32 x" if "map_of (ur_local_cache (evict r d)) k = Some e" for k e
    using that r by (auto simp: evict_local registry_ok_def split: if_splits)
  have 3: "map_of (ur_local_cache (evict r d)) (compound_key n x) = Some e"
    if "map_of (ur_reverse_cache (evict r d)) e = Some (n, x)" for e n x
  proof -
    from that have e: "e \<noteq> d" "map_of (ur_reverse_cache r) e = Some (n, x)" by (simp_all add: evict_reverse split: if_splits)
    with r have l: "map_of (ur_local_cache r) (compound_key n x) = Some e" by (simp add: registry_ok_def)
    have "map_of (ur_reverse_cache r) d \<noteq> Some (n, x)"
    proof
      assume "map_of (ur_reverse_cache r) d = Some (n, x)"
      with r have "map_of (ur_local_cache r) (compound_key n x) = Some d" by (simp add: registry_ok_def)
      with l e(1) show False by simp
    qed
    with l show ?thesis by (auto simp: evict_local)
  qed
  from 1 2 3 show ?thesis unfolding registry_ok_def by blast
qed

lemma registry_ok_insert:
  assumes "registry_ok r" and "map_of (ur_local_cache r) (compound_key n x) = None" and "in_u32 x"
  shows "registry_ok (insert_name r n x d)"
proof -
  have "distinct (map fst (ur_local_cache (insert_name r n x d)))" "distinct (map fst (ur_reverse_cache (insert_name r n x d)))"
    using assms(1) by (simp_all add: registry_ok_def insert_name_def distinct_update)
  with assms show ?thesis
    unfolding registry_ok_def insert_name_maps by (metis option.distinct(1) option.inject prod.inject)
qed

lemma try_discriminators_result:
  "try_discriminators r n d xs =
    (case find (\<lambda>x. map_of (ur_local_cache r) (compound_key n x) = None) xs of
       None \<Rightarrow> (r, Inl (EUsernameTaken (n @ '' (no available discriminators after 100 attempts)'')))
     | Some x \<Rightarrow> (insert_name r n x d, Inr (n, x)))"
  by (induction xs) auto

lemma find_member: "find P xs = Some y \<Longrightarrow> P y \<and> y \<in> set xs"
  by (induction xs) (auto split: if_splits)

text \<open>A successful registration gives the DID a free name with one of the drawn discriminators: nobody
  else held that name, it now resolves to the DID and the DID shows it, the DID's former name no longer
  resolves, and every other DID keeps its name; the registry stays consistent.\<close>

theorem register_local_exact:
  assumes "registry_ok r" and "register_local U r draws u d = (r', Inr (n, x))" and "\<forall>y \<in> set draws. in_u32 y"
  shows "n = uc_to_lowercase U u \<and> x \<in> set draws \<and> registry_ok r' \<and>
    map_of (ur_local_cache r) (compound_key n x) \<in> {None, Some d} \<and>
    lookup_exact U r' u x = Some d \<and> get_username r' d = Some (n, x) \<and>
    (\<forall>m y. get_username r d = Some (m, y) \<and> (m, y) \<noteq> (n, x) \<longrightarrow> map_of (ur_local_cache r') (compound_key m y) = None) \<and>
    (\<forall>e. e \<noteq> d \<longrightarrow> get_username r' e = get_username r e)"
proof -
  let ?r = "evict r d" and ?n = "uc_to_lowercase U u"
  have "validate_username U u = Inr ()"
    using assms(2) by (auto simp: register_local_def split: sum.splits)
  with assms(2) have t: "try_discriminators ?r ?n d (take max_discriminator_attempts draws) = (r', Inr (n, x))"
    by (simp add: register_local_def)
  obtain y where y: "find (\<lambda>x. map_of (ur_local_cache ?r) (compound_key ?n x) = None) (take max_discriminator_attempts draws) = Some y"
    "r' = insert_name ?r ?n y d" "n = ?n" "x = y"
  proof (cases "find (\<lambda>x. map_of (ur_local_cache ?r) (compound_key ?n x) = None) (take max_discriminator_attempts draws)")
    case None
    from t show thesis unfolding try_discriminators_result None by simp
  next
    case (Some y)
    have e: "(insert_name ?r ?n y d, Inr (?n, y) :: identity_error + string \<times> nat) = (r', Inr (n, x))"
      using t unfolding try_discriminators_result Some option.case .
    then have "insert_name ?r ?n y d = r'" by (rule Pair_inject)
    moreover have "?n = n \<and> y = x" using e by (simp only: prod.inject sum.inject)
    ultimately show thesis using Some by (intro that [of y]) blast+
  qed
  have free: "map_of (ur_local_cache ?r) (compound_key ?n x) = None" and "x \<in> set (take max_discriminator_attempts draws)"
    unfolding y(4) using find_member [OF y(1)] by (rule conjunct1, rule conjunct2)
  then have mem: "x \<in> set draws" by (blast dest: in_set_takeD)
  have ok: "registry_ok r'"
    using registry_ok_insert [OF registry_ok_evict [OF assms(1)] free] mem assms(3) y by simp
  have old: "map_of (ur_local_cache r) (compound_key n x) \<in> {None, Some d}"
    using free y(3) assms(1) by (auto simp: evict_local registry_ok_def split: if_splits)
  show ?thesis
    using y mem ok old
    by (auto simp: lookup_exact_def get_username_def evict_reverse evict_local)
qed

definition ascii_unicode :: unicode where
  "ascii_unicode =
     \<lparr>uc_to_lowercase = map (\<lambda>c. if CHR ''A'' \<le> c \<and> c \<le> CHR ''Z'' then char_of (of_char c + 32 :: nat) else c),
      uc_chars = map of_char,
      uc_is_alphanumeric = (\<lambda>n. 48 \<le> n \<and> n \<le> 57 \<or> 65 \<le> n \<and> n \<le> 90 \<or> 97 \<le> n \<and> n \<le> 122)\<rparr>"

theorem register_local_exact_witness:
  "lookup_exact ascii_unicode (fst (register_local ascii_unicode registry_new [7, 8] ''bob'' ''did:variance:aa'')) ''bob'' 7
     = Some ''did:variance:aa''"
proof -
  have v: "validate_username ascii_unicode ''bob'' = Inr ()"
    by (simp add: validate_username_def ascii_unicode_def min_username_length_def max_username_length_def)
  have r: "register_local ascii_unicode registry_new [7, 8] ''bob'' ''did:variance:aa''
      = (insert_name registry_new (uc_to_lowercase ascii_unicode ''bob'') 7 ''did:variance:aa'',
         Inr (uc_to_lowercase ascii_unicode ''bob'', 7))"
    by (simp add: register_local_def v evict_def registry_new_def compound_key_def max_discriminator_attempts_def)
  have "\<forall>y \<in> set [7, 8]. in_u32 y" by (simp add: in_u32_def u32_modulus_def)
  from register_local_exact [OF registry_ok_new r this] show ?thesis by (simp add: r)
qed

subsection \<open>Names from the network\<close>

text \<open>Caching a name that already belongs to somebody else takes it from them without clearing their
  reverse entry: afterwards two different DIDs show the same name, while the name resolves to only one.\<close>

theorem cache_mapping_duplicates_name:
  assumes "registry_ok r" and "get_username r e = Some (uc_to_lowercase U u, x)" and "e \<noteq> d"
  shows "get_display_name (cache_mapping U r u x d) e = get_display_name (cache_mapping U r u x d) d \<and>
    get_display_name (cache_mapping U r u x d) e \<noteq> None \<and> lookup_exact U (cache_mapping U r u x d) u x = Some d"
  using assms by (simp add: cache_mapping_def get_display_name_def get_username_def lookup_exact_def evict_reverse)

theorem cache_mapping_duplicates_name_witness:
  "get_display_name (cache_mapping ascii_unicode (insert_name registry_new ''bob'' 7 ''did:variance:aa'') ''bob'' 7 ''did:variance:bb'')
     ''did:variance:aa'' = Some ''bob#0007''"
proof -
  have ok: "registry_ok (insert_name registry_new ''bob'' 7 ''did:variance:aa'')"
    by (rule registry_ok_insert [OF registry_ok_new]) (simp_all add: registry_new_def in_u32_def u32_modulus_def)
  have "get_username (insert_name registry_new ''bob'' 7 ''did:variance:aa'') ''did:variance:aa'' = Some (uc_to_lowercase ascii_unicode ''bob'', 7)"
    by (simp add: get_username_def ascii_unicode_def)
  from cache_mapping_duplicates_name [OF ok this, of "''did:variance:bb''"]
  have "get_display_name (cache_mapping ascii_unicode (insert_name registry_new ''bob'' 7 ''did:variance:aa'') ''bob'' 7 ''did:variance:bb'')
     ''did:variance:aa'' = Some (format_username (uc_to_lowercase ascii_unicode ''bob'') 7)"
    by (simp add: get_display_name_def cache_mapping_def)
  moreover have "format_username (uc_to_lowercase ascii_unicode ''bob'') 7 = ''bob#0007''" by code_simp
  ultimately show ?thesis by (simp only:)
qed

lemma parse_u32_cases:
  "parse_u32 (c # t) = (case parse_nat (if c = CHR ''+'' then t else c # t) of
     None \<Rightarrow> None | Some n \<Rightarrow> if in_u32 n then Some n else None)"
proof (cases "c = CHR ''+''")
  case False
  then show ?thesis unfolding parse_u32_def by (auto split: char.splits bool.splits)
qed (simp add: parse_u32_def)

lemma parse_digits_hash: "CHR ''#'' \<in> set t \<Longrightarrow> parse_digits a t = None"
  by (induction t arbitrary: a) (auto simp: digit_val_def split: option.splits)

lemma parse_nat_hash: "CHR ''#'' \<in> set t \<Longrightarrow> parse_nat t = None"
  by (simp only: parse_nat_def parse_digits_hash) simp

lemma lookup_all_exact:
  assumes "registry_ok r"
  shows "(x, d) \<in> set (lookup_all U r u) \<longleftrightarrow> in_u32 x \<and> lookup_exact U r u x = Some d"
proof -
  let ?n = "uc_to_lowercase U u"
  have key: "(case strip_prefix (?n @ ''#'') (compound_key m y) of None \<Rightarrow> None
      | Some s \<Rightarrow> (case parse_u32 s of None \<Rightarrow> None | Some z \<Rightarrow> Some (z, e))) = Some (x, d) \<longleftrightarrow> m = ?n \<and> y = x \<and> e = d"
    if "in_u32 y" for m y e
  proof (cases "strip_prefix (?n @ ''#'') (compound_key m y)")
    case None
    then have "m \<noteq> ?n" by (auto simp: strip_prefix_None compound_key_def)
    with None show ?thesis by simp
  next
    case (Some s)
    then have eq: "m @ CHR ''#'' # dec_digits y = ?n @ CHR ''#'' # s" by (simp add: strip_prefix_Some compound_key_def)
    show ?thesis
    proof (cases "CHR ''#'' \<in> set s")
      case True
      have "parse_u32 s = None"
      proof -
        obtain c t where s: "s = c # t" using True by (cases s) auto
        have "parse_nat (if c = CHR ''+'' then t else c # t) = None"
          using True unfolding s by (cases "c = CHR ''+''") (simp_all add: parse_nat_hash)
        then show ?thesis unfolding s parse_u32_cases by simp
      qed
      moreover have "m \<noteq> ?n"
        using eq True hash_not_in_digits(1) [of y] by auto
      ultimately show ?thesis using Some by simp
    next
      case False
      then have "m = ?n" "dec_digits y = s" using split_at_last [OF eq] by simp_all
      with Some that show ?thesis by auto
    qed
  qed
  define f where "f = (\<lambda>k e. case strip_prefix (?n @ ''#'') k of None \<Rightarrow> None
      | Some s \<Rightarrow> (case parse_u32 s of None \<Rightarrow> None | Some z \<Rightarrow> Some (z, e :: did)))"
  have d: "distinct (map fst (ur_local_cache r))"
    and c: "\<And>k e. map_of (ur_local_cache r) k = Some e \<Longrightarrow> \<exists>m y. k = compound_key m y \<and> in_u32 y"
    using assms unfolding registry_ok_def by blast+
  have "(x, d) \<in> set (lookup_all U r u) \<longleftrightarrow> (\<exists>(k, e) \<in> set (ur_local_cache r). f k e = Some (x, d))"
    by (force simp: lookup_all_def List.map_filter_def f_def)
  also have "\<dots> \<longleftrightarrow> (\<exists>k e. map_of (ur_local_cache r) k = Some e \<and> f k e = Some (x, d))"
    using d by (auto simp: map_of_eq_Some_iff)
  also have "\<dots> \<longleftrightarrow> in_u32 x \<and> map_of (ur_local_cache r) (compound_key ?n x) = Some d"
  proof
    assume "\<exists>k e. map_of (ur_local_cache r) k = Some e \<and> f k e = Some (x, d)"
    then obtain k e where k: "map_of (ur_local_cache r) k = Some e" "f k e = Some (x, d)" by blast
    from c [OF k(1)] obtain m y where "k = compound_key m y" "in_u32 y" by blast
    with k key show "in_u32 x \<and> map_of (ur_local_cache r) (compound_key ?n x) = Some d" by (simp add: f_def)
  next
    assume a: "in_u32 x \<and> map_of (ur_local_cache r) (compound_key ?n x) = Some d"
    then have "f (compound_key ?n x) d = Some (x, d)" unfolding f_def by (subst key) simp_all
    with a show "\<exists>k e. map_of (ur_local_cache r) k = Some e \<and> f k e = Some (x, d)" by blast
  qed
  finally show ?thesis by (simp add: lookup_exact_def)
qed

end
