(* ===== verification/Identity_Cache.thy ===== *)
theory Identity_Cache
  imports Did Sled
begin

section \<open>The layered identity cache (\<open>variance-identity/src/cache.rs\<close>)\<close>

text \<open>
  \<open>MultiLayerCache\<close>: two maps in memory and a tree on disk, each with its own lifetime, and
  a lookup that copies what it finds into the faster layers. \<open>Instant\<close> readings are in
  milliseconds, \<open>SystemTime\<close> readings in seconds, and both are arguments. serde is a
  parameter: \<open>js_encode\<close> and \<open>js_decode\<close> are \<open>to_string\<close> and \<open>from_str\<close> on a \<open>Did\<close>, whose
  secret keys are \<open>serde(skip)\<close>, so that what is read back has lost them.
\<close>

record 'v cache_entry =
  ce_value :: 'v
  ce_expires_at :: nat

definition cache_entry_new :: "nat \<Rightarrow> 'v \<Rightarrow> nat \<Rightarrow> 'v cache_entry" where
  "cache_entry_new now value ttl = \<lparr>ce_value = value, ce_expires_at = now + ttl\<rparr>"

definition is_expired :: "nat \<Rightarrow> 'v cache_entry \<Rightarrow> bool" where
  "is_expired now entry \<longleftrightarrow> now > ce_expires_at entry"

record 'v layer =
  ly_data :: "string \<rightharpoonup> 'v cache_entry"
  ly_ttl :: nat

definition layer_new :: "nat \<Rightarrow> 'v layer" where
  "layer_new ttl = \<lparr>ly_data = Map.empty, ly_ttl = ttl\<rparr>"

definition layer_get :: "'v layer \<Rightarrow> nat \<Rightarrow> string \<Rightarrow> 'v option" where
  "layer_get l now key =
     (case ly_data l key of
        Some entry \<Rightarrow> if \<not> is_expired now entry then Some (ce_value entry) else None
      | None \<Rightarrow> None)"

definition layer_insert :: "'v layer \<Rightarrow> nat \<Rightarrow> string \<Rightarrow> 'v \<Rightarrow> 'v layer" where
  "layer_insert l now key value = l\<lparr>ly_data := (ly_data l)(key \<mapsto> cache_entry_new now value (ly_ttl l))\<rparr>"

definition layer_remove :: "'v layer \<Rightarrow> string \<Rightarrow> 'v layer" where
  "layer_remove l key = l\<lparr>ly_data := (ly_data l)(key := None)\<rparr>"

definition layer_evict_expired :: "'v layer \<Rightarrow> nat \<Rightarrow> 'v layer" where
  "layer_evict_expired l now =
     l\<lparr>ly_data := (\<lambda>k. case ly_data l k of Some e \<Rightarrow> if is_expired now e then None else Some e | None \<Rightarrow> None)\<rparr>"

subsection \<open>The disk layer\<close>

record disk_entry =
  de_value :: string
  de_expires_at :: nat

record ('t, 'sk, 'xs) cache_env =
  cn_sled :: "'t sled"
  cn_crypto :: "('sk, 'xs) did_crypto"
  cn_js_encode :: "('sk, 'xs) did_identity \<Rightarrow> string"
  cn_js_decode :: "string \<Rightarrow> ('sk, 'xs) did_identity option"
  cn_disk_encode :: "disk_entry \<Rightarrow> bytes"
  cn_disk_decode :: "bytes \<Rightarrow> disk_entry option"

definition without_secrets :: "('sk, 'xs) did_identity \<Rightarrow> ('sk, 'xs) did_identity" where
  "without_secrets d = d\<lparr>di_signing_key := None, di_x25519_secret := None\<rparr>"

definition cache_env_ok :: "('t, 'sk, 'xs) cache_env \<Rightarrow> bool" where
  "cache_env_ok E \<longleftrightarrow> sled_ok (cn_sled E) \<and>
     (\<forall>d. cn_js_decode E (cn_js_encode E d) = Some (without_secrets d)) \<and>
     (\<forall>e. cn_disk_decode E (cn_disk_encode E e) = Some e)"

definition l3_ttl_secs :: nat where
  "l3_ttl_secs = 24 * 60 * 60"

definition l3_get ::
  "('t, 'sk, 'xs) cache_env \<Rightarrow> 't \<Rightarrow> nat \<Rightarrow> string \<Rightarrow> 't \<times> (identity_error + ('sk, 'xs) did_identity option)" where
  "l3_get E db now_secs key =
     (case sl_get (cn_sled E) db key of
        None \<Rightarrow> (db, Inr None)
      | Some data \<Rightarrow>
          (case cn_disk_decode E data of
             None \<Rightarrow> (db, Inl EIdSerialization)
           | Some entry \<Rightarrow>
               if now_secs < de_expires_at entry
               then (case cn_js_decode E (de_value entry) of
                       None \<Rightarrow> (db, Inl EIdSerialization)
                     | Some d \<Rightarrow> (db, Inr (Some d)))
               else (sl_remove (cn_sled E) db key, Inr None)))"

definition l3_insert ::
  "('t, 'sk, 'xs) cache_env \<Rightarrow> 't \<Rightarrow> nat \<Rightarrow> string \<Rightarrow> ('sk, 'xs) did_identity \<Rightarrow> 't" where
  "l3_insert E db now_secs key value =
     sl_insert (cn_sled E) db key
       (cn_disk_encode E \<lparr>de_value = cn_js_encode E value, de_expires_at = now_secs + l3_ttl_secs\<rparr>)"

definition evict_expired_l3 :: "('t, 'sk, 'xs) cache_env \<Rightarrow> 't \<Rightarrow> nat \<Rightarrow> 't" where
  "evict_expired_l3 E db now_secs =
     sl_remove_all (cn_sled E) db
       (map fst (filter (\<lambda>(k, v). case cn_disk_decode E v of
            Some disk_entry \<Rightarrow> now_secs \<ge> de_expires_at disk_entry | None \<Rightarrow> False) (sl_iter (cn_sled E) db)))"

subsection \<open>All layers\<close>

record ('t, 'sk, 'xs) layered_cache =
  ch_l1 :: "('sk, 'xs) did_identity layer"
  ch_l2 :: "('sk, 'xs) did_identity layer"
  ch_l3 :: 't

definition cache_new :: "('t, 'sk, 'xs) cache_env \<Rightarrow> ('t, 'sk, 'xs) layered_cache" where
  "cache_new E = \<lparr>ch_l1 = layer_new (5 * 60 * 1000), ch_l2 = layer_new (60 * 60 * 1000), ch_l3 = sl_new (cn_sled E)\<rparr>"

definition cache_get ::
  "('t, 'sk, 'xs) cache_env \<Rightarrow> ('t, 'sk, 'xs) layered_cache \<Rightarrow> nat \<Rightarrow> nat \<Rightarrow> string
     \<Rightarrow> ('t, 'sk, 'xs) layered_cache \<times> (identity_error + ('sk, 'xs) did_identity option)" where
  "cache_get E c now now_secs key =
     (case layer_get (ch_l1 c) now key of
        Some d \<Rightarrow> (c, Inr (Some d))
      | None \<Rightarrow>
     (case layer_get (ch_l2 c) now key of
        Some d \<Rightarrow> (c\<lparr>ch_l1 := layer_insert (ch_l1 c) now key d\<rparr>, Inr (Some d))
      | None \<Rightarrow>
     (case l3_get E (ch_l3 c) now_secs key of
        (db, Inl e) \<Rightarrow> (c\<lparr>ch_l3 := db\<rparr>, Inl e)
      | (db, Inr (Some d)) \<Rightarrow>
          (c\<lparr>ch_l2 := layer_insert (ch_l2 c) now key d, ch_l1 := layer_insert (ch_l1 c) now key d, ch_l3 := db\<rparr>, Inr (Some d))
      | (db, Inr None) \<Rightarrow> (c\<lparr>ch_l3 := db\<rparr>, Inr None))))"

definition cache_insert ::
  "('t, 'sk, 'xs) cache_env \<Rightarrow> ('t, 'sk, 'xs) layered_cache \<Rightarrow> nat \<Rightarrow> nat \<Rightarrow> string \<Rightarrow> ('sk, 'xs) did_identity
     \<Rightarrow> ('t, 'sk, 'xs) layered_cache \<times> (identity_error + unit)" where
  "cache_insert E c now now_secs key value =
     (case verify_document (cn_crypto E) value of
        Inl e \<Rightarrow> (c, Inl e)
      | Inr _ \<Rightarrow>
          (c\<lparr>ch_l1 := layer_insert (ch_l1 c) now key value,
             ch_l2 := layer_insert (ch_l2 c) now key value,
             ch_l3 := l3_insert E (ch_l3 c) now_secs key value\<rparr>, Inr ()))"

definition cache_remove ::
  "('t, 'sk, 'xs) cache_env \<Rightarrow> ('t, 'sk, 'xs) layered_cache \<Rightarrow> string \<Rightarrow> ('t, 'sk, 'xs) layered_cache" where
  "cache_remove E c key =
     c\<lparr>ch_l1 := layer_remove (ch_l1 c) key, ch_l2 := layer_remove (ch_l2 c) key,
       ch_l3 := sl_remove (cn_sled E) (ch_l3 c) key\<rparr>"

definition cache_evict_expired ::
  "('t, 'sk, 'xs) cache_env \<Rightarrow> ('t, 'sk, 'xs) layered_cache \<Rightarrow> nat \<Rightarrow> nat \<Rightarrow> ('t, 'sk, 'xs) layered_cache" where
  "cache_evict_expired E c now now_secs =
     c\<lparr>ch_l1 := layer_evict_expired (ch_l1 c) now, ch_l2 := layer_evict_expired (ch_l2 c) now,
       ch_l3 := evict_expired_l3 E (ch_l3 c) now_secs\<rparr>"

subsection \<open>Runs of the cache\<close>

text \<open>
  A run of the cache under one clock \<open>t\<close> in milliseconds, with the history it should
  reflect: \<open>hist k\<close> is the document last inserted under \<open>k\<close> with the time of the insertion,
  or nothing after \<open>remove\<close>.
\<close>

type_synonym ('sk, 'xs) history = "string \<rightharpoonup> ('sk, 'xs) did_identity \<times> nat"

inductive cache_run ::
  "('t, 'sk, 'xs) cache_env \<Rightarrow> nat \<Rightarrow> ('t, 'sk, 'xs) layered_cache \<Rightarrow> ('sk, 'xs) history \<Rightarrow> bool"
  for E :: "('t, 'sk, 'xs) cache_env" where
  start: "cache_run E t (cache_new E) Map.empty"
| wait: "cache_run E t c hist \<Longrightarrow> t \<le> t' \<Longrightarrow> cache_run E t' c hist"
| insert: "cache_run E t c hist \<Longrightarrow> cache_insert E c t (t div 1000) k d = (c', Inr ()) \<Longrightarrow>
    cache_run E t c' (hist(k \<mapsto> (d, t)))"
| reject: "cache_run E t c hist \<Longrightarrow> cache_insert E c t (t div 1000) k d = (c', Inl e) \<Longrightarrow> cache_run E t c' hist"
| get: "cache_run E t c hist \<Longrightarrow> cache_get E c t (t div 1000) k = (c', r) \<Longrightarrow> cache_run E t c' hist"
| remove: "cache_run E t c hist \<Longrightarrow> cache_run E t (cache_remove E c k) (hist(k := None))"
| evict: "cache_run E t c hist \<Longrightarrow> cache_run E t (cache_evict_expired E c t (t div 1000)) hist"

text \<open>An entry that comes from the last insertion under its key and expires before \<open>bound\<close> more milliseconds.\<close>

definition from_last ::
  "('sk, 'xs) history \<Rightarrow> nat \<Rightarrow> string \<Rightarrow> ('sk, 'xs) did_identity \<Rightarrow> nat \<Rightarrow> bool" where
  "from_last hist bound k v expires \<longleftrightarrow>
     (\<exists>d t0. hist k = Some (d, t0) \<and> without_secrets v = without_secrets d \<and> expires < t0 + bound)"

definition layer_ok :: "('sk, 'xs) history \<Rightarrow> nat \<Rightarrow> ('sk, 'xs) did_identity layer \<Rightarrow> bool" where
  "layer_ok hist bound l \<longleftrightarrow> (\<forall>k e. ly_data l k = Some e \<longrightarrow> from_last hist bound k (ce_value e) (ce_expires_at e))"

definition on_disk :: "('t, 'sk, 'xs) cache_env \<Rightarrow> ('sk, 'xs) did_identity \<Rightarrow> nat \<Rightarrow> bytes" where
  "on_disk E d t0 = cn_disk_encode E \<lparr>de_value = cn_js_encode E d, de_expires_at = t0 div 1000 + l3_ttl_secs\<rparr>"

definition disk_ok :: "('t, 'sk, 'xs) cache_env \<Rightarrow> nat \<Rightarrow> ('sk, 'xs) history \<Rightarrow> 't \<Rightarrow> bool" where
  "disk_ok E t hist db \<longleftrightarrow>
     (\<forall>k v. sl_get (cn_sled E) db k = Some v \<longrightarrow> (\<exists>d t0. hist k = Some (d, t0) \<and> v = on_disk E d t0)) \<and>
     (\<forall>k d t0. hist k = Some (d, t0) \<and> t div 1000 < t0 div 1000 + l3_ttl_secs
        \<longrightarrow> sl_get (cn_sled E) db k = Some (on_disk E d t0))"

definition cache_inv ::
  "('t, 'sk, 'xs) cache_env \<Rightarrow> nat \<Rightarrow> ('t, 'sk, 'xs) layered_cache \<Rightarrow> ('sk, 'xs) history \<Rightarrow> bool" where
  "cache_inv E t c hist \<longleftrightarrow>
     ly_ttl (ch_l1 c) = 300000 \<and> ly_ttl (ch_l2 c) = 3600000 \<and>
     layer_ok hist 90300000 (ch_l1 c) \<and> layer_ok hist 90000000 (ch_l2 c) \<and> disk_ok E t hist (ch_l3 c) \<and>
     (\<forall>k d t0. hist k = Some (d, t0) \<longrightarrow> verify_document (cn_crypto E) d = Inr () \<and> t0 \<le> t)"

lemma cache_envD:
  assumes "cache_env_ok E"
  shows "sled_ok (cn_sled E)" "cn_js_decode E (cn_js_encode E d) = Some (without_secrets d)"
    "cn_disk_decode E (cn_disk_encode E e) = Some e"
  using assms by (simp_all add: cache_env_ok_def)

lemma without_secrets_idem [simp]: "without_secrets (without_secrets d) = without_secrets d"
  by (simp add: without_secrets_def)

lemma verify_without_secrets: "without_secrets v = without_secrets d \<Longrightarrow> verify_document C v = verify_document C d"
proof -
  assume "without_secrets v = without_secrets d"
  then have e: "di_id v = di_id d" "di_document v = di_document d" "di_document_signature v = di_document_signature d"
    by (cases v; cases d; simp add: without_secrets_def)+
  show ?thesis unfolding verify_document_def get_verifying_key_def document_signing_bytes_def e ..
qed

lemma on_disk_decode: "cache_env_ok E \<Longrightarrow> cn_disk_decode E (on_disk E d t0)
    = Some \<lparr>de_value = cn_js_encode E d, de_expires_at = t0 div 1000 + l3_ttl_secs\<rparr>"
  by (simp add: on_disk_def cache_envD)

subsection \<open>The layers keep the invariant\<close>

lemma layer_get_ok: "layer_ok hist b l \<Longrightarrow> layer_get l now k = Some v \<Longrightarrow>
    \<exists>d t0. hist k = Some (d, t0) \<and> without_secrets v = without_secrets d \<and> now < t0 + b"
  by (fastforce simp: layer_get_def layer_ok_def from_last_def is_expired_def split: option.splits if_splits)

lemma layer_insert_ok: "layer_ok hist b l \<Longrightarrow> from_last hist b k v (now + ly_ttl l) \<Longrightarrow> layer_ok hist b (layer_insert l now k v)"
  by (auto simp: layer_ok_def layer_insert_def cache_entry_new_def)

lemma layer_insert_new: "layer_ok hist b l \<Longrightarrow> ly_ttl l < b \<Longrightarrow> layer_ok (hist(k \<mapsto> (d, now))) b (layer_insert l now k d)"
  by (auto simp: layer_ok_def layer_insert_def cache_entry_new_def from_last_def)

lemma layer_remove_ok: "layer_ok hist b l \<Longrightarrow> layer_ok (hist(k := None)) b (layer_remove l k)"
  by (auto simp: layer_ok_def layer_remove_def from_last_def)

lemma layer_evict_ok: "layer_ok hist b l \<Longrightarrow> layer_ok hist b (layer_evict_expired l now)"
  by (auto simp: layer_ok_def layer_evict_expired_def split: option.splits if_splits)

lemma layer_ttls [simp]:
  "ly_ttl (layer_insert l now k v) = ly_ttl l" "ly_ttl (layer_remove l k) = ly_ttl l"
  "ly_ttl (layer_evict_expired l now) = ly_ttl l"
  by (simp_all add: layer_insert_def layer_remove_def layer_evict_expired_def)

lemma disk_ok_wait:
  assumes "disk_ok E t hist db" and "t \<le> t'"
  shows "disk_ok E t' hist db"
proof -
  have "t div 1000 \<le> t' div 1000" using assms(2) by (rule div_le_mono)
  with assms(1) show ?thesis unfolding disk_ok_def by (meson le_less_trans)
qed

lemma disk_ok_insert: "cache_env_ok E \<Longrightarrow> disk_ok E t hist db \<Longrightarrow>
    disk_ok E t (hist(k \<mapsto> (d, t))) (l3_insert E db (t div 1000) k d)"
  by (auto simp: disk_ok_def l3_insert_def sled_get_insert cache_envD(1) on_disk_def)

lemma disk_ok_remove: "cache_env_ok E \<Longrightarrow> disk_ok E t hist db \<Longrightarrow>
    disk_ok E t (hist(k := None)) (sl_remove (cn_sled E) db k)"
  by (auto simp: disk_ok_def sled_get_remove cache_envD(1))

lemma disk_ok_evict:
  assumes "cache_env_ok E" and "disk_ok E t hist db"
  shows "disk_ok E t hist (evict_expired_l3 E db (t div 1000))"
proof -
  let ?S = "cn_sled E"
  let ?dead = "\<lambda>v. case cn_disk_decode E v of Some e \<Rightarrow> t div 1000 \<ge> de_expires_at e | None \<Rightarrow> False"
  have S: "sled_ok ?S" using assms(1) by (rule cache_envD)
  have g: "sl_get ?S (evict_expired_l3 E db (t div 1000)) k
      = (if \<exists>v. sl_get ?S db k = Some v \<and> ?dead v then None else sl_get ?S db k)" for k
  proof -
    have "k \<in> set (map fst (filter (\<lambda>(k, v). ?dead v) (sl_iter ?S db))) \<longleftrightarrow> (\<exists>v. sl_get ?S db k = Some v \<and> ?dead v)"
      using sled_iter_iff [OF S] by force
    then show ?thesis
      unfolding evict_expired_l3_def sled_get_remove_all [OF S] by (simp only:)
  qed
  have alive: "t div 1000 < t0 div 1000 + l3_ttl_secs \<Longrightarrow> \<not> ?dead (on_disk E d t0)" for d t0
    by (simp add: on_disk_decode [OF assms(1)])
  note disk = assms(2) [unfolded disk_ok_def]
  show ?thesis
    unfolding disk_ok_def
  proof (intro conjI allI impI)
    fix k v
    assume "sl_get ?S (evict_expired_l3 E db (t div 1000)) k = Some v"
    then have "sl_get ?S db k = Some v" unfolding g by (simp split: if_splits)
    with conjunct1 [OF disk] show "\<exists>d t0. hist k = Some (d, t0) \<and> v = on_disk E d t0" by blast
  next
    fix k d t0
    assume h: "hist k = Some (d, t0) \<and> t div 1000 < t0 div 1000 + l3_ttl_secs"
    with conjunct2 [OF disk] have "sl_get ?S db k = Some (on_disk E d t0)" by blast
    with alive h show "sl_get ?S (evict_expired_l3 E db (t div 1000)) k = Some (on_disk E d t0)" unfolding g by simp
  qed
qed

lemma l3_get_ok:
  assumes "cache_env_ok E" and "disk_ok E t hist db" and "l3_get E db (t div 1000) k = (db', r)"
  shows "disk_ok E t hist db' \<and>
    (r = Inr None \<and> (\<forall>d t0. hist k = Some (d, t0) \<longrightarrow> t0 div 1000 + l3_ttl_secs \<le> t div 1000) \<or>
     (\<exists>d t0. hist k = Some (d, t0) \<and> t div 1000 < t0 div 1000 + l3_ttl_secs \<and> r = Inr (Some (without_secrets d))))"
proof (cases "sl_get (cn_sled E) db k")
  case None
  then show ?thesis using assms(2,3) by (force simp: l3_get_def disk_ok_def not_less)
next
  case (Some v)
  then obtain d t0 where d: "hist k = Some (d, t0)" "v = on_disk E d t0"
    using assms(2) unfolding disk_ok_def by blast
  show ?thesis
  proof (cases "t div 1000 < t0 div 1000 + l3_ttl_secs")
    case True
    then show ?thesis using assms Some d by (simp add: l3_get_def on_disk_decode cache_envD(2))
  next
    case False
    then have e: "db' = sl_remove (cn_sled E) db k" "r = Inr None"
      using assms Some d by (simp_all add: l3_get_def on_disk_decode)
    have "disk_ok E t hist db'"
      unfolding e disk_ok_def sled_get_remove [OF cache_envD(1) [OF assms(1)]]
      using assms(2) d False by (auto simp: disk_ok_def)
    with False d e show ?thesis by simp
  qed
qed

lemma cache_get_ok:
  assumes "cache_env_ok E" and i: "cache_inv E t c hist" and g: "cache_get E c t (t div 1000) k = (c', r)"
  shows "cache_inv E t c' hist \<and>
    (r = Inr None \<and> (\<forall>d t0. hist k = Some (d, t0) \<longrightarrow> t0 div 1000 + l3_ttl_secs \<le> t div 1000) \<or>
     (\<exists>v d t0. r = Inr (Some v) \<and> hist k = Some (d, t0) \<and> without_secrets v = without_secrets d \<and> t < t0 + 90300000))"
proof -
  have l1: "layer_ok hist 90300000 (ch_l1 c)" "ly_ttl (ch_l1 c) = 300000"
    and l2: "layer_ok hist 90000000 (ch_l2 c)" "ly_ttl (ch_l2 c) = 3600000"
    and l3: "disk_ok E t hist (ch_l3 c)" using i by (simp_all add: cache_inv_def)
  show ?thesis
  proof (cases "layer_get (ch_l1 c) t k")
    case (Some v)
    then show ?thesis using g i layer_get_ok [OF l1(1) Some] by (auto simp: cache_get_def)
  next
    case None
    show ?thesis
    proof (cases "layer_get (ch_l2 c) t k")
      case (Some v)
      then have e: "c' = c\<lparr>ch_l1 := layer_insert (ch_l1 c) t k v\<rparr>" "r = Inr (Some v)" using g None by (simp_all add: cache_get_def)
      obtain d t0 where d: "hist k = Some (d, t0)" "without_secrets v = without_secrets d" "t < t0 + 90000000"
        using layer_get_ok [OF l2(1) Some] by blast
      then have "from_last hist 90300000 k v (t + ly_ttl (ch_l1 c))" by (simp add: from_last_def l1(2))
      then have "cache_inv E t c' hist" using i layer_insert_ok [OF l1(1)] by (simp add: cache_inv_def e)
      moreover have "t < t0 + 90300000" using d(3) by simp
      ultimately show ?thesis unfolding e using d by blast
    next
      case n2: None
      obtain db q where q: "l3_get E (ch_l3 c) (t div 1000) k = (db, q)" by fastforce
      note k = l3_get_ok [OF assms(1) l3 q]
      show ?thesis
      proof (cases "q = Inr None")
        case True
        then have "c' = c\<lparr>ch_l3 := db\<rparr>" "r = Inr None" using g None n2 q by (simp_all add: cache_get_def)
        then show ?thesis using i k True by (simp add: cache_inv_def)
      next
        case False
        with k obtain d t0 where d: "hist k = Some (d, t0)" "t div 1000 < t0 div 1000 + l3_ttl_secs" "q = Inr (Some (without_secrets d))"
          by blast
        then have e: "c' = c\<lparr>ch_l2 := layer_insert (ch_l2 c) t k (without_secrets d),
            ch_l1 := layer_insert (ch_l1 c) t k (without_secrets d), ch_l3 := db\<rparr>" "r = Inr (Some (without_secrets d))"
          using g None n2 q by (simp_all add: cache_get_def)
        have t: "t < t0 + 86400000" using d(2) by (simp add: l3_ttl_secs_def)
        then have "from_last hist 90300000 k (without_secrets d) (t + ly_ttl (ch_l1 c))"
          "from_last hist 90000000 k (without_secrets d) (t + ly_ttl (ch_l2 c))"
          using d(1) by (simp_all add: from_last_def l1(2) l2(2))
        then have "cache_inv E t c' hist"
          using i k layer_insert_ok [OF l1(1)] layer_insert_ok [OF l2(1)] by (simp add: cache_inv_def e)
        moreover have "t < t0 + 90300000" using t by simp
        ultimately show ?thesis unfolding e using d by force
      qed
    qed
  qed
qed

lemma cache_run_inv:
  assumes "cache_env_ok E" and "cache_run E t c hist"
  shows "cache_inv E t c hist"
  using assms(2)
proof induction
  case (start t)
  then show ?case
    by (simp add: cache_inv_def cache_new_def layer_new_def layer_ok_def disk_ok_def sled_get_new cache_envD(1) [OF assms(1)])
next
  case (wait t c hist t')
  have h: "\<forall>k d t0. hist k = Some (d, t0) \<longrightarrow> verify_document (cn_crypto E) d = Inr () \<and> t0 \<le> t"
    using wait.IH by (simp add: cache_inv_def)
  have "\<forall>k d t0. hist k = Some (d, t0) \<longrightarrow> verify_document (cn_crypto E) d = Inr () \<and> t0 \<le> t'"
    using h le_trans [OF _ wait.hyps(2)] by blast
  moreover have "disk_ok E t' hist (ch_l3 c)"
    by (rule disk_ok_wait [OF _ wait.hyps(2)]) (use wait.IH in \<open>simp add: cache_inv_def\<close>)
  ultimately show ?case using wait.IH by (simp add: cache_inv_def)
next
  case (insert t c hist k d c')
  have v: "verify_document (cn_crypto E) d = Inr ()"
    using insert by (auto simp: cache_insert_def split: sum.splits)
  then have c': "c' = c\<lparr>ch_l1 := layer_insert (ch_l1 c) t k d, ch_l2 := layer_insert (ch_l2 c) t k d,
      ch_l3 := l3_insert E (ch_l3 c) (t div 1000) k d\<rparr>"
    using insert by (simp add: cache_insert_def)
  have l1: "layer_ok hist 90300000 (ch_l1 c)" "ly_ttl (ch_l1 c) = 300000"
    and l2: "layer_ok hist 90000000 (ch_l2 c)" "ly_ttl (ch_l2 c) = 3600000" and l3: "disk_ok E t hist (ch_l3 c)"
    and h: "\<forall>k d t0. hist k = Some (d, t0) \<longrightarrow> verify_document (cn_crypto E) d = Inr () \<and> t0 \<le> t"
    using insert.IH by (simp_all add: cache_inv_def)
  have "layer_ok (hist(k \<mapsto> (d, t))) 90300000 (ch_l1 c')"
    unfolding c' using layer_insert_new [OF l1(1)] by (simp add: l1(2))
  moreover have "layer_ok (hist(k \<mapsto> (d, t))) 90000000 (ch_l2 c')"
    unfolding c' using layer_insert_new [OF l2(1)] by (simp add: l2(2))
  moreover have "disk_ok E t (hist(k \<mapsto> (d, t))) (ch_l3 c')"
    unfolding c' using disk_ok_insert [OF assms(1) l3] by simp
  moreover have "ly_ttl (ch_l1 c') = 300000" "ly_ttl (ch_l2 c') = 3600000"
    by (simp_all add: c' l1(2) l2(2))
  moreover have "\<forall>k' d' t0. (hist(k \<mapsto> (d, t))) k' = Some (d', t0) \<longrightarrow> verify_document (cn_crypto E) d' = Inr () \<and> t0 \<le> t"
    using h v by (metis fun_upd_apply option.inject order_refl prod.inject)
  ultimately show ?case unfolding cache_inv_def by blast
next
  case (reject t c hist k d c' e)
  then have "c' = c" by (auto simp: cache_insert_def split: sum.splits)
  with reject show ?case by simp
next
  case (get t c hist k c' r)
  then show ?case using cache_get_ok [OF assms(1)] by blast
next
  case (remove t c hist k)
  have "layer_ok (hist(k := None)) 90300000 (layer_remove (ch_l1 c) k)"
    by (rule layer_remove_ok) (use remove.IH in \<open>simp add: cache_inv_def\<close>)
  moreover have "layer_ok (hist(k := None)) 90000000 (layer_remove (ch_l2 c) k)"
    by (rule layer_remove_ok) (use remove.IH in \<open>simp add: cache_inv_def\<close>)
  moreover have "disk_ok E t (hist(k := None)) (sl_remove (cn_sled E) (ch_l3 c) k)"
    by (rule disk_ok_remove [OF assms(1)]) (use remove.IH in \<open>simp add: cache_inv_def\<close>)
  moreover have "\<forall>j d t0. (hist(k := None)) j = Some (d, t0) \<longrightarrow> verify_document (cn_crypto E) d = Inr () \<and> t0 \<le> t"
    using remove.IH by (simp add: cache_inv_def)
  ultimately show ?case
    using remove.IH by (simp add: cache_inv_def cache_remove_def del: fun_upd_apply)
next
  case (evict t c hist)
  then show ?case
    by (simp add: cache_inv_def cache_evict_expired_def layer_evict_ok disk_ok_evict [OF assms(1)])
qed

text \<open>C35. In every reachable cache a lookup never fails; what it returns is the document inserted last under the
  key, up to the secret keys, and verifies; for a day after the insertion it is found; and nothing
  inserted more than 25 hours and 5 minutes ago is returned: the promotions of a lookup can stretch the
  day of the disk layer by the hour and the five minutes of the two others, but not further.\<close>

theorem cache_serves_last_insert:
  assumes "cache_env_ok E" and "cache_run E t c hist" and "cache_get E c t (t div 1000) k = (c', r)"
  shows "(\<exists>o'. r = Inr o' \<and>
    (\<forall>v. o' = Some v \<longrightarrow> verify_document (cn_crypto E) v = Inr () \<and>
       (\<exists>d t0. hist k = Some (d, t0) \<and> without_secrets v = without_secrets d \<and> t < t0 + 90300000)) \<and>
    (\<forall>d t0. hist k = Some (d, t0) \<and> t div 1000 < t0 div 1000 + 86400 \<longrightarrow> o' \<noteq> None))"
proof -
  note i = cache_run_inv [OF assms(1,2)]
  have v: "verify_document (cn_crypto E) v = Inr ()" if "hist k = Some (d, t0)" "without_secrets v = without_secrets d" for v d t0
    using i that verify_without_secrets [OF that(2)] by (simp add: cache_inv_def)
  consider (none) "r = Inr None" "\<forall>d t0. hist k = Some (d, t0) \<longrightarrow> t0 div 1000 + l3_ttl_secs \<le> t div 1000"
    | (some) w d t0 where "r = Inr (Some w)" "hist k = Some (d, t0)" "without_secrets w = without_secrets d" "t < t0 + 90300000"
    using cache_get_ok [OF assms(1) i assms(3)] by blast
  then show ?thesis
  proof cases
    case none
    then show ?thesis by (force simp: l3_ttl_secs_def)
  next
    case some
    then show ?thesis using v [OF some(2,3)] by auto
  qed
qed

text \<open>An environment to evaluate in: red-black trees, the toy signatures, and unary encodings.\<close>

instance did_identity_ext :: (countable, countable, countable) countable
  by (rule countable_classI [of "\<lambda>r. to_nat (di_id r, di_document r, di_signing_key r, di_x25519_secret r,
        di_document_signature r, did_identity.more r)"]) simp

instance disk_entry_ext :: (countable) countable
  by (rule countable_classI [of "\<lambda>r. to_nat (de_value r, de_expires_at r, disk_entry.more r)"]) simp

definition sample_cache_env :: "((string, bytes) rbt, 8 word, 8 word) cache_env" where
  "sample_cache_env = \<lparr>cn_sled = rbt_sled, cn_crypto = toy_crypto,
     cn_js_encode = (\<lambda>d. replicate (to_nat (without_secrets d)) CHR ''x''), cn_js_decode = (\<lambda>s. Some (from_nat (length s))),
     cn_disk_encode = (\<lambda>e. replicate (to_nat e) 0), cn_disk_decode = (\<lambda>bs. Some (from_nat (length bs)))\<rparr>"

lemma sample_cache_env_ok: "cache_env_ok sample_cache_env"
  by (simp add: cache_env_ok_def sample_cache_env_def rbt_sled_ok)

lemma insert_Inr: "verify_document (cn_crypto E) d = Inr () \<Longrightarrow> snd (cache_insert E c t n k d) = Inr ()"
  by (simp add: cache_insert_def)

theorem cache_serves_last_insert_witness:
  "\<exists>v. snd (cache_get sample_cache_env (fst (cache_insert sample_cache_env (cache_new sample_cache_env) 0 0 ''a'' (toy_did ''a'' 7)))
      86399999 86399 ''a'') = Inr (Some v) \<and> without_secrets v = without_secrets (toy_did ''a'' 7)"
proof -
  let ?E = sample_cache_env and ?d = "toy_did ''a'' 7"
  let ?i = "cache_insert ?E (cache_new ?E) 0 (0 div 1000) ''a'' ?d"
  have "?i = (fst ?i, Inr ())"
    using insert_Inr [of ?E ?d "cache_new ?E" 0 "0 div 1000" "''a''"] by (simp add: sample_cache_env_def prod_eq_iff)
  from cache_run.insert [OF cache_run.start this]
  have "cache_run ?E 0 (fst ?i) [''a'' \<mapsto> (?d, 0)]" .
  from cache_run.wait [OF this, of 86399999]
  have run: "cache_run ?E 86399999 (fst ?i) [''a'' \<mapsto> (?d, 0)]" by simp
  let ?g = "cache_get ?E (fst ?i) 86399999 (86399999 div 1000) ''a''"
  have g: "?g = (fst ?g, snd ?g)" by simp
  obtain o' where o': "snd ?g = Inr o'"
    "\<forall>v. o' = Some v \<longrightarrow> verify_document (cn_crypto ?E) v = Inr () \<and>
       (\<exists>d t0. [''a'' \<mapsto> (?d, 0 :: nat)] ''a'' = Some (d, t0) \<and> without_secrets v = without_secrets d \<and> 86399999 < t0 + 90300000)"
    "\<forall>d t0. [''a'' \<mapsto> (?d, 0 :: nat)] ''a'' = Some (d, t0) \<and> 86399999 div 1000 < t0 div 1000 + 86400 \<longrightarrow> o' \<noteq> None"
    using cache_serves_last_insert [OF sample_cache_env_ok run g] by (elim exE conjE) (rule that)
  then obtain v where v: "o' = Some v" by auto
  with o'(2) have "without_secrets v = without_secrets ?d" by simp
  with o'(1) v show ?thesis by simp
qed

end
