(* ===== verification/Media_Signaling.thy ===== *)
theory Media_Signaling
  imports Did
begin

section \<open>Signed call signaling (\<open>variance-media/src/signaling.rs\<close>)\<close>

text \<open>
  The messages of \<open>variance-proto/proto/media.proto\<close> and \<open>SignalingHandler\<close>: it signs
  outgoing messages, checks the signature of incoming ones and remembers the nonces of each
  call. The clock and the 16 random bytes of the nonce are arguments; Ed25519 is the
  parameter \<open>did_crypto\<close>. Signing and verifying build the same bytes, \<open>signing_data\<close>.
\<close>

datatype media_error =
    ECallNotFound string
  | EInvalidState string
  | ECallSignature string
  | ESignaling string
  | EMediaProtocol
  | EMedia string
  | EWebRtc string
  | EMediaIo

datatype signaling_body =
    Offer string int
  | Answer string
  | IceCandidate string string "nat option"
  | CallControl int "string option"

record signaling_message =
  sg_call_id :: string
  sg_sender_did :: did
  sg_recipient_did :: did
  sg_message :: "signaling_body option"
  sg_timestamp :: int
  sg_signature :: bytes
  sg_nonce :: bytes

definition control_accept :: int where
  "control_accept = 2"

definition control_reject :: int where
  "control_reject = 3"

definition control_hangup :: int where
  "control_hangup = 4"

record 'sk media_handler =
  mh_local_did :: did
  mh_signing_key :: 'sk
  mh_seen_nonces :: "string \<rightharpoonup> bytes list"

definition media_handler_new :: "did \<Rightarrow> 'sk \<Rightarrow> 'sk media_handler" where
  "media_handler_new d sk = \<lparr>mh_local_did = d, mh_signing_key = sk, mh_seen_nonces = Map.empty\<rparr>"

definition purge_call_nonces :: "'sk media_handler \<Rightarrow> string \<Rightarrow> 'sk media_handler" where
  "purge_call_nonces h call_id = h\<lparr>mh_seen_nonces := (mh_seen_nonces h)(call_id := None)\<rparr>"

subsection \<open>Signing\<close>

fun body_bytes :: "signaling_body option \<Rightarrow> bytes" where
  "body_bytes None = []"
| "body_bytes (Some (Offer sdp call_type)) = 1 # as_bytes sdp @ i32_to_le call_type"
| "body_bytes (Some (Answer sdp)) = 2 # as_bytes sdp"
| "body_bytes (Some (IceCandidate candidate sdp_mid _)) = 3 # as_bytes candidate @ as_bytes sdp_mid"
| "body_bytes (Some (CallControl type _)) = 4 # i32_to_le type"

definition signing_data :: "signaling_message \<Rightarrow> bytes" where
  "signing_data m =
     as_bytes (sg_call_id m) @ as_bytes (sg_sender_did m) @ as_bytes (sg_recipient_did m) @
     i64_to_le (sg_timestamp m) @ sg_nonce m @ body_bytes (sg_message m)"

definition sign_message :: "('sk, 'xs) did_crypto \<Rightarrow> 'sk media_handler \<Rightarrow> signaling_message \<Rightarrow> bytes" where
  "sign_message C h m = dc_sign C (mh_signing_key h) (signing_data m)"

definition create_signaling_message ::
  "('sk, 'xs) did_crypto \<Rightarrow> 'sk media_handler \<Rightarrow> millis \<Rightarrow> bytes \<Rightarrow> string \<Rightarrow> did \<Rightarrow> signaling_body \<Rightarrow> signaling_message" where
  "create_signaling_message C h now nonce call_id recipient_did message =
     (let msg = \<lparr>sg_call_id = call_id, sg_sender_did = mh_local_did h, sg_recipient_did = recipient_did,
                 sg_message = Some message, sg_timestamp = now, sg_signature = [], sg_nonce = nonce\<rparr>
      in msg\<lparr>sg_signature := sign_message C h msg\<rparr>)"

definition send_offer ::
  "('sk, 'xs) did_crypto \<Rightarrow> 'sk media_handler \<Rightarrow> millis \<Rightarrow> bytes \<Rightarrow> string \<Rightarrow> did \<Rightarrow> string \<Rightarrow> int \<Rightarrow> signaling_message" where
  "send_offer C h now nonce call_id recipient_did sdp call_type =
     create_signaling_message C h now nonce call_id recipient_did (Offer sdp call_type)"

definition send_answer ::
  "('sk, 'xs) did_crypto \<Rightarrow> 'sk media_handler \<Rightarrow> millis \<Rightarrow> bytes \<Rightarrow> string \<Rightarrow> did \<Rightarrow> string \<Rightarrow> signaling_message" where
  "send_answer C h now nonce call_id recipient_did sdp =
     create_signaling_message C h now nonce call_id recipient_did (Answer sdp)"

definition send_ice_candidate ::
  "('sk, 'xs) did_crypto \<Rightarrow> 'sk media_handler \<Rightarrow> millis \<Rightarrow> bytes \<Rightarrow> string \<Rightarrow> did \<Rightarrow> string \<Rightarrow> string \<Rightarrow> nat option
     \<Rightarrow> signaling_message" where
  "send_ice_candidate C h now nonce call_id recipient_did candidate sdp_mid sdp_m_line_index =
     create_signaling_message C h now nonce call_id recipient_did (IceCandidate candidate sdp_mid sdp_m_line_index)"

definition send_control ::
  "('sk, 'xs) did_crypto \<Rightarrow> 'sk media_handler \<Rightarrow> millis \<Rightarrow> bytes \<Rightarrow> string \<Rightarrow> did \<Rightarrow> int \<Rightarrow> string option
     \<Rightarrow> signaling_message" where
  "send_control C h now nonce call_id recipient_did control_type reason =
     create_signaling_message C h now nonce call_id recipient_did (CallControl control_type reason)"

subsection \<open>Verifying\<close>

definition seen :: "'sk media_handler \<Rightarrow> string \<Rightarrow> bytes list" where
  "seen h call_id = (case mh_seen_nonces h call_id of None \<Rightarrow> [] | Some ns \<Rightarrow> ns)"

definition verify_message ::
  "('sk, 'xs) did_crypto \<Rightarrow> 'sk media_handler \<Rightarrow> signaling_message \<Rightarrow> bytes \<Rightarrow> 'sk media_handler \<times> (media_error + unit)" where
  "verify_message C h m sender_public_key =
     (if length (sg_nonce m) \<noteq> 16 then (h, Inl (ESignaling ''invalid nonce length''))
      else if length (sg_signature m) \<noteq> 64 then (h, Inl (ECallSignature (sg_call_id m)))
      else if \<not> dc_verify C sender_public_key (signing_data m) (sg_signature m)
      then (h, Inl (ECallSignature (sg_call_id m)))
      else let set = seen h (sg_call_id m)
           in if sg_nonce m \<in> List.set set
              then (h\<lparr>mh_seen_nonces := (mh_seen_nonces h)(sg_call_id m \<mapsto> set)\<rparr>, Inl (ESignaling ''replayed nonce''))
              else (h\<lparr>mh_seen_nonces := (mh_seen_nonces h)(sg_call_id m \<mapsto> sg_nonce m # set)\<rparr>, Inr ()))"

lemma verify_message_seen:
  "seen (fst (verify_message C h m key)) c =
     (if snd (verify_message C h m key) = Inr () \<and> c = sg_call_id m then sg_nonce m # seen h c else seen h c)"
  by (auto simp: verify_message_def seen_def Let_def)

lemma verify_message_Inr:
  "snd (verify_message C h m key) = Inr () \<longleftrightarrow>
     length (sg_nonce m) = 16 \<and> length (sg_signature m) = 64 \<and> dc_verify C key (signing_data m) (sg_signature m) \<and>
     sg_nonce m \<notin> set (seen h (sg_call_id m))"
  by (auto simp: verify_message_def Let_def)

lemma seen_purge: "seen (purge_call_nonces h c) d = (if d = c then [] else seen h d)"
  by (simp add: seen_def purge_call_nonces_def)

lemma verify_keeps_identity [simp]:
  "mh_local_did (fst (verify_message C h m key)) = mh_local_did h"
  "mh_signing_key (fst (verify_message C h m key)) = mh_signing_key h"
  by (simp_all add: verify_message_def Let_def)

subsection \<open>Replays\<close>

text \<open>A history of the handler: what it was asked to do, and which messages it accepted.\<close>

datatype signaling_event = Verify signaling_message bytes | Purge string

fun signaling_step :: "('sk, 'xs) did_crypto \<Rightarrow> 'sk media_handler \<Rightarrow> signaling_event \<Rightarrow> 'sk media_handler" where
  "signaling_step C h (Verify m key) = fst (verify_message C h m key)"
| "signaling_step C h (Purge c) = purge_call_nonces h c"

definition signaling_after :: "('sk, 'xs) did_crypto \<Rightarrow> 'sk media_handler \<Rightarrow> signaling_event list \<Rightarrow> 'sk media_handler" where
  "signaling_after C h es = foldl (signaling_step C) h es"

definition accepted_at :: "('sk, 'xs) did_crypto \<Rightarrow> 'sk media_handler \<Rightarrow> signaling_event list \<Rightarrow> nat \<Rightarrow> signaling_message \<Rightarrow> bool" where
  "accepted_at C h es i m \<longleftrightarrow> i < length es \<and>
     (\<exists>key. es ! i = Verify m key \<and> snd (verify_message C (signaling_after C h (take i es)) m key) = Inr ())"

lemma seen_kept:
  assumes "n \<in> set (seen h c)" and "Purge c \<notin> set es"
  shows "n \<in> set (seen (signaling_after C h es) c)"
  using assms
proof (induction es rule: rev_induct)
  case (snoc e es)
  then have "n \<in> set (seen (signaling_after C h es) c)" by simp
  moreover have "e \<noteq> Purge c" using snoc.prems by auto
  ultimately show ?case
    by (cases e) (auto simp: signaling_after_def verify_message_seen seen_purge)
qed (simp add: signaling_after_def)

lemma after_append: "signaling_after C h (xs @ ys) = signaling_after C (signaling_after C h xs) ys"
  by (simp add: signaling_after_def)

text \<open>C36. No signaling message is accepted twice: whenever two messages with the same call and the same nonce
  are both accepted, the nonces of that call were purged in between.\<close>

theorem signaling_no_replay:
  assumes "accepted_at C h es i m" and "accepted_at C h es j m'" and "i < j"
    and "sg_call_id m = sg_call_id m'" and "sg_nonce m = sg_nonce m'"
  shows "\<exists>k. i < k \<and> k < j \<and> es ! k = Purge (sg_call_id m)"
proof (rule ccontr)
  assume none: "\<nexists>k. i < k \<and> k < j \<and> es ! k = Purge (sg_call_id m)"
  obtain key where i: "i < length es" "es ! i = Verify m key"
    "snd (verify_message C (signaling_after C h (take i es)) m key) = Inr ()"
    using assms(1) by (auto simp: accepted_at_def)
  obtain key' where j: "j < length es" "snd (verify_message C (signaling_after C h (take j es)) m' key') = Inr ()"
    using assms(2) by (auto simp: accepted_at_def)
  define mid where "mid = take (j - Suc i) (drop (Suc i) es)"
  have tj: "take j es = take (Suc i) es @ mid"
    using assms(3) take_add [of "Suc i" "j - Suc i" es] by (simp add: mid_def)
  have "sg_nonce m \<in> set (seen (signaling_after C h (take (Suc i) es)) (sg_call_id m))"
    using i by (simp add: take_Suc_conv_app_nth signaling_after_def verify_message_seen)
  moreover have "Purge (sg_call_id m) \<notin> set mid"
  proof
    assume "Purge (sg_call_id m) \<in> set mid"
    then obtain l where l: "l < length mid" "mid ! l = Purge (sg_call_id m)" by (auto simp: in_set_conv_nth)
    then have "es ! (Suc i + l) = Purge (sg_call_id m)" "Suc i + l < j" using j(1) by (auto simp: mid_def)
    then show False using none by auto
  qed
  ultimately have "sg_nonce m \<in> set (seen (signaling_after C h (take j es)) (sg_call_id m))"
    unfolding tj after_append by (rule seen_kept)
  then show False using j(2) assms(4,5) by (simp add: verify_message_Inr)
qed

text \<open>A message to evaluate on, under the toy signatures.\<close>

definition sample_signal :: "string \<Rightarrow> signaling_body \<Rightarrow> signaling_message" where
  "sample_signal c b = create_signaling_message toy_crypto (media_handler_new ''did:variance:aa'' 7) 5 (replicate 16 1) c
     ''did:variance:bb'' b"

lemma sample_signal_verifies: "dc_verify toy_crypto (replicate 32 7) (signing_data (sample_signal c b)) (sg_signature (sample_signal c b))"
  by (simp add: sample_signal_def create_signaling_message_def sign_message_def media_handler_new_def toy_crypto_def Let_def)

lemma sample_signal_fields [simp]:
  "sg_call_id (sample_signal c b) = c" "sg_nonce (sample_signal c b) = replicate 16 1"
  "sg_message (sample_signal c b) = Some b" "sg_sender_did (sample_signal c b) = ''did:variance:aa''"
  "length (sg_signature (sample_signal c b)) = 64"
  by (simp_all add: sample_signal_def create_signaling_message_def Let_def sign_message_def toy_crypto_def media_handler_new_def)

theorem signaling_no_replay_witness:
  "\<exists>k. 0 < k \<and> k < 2 \<and>
    [Verify (sample_signal ''c'' (Answer ''s'')) (replicate 32 7), Purge ''c'',
     Verify (sample_signal ''c'' (Answer ''s'')) (replicate 32 7)] ! k = Purge ''c''"
proof -
  let ?m = "sample_signal ''c'' (Answer ''s'')" and ?key = "replicate 32 (7 :: 8 word)"
  let ?h = "media_handler_new ''did:variance:bb'' (9 :: 8 word)"
  let ?es = "[Verify ?m ?key, Purge ''c'', Verify ?m ?key]"
  have v: "snd (verify_message toy_crypto h ?m ?key) = Inr () \<longleftrightarrow> sg_nonce ?m \<notin> set (seen h ''c'')" for h
    by (simp add: verify_message_Inr sample_signal_verifies)
  have 1: "accepted_at toy_crypto ?h ?es 0 ?m"
    by (simp add: accepted_at_def v signaling_after_def seen_def media_handler_new_def)
  have 2: "accepted_at toy_crypto ?h ?es 2 ?m"
    by (simp add: accepted_at_def v signaling_after_def seen_purge)
  from signaling_no_replay [OF 1 2] show ?thesis by simp
qed

subsection \<open>What the signature covers\<close>

text \<open>Two bodies that a signature cannot tell apart.\<close>

fun same_signed :: "signaling_body option \<Rightarrow> signaling_body option \<Rightarrow> bool" where
  "same_signed None None = True"
| "same_signed (Some (Offer s t)) (Some (Offer s' t')) = (s = s' \<and> t = t')"
| "same_signed (Some (Answer s)) (Some (Answer s')) = (s = s')"
| "same_signed (Some (IceCandidate c m _)) (Some (IceCandidate c' m' _)) = (c @ m = c' @ m')"
| "same_signed (Some (CallControl t _)) (Some (CallControl t' _)) = (t = t')"
| "same_signed _ _ = False"

fun body_ok :: "signaling_body option \<Rightarrow> bool" where
  "body_ok (Some (Offer _ t)) = in_i32 t"
| "body_ok (Some (CallControl t _)) = in_i32 t"
| "body_ok _ = True"

lemma body_bytes_Some: "body_bytes (Some b) \<noteq> []"
  by (cases b) simp_all

lemma body_bytes_eq: "body_ok b \<Longrightarrow> body_ok b' \<Longrightarrow> body_bytes b = body_bytes b' \<longleftrightarrow> same_signed b b'"
  by (cases "(b, b')" rule: same_signed.cases)
    (auto dest: i32_to_le_inj simp: body_bytes_Some body_bytes_Some [symmetric] simp flip: as_bytes_append)

text \<open>Between messages of one call, sender and recipient, the signed bytes agree exactly when time,
  nonce and body agree up to what is left out: the media line of an ICE candidate, the border between
  candidate and media id, and the reason of a control message can be changed under a valid signature,
  and nothing else can.\<close>

theorem signature_coverage:
  assumes "sg_call_id m = sg_call_id m'" and "sg_sender_did m = sg_sender_did m'"
    and "sg_recipient_did m = sg_recipient_did m'" and "length (sg_nonce m) = 16" and "length (sg_nonce m') = 16"
    and "in_i64 (sg_timestamp m)" and "in_i64 (sg_timestamp m')"
    and "body_ok (sg_message m)" and "body_ok (sg_message m')"
  shows "signing_data m = signing_data m' \<longleftrightarrow>
    sg_timestamp m = sg_timestamp m' \<and> sg_nonce m = sg_nonce m' \<and> same_signed (sg_message m) (sg_message m')"
  using assms by (simp add: signing_data_def i64_to_le_inj body_bytes_eq)

theorem signature_coverage_witness:
  "signing_data (sample_signal ''c'' (IceCandidate ''ab'' ''c'' (Some 0))) = signing_data (sample_signal ''c'' (IceCandidate ''a'' ''bc'' None)) \<and>
   signing_data (sample_signal ''c'' (Answer ''s'')) \<noteq> signing_data (sample_signal ''c'' (Answer ''t''))"
  using signature_coverage [of "sample_signal ''c'' (IceCandidate ''ab'' ''c'' (Some 0))" "sample_signal ''c'' (IceCandidate ''a'' ''bc'' None)"]
    signature_coverage [of "sample_signal ''c'' (Answer ''s'')" "sample_signal ''c'' (Answer ''t'')"]
  by (simp add: sample_signal_def create_signaling_message_def Let_def in_i64_def i64_min_def i64_max_def)

end
