(* ===== verification/Calls.thy ===== *)
theory Calls
  imports Media_Signaling
begin

section \<open>Calls (\<open>variance-media/src/call.rs\<close>)\<close>

text \<open>
  \<open>CallManager\<close>: the map of calls and the life of a call. WebRTC is a third-party crate: a
  peer connection is of a type of its own, and \<open>webrtc\<close> holds the calls on it, each with
  the text of its error; a call that fails leaves the connection as it was. Operations run
  one at a time; the callback of a connection (\<open>on_peer_connection_state_change\<close>) is an
  operation that may come between any two others. A clone of a call has no connection.
\<close>

datatype call_status = Unspecified | Ringing | Connecting | Active | Ended | Failed

datatype session_description = OfferSdp string | AnswerSdp string

record 'pc webrtc =
  wr_new_peer_connection :: "string list \<Rightarrow> string + 'pc"
  wr_create_data_channel :: "'pc \<Rightarrow> string + 'pc"
  wr_create_offer :: "'pc \<Rightarrow> string + string"
  wr_create_answer :: "'pc \<Rightarrow> string + string"
  wr_parse_sdp :: "string \<Rightarrow> string + unit"
  wr_set_local_description :: "'pc \<Rightarrow> session_description \<Rightarrow> string + 'pc"
  wr_set_remote_description :: "'pc \<Rightarrow> session_description \<Rightarrow> string + 'pc"
  wr_add_ice_candidate :: "'pc \<Rightarrow> string \<Rightarrow> string option \<Rightarrow> nat option \<Rightarrow> string + 'pc"
  wr_close :: "'pc \<Rightarrow> string + unit"

record 'pc call =
  cl_id :: string
  cl_participants :: "did list"
  cl_call_type :: int
  cl_status :: call_status
  cl_started_at :: millis
  cl_ended_at :: "millis option"
  cl_peer_connection :: "'pc option"

datatype call_event =
    StateChanged string call_status
  | IceCandidateGathered string string "string option" "nat option"

record 'pc call_manager =
  cm_local_did :: did
  cm_calls :: "string \<rightharpoonup> 'pc call"
  cm_ice_servers :: "string list"

definition call_manager_new :: "did \<Rightarrow> string list \<Rightarrow> 'pc call_manager" where
  "call_manager_new d servers = \<lparr>cm_local_did = d, cm_calls = Map.empty, cm_ice_servers = servers\<rparr>"

definition call_clone :: "'pc call \<Rightarrow> 'pc call" where
  "call_clone c = c\<lparr>cl_peer_connection := None\<rparr>"

definition put_call :: "'pc call_manager \<Rightarrow> string \<Rightarrow> 'pc call \<Rightarrow> 'pc call_manager" where
  "put_call M k c = M\<lparr>cm_calls := (cm_calls M)(k \<mapsto> c)\<rparr>"

definition drop_call :: "'pc call_manager \<Rightarrow> string \<Rightarrow> 'pc call_manager" where
  "drop_call M k = M\<lparr>cm_calls := (cm_calls M)(k := None)\<rparr>"

subsection \<open>The life of a call\<close>

definition create_call :: "'pc call_manager \<Rightarrow> string \<Rightarrow> millis \<Rightarrow> did \<Rightarrow> int \<Rightarrow> 'pc call_manager \<times> 'pc call" where
  "create_call M ulid now recipient_did call_type =
     (let call = \<lparr>cl_id = ulid, cl_participants = [cm_local_did M, recipient_did], cl_call_type = call_type,
                  cl_status = Ringing, cl_started_at = now, cl_ended_at = None, cl_peer_connection = None\<rparr>
      in (put_call M ulid (call_clone call), call))"

definition status_name :: "call_status \<Rightarrow> string" where
  "status_name s =
     (case s of Unspecified \<Rightarrow> ''Unspecified'' | Ringing \<Rightarrow> ''Ringing'' | Connecting \<Rightarrow> ''Connecting''
      | Active \<Rightarrow> ''Active'' | Ended \<Rightarrow> ''Ended'' | Failed \<Rightarrow> ''Failed'')"

definition accept_call :: "'pc call_manager \<Rightarrow> string \<Rightarrow> 'pc call_manager \<times> (media_error + 'pc call)" where
  "accept_call M call_id =
     (case cm_calls M call_id of
        None \<Rightarrow> (M, Inl (ECallNotFound call_id))
      | Some c \<Rightarrow>
          if cl_status c \<noteq> Ringing
          then (M, Inl (EInvalidState (''Cannot accept call in state '' @ status_name (cl_status c))))
          else let c' = c\<lparr>cl_status := Connecting\<rparr> in (put_call M call_id c', Inr (call_clone c')))"

definition reject_call :: "'pc call_manager \<Rightarrow> millis \<Rightarrow> string \<Rightarrow> 'pc call_manager \<times> (media_error + 'pc call)" where
  "reject_call M now call_id =
     (case cm_calls M call_id of
        None \<Rightarrow> (M, Inl (ECallNotFound call_id))
      | Some c \<Rightarrow>
          if cl_status c \<noteq> Ringing
          then (M, Inl (EInvalidState (''Cannot reject call in state '' @ status_name (cl_status c))))
          else (drop_call M call_id, Inr (call_clone (c\<lparr>cl_status := Ended, cl_ended_at := Some now\<rparr>))))"

definition activate_call :: "'pc call_manager \<Rightarrow> string \<Rightarrow> 'pc call_manager \<times> (media_error + 'pc call)" where
  "activate_call M call_id =
     (case cm_calls M call_id of
        None \<Rightarrow> (M, Inl (ECallNotFound call_id))
      | Some c \<Rightarrow>
          if cl_status c \<noteq> Connecting
          then (M, Inl (EInvalidState (''Cannot activate call in state '' @ status_name (cl_status c))))
          else let c' = c\<lparr>cl_status := Active\<rparr> in (put_call M call_id c', Inr (call_clone c')))"

definition end_call ::
  "'pc webrtc \<Rightarrow> 'pc call_manager \<Rightarrow> millis \<Rightarrow> string \<Rightarrow> 'pc call_manager \<times> (media_error + 'pc call)" where
  "end_call W M now call_id =
     (case cm_calls M call_id of
        None \<Rightarrow> (M, Inl (ECallNotFound call_id))
      | Some c \<Rightarrow>
          (let c' = c\<lparr>cl_status := Ended, cl_ended_at := Some now\<rparr>
           in case (case cl_peer_connection c of None \<Rightarrow> Inr () | Some pc \<Rightarrow> wr_close W pc) of
                Inl e \<Rightarrow> (put_call M call_id c', Inl (EWebRtc (''Failed to close peer connection: '' @ e)))
              | Inr _ \<Rightarrow> (drop_call M call_id, Inr (call_clone c'))))"

definition fail_call :: "'pc call_manager \<Rightarrow> millis \<Rightarrow> string \<Rightarrow> 'pc call_manager \<times> (media_error + 'pc call)" where
  "fail_call M now call_id =
     (case cm_calls M call_id of
        None \<Rightarrow> (M, Inl (ECallNotFound call_id))
      | Some c \<Rightarrow> (drop_call M call_id, Inr (call_clone (c\<lparr>cl_status := Failed, cl_ended_at := Some now\<rparr>))))"

definition register_incoming_call ::
  "'pc call_manager \<Rightarrow> millis \<Rightarrow> string \<Rightarrow> did \<Rightarrow> int \<Rightarrow> 'pc call_manager \<times> (media_error + 'pc call)" where
  "register_incoming_call M now call_id caller_did call_type =
     (if cm_calls M call_id \<noteq> None
      then (M, Inl (EInvalidState (''Call '' @ call_id @ '' already exists'')))
      else let call = \<lparr>cl_id = call_id, cl_participants = [caller_did, cm_local_did M], cl_call_type = call_type,
                       cl_status = Ringing, cl_started_at = now, cl_ended_at = None, cl_peer_connection = None\<rparr>
           in (put_call M call_id (call_clone call), Inr call))"

subsection \<open>Negotiation\<close>

definition web_err :: "string \<Rightarrow> string + 'a \<Rightarrow> media_error + 'a" where
  "web_err what r = map_err (\<lambda>e. EWebRtc (what @ '': '' @ e)) r"

definition create_peer_connection :: "'pc webrtc \<Rightarrow> 'pc call_manager \<Rightarrow> media_error + 'pc" where
  "create_peer_connection W M =
     web_err ''Failed to create peer connection'' (wr_new_peer_connection W (cm_ice_servers M))"

definition create_offer :: "'pc webrtc \<Rightarrow> 'pc call_manager \<Rightarrow> string \<Rightarrow> 'pc call_manager \<times> (media_error + string)" where
  "create_offer W M call_id =
     (case cm_calls M call_id of
        None \<Rightarrow> (M, Inl (ECallNotFound call_id))
      | Some c \<Rightarrow>
          (case and_then (create_peer_connection W M) (\<lambda>pc.
                and_then (web_err ''Failed to create data channel'' (wr_create_data_channel W pc)) (\<lambda>pc.
                and_then (web_err ''Failed to create offer'' (wr_create_offer W pc)) (\<lambda>sdp.
                and_then (web_err ''Failed to set local description'' (wr_set_local_description W pc (OfferSdp sdp))) (\<lambda>pc.
                Inr (pc, sdp))))) of
             Inl e \<Rightarrow> (M, Inl e)
           | Inr (pc, sdp) \<Rightarrow> (put_call M call_id (c\<lparr>cl_peer_connection := Some pc\<rparr>), Inr sdp)))"

definition call_handle_offer ::
  "'pc webrtc \<Rightarrow> 'pc call_manager \<Rightarrow> string \<Rightarrow> string \<Rightarrow> 'pc call_manager \<times> (media_error + string)" where
  "call_handle_offer W M call_id offer_sdp =
     (case cm_calls M call_id of
        None \<Rightarrow> (M, Inl (ECallNotFound call_id))
      | Some c \<Rightarrow>
          (case and_then (create_peer_connection W M) (\<lambda>pc.
                and_then (web_err ''Invalid SDP offer'' (wr_parse_sdp W offer_sdp)) (\<lambda>_.
                and_then (web_err ''Failed to set remote description'' (wr_set_remote_description W pc (OfferSdp offer_sdp))) (\<lambda>pc.
                and_then (web_err ''Failed to create answer'' (wr_create_answer W pc)) (\<lambda>sdp.
                and_then (web_err ''Failed to set local description'' (wr_set_local_description W pc (AnswerSdp sdp))) (\<lambda>pc.
                Inr (pc, sdp)))))) of
             Inl e \<Rightarrow> (M, Inl e)
           | Inr (pc, sdp) \<Rightarrow> (put_call M call_id (c\<lparr>cl_peer_connection := Some pc\<rparr>), Inr sdp)))"

definition call_handle_answer ::
  "'pc webrtc \<Rightarrow> 'pc call_manager \<Rightarrow> string \<Rightarrow> string \<Rightarrow> 'pc call_manager \<times> (media_error + unit)" where
  "call_handle_answer W M call_id answer_sdp =
     (case cm_calls M call_id of
        None \<Rightarrow> (M, Inl (ECallNotFound call_id))
      | Some c \<Rightarrow>
          (case cl_peer_connection c of
             None \<Rightarrow> (M, Inl (EInvalidState ''No peer connection found for call''))
           | Some pc \<Rightarrow>
               (case and_then (web_err ''Invalid SDP answer'' (wr_parse_sdp W answer_sdp)) (\<lambda>_.
                     web_err ''Failed to set remote description'' (wr_set_remote_description W pc (AnswerSdp answer_sdp))) of
                  Inl e \<Rightarrow> (M, Inl e)
                | Inr pc \<Rightarrow> (put_call M call_id (c\<lparr>cl_peer_connection := Some pc\<rparr>), Inr ()))))"

definition call_handle_ice_candidate ::
  "'pc webrtc \<Rightarrow> 'pc call_manager \<Rightarrow> string \<Rightarrow> string \<Rightarrow> string option \<Rightarrow> nat option
     \<Rightarrow> 'pc call_manager \<times> (media_error + unit)" where
  "call_handle_ice_candidate W M call_id candidate sdp_mid sdp_mline_index =
     (case cm_calls M call_id of
        None \<Rightarrow> (M, Inl (ECallNotFound call_id))
      | Some c \<Rightarrow>
          (case cl_peer_connection c of
             None \<Rightarrow> (M, Inl (EInvalidState ''No peer connection found for call''))
           | Some pc \<Rightarrow>
               (case web_err ''Failed to add ICE candidate'' (wr_add_ice_candidate W pc candidate sdp_mid sdp_mline_index) of
                  Inl e \<Rightarrow> (M, Inl e)
                | Inr pc \<Rightarrow> (put_call M call_id (c\<lparr>cl_peer_connection := Some pc\<rparr>), Inr ()))))"

text \<open>The state-change callback that \<open>create_peer_connection\<close> installs, and the one for candidates.\<close>

datatype pc_state = PcNew | PcConnecting | PcConnected | PcDisconnected | PcFailed | PcClosed | PcUnspecified

definition status_of_pc :: "pc_state \<Rightarrow> call_status option" where
  "status_of_pc s =
     (case s of PcConnected \<Rightarrow> Some Active | PcFailed \<Rightarrow> Some Failed | PcDisconnected \<Rightarrow> Some Failed
      | PcClosed \<Rightarrow> Some Ended | _ \<Rightarrow> None)"

definition on_state_change ::
  "'pc call_manager \<Rightarrow> millis \<Rightarrow> string \<Rightarrow> pc_state \<Rightarrow> 'pc call_manager \<times> call_event option" where
  "on_state_change M now call_id state =
     (case status_of_pc state of
        None \<Rightarrow> (M, None)
      | Some status \<Rightarrow>
          ((case cm_calls M call_id of
              None \<Rightarrow> M
            | Some c \<Rightarrow>
                put_call M call_id
                  (c\<lparr>cl_status := status, cl_ended_at := (if status \<in> {Failed, Ended} then Some now else cl_ended_at c)\<rparr>)),
           Some (StateChanged call_id status)))"

definition on_ice_candidate :: "string \<Rightarrow> (string \<times> string option \<times> nat option) option \<Rightarrow> call_event option" where
  "on_ice_candidate call_id candidate =
     (case candidate of None \<Rightarrow> None | Some (c, mid, idx) \<Rightarrow> Some (IceCandidateGathered call_id c mid idx))"

subsection \<open>Reading\<close>

definition get_call :: "'pc call_manager \<Rightarrow> string \<Rightarrow> 'pc call option" where
  "get_call M call_id = map_option call_clone (cm_calls M call_id)"

definition get_remote_peer :: "'pc call_manager \<Rightarrow> string \<Rightarrow> did option" where
  "get_remote_peer M call_id =
     (case cm_calls M call_id of
        None \<Rightarrow> None | Some c \<Rightarrow> find (\<lambda>p. p \<noteq> cm_local_did M) (cl_participants c))"

record call_state =
  cst_call_id :: string
  cst_participants :: "did list"
  cst_call_type :: int
  cst_status :: int
  cst_started_at :: int
  cst_ended_at :: "int option"

definition status_number :: "call_status \<Rightarrow> int" where
  "status_number s = (case s of Unspecified \<Rightarrow> 0 | Ringing \<Rightarrow> 1 | Connecting \<Rightarrow> 2 | Active \<Rightarrow> 3 | Ended \<Rightarrow> 4 | Failed \<Rightarrow> 5)"

definition call_to_proto :: "'pc call \<Rightarrow> call_state" where
  "call_to_proto c =
     \<lparr>cst_call_id = cl_id c, cst_participants = cl_participants c, cst_call_type = cl_call_type c,
      cst_status = status_number (cl_status c), cst_started_at = cl_started_at c, cst_ended_at = cl_ended_at c\<rparr>"

subsection \<open>Runs of the manager\<close>

datatype call_op =
    CreateCall string millis did int
  | RegisterIncoming millis string did int
  | AcceptCall string
  | RejectCall millis string
  | ActivateCall string
  | EndCall millis string
  | FailCall millis string
  | CreateOffer string
  | HandleOffer string string
  | HandleAnswer string string
  | HandleIce string string "string option" "nat option"
  | PcState millis string pc_state

fun call_exec :: "'pc webrtc \<Rightarrow> 'pc call_manager \<Rightarrow> call_op \<Rightarrow> 'pc call_manager" where
  "call_exec W M (CreateCall ulid now d t) = fst (create_call M ulid now d t)"
| "call_exec W M (RegisterIncoming now k d t) = fst (register_incoming_call M now k d t)"
| "call_exec W M (AcceptCall k) = fst (accept_call M k)"
| "call_exec W M (RejectCall now k) = fst (reject_call M now k)"
| "call_exec W M (ActivateCall k) = fst (activate_call M k)"
| "call_exec W M (EndCall now k) = fst (end_call W M now k)"
| "call_exec W M (FailCall now k) = fst (fail_call M now k)"
| "call_exec W M (CreateOffer k) = fst (create_offer W M k)"
| "call_exec W M (HandleOffer k sdp) = fst (call_handle_offer W M k sdp)"
| "call_exec W M (HandleAnswer k sdp) = fst (call_handle_answer W M k sdp)"
| "call_exec W M (HandleIce k c mid idx) = fst (call_handle_ice_candidate W M k c mid idx)"
| "call_exec W M (PcState now k s) = fst (on_state_change M now k s)"

fun op_key :: "call_op \<Rightarrow> string" where
  "op_key (CreateCall k _ _ _) = k" | "op_key (RegisterIncoming _ k _ _) = k" | "op_key (AcceptCall k) = k"
| "op_key (RejectCall _ k) = k" | "op_key (ActivateCall k) = k" | "op_key (EndCall _ k) = k" | "op_key (FailCall _ k) = k"
| "op_key (CreateOffer k) = k" | "op_key (HandleOffer k _) = k" | "op_key (HandleAnswer k _) = k"
| "op_key (HandleIce k _ _ _) = k" | "op_key (PcState _ k _) = k"

text \<open>A fresh ULID is not the id of a call.\<close>

fun op_fresh :: "'pc call_manager \<Rightarrow> call_op \<Rightarrow> bool" where
  "op_fresh M (CreateCall ulid _ _ _) = (cm_calls M ulid = None)"
| "op_fresh M _ = True"

inductive call_reach :: "'pc webrtc \<Rightarrow> did \<Rightarrow> 'pc call_manager \<Rightarrow> bool" for W :: "'pc webrtc" and me :: did where
  start: "call_reach W me (call_manager_new me servers)"
| step: "call_reach W me M \<Longrightarrow> op_fresh M a \<Longrightarrow> call_reach W me (call_exec W M a)"

lemmas call_op_defs = create_call_def register_incoming_call_def accept_call_def reject_call_def activate_call_def
  end_call_def fail_call_def create_offer_def call_handle_offer_def call_handle_answer_def
  call_handle_ice_candidate_def on_state_change_def Let_def

text \<open>What an operation may do to the calls: leave them, drop one, add one, or update one in place.\<close>

definition same_call :: "'pc call \<Rightarrow> 'pc call \<Rightarrow> bool" where
  "same_call c c' \<longleftrightarrow> cl_id c' = cl_id c \<and> cl_participants c' = cl_participants c \<and>
     cl_call_type c' = cl_call_type c \<and> cl_started_at c' = cl_started_at c"

fun rank :: "call_status \<Rightarrow> nat" where
  "rank Unspecified = 0" | "rank Ringing = 1" | "rank Connecting = 2" | "rank Active = 3" | "rank Ended = 4" | "rank Failed = 4"

definition update_ok :: "call_op \<Rightarrow> 'pc call \<Rightarrow> 'pc call \<Rightarrow> bool" where
  "update_ok a c c' \<longleftrightarrow> same_call c c' \<and>
     (case a of PcState now _ s \<Rightarrow> status_of_pc s = Some (cl_status c') \<and>
           cl_ended_at c' = (if cl_status c' \<in> {Failed, Ended} then Some now else cl_ended_at c)
      | EndCall now _ \<Rightarrow> cl_status c' = Ended \<and> cl_ended_at c' = Some now
      | AcceptCall _ \<Rightarrow> cl_status c = Ringing \<and> cl_status c' = Connecting \<and> cl_ended_at c' = cl_ended_at c
      | ActivateCall _ \<Rightarrow> cl_status c = Connecting \<and> cl_status c' = Active \<and> cl_ended_at c' = cl_ended_at c
      | _ \<Rightarrow> cl_status c' = cl_status c \<and> cl_ended_at c' = cl_ended_at c)"

inductive call_effect :: "did \<Rightarrow> call_op \<Rightarrow> (string \<rightharpoonup> 'pc call) \<Rightarrow> (string \<rightharpoonup> 'pc call) \<Rightarrow> bool" for me a where
  none: "call_effect me a m m"
| drop: "m k = Some c \<Longrightarrow> a \<in> {RejectCall now k, EndCall now k, FailCall now k} \<Longrightarrow> call_effect me a m (m(k := None))"
| add: "m k = None \<Longrightarrow> cl_id c = k \<Longrightarrow> \<exists>p. cl_participants c \<in> {[me, p], [p, me]} \<Longrightarrow> cl_status c = Ringing \<Longrightarrow>
    \<exists>now d t. a \<in> {CreateCall k now d t, RegisterIncoming now k d t} \<Longrightarrow> call_effect me a m (m(k \<mapsto> c))"
| update: "m k = Some c \<Longrightarrow> op_key a = k \<Longrightarrow> update_ok a c c' \<Longrightarrow> call_effect me a m (m(k \<mapsto> c'))"

inductive_cases call_effectE: "call_effect me a m m'"

lemma put_call_fields [simp]:
  "cm_local_did (put_call M k c) = cm_local_did M" "cm_local_did (drop_call M k) = cm_local_did M"
  by (simp_all add: put_call_def drop_call_def)

lemma call_exec_local_did [simp]: "cm_local_did (call_exec W M a) = cm_local_did M"
proof (cases a)
  case (CreateOffer k)
  then show ?thesis by (simp add: create_offer_def split: option.split sum.split prod.split)
next
  case (HandleOffer k sdp)
  then show ?thesis by (simp add: call_handle_offer_def split: option.split sum.split prod.split)
next
  case (HandleAnswer k sdp)
  then show ?thesis by (simp add: call_handle_answer_def split: option.split sum.split)
next
  case (HandleIce k c mid idx)
  then show ?thesis by (simp add: call_handle_ice_candidate_def split: option.split sum.split)
next
  case (EndCall now k)
  then show ?thesis by (simp add: end_call_def Let_def split: option.split sum.split)
qed (simp_all add: call_op_defs split: option.split)

lemma put_call_effect: "cm_calls M k = Some c \<Longrightarrow> op_key a = k \<Longrightarrow> update_ok a c c' \<Longrightarrow> call_effect me a (cm_calls M) (cm_calls (put_call M k c'))"
  unfolding put_call_def by (simp add: call_effect.update)

lemma drop_call_effect: "cm_calls M k = Some c \<Longrightarrow> a \<in> {RejectCall now k, EndCall now k, FailCall now k} \<Longrightarrow>
    call_effect me a (cm_calls M) (cm_calls (drop_call M k))"
proof -
  assume "cm_calls M k = Some c" and "a \<in> {RejectCall now k, EndCall now k, FailCall now k}"
  then have "call_effect me a (cm_calls M) ((cm_calls M)(k := None))" by (rule call_effect.drop)
  then show ?thesis by (simp add: drop_call_def)
qed

lemma add_call_effect: "cm_calls M k = None \<Longrightarrow> cl_id c = k \<Longrightarrow> \<exists>p. cl_participants c \<in> {[me, p], [p, me]} \<Longrightarrow>
    cl_status c = Ringing \<Longrightarrow> \<exists>now d t. a \<in> {CreateCall k now d t, RegisterIncoming now k d t} \<Longrightarrow>
    call_effect me a (cm_calls M) (cm_calls (put_call M k c))"
  unfolding put_call_def by (simp add: call_effect.add)

lemma call_exec_effect:
  assumes "op_fresh M a"
  shows "call_effect (cm_local_did M) a (cm_calls M) (cm_calls (call_exec W M a))"
proof (cases a)
  case (CreateCall k now d t)
  then show ?thesis using assms by (auto simp: create_call_def Let_def call_clone_def intro!: add_call_effect)
next
  case (RegisterIncoming now k d t)
  then show ?thesis by (auto simp: register_incoming_call_def Let_def call_clone_def intro!: add_call_effect call_effect.none)
next
  case (AcceptCall k)
  then show ?thesis
    by (auto simp: accept_call_def Let_def update_ok_def same_call_def split: option.splits intro!: put_call_effect call_effect.none)
next
  case (RejectCall now k)
  then show ?thesis by (auto simp: reject_call_def split: option.splits intro!: drop_call_effect call_effect.none)
next
  case (ActivateCall k)
  then show ?thesis
    by (auto simp: activate_call_def Let_def update_ok_def same_call_def split: option.splits intro!: put_call_effect call_effect.none)
next
  case (EndCall now k)
  then show ?thesis
    by (auto simp: end_call_def Let_def update_ok_def same_call_def split: option.splits sum.splits
        intro!: put_call_effect drop_call_effect call_effect.none)
next
  case (FailCall now k)
  then show ?thesis by (auto simp: fail_call_def split: option.splits intro!: drop_call_effect call_effect.none)
next
  case (CreateOffer k)
  then show ?thesis
    by (auto simp: create_offer_def update_ok_def same_call_def split: option.splits sum.splits prod.splits
        intro!: put_call_effect call_effect.none)
next
  case (HandleOffer k sdp)
  then show ?thesis
    by (auto simp: call_handle_offer_def update_ok_def same_call_def split: option.splits sum.splits prod.splits
        intro!: put_call_effect call_effect.none)
next
  case (HandleAnswer k sdp)
  then show ?thesis
    by (auto simp: call_handle_answer_def update_ok_def same_call_def split: option.splits sum.splits
        intro!: put_call_effect call_effect.none)
next
  case (HandleIce k c mid idx)
  then show ?thesis
    by (auto simp: call_handle_ice_candidate_def update_ok_def same_call_def split: option.splits sum.splits
        intro!: put_call_effect call_effect.none)
next
  case (PcState now k s)
  then show ?thesis
    by (auto simp: on_state_change_def update_ok_def same_call_def split: option.splits
        intro!: put_call_effect call_effect.none)
qed

text \<open>C37. Nobody takes over a call: whatever operation runs, a call that is still there afterwards has the same
  id, participants, type and start, and its status changed only by the operation meant for it, from the
  status that operation asks for; a call disappears only when it is rejected, ended or failed, and a new
  one is ringing under an id that was free.\<close>

theorem call_lifecycle:
  assumes "op_fresh M a" and "M' = call_exec W M a"
  shows "case (cm_calls M k, cm_calls M' k) of
      (Some c, Some c') \<Rightarrow> same_call c c' \<and>
        (cl_status c' = cl_status c \<or>
         a = AcceptCall k \<and> cl_status c = Ringing \<and> cl_status c' = Connecting \<or>
         a = ActivateCall k \<and> cl_status c = Connecting \<and> cl_status c' = Active \<or>
         (\<exists>now. a = EndCall now k \<and> cl_status c' = Ended) \<or>
         (\<exists>now s. a = PcState now k s \<and> status_of_pc s = Some (cl_status c')))
    | (Some c, None) \<Rightarrow> \<exists>now. a \<in> {RejectCall now k, EndCall now k, FailCall now k}
    | (None, Some c') \<Rightarrow> cl_status c' = Ringing \<and> (\<exists>now d t. a \<in> {CreateCall k now d t, RegisterIncoming now k d t})
    | (None, None) \<Rightarrow> True"
proof -
  have "call_effect (cm_local_did M) a (cm_calls M) (cm_calls M')"
    unfolding assms(2) by (rule call_exec_effect [OF assms(1)])
  then show ?thesis
  proof cases
    case none
    then show ?thesis by (simp add: same_call_def split: option.split)
  next
    case (drop j c now)
    then show ?thesis by (auto simp: same_call_def split: option.split)
  next
    case (add j c)
    then show ?thesis by (cases "k = j") (auto simp: same_call_def split: option.split)
  next
    case (update j c c')
    then show ?thesis
      by (cases "k = j") (auto simp: same_call_def update_ok_def split: option.split call_op.splits)
  qed
qed

text \<open>A connection that always works, and one that cannot be closed.\<close>

definition sample_webrtc :: "string + unit \<Rightarrow> unit webrtc" where
  "sample_webrtc close = \<lparr>wr_new_peer_connection = (\<lambda>_. Inr ()), wr_create_data_channel = (\<lambda>_. Inr ()),
     wr_create_offer = (\<lambda>_. Inr ''o''), wr_create_answer = (\<lambda>_. Inr ''a''), wr_parse_sdp = (\<lambda>_. Inr ()),
     wr_set_local_description = (\<lambda>_ _. Inr ()), wr_set_remote_description = (\<lambda>_ _. Inr ()),
     wr_add_ice_candidate = (\<lambda>_ _ _ _. Inr ()), wr_close = (\<lambda>_. close)\<rparr>"

definition sample_manager :: "unit call_manager" where
  "sample_manager = fst (create_call (call_manager_new ''did:variance:aa'' []) ''k'' 5 ''did:variance:bb'' 1)"

lemma sample_manager_calls: "cm_calls sample_manager = [''k'' \<mapsto> \<lparr>cl_id = ''k'', cl_participants = [''did:variance:aa'', ''did:variance:bb''],
    cl_call_type = 1, cl_status = Ringing, cl_started_at = 5, cl_ended_at = None, cl_peer_connection = None\<rparr>]"
  by (simp add: sample_manager_def create_call_def call_manager_new_def put_call_def call_clone_def Let_def)

theorem call_lifecycle_witness:
  "case cm_calls (fst (accept_call sample_manager ''k'')) ''k'' of Some c \<Rightarrow> cl_participants c = [''did:variance:aa'', ''did:variance:bb'']
    | None \<Rightarrow> False"
proof -
  have f: "op_fresh sample_manager (AcceptCall ''k'')" by simp
  show ?thesis
    using call_lifecycle [OF f refl, where W = "sample_webrtc (Inr ())" and k = "''k''"]
    by (simp add: sample_manager_calls accept_call_def put_call_def same_call_def Let_def)
qed

definition call_ok :: "did \<Rightarrow> string \<Rightarrow> 'pc call \<Rightarrow> bool" where
  "call_ok me k c \<longleftrightarrow> cl_id c = k \<and> (\<exists>p. cl_participants c \<in> {[me, p], [p, me]}) \<and>
     (cl_status c \<in> {Ended, Failed} \<longrightarrow> cl_ended_at c \<noteq> None)"

lemma call_reach_local_did: "call_reach W me M \<Longrightarrow> cm_local_did M = me"
  by (induction rule: call_reach.induct) (simp_all add: call_manager_new_def)

text \<open>C38. In every reachable state each call is filed under its own id, has us as one of its two participants,
  and has an end time as soon as its status is ended or failed.\<close>

theorem call_registry_ok:
  assumes "call_reach W me M" and "cm_calls M k = Some c"
  shows "cl_id c = k \<and> (\<exists>p. cl_participants c \<in> {[me, p], [p, me]}) \<and>
    (cl_status c \<in> {Ended, Failed} \<longrightarrow> cl_ended_at c \<noteq> None)"
proof -
  have "\<forall>k c. cm_calls M k = Some c \<longrightarrow> call_ok me k c"
    using assms(1)
  proof induction
    case (start servers)
    then show ?case by (simp add: call_manager_new_def)
  next
    case (step M a)
    have "call_effect me a (cm_calls M) (cm_calls (call_exec W M a))"
      using call_exec_effect [OF step.hyps(2), of W] call_reach_local_did [OF step.hyps(1)] by simp
    then show ?case
    proof cases
      case none
      then show ?thesis using step.IH by simp
    next
      case (drop j c now)
      then show ?thesis using step.IH by simp
    next
      case (add j c)
      then show ?thesis using step.IH by (simp add: call_ok_def)
    next
      case (update j c c')
      have "call_ok me j c'"
        using step.IH update by (auto simp: call_ok_def update_ok_def same_call_def split: call_op.splits if_splits)
      then show ?thesis using step.IH update by simp
    qed
  qed
  then show ?thesis using assms(2) by (simp add: call_ok_def)
qed

theorem call_registry_ok_witness:
  "\<exists>c. cm_calls sample_manager ''k'' = Some c \<and> cl_id c = ''k''"
proof -
  have "call_reach (sample_webrtc (Inr ())) ''did:variance:aa''
      (call_exec (sample_webrtc (Inr ())) (call_manager_new ''did:variance:aa'' []) (CreateCall ''k'' 5 ''did:variance:bb'' 1))"
    by (rule call_reach.step [OF call_reach.start]) (simp add: call_manager_new_def)
  then have "call_reach (sample_webrtc (Inr ())) ''did:variance:aa'' sample_manager" by (simp add: sample_manager_def)
  from call_registry_ok [OF this] show ?thesis by (simp add: sample_manager_calls)
qed

text \<open>When the connection of a call cannot be closed, \<open>end_call\<close> fails and the ended call stays in the map;
  a later report that the connection is up makes it active again, with an end time.\<close>

theorem failed_close_keeps_call:
  assumes "cm_calls M k = Some c" and "cl_peer_connection c = Some pc" and "wr_close W pc = Inl e"
  shows "snd (end_call W M now k) = Inl (EWebRtc (''Failed to close peer connection: '' @ e)) \<and>
    (\<exists>c'. cm_calls (fst (on_state_change (fst (end_call W M now k)) later k PcConnected)) k = Some c' \<and>
       cl_status c' = Active \<and> cl_ended_at c' = Some now)"
  using assms by (simp add: end_call_def on_state_change_def status_of_pc_def put_call_def Let_def)

theorem failed_close_keeps_call_witness:
  "snd (end_call (sample_webrtc (Inl ''x'')) (fst (create_offer (sample_webrtc (Inl ''x'')) sample_manager ''k'')) 9 ''k'')
     = Inl (EWebRtc ''Failed to close peer connection: x'')"
proof -
  let ?W = "sample_webrtc (Inl ''x'')"
  have "\<exists>c. cm_calls (fst (create_offer ?W sample_manager ''k'')) ''k'' = Some c \<and> cl_peer_connection c = Some ()"
    by (simp add: create_offer_def sample_manager_calls create_peer_connection_def web_err_def sample_webrtc_def put_call_def)
  then obtain c where "cm_calls (fst (create_offer ?W sample_manager ''k'')) ''k'' = Some c" "cl_peer_connection c = Some ()"
    by blast
  from failed_close_keeps_call [OF this, of ?W "''x''"] show ?thesis by (simp add: sample_webrtc_def)
qed

end
