(* ===== verification/Identity_Handler.thy ===== *)
theory Identity_Handler
  imports Did
begin

section \<open>Identity requests (\<open>variance-p2p/src/handlers/identity.rs\<close>)\<close>

text \<open>
  The messages of the identity protocol (\<open>variance-proto/proto/identity.proto\<close>), their
  constructors (\<open>variance-identity/src/protocol.rs\<close>) and \<open>IdentityHandler\<close>: the local
  identity, the cache of other peers' documents, and the answer to a request. A
  \<open>PeerId\<close> is known here only by its text; the seconds of \<open>Utc::now\<close> are an argument.
\<close>

subsection \<open>Messages\<close>

datatype identity_query = UsernameQuery string "nat option" "string option" | DidQuery did | PeerIdQuery string

record identity_request =
  iq_query :: "identity_query option"
  iq_requester_did :: "did option"
  iq_timestamp :: int

record identity_found =
  if_did_document :: "did_document option"
  if_ipns_key :: "string option"
  if_multiaddrs :: "string list"
  if_discriminator :: "nat option"
  if_olm_identity_key :: bytes
  if_one_time_keys :: "bytes list"
  if_mls_key_package :: "bytes option"
  if_username :: "string option"
  if_mailbox_token :: bytes
  if_document_signature :: bytes

datatype identity_result = Found identity_found | NotFound string string | IdentityError string string

record identity_response =
  ir_result :: "identity_result option"
  ir_timestamp :: int

definition create_username_request :: "int \<Rightarrow> string \<Rightarrow> did option \<Rightarrow> identity_request" where
  "create_username_request now username requester_did =
     \<lparr>iq_query = Some (UsernameQuery username None None), iq_requester_did = requester_did, iq_timestamp = now\<rparr>"

definition create_did_request :: "int \<Rightarrow> did \<Rightarrow> did option \<Rightarrow> identity_request" where
  "create_did_request now d requester_did =
     \<lparr>iq_query = Some (DidQuery d), iq_requester_did = requester_did, iq_timestamp = now\<rparr>"

definition create_peer_id_request :: "int \<Rightarrow> string \<Rightarrow> did option \<Rightarrow> identity_request" where
  "create_peer_id_request now peer_id requester_did =
     \<lparr>iq_query = Some (PeerIdQuery peer_id), iq_requester_did = requester_did, iq_timestamp = now\<rparr>"

definition unwrap_or_default :: "bytes option \<Rightarrow> bytes" where
  "unwrap_or_default o' = (case o' of None \<Rightarrow> [] | Some bs \<Rightarrow> bs)"

definition create_success_response :: "int \<Rightarrow> ('sk, 'xs) did_identity \<Rightarrow> identity_response" where
  "create_success_response now d =
     \<lparr>ir_result = Some (Found
        \<lparr>if_did_document = Some (di_document d), if_ipns_key = None, if_multiaddrs = [], if_discriminator = None,
         if_olm_identity_key = [], if_one_time_keys = [], if_mls_key_package = None, if_username = None,
         if_mailbox_token = [], if_document_signature = unwrap_or_default (di_document_signature d)\<rparr>),
      ir_timestamp = now\<rparr>"

definition create_not_found_response :: "int \<Rightarrow> string \<Rightarrow> string \<Rightarrow> identity_response" where
  "create_not_found_response now q reason = \<lparr>ir_result = Some (NotFound q reason), ir_timestamp = now\<rparr>"

definition identity_error_response :: "int \<Rightarrow> string \<Rightarrow> string \<Rightarrow> identity_response" where
  "identity_error_response now err details = \<lparr>ir_result = Some (IdentityError err details), ir_timestamp = now\<rparr>"

subsection \<open>The handler\<close>

record ('sk, 'xs) local_identity =
  li_did :: did
  li_olm_identity_key :: bytes
  li_one_time_keys :: "bytes list"
  li_mls_key_package :: "bytes option"
  li_username :: "string option"
  li_discriminator :: "nat option"
  li_mailbox_token :: bytes
  li_did_struct :: "('sk, 'xs) did_identity option"

record ('sk, 'xs) identity_handler =
  ih_peer_id :: string
  ih_cache :: "string \<rightharpoonup> ('sk, 'xs) did_identity"
  ih_local_identity :: "('sk, 'xs) local_identity option"

definition identity_handler_new :: "string \<Rightarrow> ('sk, 'xs) identity_handler" where
  "identity_handler_new peer_id = \<lparr>ih_peer_id = peer_id, ih_cache = Map.empty, ih_local_identity = None\<rparr>"

definition set_local_identity ::
  "('sk, 'xs) identity_handler \<Rightarrow> did \<Rightarrow> bytes \<Rightarrow> bytes list \<Rightarrow> bytes option \<Rightarrow> bytes \<Rightarrow> ('sk, 'xs) did_identity option
     \<Rightarrow> ('sk, 'xs) identity_handler" where
  "set_local_identity h d olm_identity_key one_time_keys mls_key_package token did_struct =
     h\<lparr>ih_local_identity := Some
       \<lparr>li_did = d, li_olm_identity_key = olm_identity_key, li_one_time_keys = one_time_keys,
        li_mls_key_package = mls_key_package, li_username = None, li_discriminator = None,
        li_mailbox_token = token, li_did_struct = did_struct\<rparr>\<rparr>"

definition set_local_username :: "('sk, 'xs) identity_handler \<Rightarrow> string \<Rightarrow> nat \<Rightarrow> ('sk, 'xs) identity_handler" where
  "set_local_username h username discriminator =
     (case ih_local_identity h of
        Some l \<Rightarrow> h\<lparr>ih_local_identity := Some (l\<lparr>li_username := Some username, li_discriminator := Some discriminator\<rparr>)\<rparr>
      | None \<Rightarrow> h)"

definition update_one_time_keys :: "('sk, 'xs) identity_handler \<Rightarrow> bytes list \<Rightarrow> ('sk, 'xs) identity_handler" where
  "update_one_time_keys h one_time_keys =
     (case ih_local_identity h of
        Some l \<Rightarrow> h\<lparr>ih_local_identity := Some (l\<lparr>li_one_time_keys := one_time_keys\<rparr>)\<rparr>
      | None \<Rightarrow> h)"

definition update_mls_key_package :: "('sk, 'xs) identity_handler \<Rightarrow> bytes \<Rightarrow> ('sk, 'xs) identity_handler" where
  "update_mls_key_package h key_package =
     (case ih_local_identity h of
        Some l \<Rightarrow> h\<lparr>ih_local_identity := Some (l\<lparr>li_mls_key_package := Some key_package\<rparr>)\<rparr>
      | None \<Rightarrow> h)"

text \<open>The answer about ourselves: the signed document when there is one, a bare one otherwise.\<close>

definition self_document :: "('sk, 'xs) local_identity \<Rightarrow> did_document \<times> bytes" where
  "self_document l =
     (case li_did_struct l of
        Some d \<Rightarrow> (di_document d, unwrap_or_default (di_document_signature d))
      | None \<Rightarrow>
          (\<lparr>dd_id = li_did l, dd_authentication = [], dd_key_agreement = [], dd_service = [],
            dd_created_at = 0, dd_updated_at = 0,
            dd_display_name =
              (case (li_username l, li_discriminator l) of
                 (Some name, Some disc) \<Rightarrow> Some (name @ ''#'' @ fmt04 disc)
               | _ \<Rightarrow> None),
            dd_avatar_cid = None, dd_bio = None\<rparr>, []))"

definition self_response :: "int \<Rightarrow> ('sk, 'xs) local_identity \<Rightarrow> identity_response" where
  "self_response now l =
     \<lparr>ir_result = Some (Found
        \<lparr>if_did_document = Some (fst (self_document l)), if_ipns_key = None, if_multiaddrs = [],
         if_discriminator = li_discriminator l, if_olm_identity_key = li_olm_identity_key l,
         if_one_time_keys = li_one_time_keys l, if_mls_key_package = li_mls_key_package l,
         if_username = li_username l, if_mailbox_token = li_mailbox_token l,
         if_document_signature = snd (self_document l)\<rparr>),
      ir_timestamp = now\<rparr>"

definition resolve_did :: "('sk, 'xs) identity_handler \<Rightarrow> int \<Rightarrow> did \<Rightarrow> identity_response" where
  "resolve_did h now d =
     (let from_cache =
        (case ih_cache h d of
           Some did_doc \<Rightarrow> create_success_response now did_doc
         | None \<Rightarrow> create_not_found_response now d ''DID not found in cache. IPFS/IPNS resolution not yet implemented.'')
      in case ih_local_identity h of
           Some l \<Rightarrow> if li_did l = d then self_response now l else from_cache
         | None \<Rightarrow> from_cache)"

definition resolve_username :: "('sk, 'xs) identity_handler \<Rightarrow> int \<Rightarrow> string \<Rightarrow> identity_response" where
  "resolve_username h now username =
     (case ih_cache h username of
        Some did_doc \<Rightarrow> create_success_response now did_doc
      | None \<Rightarrow> create_not_found_response now username
          ''Username not found in cache. DHT provider lookup not yet implemented.'')"

definition identity_handle_request :: "('sk, 'xs) identity_handler \<Rightarrow> int \<Rightarrow> identity_request \<Rightarrow> identity_response" where
  "identity_handle_request h now request =
     (case iq_query request of
        Some (DidQuery d) \<Rightarrow> resolve_did h now d
      | Some (UsernameQuery username _ _) \<Rightarrow> resolve_username h now username
      | Some (PeerIdQuery peer_id) \<Rightarrow>
          (case (if peer_id = ih_peer_id h then ih_local_identity h else None) of
             Some l \<Rightarrow> resolve_did h now (li_did l)
           | None \<Rightarrow> create_not_found_response now peer_id ''No DID known for this PeerId'')
      | None \<Rightarrow> identity_error_response now ''Invalid request'' ''Request must contain a query'')"

definition cache_did :: "('sk, 'xs) identity_handler \<Rightarrow> ('sk, 'xs) did_identity \<Rightarrow> ('sk, 'xs) identity_handler" where
  "cache_did h d =
     (let cache = (ih_cache h)(di_id d \<mapsto> d)
      in h\<lparr>ih_cache := (case dd_display_name (di_document d) of
           Some username \<Rightarrow> cache(username \<mapsto> d) | None \<Rightarrow> cache)\<rparr>)"

definition get_cached_did :: "('sk, 'xs) identity_handler \<Rightarrow> string \<Rightarrow> ('sk, 'xs) did_identity option" where
  "get_cached_did h did_or_username = ih_cache h did_or_username"

subsection \<open>What a peer is told about us\<close>

text \<open>A node that answers a query for its own DID, or for its own peer id, sends its document with a
  signature that the receiver accepts, together with the current Olm keys, key package, user name and
  mailbox token; a change of the user name does not touch what the signature covers.\<close>

theorem self_answer_verifies:
  fixes C :: "('sk, 'xs) did_crypto"
  assumes "did_crypto_ok C" and "from_signing_key C me sk xs p t = Inr d"
    and "h = set_local_username (set_local_identity h0 me olm otks kp tok (Some d)) name disc"
    and "q = DidQuery me \<or> q = PeerIdQuery (ih_peer_id h0)"
  shows "\<exists>f doc. ir_result (identity_handle_request h now \<lparr>iq_query = Some q, iq_requester_did = r, iq_timestamp = ts\<rparr>) = Some (Found f) \<and>
    if_did_document f = Some doc \<and> dd_id doc = me \<and>
    verify_document C (from_proto_with_signature doc (Some (if_document_signature f)) :: ('sk, 'xs) did_identity) = Inr () \<and>
    if_olm_identity_key f = olm \<and> if_one_time_keys f = otks \<and> if_mls_key_package f = kp \<and>
    if_username f = Some name \<and> if_discriminator f = Some disc \<and> if_mailbox_token f = tok"
proof -
  note d = from_signing_key_Inr [OF assms(2)]
  obtain s where s: "di_document_signature d = Some s" using d by blast
  have v: "verify_document C (from_proto_with_signature (di_document d) (Some s) :: ('sk, 'xs) did_identity) = Inr ()"
    using sign_verify_proto [OF assms(1,2)] s by simp
  have id: "dd_id (di_document d) = me" using d by (simp add: new_document_def)
  show ?thesis
    using assms(4) v id s
    by (auto simp: assms(3) set_local_username_def set_local_identity_def identity_handle_request_def
        resolve_did_def self_response_def self_document_def unwrap_or_default_def Let_def)
qed

theorem self_answer_verifies_witness:
  "\<exists>f. ir_result (identity_handle_request
      (set_local_username (set_local_identity (identity_handler_new ''p'') ''did:variance:aa'' [1] [[2]] None [3]
        (Some (toy_did ''did:variance:aa'' 7))) ''bob'' 42)
      5 \<lparr>iq_query = Some (PeerIdQuery ''p''), iq_requester_did = None, iq_timestamp = 4\<rparr>) = Some (Found f) \<and>
    if_username f = Some ''bob''"
proof -
  let ?h = "set_local_username (set_local_identity (identity_handler_new ''p'') ''did:variance:aa'' [1] [[2]] None [3]
      (Some (toy_did ''did:variance:aa'' 7))) ''bob'' 42"
  have "PeerIdQuery ''p'' = DidQuery ''did:variance:aa'' \<or>
      PeerIdQuery ''p'' = PeerIdQuery (ih_peer_id (identity_handler_new ''p'' :: (8 word, 8 word) identity_handler))"
    by (simp add: identity_handler_new_def)
  from self_answer_verifies [OF toy_crypto_ok toy_did refl this, where now = 5 and r = None and ts = 4]
  show ?thesis by blast
qed

subsection \<open>The cache\<close>

text \<open>Every document of the cache verifies, whichever name it is under.\<close>

definition cache_verified :: "('sk, 'xs) did_crypto \<Rightarrow> ('sk, 'xs) identity_handler \<Rightarrow> bool" where
  "cache_verified C h \<longleftrightarrow> (\<forall>k d. ih_cache h k = Some d \<longrightarrow> verify_document C d = Inr ())"

lemma cache_verified_new: "cache_verified C (identity_handler_new p)"
  by (simp add: cache_verified_def identity_handler_new_def)

lemma cache_verified_cache_did: "cache_verified C h \<Longrightarrow> verify_document C d = Inr () \<Longrightarrow> cache_verified C (cache_did h d)"
  by (auto simp: cache_verified_def cache_did_def Let_def split: option.splits)

lemma handler_updates_cache [simp]:
  "ih_cache (set_local_identity h a b c d e f) = ih_cache h"
  "ih_cache (set_local_username h u n) = ih_cache h"
  "ih_cache (update_one_time_keys h ks) = ih_cache h"
  "ih_cache (update_mls_key_package h kp) = ih_cache h"
  by (simp_all add: set_local_identity_def set_local_username_def update_one_time_keys_def update_mls_key_package_def
      split: option.splits)

lemma get_cached_after:
  "get_cached_did (cache_did h d) k =
     (if dd_display_name (di_document d) = Some k \<or> k = di_id d then Some d else get_cached_did h k)"
  by (auto simp: get_cached_did_def cache_did_def Let_def split: option.splits)

end
