(* ===== verification/Call_Handler.thy ===== *)
theory Call_Handler
  imports Calls Identity_Handler
begin

section \<open>Incoming signaling (\<open>variance-p2p/src/handlers/signaling.rs\<close>)\<close>

text \<open>
  \<open>SignalingHandler\<close> of the node: it checks the signature of an incoming message against the
  document cached for its sender, passes it to the call manager and answers. It refers to
  the media handler and the call manager of the application, which may not be set yet.
  Where the text of an error embeds another error, the other error itself is kept.
\<close>

datatype p2p_error =
    EListen string
  | EInvalidPeerId string
  | EKad string
  | EGossipsub string
  | ENodeProtocol string
  | EBadKey string identity_error
  | EBadSignal string media_error
  | EInvalidMessage string
  | EInvalidCall string media_error

record ('sk, 'pc) signaling_state =
  ss_media_handler :: "'sk media_handler option"
  ss_call_manager :: "'pc call_manager option"
  ss_active_calls :: "string \<rightharpoonup> did"

definition signaling_state_new :: "('sk, 'pc) signaling_state" where
  "signaling_state_new = \<lparr>ss_media_handler = None, ss_call_manager = None, ss_active_calls = Map.empty\<rparr>"

definition set_media_handler :: "('sk, 'pc) signaling_state \<Rightarrow> 'sk media_handler \<Rightarrow> ('sk, 'pc) signaling_state" where
  "set_media_handler S h = S\<lparr>ss_media_handler := Some h\<rparr>"

definition set_call_manager :: "('sk, 'pc) signaling_state \<Rightarrow> 'pc call_manager \<Rightarrow> ('sk, 'pc) signaling_state" where
  "set_call_manager S m = S\<lparr>ss_call_manager := Some m\<rparr>"

definition verify_signature ::
  "('sk, 'xs) did_crypto \<Rightarrow> ('sk, 'xs) identity_handler \<Rightarrow> ('sk, 'pc) signaling_state \<Rightarrow> signaling_message
     \<Rightarrow> ('sk, 'pc) signaling_state \<times> (p2p_error + unit)" where
  "verify_signature C H S m =
     (case get_cached_did H (sg_sender_did m) of
        None \<Rightarrow> (S, Inl (ENodeProtocol (''Sender DID not found in cache: '' @ sg_sender_did m @ ''. Cannot verify signature.'')))
      | Some d \<Rightarrow>
     (case get_verifying_key C d of
        Inl e \<Rightarrow> (S, Inl (EBadKey ''Failed to extract public key from DID'' e))
      | Inr key \<Rightarrow>
     (case ss_media_handler S of
        None \<Rightarrow> (S, Inl (ENodeProtocol ''Media handler not initialized''))
      | Some mh \<Rightarrow>
     (case verify_message C mh m key of
        (mh', Inl e) \<Rightarrow> (S\<lparr>ss_media_handler := Some mh'\<rparr>, Inl (EBadSignal ''Signature verification failed'' e))
      | (mh', Inr _) \<Rightarrow> (S\<lparr>ss_media_handler := Some mh'\<rparr>, Inr ())))))"

definition handle_offer ::
  "('sk, 'xs) did_crypto \<Rightarrow> 'pc webrtc \<Rightarrow> millis \<Rightarrow> bytes \<Rightarrow> ('sk, 'pc) signaling_state \<Rightarrow> did \<Rightarrow> signaling_message
     \<Rightarrow> ('sk, 'pc) signaling_state \<times> (p2p_error + signaling_message)" where
  "handle_offer C W now nonce S peer_did m =
     (case sg_message m of
        Some (Offer offer_sdp _) \<Rightarrow>
          (let S = S\<lparr>ss_active_calls := (ss_active_calls S)(sg_call_id m \<mapsto> peer_did)\<rparr>
           in case ss_call_manager S of
                None \<Rightarrow> (S, Inl (EInvalidMessage ''Call manager not initialized''))
              | Some M \<Rightarrow>
                  (case call_handle_offer W M (sg_call_id m) offer_sdp of
                     (M', Inl e) \<Rightarrow> (S\<lparr>ss_call_manager := Some M'\<rparr>, Inl (EInvalidCall ''Failed to handle offer'' e))
                   | (M', Inr answer_sdp) \<Rightarrow>
                       (let S = S\<lparr>ss_call_manager := Some M'\<rparr>
                        in case ss_media_handler S of
                             Some h \<Rightarrow> (S, Inr (send_answer C h now nonce (sg_call_id m) peer_did answer_sdp))
                           | None \<Rightarrow> (S, Inl (EInvalidMessage ''Media handler not initialized'')))))
      | _ \<Rightarrow> (S, Inl (EInvalidMessage ''Expected offer message'')))"

definition handle_answer ::
  "('sk, 'xs) did_crypto \<Rightarrow> 'pc webrtc \<Rightarrow> millis \<Rightarrow> bytes \<Rightarrow> ('sk, 'pc) signaling_state \<Rightarrow> did \<Rightarrow> signaling_message
     \<Rightarrow> ('sk, 'pc) signaling_state \<times> (p2p_error + signaling_message)" where
  "handle_answer C W now nonce S peer_did m =
     (case sg_message m of
        Some (Answer answer_sdp) \<Rightarrow>
          (case ss_call_manager S of
             None \<Rightarrow> (S, Inl (EInvalidMessage ''Call manager not initialized''))
           | Some M \<Rightarrow>
               (case call_handle_answer W M (sg_call_id m) answer_sdp of
                  (M', Inl e) \<Rightarrow> (S\<lparr>ss_call_manager := Some M'\<rparr>, Inl (EInvalidCall ''Failed to handle answer'' e))
                | (M', Inr _) \<Rightarrow>
                    (let S = S\<lparr>ss_call_manager := Some M'\<rparr>
                     in case ss_media_handler S of
                          Some h \<Rightarrow> (S, Inr (send_control C h now nonce (sg_call_id m) peer_did control_accept None))
                        | None \<Rightarrow> (S, Inl (EInvalidMessage ''Media handler not initialized'')))))
      | _ \<Rightarrow> (S, Inl (EInvalidMessage ''Expected answer message'')))"

text \<open>The cast \<open>i as u16\<close> keeps the low 16 bits of the media line.\<close>

definition handle_ice_candidate ::
  "'pc webrtc \<Rightarrow> ('sk, 'pc) signaling_state \<Rightarrow> did \<Rightarrow> signaling_message
     \<Rightarrow> ('sk, 'pc) signaling_state \<times> (p2p_error + signaling_message)" where
  "handle_ice_candidate W S peer_did m =
     (case sg_message m of
        Some (IceCandidate candidate sdp_mid sdp_m_line_index) \<Rightarrow>
          (case ss_call_manager S of
             None \<Rightarrow> (S, Inl (EInvalidMessage ''Call manager not initialized''))
           | Some M \<Rightarrow>
               (case call_handle_ice_candidate W M (sg_call_id m) candidate (Some sdp_mid)
                   (map_option (\<lambda>i. i mod 2 ^ 16) sdp_m_line_index) of
                  (M', Inl e) \<Rightarrow> (S\<lparr>ss_call_manager := Some M'\<rparr>, Inl (EInvalidCall ''Failed to handle ICE candidate'' e))
                | (M', Inr _) \<Rightarrow> (S\<lparr>ss_call_manager := Some M'\<rparr>, Inr m)))
      | _ \<Rightarrow> (S, Inl (EInvalidMessage ''Expected ICE candidate message'')))"

definition handle_control ::
  "('sk, 'pc) signaling_state \<Rightarrow> did \<Rightarrow> signaling_message \<Rightarrow> ('sk, 'pc) signaling_state \<times> (p2p_error + signaling_message)" where
  "handle_control S peer_did m =
     ((case sg_message m of
         Some (CallControl type _) \<Rightarrow>
           if type \<in> {control_hangup, control_reject}
           then S\<lparr>ss_active_calls := (ss_active_calls S)(sg_call_id m := None)\<rparr> else S
       | _ \<Rightarrow> S), Inr m)"

definition handle_message ::
  "('sk, 'xs) did_crypto \<Rightarrow> 'pc webrtc \<Rightarrow> millis \<Rightarrow> bytes \<Rightarrow> ('sk, 'xs) identity_handler \<Rightarrow> ('sk, 'pc) signaling_state
     \<Rightarrow> did \<Rightarrow> signaling_message \<Rightarrow> ('sk, 'pc) signaling_state \<times> (p2p_error + signaling_message)" where
  "handle_message C W now nonce H S peer_did m =
     (case verify_signature C H S m of
        (S', Inl e) \<Rightarrow> (S', Inl e)
      | (S', Inr _) \<Rightarrow>
          (case sg_message m of
             Some (Offer _ _) \<Rightarrow> handle_offer C W now nonce S' peer_did m
           | Some (Answer _) \<Rightarrow> handle_answer C W now nonce S' peer_did m
           | Some (IceCandidate _ _ _) \<Rightarrow> handle_ice_candidate W S' peer_did m
           | Some (CallControl _ _) \<Rightarrow> handle_control S' peer_did m
           | None \<Rightarrow> (S', Inl (EInvalidMessage ''Signaling message has no content''))))"

subsection \<open>Only signed messages get through\<close>

definition signaling_authentic ::
  "('sk, 'xs) did_crypto \<Rightarrow> ('sk, 'xs) identity_handler \<Rightarrow> ('sk, 'pc) signaling_state \<Rightarrow> signaling_message \<Rightarrow> bool" where
  "signaling_authentic C H S m \<longleftrightarrow>
     (\<exists>d key mh. get_cached_did H (sg_sender_did m) = Some d \<and> get_verifying_key C d = Inr key \<and>
        ss_media_handler S = Some mh \<and> dc_verify C key (signing_data m) (sg_signature m) \<and>
        length (sg_nonce m) = 16 \<and> length (sg_signature m) = 64 \<and> sg_nonce m \<notin> set (seen mh (sg_call_id m)))"

lemma verify_signature_Inr:
  "(\<exists>S'. verify_signature C H S m = (S', Inr ())) \<longleftrightarrow> signaling_authentic C H S m"
proof -
  have v: "(\<exists>mh'. verify_message C mh m key = (mh', Inr ())) \<longleftrightarrow> snd (verify_message C mh m key) = Inr ()" for mh key
    by (metis prod.collapse snd_conv)
  have w: "snd (verify_message C mh m key) \<noteq> Inr ()" if "verify_message C mh m key = (h', Inl e)" for mh key h' e
    using that by simp
  show ?thesis
    using v w unfolding verify_message_Inr
    by (auto simp: verify_signature_def signaling_authentic_def split: option.splits sum.splits prod.splits)
qed

lemma verify_message_rejects: "verify_message C h m key = (h', Inl e) \<Longrightarrow> h' = h"
  by (auto simp: verify_message_def Let_def seen_def fun_upd_idem split: if_splits option.splits)

lemma verify_signature_rejects: "verify_signature C H S m = (S', Inl e) \<Longrightarrow> S' = S"
  by (auto simp: verify_signature_def dest: verify_message_rejects split: option.splits sum.splits prod.splits)

text \<open>C39. A signaling message that changes anything in the node, or gets an answer, carries a fresh nonce and
  a signature under the key of the document cached for the sender it names; every other message leaves
  the calls, the call manager and the nonces exactly as they were.\<close>

theorem signaling_gate:
  assumes "handle_message C W now nonce H S peer m = (S', r)" and "S' \<noteq> S \<or> r = Inr reply"
  shows "signaling_authentic C H S m"
proof -
  obtain S1 q where v: "verify_signature C H S m = (S1, q)" by fastforce
  show ?thesis
  proof (cases q)
    case (Inl e)
    then have "S' = S" "r = Inl e" using assms(1) v verify_signature_rejects by (auto simp: handle_message_def)
    with assms(2) show ?thesis by simp
  next
    case (Inr u)
    then show ?thesis using v verify_signature_Inr by fastforce
  qed
qed

text \<open>Two peers with documents in the cache, and a call with one of them.\<close>

definition sample_handler :: "(8 word, 8 word) identity_handler" where
  "sample_handler = cache_did (cache_did (identity_handler_new ''me'') (toy_did ''did:variance:aa'' 7)) (toy_did ''did:variance:bb'' 8)"

definition sample_signaling :: "(8 word, unit) signaling_state" where
  "sample_signaling = signaling_state_new\<lparr>ss_media_handler := Some (media_handler_new ''did:variance:cc'' 9),
     ss_active_calls := [''k'' \<mapsto> ''did:variance:bb'']\<rparr>"

lemma sample_handler_cache: "get_cached_did sample_handler ''did:variance:aa'' = Some (toy_did ''did:variance:aa'' 7)"
  by (simp add: sample_handler_def get_cached_after toy_did_def new_document_def)

lemma toy_did_key: "get_verifying_key toy_crypto (toy_did i sk) = Inr (replicate 32 sk)"
  by (simp add: get_verifying_key_def toy_did_def new_document_def) (simp add: toy_crypto_def)

lemma sample_signal_authentic:
  "signaling_authentic toy_crypto sample_handler sample_signaling (sample_signal ''k'' b)"
  by (auto simp: signaling_authentic_def sample_handler_cache toy_did_key sample_signal_verifies
      sample_signaling_def seen_def media_handler_new_def)

theorem signaling_gate_witness:
  "signaling_authentic toy_crypto sample_handler sample_signaling (sample_signal ''k'' (CallControl control_hangup None))"
proof -
  let ?m = "sample_signal ''k'' (CallControl control_hangup None)"
  let ?out = "handle_message toy_crypto (sample_webrtc (Inr ())) 5 (replicate 16 2) sample_handler sample_signaling ''x'' ?m"
  obtain S1 where "verify_signature toy_crypto sample_handler sample_signaling ?m = (S1, Inr ())"
    using verify_signature_Inr sample_signal_authentic by blast
  then have "snd ?out = Inr ?m" by (simp add: handle_message_def handle_control_def)
  then have "?out = (fst ?out, Inr ?m)" by (metis prod.collapse)
  from signaling_gate [OF this, where reply = ?m] show ?thesis by simp
qed

text \<open>Whoever has a document in the cache can hang up anybody's call: a hang-up that is signed by its
  sender removes the call it names from the active calls, with whomever that call is, and by whatever
  peer the message is delivered; neither is compared with the sender.\<close>

theorem hangup_by_anyone:
  assumes "signaling_authentic C H S m" and "sg_message m = Some (CallControl control_hangup reason)"
  shows "ss_active_calls (fst (handle_message C W now nonce H S peer m)) = (ss_active_calls S)(sg_call_id m := None) \<and>
    snd (handle_message C W now nonce H S peer m) = Inr m"
proof -
  obtain S1 where v: "verify_signature C H S m = (S1, Inr ())" using assms(1) verify_signature_Inr by blast
  then have "ss_active_calls S1 = ss_active_calls S"
    by (auto simp: verify_signature_def split: option.splits sum.splits prod.splits)
  then show ?thesis using v assms(2) by (simp add: handle_message_def handle_control_def)
qed

theorem hangup_by_anyone_witness:
  "ss_active_calls sample_signaling ''k'' = Some ''did:variance:bb'' \<and>
   ss_active_calls (fst (handle_message toy_crypto (sample_webrtc (Inr ())) 5 (replicate 16 2) sample_handler sample_signaling
     ''did:variance:aa'' (sample_signal ''k'' (CallControl control_hangup None)))) ''k'' = None"
  using hangup_by_anyone [OF sample_signal_authentic, where reason = None]
  by (simp add: sample_signaling_def)

end
