(* ===== verification/Mailbox_Auth.thy ===== *)
theory Mailbox_Auth
  imports Proto Did
begin

section \<open>Who may read a mailbox (\<open>verify_offline_request_auth\<close>, \<open>variance-p2p/src/node/event_handlers.rs\<close>)\<close>

text \<open>
  A relay hands out the envelopes of a mailbox only to a peer that proves to own the key
  the mailbox is named after. SHA-256 and the strict verification of Ed25519 are
  third-party: \<open>auth_crypto\<close> holds the calls, with the texts of their errors. The seconds
  of the clock are an argument, and \<open>abs\<close> wraps at the least \<open>i64\<close>.
\<close>

record auth_crypto =
  au_sha256 :: "bytes \<Rightarrow> bytes"
  au_parse_key :: "bytes \<Rightarrow> string + unit"
  au_verify_strict :: "bytes \<Rightarrow> bytes \<Rightarrow> bytes \<Rightarrow> string + unit"

definition abs_i64 :: "int \<Rightarrow> int" where
  "abs_i64 x = wrap_i64 (abs x)"

definition drift :: "int \<Rightarrow> int \<Rightarrow> int" where
  "drift now ts = abs_i64 (sub_i64 now ts)"

definition show_i64 :: "int \<Rightarrow> string" where
  "show_i64 x = (if x < 0 then ''-'' @ dec_digits (nat (- x)) else dec_digits (nat x))"

definition auth_payload :: "offline_request \<Rightarrow> bytes" where
  "auth_payload r = oq_mailbox_token r @ i64_to_le (oq_auth_timestamp r)"

definition verify_offline_request_auth :: "auth_crypto \<Rightarrow> int \<Rightarrow> offline_request \<Rightarrow> string + unit" where
  "verify_offline_request_auth A now r =
     (if length (oq_verifying_key r) \<noteq> 32
      then Inl (''verifying_key must be 32 bytes, got '' @ dec_digits (length (oq_verifying_key r)))
      else case au_parse_key A (oq_verifying_key r) of
        Inl e \<Rightarrow> Inl (''invalid Ed25519 verifying key: '' @ e)
      | Inr _ \<Rightarrow>
          if oq_mailbox_token r \<noteq> mailbox_token (au_sha256 A) (oq_verifying_key r)
          then Inl ''verifying_key does not derive the claimed mailbox_token''
          else if drift now (oq_auth_timestamp r) > 300
          then Inl (''auth_timestamp drift '' @ show_i64 (drift now (oq_auth_timestamp r)) @ ''s exceeds 5-minute window'')
          else if length (oq_auth_signature r) \<noteq> 64
          then Inl (''auth_signature must be 64 bytes, got '' @ dec_digits (length (oq_auth_signature r)))
          else map_err (\<lambda>e. ''signature verification failed: '' @ e)
                 (au_verify_strict A (oq_verifying_key r) (auth_payload r) (oq_auth_signature r)))"

subsection \<open>The window\<close>

text \<open>
  With a clock that is not past the year 146 billion, the window is what it says, except
  for the one timestamp at which the difference has no absolute value in an \<open>i64\<close>: a
  release build lets it through (a debug build panics).
\<close>

definition clock_ok :: "int \<Rightarrow> bool" where
  "clock_ok now \<longleftrightarrow> 0 \<le> now \<and> now < 2 ^ 62"

lemma drift_window:
  assumes "clock_ok now" and "in_i64 ts"
  shows "drift now ts \<le> 300 \<longleftrightarrow> \<bar>now - ts\<bar> \<le> 300 \<or> ts = now - 2 ^ 63"
proof -
  have r: "0 \<le> now" "now < 2 ^ 62" "- (2 ^ 63) \<le> ts" "ts < 2 ^ 63"
    using assms by (simp_all add: clock_ok_def in_i64_def i64_min_def i64_max_def)
  consider (small) "now - ts < 2 ^ 63" | (edge) "now - ts = 2 ^ 63" | (wrap) "2 ^ 63 < now - ts" by linarith
  then show ?thesis
  proof cases
    case small
    then have "in_i64 (now - ts)" "in_i64 \<bar>now - ts\<bar>"
      using r by (simp_all add: in_i64_def i64_min_def i64_max_def abs_if)
    then have "drift now ts = \<bar>now - ts\<bar>" by (simp add: drift_def sub_i64_exact abs_i64_def)
    then show ?thesis using small by auto
  next
    case edge
    then show ?thesis by (simp add: drift_def sub_i64_def abs_i64_def wrap_i64_def)
  next
    case wrap
    have "(now - ts + 2 ^ 63) mod 2 ^ 64 = (now - ts + 2 ^ 63 - 2 ^ 64) mod 2 ^ 64" by (rule minus_mod_self2 [symmetric])
    also have "\<dots> = now - ts + 2 ^ 63 - 2 ^ 64" using r wrap by (intro mod_pos_pos_trivial) simp_all
    finally have "sub_i64 now ts = now - ts - 2 ^ 64" unfolding sub_i64_def wrap_i64_def by simp
    moreover have "in_i64 \<bar>now - ts - 2 ^ 64\<bar>" using r wrap by (simp add: in_i64_def i64_min_def i64_max_def abs_if)
    ultimately have "drift now ts = 2 ^ 64 - (now - ts)" using r by (simp add: drift_def abs_i64_def)
    then show ?thesis using r wrap by auto
  qed
qed

text \<open>Only the owner reads a mailbox: if every strict signature comes from its key's owner and SHA-256 has no
  collisions on the keys in question, a request for the mailbox of a key passes only with a signature of that very
  key over that mailbox and a time within five minutes of the clock, or over the one timestamp where the
  difference overflows.\<close>

theorem mailbox_owner_only:
  assumes "\<forall>key data sig. au_verify_strict A key data sig = Inr () \<longrightarrow> (key, data) \<in> issued"
    and "\<forall>key. mailbox_token (au_sha256 A) key = mailbox_token (au_sha256 A) owner \<longrightarrow> key = owner"
    and "oq_mailbox_token r = mailbox_token (au_sha256 A) owner"
    and "clock_ok now" and "in_i64 (oq_auth_timestamp r)"
    and "verify_offline_request_auth A now r = Inr ()"
  shows "(owner, mailbox_token (au_sha256 A) owner @ i64_to_le (oq_auth_timestamp r)) \<in> issued \<and>
    (\<bar>now - oq_auth_timestamp r\<bar> \<le> 300 \<or> oq_auth_timestamp r = now - 2 ^ 63)"
proof -
  have c: "oq_mailbox_token r = mailbox_token (au_sha256 A) (oq_verifying_key r)" "drift now (oq_auth_timestamp r) \<le> 300"
    "au_verify_strict A (oq_verifying_key r) (auth_payload r) (oq_auth_signature r) = Inr ()"
    using assms(6) by (auto simp: verify_offline_request_auth_def split: if_splits sum.splits)
  then have "oq_verifying_key r = owner" using assms(2,3) by simp
  then show ?thesis
    using assms(1,3) c(2,3) drift_window [OF assms(4,5)] by (auto simp: auth_payload_def)
qed

text \<open>C40. Each way a mailbox request can be refused: the checks run in the order key length, key, mailbox,
  time, signature length, signature, and a request that passes them all is let through.\<close>

theorem mailbox_auth_errors:
  assumes "clock_ok now" and "in_i64 (oq_auth_timestamp r)"
  shows "verify_offline_request_auth A now r = Inr () \<longleftrightarrow>
    length (oq_verifying_key r) = 32 \<and> au_parse_key A (oq_verifying_key r) = Inr () \<and>
    oq_mailbox_token r = mailbox_token (au_sha256 A) (oq_verifying_key r) \<and>
    (\<bar>now - oq_auth_timestamp r\<bar> \<le> 300 \<or> oq_auth_timestamp r = now - 2 ^ 63) \<and>
    length (oq_auth_signature r) = 64 \<and>
    au_verify_strict A (oq_verifying_key r) (oq_mailbox_token r @ i64_to_le (oq_auth_timestamp r)) (oq_auth_signature r) = Inr ()"
proof -
  have "au_parse_key A k = Inr () \<longleftrightarrow> (\<exists>u. au_parse_key A k = Inr u)" for k by simp
  then show ?thesis
    unfolding drift_window [OF assms, symmetric]
    by (auto simp: verify_offline_request_auth_def auth_payload_def split: sum.splits)
qed

definition toy_auth :: "bytes \<Rightarrow> bytes \<Rightarrow> auth_crypto" where
  "toy_auth key data = \<lparr>au_sha256 = (\<lambda>bs. bs), au_parse_key = (\<lambda>_. Inr ()),
     au_verify_strict = (\<lambda>k d s. if k = key \<and> d = data then Inr () else Inl ''bad'')\<rparr>"

definition sample_auth_request :: offline_request where
  "sample_auth_request = (let key = replicate 32 7; t = mailbox_token (\<lambda>bs. bs) key in
     \<lparr>oq_mailbox_token = t, oq_since_timestamp = None, oq_limit = 5, oq_verifying_key = key,
      oq_auth_signature = replicate 64 0, oq_auth_timestamp = 1000\<rparr>)"

lemma sample_auth_passes: "verify_offline_request_auth (toy_auth (replicate 32 7) (auth_payload sample_auth_request)) 1100 sample_auth_request = Inr ()"
proof -
  have "drift 1100 1000 \<le> 300"
    using drift_window [of 1100 1000] by (simp add: clock_ok_def in_i64_def i64_min_def i64_max_def)
  then show ?thesis
    by (simp add: verify_offline_request_auth_def toy_auth_def sample_auth_request_def Let_def)
qed

theorem mailbox_owner_only_witness:
  "(replicate 32 7, auth_payload sample_auth_request) \<in> {(replicate 32 7, auth_payload sample_auth_request)} \<and>
   \<bar>1100 - oq_auth_timestamp sample_auth_request\<bar> \<le> 300"
proof -
  let ?A = "toy_auth (replicate 32 7) (auth_payload sample_auth_request)"
  have 1: "\<forall>key data sig. au_verify_strict ?A key data sig = Inr () \<longrightarrow> (key, data) \<in> {(replicate 32 7, auth_payload sample_auth_request)}"
    by (simp add: toy_auth_def)
  have 2: "\<forall>key. mailbox_token (au_sha256 ?A) key = mailbox_token (au_sha256 ?A) (replicate 32 7) \<longrightarrow> key = replicate 32 7"
    by (simp add: toy_auth_def mailbox_token_def)
  have 3: "oq_mailbox_token sample_auth_request = mailbox_token (au_sha256 ?A) (replicate 32 7)"
    by (simp add: toy_auth_def sample_auth_request_def Let_def)
  have 4: "clock_ok 1100" "in_i64 (oq_auth_timestamp sample_auth_request)"
    by (simp_all add: clock_ok_def sample_auth_request_def Let_def in_i64_def i64_min_def i64_max_def)
  show ?thesis
    using mailbox_owner_only [OF 1 2 3 4 sample_auth_passes]
    by (simp add: sample_auth_request_def Let_def)
qed

theorem mailbox_auth_errors_witness:
  "\<exists>e. verify_offline_request_auth (toy_auth (replicate 32 7) (auth_payload sample_auth_request)) 1100
     (sample_auth_request\<lparr>oq_mailbox_token := []\<rparr>) = Inl e"
proof -
  let ?A = "toy_auth (replicate 32 7) (auth_payload sample_auth_request)"
  have c: "clock_ok 1100" and t: "in_i64 (oq_auth_timestamp (sample_auth_request\<lparr>oq_mailbox_token := []\<rparr>))"
    by (simp_all add: clock_ok_def sample_auth_request_def Let_def in_i64_def i64_min_def i64_max_def)
  have "verify_offline_request_auth ?A 1100 (sample_auth_request\<lparr>oq_mailbox_token := []\<rparr>) \<noteq> Inr ()"
    using mailbox_auth_errors [OF c t, of ?A]
    by (simp add: sample_auth_request_def Let_def toy_auth_def mailbox_token_def)
  then show ?thesis by (metis old.unit.exhaust sum.exhaust)
qed

end
