(* ===== verification/Peer_Store.thy ===== *)
theory Peer_Store
  imports Sled Proto
begin

section \<open>The persistent routing table (\<open>variance-p2p/src/peer_store.rs\<close>)\<close>

text \<open>
  \<open>PeerStore\<close>: a tree from DIDs to peer ids. \<open>PeerId::to_bytes\<close> and \<open>from_bytes\<close> are a
  parameter, a codec. DIDs are written as text, so the keys are always valid UTF-8.
\<close>

definition peer_store_insert :: "'t sled \<Rightarrow> 'p codec \<Rightarrow> 't \<Rightarrow> did \<Rightarrow> 'p \<Rightarrow> 't" where
  "peer_store_insert S c t d p = sl_insert S t d (cd_encode c p)"

definition peer_store_get :: "'t sled \<Rightarrow> 'p codec \<Rightarrow> 't \<Rightarrow> did \<Rightarrow> 'p option" where
  "peer_store_get S c t d = (case sl_get S t d of Some bs \<Rightarrow> cd_decode c bs | None \<Rightarrow> None)"

definition peer_store_load_all :: "'t sled \<Rightarrow> 'p codec \<Rightarrow> 't \<Rightarrow> did \<rightharpoonup> 'p" where
  "peer_store_load_all S c t =
     map_of (List.map_filter (\<lambda>(k, v). case cd_decode c v of Some p \<Rightarrow> Some (k, p) | None \<Rightarrow> None) (sl_iter S t))"

definition peer_store_remove :: "'t sled \<Rightarrow> 't \<Rightarrow> did \<Rightarrow> 't" where
  "peer_store_remove S t d = sl_remove S t d"

definition peer_store_len :: "'t sled \<Rightarrow> 't \<Rightarrow> nat" where
  "peer_store_len S t = length (sl_iter S t)"

definition peer_store_is_empty :: "'t sled \<Rightarrow> 't \<Rightarrow> bool" where
  "peer_store_is_empty S t = (sl_iter S t = [])"

lemma peer_store_get_insert [store_simps]:
  "sled_ok S \<Longrightarrow> codec_ok c \<Longrightarrow> peer_store_get S c (peer_store_insert S c t d p) e = (if e = d then Some p else peer_store_get S c t e)"
  by (simp add: peer_store_get_def peer_store_insert_def sled_get_insert)

lemma peer_store_get_remove [store_simps]:
  "sled_ok S \<Longrightarrow> peer_store_get S c (peer_store_remove S t d) e = (if e = d then None else peer_store_get S c t e)"
  by (simp add: peer_store_get_def peer_store_remove_def sled_get_remove)

lemma peer_store_is_empty_iff: "peer_store_is_empty S t \<longleftrightarrow> peer_store_len S t = 0"
  by (simp add: peer_store_is_empty_def peer_store_len_def)

text \<open>What is loaded at a start is what single lookups find.\<close>

lemma load_all_get:
  assumes "sled_ok S"
  shows "peer_store_load_all S c t d = peer_store_get S c t d"
proof -
  let ?f = "\<lambda>(k, v). case cd_decode c v of Some p \<Rightarrow> Some (k, p) | None \<Rightarrow> None"
  have distinct: "distinct (map fst (sl_iter S t))"
    using sled_distinct [OF assms] by (simp add: rev_map [symmetric])
  have gen: "distinct (map fst xs) \<Longrightarrow> map_of (List.map_filter ?f xs) d = Option.bind (map_of xs d) (cd_decode c)" for xs
  proof (induction xs)
    case (Cons x xs)
    obtain k v where x: "x = (k, v)" by fastforce
    have "d \<notin> fst ` set xs \<Longrightarrow> map_of (List.map_filter ?f xs) d = None"
      using Cons by (simp add: map_of_eq_None_iff [THEN iffD2])
    then show ?case using Cons by (auto simp: x List.map_filter_simps split: option.splits)
  qed (simp add: List.map_filter_simps)
  show ?thesis
    using gen [OF distinct] by (simp add: peer_store_load_all_def peer_store_get_def sled_get_map_of [OF assms] bind_split split: option.splits)
qed

end
