(* ===== verification/Node_State.thy ===== *)
theory Node_State
  imports Call_Handler Mailbox_Auth Peer_Store Rate_Limiter Offline_Relay "HOL-Library.AList"
begin

section \<open>The P2P node: state and effects (\<open>variance-p2p/src/node\<close>)\<close>

text \<open>
  \<open>Node\<close> composes the handlers of the protocols with a rate limiter, the routing table from
  DIDs to connected peers, and the bookkeeping of requests in flight. libp2p is
  third-party: what a step asks of it is an \<open>action\<close> of its result, and what libp2p
  answers at once (request ids, who is connected, whether a publication worked) is a
  \<open>swarm\<close> argument. Peers are a type variable; request ids, query ids, response channels and
  oneshot senders are numbers. A \<open>tokio::spawn\<close> is an action too: the task runs later, as a
  step of its own. Logging is left out.
\<close>

subsection \<open>The outside\<close>

record ('p, 't, 'db, 'sk, 'xs, 'pc) node_env =
  ne_crypto :: "('sk, 'xs) did_crypto"
  ne_auth :: auth_crypto
  ne_peer_text :: "'p \<Rightarrow> string"
  ne_peer_codec :: "'p codec"
  ne_sled :: "'t sled"
  ne_webrtc :: "'pc webrtc"
  ne_offline :: "'db offline_storage"
  ne_show_error :: "msg_error \<Rightarrow> string"
  ne_group_codec :: "group_message codec"

record node_clock =
  ck_protocol_ns :: nat
  ck_global_ns :: nat
  ck_secs :: int
  ck_millis :: millis
  ck_nonce :: bytes

record 'p swarm =
  sw_connected :: "'p list"
  sw_request_id :: "nat \<Rightarrow> nat"
  sw_query_id :: nat
  sw_gossip :: "string option"
  sw_unsubscribed :: bool
  sw_provide :: "string option"

subsection \<open>Effects\<close>

datatype 'p node_event =
    IdentityRequestReceived 'p identity_request
  | IdentityResponseReceived 'p identity_response
  | DidCached did
  | PeerOffline did
  | FetchRequested 'p bytes nat
  | MessagesReceived 'p "offline_envelope list" bool
  | OfferReceived 'p string signaling_message
  | AnswerReceived 'p string signaling_message
  | IceCandidateReceived 'p string signaling_message
  | ControlReceived 'p string signaling_message
  | DirectReceived 'p direct_message
  | DeliveryNack 'p string string
  | DeliveryFailed string did
  | GroupReceived group_message
  | TypingReceived did string bool
  | ReceiptReceived read_receipt
  | PeerRenamed did string nat
  | SyncReceived string "group_message list" bool
  | SyncRequested 'p string did int nat nat
  | SyncFailed string string

datatype outbound =
    IdentityReq identity_request
  | SignalingReq signaling_message
  | DirectReq direct_message
  | TypingReq typing_indicator
  | RenameReq username_changed
  | GroupSyncReq group_sync_request
  | ReceiptReq read_receipt

datatype answer =
    IdentityAns identity_response
  | OfflineAns offline_response
  | SignalingAns signaling_message
  | DirectAns direct_message_ack
  | TypingAns
  | RenameAns
  | GroupSyncAns group_sync_response
  | ReceiptAns

datatype 'p reply =
    UnitReply "p2p_error + unit"
  | IdentityReply "p2p_error + identity_response"
  | PeersReply "p2p_error + 'p list"
  | FoundReply "p2p_error + identity_found"
  | DidsReply "did list"

datatype 'p task =
    LearnDocument 'p did_document bytes
  | LearnSender did 'p
  | RefreshOneTimeKeys "bytes list"
  | StoreUsername string nat
  | RefreshKeyPackage bytes

datatype 'p action =
    Emit "'p node_event"
  | Send nat 'p outbound
  | Respond nat answer
  | Reply nat "'p reply"
  | Spawn "'p task"
  | Dial 'p
  | DialAt 'p "string list"
  | AddAddress 'p string
  | ListenVia 'p
  | Publish string bytes
  | Subscribe string
  | Unsubscribe string
  | Provide bytes
  | GetProviders nat bytes

subsection \<open>State\<close>

record ('p, 't, 'db, 'sk, 'xs, 'pc) node =
  nd_peer_id :: 'p
  nd_local_did :: "did option"
  nd_identity :: "('sk, 'xs) identity_handler"
  nd_offline_db :: 'db
  nd_signaling :: "('sk, 'pc) signaling_state"
  nd_pending_identity :: "(nat \<times> nat) list"
  nd_pending_providers :: "(nat \<times> 'p list \<times> nat) list"
  nd_did_to_peer :: "(did \<times> 'p) list"
  nd_peer_store :: 't
  nd_pending_broadcasts :: "(did \<times> nat \<times> nat) list"
  nd_pending_resolves :: "(nat \<times> did) list"
  nd_pending_auto :: "(nat \<times> 'p) list"
  nd_reciprocal_attempted :: "'p list"
  nd_rate_limiter :: "'p peer_rate_limiter"
  nd_pending_dm_sends :: "(nat \<times> string \<times> did) list"
  nd_known_peers :: "('p \<times> string list) list"
  nd_relay_peers :: "'p list"
  nd_pending_relay_query :: "nat option"
  nd_pending_syncs :: "(nat \<times> nat \<times> string) list"

definition node_new ::
  "('p, 't, 'db, 'sk, 'xs, 'pc) node_env \<Rightarrow> 'p \<Rightarrow> 'db \<Rightarrow> 't \<Rightarrow> 'p list \<Rightarrow> ('p, 't, 'db, 'sk, 'xs, 'pc) node" where
  "node_new E p db store relays =
     \<lparr>nd_peer_id = p, nd_local_did = None, nd_identity = identity_handler_new (ne_peer_text E p), nd_offline_db = db,
      nd_signaling = signaling_state_new, nd_pending_identity = [], nd_pending_providers = [], nd_did_to_peer = [],
      nd_peer_store = store, nd_pending_broadcasts = [], nd_pending_resolves = [], nd_pending_auto = [],
      nd_reciprocal_attempted = [], nd_rate_limiter = rl_new, nd_pending_dm_sends = [], nd_known_peers = [],
      nd_relay_peers = relays,
      nd_pending_relay_query = None, nd_pending_syncs = []\<rparr>"

subsection \<open>Steps several handlers share\<close>

text \<open>The rate limit of one protocol: \<open>check(..).is_allowed()\<close>.\<close>

definition admit ::
  "node_clock \<Rightarrow> ('p, 't, 'db, 'sk, 'xs, 'pc) node \<Rightarrow> 'p \<Rightarrow> string \<Rightarrow> ('p, 't, 'db, 'sk, 'xs, 'pc) node \<times> bool" where
  "admit K N peer proto =
     (let (l, d) = rl_check (nd_rate_limiter N) peer proto (ck_protocol_ns K) (ck_global_ns K)
      in (N\<lparr>nd_rate_limiter := l\<rparr>, is_allowed d))"

text \<open>Learning that a DID is at a peer, in both routing tables.\<close>

definition learn_route ::
  "('p, 't, 'db, 'sk, 'xs, 'pc) node_env \<Rightarrow> ('p, 't, 'db, 'sk, 'xs, 'pc) node \<Rightarrow> did \<Rightarrow> 'p
     \<Rightarrow> ('p, 't, 'db, 'sk, 'xs, 'pc) node" where
  "learn_route E N d peer =
     N\<lparr>nd_did_to_peer := AList.update d peer (nd_did_to_peer N),
       nd_peer_store := peer_store_insert (ne_sled E) (ne_peer_codec E) (nd_peer_store N) d peer\<rparr>"

definition learn_sender ::
  "('p, 't, 'db, 'sk, 'xs, 'pc) node_env \<Rightarrow> ('p, 't, 'db, 'sk, 'xs, 'pc) node \<Rightarrow> did \<Rightarrow> 'p
     \<Rightarrow> ('p, 't, 'db, 'sk, 'xs, 'pc) node \<times> 'p action list" where
  "learn_sender E N d peer =
     (let is_new = (map_of (nd_did_to_peer N) d \<noteq> Some peer)
      in (learn_route E N d peer, if is_new then [Emit (DidCached d)] else []))"

text \<open>Where a message for a DID goes: the table in memory, then the store.\<close>

definition route ::
  "('p, 't, 'db, 'sk, 'xs, 'pc) node_env \<Rightarrow> ('p, 't, 'db, 'sk, 'xs, 'pc) node \<Rightarrow> did \<Rightarrow> 'p option" where
  "route E N d =
     (case map_of (nd_did_to_peer N) d of
        Some p \<Rightarrow> Some p
      | None \<Rightarrow> peer_store_get (ne_sled E) (ne_peer_codec E) (nd_peer_store N) d)"

text \<open>An address of a peer is kept for the periodic reconnection.\<close>

definition known_address ::
  "('p, 't, 'db, 'sk, 'xs, 'pc) node \<Rightarrow> 'p \<Rightarrow> string \<Rightarrow> ('p, 't, 'db, 'sk, 'xs, 'pc) node" where
  "known_address N peer addr =
     (let known = (case map_of (nd_known_peers N) peer of Some as \<Rightarrow> as | None \<Rightarrow> [])
      in N\<lparr>nd_known_peers := AList.update peer (if addr \<in> set known then known else known @ [addr]) (nd_known_peers N)\<rparr>)"

text \<open>\<open>*remaining -= 1\<close> on a \<open>usize\<close>, as a release build computes it.\<close>

definition usize_pred :: "nat \<Rightarrow> nat" where
  "usize_pred n = (if n = 0 then 2 ^ 64 - 1 else n - 1)"

text \<open>One of the requests of a broadcast came to nothing.\<close>

definition broadcast_missed ::
  "('p, 't, 'db, 'sk, 'xs, 'pc) node \<Rightarrow> did \<Rightarrow> ('p, 't, 'db, 'sk, 'xs, 'pc) node \<times> 'p action list" where
  "broadcast_missed N d =
     (case map_of (nd_pending_broadcasts N) d of
        None \<Rightarrow> (N, [])
      | Some (remaining, tx) \<Rightarrow>
          (let remaining = usize_pred remaining
           in if remaining = 0
              then (N\<lparr>nd_pending_broadcasts := AList.delete d (nd_pending_broadcasts N)\<rparr>,
                    [Reply tx (FoundReply (Inl (ENodeProtocol (''DID not found on any connected peer: '' @ d))))])
              else (N\<lparr>nd_pending_broadcasts := AList.update d (remaining, tx) (nd_pending_broadcasts N)\<rparr>, [])))"

end
