(* ===== verification/Node_Events.thy ===== *)
theory Node_Events
  imports Node_State
begin

section \<open>Incoming events (\<open>variance-p2p/src/node/event_handlers.rs\<close>)\<close>

text \<open>
  One definition per handler of a swarm event. Each takes the state and returns it updated,
  with the actions in the order the code performs them. The handlers that only log are not
  listed.
\<close>

subsection \<open>Kademlia\<close>

text \<open>\<open>GetProviders\<close> with found providers: new relays are dialled, and the answer of a query grows.\<close>

fun dial_relays :: "'p list \<Rightarrow> 'p list \<Rightarrow> 'p list \<times> 'p action list" where
  "dial_relays known [] = (known, [])"
| "dial_relays known (p # ps) =
     (if p \<in> set known then dial_relays known ps
      else let (k, as) = dial_relays (known @ [p]) ps in (k, Dial p # as))"

definition on_found_providers ::
  "('p, 't, 'db, 'sk, 'xs, 'pc) node \<Rightarrow> nat \<Rightarrow> 'p list \<Rightarrow> ('p, 't, 'db, 'sk, 'xs, 'pc) node \<times> 'p action list" where
  "on_found_providers N qid providers =
     (let (relays, as) = (if nd_pending_relay_query N = Some qid then dial_relays (nd_relay_peers N) providers
                          else (nd_relay_peers N, []));
          N = N\<lparr>nd_relay_peers := relays\<rparr>
      in case map_of (nd_pending_providers N) qid of
           Some (peers, tx) \<Rightarrow>
             (N\<lparr>nd_pending_providers := AList.update qid (peers @ providers, tx) (nd_pending_providers N)\<rparr>, as)
         | None \<Rightarrow> (N, as))"

definition finish_providers ::
  "('p, 't, 'db, 'sk, 'xs, 'pc) node \<Rightarrow> nat \<Rightarrow> ('p list \<Rightarrow> p2p_error + 'p list)
     \<Rightarrow> ('p, 't, 'db, 'sk, 'xs, 'pc) node \<times> 'p action list" where
  "finish_providers N qid result =
     (let N = (if nd_pending_relay_query N = Some qid then N\<lparr>nd_pending_relay_query := None\<rparr> else N)
      in case map_of (nd_pending_providers N) qid of
           Some (peers, tx) \<Rightarrow>
             (N\<lparr>nd_pending_providers := AList.delete qid (nd_pending_providers N)\<rparr>, [Reply tx (PeersReply (result peers))])
         | None \<Rightarrow> (N, []))"

definition on_providers_finished ::
  "('p, 't, 'db, 'sk, 'xs, 'pc) node \<Rightarrow> nat \<Rightarrow> ('p, 't, 'db, 'sk, 'xs, 'pc) node \<times> 'p action list" where
  "on_providers_finished N qid = finish_providers N qid (\<lambda>peers. Inr peers)"

definition on_providers_error ::
  "('p, 't, 'db, 'sk, 'xs, 'pc) node \<Rightarrow> nat \<Rightarrow> string \<Rightarrow> ('p, 't, 'db, 'sk, 'xs, 'pc) node \<times> 'p action list" where
  "on_providers_error N qid e = finish_providers N qid (\<lambda>_. Inl (EKad (''get_providers failed: '' @ e)))"

subsection \<open>Gossip\<close>

definition on_gossip ::
  "('p, 't, 'db, 'sk, 'xs, 'pc) node_env \<Rightarrow> node_clock \<Rightarrow> ('p, 't, 'db, 'sk, 'xs, 'pc) node \<Rightarrow> 'p \<Rightarrow> bytes
     \<Rightarrow> ('p, 't, 'db, 'sk, 'xs, 'pc) node \<times> 'p action list" where
  "on_gossip E K N propagation_source data =
     (let (N, allowed) = admit K N propagation_source ''direct_messages''
      in if \<not> allowed then (N, [])
         else case cd_decode (ne_group_codec E) data of
             None \<Rightarrow> (N, [])
           | Some group_msg \<Rightarrow>
               (N, (if gm_sender_did group_msg \<noteq> [] then [Spawn (LearnSender (gm_sender_did group_msg) propagation_source)] else [])
                   @ [Emit (GroupReceived group_msg)]))"

subsection \<open>Discovery\<close>

fun on_mdns_discovered ::
  "('p, 't, 'db, 'sk, 'xs, 'pc) node \<Rightarrow> ('p \<times> string) list \<Rightarrow> ('p, 't, 'db, 'sk, 'xs, 'pc) node \<times> 'p action list" where
  "on_mdns_discovered N [] = (N, [])"
| "on_mdns_discovered N ((peer, addr) # ps) =
     (let (N', as) = on_mdns_discovered (known_address N peer addr) ps
      in (N', [AddAddress peer addr, DialAt peer [addr]] @ as))"

definition on_identified ::
  "('p, 't, 'db, 'sk, 'xs, 'pc) node \<Rightarrow> 'p \<Rightarrow> string list \<Rightarrow> ('p, 't, 'db, 'sk, 'xs, 'pc) node \<times> 'p action list" where
  "on_identified N peer listen_addrs =
     (let known = (case map_of (nd_known_peers N) peer of Some as \<Rightarrow> as | None \<Rightarrow> [])
      in (foldl (\<lambda>N addr. known_address N peer addr)
            (N\<lparr>nd_known_peers := AList.update peer known (nd_known_peers N)\<rparr>) listen_addrs,
          map (AddAddress peer) listen_addrs))"

subsection \<open>Identity\<close>

definition rate_limited_identity :: "int \<Rightarrow> identity_response" where
  "rate_limited_identity now = identity_error_response now ''rate_limited'' ''Too many requests, retry later''"

definition reciprocal_query ::
  "('p, 't, 'db, 'sk, 'xs, 'pc) node_env \<Rightarrow> node_clock \<Rightarrow> 'p swarm \<Rightarrow> ('p, 't, 'db, 'sk, 'xs, 'pc) node \<Rightarrow> 'p
     \<Rightarrow> ('p, 't, 'db, 'sk, 'xs, 'pc) node \<times> 'p action list" where
  "reciprocal_query E K S N peer =
     (if peer \<notin> set (nd_reciprocal_attempted N) \<and> peer \<notin> snd ` set (nd_pending_auto N)
         \<and> peer \<notin> snd ` set (nd_did_to_peer N)
      then let req_id = sw_request_id S 0
           in (N\<lparr>nd_reciprocal_attempted := nd_reciprocal_attempted N @ [peer],
                 nd_pending_auto := AList.update req_id peer (nd_pending_auto N)\<rparr>,
               [Send req_id peer (IdentityReq (create_peer_id_request (ck_secs K) (ne_peer_text E peer) None))])
      else (N, []))"

definition on_identity_request ::
  "('p, 't, 'db, 'sk, 'xs, 'pc) node_env \<Rightarrow> node_clock \<Rightarrow> 'p swarm \<Rightarrow> ('p, 't, 'db, 'sk, 'xs, 'pc) node
     \<Rightarrow> 'p \<Rightarrow> identity_request \<Rightarrow> nat \<Rightarrow> ('p, 't, 'db, 'sk, 'xs, 'pc) node \<times> 'p action list" where
  "on_identity_request E K S N peer request channel =
     (let (N, allowed) = admit K N peer ''identity''
      in if \<not> allowed then (N, [Respond channel (IdentityAns (rate_limited_identity (ck_secs K)))])
         else
           let (N', as) = reciprocal_query E K S N peer
           in (N', [Emit (IdentityRequestReceived peer request),
                    Respond channel (IdentityAns (identity_handle_request (nd_identity N) (ck_secs K) request))] @ as))"

definition complete_identity ::
  "('p, 't, 'db, 'sk, 'xs, 'pc) node \<Rightarrow> nat \<Rightarrow> p2p_error + identity_response
     \<Rightarrow> ('p, 't, 'db, 'sk, 'xs, 'pc) node \<times> 'p action list" where
  "complete_identity N rid result =
     (case map_of (nd_pending_identity N) rid of
        Some tx \<Rightarrow> (N\<lparr>nd_pending_identity := AList.delete rid (nd_pending_identity N)\<rparr>, [Reply tx (IdentityReply result)])
      | None \<Rightarrow> (N, []))"

definition broadcast_response ::
  "('p, 't, 'db, 'sk, 'xs, 'pc) node \<Rightarrow> nat \<Rightarrow> identity_result option
     \<Rightarrow> ('p, 't, 'db, 'sk, 'xs, 'pc) node \<times> 'p action list" where
  "broadcast_response N rid result =
     (case map_of (nd_pending_resolves N) rid of
        None \<Rightarrow> (N, [])
      | Some d \<Rightarrow>
          (let N = N\<lparr>nd_pending_resolves := AList.delete rid (nd_pending_resolves N)\<rparr>
           in case result of
                Some (Found found) \<Rightarrow>
                  (N\<lparr>nd_pending_broadcasts := AList.delete d (nd_pending_broadcasts N),
                     nd_pending_resolves := filter (\<lambda>(_, v). v \<noteq> d) (nd_pending_resolves N)\<rparr>,
                   (case map_of (nd_pending_broadcasts N) d of
                      Some (_, tx) \<Rightarrow> [Reply tx (FoundReply (Inr found))] | None \<Rightarrow> []))
              | _ \<Rightarrow> broadcast_missed N d))"

definition on_identity_response ::
  "('p, 't, 'db, 'sk, 'xs, 'pc) node \<Rightarrow> 'p \<Rightarrow> nat \<Rightarrow> identity_response
     \<Rightarrow> ('p, 't, 'db, 'sk, 'xs, 'pc) node \<times> 'p action list" where
  "on_identity_response N peer rid response =
     (let (N, as1) = complete_identity N rid (Inr response);
          N = N\<lparr>nd_pending_auto := AList.delete rid (nd_pending_auto N)\<rparr>;
          (N, as2) = broadcast_response N rid (ir_result response);
          as3 = (case ir_result response of
                   Some (Found found) \<Rightarrow>
                     (case if_did_document found of
                        Some did_doc \<Rightarrow> [Spawn (LearnDocument peer did_doc (if_document_signature found))]
                      | None \<Rightarrow> [])
                 | _ \<Rightarrow> [])
      in (N, as1 @ as2 @ [Emit (IdentityResponseReceived peer response)] @ as3))"

definition on_identity_failure ::
  "('p, 't, 'db, 'sk, 'xs, 'pc) node_env \<Rightarrow> ('p, 't, 'db, 'sk, 'xs, 'pc) node \<Rightarrow> 'p \<Rightarrow> nat \<Rightarrow> string
     \<Rightarrow> ('p, 't, 'db, 'sk, 'xs, 'pc) node \<times> 'p action list" where
  "on_identity_failure E N peer rid err =
     (let (N, as1) = complete_identity N rid
            (Inl (ENodeProtocol (''Identity request to '' @ ne_peer_text E peer @ '' failed: '' @ err)))
      in case map_of (nd_pending_resolves N) rid of
           None \<Rightarrow> (N, as1)
         | Some d \<Rightarrow>
             (let (N, as2) = broadcast_missed (N\<lparr>nd_pending_resolves := AList.delete rid (nd_pending_resolves N)\<rparr>) d
              in (N, as1 @ as2)))"

text \<open>The tasks that handlers and commands spawn.\<close>

fun run_task ::
  "('p, 't, 'db, 'sk, 'xs, 'pc) node_env \<Rightarrow> ('p, 't, 'db, 'sk, 'xs, 'pc) node \<Rightarrow> 'p task
     \<Rightarrow> ('p, 't, 'db, 'sk, 'xs, 'pc) node \<times> 'p action list" where
  "run_task E N (LearnDocument peer did_doc sig) =
     (let d = from_proto_with_signature did_doc (Some sig)
      in case verify_document (ne_crypto E) d of
           Inl _ \<Rightarrow> (N, [])
         | Inr _ \<Rightarrow>
             (let N = learn_route E N (dd_id did_doc) peer
              in (N\<lparr>nd_identity := cache_did (nd_identity N) d\<rparr>, [Emit (DidCached (dd_id did_doc))])))"
| "run_task E N (LearnSender d peer) = learn_sender E N d peer"
| "run_task E N (RefreshOneTimeKeys ks) = (N\<lparr>nd_identity := update_one_time_keys (nd_identity N) ks\<rparr>, [])"
| "run_task E N (StoreUsername u n) = (N\<lparr>nd_identity := set_local_username (nd_identity N) u n\<rparr>, [])"
| "run_task E N (RefreshKeyPackage kp) = (N\<lparr>nd_identity := update_mls_key_package (nd_identity N) kp\<rparr>, [])"

subsection \<open>Offline messages\<close>

definition offline_nack :: "string \<Rightarrow> string \<Rightarrow> offline_response" where
  "offline_nack code text =
     \<lparr>or_messages = [], or_has_more = False, or_next_cursor = None, or_error_code = Some code, or_error_message = Some text\<rparr>"

definition on_offline_request ::
  "('p, 't, 'db, 'sk, 'xs, 'pc) node_env \<Rightarrow> node_clock \<Rightarrow> ('p, 't, 'db, 'sk, 'xs, 'pc) node
     \<Rightarrow> 'p \<Rightarrow> offline_request \<Rightarrow> nat \<Rightarrow> ('p, 't, 'db, 'sk, 'xs, 'pc) node \<times> 'p action list" where
  "on_offline_request E K N peer request channel =
     (let (N, allowed) = admit K N peer ''offline_messages''
      in if \<not> allowed then (N, [Respond channel (OfflineAns (offline_nack ''rate_limited'' ''Too many requests, retry later''))])
         else case verify_offline_request_auth (ne_auth E) (ck_secs K) request of
             Inl reason \<Rightarrow> (N, [Respond channel (OfflineAns (offline_nack ''auth_failed'' reason))])
           | Inr _ \<Rightarrow>
               (N, [Emit (FetchRequested peer (oq_mailbox_token request) (oq_limit request)),
                    Respond channel (OfflineAns (offline_handle_request (ne_show_error E) (ne_offline E) (nd_offline_db N) request))]))"

definition on_offline_response :: "'p \<Rightarrow> offline_response \<Rightarrow> 'p action list" where
  "on_offline_response peer response = [Emit (MessagesReceived peer (or_messages response) (or_has_more response))]"

subsection \<open>Signaling\<close>

definition emit_signaling_event :: "signaling_message \<Rightarrow> 'p \<Rightarrow> 'p action list" where
  "emit_signaling_event m peer =
     (case sg_message m of
        Some (Offer _ _) \<Rightarrow> [Emit (OfferReceived peer (sg_call_id m) m)]
      | Some (Answer _) \<Rightarrow> [Emit (AnswerReceived peer (sg_call_id m) m)]
      | Some (IceCandidate _ _ _) \<Rightarrow> [Emit (IceCandidateReceived peer (sg_call_id m) m)]
      | Some (CallControl _ _) \<Rightarrow> [Emit (ControlReceived peer (sg_call_id m) m)]
      | None \<Rightarrow> [])"

definition peer_did_of ::
  "('p, 't, 'db, 'sk, 'xs, 'pc) node_env \<Rightarrow> ('p, 't, 'db, 'sk, 'xs, 'pc) node \<Rightarrow> 'p \<Rightarrow> did" where
  "peer_did_of E N peer =
     (case find (\<lambda>(_, pid). pid = peer) (nd_did_to_peer N) of Some (d, _) \<Rightarrow> d | None \<Rightarrow> ne_peer_text E peer)"

definition on_signaling_request ::
  "('p, 't, 'db, 'sk, 'xs, 'pc) node_env \<Rightarrow> node_clock \<Rightarrow> ('p, 't, 'db, 'sk, 'xs, 'pc) node
     \<Rightarrow> 'p \<Rightarrow> signaling_message \<Rightarrow> nat \<Rightarrow> ('p, 't, 'db, 'sk, 'xs, 'pc) node \<times> 'p action list" where
  "on_signaling_request E K N peer request channel =
     (let (N, allowed) = admit K N peer ''signaling''
      in if \<not> allowed then (N, [])
         else
           let (S, r) = handle_message (ne_crypto E) (ne_webrtc E) (ck_millis K) (ck_nonce K) (nd_identity N) (nd_signaling N)
                 (peer_did_of E N peer) request
           in (N\<lparr>nd_signaling := S\<rparr>,
               emit_signaling_event request peer
               @ (case r of Inr response \<Rightarrow> [Respond channel (SignalingAns response)] | Inl _ \<Rightarrow> [])))"

definition on_signaling_response :: "'p \<Rightarrow> signaling_message \<Rightarrow> 'p action list" where
  "on_signaling_response peer response = emit_signaling_event response peer"

subsection \<open>Direct messages\<close>

definition on_direct_request ::
  "('p, 't, 'db, 'sk, 'xs, 'pc) node_env \<Rightarrow> node_clock \<Rightarrow> ('p, 't, 'db, 'sk, 'xs, 'pc) node
     \<Rightarrow> 'p \<Rightarrow> direct_message \<Rightarrow> nat \<Rightarrow> ('p, 't, 'db, 'sk, 'xs, 'pc) node \<times> 'p action list" where
  "on_direct_request E K N peer request channel =
     (let (N, allowed) = admit K N peer ''direct_messages''
      in if \<not> allowed
         then (N, [Respond channel (DirectAns \<lparr>da_message_id = dm_id request, da_error = Some ''rate_limited''\<rparr>)])
         else
           let (N, as) = (if dm_sender_did request \<noteq> [] then learn_sender E N (dm_sender_did request) peer else (N, []))
           in (N, as @ [Emit (DirectReceived peer request),
                        Respond channel (DirectAns \<lparr>da_message_id = dm_id request, da_error = None\<rparr>)]))"

definition on_direct_response ::
  "('p, 't, 'db, 'sk, 'xs, 'pc) node \<Rightarrow> 'p \<Rightarrow> nat \<Rightarrow> direct_message_ack
     \<Rightarrow> ('p, 't, 'db, 'sk, 'xs, 'pc) node \<times> 'p action list" where
  "on_direct_response N peer rid response =
     (N\<lparr>nd_pending_dm_sends := AList.delete rid (nd_pending_dm_sends N)\<rparr>,
      (case da_error response of
         Some err \<Rightarrow> [Emit (DeliveryNack peer (da_message_id response) err)] | None \<Rightarrow> []))"

definition on_direct_failure ::
  "('p, 't, 'db, 'sk, 'xs, 'pc) node \<Rightarrow> nat \<Rightarrow> ('p, 't, 'db, 'sk, 'xs, 'pc) node \<times> 'p action list" where
  "on_direct_failure N rid =
     (N\<lparr>nd_pending_dm_sends := AList.delete rid (nd_pending_dm_sends N)\<rparr>,
      (case map_of (nd_pending_dm_sends N) rid of
         Some (message_id, recipient) \<Rightarrow> [Emit (DeliveryFailed message_id recipient)] | None \<Rightarrow> []))"

subsection \<open>Typing, receipts and renames\<close>

definition on_typing_request ::
  "node_clock \<Rightarrow> ('p, 't, 'db, 'sk, 'xs, 'pc) node \<Rightarrow> 'p \<Rightarrow> typing_indicator \<Rightarrow> nat
     \<Rightarrow> ('p, 't, 'db, 'sk, 'xs, 'pc) node \<times> 'p action list" where
  "on_typing_request K N peer request channel =
     (let (N, allowed) = admit K N peer ''typing_indicators''
      in if \<not> allowed then (N, [])
         else
           let recipient = (case ti_recipient request of
                 Some (RecipientDid d) \<Rightarrow> d | Some (GroupId i) \<Rightarrow> ''group:'' @ i | None \<Rightarrow> ti_sender_did request)
           in (N, [Emit (TypingReceived (ti_sender_did request) recipient (ti_is_typing request)), Respond channel TypingAns]))"

definition on_receipt_request :: "read_receipt \<Rightarrow> nat \<Rightarrow> 'p action list" where
  "on_receipt_request request channel = [Emit (ReceiptReceived request), Respond channel ReceiptAns]"

definition rename_payload :: "did \<Rightarrow> string \<Rightarrow> nat \<Rightarrow> int \<Rightarrow> bytes" where
  "rename_payload d username discriminator timestamp =
     as_bytes d @ as_bytes username @ le_bytes 4 (int discriminator) @ i64_to_le timestamp"

definition rename_valid ::
  "('sk, 'xs) did_crypto \<Rightarrow> ('sk, 'xs) identity_handler \<Rightarrow> username_changed \<Rightarrow> bool" where
  "rename_valid C H r =
     (case get_cached_did H (rn_did r) of
        Some d \<Rightarrow>
          length (rn_signature r) = 64 \<and>
          (case get_verifying_key C d of
             Inr vk \<Rightarrow> dc_verify C vk (rename_payload (rn_did r) (rn_username r) (rn_discriminator r) (rn_timestamp r)) (rn_signature r)
           | Inl _ \<Rightarrow> False)
      | None \<Rightarrow> True)"

definition on_rename_request ::
  "('p, 't, 'db, 'sk, 'xs, 'pc) node_env \<Rightarrow> node_clock \<Rightarrow> ('p, 't, 'db, 'sk, 'xs, 'pc) node
     \<Rightarrow> 'p \<Rightarrow> username_changed \<Rightarrow> nat \<Rightarrow> ('p, 't, 'db, 'sk, 'xs, 'pc) node \<times> 'p action list" where
  "on_rename_request E K N peer request channel =
     (let (N, allowed) = admit K N peer ''rename''
      in if \<not> allowed then (N, [])
         else if rn_signature request = [] \<or> rn_timestamp request = 0 then (N, [])
         else if drift (ck_secs K) (rn_timestamp request) > 300 then (N, [])
         else if \<not> rename_valid (ne_crypto E) (nd_identity N) request then (N, [])
         else (N, [Emit (PeerRenamed (rn_did request) (rn_username request) (rn_discriminator request)),
                   Respond channel RenameAns]))"

subsection \<open>Group history\<close>

definition on_sync_request ::
  "node_clock \<Rightarrow> ('p, 't, 'db, 'sk, 'xs, 'pc) node \<Rightarrow> 'p \<Rightarrow> group_sync_request \<Rightarrow> nat \<Rightarrow> nat
     \<Rightarrow> ('p, 't, 'db, 'sk, 'xs, 'pc) node \<times> 'p action list" where
  "on_sync_request K N peer request rid channel =
     (let (N, allowed) = admit K N peer ''group_sync''
      in if \<not> allowed
         then (N, [Respond channel (GroupSyncAns \<lparr>gs_messages = [], gs_has_more = False, gs_error_code = Some ''429'',
                 gs_error_message = Some ''Rate limited''\<rparr>)])
         else (N\<lparr>nd_pending_syncs := AList.update rid (channel, gq_group_id request) (nd_pending_syncs N)\<rparr>,
               [Emit (SyncRequested peer (gq_group_id request) (gq_requester_did request) (gq_since_timestamp request)
                  (gq_limit request) rid)]))"

definition on_sync_response :: "group_sync_response \<Rightarrow> 'p action list" where
  "on_sync_response response =
     (if gs_error_code response \<noteq> None
      then [Emit (SyncFailed [] (case gs_error_message response of Some m \<Rightarrow> m | None \<Rightarrow> []))]
      else [Emit (SyncReceived (case gs_messages response of m # _ \<Rightarrow> gm_group_id m | [] \<Rightarrow> [])
              (gs_messages response) (gs_has_more response))])"

definition on_sync_outbound_failure :: "string \<Rightarrow> 'p action list" where
  "on_sync_outbound_failure err = [Emit (SyncFailed [] (''Outbound failure: '' @ err))]"

definition on_sync_inbound_failure ::
  "('p, 't, 'db, 'sk, 'xs, 'pc) node \<Rightarrow> nat \<Rightarrow> ('p, 't, 'db, 'sk, 'xs, 'pc) node" where
  "on_sync_inbound_failure N rid = N\<lparr>nd_pending_syncs := AList.delete rid (nd_pending_syncs N)\<rparr>"

subsection \<open>Connections\<close>

definition on_connection_established ::
  "('p, 't, 'db, 'sk, 'xs, 'pc) node_env \<Rightarrow> node_clock \<Rightarrow> 'p swarm \<Rightarrow> ('p, 't, 'db, 'sk, 'xs, 'pc) node \<Rightarrow> 'p
     \<Rightarrow> ('p, 't, 'db, 'sk, 'xs, 'pc) node \<times> 'p action list" where
  "on_connection_established E K S N peer =
     (let rid = sw_request_id S 0
      in (N\<lparr>nd_pending_auto := AList.update rid peer (nd_pending_auto N)\<rparr>,
          [Send rid peer (IdentityReq (create_peer_id_request (ck_secs K) (ne_peer_text E peer) None))]
          @ (if peer \<in> set (nd_relay_peers N) then [ListenVia peer] else [])))"

definition on_connection_closed ::
  "('p, 't, 'db, 'sk, 'xs, 'pc) node \<Rightarrow> 'p \<Rightarrow> ('p, 't, 'db, 'sk, 'xs, 'pc) node \<times> 'p action list" where
  "on_connection_closed N peer =
     (let offline_dids = map fst (filter (\<lambda>(_, v). v = peer) (nd_did_to_peer N))
      in (N\<lparr>nd_rate_limiter := rl_remove_peer (nd_rate_limiter N) peer,
            nd_reciprocal_attempted := filter (\<lambda>p. p \<noteq> peer) (nd_reciprocal_attempted N),
            nd_did_to_peer := fold AList.delete offline_dids (nd_did_to_peer N)\<rparr>,
          map (\<lambda>d. Emit (PeerOffline d)) offline_dids))"

end
