(* ===== verification/Node_Commands.thy ===== *)
theory Node_Commands
  imports Node_Events
begin

section \<open>Commands of the application (\<open>variance-p2p/src/node/mod.rs\<close>)\<close>

text \<open>
  \<open>handle_command\<close>, one equation per command, and the two periodic jobs. The message of a
  publication is encoded by the codec of the environment.
\<close>

datatype ('p, 'sk, 'xs) node_command =
    SendIdentityRequest 'p identity_request nat
  | SendSignalingMessage did signaling_message nat
  | PublishGroupMessage string group_message nat
  | SubscribeToTopic string nat
  | UnsubscribeFromTopic string nat
  | ProvideUsername bytes nat
  | FindUsernameProviders bytes nat
  | SetLocalIdentity did bytes "bytes list" "bytes option" bytes "('sk, 'xs) did_identity option"
  | UpdateOneTimeKeys "bytes list"
  | SetLocalUsername string nat
  | ResolveIdentityByDid did nat
  | SendDirectMessage did direct_message nat
  | GetConnectedDids nat
  | SendTypingIndicator did typing_indicator
  | BroadcastGroupTyping "did list" typing_indicator
  | BroadcastUsernameChange did string nat "'sk option"
  | RequestGroupSync did string int nat nat
  | RespondGroupSync nat group_sync_response
  | UpdateMlsKeyPackage bytes
  | SendReceipt did read_receipt

definition unknown_peer :: "did \<Rightarrow> p2p_error" where
  "unknown_peer d = ENodeProtocol (''Unknown peer DID: '' @ d)"

definition peer_not_connected :: "did \<Rightarrow> p2p_error" where
  "peer_not_connected d = ENodeProtocol (''Peer not connected: '' @ d)"

definition unit_result :: "(string \<Rightarrow> p2p_error) \<Rightarrow> string option \<Rightarrow> 'p reply" where
  "unit_result err r = UnitReply (case r of None \<Rightarrow> Inr () | Some e \<Rightarrow> Inl (err e))"

text \<open>One request to every peer of a list, with the request ids in order.\<close>

definition send_each :: "'p swarm \<Rightarrow> 'p list \<Rightarrow> outbound \<Rightarrow> 'p action list" where
  "send_each S peers m = map (\<lambda>i. Send (sw_request_id S i) (peers ! i) m) [0..<length peers]"

definition requery_peers ::
  "('p, 't, 'db, 'sk, 'xs, 'pc) node_env \<Rightarrow> node_clock \<Rightarrow> 'p swarm \<Rightarrow> ('p, 't, 'db, 'sk, 'xs, 'pc) node
     \<Rightarrow> ('p, 't, 'db, 'sk, 'xs, 'pc) node \<times> 'p action list" where
  "requery_peers E K S N =
     (let peers = filter (\<lambda>p. p \<notin> snd ` set (nd_did_to_peer N)) (sw_connected S);
          ids = map (sw_request_id S) [0..<length peers]
      in (N\<lparr>nd_pending_auto := fold (\<lambda>(rid, p). AList.update rid p) (zip ids peers) (nd_pending_auto N)\<rparr>,
          map (\<lambda>(rid, p). Send rid p (IdentityReq (create_peer_id_request (ck_secs K) (ne_peer_text E p) None))) (zip ids peers)))"

definition resolve_broadcast ::
  "node_clock \<Rightarrow> 'p swarm \<Rightarrow> ('p, 't, 'db, 'sk, 'xs, 'pc) node \<Rightarrow> did \<Rightarrow> nat
     \<Rightarrow> ('p, 't, 'db, 'sk, 'xs, 'pc) node \<times> 'p action list" where
  "resolve_broadcast K S N d tx =
     (let peers = sw_connected S
      in if peers = []
         then (N, [Reply tx (FoundReply (Inl (ENodeProtocol (''Cannot resolve '' @ d @ '': no peers connected''))))])
         else (N\<lparr>nd_pending_broadcasts := AList.update d (length peers, tx) (nd_pending_broadcasts N),
                 nd_pending_resolves := fold (\<lambda>rid. AList.update rid d)
                   (map (sw_request_id S) [0..<length peers]) (nd_pending_resolves N)\<rparr>,
               send_each S peers (IdentityReq (create_did_request (ck_secs K) d None))))"

definition send_direct ::
  "('p, 't, 'db, 'sk, 'xs, 'pc) node_env \<Rightarrow> 'p swarm \<Rightarrow> ('p, 't, 'db, 'sk, 'xs, 'pc) node \<Rightarrow> did \<Rightarrow> direct_message \<Rightarrow> nat
     \<Rightarrow> ('p, 't, 'db, 'sk, 'xs, 'pc) node \<times> 'p action list" where
  "send_direct E S N peer_did m tx =
     (if nd_local_did N = Some peer_did
      then (N, [Emit (DirectReceived (nd_peer_id N) m), Reply tx (UnitReply (Inr ()))])
      else case route E N peer_did of
          None \<Rightarrow> (N, [Reply tx (UnitReply (Inl (unknown_peer peer_did)))])
        | Some peer \<Rightarrow>
            if peer \<notin> set (sw_connected S)
            then (N, [Reply tx (UnitReply (Inl (peer_not_connected peer_did)))])
            else (N\<lparr>nd_pending_dm_sends :=
                      AList.update (sw_request_id S 0) (dm_id m, peer_did) (nd_pending_dm_sends N)\<rparr>,
                  [Send (sw_request_id S 0) peer (DirectReq m), Reply tx (UnitReply (Inr ()))]))"

text \<open>The members of a group that a typing notice reaches, in order.\<close>

definition typing_targets ::
  "('p, 't, 'db, 'sk, 'xs, 'pc) node_env \<Rightarrow> ('p, 't, 'db, 'sk, 'xs, 'pc) node \<Rightarrow> did list \<Rightarrow> 'p list" where
  "typing_targets E N dids =
     List.map_filter (\<lambda>d. if nd_local_did N = Some d then None else route E N d) dids"

definition send_typing_indicator ::
  "('p, 't, 'db, 'sk, 'xs, 'pc) node_env \<Rightarrow> 'p swarm \<Rightarrow> ('p, 't, 'db, 'sk, 'xs, 'pc) node \<Rightarrow> did \<Rightarrow> typing_indicator \<Rightarrow> 'p action list" where
  "send_typing_indicator E S N peer_did indicator =
     (case route E N peer_did of Some peer \<Rightarrow> [Send (sw_request_id S 0) peer (TypingReq indicator)] | None \<Rightarrow> [])"

definition broadcast_group_typing ::
  "('p, 't, 'db, 'sk, 'xs, 'pc) node_env \<Rightarrow> 'p swarm \<Rightarrow> ('p, 't, 'db, 'sk, 'xs, 'pc) node \<Rightarrow> did list \<Rightarrow> typing_indicator \<Rightarrow> 'p action list" where
  "broadcast_group_typing E S N dids indicator = send_each S (typing_targets E N dids) (TypingReq indicator)"

text \<open>The key is given as bytes and may not be one; then nothing is sent.\<close>

definition broadcast_username_change ::
  "('p, 't, 'db, 'sk, 'xs, 'pc) node_env \<Rightarrow> node_clock \<Rightarrow> 'p swarm \<Rightarrow> did \<Rightarrow> string \<Rightarrow> nat \<Rightarrow> 'sk option \<Rightarrow> 'p action list" where
  "broadcast_username_change E K S d username discriminator key =
     (case key of
        None \<Rightarrow> []
      | Some sk \<Rightarrow>
          send_each S (sw_connected S)
            (RenameReq \<lparr>rn_did = d, rn_username = username, rn_discriminator = discriminator,
               rn_signature = dc_sign (ne_crypto E) sk (rename_payload d username discriminator (ck_secs K)),
               rn_timestamp = ck_secs K\<rparr>))"

definition request_group_sync ::
  "('p, 't, 'db, 'sk, 'xs, 'pc) node_env \<Rightarrow> 'p swarm \<Rightarrow> ('p, 't, 'db, 'sk, 'xs, 'pc) node \<Rightarrow> did \<Rightarrow> string \<Rightarrow> int \<Rightarrow> nat \<Rightarrow> nat
     \<Rightarrow> 'p action list" where
  "request_group_sync E S N peer_did group_id since_timestamp max_count tx =
     (case route E N peer_did of
        None \<Rightarrow> [Reply tx (UnitReply (Inl (unknown_peer peer_did)))]
      | Some peer \<Rightarrow>
          if peer \<notin> set (sw_connected S) then [Reply tx (UnitReply (Inl (peer_not_connected peer_did)))]
          else [Send (sw_request_id S 0) peer
                  (GroupSyncReq \<lparr>gq_group_id = group_id,
                     gq_requester_did = (case nd_local_did N of Some d \<Rightarrow> d | None \<Rightarrow> []),
                     gq_since_timestamp = since_timestamp, gq_limit = max_count\<rparr>),
                Reply tx (UnitReply (Inr ()))])"

definition respond_group_sync ::
  "('p, 't, 'db, 'sk, 'xs, 'pc) node \<Rightarrow> nat \<Rightarrow> group_sync_response \<Rightarrow> ('p, 't, 'db, 'sk, 'xs, 'pc) node \<times> 'p action list" where
  "respond_group_sync N rid response =
     (case map_of (nd_pending_syncs N) rid of
        Some (channel, _) \<Rightarrow>
          (N\<lparr>nd_pending_syncs := AList.delete rid (nd_pending_syncs N)\<rparr>, [Respond channel (GroupSyncAns response)])
      | None \<Rightarrow> (N, []))"

definition send_read_receipt ::
  "('p, 't, 'db, 'sk, 'xs, 'pc) node_env \<Rightarrow> 'p swarm \<Rightarrow> ('p, 't, 'db, 'sk, 'xs, 'pc) node \<Rightarrow> did \<Rightarrow> read_receipt \<Rightarrow> 'p action list" where
  "send_read_receipt E S N peer_did receipt =
     (case route E N peer_did of Some peer \<Rightarrow> [Send (sw_request_id S 0) peer (ReceiptReq receipt)] | None \<Rightarrow> [])"

definition adopt_identity ::
  "('p, 't, 'db, 'sk, 'xs, 'pc) node_env \<Rightarrow> node_clock \<Rightarrow> 'p swarm \<Rightarrow> ('p, 't, 'db, 'sk, 'xs, 'pc) node
     \<Rightarrow> did \<Rightarrow> bytes \<Rightarrow> bytes list \<Rightarrow> bytes option \<Rightarrow> bytes \<Rightarrow> ('sk, 'xs) did_identity option
     \<Rightarrow> ('p, 't, 'db, 'sk, 'xs, 'pc) node \<times> 'p action list" where
  "adopt_identity E K S N d olm_identity_key one_time_keys mls_key_package token did_struct =
     requery_peers E K S
       (N\<lparr>nd_local_did := Some d,
          nd_identity := set_local_identity (nd_identity N) d olm_identity_key one_time_keys mls_key_package token did_struct\<rparr>)"

fun handle_command ::
  "('p, 't, 'db, 'sk, 'xs, 'pc) node_env \<Rightarrow> node_clock \<Rightarrow> 'p swarm \<Rightarrow> ('p, 't, 'db, 'sk, 'xs, 'pc) node
     \<Rightarrow> ('p, 'sk, 'xs) node_command \<Rightarrow> ('p, 't, 'db, 'sk, 'xs, 'pc) node \<times> 'p action list" where
  "handle_command E K S N (SendIdentityRequest peer request tx) =
     (N\<lparr>nd_pending_identity := AList.update (sw_request_id S 0) tx (nd_pending_identity N)\<rparr>,
      [Send (sw_request_id S 0) peer (IdentityReq request)])"
| "handle_command E K S N (SendSignalingMessage peer_did m tx) =
     (N, (case route E N peer_did of
            Some peer \<Rightarrow> [Send (sw_request_id S 0) peer (SignalingReq m), Reply tx (UnitReply (Inr ()))]
          | None \<Rightarrow> [Reply tx (UnitReply (Inl (unknown_peer peer_did)))]))"
| "handle_command E K S N (PublishGroupMessage topic m tx) =
     (N, [Publish topic (cd_encode (ne_group_codec E) m), Reply tx (unit_result EGossipsub (sw_gossip S))])"
| "handle_command E K S N (SubscribeToTopic topic tx) =
     (N, [Subscribe topic, Reply tx (unit_result EGossipsub (sw_gossip S))])"
| "handle_command E K S N (UnsubscribeFromTopic topic tx) =
     (N, [Unsubscribe topic,
          Reply tx (UnitReply (if sw_unsubscribed S then Inr () else Inl (EGossipsub (''Not subscribed to topic: '' @ topic))))])"
| "handle_command E K S N (ProvideUsername key tx) =
     (N, [Provide key, Reply tx (unit_result (\<lambda>e. EKad (''start_providing failed: '' @ e)) (sw_provide S))])"
| "handle_command E K S N (FindUsernameProviders key tx) =
     (N\<lparr>nd_pending_providers := AList.update (sw_query_id S) ([], tx) (nd_pending_providers N)\<rparr>,
      [GetProviders (sw_query_id S) key])"
| "handle_command E K S N (SetLocalIdentity d olm_identity_key one_time_keys mls_key_package token did_struct) =
     adopt_identity E K S N d olm_identity_key one_time_keys mls_key_package token did_struct"
| "handle_command E K S N (UpdateOneTimeKeys ks) = (N, [Spawn (RefreshOneTimeKeys ks)])"
| "handle_command E K S N (SetLocalUsername username discriminator) = (N, [Spawn (StoreUsername username discriminator)])"
| "handle_command E K S N (ResolveIdentityByDid d tx) = resolve_broadcast K S N d tx"
| "handle_command E K S N (SendDirectMessage peer_did m tx) = send_direct E S N peer_did m tx"
| "handle_command E K S N (GetConnectedDids tx) = (N, [Reply tx (DidsReply (map fst (nd_did_to_peer N)))])"
| "handle_command E K S N (SendTypingIndicator peer_did indicator) = (N, send_typing_indicator E S N peer_did indicator)"
| "handle_command E K S N (BroadcastGroupTyping dids indicator) = (N, broadcast_group_typing E S N dids indicator)"
| "handle_command E K S N (BroadcastUsernameChange d username discriminator key) =
     (N, broadcast_username_change E K S d username discriminator key)"
| "handle_command E K S N (RequestGroupSync peer_did group_id since_timestamp max_count tx) =
     (N, request_group_sync E S N peer_did group_id since_timestamp max_count tx)"
| "handle_command E K S N (RespondGroupSync rid response) = respond_group_sync N rid response"
| "handle_command E K S N (UpdateMlsKeyPackage kp) = (N, [Spawn (RefreshKeyPackage kp)])"
| "handle_command E K S N (SendReceipt peer_did receipt) = (N, send_read_receipt E S N peer_did receipt)"

lemmas command_defs = adopt_identity_def requery_peers_def resolve_broadcast_def send_direct_def send_typing_indicator_def
  broadcast_group_typing_def broadcast_username_change_def request_group_sync_def respond_group_sync_def send_read_receipt_def

subsection \<open>Periodic jobs\<close>

definition trigger_relay_discovery ::
  "'p swarm \<Rightarrow> bytes \<Rightarrow> ('p, 't, 'db, 'sk, 'xs, 'pc) node \<Rightarrow> ('p, 't, 'db, 'sk, 'xs, 'pc) node \<times> 'p action list" where
  "trigger_relay_discovery S key N =
     (if nd_pending_relay_query N \<noteq> None then (N, [])
      else (N\<lparr>nd_pending_relay_query := Some (sw_query_id S)\<rparr>, [GetProviders (sw_query_id S) key]))"

definition reconnect_known_peers :: "'p swarm \<Rightarrow> ('p, 't, 'db, 'sk, 'xs, 'pc) node \<Rightarrow> 'p action list" where
  "reconnect_known_peers S N =
     map (\<lambda>(p, addrs). DialAt p addrs) (filter (\<lambda>(p, _). p \<notin> set (sw_connected S)) (nd_known_peers N))"

end
