(* ===== verification/Node_Steps.thy ===== *)
theory Node_Steps
  imports Node_Commands
begin

section \<open>The run loop of the node\<close>

text \<open>
  \<open>Node::run\<close> selects between commands, the events of the swarm and two timers, and
  \<open>handle_event\<close> dispatches an event to its handler. An input is one of these, or the turn
  of a spawned task; \<open>node_exec\<close> runs a sequence of inputs, each with the clock and the
  swarm at that moment, and \<open>node_run\<close> is the runs in which a task runs only after it was
  spawned.
\<close>

datatype ('p, 'sk, 'xs) node_input =
    Command "('p, 'sk, 'xs) node_command"
  | FoundProviders nat "'p list"
  | ProvidersFinished nat
  | ProvidersError nat string
  | GossipMessage 'p bytes
  | MdnsDiscovered "('p \<times> string) list"
  | Identified 'p "string list"
  | IdentityIn 'p identity_request nat
  | IdentityOut 'p nat identity_response
  | IdentityFailed 'p nat string
  | OfflineIn 'p offline_request nat
  | OfflineOut 'p offline_response
  | SignalingIn 'p signaling_message nat
  | SignalingOut 'p signaling_message
  | DirectIn 'p direct_message nat
  | DirectOut 'p nat direct_message_ack
  | DirectFailed nat
  | TypingIn 'p typing_indicator nat
  | ReceiptIn read_receipt nat
  | RenameIn 'p username_changed nat
  | SyncIn 'p group_sync_request nat nat
  | SyncOut group_sync_response
  | SyncOutFailed string
  | SyncInFailed nat
  | ConnectionUp 'p
  | ConnectionDown 'p
  | RelayTick bytes
  | ReconnectTick
  | TaskTurn "'p task"

fun node_step ::
  "('p, 't, 'db, 'sk, 'xs, 'pc) node_env \<Rightarrow> node_clock \<Rightarrow> 'p swarm \<Rightarrow> ('p, 't, 'db, 'sk, 'xs, 'pc) node
     \<Rightarrow> ('p, 'sk, 'xs) node_input \<Rightarrow> ('p, 't, 'db, 'sk, 'xs, 'pc) node \<times> 'p action list" where
  "node_step E K S N (Command c) = handle_command E K S N c"
| "node_step E K S N (FoundProviders q ps) = on_found_providers N q ps"
| "node_step E K S N (ProvidersFinished q) = on_providers_finished N q"
| "node_step E K S N (ProvidersError q e) = on_providers_error N q e"
| "node_step E K S N (GossipMessage p bs) = on_gossip E K N p bs"
| "node_step E K S N (MdnsDiscovered ps) = on_mdns_discovered N ps"
| "node_step E K S N (Identified p addrs) = on_identified N p addrs"
| "node_step E K S N (IdentityIn p r ch) = on_identity_request E K S N p r ch"
| "node_step E K S N (IdentityOut p rid r) = on_identity_response N p rid r"
| "node_step E K S N (IdentityFailed p rid e) = on_identity_failure E N p rid e"
| "node_step E K S N (OfflineIn p r ch) = on_offline_request E K N p r ch"
| "node_step E K S N (OfflineOut p r) = (N, on_offline_response p r)"
| "node_step E K S N (SignalingIn p m ch) = on_signaling_request E K N p m ch"
| "node_step E K S N (SignalingOut p m) = (N, on_signaling_response p m)"
| "node_step E K S N (DirectIn p m ch) = on_direct_request E K N p m ch"
| "node_step E K S N (DirectOut p rid a) = on_direct_response N p rid a"
| "node_step E K S N (DirectFailed rid) = on_direct_failure N rid"
| "node_step E K S N (TypingIn p t ch) = on_typing_request K N p t ch"
| "node_step E K S N (ReceiptIn r ch) = (N, on_receipt_request r ch)"
| "node_step E K S N (RenameIn p r ch) = on_rename_request E K N p r ch"
| "node_step E K S N (SyncIn p r rid ch) = on_sync_request K N p r rid ch"
| "node_step E K S N (SyncOut r) = (N, on_sync_response r)"
| "node_step E K S N (SyncOutFailed e) = (N, on_sync_outbound_failure e)"
| "node_step E K S N (SyncInFailed rid) = (on_sync_inbound_failure N rid, [])"
| "node_step E K S N (ConnectionUp p) = on_connection_established E K S N p"
| "node_step E K S N (ConnectionDown p) = on_connection_closed N p"
| "node_step E K S N (RelayTick key) = trigger_relay_discovery S key N"
| "node_step E K S N ReconnectTick = (N, reconnect_known_peers S N)"
| "node_step E K S N (TaskTurn t) = run_task E N t"

fun node_exec ::
  "('p, 't, 'db, 'sk, 'xs, 'pc) node_env \<Rightarrow> ('p, 't, 'db, 'sk, 'xs, 'pc) node
     \<Rightarrow> (node_clock \<times> 'p swarm \<times> ('p, 'sk, 'xs) node_input) list \<Rightarrow> ('p, 't, 'db, 'sk, 'xs, 'pc) node \<times> 'p action list" where
  "node_exec E N [] = (N, [])"
| "node_exec E N ((K, S, i) # is) =
     (let (N, as) = node_step E K S N i; (N, bs) = node_exec E N is in (N, as @ bs))"

text \<open>libp2p numbers the requests of a behaviour: an id is not given twice.\<close>

definition fresh_ids :: "'p swarm \<Rightarrow> ('p, 't, 'db, 'sk, 'xs, 'pc) node \<Rightarrow> bool" where
  "fresh_ids S N \<longleftrightarrow> inj (sw_request_id S) \<and> (\<forall>i. sw_request_id S i \<notin> fst ` set (nd_pending_resolves N))"

inductive node_run ::
  "('p, 't, 'db, 'sk, 'xs, 'pc) node_env \<Rightarrow> ('p, 't, 'db, 'sk, 'xs, 'pc) node \<Rightarrow> 'p action list
     \<Rightarrow> ('p, 't, 'db, 'sk, 'xs, 'pc) node \<Rightarrow> bool" for E N0 where
  start: "node_run E N0 [] N0"
| step: "node_run E N0 as N \<Longrightarrow> fresh_ids S N \<Longrightarrow> (\<forall>t. i = TaskTurn t \<longrightarrow> Spawn t \<in> set as) \<Longrightarrow>
    node_step E K S N i = (N', bs) \<Longrightarrow> node_run E N0 (as @ bs) N'"

subsection \<open>What a step leaves alone\<close>

lemma admit_frame [simp]:
  "nd_identity (fst (admit K N p proto)) = nd_identity N"
  "nd_did_to_peer (fst (admit K N p proto)) = nd_did_to_peer N"
  "nd_peer_store (fst (admit K N p proto)) = nd_peer_store N"
  "nd_offline_db (fst (admit K N p proto)) = nd_offline_db N"
  "nd_pending_broadcasts (fst (admit K N p proto)) = nd_pending_broadcasts N"
  "nd_pending_resolves (fst (admit K N p proto)) = nd_pending_resolves N"
  "nd_pending_syncs (fst (admit K N p proto)) = nd_pending_syncs N"
  "nd_signaling (fst (admit K N p proto)) = nd_signaling N"
  by (simp_all add: admit_def split: prod.split)

lemma broadcast_missed_frame [simp]:
  "nd_identity (fst (broadcast_missed N d)) = nd_identity N"
  "nd_did_to_peer (fst (broadcast_missed N d)) = nd_did_to_peer N"
  "nd_pending_resolves (fst (broadcast_missed N d)) = nd_pending_resolves N"
  by (simp_all add: broadcast_missed_def Let_def split: option.split)

lemma complete_identity_frame [simp]:
  "nd_identity (fst (complete_identity N rid r)) = nd_identity N"
  "nd_did_to_peer (fst (complete_identity N rid r)) = nd_did_to_peer N"
  "nd_pending_broadcasts (fst (complete_identity N rid r)) = nd_pending_broadcasts N"
  "nd_pending_resolves (fst (complete_identity N rid r)) = nd_pending_resolves N"
  by (simp_all add: complete_identity_def split: option.split)

lemma known_address_frame [simp]:
  "nd_identity (known_address N p a) = nd_identity N"
  "nd_did_to_peer (known_address N p a) = nd_did_to_peer N"
  "nd_pending_broadcasts (known_address N p a) = nd_pending_broadcasts N"
  "nd_pending_resolves (known_address N p a) = nd_pending_resolves N"
  by (simp_all add: known_address_def Let_def)

lemma mdns_frame [simp]:
  "nd_identity (fst (on_mdns_discovered N ps)) = nd_identity N"
  "nd_did_to_peer (fst (on_mdns_discovered N ps)) = nd_did_to_peer N"
  "nd_pending_broadcasts (fst (on_mdns_discovered N ps)) = nd_pending_broadcasts N"
  "nd_pending_resolves (fst (on_mdns_discovered N ps)) = nd_pending_resolves N"
  by (induction N ps rule: on_mdns_discovered.induct) (simp_all add: split_def Let_def)

lemma known_addresses_frame [simp]:
  "nd_identity (foldl (\<lambda>N a. known_address N p a) N as) = nd_identity N"
  "nd_did_to_peer (foldl (\<lambda>N a. known_address N p a) N as) = nd_did_to_peer N"
  "nd_pending_broadcasts (foldl (\<lambda>N a. known_address N p a) N as) = nd_pending_broadcasts N"
  "nd_pending_resolves (foldl (\<lambda>N a. known_address N p a) N as) = nd_pending_resolves N"
  by (induction as arbitrary: N) simp_all

lemma learn_frame [simp]:
  "nd_identity (learn_route E N d p) = nd_identity N"
  "nd_pending_broadcasts (learn_route E N d p) = nd_pending_broadcasts N"
  "nd_pending_resolves (learn_route E N d p) = nd_pending_resolves N"
  "nd_did_to_peer (learn_route E N d p) = AList.update d p (nd_did_to_peer N)"
  "fst (learn_sender E N d p) = learn_route E N d p"
  by (simp_all add: learn_route_def learn_sender_def Let_def)

lemma reciprocal_frame [simp]:
  "nd_identity (fst (reciprocal_query E K S N p)) = nd_identity N"
  "nd_did_to_peer (fst (reciprocal_query E K S N p)) = nd_did_to_peer N"
  "nd_pending_broadcasts (fst (reciprocal_query E K S N p)) = nd_pending_broadcasts N"
  "nd_pending_resolves (fst (reciprocal_query E K S N p)) = nd_pending_resolves N"
  by (simp_all add: reciprocal_query_def Let_def)

lemma requery_frame [simp]:
  "nd_identity (fst (requery_peers E K S N)) = nd_identity N"
  "nd_did_to_peer (fst (requery_peers E K S N)) = nd_did_to_peer N"
  "nd_pending_broadcasts (fst (requery_peers E K S N)) = nd_pending_broadcasts N"
  "nd_pending_resolves (fst (requery_peers E K S N)) = nd_pending_resolves N"
  by (simp_all add: requery_peers_def Let_def)

lemma resolve_frame [simp]:
  "nd_identity (fst (resolve_broadcast K S N d tx)) = nd_identity N"
  "nd_did_to_peer (fst (resolve_broadcast K S N d tx)) = nd_did_to_peer N"
  by (simp_all add: resolve_broadcast_def Let_def)

lemma direct_frame [simp]:
  "nd_identity (fst (send_direct E S N d m tx)) = nd_identity N"
  "nd_did_to_peer (fst (send_direct E S N d m tx)) = nd_did_to_peer N"
  "nd_pending_broadcasts (fst (send_direct E S N d m tx)) = nd_pending_broadcasts N"
  "nd_pending_resolves (fst (send_direct E S N d m tx)) = nd_pending_resolves N"
  by (simp_all add: send_direct_def split: option.split)

lemma command_frame [simp]:
  "ih_cache (nd_identity (fst (handle_command E K S N c))) = ih_cache (nd_identity N)"
  "nd_did_to_peer (fst (handle_command E K S N c)) = nd_did_to_peer N"
  by (cases c; simp add: adopt_identity_def respond_group_sync_def split: option.split)+

lemma command_broadcasts:
  assumes "\<forall>d tx. c \<noteq> ResolveIdentityByDid d tx"
  shows "nd_pending_broadcasts (fst (handle_command E K S N c)) = nd_pending_broadcasts N"
    and "nd_pending_resolves (fst (handle_command E K S N c)) = nd_pending_resolves N"
  using assms by (cases c; simp add: adopt_identity_def respond_group_sync_def split: option.split)+

lemma finish_frame [simp]:
  "nd_identity (fst (finish_providers N q f)) = nd_identity N"
  "nd_did_to_peer (fst (finish_providers N q f)) = nd_did_to_peer N"
  "nd_pending_broadcasts (fst (finish_providers N q f)) = nd_pending_broadcasts N"
  "nd_pending_resolves (fst (finish_providers N q f)) = nd_pending_resolves N"
  by (simp_all add: finish_providers_def Let_def split: option.split)

lemmas handler_defs = on_found_providers_def on_providers_finished_def on_providers_error_def on_gossip_def on_identified_def
  on_identity_request_def on_offline_request_def on_signaling_request_def on_direct_request_def on_direct_response_def
  on_direct_failure_def on_typing_request_def on_rename_request_def on_sync_request_def on_sync_inbound_failure_def
  on_connection_established_def on_connection_closed_def trigger_relay_discovery_def

lemma run_task_broadcasts [simp]:
  "nd_pending_broadcasts (fst (run_task E N t)) = nd_pending_broadcasts N"
  "nd_pending_resolves (fst (run_task E N t)) = nd_pending_resolves N"
  by (cases t; simp add: Let_def split: sum.split)+

lemma step_broadcasts:
  assumes "\<forall>d tx. i \<noteq> Command (ResolveIdentityByDid d tx)" and "\<forall>p rid r. i \<noteq> IdentityOut p rid r"
    and "\<forall>p rid e. i \<noteq> IdentityFailed p rid e"
  shows "nd_pending_broadcasts (fst (node_step E K S N i)) = nd_pending_broadcasts N"
    and "nd_pending_resolves (fst (node_step E K S N i)) = nd_pending_resolves N"
  using assms
  by (cases i; simp add: handler_defs Let_def split_def command_broadcasts split: option.split sum.split)+

subsection \<open>A node to evaluate on\<close>

definition sample_env ::
  "(nat, (string, bytes) rbt, (string, bytes) rbt message_db, 8 word, 8 word, unit) node_env" where
  "sample_env =
     \<lparr>ne_crypto = toy_crypto, ne_auth = toy_auth (replicate 32 7) (auth_payload sample_auth_request),
      ne_peer_text = (\<lambda>p. replicate p CHR ''p''), ne_peer_codec = unary_codec, ne_sled = rbt_sled,
      ne_webrtc = sample_webrtc (Inr ()), ne_offline = local_offline_storage rbt_env, ne_show_error = (\<lambda>e. ''error''),
      ne_group_codec = unary_codec\<rparr>"

definition sample_clock :: node_clock where
  "sample_clock = \<lparr>ck_protocol_ns = 0, ck_global_ns = 0, ck_secs = 1100, ck_millis = 1100000, ck_nonce = replicate 16 2\<rparr>"

definition sample_swarm :: "nat list \<Rightarrow> nat \<Rightarrow> nat swarm" where
  "sample_swarm peers from = \<lparr>sw_connected = peers, sw_request_id = (\<lambda>i. from + i), sw_query_id = from, sw_gossip = None,
     sw_unsubscribed = True, sw_provide = None\<rparr>"

definition sample_node :: "(nat, (string, bytes) rbt, (string, bytes) rbt message_db, 8 word, 8 word, unit) node" where
  "sample_node = node_new sample_env 1 (db_new rbt_env) RBT.empty []"

lemma sample_node_simps [simp]:
  "nd_pending_broadcasts sample_node = []" "nd_pending_resolves sample_node = []" "nd_did_to_peer sample_node = []"
  "nd_local_did sample_node = None" "nd_pending_identity sample_node = []" "nd_pending_auto sample_node = []"
  "nd_rate_limiter sample_node = rl_new" "nd_identity sample_node = identity_handler_new ''p''"
  "nd_peer_store sample_node = RBT.empty" "nd_offline_db sample_node = db_new rbt_env" "nd_reciprocal_attempted sample_node = []"
  by (simp_all add: sample_node_def node_new_def sample_env_def)

lemma sample_swarm_simps [simp]:
  "sw_connected (sample_swarm ps n) = ps" "sw_request_id (sample_swarm ps n) i = n + i"
  by (simp_all add: sample_swarm_def)

lemma sample_fresh: "fresh_ids (sample_swarm ps n) N \<longleftrightarrow> (\<forall>rid \<in> fst ` set (nd_pending_resolves N). rid < n)"
proof -
  have "(\<forall>i. n + i \<notin> A) \<longleftrightarrow> (\<forall>rid \<in> A. rid < n)" for A by (metis leD leI le_add1 le_Suc_ex)
  then show ?thesis by (simp add: fresh_ids_def inj_def)
qed

end
