(* ===== verification/Node_Broadcasts.thy ===== *)
theory Node_Broadcasts
  imports Node_Steps
begin

section \<open>Resolving a DID by asking everyone\<close>

text \<open>
  \<open>ResolveIdentityByDid\<close> asks every connected peer and counts the answers that are still
  to come. The theory shows that the count never outlives the requests, so that whoever waits
  for the answer gets one once every request has come to an end, and what happens when the
  same DID is asked for a second time before that.
\<close>

definition outstanding :: "('p, 't, 'db, 'sk, 'xs, 'pc) node \<Rightarrow> did \<Rightarrow> (nat \<times> did) list" where
  "outstanding N d = filter (\<lambda>(_, v). v = d) (nd_pending_resolves N)"

definition broadcasts_ok :: "('p, 't, 'db, 'sk, 'xs, 'pc) node \<Rightarrow> bool" where
  "broadcasts_ok N \<longleftrightarrow>
     distinct (map fst (nd_pending_resolves N)) \<and>
     (\<forall>d r tx. map_of (nd_pending_broadcasts N) d = Some (r, tx) \<longrightarrow> 0 < r \<and> r \<le> length (outstanding N d))"

fun settles :: "('p, 'sk, 'xs) node_input \<Rightarrow> nat option" where
  "settles (IdentityOut p rid r) = Some rid"
| "settles (IdentityFailed p rid e) = Some rid"
| "settles _ = None"

subsection \<open>Association lists\<close>

lemma update_fresh: "k \<notin> fst ` set al \<Longrightarrow> AList.update k v al = al @ [(k, v)]"
  by (induction al) auto

lemma update_all_fresh:
  "distinct ks \<Longrightarrow> \<forall>k \<in> set ks. k \<notin> fst ` set al \<Longrightarrow>
     fold (\<lambda>k. AList.update k v) ks al = al @ map (\<lambda>k. (k, v)) ks"
proof (induction ks arbitrary: al)
  case (Cons a ks)
  then have "fold (\<lambda>k. AList.update k v) ks (al @ [(a, v)]) = (al @ [(a, v)]) @ map (\<lambda>k. (k, v)) ks"
    by (intro Cons.IH) auto
  then show ?case using Cons.prems by (simp add: update_fresh)
qed simp

lemma delete_filter: "AList.delete k al = filter (\<lambda>(j, _). j \<noteq> k) al"
  by (auto simp: AList.delete_eq intro: filter_cong)

lemma delete_count:
  "distinct (map fst al) \<Longrightarrow> map_of al k = Some v \<Longrightarrow>
     length (filter (\<lambda>(_, w). w = d) (AList.delete k al))
       = (if v = d then length (filter (\<lambda>(_, w). w = d) al) - 1 else length (filter (\<lambda>(_, w). w = d) al))"
proof (induction al)
  case (Cons x al)
  show ?case
  proof (cases "fst x = k")
    case True
    with Cons.prems have "snd x = v" "k \<notin> fst ` set al" by auto
    then have "AList.delete k al = al" by (force simp: delete_filter filter_id_conv)
    then show ?thesis using True \<open>snd x = v\<close> by (cases x) simp
  next
    case False
    with Cons have "map_of al k = Some v" by simp
    then have "v = d \<Longrightarrow> 0 < length (filter (\<lambda>(_, w). w = d) al)"
      by (auto simp: filter_empty_conv dest!: map_of_SomeD)
    then show ?thesis using Cons False by (cases x) (auto simp: Suc_pred)
  qed
qed simp

lemma map_of_kept_value:
  "distinct (map fst al) \<Longrightarrow> map_of (filter (\<lambda>(_, v). P v) al) k = (case map_of al k of Some v \<Rightarrow> if P v then Some v else None | None \<Rightarrow> None)"
  by (induction al) (auto simp: map_of_eq_None_iff split: option.splits)

lemma distinct_fst_filter: "distinct (map fst al) \<Longrightarrow> distinct (map fst (filter P al))"
  by (induction al) auto

lemmas alist_simps = AList.delete_conv' AList.update_conv' distinct_delete distinct_fst_filter

subsection \<open>The three inputs that touch a broadcast\<close>

lemma missed_eq:
  "map_of (nd_pending_broadcasts N) d = Some (r, tx) \<Longrightarrow> 0 < r \<Longrightarrow>
     map_of (nd_pending_broadcasts (fst (broadcast_missed N d))) e =
       (if e = d then (if r = 1 then None else Some (r - 1, tx)) else map_of (nd_pending_broadcasts N) e) \<and>
     (r = 1 \<longrightarrow> snd (broadcast_missed N d) = [Reply tx (FoundReply (Inl (ENodeProtocol (''DID not found on any connected peer: '' @ d))))])"
  by (auto simp: broadcast_missed_def usize_pred_def Let_def alist_simps)

lemma missed_none: "map_of (nd_pending_broadcasts N) d = None \<Longrightarrow> broadcast_missed N d = (N, [])"
  by (simp add: broadcast_missed_def)

lemma missed_ok:
  assumes "broadcasts_ok N" and "map_of (nd_pending_resolves N) rid = Some d"
  shows "broadcasts_ok (fst (broadcast_missed (N\<lparr>nd_pending_resolves := AList.delete rid (nd_pending_resolves N)\<rparr>) d))"
proof -
  let ?N = "N\<lparr>nd_pending_resolves := AList.delete rid (nd_pending_resolves N)\<rparr>"
  have dist: "distinct (map fst (nd_pending_resolves N))"
    and cnt: "\<And>e r tx. map_of (nd_pending_broadcasts N) e = Some (r, tx) \<Longrightarrow> 0 < r \<and> r \<le> length (outstanding N e)"
    using assms(1) by (auto simp: broadcasts_ok_def)
  have out: "length (outstanding (fst (broadcast_missed ?N d)) e) = (if e = d then length (outstanding N e) - 1 else length (outstanding N e))" for e
    using delete_count [OF dist assms(2), of e] by (simp add: outstanding_def)
  have d: "distinct (map fst (nd_pending_resolves (fst (broadcast_missed ?N d))))" using dist by (simp add: distinct_delete)
  show ?thesis
  proof (cases "map_of (nd_pending_broadcasts N) d")
    case None
    then have "broadcast_missed ?N d = (?N, [])" by (simp add: missed_none)
    then show ?thesis using d cnt out None unfolding broadcasts_ok_def by (auto split: if_splits)
  next
    case (Some rt)
    obtain r tx where rt: "rt = (r, tx)" by fastforce
    have m: "map_of (nd_pending_broadcasts ?N) d = Some (r, tx)" using Some rt by simp
    have pos: "0 < r" using cnt Some rt by blast
    with m have "map_of (nd_pending_broadcasts (fst (broadcast_missed ?N d))) e =
       (if e = d then (if r = 1 then None else Some (r - 1, tx)) else map_of (nd_pending_broadcasts N) e)" for e
      using missed_eq [of ?N d r tx e] by simp
    then show ?thesis
      using d cnt out Some rt pos unfolding broadcasts_ok_def by (auto split: if_splits intro: diff_le_mono Suc_lessI)
  qed
qed

lemma found_ok:
  assumes "broadcasts_ok N" and "map_of (nd_pending_resolves N) rid = Some d"
  shows "broadcasts_ok (N\<lparr>nd_pending_resolves := filter (\<lambda>(_, v). v \<noteq> d) (AList.delete rid (nd_pending_resolves N)),
    nd_pending_broadcasts := AList.delete d (nd_pending_broadcasts N)\<rparr>)"
proof -
  have dist: "distinct (map fst (nd_pending_resolves N))"
    and cnt: "\<And>e r tx. map_of (nd_pending_broadcasts N) e = Some (r, tx) \<Longrightarrow> 0 < r \<and> r \<le> length (outstanding N e)"
    using assms(1) by (auto simp: broadcasts_ok_def)
  have "e \<noteq> d \<Longrightarrow> length (filter (\<lambda>(_, v). v = e) (filter (\<lambda>(_, v). v \<noteq> d) (AList.delete rid (nd_pending_resolves N)))) = length (outstanding N e)" for e
  proof -
    assume e: "e \<noteq> d"
    then have "filter (\<lambda>(_, v). v = e) (filter (\<lambda>(_, v). v \<noteq> d) al) = filter (\<lambda>(_, v). v = e) al" for al :: "(nat \<times> did) list"
      by (auto intro: filter_cong)
    then show ?thesis using delete_count [OF dist assms(2), of e] e by (simp add: outstanding_def)
  qed
  then show ?thesis
    using dist cnt unfolding broadcasts_ok_def outstanding_def
    by (auto simp: alist_simps split: if_splits)
qed

lemma resolve_ok:
  assumes "broadcasts_ok N" and "fresh_ids S N"
  shows "broadcasts_ok (fst (resolve_broadcast K S N d tx))"
proof (cases "sw_connected S = []")
  case True
  then show ?thesis using assms by (simp add: resolve_broadcast_def)
next
  case False
  define ids where "ids = map (sw_request_id S) [0..<length (sw_connected S)]"
  have ids: "distinct ids" "\<forall>k \<in> set ids. k \<notin> fst ` set (nd_pending_resolves N)" "length ids = length (sw_connected S)"
    using assms(2) by (auto simp: ids_def fresh_ids_def distinct_map intro: inj_on_subset)
  have N': "fst (resolve_broadcast K S N d tx) =
      N\<lparr>nd_pending_broadcasts := AList.update d (length ids, tx) (nd_pending_broadcasts N),
        nd_pending_resolves := nd_pending_resolves N @ map (\<lambda>k. (k, d)) ids\<rparr>"
    using False by (simp add: resolve_broadcast_def Let_def ids_def [symmetric] update_all_fresh [OF ids(1,2)] ids(3))
  have "distinct (map fst (nd_pending_resolves N))" using assms(1) by (simp add: broadcasts_ok_def)
  then have "distinct (map fst (nd_pending_resolves N @ map (\<lambda>k. (k, d)) ids))"
    using ids(1,2) by (auto simp: comp_def)
  moreover have "length (filter (\<lambda>(_, v). v = e) (map (\<lambda>k. (k, d)) ids)) = (if e = d then length ids else 0)" for e
    by (auto simp: filter_empty_conv comp_def)
  moreover have "0 < length ids" using False ids(3) by simp
  ultimately show ?thesis
    using assms(1) unfolding broadcasts_ok_def outstanding_def N'
    by (auto simp: alist_simps simp del: filter_map map_append)
qed

subsection \<open>The count is never ahead of the requests\<close>

lemma broadcasts_ok_cong:
  "nd_pending_broadcasts M = nd_pending_broadcasts N \<Longrightarrow> nd_pending_resolves M = nd_pending_resolves N \<Longrightarrow>
     broadcasts_ok M \<longleftrightarrow> broadcasts_ok N"
  by (simp add: broadcasts_ok_def outstanding_def)

lemma response_ok:
  assumes "broadcasts_ok N"
  shows "broadcasts_ok (fst (broadcast_response N rid r))"
proof (cases "map_of (nd_pending_resolves N) rid")
  case None
  then show ?thesis using assms by (simp add: broadcast_response_def)
next
  case (Some d)
  have "broadcasts_ok (fst (broadcast_missed (N\<lparr>nd_pending_resolves := AList.delete rid (nd_pending_resolves N)\<rparr>) d))"
    by (rule missed_ok [OF assms Some])
  moreover have "broadcasts_ok (N\<lparr>nd_pending_broadcasts := AList.delete d (nd_pending_broadcasts N),
      nd_pending_resolves := filter (\<lambda>(_, v). v \<noteq> d) (AList.delete rid (nd_pending_resolves N))\<rparr>)"
    using found_ok [OF assms Some] by (subst broadcasts_ok_cong) simp_all
  ultimately show ?thesis
    using Some by (auto simp: broadcast_response_def Let_def split: option.split identity_result.split)
qed

lemma broadcast_missed_other:
  "broadcast_missed (N\<lparr>nd_pending_identity := a\<rparr>) d = ((fst (broadcast_missed N d))\<lparr>nd_pending_identity := a\<rparr>, snd (broadcast_missed N d))"
  "broadcast_missed (N\<lparr>nd_pending_auto := b\<rparr>) d = ((fst (broadcast_missed N d))\<lparr>nd_pending_auto := b\<rparr>, snd (broadcast_missed N d))"
  by (simp_all add: broadcast_missed_def Let_def split: option.split)

lemma broadcast_response_other:
  "broadcast_response (N\<lparr>nd_pending_identity := a\<rparr>) rid r =
     ((fst (broadcast_response N rid r))\<lparr>nd_pending_identity := a\<rparr>, snd (broadcast_response N rid r))"
  "broadcast_response (N\<lparr>nd_pending_auto := b\<rparr>) rid r =
     ((fst (broadcast_response N rid r))\<lparr>nd_pending_auto := b\<rparr>, snd (broadcast_response N rid r))"
proof -
  have swap: "N\<lparr>nd_pending_identity := a, nd_pending_resolves := c\<rparr> = N\<lparr>nd_pending_resolves := c, nd_pending_identity := a\<rparr>"
    "N\<lparr>nd_pending_auto := b, nd_pending_resolves := c\<rparr> = N\<lparr>nd_pending_resolves := c, nd_pending_auto := b\<rparr>" for c by simp_all
  show "broadcast_response (N\<lparr>nd_pending_identity := a\<rparr>) rid r =
     ((fst (broadcast_response N rid r))\<lparr>nd_pending_identity := a\<rparr>, snd (broadcast_response N rid r))"
    "broadcast_response (N\<lparr>nd_pending_auto := b\<rparr>) rid r =
     ((fst (broadcast_response N rid r))\<lparr>nd_pending_auto := b\<rparr>, snd (broadcast_response N rid r))"
    unfolding broadcast_response_def Let_def swap broadcast_missed_other
    by (simp_all split: option.split identity_result.split)
qed

lemma complete_identity_update: "\<exists>a. fst (complete_identity N rid q) = N\<lparr>nd_pending_identity := a\<rparr>"
proof (cases "map_of (nd_pending_identity N) rid")
  case None
  then have "fst (complete_identity N rid q) = N\<lparr>nd_pending_identity := nd_pending_identity N\<rparr>" by (simp add: complete_identity_def)
  then show ?thesis by blast
qed (auto simp: complete_identity_def)

lemma identity_response_fields:
  "nd_pending_broadcasts (fst (on_identity_response N p rid r)) = nd_pending_broadcasts (fst (broadcast_response N rid (ir_result r)))"
  "nd_pending_resolves (fst (on_identity_response N p rid r)) = nd_pending_resolves (fst (broadcast_response N rid (ir_result r)))"
  "set (snd (broadcast_response N rid (ir_result r))) \<subseteq> set (snd (on_identity_response N p rid r))"
proof -
  obtain a where "fst (complete_identity N rid (Inr r)) = N\<lparr>nd_pending_identity := a\<rparr>" using complete_identity_update by blast
  then show "nd_pending_broadcasts (fst (on_identity_response N p rid r)) = nd_pending_broadcasts (fst (broadcast_response N rid (ir_result r)))"
    "nd_pending_resolves (fst (on_identity_response N p rid r)) = nd_pending_resolves (fst (broadcast_response N rid (ir_result r)))"
    "set (snd (broadcast_response N rid (ir_result r))) \<subseteq> set (snd (on_identity_response N p rid r))"
    by (auto simp: on_identity_response_def split_def Let_def broadcast_response_other)
qed

lemma identity_failure_fields:
  "nd_pending_broadcasts (fst (on_identity_failure E N p rid e)) = nd_pending_broadcasts (fst (broadcast_response N rid None))"
  "nd_pending_resolves (fst (on_identity_failure E N p rid e)) = nd_pending_resolves (fst (broadcast_response N rid None))"
  "set (snd (broadcast_response N rid None)) \<subseteq> set (snd (on_identity_failure E N p rid e))"
proof -
  let ?q = "Inl (ENodeProtocol (''Identity request to '' @ ne_peer_text E p @ '' failed: '' @ e))"
  obtain a where a: "fst (complete_identity N rid ?q) = N\<lparr>nd_pending_identity := a\<rparr>" using complete_identity_update by blast
  have "fst (on_identity_failure E N p rid e) = fst (broadcast_response (fst (complete_identity N rid ?q)) rid None)"
    "snd (on_identity_failure E N p rid e) = snd (complete_identity N rid ?q) @ snd (broadcast_response (fst (complete_identity N rid ?q)) rid None)"
    by (simp_all add: on_identity_failure_def broadcast_response_def split_def Let_def split: option.split)
  then show "nd_pending_broadcasts (fst (on_identity_failure E N p rid e)) = nd_pending_broadcasts (fst (broadcast_response N rid None))"
    "nd_pending_resolves (fst (on_identity_failure E N p rid e)) = nd_pending_resolves (fst (broadcast_response N rid None))"
    "set (snd (broadcast_response N rid None)) \<subseteq> set (snd (on_identity_failure E N p rid e))"
    unfolding a broadcast_response_other by simp_all
qed

lemma step_cases:
  obtains (resolve) d tx where "i = Command (ResolveIdentityByDid d tx)"
  | (settled) rid r where "settles i = Some rid"
      "\<And>N. nd_pending_broadcasts (fst (node_step E K S N i)) =
        nd_pending_broadcasts (fst (broadcast_response N rid r))"
      "\<And>N. nd_pending_resolves (fst (node_step E K S N i)) =
        nd_pending_resolves (fst (broadcast_response N rid r))"
      "\<And>N. set (snd (broadcast_response N rid r)) \<subseteq> set (snd (node_step E K S N i))"
  | (other) "settles i = None"
      "\<And>N. nd_pending_broadcasts (fst (node_step E K S N i)) = nd_pending_broadcasts N"
      "\<And>N. nd_pending_resolves (fst (node_step E K S N i)) = nd_pending_resolves N"
proof (cases "\<exists>d tx. i = Command (ResolveIdentityByDid d tx)")
  case True
  then show ?thesis using resolve by blast
next
  case no_resolve: False
  show ?thesis
  proof (cases "settles i")
    case None
    then have "\<forall>p rid r. i \<noteq> IdentityOut p rid r" "\<forall>p rid e. i \<noteq> IdentityFailed p rid e" by auto
    then show ?thesis using None no_resolve by (intro other step_broadcasts) simp_all
  next
    case (Some rid)
    then consider p r where "i = IdentityOut p rid r" | p e where "i = IdentityFailed p rid e" by (cases i) auto
    then show ?thesis
    proof cases
      case 1
      show ?thesis by (rule settled [OF Some, where r = "ir_result r"]) (simp_all add: 1 identity_response_fields)
    next
      case 2
      show ?thesis by (rule settled [OF Some, where r = None]) (simp_all add: 2 identity_failure_fields)
    qed
  qed
qed

lemma step_keeps_broadcasts:
  assumes "broadcasts_ok N" and "fresh_ids S N"
  shows "broadcasts_ok (fst (node_step E K S N i))"
proof (cases i rule: step_cases [where E = E and K = K and S = S])
  case (resolve d tx)
  then show ?thesis using resolve_ok [OF assms] by simp
next
  case (settled rid r)
  from response_ok [OF assms(1)] show ?thesis by (subst broadcasts_ok_cong [OF settled(2,3)])
next
  case other
  then show ?thesis using assms(1) by (subst broadcasts_ok_cong [OF other(2,3)])
qed

lemma run_broadcasts_ok: "node_run E N0 as N \<Longrightarrow> broadcasts_ok N0 \<Longrightarrow> broadcasts_ok N"
proof (induction rule: node_run.induct)
  case (step as N S i K N' bs)
  then show ?case using step_keeps_broadcasts [of N S E K i] by simp
qed

subsection \<open>Every broadcast is answered\<close>

definition waiting :: "('p, 't, 'db, 'sk, 'xs, 'pc) node \<Rightarrow> did \<Rightarrow> nat \<Rightarrow> bool" where
  "waiting N d tx \<longleftrightarrow> (\<exists>r. map_of (nd_pending_broadcasts N) d = Some (r, tx))"

definition asked :: "('p, 't, 'db, 'sk, 'xs, 'pc) node \<Rightarrow> did \<Rightarrow> nat set" where
  "asked N d = {rid. map_of (nd_pending_resolves N) rid = Some d}"

lemma waiting_asked:
  assumes "broadcasts_ok N" and "waiting N d tx"
  shows "asked N d \<noteq> {}"
proof -
  obtain r where "map_of (nd_pending_broadcasts N) d = Some (r, tx)" using assms(2) by (auto simp: waiting_def)
  then have "0 < length (outstanding N d)" using assms(1) unfolding broadcasts_ok_def by (metis less_le_trans)
  then obtain rid where "(rid, d) \<in> set (nd_pending_resolves N)" by (auto simp: outstanding_def filter_empty_conv)
  then show ?thesis using assms(1) by (auto simp: broadcasts_ok_def asked_def)
qed

lemma response_progress:
  assumes "broadcasts_ok N" and "waiting N d tx"
  shows "(\<exists>x. Reply tx (FoundReply x) \<in> set (snd (broadcast_response N rid r))) \<or>
    waiting (fst (broadcast_response N rid r)) d tx \<and> asked (fst (broadcast_response N rid r)) d \<subseteq> asked N d - {rid}"
proof (cases "map_of (nd_pending_resolves N) rid")
  case None
  then show ?thesis using assms(2) by (auto simp: broadcast_response_def asked_def)
next
  case (Some d')
  obtain n where n: "map_of (nd_pending_broadcasts N) d = Some (n, tx)" using assms(2) by (auto simp: waiting_def)
  have dist: "distinct (map fst (nd_pending_resolves N))" and n0: "0 < n"
    using assms(1) n by (auto simp: broadcasts_ok_def)
  let ?N = "N\<lparr>nd_pending_resolves := AList.delete rid (nd_pending_resolves N)\<rparr>"
  have missed: "(\<exists>x. Reply tx (FoundReply x) \<in> set (snd (broadcast_missed ?N d'))) \<or>
      waiting (fst (broadcast_missed ?N d')) d tx \<and> asked (fst (broadcast_missed ?N d')) d \<subseteq> asked N d - {rid}"
  proof (cases "map_of (nd_pending_broadcasts N) d'")
    case None
    then show ?thesis using n by (auto simp: missed_none waiting_def asked_def alist_simps split: if_splits)
  next
    case (Some q)
    obtain n' tx' where q: "q = (n', tx')" by fastforce
    have "0 < n'" using assms(1) Some q by (auto simp: broadcasts_ok_def)
    with missed_eq [of ?N d' n' tx' d] Some q n show ?thesis
      by (auto simp: waiting_def asked_def alist_simps split: if_splits)
  qed
  show ?thesis
  proof (cases "\<exists>f. r = Some (Found f)")
    case False
    then have "broadcast_response N rid r = broadcast_missed ?N d'"
      using Some by (auto simp: broadcast_response_def Let_def split: option.split identity_result.split)
    then show ?thesis using missed by simp
  next
    case True
    then obtain f where "r = Some (Found f)" by blast
    then have "broadcast_response N rid r =
        (?N\<lparr>nd_pending_broadcasts := AList.delete d' (nd_pending_broadcasts N),
          nd_pending_resolves := filter (\<lambda>(_, v). v \<noteq> d') (AList.delete rid (nd_pending_resolves N))\<rparr>,
         (case map_of (nd_pending_broadcasts N) d' of Some (_, tx) \<Rightarrow> [Reply tx (FoundReply (Inr f))] | None \<Rightarrow> []))"
      using Some by (simp add: broadcast_response_def Let_def)
    then show ?thesis
      using n map_of_kept_value [OF distinct_delete [OF dist], of "\<lambda>v. v \<noteq> d'" rid]
      by (cases "d' = d") (auto simp: waiting_def asked_def alist_simps split: option.splits if_splits)
  qed
qed

lemma step_progress:
  assumes "broadcasts_ok N" and "fresh_ids S N" and "waiting N d tx" and "\<forall>tx'. i \<noteq> Command (ResolveIdentityByDid d tx')"
  shows "(\<exists>x. Reply tx (FoundReply x) \<in> set (snd (node_step E K S N i))) \<or>
    waiting (fst (node_step E K S N i)) d tx \<and>
    asked (fst (node_step E K S N i)) d \<subseteq> asked N d - (case settles i of Some rid \<Rightarrow> {rid} | None \<Rightarrow> {})"
proof (cases i rule: step_cases [where E = E and K = K and S = S])
  case (resolve d' tx')
  have "distinct (map (sw_request_id S) [0..<length (sw_connected S)])"
    "\<forall>k \<in> set (map (sw_request_id S) [0..<length (sw_connected S)]). k \<notin> fst ` set (nd_pending_resolves N)"
    using assms(2) by (auto simp: fresh_ids_def distinct_map intro: inj_on_subset)
  note upd = update_all_fresh [OF this, of d']
  have ne: "d' \<noteq> d" using assms(4) resolve by auto
  then have "map_of (map (\<lambda>k. (k, d')) ids) x \<noteq> Some d" for ids and x :: nat by (auto dest: map_of_SomeD)
  then show ?thesis
    using resolve assms(3) ne
    by (auto simp: resolve_broadcast_def Let_def waiting_def asked_def alist_simps upd map_add_def simp del: map_map split: option.splits)
next
  case (settled rid r)
  from response_progress [OF assms(1,3), of rid r] show ?thesis
    using settled(1) settled(2,3,4) [of N] by (auto simp: waiting_def asked_def)
next
  case other
  then show ?thesis using assms(3) by (simp add: waiting_def asked_def)
qed

fun exec_fresh ::
  "('p, 't, 'db, 'sk, 'xs, 'pc) node_env \<Rightarrow> ('p, 't, 'db, 'sk, 'xs, 'pc) node
     \<Rightarrow> (node_clock \<times> 'p swarm \<times> ('p, 'sk, 'xs) node_input) list \<Rightarrow> bool" where
  "exec_fresh E N [] = True"
| "exec_fresh E N ((K, S, i) # is) = (fresh_ids S N \<and> exec_fresh E (fst (node_step E K S N i)) is)"

lemma exec_cons: "snd (node_exec E N ((K, S, i) # is)) = snd (node_step E K S N i) @ snd (node_exec E (fst (node_step E K S N i)) is)"
  by (simp add: split_def Let_def)

lemma exec_answers:
  "broadcasts_ok N \<Longrightarrow> exec_fresh E N is \<Longrightarrow> waiting N d tx \<Longrightarrow>
     \<forall>(K, S, i) \<in> set is. \<forall>tx'. i \<noteq> Command (ResolveIdentityByDid d tx') \<Longrightarrow>
     asked N d \<subseteq> {rid. \<exists>(K, S, i) \<in> set is. settles i = Some rid} \<Longrightarrow>
     \<exists>x. Reply tx (FoundReply x) \<in> set (snd (node_exec E N is))"
proof (induction "is" arbitrary: N)
  case Nil
  then show ?case using waiting_asked [of N d tx] by simp
next
  case (Cons x "is")
  obtain K S i where x: "x = (K, S, i)" by (cases x)
  let ?N = "fst (node_step E K S N i)"
  have "fresh_ids S N" "\<forall>tx'. i \<noteq> Command (ResolveIdentityByDid d tx')" using Cons.prems by (auto simp: x)
  from step_progress [OF Cons.prems(1) this(1) Cons.prems(3) this(2), of E K]
  show ?case
  proof (elim disjE conjE exE)
    fix y assume "Reply tx (FoundReply y) \<in> set (snd (node_step E K S N i))"
    then show ?thesis unfolding x exec_cons by auto
  next
    assume w: "waiting ?N d tx" "asked ?N d \<subseteq> asked N d - (case settles i of Some rid \<Rightarrow> {rid} | None \<Rightarrow> {})"
    have "\<exists>x. Reply tx (FoundReply x) \<in> set (snd (node_exec E ?N is))"
    proof (rule Cons.IH)
      show "broadcasts_ok ?N" using Cons.prems by (intro step_keeps_broadcasts) (simp_all add: x)
      show "exec_fresh E ?N is" using Cons.prems by (simp add: x)
      show "waiting ?N d tx" by (rule w(1))
      show "\<forall>(K, S, i) \<in> set is. \<forall>tx'. i \<noteq> Command (ResolveIdentityByDid d tx')" using Cons.prems by simp
      show "asked ?N d \<subseteq> {rid. \<exists>(K, S, i) \<in> set is. settles i = Some rid}"
        using Cons.prems(5) w(2) by (auto simp: x split: option.splits)
    qed
    then show ?thesis unfolding x exec_cons by auto
  qed
qed

lemma new_broadcasts_ok: "broadcasts_ok (node_new E p db store relays)"
  by (simp add: broadcasts_ok_def node_new_def)

text \<open>C10. A broadcast resolution always ends: however the node got to its state, once every identity request
  that is out for a DID has been answered or has failed, in whatever order and with whatever happens in between
  (short of a second resolution of the same DID), the caller has been told a result.\<close>

theorem broadcast_answered:
  assumes "node_run E (node_new E p db store relays) as N"
    and "map_of (nd_pending_broadcasts N) d = Some (r, tx)"
    and "exec_fresh E N is"
    and "\<forall>(K, S, i) \<in> set is. \<forall>tx'. i \<noteq> Command (ResolveIdentityByDid d tx')"
    and "\<forall>rid. map_of (nd_pending_resolves N) rid = Some d \<longrightarrow> (\<exists>(K, S, i) \<in> set is. settles i = Some rid)"
  shows "\<exists>x. Reply tx (FoundReply x) \<in> set (snd (node_exec E N is))"
proof (rule exec_answers [OF run_broadcasts_ok [OF assms(1) new_broadcasts_ok] assms(3) _ assms(4)])
  show "waiting N d tx" using assms(2) by (auto simp: waiting_def)
  show "asked N d \<subseteq> {rid. \<exists>(K, S, i) \<in> set is. settles i = Some rid}" using assms(5) by (auto simp: asked_def)
qed

definition asked_node :: "(nat, (string, bytes) rbt, (string, bytes) rbt message_db, 8 word, 8 word, unit) node" where
  "asked_node = fst (node_step sample_env sample_clock (sample_swarm [8, 9] 40) sample_node
     (Command (ResolveIdentityByDid ''did:variance:aa'' 3)))"

lemma asked_node:
  "asked_node = sample_node\<lparr>nd_pending_broadcasts := [(''did:variance:aa'', 2, 3)],
     nd_pending_resolves := [(40, ''did:variance:aa''), (41, ''did:variance:aa'')]\<rparr>"
  by (simp add: asked_node_def resolve_broadcast_def numeral_2_eq_2 Let_def)

definition not_found_answer :: identity_response where
  "not_found_answer = create_not_found_response 5 ''x'' ''unknown''"

theorem broadcast_answered_witness:
  "\<exists>x. Reply 3 (FoundReply x) \<in> set (snd (node_exec sample_env asked_node
     [(sample_clock, sample_swarm [8] 50, IdentityFailed 9 41 ''timeout''),
      (sample_clock, sample_swarm [8] 60, ConnectionUp 7),
      (sample_clock, sample_swarm [8] 70, IdentityOut 8 40 not_found_answer)]))"
proof (rule broadcast_answered)
  let ?s = "node_step sample_env sample_clock (sample_swarm [8, 9] 40) sample_node (Command (ResolveIdentityByDid ''did:variance:aa'' 3))"
  have "?s = (asked_node, snd ?s)" by (simp add: asked_node_def del: node_step.simps)
  then have "node_run sample_env sample_node ([] @ snd ?s) asked_node"
    by (rule node_run.step [OF node_run.start, rotated 2]) (simp_all add: sample_fresh)
  then show "node_run sample_env (node_new sample_env 1 (db_new rbt_env) RBT.empty []) ([] @ snd ?s) asked_node"
    by (simp only: sample_node_def)
  show "map_of (nd_pending_broadcasts asked_node) ''did:variance:aa'' = Some (2, 3)" by (simp add: asked_node)
  show "exec_fresh sample_env asked_node
     [(sample_clock, sample_swarm [8] 50, IdentityFailed 9 41 ''timeout''),
      (sample_clock, sample_swarm [8] 60, ConnectionUp 7),
      (sample_clock, sample_swarm [8] 70, IdentityOut 8 40 not_found_answer)]"
    by (simp add: sample_fresh asked_node on_identity_failure_def complete_identity_def broadcast_missed_def usize_pred_def
        on_connection_established_def Let_def numeral_2_eq_2)
qed (auto simp: asked_node split: if_splits)

subsection \<open>Two resolutions of one DID\<close>

lemma answer_to_waiter:
  "\<forall>d. \<not> waiting N d tx \<Longrightarrow> Reply tx (FoundReply x) \<notin> set (snd (broadcast_response N rid r))"
  by (auto simp: broadcast_response_def broadcast_missed_def Let_def waiting_def split: option.split identity_result.split)

lemma signaling_event_replies [simp]: "Reply tx r \<notin> set (emit_signaling_event m p)"
  by (auto simp: emit_signaling_event_def split: option.split signaling_body.split)

lemma missed_waiter:
  assumes "\<forall>d. \<not> waiting N d tx"
  shows "\<not> waiting (fst (broadcast_missed N e)) d tx"
proof (cases "map_of (nd_pending_broadcasts N) e")
  case None
  then show ?thesis using assms by (simp add: missed_none)
next
  case (Some q)
  obtain n tx' where q: "q = (n, tx')" by fastforce
  with Some assms have "tx' \<noteq> tx" by (auto simp: waiting_def)
  with Some assms show ?thesis
    by (cases "usize_pred n = 0") (simp_all add: q broadcast_missed_def waiting_def alist_simps Let_def)
qed

lemma waiter_stays_away:
  assumes "\<forall>d. \<not> waiting N d tx"
  shows "\<not> waiting (fst (broadcast_response N rid r)) d tx"
proof (cases "map_of (nd_pending_resolves N) rid")
  case None
  then show ?thesis using assms by (simp add: broadcast_response_def)
next
  case (Some e)
  have "\<forall>d. \<not> waiting (N\<lparr>nd_pending_resolves := AList.delete rid (nd_pending_resolves N)\<rparr>) d tx"
    using assms by (simp add: waiting_def)
  from missed_waiter [OF this] Some assms show ?thesis
    by (simp add: broadcast_response_def waiting_def alist_simps Let_def split: option.split identity_result.split)
qed

lemma step_replies:
  assumes "Reply tx (FoundReply x) \<in> set (snd (node_step E K S N i))" and "\<forall>d. i \<noteq> Command (ResolveIdentityByDid d tx)"
  shows "\<exists>d. waiting N d tx"
proof (cases "settles i")
  case None
  with assms show ?thesis
  proof (cases i)
    case (Command c)
    with assms show ?thesis
      by (cases c) (auto simp: command_defs send_each_def unit_result_def Let_def
        split: option.splits if_splits)
  next
    case (MdnsDiscovered ps)
    have "Reply tx (FoundReply x) \<notin> set (snd (on_mdns_discovered N ps))"
      by (induction N ps rule: on_mdns_discovered.induct) (simp_all add: split_def Let_def)
    with MdnsDiscovered assms show ?thesis by simp
  next
    case (FoundProviders q ps)
    have "Reply tx (FoundReply x) \<notin> set (snd (dial_relays ks ps))" for ks
      by (induction ks ps rule: dial_relays.induct) (simp_all add: split_def Let_def)
    with FoundProviders assms show ?thesis
      by (auto simp: on_found_providers_def Let_def split_def split: option.splits if_splits)
  next
    case (TaskTurn t)
    with assms show ?thesis by (cases t) (auto simp: learn_sender_def Let_def split: sum.splits if_splits)
  qed (auto simp: handler_defs finish_providers_def on_offline_response_def on_signaling_response_def on_receipt_request_def
      on_sync_response_def on_sync_outbound_failure_def reconnect_known_peers_def learn_sender_def
      reciprocal_query_def Let_def split_def split: option.splits sum.splits if_splits)
next
  case (Some rid)
  then consider p r where "i = IdentityOut p rid r" | p e where "i = IdentityFailed p rid e" by (cases i) auto
  then show ?thesis
  proof cases
    case 1
    let ?M = "N\<lparr>nd_pending_identity := nd_pending_identity (fst (complete_identity N rid (Inr r))),
      nd_pending_auto := AList.delete rid (nd_pending_auto N)\<rparr>"
    from 1 assms(1) have reply: "Reply tx (FoundReply x) \<in> set (snd (broadcast_response ?M rid (ir_result r)))"
      by (auto simp: on_identity_response_def complete_identity_def Let_def split_def split: option.splits identity_result.splits)
    show ?thesis
    proof (rule ccontr)
      assume "\<nexists>d. waiting N d tx"
      then have "\<forall>d. \<not> waiting ?M d tx" by (simp add: waiting_def)
      from answer_to_waiter [OF this] reply show False by simp
    qed
  next
    case 2
    show ?thesis
    proof (rule ccontr)
      assume "\<nexists>d. waiting N d tx"
      then have "\<forall>d r. map_of (nd_pending_broadcasts N) d \<noteq> Some (r, tx)" by (simp add: waiting_def)
      with 2 assms(1) show False
        by (auto simp: on_identity_failure_def complete_identity_def broadcast_missed_def Let_def split_def split: option.splits if_splits)
    qed
  qed
qed

lemma step_waiter_away:
  assumes "\<forall>d. \<not> waiting N d tx" and "\<forall>d. i \<noteq> Command (ResolveIdentityByDid d tx)"
  shows "\<not> waiting (fst (node_step E K S N i)) d tx"
proof (cases i rule: step_cases [where E = E and K = K and S = S])
  case (resolve d' tx')
  with assms show ?thesis by (auto simp: resolve_broadcast_def Let_def waiting_def alist_simps)
next
  case (settled rid r)
  from waiter_stays_away [OF assms(1), of rid r d] settled(2) [of N] show ?thesis by (simp add: waiting_def)
next
  case other
  then show ?thesis using assms(1) by (simp add: waiting_def)
qed

lemma exec_no_reply:
  "\<forall>d. \<not> waiting N d tx \<Longrightarrow> \<forall>(K, S, i) \<in> set is. \<forall>d. i \<noteq> Command (ResolveIdentityByDid d tx) \<Longrightarrow>
     Reply tx (FoundReply x) \<notin> set (snd (node_exec E N is))"
proof (induction "is" arbitrary: N)
  case (Cons y "is")
  obtain K S i where y: "y = (K, S, i)" by (cases y)
  have i: "\<forall>d. i \<noteq> Command (ResolveIdentityByDid d tx)" using Cons.prems(2) by (simp add: y)
  have "Reply tx (FoundReply x) \<notin> set (snd (node_step E K S N i))" using step_replies [OF _ i] Cons.prems(1) by blast
  moreover have "Reply tx (FoundReply x) \<notin> set (snd (node_exec E (fst (node_step E K S N i)) is))"
    using step_waiter_away [OF Cons.prems(1) i] Cons.prems(2) by (intro Cons.IH) simp_all
  ultimately show ?case unfolding y exec_cons by simp
qed simp

text \<open>Two resolutions of one DID get in each other's way. When a second one starts while the first is out,
  the first caller is never told anything, whatever the node does afterwards; and an answer that still belongs
  to the first is counted against the second, which is told that no peer knows the DID while its own request
  has not been answered.\<close>

theorem concurrent_resolves_interfere:
  assumes "waiting N d tx" and "\<forall>e. waiting N e tx \<longrightarrow> e = d" and "rid \<in> asked N d"
    and "fresh_ids S N" and "sw_connected S = [q]" and "tx' \<noteq> tx"
    and "\<forall>(K, S, i) \<in> set is. \<forall>e. i \<noteq> Command (ResolveIdentityByDid e tx)"
    and "second = fst (node_step E K S N (Command (ResolveIdentityByDid d tx')))"
    and "stale = node_step E K' S' second (IdentityOut p rid (create_not_found_response now d text))"
  shows "Reply tx (FoundReply x) \<notin> set (snd (node_exec E N ((K, S, Command (ResolveIdentityByDid d tx')) # is))) \<and>
    (\<exists>e. Reply tx' (FoundReply (Inl e)) \<in> set (snd stale)) \<and> sw_request_id S 0 \<in> asked (fst stale) d"
proof (intro conjI)
  have up: "second = N\<lparr>nd_pending_broadcasts := AList.update d (1, tx') (nd_pending_broadcasts N),
      nd_pending_resolves := AList.update (sw_request_id S 0) d (nd_pending_resolves N)\<rparr>"
    using assms(5) by (simp add: assms(8) resolve_broadcast_def Let_def)
  then have "\<forall>e. \<not> waiting second e tx"
    using assms(2,6) by (auto simp: waiting_def alist_simps)
  then have "Reply tx (FoundReply x) \<notin> set (snd (node_exec E second is))" using assms(7) by (rule exec_no_reply)
  moreover have "Reply tx (FoundReply x) \<notin> set (snd (node_step E K S N (Command (ResolveIdentityByDid d tx'))))"
    using assms(5) by (simp add: resolve_broadcast_def Let_def send_each_def)
  ultimately show "Reply tx (FoundReply x) \<notin> set (snd (node_exec E N ((K, S, Command (ResolveIdentityByDid d tx')) # is)))"
    unfolding exec_cons assms(8) by simp
  have ne: "sw_request_id S 0 \<noteq> rid"
    using assms(3,4) by (force simp: asked_def fresh_ids_def dest: map_of_SomeD)
  have rid: "map_of (nd_pending_resolves second) rid = Some d" using ne assms(3) by (simp add: up alist_simps asked_def)
  let ?r = "create_not_found_response now d text"
  have b: "broadcast_response second rid (ir_result ?r) =
      (second\<lparr>nd_pending_resolves := AList.delete rid (nd_pending_resolves second),
        nd_pending_broadcasts := AList.delete d (nd_pending_broadcasts second)\<rparr>,
       [Reply tx' (FoundReply (Inl (ENodeProtocol (''DID not found on any connected peer: '' @ d))))])"
    using rid by (simp add: broadcast_response_def broadcast_missed_def create_not_found_response_def up Let_def alist_simps usize_pred_def)
  then show "\<exists>e. Reply tx' (FoundReply (Inl e)) \<in> set (snd stale)"
    using identity_response_fields(3) [of second rid ?r p] by (auto simp: assms(9))
  have "nd_pending_resolves (fst stale) = AList.delete rid (nd_pending_resolves second)"
    using identity_response_fields(2) [of second p rid ?r] b by (simp add: assms(9))
  then show "sw_request_id S 0 \<in> asked (fst stale) d" using ne by (simp add: asked_def up alist_simps)
qed

definition asked_one :: "(nat, (string, bytes) rbt, (string, bytes) rbt message_db, 8 word, 8 word, unit) node" where
  "asked_one = sample_node\<lparr>nd_pending_broadcasts := [(''did:variance:aa'', 1, 3)],
     nd_pending_resolves := [(40, ''did:variance:aa'')]\<rparr>"

theorem concurrent_resolves_interfere_witness:
  "\<forall>x. Reply 3 (FoundReply x) \<notin> set (snd (node_exec sample_env asked_one
     [(sample_clock, sample_swarm [8] 50, Command (ResolveIdentityByDid ''did:variance:aa'' 4)),
      (sample_clock, sample_swarm [8] 60, IdentityOut 8 40 not_found_answer)]))"
proof -
  have "waiting asked_one ''did:variance:aa'' 3" "\<forall>e. waiting asked_one e 3 \<longrightarrow> e = ''did:variance:aa''"
    "40 \<in> asked asked_one ''did:variance:aa''" "fresh_ids (sample_swarm [8] 50) asked_one"
    "sw_connected (sample_swarm [8] 50) = [8]" "(4 :: nat) \<noteq> 3"
    "\<forall>(K, S, i) \<in> set [(sample_clock, sample_swarm [8] 60, IdentityOut 8 40 not_found_answer :: (nat, 8 word, 8 word) node_input)].
      \<forall>e. i \<noteq> Command (ResolveIdentityByDid e 3)"
    by (simp_all add: waiting_def asked_def asked_one_def sample_fresh)
  from concurrent_resolves_interfere [OF this refl refl, THEN conjunct1] show ?thesis by blast
qed

end
