(* ===== verification/Node_Security.thy ===== *)
theory Node_Security
  imports Node_Steps
begin

section \<open>Who the node believes\<close>

text \<open>
  What the node holds to be true of a DID, over all its inputs: the documents of the cache,
  the routes to peers, the renames it passes on, and the mailboxes it opens.
\<close>

subsection \<open>The cache holds verified documents\<close>

lemma run_task_cache:
  assumes "cache_verified (ne_crypto E) (nd_identity N)"
  shows "cache_verified (ne_crypto E) (nd_identity (fst (run_task E N t)))"
proof (cases t)
  case (LearnDocument p doc s)
  show ?thesis
  proof (cases "verify_document (ne_crypto E) (from_proto_with_signature doc (Some s))")
    case (Inr u)
    then show ?thesis
      using cache_verified_cache_did [OF assms, of "from_proto_with_signature doc (Some s)"] by (simp add: LearnDocument Let_def)
  qed (use assms in \<open>simp add: LearnDocument Let_def\<close>)
qed (use assms in \<open>simp_all add: cache_verified_def\<close>)

lemma cache_verified_cong: "ih_cache G = ih_cache H \<Longrightarrow> cache_verified C G \<longleftrightarrow> cache_verified C H"
  by (simp add: cache_verified_def)

lemma step_cache:
  assumes "\<forall>t. i \<noteq> TaskTurn t"
  shows "ih_cache (nd_identity (fst (node_step E K S N i))) = ih_cache (nd_identity N)"
  using assms
  by (cases i; simp add: handler_defs on_identity_response_def broadcast_response_def on_identity_failure_def Let_def split_def
      split: option.split sum.split identity_result.split)

lemma step_cache_verified:
  assumes "cache_verified (ne_crypto E) (nd_identity N)"
  shows "cache_verified (ne_crypto E) (nd_identity (fst (node_step E K S N i)))"
proof (cases "\<exists>t. i = TaskTurn t")
  case True
  then show ?thesis using run_task_cache [OF assms] by auto
next
  case False
  then show ?thesis using assms cache_verified_cong [OF step_cache] by blast
qed

lemma run_cache_verified:
  "node_run E N0 as N \<Longrightarrow> cache_verified (ne_crypto E) (nd_identity N0) \<Longrightarrow> cache_verified (ne_crypto E) (nd_identity N)"
proof (induction rule: node_run.induct)
  case (step as N S i K N' bs)
  then show ?case using step_cache_verified [of E N K S i] by simp
qed

lemma new_cache_verified: "cache_verified C (nd_identity (node_new E p db store relays))"
  by (simp add: node_new_def cache_verified_new)

subsection \<open>The limiter in front of the handlers\<close>

fun input_check :: "('p, 'sk, 'xs) node_input \<Rightarrow> ('p \<times> string) option" where
  "input_check (GossipMessage p bs) = Some (p, ''direct_messages'')"
| "input_check (IdentityIn p r ch) = Some (p, ''identity'')"
| "input_check (OfflineIn p r ch) = Some (p, ''offline_messages'')"
| "input_check (SignalingIn p m ch) = Some (p, ''signaling'')"
| "input_check (DirectIn p m ch) = Some (p, ''direct_messages'')"
| "input_check (TypingIn p t ch) = Some (p, ''typing_indicators'')"
| "input_check (RenameIn p r ch) = Some (p, ''rename'')"
| "input_check (SyncIn p r rid ch) = Some (p, ''group_sync'')"
| "input_check _ = None"

fun input_gone :: "('p, 'sk, 'xs) node_input \<Rightarrow> 'p option" where
  "input_gone (ConnectionDown p) = Some p"
| "input_gone _ = None"

lemma frame_limiter [simp]:
  "nd_rate_limiter (learn_route E N d p) = nd_rate_limiter N"
  "nd_rate_limiter (known_address N p a) = nd_rate_limiter N"
  "nd_rate_limiter (fst (broadcast_missed N d)) = nd_rate_limiter N"
  "nd_rate_limiter (fst (reciprocal_query E K S N p)) = nd_rate_limiter N"
  "nd_rate_limiter (fst (admit K N p proto)) = fst (rl_check (nd_rate_limiter N) p proto (ck_protocol_ns K) (ck_global_ns K))"
  by (simp_all add: learn_route_def known_address_def broadcast_missed_def reciprocal_query_def admit_def Let_def split_def
      split: option.split)

lemma foldl_known_limiter [simp]: "nd_rate_limiter (foldl (\<lambda>N a. known_address N p a) N as) = nd_rate_limiter N"
  by (induction as arbitrary: N) simp_all

lemma mdns_limiter [simp]: "nd_rate_limiter (fst (on_mdns_discovered N ps)) = nd_rate_limiter N"
  by (induction N ps rule: on_mdns_discovered.induct) (simp_all add: split_def Let_def)

lemma command_limiter [simp]: "nd_rate_limiter (fst (handle_command E K S N c)) = nd_rate_limiter N"
  by (cases c) (simp_all add: command_defs Let_def split: option.split)

lemma task_limiter [simp]: "nd_rate_limiter (fst (run_task E N t)) = nd_rate_limiter N"
  by (cases t) (simp_all add: Let_def split: sum.split)

text \<open>A step checks the limiter once, for the peer and the protocol of the input, or drops a peer from it.\<close>

lemma step_limiter:
  "nd_rate_limiter (fst (node_step E K S N i)) =
     (case input_check i of
        Some (p, proto) \<Rightarrow> fst (rl_check (nd_rate_limiter N) p proto (ck_protocol_ns K) (ck_global_ns K))
      | None \<Rightarrow> (case input_gone i of Some p \<Rightarrow> rl_remove_peer (nd_rate_limiter N) p | None \<Rightarrow> nd_rate_limiter N))"
  by (cases i) (simp_all add: handler_defs finish_providers_def on_identity_response_def complete_identity_def broadcast_response_def
      on_identity_failure_def Let_def split_def split: option.split sum.split identity_result.split)

definition node_turn ::
  "('p, 't, 'db, 'sk, 'xs, 'pc) node_env \<Rightarrow> ('p, 't, 'db, 'sk, 'xs, 'pc) node
     \<Rightarrow> node_clock \<times> 'p swarm \<times> ('p, 'sk, 'xs) node_input \<Rightarrow> ('p, 't, 'db, 'sk, 'xs, 'pc) node" where
  "node_turn E N x = (case x of (K, S, i) \<Rightarrow> fst (node_step E K S N i))"

definition node_admits ::
  "'p \<Rightarrow> string \<Rightarrow> ('p, 't, 'db, 'sk, 'xs, 'pc) node \<Rightarrow> node_clock \<times> 'p swarm \<times> ('p, 'sk, 'xs) node_input \<Rightarrow> bool" where
  "node_admits p proto N x = (case x of (K, S, i) \<Rightarrow> input_check i = Some (p, proto) \<and> snd (admit K N p proto))"

definition turn_time :: "node_clock \<times> 'p swarm \<times> ('p, 'sk, 'xs) node_input \<Rightarrow> nat" where
  "turn_time x = ck_protocol_ns (fst x)"

definition turn_keeps :: "'p \<Rightarrow> node_clock \<times> 'p swarm \<times> ('p, 'sk, 'xs) node_input \<Rightarrow> bool" where
  "turn_keeps p x \<longleftrightarrow> input_gone (snd (snd x)) \<noteq> Some p"

text \<open>What a turn does to the limiter is nothing, or an event of the limiter that reads the clock at the turn.\<close>

lemma turn_event:
  assumes "turn_keeps p x"
  obtains (idle) "nd_rate_limiter (node_turn E N x) = nd_rate_limiter N" "\<And>proto. \<not> node_admits p proto N x"
  | (event) e where "nd_rate_limiter (node_turn E N x) = rl_step (nd_rate_limiter N) e" "rl_time1 e = turn_time x" "rl_keeps p e"
      "\<And>proto. node_admits p proto N x = rl_granted p proto (nd_rate_limiter N) e"
proof -
  obtain K S i where x: "x = (K, S, i)" by (cases x)
  show ?thesis
  proof (cases "input_check i")
    case None
    show ?thesis
    proof (cases "input_gone i")
      case None
      with \<open>input_check i = None\<close> show ?thesis by (intro idle) (simp_all add: x node_turn_def step_limiter node_admits_def)
    next
      case (Some q)
      with None assms show ?thesis
        by (intro event [of "RlRemove q (ck_protocol_ns K)"])
          (auto simp: x node_turn_def step_limiter turn_time_def rl_keeps_def turn_keeps_def node_admits_def)
    qed
  next
    case (Some q)
    obtain r pr where q: "q = (r, pr)" by fastforce
    with Some show ?thesis
      by (intro event [of "RlCheck r pr (ck_protocol_ns K) (ck_global_ns K)"])
        (auto simp: x node_turn_def step_limiter turn_time_def rl_keeps_def node_admits_def admit_def split_def Let_def)
  qed
qed

lemma proto_ready_later: "proto_ready p proto c l t \<Longrightarrow> t \<le> u \<Longrightarrow> proto_ready p proto c l u"
  by (auto simp: proto_ready_def bucket_ready_def split: option.splits)

interpretation turns: metered "\<lambda>N. proto_level p proto c (nd_rate_limiter N)" "node_turn E" "node_admits p proto" turn_time
  "\<lambda>N. proto_ready p proto c (nd_rate_limiter N)" "turn_keeps p" "bc_refill_rate c" for E p proto c
proof (unfold_locales, goal_cases)
  case (1 N t x)
  from 1(3) show ?case
  proof (cases rule: turn_event [where E = E and N = N])
    case idle
    then show ?thesis using 1 by (simp add: proto_ready_later)
  next
    case (event e)
    then show ?thesis using budget.ready_step [OF 1(1), of e] 1(2) by simp
  qed
next
  case (2 N t x)
  from 2(3) show ?case
  proof (cases rule: turn_event [where E = E and N = N])
    case idle
    then show ?thesis by simp
  next
    case (event e)
    then show ?thesis using budget.pays [OF 2(1), of e] 2(2) by simp
  qed
next
  case (3 N t u)
  then show ?case by (rule budget.accrues)
next
  case (4 N t)
  then show ?case by (rule budget.nonneg)
qed

subsection \<open>Mailboxes\<close>

fun is_fetch :: "'p \<Rightarrow> 'p action \<Rightarrow> bool" where
  "is_fetch p (Emit (FetchRequested q tok n)) = (q = p)"
| "is_fetch p _ = False"

lemma signaling_event_fetch [simp]: "a \<in> set (emit_signaling_event m q) \<Longrightarrow> \<not> is_fetch p a"
proof -
  show "a \<in> set (emit_signaling_event m q) \<Longrightarrow> \<not> is_fetch p a"
  proof (cases "sg_message m")
    case (Some b)
    then show "a \<in> set (emit_signaling_event m q) \<Longrightarrow> \<not> is_fetch p a" by (cases b) (simp_all add: emit_signaling_event_def)
  qed (simp add: emit_signaling_event_def)
qed

lemma no_fetch:
  assumes "\<forall>r ch. i \<noteq> OfflineIn p r ch"
  shows "a \<in> set (snd (node_step E K S N i)) \<Longrightarrow> \<not> is_fetch p a"
proof (cases i)
  case (Command c)
  assume "a \<in> set (snd (node_step E K S N i))"
  with Command show "\<not> is_fetch p a"
    by (cases c) (auto simp: command_defs send_each_def unit_result_def Let_def
      split: option.splits if_splits)
next
  case (MdnsDiscovered ps)
  have "\<forall>a \<in> set (snd (on_mdns_discovered N ps)). \<not> is_fetch p a"
    by (induction N ps rule: on_mdns_discovered.induct) (simp_all add: split_def Let_def)
  then show "a \<in> set (snd (node_step E K S N i)) \<Longrightarrow> \<not> is_fetch p a" using MdnsDiscovered by simp
next
  case (FoundProviders q ps)
  have "\<forall>a \<in> set (snd (dial_relays ks ps)). \<not> is_fetch p a" for ks
    by (induction ks ps rule: dial_relays.induct) (simp_all add: split_def Let_def)
  then show "a \<in> set (snd (node_step E K S N i)) \<Longrightarrow> \<not> is_fetch p a"
    using FoundProviders by (auto simp: on_found_providers_def Let_def split_def split: option.splits if_splits)
next
  case (TaskTurn t)
  then show "a \<in> set (snd (node_step E K S N i)) \<Longrightarrow> \<not> is_fetch p a"
    by (cases t) (auto simp: learn_sender_def Let_def split: sum.splits if_splits)
qed (use assms in \<open>auto simp: handler_defs finish_providers_def on_identity_response_def on_identity_failure_def complete_identity_def
    broadcast_response_def broadcast_missed_def on_offline_response_def on_signaling_response_def on_receipt_request_def
    on_sync_response_def on_sync_outbound_failure_def reconnect_known_peers_def learn_sender_def
    reciprocal_query_def Let_def split_def split: option.splits sum.splits if_splits identity_result.splits\<close>)

lemma step_fetches:
  "length (filter (is_fetch p) (snd (node_step E K S N i))) \<le> of_bool (node_admits p ''offline_messages'' N (K, S, i))"
proof (cases "\<exists>r ch. i = OfflineIn p r ch")
  case True
  then show ?thesis
    by (auto simp: on_offline_request_def node_admits_def Let_def split_def split: sum.split)
next
  case False
  then have "filter (is_fetch p) (snd (node_step E K S N i)) = []" by (simp add: filter_empty_conv no_fetch)
  then show ?thesis by simp
qed

lemma exec_fetches:
  "length (filter (is_fetch p) (snd (node_exec E N is))) \<le> grants (node_turn E) (node_admits p ''offline_messages'') N is"
proof (induction "is" arbitrary: N)
  case (Cons x "is")
  obtain K S i where x: "x = (K, S, i)" by (cases x)
  have "length (filter (is_fetch p) (snd (node_exec E N (x # is)))) =
      length (filter (is_fetch p) (snd (node_step E K S N i)))
      + length (filter (is_fetch p) (snd (node_exec E (fst (node_step E K S N i)) is)))"
    by (simp add: x split_def Let_def)
  then show ?case
    using step_fetches [of p E K S N i] Cons.IH [of "fst (node_step E K S N i)"] by (simp add: x node_turn_def)
qed simp

lemma new_limiter: "nd_rate_limiter (node_new E p db store relays) = rl_new"
  by (simp add: node_new_def)

text \<open>C13. No peer can pump a mailbox: while it stays connected, whatever else it and others send, the node serves at
  most three mailbox fetches to a peer plus one per twenty seconds.\<close>

theorem fetch_budget:
  assumes "timely turn_time t is" and "list_all (turn_keeps p) is"
  shows "real (length (filter (is_fetch p) (snd (node_exec E (node_new E me db store relays) is))))
    \<le> 3 + secs (last_at turn_time t is - t) / 20"
proof -
  let ?N = "node_new E me db store relays" and ?c = "from_window 3 60"
  have "proto_ready p ''offline_messages'' ?c (nd_rate_limiter ?N) t"
    by (simp add: new_limiter proto_ready_def from_window_ok rl_new_def default_configs_def)
  from turns.grants_bound [OF this assms]
  have "real (grants (node_turn E) (node_admits p ''offline_messages'') ?N is)
      \<le> bc_max_tokens ?c + bc_refill_rate ?c * secs (last_at turn_time t is - t)"
    by (simp add: proto_level_def current_bucket_def new_limiter rl_new_def)
  then show ?thesis using exec_fetches [of p E ?N "is"] by (simp add: from_window_def)
qed

theorem fetch_budget_witness:
  "real (length (filter (is_fetch 7) (snd (node_exec sample_env sample_node
     (replicate 9 (sample_clock, sample_swarm [7] 1, OfflineIn 7 sample_auth_request 5)))))) \<le> 3"
proof -
  let ?is = "replicate 9 (sample_clock, sample_swarm [7] 1, OfflineIn 7 sample_auth_request 5 :: (nat, 8 word, 8 word) node_input)"
  have "timely turn_time 0 ?is" "list_all (turn_keeps 7) ?is" "last_at turn_time 0 ?is = 0"
    by (simp_all add: numeral_eq_Suc turn_time_def sample_clock_def turn_keeps_def)
  with fetch_budget [of 0 ?is 7 sample_env 1 "db_new rbt_env" RBT.empty "[]"] show ?thesis
    by (simp add: sample_node_def)
qed

text \<open>C11. Messages leave a mailbox only for its owner: with strict signatures that only the key's owner can make and
  no SHA-256 collision, the node answers a request for the mailbox of a key with messages only if the limiter let
  the peer through and that very key signed the mailbox and a time within five minutes (or the one time where the
  difference overflows); the answer is then the relay's page.\<close>

theorem mailbox_opens_for_owner:
  assumes "\<forall>key data sig. au_verify_strict (ne_auth E) key data sig = Inr () \<longrightarrow> (key, data) \<in> issued"
    and "\<forall>key. mailbox_token (au_sha256 (ne_auth E)) key = mailbox_token (au_sha256 (ne_auth E)) owner \<longrightarrow> key = owner"
    and "oq_mailbox_token r = mailbox_token (au_sha256 (ne_auth E)) owner"
    and "clock_ok (ck_secs K)" and "in_i64 (oq_auth_timestamp r)"
    and "Respond ch (OfflineAns resp) \<in> set (snd (node_step E K S N (OfflineIn p r ch)))" and "or_messages resp \<noteq> []"
  shows "node_admits p ''offline_messages'' N (K, S, OfflineIn p r ch) \<and>
    (owner, oq_mailbox_token r @ i64_to_le (oq_auth_timestamp r)) \<in> issued \<and>
    (\<bar>ck_secs K - oq_auth_timestamp r\<bar> \<le> 300 \<or> oq_auth_timestamp r = ck_secs K - 2 ^ 63) \<and>
    relay_fetch_messages (ne_offline E) (nd_offline_db N) r = Inr resp"
proof -
  have a: "snd (admit K N p ''offline_messages'')" "verify_offline_request_auth (ne_auth E) (ck_secs K) r = Inr ()"
    "resp = offline_handle_request (ne_show_error E) (ne_offline E) (nd_offline_db N) r"
    using assms(6,7) by (auto simp: on_offline_request_def offline_nack_def Let_def split_def split: if_splits sum.splits)
  from a(3) assms(7) have "relay_fetch_messages (ne_offline E) (nd_offline_db N) r = Inr resp"
    by (auto simp: offline_handle_request_def create_error_response_def split: sum.splits)
  then show ?thesis
    using a mailbox_owner_only [OF assms(1-5) a(2)] assms(3) by (simp add: node_admits_def)
qed

lemma new_limiter_admits:
  "default_configs proto = Some c \<Longrightarrow> 1 \<le> bc_max_tokens c \<Longrightarrow> is_allowed (snd (rl_check rl_new p proto t u))"
proof -
  assume c: "default_configs proto = Some c" "1 \<le> bc_max_tokens c"
  then have cfg: "rl_configs rl_new proto = Some c" by (simp add: rl_new_def)
  have "tb_tokens (bucket_refill (config_bucket d v) v) = bc_max_tokens d" if "0 \<le> bc_max_tokens d" for d v
    using that by (simp add: config_bucket_def bucket_new_def bucket_refill_def secs_def)
  then show ?thesis
    using c rl_check_decision [OF cfg, of p t u]
    by (simp add: is_allowed_def current_bucket_def rl_entry_global_def rl_new_def from_window_def try_consume_tokens(2) bucket_level_def)
qed

lemma sample_admits [simp]:
  "default_configs proto = Some c \<Longrightarrow> 1 \<le> bc_max_tokens c \<Longrightarrow> nd_rate_limiter N = rl_new \<Longrightarrow> snd (admit K N p proto)"
  using new_limiter_admits [of proto c p] by (simp add: admit_def split_def)

definition one_message_store :: "unit offline_storage" where
  "one_message_store = \<lparr>os_store = (\<lambda>db e. (db, Inr ())), os_fetch = (\<lambda>db tok since n. Inr [sample_envelope ''A'' 5 8]),
     os_count = (\<lambda>db tok. Inr 1), os_delete = (\<lambda>db i. (db, Inr ())), os_cleanup = (\<lambda>db now. (db, Inr 0))\<rparr>"

definition mailbox_env :: "(nat, (string, bytes) rbt, unit, 8 word, 8 word, unit) node_env" where
  "mailbox_env =
     \<lparr>ne_crypto = toy_crypto, ne_auth = toy_auth (replicate 32 7) (auth_payload sample_auth_request),
      ne_peer_text = (\<lambda>p. replicate p CHR ''p''), ne_peer_codec = unary_codec, ne_sled = rbt_sled,
      ne_webrtc = sample_webrtc (Inr ()), ne_offline = one_message_store, ne_show_error = (\<lambda>e. ''error''),
      ne_group_codec = unary_codec\<rparr>"

theorem mailbox_opens_for_owner_witness:
  "\<exists>resp. relay_fetch_messages one_message_store () sample_auth_request = Inr resp \<and> length (or_messages resp) = 1 \<and>
     (replicate 32 7, auth_payload sample_auth_request) \<in> {(replicate 32 7, auth_payload sample_auth_request)} \<and>
     \<bar>1100 - oq_auth_timestamp sample_auth_request\<bar> \<le> 300"
proof -
  let ?N = "node_new mailbox_env 1 () RBT.empty []"
  let ?resp = "offline_handle_request (ne_show_error mailbox_env) one_message_store () sample_auth_request"
  have r: "oq_limit sample_auth_request = 5" by (simp add: sample_auth_request_def Let_def)
  then have m: "or_messages ?resp = [sample_envelope ''A'' 5 8]"
    by (simp add: offline_handle_request_def relay_fetch_messages_def one_message_store_def Let_def)
  have auth: "verify_offline_request_auth (ne_auth mailbox_env) (ck_secs sample_clock) sample_auth_request = Inr ()"
    using sample_auth_passes by (simp add: mailbox_env_def sample_clock_def)
  have "Respond 5 (OfflineAns ?resp) \<in> set (snd (node_step mailbox_env sample_clock (sample_swarm [7] 1) ?N (OfflineIn 7 sample_auth_request 5)))"
    using auth sample_admits [of "''offline_messages''" _ ?N sample_clock 7]
    by (simp add: on_offline_request_def split_def Let_def default_configs_def from_window_def new_limiter)
      (simp add: mailbox_env_def node_new_def)
  moreover have "\<forall>key data sig. au_verify_strict (ne_auth mailbox_env) key data sig = Inr () \<longrightarrow>
      (key, data) \<in> {(replicate 32 7, auth_payload sample_auth_request)}"
    by (simp add: mailbox_env_def toy_auth_def)
  moreover have "\<forall>key. mailbox_token (au_sha256 (ne_auth mailbox_env)) key = mailbox_token (au_sha256 (ne_auth mailbox_env)) (replicate 32 7)
      \<longrightarrow> key = replicate 32 7"
    by (simp add: mailbox_env_def toy_auth_def mailbox_token_def)
  moreover have "oq_mailbox_token sample_auth_request = mailbox_token (au_sha256 (ne_auth mailbox_env)) (replicate 32 7)"
    "oq_auth_timestamp sample_auth_request = 1000"
    by (simp_all add: mailbox_env_def toy_auth_def sample_auth_request_def Let_def)
  moreover have "clock_ok (ck_secs sample_clock)" "in_i64 1000"
    by (simp_all add: sample_clock_def clock_ok_def in_i64_def i64_min_def i64_max_def)
  ultimately have "relay_fetch_messages (ne_offline mailbox_env) (nd_offline_db ?N) sample_auth_request = Inr ?resp"
    using m mailbox_opens_for_owner [of mailbox_env "{(replicate 32 7, auth_payload sample_auth_request)}" "replicate 32 7"
        sample_auth_request sample_clock 5 ?resp "sample_swarm [7] 1" ?N 7]
    by simp
  then show ?thesis
    using m by (simp add: mailbox_env_def node_new_def sample_auth_request_def Let_def)
qed

subsection \<open>Renames\<close>

text \<open>C24. A rename is believed only with a fresh signature of the key on file: for a DID with a cached document, in
  every state the node can get to, a rename is passed on only if its time is within five minutes of the clock (or
  the one where the difference overflows) and it carries a signature, over exactly the DID, the name, the
  discriminator and the time, of the first key of the cached document, a document that verifies itself.\<close>

theorem rename_authentic:
  assumes "node_run E (node_new E me db store relays) as N"
    and "clock_ok (ck_secs K)" and "in_i64 (rn_timestamp r)"
    and "Emit (PeerRenamed d u n) \<in> set (snd (node_step E K S N (RenameIn p r ch)))"
    and "get_cached_did (nd_identity N) d = Some doc"
  shows "rn_did r = d \<and> rn_username r = u \<and> rn_discriminator r = n \<and>
    (\<bar>ck_secs K - rn_timestamp r\<bar> \<le> 300 \<or> rn_timestamp r = ck_secs K - 2 ^ 63) \<and>
    (\<exists>key. get_verifying_key (ne_crypto E) doc = Inr key \<and>
      dc_verify (ne_crypto E) key (rename_payload d u n (rn_timestamp r)) (rn_signature r)) \<and>
    verify_document (ne_crypto E) doc = Inr ()"
proof -
  have e: "rn_did r = d" "rn_username r = u" "rn_discriminator r = n" "drift (ck_secs K) (rn_timestamp r) \<le> 300"
    "rename_valid (ne_crypto E) (nd_identity N) r"
    using assms(4) by (auto simp: on_rename_request_def Let_def split_def split: if_splits)
  have "cache_verified (ne_crypto E) (nd_identity N)"
    by (rule run_cache_verified [OF assms(1) new_cache_verified])
  then have "verify_document (ne_crypto E) doc = Inr ()" using assms(5) by (simp add: cache_verified_def get_cached_did_def)
  then show ?thesis
    using e drift_window [OF assms(2,3)] assms(5) by (auto simp: rename_valid_def split: sum.splits)
qed

text \<open>A run in which peer 7 presents its own document.\<close>

definition bb_document :: did_document where
  "bb_document = di_document (toy_did ''did:variance:bb'' 7)"

definition bb_task :: "nat task" where
  "bb_task = LearnDocument 7 bb_document (replicate 64 7)"

definition learned_node :: "(nat, (string, bytes) rbt, (string, bytes) rbt message_db, 8 word, 8 word, unit) node" where
  "learned_node = fst (run_task sample_env sample_node bb_task)"

definition bb_answer :: identity_response where
  "bb_answer = create_success_response 5 (toy_did ''did:variance:bb'' 7)"

lemma bb_answer: "ir_result bb_answer = Some (Found f) \<Longrightarrow> if_did_document f = Some bb_document \<and> if_document_signature f = replicate 64 7"
  "\<exists>f. ir_result bb_answer = Some (Found f)"
  by (auto simp: bb_answer_def create_success_response_def bb_document_def toy_did_def unwrap_or_default_def)

lemma bb_run: "\<exists>as. node_run sample_env sample_node as learned_node"
proof -
  let ?s = "node_step sample_env sample_clock (sample_swarm [7] 40) sample_node (IdentityOut 7 3 bb_answer)"
  obtain f where f: "ir_result bb_answer = Some (Found f)" using bb_answer(2) by blast
  note g = bb_answer(1) [OF f]
  have s: "?s = (sample_node, [Emit (IdentityResponseReceived 7 bb_answer), Spawn bb_task])"
    using f g by (simp add: on_identity_response_def complete_identity_def broadcast_response_def bb_task_def Let_def)
  have one: "node_run sample_env sample_node ([] @ snd ?s) sample_node"
    by (rule node_run.step [where S = "sample_swarm [7] 40" and i = "IdentityOut 7 3 bb_answer" and K = sample_clock, OF node_run.start])
      (simp_all add: s sample_fresh del: node_step.simps)
  let ?t = "node_step sample_env sample_clock (sample_swarm [7] 41) sample_node (TaskTurn bb_task)"
  have "node_run sample_env sample_node (([] @ snd ?s) @ snd ?t) learned_node"
    by (rule node_run.step [where S = "sample_swarm [7] 41" and i = "TaskTurn bb_task" and K = sample_clock, OF one])
      (simp_all add: s sample_fresh learned_node_def del: node_step.simps(1-9))
  then show ?thesis by blast
qed

lemma learned_node:
  "get_cached_did (nd_identity learned_node) ''did:variance:bb'' = Some (from_proto_with_signature bb_document (Some (replicate 64 7)))"
  "nd_rate_limiter learned_node = rl_new"
proof -
  have "verify_document toy_crypto (from_proto_with_signature bb_document (Some (replicate 64 7)) :: (8 word, 8 word) did_identity) = Inr ()"
    using sign_verify_proto [OF toy_crypto_ok toy_did, of "''did:variance:bb''" 7] by (simp add: bb_document_def toy_did_def)
  then show "get_cached_did (nd_identity learned_node) ''did:variance:bb'' = Some (from_proto_with_signature bb_document (Some (replicate 64 7)))"
    "nd_rate_limiter learned_node = rl_new"
    by (simp_all add: learned_node_def bb_task_def Let_def get_cached_after sample_env_def)
      (simp add: bb_document_def toy_did_def new_document_def from_proto_with_signature_def)
qed

definition bb_rename :: "int \<Rightarrow> username_changed" where
  "bb_rename t = \<lparr>rn_did = ''did:variance:bb'', rn_username = ''bob'', rn_discriminator = 42, rn_signature = replicate 64 7, rn_timestamp = t\<rparr>"

theorem rename_authentic_witness:
  "dc_verify toy_crypto (replicate 32 7) (rename_payload ''did:variance:bb'' ''bob'' 42 1000) (replicate 64 7) \<and> \<bar>(1100 :: int) - 1000\<bar> \<le> 300"
proof -
  obtain as where run: "node_run sample_env sample_node as learned_node" using bb_run by blast
  have clk: "clock_ok (ck_secs sample_clock)" "in_i64 (rn_timestamp (bb_rename 1000))"
    by (simp_all add: clock_ok_def sample_clock_def in_i64_def i64_min_def i64_max_def bb_rename_def)
  have drift: "drift (ck_secs sample_clock) 1000 \<le> 300" using drift_window [OF clk] by (simp add: sample_clock_def bb_rename_def)
  have key: "get_verifying_key toy_crypto (from_proto_with_signature bb_document (Some (replicate 64 7)) :: (8 word, 8 word) did_identity) = Inr (replicate 32 7)"
    by (simp add: get_verifying_key_def from_proto_with_signature_def bb_document_def toy_did_def new_document_def) (simp add: toy_crypto_def)
  have val: "rename_valid (ne_crypto sample_env) (nd_identity learned_node) (bb_rename 1000)"
    using learned_node(1) key by (simp add: rename_valid_def bb_rename_def sample_env_def) (simp add: toy_crypto_def)
  then have val': "rename_valid (ne_crypto sample_env) (nd_identity (fst (admit sample_clock learned_node 7 ''rename''))) (bb_rename 1000)"
    by simp
  have adm: "snd (admit sample_clock learned_node 7 ''rename'')"
    using sample_admits [of "''rename''" _ learned_node sample_clock 7] learned_node(2) by (simp add: default_configs_def from_window_def)
  have em: "Emit (PeerRenamed ''did:variance:bb'' ''bob'' 42)
      \<in> set (snd (node_step sample_env sample_clock (sample_swarm [7] 1) learned_node (RenameIn 7 (bb_rename 1000) 5)))"
    using adm val' drift by (simp add: on_rename_request_def split_def Let_def) (simp add: bb_rename_def)
  from rename_authentic [OF run [unfolded sample_node_def] clk em learned_node(1)] key show ?thesis
    by (simp add: sample_env_def bb_rename_def sample_clock_def)
qed

definition cache_named :: "('sk, 'xs) identity_handler \<Rightarrow> bool" where
  "cache_named H \<longleftrightarrow> (\<forall>k d. get_cached_did H k = Some d \<longrightarrow> k = di_id d \<or> dd_display_name (di_document d) = Some k)"

lemma cached_frame [simp]:
  "get_cached_did (set_local_username h u n) = get_cached_did h"
  "get_cached_did (update_one_time_keys h ks) = get_cached_did h"
  "get_cached_did (update_mls_key_package h kp) = get_cached_did h"
  by (simp_all add: get_cached_did_def fun_eq_iff)

lemma from_proto_fields [simp]:
  "di_id (from_proto_with_signature doc s) = dd_id doc" "di_document (from_proto_with_signature doc s) = doc"
  by (simp_all add: from_proto_with_signature_def)

lemma step_cache_named:
  assumes "cache_named (nd_identity N)"
  shows "cache_named (nd_identity (fst (node_step E K S N i)))"
proof (cases "\<exists>t. i = TaskTurn t")
  case False
  then have "get_cached_did (nd_identity (fst (node_step E K S N i))) k = get_cached_did (nd_identity N) k" for k
    by (simp add: get_cached_did_def step_cache)
  then show ?thesis using assms by (simp add: cache_named_def)
next
  case True
  then obtain t where "i = TaskTurn t" by blast
  then show ?thesis
    using assms by (cases t) (auto simp: cache_named_def get_cached_after Let_def split: sum.splits if_splits)
qed

lemma run_cache_named: "node_run E N0 as N \<Longrightarrow> cache_named (nd_identity N0) \<Longrightarrow> cache_named (nd_identity N)"
proof (induction rule: node_run.induct)
  case (step as N S i K N' bs)
  then show ?case using step_cache_named [of N E K S i] by simp
qed

text \<open>C15. The cache that every check rests on holds only documents that verify, whichever inputs the node has had, and a
  document is found only under its own DID or its own display name.\<close>

theorem node_cache_verified:
  assumes "node_run E (node_new E me db store relays) as N" and "get_cached_did (nd_identity N) k = Some doc"
  shows "verify_document (ne_crypto E) doc = Inr () \<and> (k = di_id doc \<or> dd_display_name (di_document doc) = Some k)"
proof -
  have "cache_named (nd_identity (node_new E me db store relays))"
    by (simp add: cache_named_def node_new_def get_cached_did_def identity_handler_new_def)
  then have "cache_named (nd_identity N)" by (rule run_cache_named [OF assms(1)])
  moreover have "cache_verified (ne_crypto E) (nd_identity N)" by (rule run_cache_verified [OF assms(1) new_cache_verified])
  ultimately show ?thesis using assms(2) by (simp add: cache_verified_def cache_named_def get_cached_did_def)
qed

theorem node_cache_verified_witness:
  "verify_document toy_crypto (from_proto_with_signature bb_document (Some (replicate 64 7)) :: (8 word, 8 word) did_identity) = Inr ()"
proof -
  obtain as where run: "node_run sample_env sample_node as learned_node" using bb_run by blast
  from node_cache_verified [OF run [unfolded sample_node_def] learned_node(1)] show ?thesis by (simp add: sample_env_def)
qed

subsection \<open>Taking over a DID\<close>

text \<open>Anyone can take over a DID: a document that names the victim but carries another key, signed with that key,
  verifies. A peer that answers any identity request with it becomes the route to the victim, receives what is sent
  to the victim from then on, and its own key signs renames of the victim that the node passes on.\<close>

theorem identity_hijack:
  assumes "did_crypto_ok (ne_crypto E)" and "sled_ok (ne_sled E)" and "codec_ok (ne_peer_codec E)"
    and "from_signing_key (ne_crypto E) victim key xs text t = Inr evil"
    and "ir_result answer = Some (Found f)" and "if_did_document f = Some (di_document evil)"
    and "di_document_signature evil = Some (if_document_signature f)"
    and "task = LearnDocument p (di_document evil) (if_document_signature f)"
    and "N1 = fst (node_step E K S N (IdentityOut p rid answer))" and "N2 = fst (node_step E K' S' N1 (TaskTurn task))"
    and "nd_local_did N2 \<noteq> Some victim" and "p \<in> set (sw_connected S3)"
    and "ts \<noteq> 0" and "drift (ck_secs K4) ts \<le> 300" and "snd (admit K4 N2 q ''rename'')"
  shows "Spawn task \<in> set (snd (node_step E K S N (IdentityOut p rid answer))) \<and>
    route E N2 victim = Some p \<and>
    Send (sw_request_id S3 0) p (DirectReq m) \<in> set (snd (node_step E K3 S3 N2 (Command (SendDirectMessage victim m tx)))) \<and>
    Emit (PeerRenamed victim u n) \<in> set (snd (node_step E K4 S4 N2 (RenameIn q
      \<lparr>rn_did = victim, rn_username = u, rn_discriminator = n,
       rn_signature = dc_sign (ne_crypto E) key (rename_payload victim u n ts), rn_timestamp = ts\<rparr> ch)))"
proof -
  let ?C = "ne_crypto E" and ?d = "from_proto_with_signature (di_document evil) (Some (if_document_signature f))"
  note evil = from_signing_key_Inr [OF assms(4)]
  have ok: "length (dc_sign ?C key x) = 64" "length (dc_verifying_key ?C key) = 32" "dc_key_valid ?C (dc_verifying_key ?C key)"
    "dc_verify ?C (dc_verifying_key ?C key) x (dc_sign ?C key x)" for x
    using assms(1) by (simp_all add: did_crypto_ok_def)
  have v: "verify_document ?C ?d = Inr ()"
    using sign_verify_proto [OF assms(1,4)] assms(7) by simp
  have id: "dd_id (di_document evil) = victim" using evil by (simp add: new_document_def)
  have N2: "N2 = (learn_route E N1 victim p)\<lparr>nd_identity := cache_did (nd_identity N1) ?d\<rparr>"
    using v id by (simp add: assms(8,10) Let_def)
  have r: "route E N2 victim = Some p" by (simp add: N2 route_def AList.update_conv')
  have c: "get_cached_did (nd_identity (fst (admit K4 N2 q ''rename''))) victim = Some ?d" using id by (simp add: N2 get_cached_after)
  have key: "get_verifying_key ?C ?d = Inr (dc_verifying_key ?C key)"
    using evil ok by (simp add: get_verifying_key_def from_proto_with_signature_def new_document_def)
  have "dc_sign ?C key x \<noteq> []" for x using ok(1) [of x] by auto
  then have "Emit (PeerRenamed victim u n) \<in> set (snd (node_step E K4 S4 N2 (RenameIn q
      \<lparr>rn_did = victim, rn_username = u, rn_discriminator = n,
       rn_signature = dc_sign ?C key (rename_payload victim u n ts), rn_timestamp = ts\<rparr> ch)))"
    using assms(13-15) c key ok by (simp add: on_rename_request_def split_def Let_def rename_valid_def)
  moreover have "Spawn task \<in> set (snd (node_step E K S N (IdentityOut p rid answer)))"
    using assms(5,6,8) by (simp add: on_identity_response_def split_def Let_def)
  ultimately show ?thesis using r assms(11,12) by (simp add: send_direct_def)
qed

lemma success_found:
  "\<exists>f. ir_result (create_success_response now d) = Some (Found f) \<and> if_did_document f = Some (di_document d) \<and>
     if_document_signature f = unwrap_or_default (di_document_signature d)"
  by (simp add: create_success_response_def)

lemma task_local_did [simp]: "nd_local_did (fst (run_task E N t)) = nd_local_did N"
  by (cases t) (simp_all add: learn_sender_def learn_route_def Let_def split: sum.split)

lemma learned_fields:
  "nd_local_did learned_node = None" "nd_pending_identity learned_node = []" "nd_pending_resolves learned_node = []"
  by (simp_all add: learned_node_def bb_task_def learn_route_def Let_def split: sum.split)

theorem identity_hijack_witness:
  "get_cached_did (nd_identity learned_node) ''did:variance:bb'' \<noteq> None \<and> (\<exists>N. route sample_env N ''did:variance:bb'' = Some 8 \<and>
     Emit (PeerRenamed ''did:variance:bb'' ''mallory'' 1) \<in> set (snd (node_step sample_env sample_clock (sample_swarm [8] 50) N (RenameIn 8
      \<lparr>rn_did = ''did:variance:bb'', rn_username = ''mallory'', rn_discriminator = 1, rn_signature = replicate 64 9,
       rn_timestamp = 1000\<rparr> 5))))"
proof -
  let ?evil = "toy_did ''did:variance:bb'' 9"
  have sig: "di_document_signature ?evil = Some (replicate 64 9)" by (simp add: toy_did_def)
  obtain f where f': "ir_result (create_success_response 5 ?evil) = Some (Found f)" "if_did_document f = Some (di_document ?evil)"
    "if_document_signature f = unwrap_or_default (di_document_signature ?evil)"
    using success_found [of 5 ?evil] by blast
  have f: "di_document_signature ?evil = Some (if_document_signature f)" unfolding f'(3) sig by (simp add: unwrap_or_default_def)
  let ?t = "LearnDocument 8 (di_document ?evil) (if_document_signature f)"
  let ?N1 = "fst (node_step sample_env sample_clock (sample_swarm [7, 8] 40) learned_node
      (IdentityOut 8 3 (create_success_response 5 ?evil)))"
  let ?N2 = "fst (node_step sample_env sample_clock (sample_swarm [7, 8] 40) ?N1 (TaskTurn ?t))"
  have env: "did_crypto_ok (ne_crypto sample_env)" "sled_ok (ne_sled sample_env)" "codec_ok (ne_peer_codec sample_env)"
    "from_signing_key (ne_crypto sample_env) ''did:variance:bb'' 9 5 ''peer'' 9 = Inr ?evil"
    by (simp_all add: sample_env_def toy_crypto_ok rbt_sled_ok unary_codec_ok toy_did)
  have local: "nd_local_did ?N2 \<noteq> Some ''did:variance:bb''" "nd_rate_limiter ?N2 = rl_new"
    using learned_fields learned_node(2)
    by (simp_all add: on_identity_response_def complete_identity_def broadcast_response_def split_def Let_def del: run_task.simps)
  have drift: "drift (ck_secs sample_clock) 1000 \<le> 300"
    using drift_window [of "ck_secs sample_clock" 1000] by (simp add: sample_clock_def clock_ok_def in_i64_def i64_min_def i64_max_def)
  have "snd (admit sample_clock ?N2 8 ''rename'')"
    using sample_admits [of "''rename''" _ ?N2 sample_clock 8] local(2) by (simp add: default_configs_def from_window_def)
  from identity_hijack [OF env f'(1,2) f refl refl refl local(1) _ _ drift this, where ?S3.0 = "sample_swarm [8] 50"]
  show ?thesis using learned_node(1) by (force simp: sample_env_def toy_crypto_def)
qed

subsection \<open>A connection that closes\<close>

definition routes_ok :: "('p, 't, 'db, 'sk, 'xs, 'pc) node \<Rightarrow> bool" where
  "routes_ok N \<longleftrightarrow> distinct (map fst (nd_did_to_peer N)) \<and> rl_index_ok (nd_rate_limiter N)"

lemma delete_all_distinct: "distinct (map fst al) \<Longrightarrow> distinct (map fst (fold AList.delete ks al))"
  by (induction ks arbitrary: al) (simp_all add: distinct_delete)

lemma delete_all_map_of: "map_of (fold AList.delete ks al) k = (if k \<in> set ks then None else map_of al k)"
  by (induction ks arbitrary: al) (simp_all add: AList.delete_conv')

lemma step_routes:
  assumes "routes_ok N"
  shows "routes_ok (fst (node_step E K S N i))"
proof -
  have d: "distinct (map fst (nd_did_to_peer N))" and r: "rl_index_ok (nd_rate_limiter N)" using assms by (simp_all add: routes_ok_def)
  have "rl_index_ok (nd_rate_limiter (fst (node_step E K S N i)))"
    using r by (auto simp: step_limiter rl_index_check rl_index_remove split: option.split)
  moreover have "distinct (map fst (nd_did_to_peer (fst (node_step E K S N i))))"
  proof (cases i)
    case (TaskTurn t)
    then show ?thesis using d by (cases t) (simp_all add: distinct_update Let_def split: sum.split)
  next
    case (ConnectionDown p)
    then show ?thesis using d by (simp add: on_connection_closed_def delete_all_distinct Let_def)
  qed (use d in \<open>simp_all add: handler_defs on_identity_response_def broadcast_response_def on_identity_failure_def Let_def split_def
      distinct_update split: option.split sum.split identity_result.split\<close>)
  ultimately show ?thesis by (simp add: routes_ok_def)
qed

lemma run_routes_ok: "node_run E N0 as N \<Longrightarrow> routes_ok N0 \<Longrightarrow> routes_ok N"
proof (induction rule: node_run.induct)
  case (step as N S i K N' bs)
  then show ?case using step_routes [of N E K S i] by simp
qed

lemma new_routes_ok: "routes_ok (node_new E me db store relays)"
  using rl_reachable_index [OF rl_reachable.rl_start] by (simp add: routes_ok_def node_new_def)

text \<open>When a connection closes, the node forgets the peer and nobody else: no DID is routed to it in memory any
  more, exactly its DIDs are reported offline, each once, and its rate limits start afresh. None of this looks at
  whether the peer has another connection open.\<close>

theorem peer_offline_exact:
  assumes "node_run E (node_new E me db store relays) as0 N" and "(N', as) = node_step E K S N (ConnectionDown p)"
  shows "(\<forall>d. map_of (nd_did_to_peer N') d = (if map_of (nd_did_to_peer N) d = Some p then None else map_of (nd_did_to_peer N) d)) \<and>
    (\<forall>d. Emit (PeerOffline d) \<in> set as \<longleftrightarrow> map_of (nd_did_to_peer N) d = Some p) \<and> distinct as \<and>
    (\<forall>proto q. rl_protocol_buckets (nd_rate_limiter N') (q, proto) =
      (if q = p then None else rl_protocol_buckets (nd_rate_limiter N) (q, proto))) \<and>
    rl_global_buckets (nd_rate_limiter N') p = None"
proof -
  have ok: "routes_ok N" by (rule run_routes_ok [OF assms(1) new_routes_ok])
  let ?dids = "map fst (filter (\<lambda>(_, v). v = p) (nd_did_to_peer N))"
  have d: "distinct (map fst (nd_did_to_peer N))" and r: "rl_index_ok (nd_rate_limiter N)" using ok by (simp_all add: routes_ok_def)
  have dids: "x \<in> set ?dids \<longleftrightarrow> map_of (nd_did_to_peer N) x = Some p" for x
    using d by force
  have N': "nd_did_to_peer N' = fold AList.delete ?dids (nd_did_to_peer N)" "nd_rate_limiter N' = rl_remove_peer (nd_rate_limiter N) p"
    "as = map (\<lambda>d. Emit (PeerOffline d)) ?dids"
    using assms(2) by (simp_all add: on_connection_closed_def Let_def)
  have "distinct ?dids" using d by (simp add: distinct_map_filter)
  then have "distinct as" by (simp add: N'(3) distinct_map inj_on_def)
  moreover have "Emit (PeerOffline x) \<in> set as \<longleftrightarrow> map_of (nd_did_to_peer N) x = Some p" for x
    unfolding dids [symmetric] by (auto simp: N'(3))
  ultimately show ?thesis
    using dids by (simp add: N'(1,2) delete_all_map_of rl_remove_peer_buckets [OF r] rl_remove_peer_fields)
qed

theorem peer_offline_exact_witness:
  "snd (node_step sample_env sample_clock (sample_swarm [7] 50) learned_node (ConnectionDown 7)) = [Emit (PeerOffline ''did:variance:bb'')] \<and>
   map_of (nd_did_to_peer (fst (node_step sample_env sample_clock (sample_swarm [7] 50) learned_node (ConnectionDown 7)))) ''did:variance:bb'' = None"
proof -
  obtain as where run: "node_run sample_env sample_node as learned_node" using bb_run by blast
  have "nd_did_to_peer learned_node = [(''did:variance:bb'', 7)]"
  proof -
    have "verify_document toy_crypto (from_proto_with_signature bb_document (Some (replicate 64 7)) :: (8 word, 8 word) did_identity) = Inr ()"
      using sign_verify_proto [OF toy_crypto_ok toy_did, of "''did:variance:bb''" 7] by (simp add: bb_document_def toy_did_def)
    then show ?thesis
      by (simp add: learned_node_def bb_task_def Let_def sample_env_def) (simp add: bb_document_def toy_did_def new_document_def)
  qed
  moreover from peer_offline_exact [OF run [unfolded sample_node_def] prod.collapse, THEN conjunct1, of sample_clock "sample_swarm [7] 50" 7]
  have "map_of (nd_did_to_peer (fst (node_step sample_env sample_clock (sample_swarm [7] 50) learned_node (ConnectionDown 7)))) ''did:variance:bb'' =
      (if map_of (nd_did_to_peer learned_node) ''did:variance:bb'' = Some 7 then None else map_of (nd_did_to_peer learned_node) ''did:variance:bb'')"
    by blast
  ultimately show ?thesis by (simp add: on_connection_closed_def)
qed

end
