(* ===== verification/Direct_Messages.thy ===== *)
theory Direct_Messages
  imports Direct_Store
begin

section \<open>Direct messages (\<open>variance-messaging/src/direct.rs\<close>)\<close>

text \<open>
  \<open>DirectMessageHandler\<close> on the local storage. vodozemac (Olm), AES-GCM, HKDF, Ed25519 and
  the protobuf encoder of \<open>MessageContent\<close> are third-party: \<open>olm\<close>, \<open>aead\<close> and the other
  fields of \<open>direct_env\<close> hold the calls. Ids, times and nonces are arguments. The pickle of
  a session is text. Each operation is atomic: the lock around session initialisation
  serialises it in the code. A storage call of the local store does not fail here.
\<close>

datatype olm_message = PreKey bytes | Normal bytes

datatype inbound_error = MissingOneTimeKey string | OtherInboundError string

record ('acc, 'sess) olm =
  ol_identity_key :: "'acc \<Rightarrow> bytes"
  ol_outbound :: "'acc \<Rightarrow> bytes \<Rightarrow> bytes \<Rightarrow> 'sess"
  ol_inbound :: "'acc \<Rightarrow> bytes \<Rightarrow> bytes \<Rightarrow> inbound_error + 'acc \<times> 'sess \<times> bytes"
  ol_encrypt :: "'sess \<Rightarrow> bytes \<Rightarrow> 'sess \<times> olm_message"
  ol_decrypt :: "'sess \<Rightarrow> olm_message \<Rightarrow> 'sess \<times> (string + bytes)"
  ol_parse :: "nat \<Rightarrow> bytes \<Rightarrow> string + olm_message"
  ol_pickle :: "'sess \<Rightarrow> string"
  ol_unpickle :: "string \<Rightarrow> 'sess option"
  ol_generate_keys :: "'acc \<Rightarrow> nat \<Rightarrow> 'acc"
  ol_one_time_keys :: "'acc \<Rightarrow> (string \<times> bytes) list"
  ol_mark_published :: "'acc \<Rightarrow> 'acc"
  ol_generate_fallback :: "'acc \<Rightarrow> 'acc \<times> bytes option"
  ol_forget_fallback :: "'acc \<Rightarrow> 'acc"
  ol_account_pickle :: "'acc \<Rightarrow> string"

record ('acc, 'sess, 't) direct_env =
  de_olm :: "('acc, 'sess) olm"
  de_seal :: "bytes \<Rightarrow> bytes \<Rightarrow> bytes \<Rightarrow> bytes option"
  de_open :: "bytes \<Rightarrow> bytes \<Rightarrow> bytes \<Rightarrow> bytes option"
  de_hkdf :: "bytes \<Rightarrow> bytes \<Rightarrow> bytes"
  de_content :: "message_content codec"
  de_sign :: "bytes \<Rightarrow> bytes \<Rightarrow> bytes"
  de_verify :: "bytes \<Rightarrow> bytes \<Rightarrow> bytes \<Rightarrow> bool"
  de_store :: "'t store_env"

fun olm_to_parts :: "olm_message \<Rightarrow> nat \<times> bytes" where
  "olm_to_parts (PreKey bs) = (0, bs)"
| "olm_to_parts (Normal bs) = (1, bs)"

definition olm_message_type_self :: nat where
  "olm_message_type_self = 999"

record ('acc, 'sess, 't) direct_handler =
  dh_local_did :: did
  dh_signing_key :: bytes
  dh_account :: 'acc
  dh_identity_key :: bytes
  dh_sessions :: "did \<rightharpoonup> 'sess"
  dh_storage :: "'t message_db"
  dh_storage_key :: bytes

definition direct_handler_new ::
  "('acc, 'sess, 't) direct_env \<Rightarrow> did \<Rightarrow> bytes \<Rightarrow> 'acc \<Rightarrow> 't message_db \<Rightarrow> ('acc, 'sess, 't) direct_handler" where
  "direct_handler_new E did signing_key account storage =
     \<lparr>dh_local_did = did, dh_signing_key = signing_key, dh_account = account,
      dh_identity_key = ol_identity_key (de_olm E) account, dh_sessions = Map.empty, dh_storage = storage,
      dh_storage_key = de_hkdf E signing_key (as_bytes ''variance-plaintext-storage-v1'')\<rparr>"

subsection \<open>The account\<close>

definition generate_one_time_keys ::
  "('acc, 'sess, 't) direct_env \<Rightarrow> ('acc, 'sess, 't) direct_handler \<Rightarrow> nat \<Rightarrow> ('acc, 'sess, 't) direct_handler" where
  "generate_one_time_keys E H count = H\<lparr>dh_account := ol_generate_keys (de_olm E) (dh_account H) count\<rparr>"

definition one_time_keys :: "('acc, 'sess, 't) direct_env \<Rightarrow> ('acc, 'sess, 't) direct_handler \<Rightarrow> (string \<times> bytes) list" where
  "one_time_keys E H = ol_one_time_keys (de_olm E) (dh_account H)"

definition mark_one_time_keys_as_published ::
  "('acc, 'sess, 't) direct_env \<Rightarrow> ('acc, 'sess, 't) direct_handler \<Rightarrow> ('acc, 'sess, 't) direct_handler" where
  "mark_one_time_keys_as_published E H = H\<lparr>dh_account := ol_mark_published (de_olm E) (dh_account H)\<rparr>"

definition generate_fallback_key ::
  "('acc, 'sess, 't) direct_env \<Rightarrow> ('acc, 'sess, 't) direct_handler \<Rightarrow> ('acc, 'sess, 't) direct_handler \<times> bytes option" where
  "generate_fallback_key E H =
     (let (a, key) = ol_generate_fallback (de_olm E) (dh_account H) in (H\<lparr>dh_account := a\<rparr>, key))"

definition forget_previous_fallback_key ::
  "('acc, 'sess, 't) direct_env \<Rightarrow> ('acc, 'sess, 't) direct_handler \<Rightarrow> ('acc, 'sess, 't) direct_handler" where
  "forget_previous_fallback_key E H = H\<lparr>dh_account := ol_forget_fallback (de_olm E) (dh_account H)\<rparr>"

definition account_pickle :: "('acc, 'sess, 't) direct_env \<Rightarrow> ('acc, 'sess, 't) direct_handler \<Rightarrow> string" where
  "account_pickle E H = ol_account_pickle (de_olm E) (dh_account H)"

subsection \<open>Plaintext at rest\<close>

definition persist_plaintext ::
  "('acc, 'sess, 't) direct_env \<Rightarrow> ('acc, 'sess, 't) direct_handler \<Rightarrow> bytes \<Rightarrow> string \<Rightarrow> message_content
     \<Rightarrow> ('acc, 'sess, 't) direct_handler \<times> (msg_error + unit)" where
  "persist_plaintext E H nonce message_id content =
     (case de_seal E (dh_storage_key H) nonce (cd_encode (de_content E) content) of
        None \<Rightarrow> (H, Inl (ECrypto ''At-rest encryption failed''))
      | Some ciphertext \<Rightarrow>
          (H\<lparr>dh_storage := store_plaintext (de_store E) (dh_storage H) message_id (nonce @ ciphertext)\<rparr>, Inr ()))"

definition load_plaintext ::
  "('acc, 'sess, 't) direct_env \<Rightarrow> ('acc, 'sess, 't) direct_handler \<Rightarrow> string \<Rightarrow> msg_error + message_content option" where
  "load_plaintext E H message_id =
     (case fetch_plaintext (de_store E) (dh_storage H) message_id of
        None \<Rightarrow> Inr None
      | Some blob \<Rightarrow>
          if length blob < 12 then Inl (ECrypto ''Stored plaintext blob is too short'')
          else case de_open E (dh_storage_key H) (take 12 blob) (drop 12 blob) of
              None \<Rightarrow> Inl (ECrypto ''At-rest decryption failed (wrong key or corrupted data)'')
            | Some plaintext \<Rightarrow>
                (case cd_decode (de_content E) plaintext of None \<Rightarrow> Inl EProtocol | Some content \<Rightarrow> Inr (Some content)))"

subsection \<open>Sessions\<close>

definition persist_session ::
  "('acc, 'sess, 't) direct_env \<Rightarrow> ('acc, 'sess, 't) direct_handler \<Rightarrow> did \<Rightarrow> ('acc, 'sess, 't) direct_handler" where
  "persist_session E H peer_did =
     (case dh_sessions H peer_did of
        Some session \<Rightarrow>
          H\<lparr>dh_storage := store_session_pickle (de_store E) (dh_storage H) peer_did (ol_pickle (de_olm E) session)\<rparr>
      | None \<Rightarrow> H)"

definition init_session_as_initiator ::
  "('acc, 'sess, 't) direct_env \<Rightarrow> ('acc, 'sess, 't) direct_handler \<Rightarrow> did \<Rightarrow> bytes \<Rightarrow> bytes \<Rightarrow> ('acc, 'sess, 't) direct_handler" where
  "init_session_as_initiator E H recipient_did identity_key one_time_key =
     persist_session E
       (H\<lparr>dh_sessions := (dh_sessions H)(recipient_did \<mapsto> ol_outbound (de_olm E) (dh_account H) identity_key one_time_key)\<rparr>)
       recipient_did"

definition has_session :: "('acc, 'sess, 't) direct_handler \<Rightarrow> did \<Rightarrow> bool" where
  "has_session H peer_did = (dh_sessions H peer_did \<noteq> None)"

definition init_session_if_needed ::
  "('acc, 'sess, 't) direct_env \<Rightarrow> ('acc, 'sess, 't) direct_handler \<Rightarrow> did \<Rightarrow> bytes \<Rightarrow> bytes \<Rightarrow> ('acc, 'sess, 't) direct_handler" where
  "init_session_if_needed E H recipient_did identity_key one_time_key =
     (if dh_sessions H recipient_did \<noteq> None then H
      else init_session_as_initiator E H recipient_did identity_key one_time_key)"

definition restore_sessions ::
  "('acc, 'sess, 't) direct_env \<Rightarrow> ('acc, 'sess, 't) direct_handler \<Rightarrow> ('acc, 'sess, 't) direct_handler" where
  "restore_sessions E H =
     H\<lparr>dh_sessions := fold (\<lambda>(peer_did, json) m. case ol_unpickle (de_olm E) json of
         Some session \<Rightarrow> m(peer_did \<mapsto> session) | None \<Rightarrow> m)
       (load_all_session_pickles (de_store E) (dh_storage H)) (dh_sessions H)\<rparr>"

subsection \<open>Signatures\<close>

definition signable_bytes :: "direct_message \<Rightarrow> bytes" where
  "signable_bytes m =
     as_bytes (dm_id m) @ as_bytes (dm_sender_did m) @ as_bytes (dm_recipient_did m) @ dm_ciphertext m
     @ le_bytes 4 (int (dm_olm_message_type m)) @ i64_to_le (dm_timestamp m)"

definition sign_direct :: "('acc, 'sess, 't) direct_env \<Rightarrow> ('acc, 'sess, 't) direct_handler \<Rightarrow> direct_message \<Rightarrow> direct_message" where
  "sign_direct E H m = m\<lparr>dm_signature := de_sign E (dh_signing_key H) (signable_bytes m)\<rparr>"

definition verify_message_with_key :: "('acc, 'sess, 't) direct_env \<Rightarrow> direct_message \<Rightarrow> bytes \<Rightarrow> msg_error + unit" where
  "verify_message_with_key E m sender_public_key =
     (if length (dm_signature m) = 64 \<and> de_verify E sender_public_key (signable_bytes m) (dm_signature m)
      then Inr () else Inl (EInvalidSignature (dm_id m)))"

definition infer_message_type :: "message_content \<Rightarrow> int" where
  "infer_message_type content =
     (case mc_attachments content of
        [] \<Rightarrow> 1
      | a # _ \<Rightarrow> if at_type a = 1 then 2 else if at_type a = 2 then 3 else if at_type a = 3 then 4
          else if at_type a = 4 then 5 else 1)"

subsection \<open>Sending\<close>

text \<open>What both ways of sending end with: the message is signed and stored, its plaintext sealed.\<close>

definition keep_message ::
  "('acc, 'sess, 't) direct_env \<Rightarrow> ('acc, 'sess, 't) direct_handler \<Rightarrow> bytes \<Rightarrow> direct_message \<Rightarrow> message_content
     \<Rightarrow> ('acc, 'sess, 't) direct_handler \<times> (msg_error + unit)" where
  "keep_message E H nonce message content =
     persist_plaintext E (H\<lparr>dh_storage := store_direct (de_store E) (dh_storage H) message\<rparr>) nonce (dm_id message) content"

definition send_self_message ::
  "('acc, 'sess, 't) direct_env \<Rightarrow> ('acc, 'sess, 't) direct_handler \<Rightarrow> string \<Rightarrow> int \<Rightarrow> bytes \<Rightarrow> message_content
     \<Rightarrow> ('acc, 'sess, 't) direct_handler \<times> (msg_error + direct_message)" where
  "send_self_message E H ulid now nonce content =
     (let message = sign_direct E H
        \<lparr>dm_id = ulid, dm_sender_did = dh_local_did H, dm_recipient_did = dh_local_did H,
         dm_ciphertext = cd_encode (de_content E) content, dm_olm_message_type = olm_message_type_self,
         dm_signature = [], dm_timestamp = now, dm_type = infer_message_type content,
         dm_reply_to = mc_reply_to content, dm_sender_identity_key = None\<rparr>
      in case keep_message E H nonce message content of
           (H, Inl e) \<Rightarrow> (H, Inl e)
         | (H, Inr _) \<Rightarrow> (H, Inr message))"

definition send_message ::
  "('acc, 'sess, 't) direct_env \<Rightarrow> ('acc, 'sess, 't) direct_handler \<Rightarrow> string \<Rightarrow> int \<Rightarrow> bytes \<Rightarrow> did \<Rightarrow> message_content
     \<Rightarrow> ('acc, 'sess, 't) direct_handler \<times> (msg_error + direct_message)" where
  "send_message E H ulid now nonce recipient_did content =
     (if recipient_did = dh_local_did H then send_self_message E H ulid now nonce content
      else case dh_sessions H recipient_did of
          None \<Rightarrow> (H, Inl (EDoubleRatchet (''No session with '' @ recipient_did)))
        | Some session \<Rightarrow>
            (let (session', olm_message) = ol_encrypt (de_olm E) session (cd_encode (de_content E) content);
                 H = H\<lparr>dh_sessions := (dh_sessions H)(recipient_did \<mapsto> session')\<rparr>;
                 (msg_type, ciphertext) = olm_to_parts olm_message;
                 message = sign_direct E H
                   \<lparr>dm_id = ulid, dm_sender_did = dh_local_did H, dm_recipient_did = recipient_did,
                    dm_ciphertext = ciphertext, dm_olm_message_type = msg_type, dm_signature = [], dm_timestamp = now,
                    dm_type = infer_message_type content, dm_reply_to = mc_reply_to content,
                    dm_sender_identity_key =
                      (case olm_message of PreKey _ \<Rightarrow> Some (dh_identity_key H) | Normal _ \<Rightarrow> None)\<rparr>
             in case keep_message E H nonce message content of
                  (H, Inl e) \<Rightarrow> (H, Inl e)
                | (H, Inr _) \<Rightarrow> (persist_session E H recipient_did, Inr message)))"

subsection \<open>Receiving\<close>

text \<open>The first half: the plaintext, and the ratchet after it.\<close>

definition open_inbound ::
  "('acc, 'sess, 't) direct_env \<Rightarrow> ('acc, 'sess, 't) direct_handler \<Rightarrow> direct_message \<Rightarrow> bytes
     \<Rightarrow> ('acc, 'sess, 't) direct_handler \<times> (msg_error + bytes)" where
  "open_inbound E H message pre_key =
     (case dm_sender_identity_key message of
        None \<Rightarrow> (H, Inl (ECrypto ''PreKey message missing sender_identity_key''))
      | Some key \<Rightarrow>
          if length key \<noteq> 32 then (H, Inl (ECrypto ''sender_identity_key must be exactly 32 bytes''))
          else case ol_inbound (de_olm E) (dh_account H) key pre_key of
              Inl (MissingOneTimeKey e) \<Rightarrow> (H, Inl (EStaleOneTimeKey (''Failed to create inbound Olm session: '' @ e)))
            | Inl (OtherInboundError e) \<Rightarrow> (H, Inl (ECrypto (''Failed to create inbound Olm session: '' @ e)))
            | Inr (account, session, plaintext) \<Rightarrow>
                (persist_session E
                   (H\<lparr>dh_account := account, dh_sessions := (dh_sessions H)(dm_sender_did message \<mapsto> session)\<rparr>)
                   (dm_sender_did message), Inr plaintext))"

definition decryption_failure :: "string + bytes \<Rightarrow> msg_error + bytes" where
  "decryption_failure = map_err (\<lambda>e. ECrypto (''Decryption failure: '' @ e))"

definition olm_plaintext ::
  "('acc, 'sess, 't) direct_env \<Rightarrow> ('acc, 'sess, 't) direct_handler \<Rightarrow> direct_message \<Rightarrow> olm_message
     \<Rightarrow> ('acc, 'sess, 't) direct_handler \<times> (msg_error + bytes)" where
  "olm_plaintext E H message olm_message =
     (let peer = dm_sender_did message
      in case dh_sessions H peer of
           Some session \<Rightarrow>
             (let (session', r) = ol_decrypt (de_olm E) session olm_message;
                  H = H\<lparr>dh_sessions := (dh_sessions H)(peer \<mapsto> session')\<rparr>
              in case olm_message of
                   PreKey _ \<Rightarrow> (persist_session E H peer, decryption_failure r)
                 | Normal _ \<Rightarrow>
                     (case r of Inl _ \<Rightarrow> (H, decryption_failure r) | Inr _ \<Rightarrow> (persist_session E H peer, decryption_failure r)))
         | None \<Rightarrow>
             (case olm_message of
                PreKey pre_key \<Rightarrow> open_inbound E H message pre_key
              | Normal _ \<Rightarrow> (H, Inl (EDoubleRatchet (''No session with '' @ peer)))))"

text \<open>The second half, for both kinds of message.\<close>

definition take_in ::
  "('acc, 'sess, 't) direct_env \<Rightarrow> ('acc, 'sess, 't) direct_handler \<Rightarrow> bytes \<Rightarrow> direct_message \<Rightarrow> bytes
     \<Rightarrow> ('acc, 'sess, 't) direct_handler \<times> (msg_error + message_content)" where
  "take_in E H nonce message plaintext =
     (case cd_decode (de_content E) plaintext of
        None \<Rightarrow> (H, Inl EProtocol)
      | Some content \<Rightarrow>
          (case keep_message E H nonce message content of
             (H, Inl e) \<Rightarrow> (H, Inl e)
           | (H, Inr _) \<Rightarrow> (H, Inr content)))"

definition receive_message ::
  "('acc, 'sess, 't) direct_env \<Rightarrow> ('acc, 'sess, 't) direct_handler \<Rightarrow> bytes \<Rightarrow> direct_message
     \<Rightarrow> ('acc, 'sess, 't) direct_handler \<times> (msg_error + message_content)" where
  "receive_message E H nonce message =
     (if dm_olm_message_type message = olm_message_type_self then take_in E H nonce message (dm_ciphertext message)
      else case ol_parse (de_olm E) (dm_olm_message_type message) (dm_ciphertext message) of
          Inl e \<Rightarrow> (H, Inl (ECrypto (''Failed to decode OlmMessage: '' @ e)))
        | Inr olm_message \<Rightarrow>
            (case olm_plaintext E H message olm_message of
               (H, Inl e) \<Rightarrow> (H, Inl e)
             | (H, Inr plaintext) \<Rightarrow> take_in E H nonce message plaintext))"

definition get_message_content ::
  "('acc, 'sess, 't) direct_env \<Rightarrow> ('acc, 'sess, 't) direct_handler \<Rightarrow> bytes \<Rightarrow> direct_message
     \<Rightarrow> ('acc, 'sess, 't) direct_handler \<times> (msg_error + message_content)" where
  "get_message_content E H nonce message =
     (case load_plaintext E H (dm_id message) of
        Inl e \<Rightarrow> (H, Inl e)
      | Inr (Some content) \<Rightarrow> (H, Inr content)
      | Inr None \<Rightarrow> receive_message E H nonce message)"

definition get_conversation ::
  "('acc, 'sess, 't) direct_env \<Rightarrow> ('acc, 'sess, 't) direct_handler \<Rightarrow> did \<Rightarrow> nat \<Rightarrow> int option \<Rightarrow> direct_message list" where
  "get_conversation E H peer_did count before =
     fetch_direct (de_store E) (dh_storage H) (dh_local_did H) peer_did count before"

subsection \<open>The pending queue\<close>

definition queue_pending_message ::
  "('acc, 'sess, 't) direct_env \<Rightarrow> ('acc, 'sess, 't) direct_handler \<Rightarrow> did \<Rightarrow> direct_message \<Rightarrow> ('acc, 'sess, 't) direct_handler" where
  "queue_pending_message E H recipient_did message =
     H\<lparr>dh_storage := store_pending_message (de_store E) (dh_storage H) recipient_did message\<rparr>"

definition get_pending_messages ::
  "('acc, 'sess, 't) direct_env \<Rightarrow> ('acc, 'sess, 't) direct_handler \<Rightarrow> did \<Rightarrow> msg_error + direct_message list" where
  "get_pending_messages E H peer_did = fetch_pending_messages (de_store E) (dh_storage H) peer_did"

definition mark_pending_sent ::
  "('acc, 'sess, 't) direct_env \<Rightarrow> ('acc, 'sess, 't) direct_handler \<Rightarrow> string \<Rightarrow> ('acc, 'sess, 't) direct_handler" where
  "mark_pending_sent E H message_id = H\<lparr>dh_storage := delete_pending_message (de_store E) (dh_storage H) message_id\<rparr>"

definition peers_with_pending_messages :: "('acc, 'sess, 't) direct_env \<Rightarrow> ('acc, 'sess, 't) direct_handler \<Rightarrow> did set" where
  "peers_with_pending_messages E H = list_peers_with_pending_messages (de_store E) (dh_storage H)"

definition direct_is_pending :: "('acc, 'sess, 't) direct_env \<Rightarrow> ('acc, 'sess, 't) direct_handler \<Rightarrow> string \<Rightarrow> bool" where
  "direct_is_pending E H message_id = is_message_pending (de_store E) (dh_storage H) message_id"

end
