(* ===== verification/Direct_Sessions.thy ===== *)
theory Direct_Sessions
  imports Direct_Messages
begin

section \<open>Direct messages: what sending, receiving and a restart keep\<close>

text \<open>
  The lemmas on \<open>Direct_Messages\<close>. \<open>direct_env_ok\<close> states what the handler relies on of
  Olm, AES-GCM, the encoder and the store. The invariant \<open>sessions_saved\<close> says that the
  session pickles in the store are those of the sessions in memory; every operation keeps
  it, so a restart gives the same sessions. \<open>channel_ok\<close> is the Olm contract between the
  two ends of a session, and gives in-order delivery.
\<close>

subsection \<open>The contract of the libraries\<close>

definition olm_ok :: "('acc, 'sess) olm \<Rightarrow> bool" where
  "olm_ok X \<longleftrightarrow>
     (\<forall>s. ol_unpickle X (ol_pickle X s) = Some s) \<and>
     (\<forall>s m e s'. ol_decrypt X s m = (s', Inl e) \<longrightarrow> s' = s) \<and>
     (\<forall>s p s' m. ol_encrypt X s p = (s', m) \<longrightarrow> ol_parse X (fst (olm_to_parts m)) (snd (olm_to_parts m)) = Inr m)"

definition direct_env_ok :: "('acc, 'sess, 't) direct_env \<Rightarrow> bool" where
  "direct_env_ok E \<longleftrightarrow> olm_ok (de_olm E) \<and> env_ok (de_store E) \<and> codec_ok (de_content E) \<and>
     (\<forall>key nonce p. \<exists>c. de_seal E key nonce p = Some c \<and> de_open E key nonce c = Some p)"

lemma olm_okD:
  assumes "olm_ok X"
  shows "ol_unpickle X (ol_pickle X s) = Some s"
    and "ol_decrypt X s m = (s', Inl e) \<Longrightarrow> s' = s"
    and "ol_encrypt X s p = (s', m) \<Longrightarrow> ol_parse X (fst (olm_to_parts m)) (snd (olm_to_parts m)) = Inr m"
  using assms unfolding olm_ok_def by blast+

lemma direct_env_okD [simp]:
  assumes "direct_env_ok E"
  shows "olm_ok (de_olm E)" and "env_ok (de_store E)" and "codec_ok (de_content E)"
  using assms by (simp_all add: direct_env_ok_def)

lemma seals:
  assumes "direct_env_ok E"
  obtains c where "de_seal E key nonce p = Some c" and "de_open E key nonce c = Some p"
  using assms unfolding direct_env_ok_def by blast

text \<open>A third party that satisfies the contract: a session is its number of messages.\<close>

definition counting_olm :: "(unit, nat) olm" where
  "counting_olm =
     \<lparr>ol_identity_key = (\<lambda>_. replicate 32 7), ol_outbound = (\<lambda>_ _ _. 0),
      ol_inbound = (\<lambda>a key p. if length key = 32 then Inr (a, 1, p) else Inl (OtherInboundError ''key'')),
      ol_encrypt = (\<lambda>n p. (n + 1, PreKey p)),
      ol_decrypt = (\<lambda>n m. (n + 1, Inr (snd (olm_to_parts m)))),
      ol_parse = (\<lambda>t bs. if t = 0 then Inr (PreKey bs) else if t = 1 then Inr (Normal bs) else Inl ''unknown type''),
      ol_pickle = (\<lambda>n. replicate n CHR ''s''), ol_unpickle = (\<lambda>s. Some (length s)),
      ol_generate_keys = (\<lambda>a n. a), ol_one_time_keys = (\<lambda>a. []), ol_mark_published = (\<lambda>a. a),
      ol_generate_fallback = (\<lambda>a. (a, None)), ol_forget_fallback = (\<lambda>a. a), ol_account_pickle = (\<lambda>a. [])\<rparr>"

definition counting_env :: "(unit, nat, (string, bytes) rbt) direct_env" where
  "counting_env =
     \<lparr>de_olm = counting_olm, de_seal = (\<lambda>_ _ p. Some p), de_open = (\<lambda>_ _ c. Some c), de_hkdf = (\<lambda>key _. key),
      de_content = unary_codec, de_sign = (\<lambda>_ _. replicate 64 0), de_verify = (\<lambda>_ _ _. False), de_store = rbt_env\<rparr>"

lemma counting_env_ok: "direct_env_ok counting_env"
  by (simp add: direct_env_ok_def olm_ok_def counting_env_def counting_olm_def rbt_env_ok unary_codec_ok)

subsection \<open>What keeping a message does\<close>

definition kept ::
  "('acc, 'sess, 't) direct_env \<Rightarrow> ('acc, 'sess, 't) direct_handler \<Rightarrow> bytes \<Rightarrow> direct_message \<Rightarrow> message_content
     \<Rightarrow> ('acc, 'sess, 't) direct_handler" where
  "kept E H nonce m content = fst (keep_message E H nonce m content)"

lemma keep_message_eq:
  "direct_env_ok E \<Longrightarrow> keep_message E H nonce m content = (kept E H nonce m content, Inr ())"
  by (rule seals [of E "dh_storage_key H" nonce "cd_encode (de_content E) content"])
    (simp_all add: kept_def keep_message_def persist_plaintext_def)

lemma kept_fields [simp]:
  "dh_sessions (kept E H nonce m content) = dh_sessions H"
  "dh_account (kept E H nonce m content) = dh_account H"
  "dh_local_did (kept E H nonce m content) = dh_local_did H"
  "dh_identity_key (kept E H nonce m content) = dh_identity_key H"
  "dh_signing_key (kept E H nonce m content) = dh_signing_key H"
  "dh_storage_key (kept E H nonce m content) = dh_storage_key H"
  "db_session_pickles (dh_storage (kept E H nonce m content)) = db_session_pickles (dh_storage H)"
  by (simp_all add: kept_def keep_message_def persist_plaintext_def store_direct_def store_plaintext_def
      split: option.split)

lemma load_kept:
  assumes E: "direct_env_ok E" and n: "length nonce = 12"
  shows "load_plaintext E (kept E H nonce m content) i = (if i = dm_id m then Inr (Some content) else load_plaintext E H i)"
proof -
  obtain c where c: "de_seal E (dh_storage_key H) nonce (cd_encode (de_content E) content) = Some c"
      "de_open E (dh_storage_key H) nonce c = Some (cd_encode (de_content E) content)"
    by (rule seals [OF E, where key = "dh_storage_key H" and nonce = nonce and p = "cd_encode (de_content E) content"])
  have f: "fetch_plaintext (de_store E) (dh_storage (kept E H nonce m content)) j
      = (if j = dm_id m then Some (nonce @ c) else fetch_plaintext (de_store E) (dh_storage H) j)" for j
    using E c by (simp add: kept_def keep_message_def persist_plaintext_def store_direct_def store_plaintext_def
        fetch_plaintext_def store_simps)
  show ?thesis
  proof (cases "i = dm_id m")
    case True
    then show ?thesis using E n c by (simp add: load_plaintext_def f)
  next
    case False
    then show ?thesis by (simp add: load_plaintext_def f split: option.split)
  qed
qed

lemma direct_messages_kept:
  assumes "direct_env_ok E" and "direct_wf (de_store E) (dh_storage H)"
  shows "direct_messages (de_store E) (dh_storage (kept E H nonce m content))
    = insert m {n \<in> direct_messages (de_store E) (dh_storage H). dm_key n \<noteq> dm_key m}"
proof -
  have "direct_messages (de_store E) (dh_storage (kept E H nonce m content))
      = direct_messages (de_store E) (store_direct (de_store E) (dh_storage H) m)"
    by (simp add: kept_def keep_message_def persist_plaintext_def store_plaintext_def direct_messages_def
        split: option.split)
  then show ?thesis using assms by (simp add: direct_messages_store)
qed

lemma persist_session_fields [simp]:
  "dh_sessions (persist_session E H p) = dh_sessions H"
  "dh_account (persist_session E H p) = dh_account H"
  "dh_local_did (persist_session E H p) = dh_local_did H"
  "dh_identity_key (persist_session E H p) = dh_identity_key H"
  "dh_storage_key (persist_session E H p) = dh_storage_key H"
  "db_plaintext (dh_storage (persist_session E H p)) = db_plaintext (dh_storage H)"
  "db_direct (dh_storage (persist_session E H p)) = db_direct (dh_storage H)"
  by (simp_all add: persist_session_def store_session_pickle_def split: option.split)

lemma load_plaintext_persist [simp]: "load_plaintext E (persist_session E H p) i = load_plaintext E H i"
  by (simp add: load_plaintext_def fetch_plaintext_def split: option.split)

lemma load_plaintext_sessions [simp]:
  "load_plaintext E (H\<lparr>dh_sessions := S\<rparr>) i = load_plaintext E H i"
  "load_plaintext E (H\<lparr>dh_account := a\<rparr>) i = load_plaintext E H i"
  by (simp_all add: load_plaintext_def split: option.split)

subsection \<open>The pickles follow the sessions\<close>

text \<open>\<open>saved_at E H p\<close>: the store holds the pickle of the session with \<open>p\<close>, and none without one.\<close>

definition saved_at :: "('acc, 'sess, 't) direct_env \<Rightarrow> ('acc, 'sess, 't) direct_handler \<Rightarrow> did \<Rightarrow> bool" where
  "saved_at E H p \<longleftrightarrow>
     fetch_session_pickle (de_store E) (dh_storage H) p = map_option (ol_pickle (de_olm E)) (dh_sessions H p)"

definition sessions_saved :: "('acc, 'sess, 't) direct_env \<Rightarrow> ('acc, 'sess, 't) direct_handler \<Rightarrow> bool" where
  "sessions_saved E H \<longleftrightarrow> (\<forall>p. saved_at E H p)"

lemma saved_at_kept [simp]: "saved_at E (kept E H nonce m content) p = saved_at E H p"
  by (simp add: saved_at_def fetch_session_pickle_def)

lemma saved_at_update [simp]: "q \<noteq> p \<Longrightarrow> saved_at E (H\<lparr>dh_sessions := (dh_sessions H)(p \<mapsto> s)\<rparr>) q = saved_at E H q"
  by (simp add: saved_at_def)

lemma saved_at_persist:
  "direct_env_ok E \<Longrightarrow> saved_at E (persist_session E H p) q \<longleftrightarrow> (q = p \<and> dh_sessions H p \<noteq> None) \<or> saved_at E H q"
  by (auto simp: saved_at_def persist_session_def store_session_pickle_def fetch_session_pickle_def store_simps
      split: option.splits)

text \<open>A changed session is saved once it is persisted; a step that changes no session stays saved.\<close>

lemma saved_after_persist:
  assumes "direct_env_ok E" and "\<And>q. q \<noteq> p \<Longrightarrow> saved_at E H q" and "dh_sessions H p \<noteq> None"
  shows "sessions_saved E (persist_session E H p)"
  using assms by (auto simp: sessions_saved_def saved_at_persist)

lemma saved_cong:
  "dh_sessions H' = dh_sessions H \<Longrightarrow> db_session_pickles (dh_storage H') = db_session_pickles (dh_storage H) \<Longrightarrow>
     sessions_saved E H' = sessions_saved E H"
  by (simp add: sessions_saved_def saved_at_def fetch_session_pickle_def)

lemma saved_kept [simp]: "sessions_saved E (kept E H nonce m content) = sessions_saved E H"
  by (simp add: sessions_saved_def)

lemma saved_advance:
  "direct_env_ok E \<Longrightarrow> sessions_saved E H \<Longrightarrow>
     sessions_saved E (persist_session E (H\<lparr>dh_sessions := (dh_sessions H)(p \<mapsto> s)\<rparr>) p)"
  by (rule saved_after_persist) (simp_all add: sessions_saved_def)

lemma saved_open_inbound:
  assumes "direct_env_ok E" and "sessions_saved E H"
  shows "sessions_saved E (fst (open_inbound E H m pre_key))"
proof -
  have "sessions_saved E (persist_session E (H\<lparr>dh_account := a, dh_sessions := (dh_sessions H)(p \<mapsto> s)\<rparr>) p)" for a p s
    by (rule saved_after_persist) (use assms in \<open>auto simp: sessions_saved_def saved_at_def\<close>)
  then show ?thesis
    using assms(2) by (simp add: open_inbound_def split: option.split sum.split inbound_error.split)
qed

lemma saved_olm_plaintext:
  assumes E: "direct_env_ok E" and S: "sessions_saved E H"
  shows "sessions_saved E (fst (olm_plaintext E H m om))"
proof (cases "dh_sessions H (dm_sender_did m)")
  case None
  then show ?thesis
    using S saved_open_inbound [OF E S] by (cases om) (simp_all add: olm_plaintext_def)
next
  case (Some s)
  obtain s' r where d: "ol_decrypt (de_olm E) s om = (s', r)" by fastforce
  have same: "r = Inl e \<Longrightarrow> (dh_sessions H)(dm_sender_did m \<mapsto> s') = dh_sessions H" for e
    using olm_okD(2) [of "de_olm E" s om s' e] E d Some by auto
  from Some d S same saved_advance [OF E S, of "dm_sender_did m" s'] show ?thesis
    by (cases om; cases r) (simp_all add: olm_plaintext_def Let_def)
qed


subsection \<open>Runs\<close>

datatype 'acc direct_op =
    SendMessage string int bytes did message_content
  | ReceiveMessage bytes direct_message
  | GetMessageContent bytes direct_message
  | InitSession did bytes bytes
  | InitSessionIfNeeded did bytes bytes
  | GenerateKeys nat
  | MarkPublished
  | GenerateFallback
  | ForgetFallback
  | QueuePending did direct_message
  | MarkPendingSent string
  | Restart 'acc

text \<open>A restart opens the same store with the same identity; the account comes from the identity file.\<close>

definition direct_restart ::
  "('acc, 'sess, 't) direct_env \<Rightarrow> ('acc, 'sess, 't) direct_handler \<Rightarrow> 'acc \<Rightarrow> ('acc, 'sess, 't) direct_handler" where
  "direct_restart E H account =
     restore_sessions E (direct_handler_new E (dh_local_did H) (dh_signing_key H) account (dh_storage H))"

fun direct_exec ::
  "('acc, 'sess, 't) direct_env \<Rightarrow> 'acc direct_op \<Rightarrow> ('acc, 'sess, 't) direct_handler \<Rightarrow> ('acc, 'sess, 't) direct_handler" where
  "direct_exec E (SendMessage i now nonce d c) H = fst (send_message E H i now nonce d c)"
| "direct_exec E (ReceiveMessage nonce m) H = fst (receive_message E H nonce m)"
| "direct_exec E (GetMessageContent nonce m) H = fst (get_message_content E H nonce m)"
| "direct_exec E (InitSession d ik otk) H = init_session_as_initiator E H d ik otk"
| "direct_exec E (InitSessionIfNeeded d ik otk) H = init_session_if_needed E H d ik otk"
| "direct_exec E (GenerateKeys n) H = generate_one_time_keys E H n"
| "direct_exec E MarkPublished H = mark_one_time_keys_as_published E H"
| "direct_exec E GenerateFallback H = fst (generate_fallback_key E H)"
| "direct_exec E ForgetFallback H = forget_previous_fallback_key E H"
| "direct_exec E (QueuePending d m) H = queue_pending_message E H d m"
| "direct_exec E (MarkPendingSent i) H = mark_pending_sent E H i"
| "direct_exec E (Restart account) H = direct_restart E H account"

definition direct_run ::
  "('acc, 'sess, 't) direct_env \<Rightarrow> 'acc direct_op list \<Rightarrow> ('acc, 'sess, 't) direct_handler \<Rightarrow> ('acc, 'sess, 't) direct_handler" where
  "direct_run E ops H = fold (direct_exec E) ops H"

lemma take_in_fst:
  "direct_env_ok E \<Longrightarrow> fst (take_in E H nonce m p)
     = (case cd_decode (de_content E) p of None \<Rightarrow> H | Some c \<Rightarrow> kept E H nonce m c)"
  by (simp add: take_in_def keep_message_eq split: option.split)

lemma saved_take_in: "direct_env_ok E \<Longrightarrow> sessions_saved E H \<Longrightarrow> sessions_saved E (fst (take_in E H nonce m p))"
  by (simp add: take_in_fst split: option.split)

lemma saved_receive:
  assumes E: "direct_env_ok E" and S: "sessions_saved E H"
  shows "sessions_saved E (fst (receive_message E H nonce m))"
proof -
  have "sessions_saved E (fst (case olm_plaintext E H m om of
        (H, Inl e) \<Rightarrow> (H, Inl e) | (H, Inr p) \<Rightarrow> take_in E H nonce m p))" for om
    using saved_olm_plaintext [OF E S, of m om] saved_take_in [OF E]
    by (cases "olm_plaintext E H m om"; cases "snd (olm_plaintext E H m om)") auto
  then show ?thesis
    using S saved_take_in [OF E S] by (simp add: receive_message_def split: sum.split)
qed

lemma saved_get_message_content:
  "direct_env_ok E \<Longrightarrow> sessions_saved E H \<Longrightarrow> sessions_saved E (fst (get_message_content E H nonce m))"
  by (simp add: get_message_content_def saved_receive split: sum.split option.split)

lemma send_self_fst: "direct_env_ok E \<Longrightarrow> \<exists>m. fst (send_self_message E H i now nonce c) = kept E H nonce m c"
  by (auto simp: send_self_message_def Let_def keep_message_eq)

lemma saved_send:
  assumes E: "direct_env_ok E" and S: "sessions_saved E H"
  shows "sessions_saved E (fst (send_message E H i now nonce d c))"
proof -
  have self: "sessions_saved E (fst (send_self_message E H i now nonce c))"
    using send_self_fst [OF E, of H i now nonce c] S by auto
  have go: "sessions_saved E (persist_session E (kept E (H\<lparr>dh_sessions := (dh_sessions H)(d \<mapsto> s)\<rparr>) nonce m c) d)" for s m
    by (rule saved_after_persist [OF E]) (use S in \<open>simp_all add: sessions_saved_def\<close>)
  show ?thesis
    using self S go E by (simp add: send_message_def Let_def keep_message_eq split: option.split prod.split)
qed

lemma saved_init:
  "direct_env_ok E \<Longrightarrow> sessions_saved E H \<Longrightarrow> sessions_saved E (init_session_as_initiator E H d ik otk)"
  by (simp add: init_session_as_initiator_def saved_advance)

lemma saved_init_if_needed:
  "direct_env_ok E \<Longrightarrow> sessions_saved E H \<Longrightarrow> sessions_saved E (init_session_if_needed E H d ik otk)"
  by (simp add: init_session_if_needed_def saved_init)

lemma saved_queue:
  "sessions_saved E (queue_pending_message E H d m) = sessions_saved E H"
  "sessions_saved E (mark_pending_sent E H i) = sessions_saved E H"
  by (rule saved_cong; simp add: queue_pending_message_def store_pending_message_def Let_def
      mark_pending_sent_def delete_pending_message_def split: option.split)+

lemma saved_account:
  "sessions_saved E (generate_one_time_keys E H n) = sessions_saved E H"
  "sessions_saved E (mark_one_time_keys_as_published E H) = sessions_saved E H"
  "sessions_saved E (fst (generate_fallback_key E H)) = sessions_saved E H"
  "sessions_saved E (forget_previous_fallback_key E H) = sessions_saved E H"
  by (rule saved_cong; simp add: generate_one_time_keys_def mark_one_time_keys_as_published_def
      generate_fallback_key_def forget_previous_fallback_key_def split: prod.split)+

text \<open>Reading every pickle back, in the order the tree lists them.\<close>

lemma fold_unpickle:
  assumes "distinct (map fst xs)"
  shows "fold (\<lambda>(p, json) m. case f json of Some s \<Rightarrow> m(p \<mapsto> s) | None \<Rightarrow> m) xs m0 k
    = (case map_of xs k of None \<Rightarrow> m0 k | Some json \<Rightarrow> (case f json of None \<Rightarrow> m0 k | Some s \<Rightarrow> Some s))"
  using assms
proof (induction xs arbitrary: m0)
  case (Cons x xs)
  obtain p json where x: "x = (p, json)" by fastforce
  with Cons.prems have "map_of xs p = None" by (simp add: map_of_eq_None_iff)
  with Cons x show ?case by (simp split: option.split)
qed simp

lemma restore_eq:
  assumes "direct_env_ok E"
  shows "dh_sessions (restore_sessions E H) p
    = (case fetch_session_pickle (de_store E) (dh_storage H) p of None \<Rightarrow> dh_sessions H p
       | Some json \<Rightarrow> (case ol_unpickle (de_olm E) json of None \<Rightarrow> dh_sessions H p | Some s \<Rightarrow> Some s))"
proof -
  let ?S = "se_sled (de_store E)" and ?t = "db_session_pickles (dh_storage H)"
  have l: "load_all_session_pickles (de_store E) (dh_storage H) = map (\<lambda>(k, v). (k, string_of_bytes v)) (sl_iter ?S ?t)"
    by (simp add: load_all_session_pickles_def)
  have d: "distinct (map fst (load_all_session_pickles (de_store E) (dh_storage H)))"
    using sled_distinct [of ?S ?t] assms by (simp add: l comp_def case_prod_unfold)
  have "map_of (load_all_session_pickles (de_store E) (dh_storage H)) p
      = fetch_session_pickle (de_store E) (dh_storage H) p"
    using assms by (simp add: l map_of_map fetch_session_pickle_def sled_get_map_of)
  then show ?thesis
    using fold_unpickle [OF d, of "ol_unpickle (de_olm E)" "dh_sessions H" p] by (simp add: restore_sessions_def)
qed

lemma restart_sessions:
  assumes "direct_env_ok E" and "sessions_saved E H"
  shows "dh_sessions (direct_restart E H account) = dh_sessions H"
  using assms olm_okD(1) [of "de_olm E"]
  by (intro ext) (simp add: direct_restart_def restore_eq direct_handler_new_def sessions_saved_def saved_at_def
      split: option.split)

lemma saved_restart:
  "direct_env_ok E \<Longrightarrow> sessions_saved E H \<Longrightarrow> sessions_saved E (direct_restart E H account)"
  by (subst saved_cong [where H = H])
    (simp_all add: restart_sessions, simp add: direct_restart_def restore_sessions_def direct_handler_new_def)

lemma saved_exec: "direct_env_ok E \<Longrightarrow> sessions_saved E H \<Longrightarrow> sessions_saved E (direct_exec E op H)"
  by (cases op) (simp_all add: saved_send saved_receive saved_get_message_content saved_init saved_init_if_needed
      saved_account saved_queue saved_restart)

lemma saved_run: "direct_env_ok E \<Longrightarrow> sessions_saved E H \<Longrightarrow> sessions_saved E (direct_run E ops H)"
  unfolding direct_run_def by (induction ops arbitrary: H) (simp_all add: saved_exec)

lemma saved_new: "direct_env_ok E \<Longrightarrow> sessions_saved E (direct_handler_new E d k a (db_new (de_store E)))"
  by (simp add: sessions_saved_def saved_at_def fetch_session_pickle_def direct_handler_new_def db_new_def Let_def
      sled_get_new)

text \<open>C5. A restart loses no ratchet state. Start the handler on a new store and run any
  sequence of operations: sends, receives that succeed or fail, new sessions, key rotations,
  earlier restarts. A handler opened on the same store afterwards, with \<open>restore_sessions\<close>,
  has the sessions the running one had, each at the same ratchet position.\<close>

theorem restart_keeps_sessions:
  assumes "direct_env_ok E"
  shows "let H = direct_run E ops (direct_handler_new E did key account (db_new (de_store E)))
     in dh_sessions (direct_restart E H account') = dh_sessions H"
  unfolding Let_def by (rule restart_sessions [OF assms]) (intro saved_run saved_new assms)

theorem restart_keeps_sessions_witness:
  "dh_sessions (direct_restart counting_env
       (direct_run counting_env [InitSession ''did:v:bob'' [] [], SendMessage ''m1'' 5 (replicate 12 0) ''did:v:bob''
           \<lparr>mc_text = ''hi'', mc_attachments = [], mc_mentions = [], mc_reply_to = None, mc_metadata = []\<rparr>]
         (direct_handler_new counting_env ''did:v:alice'' [] () (db_new (de_store counting_env)))) ()) ''did:v:bob''
     = Some 1"
  unfolding restart_keeps_sessions [OF counting_env_ok, unfolded Let_def]
  by (simp add: direct_run_def init_session_as_initiator_def send_message_def Let_def keep_message_eq counting_env_ok
      direct_handler_new_def) (simp add: counting_env_def counting_olm_def)


subsection \<open>Delivery in order\<close>

text \<open>
  The contract of an Olm channel, as a relation between the sender's session, the
  receiver's account, the sender's identity key and the receiver's session, if it has one:
  a message encrypted on such a session is a PreKey message or meets a session, the receiver
  gets its plaintext, and the channel goes on.
\<close>

definition receives_as ::
  "('acc, 'sess) olm \<Rightarrow> bytes \<Rightarrow> 'acc \<Rightarrow> 'sess option \<Rightarrow> olm_message \<Rightarrow> ('acc \<times> 'sess \<times> bytes) option" where
  "receives_as X key a r m =
     (case r of
        Some s \<Rightarrow> (case ol_decrypt X s m of (s', Inr p) \<Rightarrow> Some (a, s', p) | (_, Inl _) \<Rightarrow> None)
      | None \<Rightarrow>
          (case m of
             PreKey b \<Rightarrow> (case ol_inbound X a key b of Inr x \<Rightarrow> Some x | Inl _ \<Rightarrow> None)
           | Normal _ \<Rightarrow> None))"

definition channel_ok ::
  "('acc, 'sess) olm \<Rightarrow> bytes \<Rightarrow> ('sess \<Rightarrow> 'acc \<Rightarrow> 'sess option \<Rightarrow> bool) \<Rightarrow> bool" where
  "channel_ok X key L \<longleftrightarrow>
     (\<forall>s a r p s' m. L s a r \<and> ol_encrypt X s p = (s', m) \<longrightarrow>
        (\<exists>a' r'. receives_as X key a r m = Some (a', r', p) \<and> L s' a' (Some r')))"

lemma channel_okE:
  assumes "channel_ok X key L" and "L s a r" and "ol_encrypt X s p = (s', m)"
  obtains a' r' where "receives_as X key a r m = Some (a', r', p)" and "L s' a' (Some r')"
  using assms unfolding channel_ok_def by blast

fun send_all ::
  "('acc, 'sess, 't) direct_env \<Rightarrow> ('acc, 'sess, 't) direct_handler \<Rightarrow> did \<Rightarrow> (string \<times> int \<times> bytes \<times> message_content) list
     \<Rightarrow> ('acc, 'sess, 't) direct_handler \<times> (msg_error + direct_message) list" where
  "send_all E H to [] = (H, [])"
| "send_all E H to ((i, now, nonce, c) # items) =
     (let (H1, r) = send_message E H i now nonce to c; (H2, rs) = send_all E H1 to items in (H2, r # rs))"

fun receive_all ::
  "('acc, 'sess, 't) direct_env \<Rightarrow> ('acc, 'sess, 't) direct_handler \<Rightarrow> (bytes \<times> direct_message) list
     \<Rightarrow> ('acc, 'sess, 't) direct_handler \<times> (msg_error + message_content) list" where
  "receive_all E H [] = (H, [])"
| "receive_all E H ((nonce, m) # ms) =
     (let (H1, r) = receive_message E H nonce m; (H2, rs) = receive_all E H1 ms in (H2, r # rs))"

text \<open>One message: what is sent on a session, and what the other end makes of it.\<close>

lemma send_on_session:
  assumes E: "direct_env_ok E" and s: "dh_sessions H to = Some s" and n: "to \<noteq> dh_local_did H"
    and e: "ol_encrypt (de_olm E) s (cd_encode (de_content E) c) = (s', om)"
  obtains H' m where "send_message E H i now nonce to c = (H', Inr m)"
    and "dh_sessions H' = (dh_sessions H)(to \<mapsto> s')" and "dh_local_did H' = dh_local_did H"
    and "dh_identity_key H' = dh_identity_key H"
    and "dm_id m = i" and "dm_sender_did m = dh_local_did H"
    and "dm_olm_message_type m = fst (olm_to_parts om)" and "dm_ciphertext m = snd (olm_to_parts om)"
    and "\<And>b. om = PreKey b \<Longrightarrow> dm_sender_identity_key m = Some (dh_identity_key H)"
    and "\<forall>j. length nonce = 12 \<longrightarrow> load_plaintext E H' j = (if j = i then Inr (Some c) else load_plaintext E H j)"
proof -
  let ?m = "sign_direct E H
     \<lparr>dm_id = i, dm_sender_did = dh_local_did H, dm_recipient_did = to, dm_ciphertext = snd (olm_to_parts om),
      dm_olm_message_type = fst (olm_to_parts om), dm_signature = [], dm_timestamp = now,
      dm_type = infer_message_type c, dm_reply_to = mc_reply_to c,
      dm_sender_identity_key = (case om of PreKey _ \<Rightarrow> Some (dh_identity_key H) | Normal _ \<Rightarrow> None)\<rparr>"
  let ?H = "persist_session E (kept E (H\<lparr>dh_sessions := (dh_sessions H)(to \<mapsto> s')\<rparr>) nonce ?m c) to"
  have "send_message E H i now nonce to c = (?H, Inr ?m)"
    using s n e E by (cases om) (simp_all add: send_message_def Let_def keep_message_eq sign_direct_def)
  then show thesis
    by (rule that) (use E in \<open>simp_all add: sign_direct_def load_kept\<close>)
qed

lemma receive_from_channel:
  assumes E: "direct_env_ok E"
    and t: "dm_olm_message_type m = fst (olm_to_parts om)" "dm_ciphertext m = snd (olm_to_parts om)"
    and parse: "ol_parse (de_olm E) (fst (olm_to_parts om)) (snd (olm_to_parts om)) = Inr om"
    and k: "\<And>b. om = PreKey b \<Longrightarrow> dm_sender_identity_key m = Some key" and len: "length key = 32"
    and r: "receives_as (de_olm E) key (dh_account R) (dh_sessions R (dm_sender_did m)) om
        = Some (a', r', cd_encode (de_content E) c)"
  obtains R' where "receive_message E R nonce m = (R', Inr c)"
    and "dh_sessions R' = (dh_sessions R)(dm_sender_did m \<mapsto> r')" and "dh_account R' = a'"
    and "\<forall>j. length nonce = 12 \<longrightarrow> load_plaintext E R' j = (if j = dm_id m then Inr (Some c) else load_plaintext E R j)"
proof -
  let ?p = "dm_sender_did m"
  let ?R = "persist_session E (R\<lparr>dh_account := a', dh_sessions := (dh_sessions R)(?p \<mapsto> r')\<rparr>) ?p"
  have ns: "fst (olm_to_parts om) \<noteq> olm_message_type_self"
    by (cases om) (simp_all add: olm_message_type_self_def)
  have "olm_plaintext E R m om = (?R, Inr (cd_encode (de_content E) c))"
  proof (cases "dh_sessions R ?p")
    case None
    then obtain b where om: "om = PreKey b" and i: "ol_inbound (de_olm E) (dh_account R) key b
        = Inr (a', r', cd_encode (de_content E) c)"
      using r by (cases om) (auto simp: receives_as_def split: sum.splits)
    show ?thesis using None k [OF om] len i by (simp add: om olm_plaintext_def open_inbound_def Let_def)
  next
    case (Some s)
    then have d: "ol_decrypt (de_olm E) s om = (r', Inr (cd_encode (de_content E) c))" and a: "a' = dh_account R"
      using r by (auto simp: receives_as_def split: prod.splits sum.splits)
    then have "R\<lparr>dh_account := a', dh_sessions := (dh_sessions R)(?p \<mapsto> r')\<rparr> = R\<lparr>dh_sessions := (dh_sessions R)(?p \<mapsto> r')\<rparr>"
      by simp
    with Some d show ?thesis by (cases om) (simp_all add: olm_plaintext_def decryption_failure_def Let_def)
  qed
  then have "receive_message E R nonce m = (kept E ?R nonce m c, Inr c)"
    using E ns parse by (simp add: receive_message_def t take_in_def keep_message_eq)
  then show thesis by (rule that) (use E in \<open>simp_all add: load_kept\<close>)
qed

text \<open>C6. Messages arrive as they were sent. Alice has a session for Bob that forms an Olm
  channel with Bob's end (a session of his for her, or only his account, before her first
  message). She sends any list of messages; every send succeeds. Bob receives them in the
  order of sending; every receive succeeds with the content that was sent. Both ends can
  then read each of them from their store under its id.\<close>

theorem delivered_in_order:
  assumes "direct_env_ok E" and "channel_ok (de_olm E) (dh_identity_key A) L" and "length (dh_identity_key A) = 32"
    and "dh_sessions A bob = Some s" and "bob \<noteq> dh_local_did A"
    and "L s (dh_account B) (dh_sessions B (dh_local_did A))"
    and "\<forall>(i, now, nonce, c) \<in> set items. length nonce = 12" and "\<forall>n \<in> set nonces. length n = 12"
    and "length nonces = length items" and "distinct (map fst items)"
  shows "\<exists>A' B' ms. send_all E A bob items = (A', map Inr ms) \<and> map dm_id ms = map fst items \<and>
     receive_all E B (zip nonces ms) = (B', map (\<lambda>(i, now, nonce, c). Inr c) items) \<and>
     (\<forall>(i, now, nonce, c) \<in> set items. load_plaintext E A' i = Inr (Some c) \<and> load_plaintext E B' i = Inr (Some c)) \<and>
     (\<forall>j. j \<notin> fst ` set items \<longrightarrow> load_plaintext E A' j = load_plaintext E A j \<and> load_plaintext E B' j = load_plaintext E B j)"
  using assms(2-)
proof (induction items arbitrary: A B s nonces)
  case Nil
  then show ?case by auto
next
  case (Cons item items)
  obtain i now nonce c where item: "item = (i, now, nonce, c)" by (metis surj_pair)
  obtain n ns where ns: "nonces = n # ns" using Cons.prems by (cases nonces) auto
  obtain s' om where e: "ol_encrypt (de_olm E) s (cd_encode (de_content E) c) = (s', om)" by fastforce
  obtain A1 m where A1: "send_message E A i now nonce bob c = (A1, Inr m)"
      "dh_sessions A1 = (dh_sessions A)(bob \<mapsto> s')" "dh_local_did A1 = dh_local_did A"
      "dh_identity_key A1 = dh_identity_key A" "dm_id m = i" and m: "dm_sender_did m = dh_local_did A"
      "dm_olm_message_type m = fst (olm_to_parts om)" "dm_ciphertext m = snd (olm_to_parts om)"
      "\<And>b. om = PreKey b \<Longrightarrow> dm_sender_identity_key m = Some (dh_identity_key A)"
    and lA: "\<forall>j. length nonce = 12 \<longrightarrow> load_plaintext E A1 j = (if j = i then Inr (Some c) else load_plaintext E A j)"
    by (rule send_on_session [OF assms(1) Cons.prems(3,4) e]) blast
  obtain a' r' where r: "receives_as (de_olm E) (dh_identity_key A) (dh_account B) (dh_sessions B (dm_sender_did m)) om
      = Some (a', r', cd_encode (de_content E) c)" and L: "L s' a' (Some r')"
    by (rule channel_okE [OF Cons.prems(1,5) e]) (simp add: m(1))
  have parse: "ol_parse (de_olm E) (fst (olm_to_parts om)) (snd (olm_to_parts om)) = Inr om"
    using olm_okD(3) [OF _ e] assms(1) by simp
  obtain B1 where B1: "receive_message E B n m = (B1, Inr c)"
      "dh_sessions B1 = (dh_sessions B)(dm_sender_did m \<mapsto> r')" "dh_account B1 = a'"
    and lB: "\<forall>j. length n = 12 \<longrightarrow> load_plaintext E B1 j = (if j = dm_id m then Inr (Some c) else load_plaintext E B j)"
    by (rule receive_from_channel [where nonce = n, OF assms(1) m(2,3) parse m(4) Cons.prems(2) r]) blast
  have "\<exists>A' B' ms. send_all E A1 bob items = (A', map Inr ms) \<and> map dm_id ms = map fst items \<and>
     receive_all E B1 (zip ns ms) = (B', map (\<lambda>(i, now, nonce, c). Inr c) items) \<and>
     (\<forall>(i, now, nonce, c) \<in> set items. load_plaintext E A' i = Inr (Some c) \<and> load_plaintext E B' i = Inr (Some c)) \<and>
     (\<forall>j. j \<notin> fst ` set items \<longrightarrow> load_plaintext E A' j = load_plaintext E A1 j \<and> load_plaintext E B' j = load_plaintext E B1 j)"
    using Cons.prems L by (intro Cons.IH [where s = s']) (simp_all add: A1 B1 m ns item)
  then obtain A' B' ms where IH: "send_all E A1 bob items = (A', map Inr ms)" "map dm_id ms = map fst items"
      "receive_all E B1 (zip ns ms) = (B', map (\<lambda>(i, now, nonce, c). Inr c) items)"
      and known: "\<forall>(i, now, nonce, c) \<in> set items. load_plaintext E A' i = Inr (Some c) \<and> load_plaintext E B' i = Inr (Some c)"
      and rest: "\<And>j. j \<notin> fst ` set items \<Longrightarrow> load_plaintext E A' j = load_plaintext E A1 j \<and> load_plaintext E B' j = load_plaintext E B1 j"
    by blast
  have new: "i \<notin> fst ` set items" and l: "length nonce = 12" "length n = 12"
    using Cons.prems by (auto simp: item ns)
  have "send_all E A bob (item # items) = (A', map Inr (m # ms))" and "map dm_id (m # ms) = map fst (item # items)"
      and "receive_all E B (zip nonces (m # ms)) = (B', map (\<lambda>(i, now, nonce, c). Inr c) (item # items))"
    using IH A1(1,5) B1(1) by (simp_all add: item ns)
  moreover have "\<forall>(i, now, nonce, c) \<in> set (item # items). load_plaintext E A' i = Inr (Some c) \<and> load_plaintext E B' i = Inr (Some c)"
    using known rest [OF new] lA lB l A1(5) by (simp add: item)
  moreover have "\<forall>j. j \<notin> fst ` set (item # items) \<longrightarrow>
      load_plaintext E A' j = load_plaintext E A j \<and> load_plaintext E B' j = load_plaintext E B j"
    using rest lA lB l A1(5) by (simp add: item)
  ultimately show ?case by blast
qed


theorem delivered_in_order_witness:
  "\<forall>c1 c2. \<exists>A' B' ms. send_all counting_env
       (init_session_as_initiator counting_env (direct_handler_new counting_env ''alice'' [] () (db_new rbt_env)) ''bob'' [] [])
       ''bob'' [(''m1'', 5, replicate 12 0, c1), (''m2'', 6, replicate 12 1, c2)] = (A', map Inr ms) \<and>
     receive_all counting_env (direct_handler_new counting_env ''bob'' [] () (db_new rbt_env))
       (zip [replicate 12 2, replicate 12 3] ms) = (B', [Inr c1, Inr c2])"
proof -
  let ?A = "init_session_as_initiator counting_env (direct_handler_new counting_env ''alice'' [] () (db_new rbt_env)) ''bob'' [] []"
  let ?B = "direct_handler_new counting_env ''bob'' [] () (db_new rbt_env)"
  have ch: "channel_ok (de_olm counting_env) (dh_identity_key ?A) (\<lambda>_ _ _. True)"
    by (simp add: channel_ok_def receives_as_def init_session_as_initiator_def direct_handler_new_def counting_env_def
        counting_olm_def split: option.split)
  have s: "dh_sessions ?A ''bob'' = Some 0" and k: "length (dh_identity_key ?A) = 32" and d: "''bob'' \<noteq> dh_local_did ?A"
    by (simp_all add: init_session_as_initiator_def direct_handler_new_def counting_env_def counting_olm_def)
  show ?thesis
  proof (intro allI)
    fix c1 c2 :: message_content
    let ?items = "[(''m1'', 5 :: int, replicate 12 0 :: bytes, c1), (''m2'', 6, replicate 12 1, c2)]"
      and ?nonces = "[replicate 12 2, replicate 12 3] :: bytes list"
    have "\<exists>A' B' ms. send_all counting_env ?A ''bob'' ?items = (A', map Inr ms) \<and> map dm_id ms = map fst ?items \<and>
       receive_all counting_env ?B (zip ?nonces ms) = (B', map (\<lambda>(i, now, nonce, c). Inr c) ?items) \<and>
       (\<forall>(i, now, nonce, c) \<in> set ?items. load_plaintext counting_env A' i = Inr (Some c) \<and> load_plaintext counting_env B' i = Inr (Some c)) \<and>
       (\<forall>j. j \<notin> fst ` set ?items \<longrightarrow> load_plaintext counting_env A' j = load_plaintext counting_env ?A j \<and>
         load_plaintext counting_env B' j = load_plaintext counting_env ?B j)"
      by (rule delivered_in_order [OF counting_env_ok ch k s d]) simp_all
    then show "\<exists>A' B' ms. send_all counting_env ?A ''bob'' ?items = (A', map Inr ms) \<and>
       receive_all counting_env ?B (zip ?nonces ms) = (B', [Inr c1, Inr c2])"
      unfolding list.map prod.case by (elim exE conjE) (intro exI conjI, assumption+)
  qed
qed

subsection \<open>Who is believed\<close>

text \<open>A message of the self-message type is believed from anyone. If its ciphertext
  decodes, \<open>receive_message\<close> takes it in: whatever its sender DID, recipient, signature and
  time are, no key of the sender and no session is used, the content becomes the readable
  content of that id and the message an entry of the conversation its DIDs name.\<close>

theorem self_type_believed:
  assumes "direct_env_ok E" and "direct_wf (de_store E) (dh_storage H)" and "length nonce = 12"
    and "dm_olm_message_type m = olm_message_type_self" and "cd_decode (de_content E) (dm_ciphertext m) = Some c"
  shows "\<exists>H'. receive_message E H nonce m = (H', Inr c) \<and> load_plaintext E H' (dm_id m) = Inr (Some c) \<and>
    m \<in> direct_messages (de_store E) (dh_storage H') \<and> dh_sessions H' = dh_sessions H \<and> dh_account H' = dh_account H"
  using assms by (simp add: receive_message_def take_in_def keep_message_eq load_kept direct_messages_kept)

theorem self_type_believed_witness:
  "\<exists>H'. receive_message counting_env (direct_handler_new counting_env ''did:v:alice'' [] () (db_new rbt_env)) (replicate 12 0)
     \<lparr>dm_id = ''m'', dm_sender_did = ''did:v:bob'', dm_recipient_did = ''did:v:alice'',
      dm_ciphertext = cd_encode (de_content counting_env)
        \<lparr>mc_text = ''pay eve'', mc_attachments = [], mc_mentions = [], mc_reply_to = None, mc_metadata = []\<rparr>,
      dm_olm_message_type = 999, dm_signature = [], dm_timestamp = 5, dm_type = 1, dm_reply_to = None,
      dm_sender_identity_key = None\<rparr>
     = (H', Inr \<lparr>mc_text = ''pay eve'', mc_attachments = [], mc_mentions = [], mc_reply_to = None, mc_metadata = []\<rparr>)"
proof -
  have st: "de_store counting_env = rbt_env" and co: "codec_ok (de_content counting_env)"
    using direct_env_okD(3) [OF counting_env_ok] by (simp_all add: counting_env_def)
  have wf: "direct_wf (de_store counting_env) (dh_storage (direct_handler_new counting_env ''did:v:alice'' [] () (db_new rbt_env)))"
    using direct_wf_new [OF rbt_env_ok] by (simp add: st direct_handler_new_def)
  show ?thesis
    using self_type_believed [OF counting_env_ok wf, of "replicate 12 0"
        "\<lparr>dm_id = ''m'', dm_sender_did = ''did:v:bob'', dm_recipient_did = ''did:v:alice'',
          dm_ciphertext = cd_encode (de_content counting_env)
            \<lparr>mc_text = ''pay eve'', mc_attachments = [], mc_mentions = [], mc_reply_to = None, mc_metadata = []\<rparr>,
          dm_olm_message_type = 999, dm_signature = [], dm_timestamp = 5, dm_type = 1, dm_reply_to = None,
          dm_sender_identity_key = None\<rparr>"
        "\<lparr>mc_text = ''pay eve'', mc_attachments = [], mc_mentions = [], mc_reply_to = None, mc_metadata = []\<rparr>"]
      co by (auto simp: olm_message_type_self_def)
qed

text \<open>C25. Any other message needs the ratchet of its claimed sender. If \<open>receive_message\<close>
  succeeds on a message that is not of the self-message type, then its plaintext came from
  the session kept for its sender DID, or, when there is none, from a new session that the
  account accepted for the 32-byte identity key in the message. It changes no other peer's
  session, and a failure leaves the message log and the readable contents as they were.\<close>

theorem receive_uses_ratchet:
  assumes "direct_env_ok E" and "dm_olm_message_type m \<noteq> olm_message_type_self"
    and "receive_message E H nonce m = (H', r)"
  shows "(\<forall>q. q \<noteq> dm_sender_did m \<longrightarrow> dh_sessions H' q = dh_sessions H q) \<and>
    (case r of
       Inl _ \<Rightarrow> db_direct (dh_storage H') = db_direct (dh_storage H) \<and> db_plaintext (dh_storage H') = db_plaintext (dh_storage H)
     | Inr c \<Rightarrow> (\<exists>om p s'. ol_parse (de_olm E) (dm_olm_message_type m) (dm_ciphertext m) = Inr om \<and>
         cd_decode (de_content E) p = Some c \<and> dh_sessions H' (dm_sender_did m) = Some s' \<and>
         (case dh_sessions H (dm_sender_did m) of
            Some s \<Rightarrow> ol_decrypt (de_olm E) s om = (s', Inr p)
          | None \<Rightarrow> (\<exists>key b. om = PreKey b \<and> dm_sender_identity_key m = Some key \<and> length key = 32 \<and>
              ol_inbound (de_olm E) (dh_account H) key b = Inr (dh_account H', s', p)))))"
proof -
  let ?p = "dm_sender_did m"
  have step: "(\<forall>q. q \<noteq> ?p \<longrightarrow> dh_sessions H1 q = dh_sessions H q) \<and> db_direct (dh_storage H1) = db_direct (dh_storage H) \<and>
      db_plaintext (dh_storage H1) = db_plaintext (dh_storage H) \<and>
      (\<forall>p. x = Inr p \<longrightarrow> (\<exists>s'. dh_sessions H1 ?p = Some s' \<and>
        (case dh_sessions H ?p of Some s \<Rightarrow> ol_decrypt (de_olm E) s om = (s', Inr p)
         | None \<Rightarrow> (\<exists>key b. om = PreKey b \<and> dm_sender_identity_key m = Some key \<and> length key = 32 \<and>
             ol_inbound (de_olm E) (dh_account H) key b = Inr (dh_account H1, s', p)))))"
    if "olm_plaintext E H m om = (H1, x)" for om H1 x
    using that by (cases om; cases "dh_sessions H ?p")
      (auto simp: olm_plaintext_def open_inbound_def decryption_failure_def Let_def
        split: option.splits sum.splits prod.splits if_splits inbound_error.splits)
  show ?thesis
  proof (cases "ol_parse (de_olm E) (dm_olm_message_type m) (dm_ciphertext m)")
    case (Inl e)
    with assms(2,3) show ?thesis by (auto simp: receive_message_def)
  next
    case (Inr om)
    obtain H1 x where o: "olm_plaintext E H m om = (H1, x)" by fastforce
    show ?thesis
    proof (cases x)
      case Inl
      with assms(2,3) Inr o step [OF o] show ?thesis by (auto simp: receive_message_def)
    next
      case (Inr p)
      note s = step [OF o]
      show ?thesis
      proof (cases "cd_decode (de_content E) p")
        case None
        with assms(2,3) o s \<open>x = Inr p\<close> \<open>ol_parse _ _ _ = Inr om\<close> show ?thesis
          by (auto simp: receive_message_def take_in_def)
      next
        case (Some c)
        with assms o \<open>x = Inr p\<close> \<open>ol_parse _ _ _ = Inr om\<close> have "H' = kept E H1 nonce m c" "r = Inr c"
          by (auto simp: receive_message_def take_in_def keep_message_eq)
        with s Some \<open>x = Inr p\<close> \<open>ol_parse _ _ _ = Inr om\<close> show ?thesis
          by (cases "dh_sessions H ?p") auto
      qed
    qed
  qed
qed


theorem receive_uses_ratchet_witness:
  "let (H', r) = receive_message counting_env (direct_handler_new counting_env ''did:v:alice'' [] () (db_new rbt_env)) (replicate 12 0)
     \<lparr>dm_id = ''m'', dm_sender_did = ''did:v:bob'', dm_recipient_did = ''did:v:alice'', dm_ciphertext = [7],
      dm_olm_message_type = 0, dm_signature = [], dm_timestamp = 5, dm_type = 1, dm_reply_to = None,
      dm_sender_identity_key = Some (replicate 32 1)\<rparr>
   in dh_sessions H' ''did:v:carol'' = None"
proof -
  let ?H = "direct_handler_new counting_env ''did:v:alice'' [] () (db_new rbt_env)"
    and ?m = "\<lparr>dm_id = ''m'', dm_sender_did = ''did:v:bob'', dm_recipient_did = ''did:v:alice'', dm_ciphertext = [7],
      dm_olm_message_type = 0, dm_signature = [], dm_timestamp = 5, dm_type = 1, dm_reply_to = None,
      dm_sender_identity_key = Some (replicate 32 1)\<rparr>"
  obtain H' r where e: "receive_message counting_env ?H (replicate 12 0) ?m = (H', r)" by fastforce
  have "dm_olm_message_type ?m \<noteq> olm_message_type_self" by (simp add: olm_message_type_self_def)
  from receive_uses_ratchet [OF counting_env_ok this e] have "dh_sessions H' ''did:v:carol'' = dh_sessions ?H ''did:v:carol''"
    by simp
  then have "dh_sessions H' ''did:v:carol'' = None" by (simp add: direct_handler_new_def)
  then show ?thesis by (simp only: e Let_def prod.case)
qed

end
