(* ===== verification/Mls_Groups.thy ===== *)
theory Mls_Groups
  imports Group_Store
begin

section \<open>MLS groups (\<open>variance-messaging/src/mls.rs\<close>)\<close>

text \<open>
  \<open>MlsGroupHandler\<close>. openmls is third-party: \<open>openmls\<close> holds the calls the handler makes on
  an \<open>MlsGroup\<close>, each with the provider it is given, since the provider (key store and
  random generator) is part of the handler's state. A failed call may also have changed both.
  A \<open>DashMap\<close> that is iterated is an association list. \<open>MlsMessageIn\<close> and
  \<open>MlsMessageOut\<close>, and \<open>KeyPackage\<close> and \<open>KeyPackageIn\<close>, are one type each; \<open>'q\<close> is what
  openmls hands out between two calls (a proposal, a staged commit, a staged welcome).
  Poisoned locks are not modelled.
\<close>

subsection \<open>openmls\<close>

record 'r provider =
  mp_values :: "(bytes \<times> bytes) list"
  mp_rng :: 'r

type_synonym keypair = "bytes \<times> bytes"
type_synonym credential_with_key = "bytes \<times> bytes"

datatype 'q processed_content =
    ApplicationMessage bytes
  | ProposalMessage 'q
  | StagedCommitMessage 'q
  | OtherContent

record ('r, 'g, 'm, 'kp, 'q) openmls =
  ml_store_keypair :: "keypair \<Rightarrow> (bytes \<times> bytes) list \<Rightarrow> (bytes \<times> bytes) list \<times> (string + unit)"
  ml_key_package :: "'r provider \<Rightarrow> keypair \<Rightarrow> credential_with_key \<Rightarrow> 'r provider \<times> (string + 'kp)"
  ml_new_group :: "'r provider \<Rightarrow> keypair \<Rightarrow> bytes \<Rightarrow> credential_with_key \<Rightarrow> 'r provider \<times> (string + 'g)"
  ml_add_members :: "'r provider \<Rightarrow> keypair \<Rightarrow> 'kp \<Rightarrow> 'g \<Rightarrow> 'r provider \<times> 'g \<times> (string + 'm \<times> 'm \<times> 'm option)"
  ml_remove_members :: "'r provider \<Rightarrow> keypair \<Rightarrow> nat \<Rightarrow> 'g \<Rightarrow> 'r provider \<times> 'g \<times> (string + 'm \<times> 'm option \<times> 'm option)"
  ml_merge_pending :: "'r provider \<Rightarrow> 'g \<Rightarrow> 'r provider \<times> 'g \<times> (string + unit)"
  ml_clear_pending :: "'r provider \<Rightarrow> 'g \<Rightarrow> 'r provider \<times> 'g \<times> (string + unit)"
  ml_pending_commit :: "'g \<Rightarrow> bool"
  ml_members :: "'g \<Rightarrow> (nat \<times> bytes) list"
  ml_create_message :: "'r provider \<Rightarrow> keypair \<Rightarrow> bytes \<Rightarrow> 'g \<Rightarrow> 'r provider \<times> 'g \<times> (string + 'm)"
  ml_protocol_message :: "'m \<Rightarrow> string + 'm"
  ml_process :: "'r provider \<Rightarrow> 'm \<Rightarrow> 'g \<Rightarrow> 'r provider \<times> 'g \<times> (string + bytes \<times> 'q processed_content)"
  ml_store_proposal :: "'r provider \<Rightarrow> 'q \<Rightarrow> 'g \<Rightarrow> 'r provider \<times> 'g \<times> (string + unit)"
  ml_merge_staged :: "'r provider \<Rightarrow> 'q \<Rightarrow> 'g \<Rightarrow> 'r provider \<times> 'g \<times> (string + unit)"
  ml_welcome_body :: "'m \<Rightarrow> 'm option"
  ml_stage_welcome :: "'r provider \<Rightarrow> 'm \<Rightarrow> 'r provider \<times> (string + 'q)"
  ml_into_group :: "'r provider \<Rightarrow> 'q \<Rightarrow> 'r provider \<times> (string + 'g)"
  ml_group_id :: "'g \<Rightarrow> bytes"
  ml_epoch :: "'g \<Rightarrow> nat"
  ml_leave :: "'r provider \<Rightarrow> keypair \<Rightarrow> 'g \<Rightarrow> 'r provider \<times> 'g \<times> (string + 'm)"
  ml_self_update :: "'r provider \<Rightarrow> keypair \<Rightarrow> 'g \<Rightarrow> 'r provider \<times> 'g \<times> (string + 'm)"
  ml_pending_proposals :: "'g \<Rightarrow> 'q list"
  ml_commit_proposals :: "'r provider \<Rightarrow> keypair \<Rightarrow> 'g \<Rightarrow> 'r provider \<times> 'g \<times> (string + 'm \<times> 'm option \<times> 'm option)"
  ml_delete :: "(bytes \<times> bytes) list \<Rightarrow> 'g \<Rightarrow> (bytes \<times> bytes) list \<times> (string + unit)"
  ml_load :: "(bytes \<times> bytes) list \<Rightarrow> bytes \<Rightarrow> string + 'g option"
  ml_serialize :: "'m \<Rightarrow> string + bytes"
  ml_serialize_key_package :: "'kp \<Rightarrow> string + bytes"
  ml_deserialize :: "bytes \<Rightarrow> string + 'm"
  ml_deserialize_key_package :: "bytes \<Rightarrow> string + 'kp"
  ml_validate :: "'kp \<Rightarrow> string + 'kp"

record mls_snapshot =
  ms_group_ids :: "string list"
  ms_storage_entries :: "(string \<times> string) list"

record ('r, 'g, 'm, 'kp, 'q, 't) mls_env =
  mv_lib :: "('r, 'g, 'm, 'kp, 'q) openmls"
  mv_public_key :: "bytes \<Rightarrow> bytes"
  mv_hkdf :: "bytes \<Rightarrow> bytes \<Rightarrow> bytes"
  mv_seal :: "bytes \<Rightarrow> bytes \<Rightarrow> bytes \<Rightarrow> bytes option"
  mv_open :: "bytes \<Rightarrow> bytes \<Rightarrow> bytes \<Rightarrow> bytes option"
  mv_content :: "message_content codec"
  mv_snapshot :: "mls_snapshot codec"
  mv_store :: "'t store_env"

subsection \<open>\<open>String::from_utf8_lossy\<close> and \<open>hex::decode\<close>\<close>

text \<open>The lead bytes of UTF-8: the length of the sequence and the range of its second byte.\<close>

definition utf8_lead :: "nat \<Rightarrow> (nat \<times> nat \<times> nat) option" where
  "utf8_lead b =
     (if 194 \<le> b \<and> b \<le> 223 then Some (2, 128, 191)
      else if b = 224 then Some (3, 160, 191)
      else if b = 237 then Some (3, 128, 159)
      else if 225 \<le> b \<and> b \<le> 239 then Some (3, 128, 191)
      else if b = 240 then Some (4, 144, 191)
      else if 241 \<le> b \<and> b \<le> 243 then Some (4, 128, 191)
      else if b = 244 then Some (4, 128, 143)
      else None)"

text \<open>The next chunk: whether it is a character, and its length; each maximal broken one becomes U+FFFD.\<close>

definition utf8_chunk :: "8 word \<Rightarrow> bytes \<Rightarrow> bool \<times> nat" where
  "utf8_chunk b rest =
     (if unat b < 128 then (True, 1)
      else case utf8_lead (unat b) of
          None \<Rightarrow> (False, 1)
        | Some (len, lo, hi) \<Rightarrow>
            (case rest of
               [] \<Rightarrow> (False, 1)
             | c # cs \<Rightarrow>
                 if lo \<le> unat c \<and> unat c \<le> hi
                 then (let k = length (takeWhile (\<lambda>d. 128 \<le> unat d \<and> unat d \<le> 191) (take (len - 2) cs))
                       in (k = len - 2, k + 2))
                 else (False, 1)))"

function from_utf8_lossy :: "bytes \<Rightarrow> string" where
  "from_utf8_lossy [] = []"
| "from_utf8_lossy (b # bs) =
     (let (valid, n) = utf8_chunk b bs
      in (if valid then string_of_bytes (take n (b # bs)) else string_of_bytes [239, 191, 189])
           @ from_utf8_lossy (drop (n - 1) bs))"
  by pat_completeness auto
termination
  by (relation "measure length") auto

subsection \<open>The handler\<close>

record desync_counter =
  dc_consecutive_failures :: nat
  dc_flagged :: bool

record ('r, 'g) mls_handler =
  mg_local_did :: did
  mg_provider :: "'r provider"
  mg_signature_keypair :: keypair
  mg_credential_with_key :: credential_with_key
  mg_groups :: "(string \<times> 'g) list"
  mg_storage_key :: bytes
  mg_desync_counters :: "string \<rightharpoonup> desync_counter"

record 'm add_member_result =
  ad_commit :: 'm
  ad_welcome :: 'm
  ad_group_info :: "'m option"

record 'm remove_member_result =
  rm_commit :: 'm
  rm_welcome :: "'m option"
  rm_group_info :: "'m option"

record decrypted_message =
  dy_plaintext :: bytes
  dy_sender_credential :: bytes

record desync_info =
  di_group_id :: string
  di_failed_count :: nat
  di_local_epoch :: nat

record 'm reinit_result =
  ri_new_group_id :: string
  ri_welcomes :: "(did \<times> 'm) list"
  ri_members :: "did list"

definition desync_threshold :: nat where
  "desync_threshold = 3"

definition desync_counter_new :: desync_counter where
  "desync_counter_new = \<lparr>dc_consecutive_failures = 0, dc_flagged = False\<rparr>"

definition mls_new ::
  "('r, 'g, 'm, 'kp, 'q, 't) mls_env \<Rightarrow> 'r \<Rightarrow> did \<Rightarrow> bytes \<Rightarrow> msg_error + ('r, 'g) mls_handler" where
  "mls_new E rng local_did signing_key =
     (let keypair = (signing_key, mv_public_key E signing_key)
      in case ml_store_keypair (mv_lib E) keypair [] of
           (_, Inl e) \<Rightarrow> Inl (EMlsKeyPackage (''Failed to store signature keypair: '' @ e))
         | (values, Inr _) \<Rightarrow>
             Inr \<lparr>mg_local_did = local_did, mg_provider = \<lparr>mp_values = values, mp_rng = rng\<rparr>,
               mg_signature_keypair = keypair, mg_credential_with_key = (as_bytes local_did, snd keypair),
               mg_groups = [], mg_storage_key = mv_hkdf E signing_key (as_bytes ''variance-group-plaintext-v1''),
               mg_desync_counters = Map.empty\<rparr>)"

definition generate_key_package ::
  "('r, 'g, 'm, 'kp, 'q, 't) mls_env \<Rightarrow> ('r, 'g) mls_handler \<Rightarrow> ('r, 'g) mls_handler \<times> (msg_error + 'kp)" where
  "generate_key_package E H =
     (let (p, r) = ml_key_package (mv_lib E) (mg_provider H) (mg_signature_keypair H) (mg_credential_with_key H)
      in (H\<lparr>mg_provider := p\<rparr>, map_err (\<lambda>e. EMlsKeyPackage (''Failed to build KeyPackage: '' @ e)) r))"

definition create_group ::
  "('r, 'g, 'm, 'kp, 'q, 't) mls_env \<Rightarrow> ('r, 'g) mls_handler \<Rightarrow> string \<Rightarrow> ('r, 'g) mls_handler \<times> (msg_error + unit)" where
  "create_group E H group_id =
     (case ml_new_group (mv_lib E) (mg_provider H) (mg_signature_keypair H) (as_bytes group_id) (mg_credential_with_key H) of
        (p, Inl e) \<Rightarrow> (H\<lparr>mg_provider := p\<rparr>, Inl (EMlsGroup (''Failed to create MLS group: '' @ e)))
      | (p, Inr grp) \<Rightarrow>
          (H\<lparr>mg_provider := p, mg_groups := AList.update group_id grp (mg_groups H)\<rparr>, Inr ()))"

text \<open>
  A call on the group behind its lock: the group and the provider afterwards are the
  handler's, whatever the call returns.
\<close>

definition find_group :: "('r, 'g) mls_handler \<Rightarrow> string \<Rightarrow> msg_error + 'g" where
  "find_group H group_id =
     (case map_of (mg_groups H) group_id of None \<Rightarrow> Inl (EGroupNotFound group_id) | Some grp \<Rightarrow> Inr grp)"

definition on_group ::
  "('r, 'g) mls_handler \<Rightarrow> string \<Rightarrow> ('r provider \<Rightarrow> 'g \<Rightarrow> 'r provider \<times> 'g \<times> (msg_error + 'a))
     \<Rightarrow> ('r, 'g) mls_handler \<times> (msg_error + 'a)" where
  "on_group H group_id f =
     (case find_group H group_id of
        Inl e \<Rightarrow> (H, Inl e)
      | Inr grp \<Rightarrow>
          (let (p, grp, r) = f (mg_provider H) grp
           in (H\<lparr>mg_provider := p, mg_groups := AList.update group_id grp (mg_groups H)\<rparr>, r)))"

text \<open>One openmls call with its error mapped, and a second one after it with \<open>?\<close>.\<close>

definition lib_call :: "(string \<Rightarrow> msg_error) \<Rightarrow> 'p \<times> 'g \<times> (string + 'a) \<Rightarrow> 'p \<times> 'g \<times> (msg_error + 'a)" where
  "lib_call err c = (case c of (p, g, r) \<Rightarrow> (p, g, map_err err r))"

definition then_call ::
  "'p \<times> 'g \<times> (msg_error + 'a) \<Rightarrow> ('p \<Rightarrow> 'g \<Rightarrow> 'a \<Rightarrow> 'p \<times> 'g \<times> (msg_error + 'b)) \<Rightarrow> 'p \<times> 'g \<times> (msg_error + 'b)" where
  "then_call c f = (case c of (p, g, Inl e) \<Rightarrow> (p, g, Inl e) | (p, g, Inr a) \<Rightarrow> f p g a)"

definition merge_pending_commit ::
  "('r, 'g, 'm, 'kp, 'q, 't) mls_env \<Rightarrow> (string \<Rightarrow> msg_error) \<Rightarrow> 'r provider \<Rightarrow> 'g \<Rightarrow> 'a
     \<Rightarrow> 'r provider \<times> 'g \<times> (msg_error + 'a)" where
  "merge_pending_commit E err p grp result =
     then_call (lib_call err (ml_merge_pending (mv_lib E) p grp)) (\<lambda>p grp _. (p, grp, Inr result))"


subsection \<open>Members\<close>

definition add_member ::
  "('r, 'g, 'm, 'kp, 'q, 't) mls_env \<Rightarrow> ('r, 'g) mls_handler \<Rightarrow> string \<Rightarrow> 'kp
     \<Rightarrow> ('r, 'g) mls_handler \<times> (msg_error + 'm add_member_result)" where
  "add_member E H group_id key_package =
     on_group H group_id (\<lambda>p grp.
       then_call
         (lib_call (\<lambda>e. EMlsCommit (''Failed to add member: '' @ e))
            (ml_add_members (mv_lib E) p (mg_signature_keypair H) key_package grp))
         (\<lambda>p grp (commit, welcome, group_info).
            merge_pending_commit E (\<lambda>e. EMlsCommit (''Failed to merge pending commit after add: '' @ e)) p grp
              \<lparr>ad_commit = commit, ad_welcome = welcome, ad_group_info = group_info\<rparr>))"

definition add_member_deferred ::
  "('r, 'g, 'm, 'kp, 'q, 't) mls_env \<Rightarrow> ('r, 'g) mls_handler \<Rightarrow> string \<Rightarrow> 'kp
     \<Rightarrow> ('r, 'g) mls_handler \<times> (msg_error + 'm add_member_result)" where
  "add_member_deferred E H group_id key_package =
     on_group H group_id (\<lambda>p grp.
       if ml_pending_commit (mv_lib E) grp then (p, grp, Inl EMlsPendingCommit)
       else then_call
         (lib_call (\<lambda>e. EMlsCommit (''Failed to add member (deferred): '' @ e))
            (ml_add_members (mv_lib E) p (mg_signature_keypair H) key_package grp))
         (\<lambda>p grp (commit, welcome, group_info).
            (p, grp, Inr \<lparr>ad_commit = commit, ad_welcome = welcome, ad_group_info = group_info\<rparr>)))"

definition confirm_add_member ::
  "('r, 'g, 'm, 'kp, 'q, 't) mls_env \<Rightarrow> ('r, 'g) mls_handler \<Rightarrow> string \<Rightarrow> ('r, 'g) mls_handler \<times> (msg_error + unit)" where
  "confirm_add_member E H group_id =
     on_group H group_id (\<lambda>p grp.
       if \<not> ml_pending_commit (mv_lib E) grp then (p, grp, Inl (EMlsNoPendingCommit group_id))
       else merge_pending_commit E (\<lambda>e. EMlsCommit (''Failed to merge pending commit: '' @ e)) p grp ())"

definition cancel_add_member ::
  "('r, 'g, 'm, 'kp, 'q, 't) mls_env \<Rightarrow> ('r, 'g) mls_handler \<Rightarrow> string \<Rightarrow> ('r, 'g) mls_handler \<times> (msg_error + unit)" where
  "cancel_add_member E H group_id =
     on_group H group_id (\<lambda>p grp.
       if \<not> ml_pending_commit (mv_lib E) grp then (p, grp, Inl (EMlsNoPendingCommit group_id))
       else lib_call (\<lambda>e. EMlsCommit (''Failed to clear pending commit: '' @ e)) (ml_clear_pending (mv_lib E) p grp))"

definition has_pending_commit ::
  "('r, 'g, 'm, 'kp, 'q, 't) mls_env \<Rightarrow> ('r, 'g) mls_handler \<Rightarrow> string \<Rightarrow> msg_error + bool" where
  "has_pending_commit E H group_id = and_then (find_group H group_id) (\<lambda>grp. Inr (ml_pending_commit (mv_lib E) grp))"

definition remove_member ::
  "('r, 'g, 'm, 'kp, 'q, 't) mls_env \<Rightarrow> ('r, 'g) mls_handler \<Rightarrow> string \<Rightarrow> nat
     \<Rightarrow> ('r, 'g) mls_handler \<times> (msg_error + 'm remove_member_result)" where
  "remove_member E H group_id member_index =
     on_group H group_id (\<lambda>p grp.
       then_call
         (lib_call (\<lambda>e. EMlsCommit (''Failed to remove member: '' @ e))
            (ml_remove_members (mv_lib E) p (mg_signature_keypair H) member_index grp))
         (\<lambda>p grp (commit, welcome, group_info).
            merge_pending_commit E (\<lambda>e. EMlsCommit (''Failed to merge pending commit after remove: '' @ e)) p grp
              \<lparr>rm_commit = commit, rm_welcome = welcome, rm_group_info = group_info\<rparr>))"

definition find_member_index ::
  "('r, 'g, 'm, 'kp, 'q, 't) mls_env \<Rightarrow> ('r, 'g) mls_handler \<Rightarrow> string \<Rightarrow> did \<Rightarrow> msg_error + nat option" where
  "find_member_index E H group_id member_did =
     and_then (find_group H group_id) (\<lambda>grp.
       Inr (map_option fst (find (\<lambda>(index, credential). credential = as_bytes member_did) (ml_members (mv_lib E) grp))))"

definition list_members :: "('r, 'g, 'm, 'kp, 'q, 't) mls_env \<Rightarrow> ('r, 'g) mls_handler \<Rightarrow> string \<Rightarrow> msg_error + did list" where
  "list_members E H group_id =
     and_then (find_group H group_id) (\<lambda>grp.
       Inr (map (\<lambda>(index, credential). from_utf8_lossy credential) (ml_members (mv_lib E) grp)))"

definition is_member :: "('r, 'g) mls_handler \<Rightarrow> string \<Rightarrow> bool" where
  "is_member H group_id = (map_of (mg_groups H) group_id \<noteq> None)"

definition epoch :: "('r, 'g, 'm, 'kp, 'q, 't) mls_env \<Rightarrow> ('r, 'g) mls_handler \<Rightarrow> string \<Rightarrow> msg_error + nat" where
  "epoch E H group_id = and_then (find_group H group_id) (\<lambda>grp. Inr (ml_epoch (mv_lib E) grp))"

definition group_ids :: "('r, 'g) mls_handler \<Rightarrow> string list" where
  "group_ids H = map fst (mg_groups H)"

subsection \<open>Messages\<close>

definition encrypt_message ::
  "('r, 'g, 'm, 'kp, 'q, 't) mls_env \<Rightarrow> ('r, 'g) mls_handler \<Rightarrow> string \<Rightarrow> bytes \<Rightarrow> ('r, 'g) mls_handler \<times> (msg_error + 'm)" where
  "encrypt_message E H group_id plaintext =
     on_group H group_id (\<lambda>p grp.
       lib_call (\<lambda>e. EEncryption (''MLS encrypt failed: '' @ e))
         (ml_create_message (mv_lib E) p (mg_signature_keypair H) plaintext grp))"

definition apply_processed ::
  "('r, 'g, 'm, 'kp, 'q, 't) mls_env \<Rightarrow> 'r provider \<Rightarrow> 'g \<Rightarrow> bytes \<times> 'q processed_content
     \<Rightarrow> 'r provider \<times> 'g \<times> (msg_error + decrypted_message option)" where
  "apply_processed E p grp processed =
     (case processed of (sender_credential, content) \<Rightarrow>
        (case content of
           ApplicationMessage plaintext \<Rightarrow>
             (p, grp, Inr (Some \<lparr>dy_plaintext = plaintext, dy_sender_credential = sender_credential\<rparr>))
         | ProposalMessage proposal \<Rightarrow>
             then_call (lib_call (\<lambda>e. EMlsGroup (''Failed to store proposal: '' @ e)) (ml_store_proposal (mv_lib E) p proposal grp))
               (\<lambda>p grp _. (p, grp, Inr None))
         | StagedCommitMessage staged_commit \<Rightarrow>
             then_call (lib_call (\<lambda>e. EMlsCommit (''Failed to merge staged commit: '' @ e)) (ml_merge_staged (mv_lib E) p staged_commit grp))
               (\<lambda>p grp _. (p, grp, Inr None))
         | OtherContent \<Rightarrow> (p, grp, Inr None)))"

definition process_message ::
  "('r, 'g, 'm, 'kp, 'q, 't) mls_env \<Rightarrow> ('r, 'g) mls_handler \<Rightarrow> string \<Rightarrow> 'm
     \<Rightarrow> ('r, 'g) mls_handler \<times> (msg_error + decrypted_message option)" where
  "process_message E H group_id message =
     on_group H group_id (\<lambda>p grp.
       case ml_protocol_message (mv_lib E) message of
         Inl e \<Rightarrow> (p, grp, Inl (EDecryption (''Not a protocol message: '' @ e)))
       | Inr protocol_message \<Rightarrow>
           then_call
             (lib_call (\<lambda>e. EDecryption (''MLS process_message failed: '' @ e)) (ml_process (mv_lib E) p protocol_message grp))
             (\<lambda>p grp processed. apply_processed E p grp processed))"

definition join_group_from_welcome ::
  "('r, 'g, 'm, 'kp, 'q, 't) mls_env \<Rightarrow> ('r, 'g) mls_handler \<Rightarrow> 'm \<Rightarrow> ('r, 'g) mls_handler \<times> (msg_error + string)" where
  "join_group_from_welcome E H welcome =
     (case ml_welcome_body (mv_lib E) welcome of
        None \<Rightarrow> (H, Inl (EMlsWelcome ''Message is not a Welcome''))
      | Some welcome_msg \<Rightarrow>
          (case ml_stage_welcome (mv_lib E) (mg_provider H) welcome_msg of
             (p, Inl e) \<Rightarrow> (H\<lparr>mg_provider := p\<rparr>, Inl (EMlsWelcome (''Failed to stage welcome: '' @ e)))
           | (p, Inr staged) \<Rightarrow>
               (case ml_into_group (mv_lib E) p staged of
                  (p, Inl e) \<Rightarrow> (H\<lparr>mg_provider := p\<rparr>, Inl (EMlsWelcome (''Failed to join group from welcome: '' @ e)))
                | (p, Inr grp) \<Rightarrow>
                    (let group_id = from_utf8_lossy (ml_group_id (mv_lib E) grp)
                     in (H\<lparr>mg_provider := p, mg_groups := AList.update group_id grp (mg_groups H)\<rparr>, Inr group_id)))))"

definition leave_group ::
  "('r, 'g, 'm, 'kp, 'q, 't) mls_env \<Rightarrow> ('r, 'g) mls_handler \<Rightarrow> string \<Rightarrow> ('r, 'g) mls_handler \<times> (msg_error + 'm)" where
  "leave_group E H group_id =
     on_group H group_id (\<lambda>p grp.
       lib_call (\<lambda>e. EMlsGroup (''Failed to leave group: '' @ e)) (ml_leave (mv_lib E) p (mg_signature_keypair H) grp))"

definition self_update ::
  "('r, 'g, 'm, 'kp, 'q, 't) mls_env \<Rightarrow> ('r, 'g) mls_handler \<Rightarrow> string \<Rightarrow> ('r, 'g) mls_handler \<times> (msg_error + 'm)" where
  "self_update E H group_id =
     on_group H group_id (\<lambda>p grp.
       then_call
         (lib_call (\<lambda>e. EMlsGroup (''Failed to self-update group: '' @ e)) (ml_self_update (mv_lib E) p (mg_signature_keypair H) grp))
         (\<lambda>p grp commit.
            merge_pending_commit E (\<lambda>e. EMlsGroup (''Failed to merge self-update commit: '' @ e)) p grp commit))"

definition commit_pending_proposals ::
  "('r, 'g, 'm, 'kp, 'q, 't) mls_env \<Rightarrow> ('r, 'g) mls_handler \<Rightarrow> string \<Rightarrow> ('r, 'g) mls_handler \<times> (msg_error + 'm option)" where
  "commit_pending_proposals E H group_id =
     on_group H group_id (\<lambda>p grp.
       if ml_pending_proposals (mv_lib E) grp = [] then (p, grp, Inr None)
       else then_call
         (lib_call (\<lambda>e. EMlsCommit (''Failed to commit pending proposals: '' @ e))
            (ml_commit_proposals (mv_lib E) p (mg_signature_keypair H) grp))
         (\<lambda>p grp (commit, _, _).
            merge_pending_commit E (\<lambda>e. EMlsCommit (''Failed to merge pending commit after proposal commit: '' @ e)) p grp
              (Some commit)))"

definition remove_group :: "('r, 'g, 'm, 'kp, 'q, 't) mls_env \<Rightarrow> ('r, 'g) mls_handler \<Rightarrow> string \<Rightarrow> ('r, 'g) mls_handler" where
  "remove_group E H group_id =
     (case map_of (mg_groups H) group_id of
        None \<Rightarrow> H
      | Some grp \<Rightarrow>
          H\<lparr>mg_groups := AList.delete group_id (mg_groups H),
            mg_provider := (mg_provider H)\<lparr>mp_values := fst (ml_delete (mv_lib E) (mp_values (mg_provider H)) grp)\<rparr>\<rparr>)"

definition serialize_message :: "('r, 'g, 'm, 'kp, 'q, 't) mls_env \<Rightarrow> 'm \<Rightarrow> msg_error + bytes" where
  "serialize_message E message =
     map_err (\<lambda>e. EEncryption (''Failed to serialize MLS message: '' @ e)) (ml_serialize (mv_lib E) message)"

definition serialize_message_bytes :: "('r, 'g, 'm, 'kp, 'q, 't) mls_env \<Rightarrow> 'kp \<Rightarrow> msg_error + bytes" where
  "serialize_message_bytes E value =
     map_err (\<lambda>e. EEncryption (''Failed to TLS-serialize: '' @ e)) (ml_serialize_key_package (mv_lib E) value)"

definition deserialize_message :: "('r, 'g, 'm, 'kp, 'q, 't) mls_env \<Rightarrow> bytes \<Rightarrow> msg_error + 'm" where
  "deserialize_message E bs =
     map_err (\<lambda>e. EDecryption (''Failed to deserialize MLS message: '' @ e)) (ml_deserialize (mv_lib E) bs)"

definition deserialize_key_package :: "('r, 'g, 'm, 'kp, 'q, 't) mls_env \<Rightarrow> bytes \<Rightarrow> msg_error + 'kp" where
  "deserialize_key_package E bs =
     map_err (\<lambda>e. EDecryption (''Failed to deserialize KeyPackage: '' @ e)) (ml_deserialize_key_package (mv_lib E) bs)"

definition validate_key_package :: "('r, 'g, 'm, 'kp, 'q, 't) mls_env \<Rightarrow> 'kp \<Rightarrow> msg_error + 'kp" where
  "validate_key_package E kp_in =
     map_err (\<lambda>e. EMlsKeyPackage (''KeyPackage validation failed: '' @ e)) (ml_validate (mv_lib E) kp_in)"

subsection \<open>Desync detection\<close>

definition record_processing_success :: "('r, 'g) mls_handler \<Rightarrow> string \<Rightarrow> ('r, 'g) mls_handler" where
  "record_processing_success H group_id =
     (case mg_desync_counters H group_id of
        None \<Rightarrow> H
      | Some counter \<Rightarrow>
          H\<lparr>mg_desync_counters := (mg_desync_counters H)(group_id \<mapsto> counter\<lparr>dc_consecutive_failures := 0\<rparr>)\<rparr>)"

definition record_processing_failure ::
  "('r, 'g, 'm, 'kp, 'q, 't) mls_env \<Rightarrow> ('r, 'g) mls_handler \<Rightarrow> string \<Rightarrow> ('r, 'g) mls_handler \<times> desync_info option" where
  "record_processing_failure E H group_id =
     (let counter = (case mg_desync_counters H group_id of None \<Rightarrow> desync_counter_new | Some c \<Rightarrow> c);
          new_count = add_u32 (dc_consecutive_failures counter) 1;
          crossed = (new_count \<ge> desync_threshold \<and> \<not> dc_flagged counter)
      in (H\<lparr>mg_desync_counters := (mg_desync_counters H)(group_id \<mapsto>
              \<lparr>dc_consecutive_failures = new_count, dc_flagged = (dc_flagged counter \<or> crossed)\<rparr>)\<rparr>,
          if crossed
          then Some \<lparr>di_group_id = group_id, di_failed_count = new_count,
                 di_local_epoch = (case epoch E H group_id of Inl _ \<Rightarrow> 0 | Inr n \<Rightarrow> n)\<rparr>
          else None))"

definition is_desynced :: "('r, 'g) mls_handler \<Rightarrow> string \<Rightarrow> bool" where
  "is_desynced H group_id = (case mg_desync_counters H group_id of None \<Rightarrow> False | Some c \<Rightarrow> dc_flagged c)"

definition clear_desync :: "('r, 'g) mls_handler \<Rightarrow> string \<Rightarrow> ('r, 'g) mls_handler" where
  "clear_desync H group_id =
     (case mg_desync_counters H group_id of
        None \<Rightarrow> H
      | Some counter \<Rightarrow> H\<lparr>mg_desync_counters := (mg_desync_counters H)(group_id \<mapsto> desync_counter_new)\<rparr>)"

definition failure_count :: "('r, 'g) mls_handler \<Rightarrow> string \<Rightarrow> nat" where
  "failure_count H group_id = (case mg_desync_counters H group_id of None \<Rightarrow> 0 | Some c \<Rightarrow> dc_consecutive_failures c)"

subsection \<open>Recovery\<close>

fun readd_members ::
  "('r, 'g, 'm, 'kp, 'q, 't) mls_env \<Rightarrow> string \<Rightarrow> (did \<rightharpoonup> 'kp) \<Rightarrow> did list \<Rightarrow> (did \<times> 'm) list \<times> did list
     \<Rightarrow> ('r, 'g) mls_handler \<Rightarrow> ('r, 'g) mls_handler \<times> (did \<times> 'm) list \<times> did list" where
  "readd_members E new_group_id key_packages [] (welcomes, added) H = (H, welcomes, added)"
| "readd_members E new_group_id key_packages (member_did # dids) (welcomes, added) H =
     (if member_did = mg_local_did H then readd_members E new_group_id key_packages dids (welcomes, added) H
      else case key_packages member_did of
          None \<Rightarrow> readd_members E new_group_id key_packages dids (welcomes, added) H
        | Some kp \<Rightarrow>
            (case add_member E H new_group_id kp of
               (H, Inl _) \<Rightarrow> readd_members E new_group_id key_packages dids (welcomes, added) H
             | (H, Inr result) \<Rightarrow>
                 readd_members E new_group_id key_packages dids
                   (welcomes @ [(member_did, ad_welcome result)], added @ [member_did]) H))"

definition reinitialize_group ::
  "('r, 'g, 'm, 'kp, 'q, 't) mls_env \<Rightarrow> ('r, 'g) mls_handler \<Rightarrow> string \<Rightarrow> (did \<rightharpoonup> 'kp)
     \<Rightarrow> ('r, 'g) mls_handler \<times> (msg_error + 'm reinit_result)" where
  "reinitialize_group E H group_id key_packages =
     (let old_epoch = (case epoch E H group_id of Inl _ \<Rightarrow> 0 | Inr n \<Rightarrow> n);
          old_members = (case list_members E H group_id of Inl _ \<Rightarrow> [] | Inr dids \<Rightarrow> dids);
          H = clear_desync (remove_group E H group_id) group_id;
          new_group_id = group_id @ ''-reinit-'' @ dec_digits old_epoch
      in case create_group E H new_group_id of
           (H, Inl e) \<Rightarrow> (H, Inl e)
         | (H, Inr _) \<Rightarrow>
             (let (H, welcomes, added) = readd_members E new_group_id key_packages old_members ([], [mg_local_did H]) H
              in (H, Inr \<lparr>ri_new_group_id = new_group_id, ri_welcomes = welcomes, ri_members = added\<rparr>)))"

subsection \<open>Plaintext at rest\<close>

definition persist_group_plaintext ::
  "('r, 'g, 'm, 'kp, 'q, 't) mls_env \<Rightarrow> ('r, 'g) mls_handler \<Rightarrow> 't message_db \<Rightarrow> bytes \<Rightarrow> string \<Rightarrow> message_content
     \<Rightarrow> 't message_db \<times> (msg_error + unit)" where
  "persist_group_plaintext E H storage nonce message_id content =
     (case mv_seal E (mg_storage_key H) nonce (cd_encode (mv_content E) content) of
        None \<Rightarrow> (storage, Inl (EEncryption ''At-rest encryption of group plaintext failed''))
      | Some ciphertext \<Rightarrow> (store_group_plaintext (mv_store E) storage message_id (nonce @ ciphertext), Inr ()))"

definition load_group_plaintext ::
  "('r, 'g, 'm, 'kp, 'q, 't) mls_env \<Rightarrow> ('r, 'g) mls_handler \<Rightarrow> 't message_db \<Rightarrow> string
     \<Rightarrow> msg_error + message_content option" where
  "load_group_plaintext E H storage message_id =
     (case fetch_group_plaintext (mv_store E) storage message_id of
        None \<Rightarrow> Inr None
      | Some blob \<Rightarrow>
          if length blob < 12 then Inl (EDecryption ''Stored group plaintext blob is too short'')
          else case mv_open E (mg_storage_key H) (take 12 blob) (drop 12 blob) of
              None \<Rightarrow> Inl (EDecryption ''At-rest decryption of group plaintext failed'')
            | Some plaintext \<Rightarrow>
                (case cd_decode (mv_content E) plaintext of None \<Rightarrow> Inl EProtocol | Some content \<Rightarrow> Inr (Some content)))"

subsection \<open>Snapshots\<close>

definition export_state :: "('r, 'g, 'm, 'kp, 'q, 't) mls_env \<Rightarrow> ('r, 'g) mls_handler \<Rightarrow> bytes" where
  "export_state E H =
     cd_encode (mv_snapshot E)
       \<lparr>ms_group_ids = group_ids H,
        ms_storage_entries = map (\<lambda>(k, v). (hex_encode k, hex_encode v)) (mp_values (mg_provider H))\<rparr>"

fun decode_entries :: "(string \<times> string) list \<Rightarrow> (bytes \<times> bytes) list \<Rightarrow> msg_error + (bytes \<times> bytes) list" where
  "decode_entries [] restored_map = Inr restored_map"
| "decode_entries ((k_hex, v_hex) # es) restored_map =
     (case hex_decode k_hex of
        None \<Rightarrow> Inl (EMlsGroup ''Corrupted MLS snapshot: bad hex key'')
      | Some k \<Rightarrow>
          (case hex_decode v_hex of
             None \<Rightarrow> Inl (EMlsGroup ''Corrupted MLS snapshot: bad hex value'')
           | Some v \<Rightarrow> decode_entries es (AList.update k v restored_map)))"

fun reload_groups ::
  "('r, 'g, 'm, 'kp, 'q, 't) mls_env \<Rightarrow> (bytes \<times> bytes) list \<Rightarrow> string list \<Rightarrow> (string \<times> 'g) list \<Rightarrow> nat
     \<Rightarrow> (string \<times> 'g) list \<times> nat" where
  "reload_groups E values [] groups restored = (groups, restored)"
| "reload_groups E values (group_id # gs) groups restored =
     (case ml_load (mv_lib E) values (as_bytes group_id) of
        Inr (Some grp) \<Rightarrow> reload_groups E values gs (AList.update group_id grp groups) (restored + 1)
      | _ \<Rightarrow> reload_groups E values gs groups restored)"

definition restore_in_place ::
  "('r, 'g, 'm, 'kp, 'q, 't) mls_env \<Rightarrow> ('r, 'g) mls_handler \<Rightarrow> bytes \<Rightarrow> ('r, 'g) mls_handler \<times> (msg_error + nat)" where
  "restore_in_place E H state_bytes =
     (case cd_decode (mv_snapshot E) state_bytes of
        None \<Rightarrow> (H, Inl (EMlsGroup ''Failed to deserialize MLS state snapshot''))
      | Some snapshot \<Rightarrow>
          (case decode_entries (ms_storage_entries snapshot) [] of
             Inl e \<Rightarrow> (H, Inl e)
           | Inr restored_map \<Rightarrow>
               (case ml_store_keypair (mv_lib E) (mg_signature_keypair H) restored_map of
                  (values, Inl e) \<Rightarrow>
                    (H\<lparr>mg_provider := (mg_provider H)\<lparr>mp_values := values\<rparr>\<rparr>,
                     Inl (EMlsKeyPackage (''Failed to re-store signature keypair after restore: '' @ e)))
                | (values, Inr _) \<Rightarrow>
                    (let (groups, restored) = reload_groups E values (ms_group_ids snapshot) (mg_groups H) 0
                     in (H\<lparr>mg_provider := (mg_provider H)\<lparr>mp_values := values\<rparr>, mg_groups := groups\<rparr>, Inr restored)))))"

end
