(* ===== verification/Mls_Invites.thy ===== *)
theory Mls_Invites
  imports Mls_Groups
begin

section \<open>MLS groups: invitations in flight, desync, recovery\<close>

text \<open>
  The lemmas on \<open>Mls_Groups\<close>. \<open>commits_ok\<close> states what openmls documents of commits: an
  accepted \<open>add_members\<close> leaves the group with a pending commit and otherwise as it was;
  merging it adds the member and moves to the next epoch, clearing it undoes it. The
  deferred invitation of one group then refines the machine \<open>invite_step\<close>. The desync
  counters are equivalent to a reading of the history of events.
\<close>

subsection \<open>The contract of commits\<close>

definition credentials :: "('r, 'g, 'm, 'kp, 'q) openmls \<Rightarrow> 'g \<Rightarrow> bytes set" where
  "credentials X g = set (map snd (ml_members X g))"

definition same_view :: "('r, 'g, 'm, 'kp, 'q) openmls \<Rightarrow> 'g \<Rightarrow> 'g \<Rightarrow> bool" where
  "same_view X g g' \<longleftrightarrow> credentials X g' = credentials X g \<and> ml_epoch X g' = ml_epoch X g"

text \<open>A group with a commit in flight that would add \<open>c\<close>.\<close>

definition awaits :: "('r, 'g, 'm, 'kp, 'q) openmls \<Rightarrow> bytes \<Rightarrow> 'g \<Rightarrow> bool" where
  "awaits X c g \<longleftrightarrow> ml_pending_commit X g \<and>
     (\<forall>p. \<exists>p' g'. ml_merge_pending X p g = (p', g', Inr ()) \<and> \<not> ml_pending_commit X g' \<and>
        credentials X g' = insert c (credentials X g) \<and> ml_epoch X g' = ml_epoch X g + 1) \<and>
     (\<forall>p. \<exists>p' g'. ml_clear_pending X p g = (p', g', Inr ()) \<and> \<not> ml_pending_commit X g' \<and> same_view X g g')"

definition commits_ok :: "('r, 'g, 'm, 'kp, 'q) openmls \<Rightarrow> ('kp \<Rightarrow> bytes) \<Rightarrow> bool" where
  "commits_ok X identity \<longleftrightarrow>
     (\<forall>p key kp g p' g' r. ml_add_members X p key kp g = (p', g', r) \<longrightarrow> \<not> ml_pending_commit X g \<longrightarrow>
        same_view X g g' \<and> (case r of Inl _ \<Rightarrow> \<not> ml_pending_commit X g' | Inr _ \<Rightarrow> awaits X (identity kp) g')) \<and>
     (\<forall>p key i c p' g. ml_new_group X p key i c = (p', Inr g) \<longrightarrow>
        \<not> ml_pending_commit X g \<and> credentials X g = {fst c} \<and> ml_epoch X g = 0)"

lemma commits_ok_add:
  assumes "commits_ok X identity" and "\<not> ml_pending_commit X g" and "ml_add_members X p key kp g = (p', g', r)"
  shows "same_view X g g'" and "r = Inl e \<Longrightarrow> \<not> ml_pending_commit X g'" and "r = Inr x \<Longrightarrow> awaits X (identity kp) g'"
proof -
  have "same_view X g g' \<and> (case r of Inl _ \<Rightarrow> \<not> ml_pending_commit X g' | Inr _ \<Rightarrow> awaits X (identity kp) g')"
    using assms unfolding commits_ok_def by blast
  then show "same_view X g g'" and "r = Inl e \<Longrightarrow> \<not> ml_pending_commit X g'" and "r = Inr x \<Longrightarrow> awaits X (identity kp) g'"
    by simp_all
qed

lemma commits_ok_new:
  "commits_ok X identity \<Longrightarrow> ml_new_group X p key i c = (p', Inr g) \<Longrightarrow>
     \<not> ml_pending_commit X g \<and> credentials X g = {fst c} \<and> ml_epoch X g = 0"
  unfolding commits_ok_def by blast

lemma awaits_merge:
  assumes "awaits X c g"
  obtains p' g' where "ml_merge_pending X p g = (p', g', Inr ())" and "\<not> ml_pending_commit X g'"
    and "credentials X g' = insert c (credentials X g)" and "ml_epoch X g' = ml_epoch X g + 1"
  using assms unfolding awaits_def by blast

lemma awaits_clear:
  assumes "awaits X c g"
  obtains p' g' where "ml_clear_pending X p g = (p', g', Inr ())" and "\<not> ml_pending_commit X g'" and "same_view X g g'"
  using assms unfolding awaits_def by blast

subsection \<open>Calls on a group\<close>

lemma on_group_known:
  "map_of (mg_groups H) i = Some g \<Longrightarrow> f (mg_provider H) g = (p', g', r) \<Longrightarrow>
     on_group H i f = (H\<lparr>mg_provider := p', mg_groups := AList.update i g' (mg_groups H)\<rparr>, r)"
  by (simp add: on_group_def find_group_def)

lemma on_group_unknown: "map_of (mg_groups H) i = None \<Longrightarrow> on_group H i f = (H, Inl (EGroupNotFound i))"
  by (simp add: on_group_def find_group_def)

lemma on_group_fields [simp]:
  "mg_local_did (fst (on_group H i f)) = mg_local_did H"
  "mg_signature_keypair (fst (on_group H i f)) = mg_signature_keypair H"
  "mg_credential_with_key (fst (on_group H i f)) = mg_credential_with_key H"
  "mg_storage_key (fst (on_group H i f)) = mg_storage_key H"
  "mg_desync_counters (fst (on_group H i f)) = mg_desync_counters H"
  by (simp_all add: on_group_def split: sum.split prod.split)

lemma on_group_other: "j \<noteq> i \<Longrightarrow> map_of (mg_groups (fst (on_group H i f))) j = map_of (mg_groups H) j"
  by (simp add: on_group_def update_conv' split: sum.split prod.split)

lemma on_group_frame: "on_group H i f = (H', r) \<Longrightarrow> j \<noteq> i \<Longrightarrow> map_of (mg_groups H') j = map_of (mg_groups H) j"
  by (metis on_group_other fst_conv)

lemma on_group_frame_map:
  "map_prod id h (on_group H i f) = (H', r) \<Longrightarrow> j \<noteq> i \<Longrightarrow> map_of (mg_groups H') j = map_of (mg_groups H) j"
  by (cases "on_group H i f") (auto dest: on_group_frame)

lemma lib_call_simps [simp]: "lib_call err (p, g, r) = (p, g, map_err err r)"
  by (simp add: lib_call_def)

lemma then_call_simps [simp]:
  "then_call (p, g, Inl e) f = (p, g, Inl e)" "then_call (p, g, Inr a) f = f p g a"
  by (simp_all add: then_call_def)

subsection \<open>The machine of deferred invitations\<close>

record invite_state =
  iv_pending :: "bytes option"
  iv_members :: "bytes set"
  iv_epoch :: nat

datatype 'kp invite_op = Invite 'kp | ConfirmInvite | CancelInvite

inductive invite_step :: "('kp \<Rightarrow> bytes) \<Rightarrow> string \<Rightarrow> invite_state \<Rightarrow> 'kp invite_op \<Rightarrow> msg_error option \<Rightarrow> invite_state \<Rightarrow> bool"
  for identity :: "'kp \<Rightarrow> bytes" and group_id :: string where
  invited: "iv_pending a = None \<Longrightarrow>
    invite_step identity group_id a (Invite kp) None (a\<lparr>iv_pending := Some (identity kp)\<rparr>)"
| rejected: "iv_pending a = None \<Longrightarrow> invite_step identity group_id a (Invite kp) (Some (EMlsCommit e)) a"
| busy: "iv_pending a \<noteq> None \<Longrightarrow> invite_step identity group_id a (Invite kp) (Some EMlsPendingCommit) a"
| confirmed: "iv_pending a = Some c \<Longrightarrow>
    invite_step identity group_id a ConfirmInvite None
      \<lparr>iv_pending = None, iv_members = insert c (iv_members a), iv_epoch = iv_epoch a + 1\<rparr>"
| cancelled: "iv_pending a \<noteq> None \<Longrightarrow> invite_step identity group_id a CancelInvite None (a\<lparr>iv_pending := None\<rparr>)"
| nothing_to_confirm: "iv_pending a = None \<Longrightarrow>
    invite_step identity group_id a ConfirmInvite (Some (EMlsNoPendingCommit group_id)) a"
| nothing_to_cancel: "iv_pending a = None \<Longrightarrow>
    invite_step identity group_id a CancelInvite (Some (EMlsNoPendingCommit group_id)) a"

inductive invite_steps ::
  "('kp \<Rightarrow> bytes) \<Rightarrow> string \<Rightarrow> invite_state \<Rightarrow> 'kp invite_op list \<Rightarrow> msg_error option list \<Rightarrow> invite_state \<Rightarrow> bool"
  for identity :: "'kp \<Rightarrow> bytes" and group_id :: string where
  no_ops: "invite_steps identity group_id a [] [] a"
| next_op: "invite_step identity group_id a op r b \<Longrightarrow> invite_steps identity group_id b ops rs c \<Longrightarrow>
    invite_steps identity group_id a (op # ops) (r # rs) c"

fun error_of :: "'e + 'a \<Rightarrow> 'e option" where
  "error_of (Inl e) = Some e"
| "error_of (Inr _) = None"

fun invite_exec ::
  "('r, 'g, 'm, 'kp, 'q, 't) mls_env \<Rightarrow> string \<Rightarrow> ('r, 'g) mls_handler \<Rightarrow> 'kp invite_op \<Rightarrow> ('r, 'g) mls_handler \<times> msg_error option" where
  "invite_exec E group_id H (Invite kp) = map_prod id error_of (add_member_deferred E H group_id kp)"
| "invite_exec E group_id H ConfirmInvite = map_prod id error_of (confirm_add_member E H group_id)"
| "invite_exec E group_id H CancelInvite = map_prod id error_of (cancel_add_member E H group_id)"

fun invite_run ::
  "('r, 'g, 'm, 'kp, 'q, 't) mls_env \<Rightarrow> string \<Rightarrow> ('r, 'g) mls_handler \<Rightarrow> 'kp invite_op list
     \<Rightarrow> ('r, 'g) mls_handler \<times> msg_error option list" where
  "invite_run E group_id H [] = (H, [])"
| "invite_run E group_id H (op # ops) =
     (let (H1, r) = invite_exec E group_id H op; (H2, rs) = invite_run E group_id H1 ops in (H2, r # rs))"

text \<open>The group a handler holds, seen as a state of the machine.\<close>

definition invite_rel :: "('r, 'g, 'm, 'kp, 'q, 't) mls_env \<Rightarrow> string \<Rightarrow> ('r, 'g) mls_handler \<Rightarrow> invite_state \<Rightarrow> bool" where
  "invite_rel E group_id H a \<longleftrightarrow>
     (\<exists>g. map_of (mg_groups H) group_id = Some g \<and> credentials (mv_lib E) g = iv_members a \<and>
        ml_epoch (mv_lib E) g = iv_epoch a \<and>
        (case iv_pending a of None \<Rightarrow> \<not> ml_pending_commit (mv_lib E) g | Some c \<Rightarrow> awaits (mv_lib E) c g))"

lemma invite_exec_refines:
  assumes X: "commits_ok (mv_lib E) identity" and R: "invite_rel E i H a" and e: "invite_exec E i H op = (H', r)"
  shows "(\<exists>b. invite_step identity i a op r b \<and> invite_rel E i H' b) \<and>
    (\<forall>j. j \<noteq> i \<longrightarrow> map_of (mg_groups H') j = map_of (mg_groups H) j)"
proof
  let ?X = "mv_lib E" and ?p = "mg_provider H"
  obtain g where g: "map_of (mg_groups H) i = Some g" and c: "credentials ?X g = iv_members a" and n: "ml_epoch ?X g = iv_epoch a"
    and pend: "case iv_pending a of None \<Rightarrow> \<not> ml_pending_commit ?X g | Some c \<Rightarrow> awaits ?X c g"
    using R unfolding invite_rel_def by blast
  show "\<forall>j. j \<noteq> i \<longrightarrow> map_of (mg_groups H') j = map_of (mg_groups H) j"
    using e by (cases op)
      (auto simp: add_member_deferred_def confirm_add_member_def cancel_add_member_def dest: on_group_frame_map)
  have into: "invite_rel E i (H\<lparr>mg_provider := p', mg_groups := AList.update i g' (mg_groups H)\<rparr>) b"
    if "credentials ?X g' = iv_members b" "ml_epoch ?X g' = iv_epoch b"
      "case iv_pending b of None \<Rightarrow> \<not> ml_pending_commit ?X g' | Some c \<Rightarrow> awaits ?X c g'" for p' g' b
    using that by (simp add: invite_rel_def update_conv')
  have same: "invite_rel E i (H\<lparr>mg_groups := AList.update i g (mg_groups H)\<rparr>) a"
    using c n pend by (simp add: invite_rel_def update_conv')
  show "\<exists>b. invite_step identity i a op r b \<and> invite_rel E i H' b"
  proof (cases "iv_pending a")
    case None
    then have np: "\<not> ml_pending_commit ?X g" using pend by simp
    show ?thesis
    proof (cases op)
      case (Invite kp)
      obtain p' g' x where add: "ml_add_members ?X ?p (mg_signature_keypair H) kp g = (p', g', x)"
        by (metis prod_cases3)
      note ok = commits_ok_add [OF X np add]
      show ?thesis
      proof (cases x)
        case (Inl err)
        have "add_member_deferred E H i kp
            = (H\<lparr>mg_provider := p', mg_groups := AList.update i g' (mg_groups H)\<rparr>,
               Inl (EMlsCommit (''Failed to add member (deferred): '' @ err)))"
          unfolding add_member_deferred_def by (rule on_group_known [OF g]) (simp add: np add Inl)
        with e Invite have h: "H' = H\<lparr>mg_provider := p', mg_groups := AList.update i g' (mg_groups H)\<rparr>"
            "r = Some (EMlsCommit (''Failed to add member (deferred): '' @ err))" by simp_all
        have "invite_rel E i H' a"
          unfolding h by (rule into) (use ok(1) ok(2) [OF Inl] c n None in \<open>simp_all add: same_view_def\<close>)
        then show ?thesis
          unfolding h Invite by (blast intro: rejected None)
      next
        case (Inr y)
        obtain cm wl inf where y: "y = (cm, wl, inf)" by (metis prod_cases3)
        have "add_member_deferred E H i kp
            = (H\<lparr>mg_provider := p', mg_groups := AList.update i g' (mg_groups H)\<rparr>,
               Inr \<lparr>ad_commit = cm, ad_welcome = wl, ad_group_info = inf\<rparr>)"
          unfolding add_member_deferred_def by (rule on_group_known [OF g]) (simp add: np add Inr y)
        with e Invite have h: "H' = H\<lparr>mg_provider := p', mg_groups := AList.update i g' (mg_groups H)\<rparr>" "r = None"
          by simp_all
        have "invite_rel E i H' (a\<lparr>iv_pending := Some (identity kp)\<rparr>)"
          unfolding h by (rule into) (use ok(1) ok(3) [OF Inr] c n in \<open>simp_all add: same_view_def\<close>)
        then show ?thesis
          unfolding h Invite by (blast intro: invited None)
      qed
    qed (use e None np g c n in \<open>auto simp: confirm_add_member_def cancel_add_member_def on_group_known [OF g]
        intro!: exI [where x = a] same nothing_to_confirm nothing_to_cancel\<close>)
  next
    case (Some cr)
    then have aw: "awaits ?X cr g" and pc: "ml_pending_commit ?X g" using pend by (simp_all add: awaits_def)
    show ?thesis
    proof (cases op)
      case (Invite kp)
      have "add_member_deferred E H i kp = (H\<lparr>mg_provider := ?p, mg_groups := AList.update i g (mg_groups H)\<rparr>, Inl EMlsPendingCommit)"
        unfolding add_member_deferred_def by (rule on_group_known [OF g]) (simp add: pc)
      with e Invite have h: "H' = H\<lparr>mg_provider := ?p, mg_groups := AList.update i g (mg_groups H)\<rparr>" "r = Some EMlsPendingCommit"
        by simp_all
      have "invite_rel E i H' a" unfolding h by (rule into) (use c n Some aw in simp_all)
      then show ?thesis unfolding h Invite using Some by (blast intro: busy)
    next
      case ConfirmInvite
      obtain p' g' where mg: "ml_merge_pending ?X ?p g = (p', g', Inr ())" "\<not> ml_pending_commit ?X g'"
          "credentials ?X g' = insert cr (credentials ?X g)" "ml_epoch ?X g' = ml_epoch ?X g + 1"
        by (rule awaits_merge [OF aw])
      have "confirm_add_member E H i = (H\<lparr>mg_provider := p', mg_groups := AList.update i g' (mg_groups H)\<rparr>, Inr ())"
        unfolding confirm_add_member_def by (rule on_group_known [OF g]) (simp add: pc merge_pending_commit_def mg)
      with e ConfirmInvite have h: "H' = H\<lparr>mg_provider := p', mg_groups := AList.update i g' (mg_groups H)\<rparr>" "r = None"
        by simp_all
      have "invite_rel E i H' \<lparr>iv_pending = None, iv_members = insert cr (iv_members a), iv_epoch = iv_epoch a + 1\<rparr>"
        unfolding h by (rule into) (use c n mg in simp_all)
      then show ?thesis unfolding h ConfirmInvite by (blast intro: confirmed Some)
    next
      case CancelInvite
      obtain p' g' where cl: "ml_clear_pending ?X ?p g = (p', g', Inr ())" "\<not> ml_pending_commit ?X g'" "same_view ?X g g'"
        by (rule awaits_clear [OF aw])
      have "cancel_add_member E H i = (H\<lparr>mg_provider := p', mg_groups := AList.update i g' (mg_groups H)\<rparr>, Inr ())"
        unfolding cancel_add_member_def by (rule on_group_known [OF g]) (simp add: pc cl)
      with e CancelInvite have h: "H' = H\<lparr>mg_provider := p', mg_groups := AList.update i g' (mg_groups H)\<rparr>" "r = None"
        by simp_all
      have "invite_rel E i H' (a\<lparr>iv_pending := None\<rparr>)"
        unfolding h by (rule into) (use c n cl in \<open>simp_all add: same_view_def\<close>)
      then show ?thesis unfolding h CancelInvite using Some by (blast intro: cancelled)
    qed
  qed
qed


text \<open>A library that satisfies the contracts: it writes the whole group under its id after each change.\<close>

type_synonym ledger = "bytes \<times> (nat \<times> bytes) list \<times> nat \<times> bytes option"

definition ledger_save :: "unit provider \<Rightarrow> ledger \<Rightarrow> unit provider" where
  "ledger_save p g = p\<lparr>mp_values := AList.update (fst g) (cd_encode unary_codec g) (mp_values p)\<rparr>"

fun ledger_add :: "unit provider \<Rightarrow> keypair \<Rightarrow> bytes \<Rightarrow> ledger \<Rightarrow> unit provider \<times> ledger \<times> (string + ledger \<times> ledger \<times> ledger option)" where
  "ledger_add p key kp (i, ms, n, Some c) = (p, (i, ms, n, Some c), Inl ''pending commit'')"
| "ledger_add p key kp (i, ms, n, None) =
     (let g = (i, ms, n, Some kp) in (ledger_save p g, g, Inr (g, g, None)))"

fun ledger_merge :: "unit provider \<Rightarrow> ledger \<Rightarrow> unit provider \<times> ledger \<times> (string + unit)" where
  "ledger_merge p (i, ms, n, Some c) =
     (let g = (i, ms @ [(length ms, c)], n + 1, None) in (ledger_save p g, g, Inr ()))"
| "ledger_merge p (i, ms, n, None) = (p, (i, ms, n, None), Inr ())"

fun ledger_clear :: "unit provider \<Rightarrow> ledger \<Rightarrow> unit provider \<times> ledger \<times> (string + unit)" where
  "ledger_clear p (i, ms, n, c) = (let g = (i, ms, n, None) in (ledger_save p g, g, Inr ()))"

definition ledger_mls :: "(unit, ledger, ledger, bytes, ledger) openmls" where
  "ledger_mls =
     \<lparr>ml_store_keypair = (\<lambda>_ vs. (vs, Inr ())),
      ml_key_package = (\<lambda>p _ c. (p, Inr (fst c))),
      ml_new_group = (\<lambda>p _ i c. let g = (i, [(0, fst c)], 0, None) in (ledger_save p g, Inr g)),
      ml_add_members = ledger_add,
      ml_remove_members = (\<lambda>p _ _ g. (p, g, Inl ''refused'')),
      ml_merge_pending = ledger_merge,
      ml_clear_pending = ledger_clear,
      ml_pending_commit = (\<lambda>g. snd (snd (snd g)) \<noteq> None),
      ml_members = (\<lambda>g. fst (snd g)),
      ml_create_message = (\<lambda>p _ _ g. (p, g, Inr g)),
      ml_protocol_message = Inr,
      ml_process = (\<lambda>p m g. (p, g, Inr ([], OtherContent))),
      ml_store_proposal = (\<lambda>p _ g. (p, g, Inr ())),
      ml_merge_staged = (\<lambda>p _ g. (p, g, Inr ())),
      ml_welcome_body = Some,
      ml_stage_welcome = (\<lambda>p w. (p, Inr w)),
      ml_into_group = (\<lambda>p w. (ledger_save p w, Inr w)),
      ml_group_id = fst,
      ml_epoch = (\<lambda>g. fst (snd (snd g))),
      ml_leave = (\<lambda>p _ g. (p, g, Inr g)),
      ml_self_update = (\<lambda>p _ g. (p, g, Inr g)),
      ml_pending_proposals = (\<lambda>_. []),
      ml_commit_proposals = (\<lambda>p _ g. (p, g, Inl ''no proposals'')),
      ml_delete = (\<lambda>vs g. (AList.delete (fst g) vs, Inr ())),
      ml_load = (\<lambda>vs i. Inr (Option.bind (map_of vs i) (cd_decode unary_codec))),
      ml_serialize = (\<lambda>m. Inr (cd_encode unary_codec m)),
      ml_serialize_key_package = Inr,
      ml_deserialize = (\<lambda>bs. case cd_decode unary_codec bs of None \<Rightarrow> Inl ''bad'' | Some m \<Rightarrow> Inr m),
      ml_deserialize_key_package = Inr,
      ml_validate = Inr\<rparr>"

instance mls_snapshot_ext :: (countable) countable
  by (rule countable_classI [of "\<lambda>r. to_nat (ms_group_ids r, ms_storage_entries r, mls_snapshot.more r)"]) simp

definition ledger_env :: "(unit, ledger, ledger, bytes, ledger, (string, bytes) rbt) mls_env" where
  "ledger_env =
     \<lparr>mv_lib = ledger_mls, mv_public_key = id, mv_hkdf = (\<lambda>key _. key), mv_seal = (\<lambda>_ _ p. Some p), mv_open = (\<lambda>_ _ c. Some c),
      mv_content = unary_codec, mv_snapshot = unary_codec, mv_store = rbt_env\<rparr>"

lemma ledger_awaits: "awaits ledger_mls c (i, ms, n, Some c)"
  by (simp add: awaits_def ledger_mls_def same_view_def credentials_def Let_def)

lemma ledger_commits_ok: "commits_ok ledger_mls id"
proof -
  have f: "ml_add_members ledger_mls = ledger_add" "ml_pending_commit ledger_mls = (\<lambda>g. snd (snd (snd g)) \<noteq> None)"
      "ml_members ledger_mls = (\<lambda>g. fst (snd g))" "ml_epoch ledger_mls = (\<lambda>g. fst (snd (snd g)))"
      "ml_new_group ledger_mls = (\<lambda>p _ i c. let g = (i, [(0, fst c)], 0, None) in (ledger_save p g, Inr g))"
    by (simp_all add: ledger_mls_def)
  have "same_view ledger_mls (i, ms, n, None) g' \<and>
      (case r of Inl _ \<Rightarrow> \<not> ml_pending_commit ledger_mls g' | Inr _ \<Rightarrow> awaits ledger_mls (id kp) g')"
    if "ledger_add p key kp (i, ms, n, None) = (p', g', r)" for p key kp i ms n p' g' r
    using that by (auto simp: Let_def same_view_def credentials_def f ledger_awaits)
  then show ?thesis
    unfolding commits_ok_def f by (auto simp: Let_def credentials_def f)
qed




subsection \<open>Desync counters\<close>

datatype mls_event = Processed string | ProcessingFailed string | DesyncCleared string

text \<open>The reference: the history of events, the latest first.\<close>

fun failures_since :: "string \<Rightarrow> mls_event list \<Rightarrow> nat" where
  "failures_since i [] = 0"
| "failures_since i (Processed j # es) = (if j = i then 0 else failures_since i es)"
| "failures_since i (ProcessingFailed j # es) = (if j = i then Suc (failures_since i es) else failures_since i es)"
| "failures_since i (DesyncCleared j # es) = (if j = i then 0 else failures_since i es)"

fun lost_sync :: "string \<Rightarrow> mls_event list \<Rightarrow> bool" where
  "lost_sync i [] = False"
| "lost_sync i (Processed j # es) = lost_sync i es"
| "lost_sync i (ProcessingFailed j # es) = (lost_sync i es \<or> j = i \<and> failures_since i es \<ge> 2)"
| "lost_sync i (DesyncCleared j # es) = (j \<noteq> i \<and> lost_sync i es)"

fun mls_event_exec ::
  "('r, 'g, 'm, 'kp, 'q, 't) mls_env \<Rightarrow> mls_event \<Rightarrow> ('r, 'g) mls_handler \<Rightarrow> ('r, 'g) mls_handler" where
  "mls_event_exec E (Processed i) H = record_processing_success H i"
| "mls_event_exec E (ProcessingFailed i) H = fst (record_processing_failure E H i)"
| "mls_event_exec E (DesyncCleared i) H = clear_desync H i"

lemmas desync_defs = record_processing_success_def record_processing_failure_def clear_desync_def failure_count_def
  is_desynced_def desync_counter_new_def desync_threshold_def Let_def

lemma failures_le: "failures_since i es \<le> length es"
  by (induction i es rule: failures_since.induct) auto

lemma event_run_counters:
  assumes "length es < 2 ^ 32" and "mg_desync_counters H = Map.empty"
  shows "failure_count (foldr (mls_event_exec E) es H) i = failures_since i es \<and>
    is_desynced (foldr (mls_event_exec E) es H) i = lost_sync i es"
  using assms(1)
proof (induction es)
  case Nil
  then show ?case using assms(2) by (simp add: desync_defs)
next
  case (Cons e es)
  let ?H = "foldr (mls_event_exec E) es H"
  have IH: "failure_count ?H i = failures_since i es" "is_desynced ?H i = lost_sync i es" using Cons by simp_all
  have b: "add_u32 (failures_since i es) 1 = Suc (failures_since i es)"
    using Cons.prems failures_le [of i es] by (simp add: add_u32_exact)
  show ?case
  proof (cases "mg_desync_counters ?H i")
    case None
    then have "failures_since i es = 0" "\<not> lost_sync i es" using IH by (simp_all add: desync_defs)
    with None b show ?thesis
      by (cases e) (use IH None in \<open>auto simp: desync_defs split: option.splits\<close>)
  next
    case (Some c)
    then have "dc_consecutive_failures c = failures_since i es" "dc_flagged c = lost_sync i es"
      using IH by (simp_all add: desync_defs)
    with Some b show ?thesis
      by (cases e) (use IH Some in \<open>auto simp: desync_defs split: option.splits\<close>)
  qed
qed

text \<open>C26. Desync detection reads the history of a group correctly. After any sequence of fewer
  than \<open>2 ^ 32\<close> successes, failures and clearances of any groups, the failure count of a
  group is the number of its failures since its last success or clearance, the group is
  flagged exactly if that number has reached three at some point since its last clearance,
  and its next failure is reported exactly if it makes at least three in a row and the group
  is not flagged yet. Other groups' events do not matter.\<close>

theorem desync_exact:
  assumes "length es < 2 ^ 32 - 1" and "mg_desync_counters H = Map.empty"
  shows "let H' = foldr (mls_event_exec E) es H
     in failure_count H' i = failures_since i es \<and> is_desynced H' i = lost_sync i es \<and>
       (snd (record_processing_failure E H' i) \<noteq> None \<longleftrightarrow> failures_since i es \<ge> 2 \<and> \<not> lost_sync i es)"
proof -
  let ?H = "foldr (mls_event_exec E) es H"
  have IH: "failure_count ?H i = failures_since i es" "is_desynced ?H i = lost_sync i es"
    using event_run_counters [of es H E i] assms by auto
  have b: "add_u32 (failures_since i es) 1 = Suc (failures_since i es)"
    using assms(1) failures_le [of i es] by (simp add: add_u32_exact)
  have "snd (record_processing_failure E ?H i) \<noteq> None \<longleftrightarrow> failures_since i es \<ge> 2 \<and> \<not> lost_sync i es"
    using IH b by (cases "mg_desync_counters ?H i") (auto simp: desync_defs)
  with IH show ?thesis by (simp add: Let_def)
qed

theorem desync_exact_witness:
  "let H' = foldr (mls_event_exec ledger_env) [ProcessingFailed ''g'', ProcessingFailed ''h'', ProcessingFailed ''g'', Processed ''g'']
       \<lparr>mg_local_did = ''alice'', mg_provider = \<lparr>mp_values = [], mp_rng = ()\<rparr>, mg_signature_keypair = ([], []),
        mg_credential_with_key = ([1], []), mg_groups = [], mg_storage_key = [], mg_desync_counters = Map.empty\<rparr>
   in failure_count H' ''g'' = 2 \<and> \<not> is_desynced H' ''g'' \<and> snd (record_processing_failure ledger_env H' ''g'') \<noteq> None"
  using desync_exact [of "[ProcessingFailed ''g'', ProcessingFailed ''h'', ProcessingFailed ''g'', Processed ''g'']"
      "\<lparr>mg_local_did = ''alice'', mg_provider = \<lparr>mp_values = [], mp_rng = ()\<rparr>, mg_signature_keypair = ([], []),
        mg_credential_with_key = ([1], []), mg_groups = [], mg_storage_key = [], mg_desync_counters = Map.empty\<rparr>"
      ledger_env "''g''"]
  by (simp add: Let_def del: foldr.simps)

end
