(* ===== verification/Mls_Recovery.thy ===== *)
theory Mls_Recovery
  imports Mls_Invites
begin

section \<open>MLS groups: snapshots and reinitialisation\<close>

text \<open>
  \<open>storage_ok\<close> states that openmls writes each change of a group through to the provider's
  store, under the group's id and without touching other groups. Then every operation of the
  handler keeps the invariant \<open>persisted\<close>, and a snapshot restores exactly the groups. The
  second part says what \<open>reinitialize_group\<close> gives.
\<close>

subsection \<open>The contract of the key store\<close>

definition stored :: "('r, 'g, 'm, 'kp, 'q) openmls \<Rightarrow> (bytes \<times> bytes) list \<Rightarrow> 'g \<Rightarrow> bool" where
  "stored X vs g \<longleftrightarrow> ml_load X vs (ml_group_id X g) = Inr (Some g)"

definition provider_ok :: "'r provider \<Rightarrow> bool" where
  "provider_ok p \<longleftrightarrow> distinct (map fst (mp_values p))"

definition loads_same :: "('r, 'g, 'm, 'kp, 'q) openmls \<Rightarrow> bytes set \<Rightarrow> (bytes \<times> bytes) list \<Rightarrow> (bytes \<times> bytes) list \<Rightarrow> bool" where
  "loads_same X I vs ws \<longleftrightarrow> (\<forall>i. i \<notin> I \<longrightarrow> ml_load X ws i = ml_load X vs i)"

definition keeps :: "('r, 'g, 'm, 'kp, 'q) openmls \<Rightarrow> ('r provider \<Rightarrow> 'g \<Rightarrow> 'r provider \<times> 'g \<times> 'a) \<Rightarrow> bool" where
  "keeps X f \<longleftrightarrow>
     (\<forall>p g p' g' r. f p g = (p', g', r) \<longrightarrow> provider_ok p \<longrightarrow> stored X (mp_values p) g \<longrightarrow>
        provider_ok p' \<and> stored X (mp_values p') g' \<and> ml_group_id X g' = ml_group_id X g \<and>
        loads_same X {ml_group_id X g} (mp_values p) (mp_values p'))"

definition calls_ok :: "('r, 'g, 'm, 'kp, 'q) openmls \<Rightarrow> bool" where
  "calls_ok X \<longleftrightarrow>
     (\<forall>key kp. keeps X (\<lambda>p g. ml_add_members X p key kp g)) \<and>
     (\<forall>key n. keeps X (\<lambda>p g. ml_remove_members X p key n g)) \<and>
     keeps X (ml_merge_pending X) \<and> keeps X (ml_clear_pending X) \<and>
     (\<forall>key bs. keeps X (\<lambda>p g. ml_create_message X p key bs g)) \<and>
     (\<forall>m. keeps X (\<lambda>p g. ml_process X p m g)) \<and>
     (\<forall>q. keeps X (\<lambda>p g. ml_store_proposal X p q g)) \<and>
     (\<forall>q. keeps X (\<lambda>p g. ml_merge_staged X p q g)) \<and>
     (\<forall>key. keeps X (\<lambda>p g. ml_leave X p key g)) \<and>
     (\<forall>key. keeps X (\<lambda>p g. ml_self_update X p key g)) \<and>
     (\<forall>key. keeps X (\<lambda>p g. ml_commit_proposals X p key g))"

definition new_group_ok :: "('r, 'g, 'm, 'kp, 'q) openmls \<Rightarrow> bool" where
  "new_group_ok X \<longleftrightarrow>
     (\<forall>p key i c p' r. ml_new_group X p key i c = (p', r) \<longrightarrow> provider_ok p \<longrightarrow>
        provider_ok p' \<and> loads_same X {i} (mp_values p) (mp_values p') \<and>
        (case r of Inl _ \<Rightarrow> loads_same X {} (mp_values p) (mp_values p')
         | Inr g \<Rightarrow> ml_group_id X g = i \<and> stored X (mp_values p') g))"

definition package_ok :: "('r, 'g, 'm, 'kp, 'q) openmls \<Rightarrow> bool" where
  "package_ok X \<longleftrightarrow>
     (\<forall>p key c p' r. ml_key_package X p key c = (p', r) \<longrightarrow> provider_ok p \<longrightarrow>
        provider_ok p' \<and> loads_same X {} (mp_values p) (mp_values p'))"

definition welcome_ok :: "('r, 'g, 'm, 'kp, 'q) openmls \<Rightarrow> bool" where
  "welcome_ok X \<longleftrightarrow>
     (\<forall>p w p' r. ml_stage_welcome X p w = (p', r) \<longrightarrow> provider_ok p \<longrightarrow>
        provider_ok p' \<and> loads_same X {} (mp_values p) (mp_values p')) \<and>
     (\<forall>p q p' r. ml_into_group X p q = (p', r) \<longrightarrow> provider_ok p \<longrightarrow> provider_ok p' \<and>
        (case r of Inl _ \<Rightarrow> loads_same X {} (mp_values p) (mp_values p')
         | Inr g \<Rightarrow> stored X (mp_values p') g \<and> loads_same X {ml_group_id X g} (mp_values p) (mp_values p')))"

definition delete_ok :: "('r, 'g, 'm, 'kp, 'q) openmls \<Rightarrow> bool" where
  "delete_ok X \<longleftrightarrow>
     (\<forall>vs g vs' r. ml_delete X vs g = (vs', r) \<longrightarrow> distinct (map fst vs) \<longrightarrow>
        distinct (map fst vs') \<and> loads_same X {ml_group_id X g} vs vs')"

definition keypair_ok :: "('r, 'g, 'm, 'kp, 'q) openmls \<Rightarrow> bool" where
  "keypair_ok X \<longleftrightarrow>
     (\<forall>key vs. \<exists>vs'. ml_store_keypair X key vs = (vs', Inr ()) \<and>
        (distinct (map fst vs) \<longrightarrow> distinct (map fst vs')) \<and> loads_same X {} vs vs') \<and>
     (\<forall>vs ws. map_of vs = map_of ws \<longrightarrow> ml_load X vs = ml_load X ws)"

definition storage_ok :: "('r, 'g, 'm, 'kp, 'q) openmls \<Rightarrow> bool" where
  "storage_ok X \<longleftrightarrow> calls_ok X \<and> new_group_ok X \<and> package_ok X \<and> welcome_ok X \<and> delete_ok X \<and> keypair_ok X"

lemma storage_okD [simp]:
  assumes "storage_ok X"
  shows "calls_ok X" "new_group_ok X" "package_ok X" "welcome_ok X" "delete_ok X" "keypair_ok X"
  using assms by (simp_all add: storage_ok_def)

lemma keepsD:
  assumes "keeps X f" and "f p g = (p', g', r)" and "provider_ok p" and "stored X (mp_values p) g"
  shows "provider_ok p'" and "stored X (mp_values p') g'" and "ml_group_id X g' = ml_group_id X g"
    and "loads_same X {ml_group_id X g} (mp_values p) (mp_values p')"
  using assms unfolding keeps_def by blast+

text \<open>Composed calls.\<close>

named_theorems keeps_intros

lemma keeps_return [keeps_intros]: "keeps X (\<lambda>p g. (p, g, r g))"
  by (simp add: keeps_def loads_same_def)

lemma keeps_call [keeps_intros]: "keeps X f \<Longrightarrow> keeps X (\<lambda>p g. lib_call err (f p g))"
  unfolding keeps_def lib_call_def by (fastforce split: prod.splits)

lemma keeps_then [keeps_intros]:
  assumes f: "keeps X f" and k: "\<And>a. keeps X (\<lambda>p g. k p g a)"
  shows "keeps X (\<lambda>p g. then_call (f p g) k)"
  unfolding keeps_def
proof (intro allI impI)
  fix p g p' g' r
  assume e: "then_call (f p g) k = (p', g', r)" and p: "provider_ok p" and s: "stored X (mp_values p) g"
  obtain p1 g1 x where f1: "f p g = (p1, g1, x)" by (metis prod_cases3)
  note h = keepsD [OF f f1 p s]
  show "provider_ok p' \<and> stored X (mp_values p') g' \<and> ml_group_id X g' = ml_group_id X g \<and>
      loads_same X {ml_group_id X g} (mp_values p) (mp_values p')"
  proof (cases x)
    case (Inl err)
    with e f1 h show ?thesis by simp
  next
    case (Inr a)
    with e f1 have "k p1 g1 a = (p', g', r)" by simp
    from keepsD [OF k this h(1,2)] h show ?thesis by (simp add: loads_same_def)
  qed
qed

lemma keeps_if [keeps_intros]:
  "keeps X a \<Longrightarrow> keeps X b \<Longrightarrow> keeps X (\<lambda>p g. if P g then a p g else b p g)"
  unfolding keeps_def by (auto split: if_splits)

lemma keeps_sum [keeps_intros]:
  "(\<And>e. keeps X (a e)) \<Longrightarrow> (\<And>m. keeps X (b m)) \<Longrightarrow> keeps X (\<lambda>p g. case s of Inl e \<Rightarrow> a e p g | Inr m \<Rightarrow> b m p g)"
  by (cases s) simp_all

lemma keeps_triple [keeps_intros]:
  "(\<And>a b c. keeps X (\<lambda>p g. f p g a b c)) \<Longrightarrow> keeps X (\<lambda>p g. case t of (a, b, c) \<Rightarrow> f p g a b c)"
  by (cases t) simp

lemma keeps_library [keeps_intros]:
  assumes "calls_ok X"
  shows "keeps X (\<lambda>p g. ml_add_members X p key kp g)" "keeps X (\<lambda>p g. ml_remove_members X p key n g)"
    "keeps X (\<lambda>p g. ml_merge_pending X p g)" "keeps X (\<lambda>p g. ml_clear_pending X p g)"
    "keeps X (\<lambda>p g. ml_create_message X p key bs g)" "keeps X (\<lambda>p g. ml_process X p m g)"
    "keeps X (\<lambda>p g. ml_store_proposal X p q g)" "keeps X (\<lambda>p g. ml_merge_staged X p q g)"
    "keeps X (\<lambda>p g. ml_leave X p key g)" "keeps X (\<lambda>p g. ml_self_update X p key g)"
    "keeps X (\<lambda>p g. ml_commit_proposals X p key g)"
  using assms unfolding calls_ok_def by blast+

lemma keeps_merge_pending_commit [keeps_intros]:
  "calls_ok (mv_lib E) \<Longrightarrow> keeps (mv_lib E) (\<lambda>p g. merge_pending_commit E err p g result)"
  unfolding merge_pending_commit_def by (intro keeps_intros)

lemma keeps_apply_processed [keeps_intros]:
  "calls_ok (mv_lib E) \<Longrightarrow> keeps (mv_lib E) (\<lambda>p g. apply_processed E p g x)"
  by (cases x; cases "snd x") (auto simp: apply_processed_def intro!: keeps_intros)

subsection \<open>Every operation keeps the store current\<close>

definition persisted :: "('r, 'g, 'm, 'kp, 'q, 't) mls_env \<Rightarrow> ('r, 'g) mls_handler \<Rightarrow> bool" where
  "persisted E H \<longleftrightarrow> provider_ok (mg_provider H) \<and> distinct (map fst (mg_groups H)) \<and>
     (\<forall>i g. map_of (mg_groups H) i = Some g \<longrightarrow>
        ml_group_id (mv_lib E) g = as_bytes i \<and> stored (mv_lib E) (mp_values (mg_provider H)) g)"

lemma stored_same:
  "loads_same X I vs ws \<Longrightarrow> ml_group_id X g \<notin> I \<Longrightarrow> stored X vs g \<Longrightarrow> stored X ws g"
  by (simp add: loads_same_def stored_def)

lemma persisted_provider:
  "persisted E H \<Longrightarrow> provider_ok p \<Longrightarrow> loads_same (mv_lib E) {} (mp_values (mg_provider H)) (mp_values p) \<Longrightarrow>
     persisted E (H\<lparr>mg_provider := p\<rparr>)"
  unfolding persisted_def by (auto intro: stored_same)

text \<open>Storing a group of one id, with the store changed for that id only.\<close>

lemma persisted_update:
  assumes P: "persisted E H" and p: "provider_ok p" and g: "ml_group_id (mv_lib E) g = as_bytes i" "stored (mv_lib E) (mp_values p) g"
    and l: "loads_same (mv_lib E) {as_bytes i} (mp_values (mg_provider H)) (mp_values p)"
  shows "persisted E (H\<lparr>mg_provider := p, mg_groups := AList.update i g (mg_groups H)\<rparr>)"
proof -
  have "stored (mv_lib E) (mp_values p) g'" if "map_of (mg_groups H) j = Some g'" "j \<noteq> i" for j g'
    using that P by (intro stored_same [OF l]) (auto simp: persisted_def)
  with P p g show ?thesis
    by (auto simp: persisted_def update_conv' distinct_update split: if_splits)
qed

lemma persisted_on_group:
  assumes k: "keeps (mv_lib E) f" and P: "persisted E H"
  shows "persisted E (fst (on_group H i f))"
proof (cases "map_of (mg_groups H) i")
  case None
  with P show ?thesis by (simp add: on_group_unknown)
next
  case (Some g)
  obtain p' g' r where f: "f (mg_provider H) g = (p', g', r)" by (metis prod_cases3)
  from P Some have o: "provider_ok (mg_provider H)" "stored (mv_lib E) (mp_values (mg_provider H)) g"
      and i: "ml_group_id (mv_lib E) g = as_bytes i" by (auto simp: persisted_def)
  from keepsD [OF k f o] i P show ?thesis
    unfolding on_group_known [where f = f, OF Some f] fst_conv by (intro persisted_update) simp_all
qed

lemma persisted_desync [simp]: "persisted E (H\<lparr>mg_desync_counters := c\<rparr>) = persisted E H"
  by (simp add: persisted_def)

lemma persisted_create_group:
  assumes X: "storage_ok (mv_lib E)" and P: "persisted E H"
  shows "persisted E (fst (create_group E H i))"
proof -
  obtain p r where n: "ml_new_group (mv_lib E) (mg_provider H) (mg_signature_keypair H) (as_bytes i) (mg_credential_with_key H) = (p, r)"
    by fastforce
  have o: "provider_ok (mg_provider H)" using P by (simp add: persisted_def)
  have "provider_ok p \<and> loads_same (mv_lib E) {as_bytes i} (mp_values (mg_provider H)) (mp_values p) \<and>
      (case r of Inl _ \<Rightarrow> loads_same (mv_lib E) {} (mp_values (mg_provider H)) (mp_values p)
       | Inr g \<Rightarrow> ml_group_id (mv_lib E) g = as_bytes i \<and> stored (mv_lib E) (mp_values p) g)"
    using storage_okD(2) [OF X] n o unfolding new_group_ok_def by blast
  with n P show ?thesis
    by (cases r) (simp_all add: create_group_def persisted_provider persisted_update)
qed

definition welcome_text :: "('r, 'g, 'm, 'kp, 'q) openmls \<Rightarrow> 'm \<Rightarrow> bool" where
  "welcome_text X w \<longleftrightarrow>
     (\<forall>b p s p' g. ml_welcome_body X w = Some b \<longrightarrow> ml_into_group X p s = (p', Inr g) \<longrightarrow>
        as_bytes (from_utf8_lossy (ml_group_id X g)) = ml_group_id X g)"

lemma persisted_join:
  assumes X: "storage_ok (mv_lib E)" and P: "persisted E H" and w: "welcome_text (mv_lib E) m"
  shows "persisted E (fst (join_group_from_welcome E H m))"
proof (cases "ml_welcome_body (mv_lib E) m")
  case None
  with P show ?thesis by (simp add: join_group_from_welcome_def)
next
  case (Some b)
  obtain p r where s: "ml_stage_welcome (mv_lib E) (mg_provider H) b = (p, r)" by fastforce
  have o: "provider_ok (mg_provider H)" using P by (simp add: persisted_def)
  have p: "provider_ok p" "loads_same (mv_lib E) {} (mp_values (mg_provider H)) (mp_values p)"
    using storage_okD(4) [OF X] s o unfolding welcome_ok_def by blast+
  show ?thesis
  proof (cases r)
    case (Inl e)
    with Some s P p show ?thesis by (simp add: join_group_from_welcome_def persisted_provider)
  next
    case (Inr q)
    obtain p2 x where i: "ml_into_group (mv_lib E) p q = (p2, x)" by fastforce
    have h: "provider_ok p2 \<and>
        (case x of Inl _ \<Rightarrow> loads_same (mv_lib E) {} (mp_values p) (mp_values p2)
         | Inr g \<Rightarrow> stored (mv_lib E) (mp_values p2) g \<and> loads_same (mv_lib E) {ml_group_id (mv_lib E) g} (mp_values p) (mp_values p2))"
      using storage_okD(4) [OF X] i p(1) unfolding welcome_ok_def by blast
    have t: "x = Inr g \<Longrightarrow> ml_group_id (mv_lib E) g = as_bytes (from_utf8_lossy (ml_group_id (mv_lib E) g))" for g
      using w Some i unfolding welcome_text_def by (metis (no_types))
    have l: "loads_same (mv_lib E) I (mp_values p) vs \<Longrightarrow> loads_same (mv_lib E) I (mp_values (mg_provider H)) vs" for I vs
      using p(2) by (simp add: loads_same_def)
    show ?thesis
      using Some s Inr i h t P
      by (cases x) (simp_all add: join_group_from_welcome_def Let_def persisted_provider persisted_update l)
  qed
qed

lemma persisted_remove_group:
  assumes X: "storage_ok (mv_lib E)" and P: "persisted E H"
  shows "persisted E (remove_group E H i)"
proof (cases "map_of (mg_groups H) i")
  case None
  with P show ?thesis by (simp add: remove_group_def)
next
  case (Some g)
  obtain vs r where d: "ml_delete (mv_lib E) (mp_values (mg_provider H)) g = (vs, r)" by fastforce
  have o: "distinct (map fst (mp_values (mg_provider H)))" using P by (simp add: persisted_def provider_ok_def)
  have v: "distinct (map fst vs) \<and> loads_same (mv_lib E) {ml_group_id (mv_lib E) g} (mp_values (mg_provider H)) vs"
    using storage_okD(5) [OF X] d o unfolding delete_ok_def by blast
  have gi: "ml_group_id (mv_lib E) g = as_bytes i" using P Some by (simp add: persisted_def)
  have st: "stored (mv_lib E) vs g'" if "map_of (mg_groups H) j = Some g'" "j \<noteq> i" for j g'
    using that P v gi by (intro stored_same [of _ "{as_bytes i}" _ vs]) (auto simp: persisted_def)
  have "map_of (AList.delete i (mg_groups H)) j = Some g' \<longleftrightarrow> j \<noteq> i \<and> map_of (mg_groups H) j = Some g'" for j g'
    by (simp add: delete_conv')
  with P v st Some d show ?thesis
    by (auto simp: remove_group_def persisted_def provider_ok_def distinct_delete)
qed

lemma persisted_readd:
  "storage_ok (mv_lib E) \<Longrightarrow> persisted E H \<Longrightarrow> persisted E (fst (readd_members E i kps dids acc H))"
proof (induction E i kps dids acc H rule: readd_members.induct)
  case (2 E i kps d dids welcomes added H)
  have "persisted E (fst (add_member E H i kp))" for kp
    unfolding add_member_def by (rule persisted_on_group) (auto intro!: keeps_intros simp: 2)
  then have "persisted E x" if "add_member E H i kp = (x, y)" for kp x y
    using that by (metis fst_conv)
  with 2 show ?case by (auto split: option.split prod.split sum.split)
qed simp


datatype ('m, 'kp) mls_op =
    GenerateKeyPackage
  | CreateGroup string
  | AddMember string 'kp
  | AddMemberDeferred string 'kp
  | ConfirmAdd string
  | CancelAdd string
  | RemoveMember string nat
  | EncryptMessage string bytes
  | ProcessMessage string 'm
  | JoinGroup 'm
  | LeaveGroup string
  | SelfUpdate string
  | CommitProposals string
  | RemoveGroup string
  | ReinitializeGroup string "did \<rightharpoonup> 'kp"
  | DesyncEvent mls_event

fun mls_exec ::
  "('r, 'g, 'm, 'kp, 'q, 't) mls_env \<Rightarrow> ('m, 'kp) mls_op \<Rightarrow> ('r, 'g) mls_handler \<Rightarrow> ('r, 'g) mls_handler" where
  "mls_exec E GenerateKeyPackage H = fst (generate_key_package E H)"
| "mls_exec E (CreateGroup i) H = fst (create_group E H i)"
| "mls_exec E (AddMember i kp) H = fst (add_member E H i kp)"
| "mls_exec E (AddMemberDeferred i kp) H = fst (add_member_deferred E H i kp)"
| "mls_exec E (ConfirmAdd i) H = fst (confirm_add_member E H i)"
| "mls_exec E (CancelAdd i) H = fst (cancel_add_member E H i)"
| "mls_exec E (RemoveMember i n) H = fst (remove_member E H i n)"
| "mls_exec E (EncryptMessage i bs) H = fst (encrypt_message E H i bs)"
| "mls_exec E (ProcessMessage i m) H = fst (process_message E H i m)"
| "mls_exec E (JoinGroup w) H = fst (join_group_from_welcome E H w)"
| "mls_exec E (LeaveGroup i) H = fst (leave_group E H i)"
| "mls_exec E (SelfUpdate i) H = fst (self_update E H i)"
| "mls_exec E (CommitProposals i) H = fst (commit_pending_proposals E H i)"
| "mls_exec E (RemoveGroup i) H = remove_group E H i"
| "mls_exec E (ReinitializeGroup i kps) H = fst (reinitialize_group E H i kps)"
| "mls_exec E (DesyncEvent e) H = mls_event_exec E e H"

definition mls_run ::
  "('r, 'g, 'm, 'kp, 'q, 't) mls_env \<Rightarrow> ('m, 'kp) mls_op list \<Rightarrow> ('r, 'g) mls_handler \<Rightarrow> ('r, 'g) mls_handler" where
  "mls_run E ops H = fold (mls_exec E) ops H"

lemma persisted_event [simp]: "persisted E (mls_event_exec E e H) = persisted E H"
  by (cases e) (simp_all add: record_processing_success_def record_processing_failure_def clear_desync_def Let_def
      split: option.split)

lemma persisted_clear [simp]: "persisted E (clear_desync H i) = persisted E H"
  by (simp add: clear_desync_def split: option.split)

lemma persisted_reinitialize:
  assumes X: "storage_ok (mv_lib E)" and P: "persisted E H"
  shows "persisted E (fst (reinitialize_group E H i kps))"
proof -
  have c: "persisted E (fst (create_group E (clear_desync (remove_group E H i) i) j))" for j
    by (intro persisted_create_group persisted_remove_group persisted_clear [THEN iffD2] X P)
  then have "persisted E H1" if "create_group E (clear_desync (remove_group E H i) i) j = (H1, r)" for j H1 r
    using that by (metis fst_conv)
  then show ?thesis
    using persisted_readd [OF X] by (auto simp: reinitialize_group_def Let_def split: prod.split sum.split)
      (metis fst_conv)+
qed

lemma persisted_key_package:
  assumes X: "storage_ok (mv_lib E)" and P: "persisted E H"
  shows "persisted E (fst (generate_key_package E H))"
proof -
  obtain p r where k: "ml_key_package (mv_lib E) (mg_provider H) (mg_signature_keypair H) (mg_credential_with_key H) = (p, r)"
    by fastforce
  have "provider_ok p \<and> loads_same (mv_lib E) {} (mp_values (mg_provider H)) (mp_values p)"
    using storage_okD(3) [OF X] P k unfolding package_ok_def persisted_def by blast
  with P k show ?thesis by (simp add: generate_key_package_def persisted_provider)
qed

lemmas group_calls = add_member_def add_member_deferred_def confirm_add_member_def cancel_add_member_def
  remove_member_def encrypt_message_def process_message_def leave_group_def self_update_def commit_pending_proposals_def

lemma persisted_group_calls:
  assumes X: "storage_ok (mv_lib E)" and P: "persisted E H"
  shows "persisted E (fst (add_member E H i kp))" "persisted E (fst (add_member_deferred E H i kp))"
    "persisted E (fst (confirm_add_member E H i))" "persisted E (fst (cancel_add_member E H i))"
    "persisted E (fst (remove_member E H i n))" "persisted E (fst (encrypt_message E H i bs))"
    "persisted E (fst (process_message E H i m))" "persisted E (fst (leave_group E H i))"
    "persisted E (fst (self_update E H i))" "persisted E (fst (commit_pending_proposals E H i))"
  unfolding group_calls by (rule persisted_on_group [OF _ P], auto intro!: keeps_intros simp: X)+

lemma persisted_exec:
  assumes "storage_ok (mv_lib E)" and "persisted E H" and "\<forall>w. op = JoinGroup w \<longrightarrow> welcome_text (mv_lib E) w"
  shows "persisted E (mls_exec E op H)"
  using assms by (cases op) (simp_all add: persisted_group_calls persisted_create_group persisted_join
      persisted_remove_group persisted_reinitialize persisted_key_package)

lemma persisted_run:
  "storage_ok (mv_lib E) \<Longrightarrow> persisted E H \<Longrightarrow> \<forall>w. JoinGroup w \<in> set ops \<longrightarrow> welcome_text (mv_lib E) w \<Longrightarrow>
     persisted E (mls_run E ops H)"
  unfolding mls_run_def by (induction ops arbitrary: H) (simp_all add: persisted_exec)

lemma mls_new_ok:
  assumes "storage_ok (mv_lib E)" and "mls_new E rng did key = Inr H"
  shows "persisted E H" and "mg_groups H = []"
proof -
  let ?k = "(key, mv_public_key E key)"
  obtain vs where "ml_store_keypair (mv_lib E) ?k [] = (vs, Inr ())" "distinct (map fst vs)"
    using storage_okD(6) [OF assms(1)] unfolding keypair_ok_def by (metis distinct.simps(1) list.map(1))
  then show "persisted E H" and "mg_groups H = []"
    using assms(2) by (auto simp: mls_new_def Let_def persisted_def provider_ok_def)
qed

subsection \<open>Snapshots\<close>

lemma map_of_updates:
  "distinct (map fst vs) \<Longrightarrow>
     map_of (fold (\<lambda>(k, v). AList.update k v) vs acc) k = (case map_of vs k of None \<Rightarrow> map_of acc k | Some v \<Rightarrow> Some v)"
proof (induction vs arbitrary: acc)
  case (Cons e vs)
  obtain a b where e: "e = (a, b)" by fastforce
  with Cons.prems have "map_of vs a = None" by (simp add: map_of_eq_None_iff)
  with Cons e show ?case by (simp add: update_conv' split: option.split)
qed simp

lemma distinct_updates: "distinct (map fst acc) \<Longrightarrow> distinct (map fst (fold (\<lambda>(k, v). AList.update k v) vs acc))"
  by (induction vs arbitrary: acc) (auto simp: distinct_update)

lemma decode_entries_hex:
  "decode_entries (map (\<lambda>(k, v). (hex_encode k, hex_encode v)) vs) acc = Inr (fold (\<lambda>(k, v). AList.update k v) vs acc)"
  by (induction vs arbitrary: acc) auto

lemma reload_groups_all:
  assumes "\<forall>i \<in> set gs. \<exists>g. ml_load (mv_lib E) vs (as_bytes i) = Inr (Some g) \<and> view i = Some g"
  shows "\<exists>groups'. reload_groups E vs gs groups n = (groups', n + length gs) \<and>
    (\<forall>i. map_of groups' i = (if i \<in> set gs then view i else map_of groups i))"
  using assms
proof (induction gs arbitrary: groups n)
  case (Cons i gs)
  obtain g where g: "ml_load (mv_lib E) vs (as_bytes i) = Inr (Some g)" "view i = Some g" using Cons.prems by auto
  from Cons.IH [of "AList.update i g groups" "n + 1"] Cons.prems
  obtain groups' where "reload_groups E vs gs (AList.update i g groups) (n + 1) = (groups', n + 1 + length gs)"
      "\<forall>j. map_of groups' j = (if j \<in> set gs then view j else map_of (AList.update i g groups) j)" by auto
  with g show ?case by (auto simp: update_conv')
qed auto

lemma restore_persisted:
  assumes "storage_ok (mv_lib E)" and "codec_ok (mv_snapshot E)" and P: "persisted E H" and F: "mg_groups F = []"
  shows "\<exists>R. restore_in_place E F (export_state E H) = (R, Inr (length (mg_groups H))) \<and> map_of (mg_groups R) = map_of (mg_groups H)"
proof -
  let ?X = "mv_lib E"
  let ?vs = "mp_values (mg_provider H)"
  let ?ws = "fold (\<lambda>(k, v). AList.update k v) ?vs []"
  from P have d: "distinct (map fst ?vs)" by (simp add: persisted_def provider_ok_def)
  then have "map_of ?ws = map_of ?vs" by (auto simp: map_of_updates split: option.split)
  then have l: "ml_load ?X ?ws = ml_load ?X ?vs"
    using storage_okD(6) [OF assms(1)] unfolding keypair_ok_def by blast
  obtain us where us: "ml_store_keypair ?X (mg_signature_keypair F) ?ws = (us, Inr ())" "loads_same ?X {} ?ws us"
    using storage_okD(6) [OF assms(1)] unfolding keypair_ok_def by blast
  have "\<forall>i \<in> set (group_ids H). \<exists>g. ml_load ?X us (as_bytes i) = Inr (Some g) \<and> map_of (mg_groups H) i = Some g"
  proof
    fix i assume "i \<in> set (group_ids H)"
    then obtain g where g: "map_of (mg_groups H) i = Some g"
      by (metis group_ids_def map_of_eq_None_iff not_Some_eq list.set_map)
    with P have "ml_group_id ?X g = as_bytes i \<and> stored ?X ?vs g" unfolding persisted_def by blast
    then have "ml_load ?X ?vs (as_bytes i) = Inr (Some g)" unfolding stored_def by metis
    with us(2) l g show "\<exists>g. ml_load ?X us (as_bytes i) = Inr (Some g) \<and> map_of (mg_groups H) i = Some g"
      by (simp add: loads_same_def)
  qed
  from reload_groups_all [OF this, of "mg_groups F" 0]
  obtain gs where gs: "reload_groups E us (group_ids H) (mg_groups F) 0 = (gs, length (mg_groups H))"
      "\<forall>i. map_of gs i = (if i \<in> set (group_ids H) then map_of (mg_groups H) i else map_of (mg_groups F) i)"
    by (auto simp: group_ids_def)
  have "map_of gs = map_of (mg_groups H)"
  proof
    fix i
    show "map_of gs i = map_of (mg_groups H) i"
      using gs(2) F map_of_eq_None_iff [of "mg_groups H" i]
      by (auto simp: group_ids_def)
  qed
  moreover have "restore_in_place E F (export_state E H)
      = (F\<lparr>mg_provider := (mg_provider F)\<lparr>mp_values := us\<rparr>, mg_groups := gs\<rparr>, Inr (length (mg_groups H)))"
    using assms(2) us gs by (simp add: restore_in_place_def export_state_def decode_entries_hex)
  ultimately show ?thesis by simp
qed



text \<open>The ledger library keeps the contract.\<close>

lemma ledger_load: "ml_load ledger_mls vs i = Inr (Option.bind (map_of vs i) (cd_decode unary_codec))"
  by (simp add: ledger_mls_def)

lemma ledger_saved:
  "provider_ok p \<Longrightarrow> provider_ok (ledger_save p g) \<and> stored ledger_mls (mp_values (ledger_save p g)) g \<and>
     loads_same ledger_mls {fst g} (mp_values p) (mp_values (ledger_save p g))"
  by (auto simp: provider_ok_def ledger_save_def distinct_update stored_def loads_same_def ledger_load update_conv'
      unary_codec_ok) (simp_all add: ledger_mls_def update_conv' unary_codec_ok)

lemma keeps_ledger_save:
  assumes "\<And>p g p' g' r. f p g = (p', g', r) \<Longrightarrow> (p' = p \<and> g' = g) \<or> (p' = ledger_save p g' \<and> fst g' = fst g)"
  shows "keeps ledger_mls f"
  unfolding keeps_def
proof (intro allI impI)
  fix p g p' g' r
  assume e: "f p g = (p', g', r)" and p: "provider_ok p" and s: "stored ledger_mls (mp_values p) g"
  have i: "ml_group_id ledger_mls = fst" by (simp add: ledger_mls_def)
  from assms [OF e] ledger_saved [OF p, of g'] p s
  show "provider_ok p' \<and> stored ledger_mls (mp_values p') g' \<and> ml_group_id ledger_mls g' = ml_group_id ledger_mls g \<and>
      loads_same ledger_mls {ml_group_id ledger_mls g} (mp_values p) (mp_values p')"
    unfolding i by (auto simp: loads_same_def)
qed

lemma ledger_calls_ok: "calls_ok ledger_mls"
proof -
  have add: "ledger_add p key kp g = (p', g', r) \<Longrightarrow> (p' = p \<and> g' = g) \<or> (p' = ledger_save p g' \<and> fst g' = fst g)"
    for p key kp g p' g' r by (cases "(p, key, kp, g)" rule: ledger_add.cases) (auto simp: Let_def)
  have merge: "ledger_merge p g = (p', g', r) \<Longrightarrow> (p' = p \<and> g' = g) \<or> (p' = ledger_save p g' \<and> fst g' = fst g)"
    for p g p' g' r by (cases "(p, g)" rule: ledger_merge.cases) (auto simp: Let_def)
  have clear: "ledger_clear p g = (p', g', r) \<Longrightarrow> (p' = p \<and> g' = g) \<or> (p' = ledger_save p g' \<and> fst g' = fst g)"
    for p g p' g' r by (cases "(p, g)" rule: ledger_clear.cases) (auto simp: Let_def)
  have ops: "ml_add_members ledger_mls = ledger_add" "ml_merge_pending ledger_mls = ledger_merge"
      "ml_clear_pending ledger_mls = ledger_clear"
    by (simp_all add: ledger_mls_def)
  show ?thesis
    unfolding calls_ok_def ops
    by (intro conjI allI; rule keeps_ledger_save) (auto dest: add merge clear simp: ledger_mls_def)
qed

lemma ledger_storage_ok: "storage_ok ledger_mls"
proof -
  have i: "ml_group_id ledger_mls = fst" by (simp add: ledger_mls_def)
  have "new_group_ok ledger_mls"
    unfolding new_group_ok_def i
  proof (intro allI impI)
    fix p key i c p' r
    assume n: "ml_new_group ledger_mls p key i c = (p', r)" and p: "provider_ok p"
    let ?g = "(i, [(0, fst c)], 0, None) :: ledger"
    from n have "p' = ledger_save p ?g" "r = Inr ?g" by (auto simp: ledger_mls_def Let_def)
    with ledger_saved [OF p, of ?g]
    show "provider_ok p' \<and> loads_same ledger_mls {i} (mp_values p) (mp_values p') \<and>
        (case r of Inl _ \<Rightarrow> loads_same ledger_mls {} (mp_values p) (mp_values p')
         | Inr g \<Rightarrow> fst g = i \<and> stored ledger_mls (mp_values p') g)"
      by simp
  qed
  moreover have "package_ok ledger_mls"
    by (auto simp: package_ok_def loads_same_def ledger_mls_def)
  moreover have "welcome_ok ledger_mls"
    unfolding welcome_ok_def i
  proof (intro conjI allI impI)
    fix p q p' r
    assume j: "ml_into_group ledger_mls p q = (p', r)" and p: "provider_ok p"
    from j have "p' = ledger_save p q" "r = Inr q" by (auto simp: ledger_mls_def)
    with ledger_saved [OF p, of q]
    show "provider_ok p'" and "case r of Inl _ \<Rightarrow> loads_same ledger_mls {} (mp_values p) (mp_values p')
        | Inr g \<Rightarrow> stored ledger_mls (mp_values p') g \<and> loads_same ledger_mls {fst g} (mp_values p) (mp_values p')"
      by simp_all
  qed (auto simp: loads_same_def ledger_mls_def)
  moreover have "delete_ok ledger_mls"
    unfolding delete_ok_def i loads_same_def ledger_load
    by (auto simp: ledger_mls_def delete_conv' distinct_delete)
  moreover have "keypair_ok ledger_mls"
    unfolding keypair_ok_def
  proof (intro conjI allI impI)
    fix key vs
    show "\<exists>vs'. ml_store_keypair ledger_mls key vs = (vs', Inr ()) \<and>
        (distinct (map fst vs) \<longrightarrow> distinct (map fst vs')) \<and> loads_same ledger_mls {} vs vs'"
      by (rule exI [of _ vs]) (simp add: loads_same_def ledger_mls_def)
  next
    fix vs ws :: "(bytes \<times> bytes) list"
    assume "map_of vs = map_of ws"
    then show "ml_load ledger_mls vs = ml_load ledger_mls ws"
      by (intro ext) (simp only: ledger_load)
  qed
  ultimately show ?thesis
    using ledger_calls_ok unfolding storage_ok_def by blast
qed


subsection \<open>Reinitialisation\<close>

definition ready :: "('r, 'g, 'm, 'kp, 'q) openmls \<Rightarrow> bytes set \<Rightarrow> nat \<Rightarrow> 'g \<Rightarrow> bool" where
  "ready X cs n g \<longleftrightarrow> \<not> ml_pending_commit X g \<and> credentials X g = cs \<and> ml_epoch X g = n"

text \<open>\<open>add_member\<close> on a group with no commit in flight: merged at once, or left as it was.\<close>

lemma add_member_ready:
  assumes X: "commits_ok (mv_lib E) identity" and g: "map_of (mg_groups H) i = Some g" and r: "ready (mv_lib E) cs n g"
    and e: "add_member E H i kp = (H', res)"
  obtains g' where "map_of (mg_groups H') i = Some g'" and "mg_local_did H' = mg_local_did H"
    and "case res of Inl _ \<Rightarrow> ready (mv_lib E) cs n g' | Inr _ \<Rightarrow> ready (mv_lib E) (insert (identity kp) cs) (n + 1) g'"
proof -
  let ?X = "mv_lib E" and ?p = "mg_provider H"
  obtain p1 g1 x where add: "ml_add_members ?X ?p (mg_signature_keypair H) kp g = (p1, g1, x)" by (metis prod_cases3)
  have np: "\<not> ml_pending_commit ?X g" using r by (simp add: ready_def)
  note ok = commits_ok_add [OF X np add]
  show thesis
  proof (cases x)
    case (Inl err)
    have "on_group H i (\<lambda>p grp. then_call (lib_call (\<lambda>e. EMlsCommit (''Failed to add member: '' @ e))
            (ml_add_members ?X p (mg_signature_keypair H) kp grp))
         (\<lambda>p grp (cm, wl, inf). merge_pending_commit E (\<lambda>e. EMlsCommit (''Failed to merge pending commit after add: '' @ e)) p grp
              \<lparr>ad_commit = cm, ad_welcome = wl, ad_group_info = inf\<rparr>))
        = (H\<lparr>mg_provider := p1, mg_groups := AList.update i g1 (mg_groups H)\<rparr>, Inl (EMlsCommit (''Failed to add member: '' @ err)))"
      by (rule on_group_known [OF g]) (simp add: add Inl)
    with e have h: "H' = H\<lparr>mg_provider := p1, mg_groups := AList.update i g1 (mg_groups H)\<rparr>"
        "res = Inl (EMlsCommit (''Failed to add member: '' @ err))" by (simp_all add: add_member_def)
    show thesis
      by (rule that [of g1]) (use h ok(1) ok(2) [OF Inl] r in \<open>auto simp: update_conv' ready_def same_view_def\<close>)
  next
    case (Inr y)
    obtain cm wl inf where y: "y = (cm, wl, inf)" by (metis prod_cases3)
    obtain p2 g2 where m: "ml_merge_pending ?X p1 g1 = (p2, g2, Inr ())" "\<not> ml_pending_commit ?X g2"
        "credentials ?X g2 = insert (identity kp) (credentials ?X g1)" "ml_epoch ?X g2 = ml_epoch ?X g1 + 1"
      by (rule awaits_merge [OF ok(3) [OF Inr]])
    have "on_group H i (\<lambda>p grp. then_call (lib_call (\<lambda>e. EMlsCommit (''Failed to add member: '' @ e))
            (ml_add_members ?X p (mg_signature_keypair H) kp grp))
         (\<lambda>p grp (cm, wl, inf). merge_pending_commit E (\<lambda>e. EMlsCommit (''Failed to merge pending commit after add: '' @ e)) p grp
              \<lparr>ad_commit = cm, ad_welcome = wl, ad_group_info = inf\<rparr>))
        = (H\<lparr>mg_provider := p2, mg_groups := AList.update i g2 (mg_groups H)\<rparr>,
           Inr \<lparr>ad_commit = cm, ad_welcome = wl, ad_group_info = inf\<rparr>)"
      by (rule on_group_known [OF g]) (simp add: add Inr y merge_pending_commit_def m)
    with e have h: "H' = H\<lparr>mg_provider := p2, mg_groups := AList.update i g2 (mg_groups H)\<rparr>"
        "res = Inr \<lparr>ad_commit = cm, ad_welcome = wl, ad_group_info = inf\<rparr>" by (simp_all add: add_member_def)
    show thesis
      by (rule that [of g2]) (use h ok(1) m r in \<open>auto simp: update_conv' ready_def same_view_def\<close>)
  qed
qed

lemma add_member_frame:
  assumes "add_member E H i kp = (H', res)" and "j \<noteq> i"
  shows "map_of (mg_groups H') j = map_of (mg_groups H) j"
  using assms unfolding add_member_def by (rule on_group_frame)

lemma readd_members_exact:
  assumes X: "commits_ok (mv_lib E) identity"
    and "map_of (mg_groups H) i = Some g" and "ready (mv_lib E) cs n g"
    and "readd_members E i kps dids (ws, ds) H = (H', ws', ds')"
  shows "\<exists>new g'. map fst ws' = map fst ws @ new \<and> ds' = ds @ new \<and> subseq new dids \<and>
    (\<forall>d \<in> set new. d \<noteq> mg_local_did H \<and> kps d \<noteq> None) \<and>
    map_of (mg_groups H') i = Some g' \<and>
    ready (mv_lib E) (cs \<union> (\<lambda>d. identity (the (kps d))) ` set new) (n + length new) g' \<and>
    (\<forall>j. j \<noteq> i \<longrightarrow> map_of (mg_groups H') j = map_of (mg_groups H) j)"
  using assms(2-)
proof (induction dids arbitrary: ws ds H g cs n)
  case Nil
  then show ?case by auto
next
  case (Cons d dids)
  show ?case
  proof (cases "d = mg_local_did H \<or> kps d = None")
    case True
    with Cons.prems(3) have "readd_members E i kps dids (ws, ds) H = (H', ws', ds')" by (auto split: if_splits)
    from Cons.IH [OF Cons.prems(1,2) this] show ?thesis by (blast intro: list_emb_Cons)
  next
    case False
    then obtain kp where kp: "kps d = Some kp" and d: "d \<noteq> mg_local_did H" by auto
    obtain H1 res where a: "add_member E H i kp = (H1, res)" by fastforce
    obtain g1 where g1: "map_of (mg_groups H1) i = Some g1" "mg_local_did H1 = mg_local_did H"
      and after: "case res of Inl _ \<Rightarrow> ready (mv_lib E) cs n g1 | Inr _ \<Rightarrow> ready (mv_lib E) (insert (identity kp) cs) (n + 1) g1"
      by (rule add_member_ready [OF X Cons.prems(1,2) a])
    note fr = add_member_frame [OF a]
    show ?thesis
    proof (cases res)
      case (Inl err)
      with Cons.prems(3) kp d a have "readd_members E i kps dids (ws, ds) H1 = (H', ws', ds')" by simp
      from Inl after have "ready (mv_lib E) cs n g1" by simp
      from Cons.IH [OF g1(1) this \<open>readd_members _ _ _ _ _ H1 = _\<close>] fr g1(2) show ?thesis by (auto intro: list_emb_Cons)
    next
      case (Inr x)
      with Cons.prems(3) kp d a
      have re: "readd_members E i kps dids (ws @ [(d, ad_welcome x)], ds @ [d]) H1 = (H', ws', ds')" by simp
      from Inr after have rd: "ready (mv_lib E) (insert (identity kp) cs) (n + 1) g1" by simp
      from Cons.IH [OF g1(1) rd re] obtain new g' where n: "map fst ws' = map fst (ws @ [(d, ad_welcome x)]) @ new"
          "ds' = (ds @ [d]) @ new" "subseq new dids" "\<forall>d \<in> set new. d \<noteq> mg_local_did H1 \<and> kps d \<noteq> None"
          "map_of (mg_groups H') i = Some g'"
          "ready (mv_lib E) (insert (identity kp) cs \<union> (\<lambda>d. identity (the (kps d))) ` set new) (n + 1 + length new) g'"
          "\<forall>j. j \<noteq> i \<longrightarrow> map_of (mg_groups H') j = map_of (mg_groups H1) j"
        by auto
      have "insert (identity kp) cs \<union> (\<lambda>d. identity (the (kps d))) ` set new
          = cs \<union> (\<lambda>d. identity (the (kps d))) ` set (d # new)" using kp by auto
      with n d kp fr g1(2) show ?thesis
        by (intro exI [of _ "d # new"] exI [of _ g']) (auto simp: add.assoc)
    qed
  qed
qed


lemma remove_group_forgets:
  "map_of (mg_groups (remove_group E H i)) j = (if j = i then None else map_of (mg_groups H) j)"
  by (simp add: remove_group_def delete_conv' split: option.split)

lemma remove_group_fields [simp]:
  "mg_local_did (remove_group E H i) = mg_local_did H"
  "mg_credential_with_key (remove_group E H i) = mg_credential_with_key H"
  "mg_desync_counters (remove_group E H i) = mg_desync_counters H"
  by (simp_all add: remove_group_def split: option.split)

lemma clear_desync_fields [simp]:
  "mg_groups (clear_desync H i) = mg_groups H" "mg_local_did (clear_desync H i) = mg_local_did H"
  "mg_credential_with_key (clear_desync H i) = mg_credential_with_key H"
  by (simp_all add: clear_desync_def split: option.split)



end
