(* ===== verification/Websocket.thy ===== *)
theory Websocket
  imports Proto "HOL-Library.AList"
begin

section \<open>The WebSocket side of the application (\<open>variance-app/src/websocket.rs\<close>)\<close>

text \<open>
  The messages the backend pushes to its clients, their categories, and the manager of the
  connected clients: each has a queue (its unbounded channel) and subscription flags. A
  client's queue is the list of messages sent to it; forwarding it to the socket is I/O.
\<close>

datatype ws_message =
    CallIncoming string did string
  | CallAnswer string did string
  | IceCandidate string did string
  | CallControl string did string
  | CallEnded string string
  | CallStateChanged string string
  | DirectMessageReceived did string string int "string option"
  | DirectMessageSent did string string int "string option"
  | DirectMessageNack string string
  | DirectMessageStatusChanged string string
  | GroupMessageReceived string did string int
  | MlsGroupJoined string "string option" did
  | GroupInvitationReceived string string did "string option"
  | GroupInvitationAccepted string did "string option"
  | GroupInvitationDeclined string did
  | GroupInvitationExpired string did
  | RoleChanged string did string did
  | MlsGroupRemoved string string
  | GroupMemberRemoved string did
  | GroupDesyncDetected string nat nat
  | GroupReinitialized string string
  | GroupFrozen string
  | OfflineMessagesReceived nat
  | TypingStarted did string
  | TypingStopped did string
  | ReceiptRead string
  | ReceiptDelivered string
  | GroupReceiptDelivered string string did
  | GroupReceiptRead string string did
  | PresenceUpdated did bool "string option"
  | PeerRenamedMsg did string
  | Connected string
  | PingMsg
  | PongMsg

datatype message_category = SignalingCategory | MessagesCategory | PresenceCategory | SystemCategory

fun category :: "ws_message \<Rightarrow> message_category" where
  "category (CallIncoming _ _ _) = SignalingCategory"
| "category (CallAnswer _ _ _) = SignalingCategory"
| "category (IceCandidate _ _ _) = SignalingCategory"
| "category (CallControl _ _ _) = SignalingCategory"
| "category (CallEnded _ _) = SignalingCategory"
| "category (CallStateChanged _ _) = SignalingCategory"
| "category (PresenceUpdated _ _ _) = PresenceCategory"
| "category (PeerRenamedMsg _ _) = PresenceCategory"
| "category (Connected _) = SystemCategory"
| "category PingMsg = SystemCategory"
| "category PongMsg = SystemCategory"
| "category _ = MessagesCategory"

record client_subscription =
  cs_signaling :: bool
  cs_messages :: bool
  cs_presence :: bool

definition subscription_default :: client_subscription where
  "subscription_default = \<lparr>cs_signaling = True, cs_messages = True, cs_presence = True\<rparr>"

definition accepts :: "client_subscription \<Rightarrow> message_category \<Rightarrow> bool" where
  "accepts s c = (case c of
     SignalingCategory \<Rightarrow> cs_signaling s
   | MessagesCategory \<Rightarrow> cs_messages s
   | PresenceCategory \<Rightarrow> cs_presence s
   | SystemCategory \<Rightarrow> True)"

record connected_client =
  cc_did :: "did option"
  cc_tx :: "ws_message list"
  cc_subscriptions :: client_subscription

type_synonym ws_clients = "(string \<times> connected_client) list"

definition ws_register :: "ws_clients \<Rightarrow> string \<Rightarrow> connected_client \<Rightarrow> ws_clients" where
  "ws_register clients client_id client = AList.update client_id client clients"

definition ws_unregister :: "ws_clients \<Rightarrow> string \<Rightarrow> ws_clients" where
  "ws_unregister clients client_id = AList.delete client_id clients"

definition tx_send :: "ws_message \<Rightarrow> connected_client \<Rightarrow> connected_client" where
  "tx_send m client = client\<lparr>cc_tx := cc_tx client @ [m]\<rparr>"

definition broadcast :: "ws_message \<Rightarrow> ws_clients \<Rightarrow> ws_clients" where
  "broadcast m clients =
     map (\<lambda>(i, client). (i, if accepts (cc_subscriptions client) (category m) then tx_send m client else client)) clients"

definition send_to :: "ws_clients \<Rightarrow> string \<Rightarrow> ws_message \<Rightarrow> ws_clients" where
  "send_to clients client_id m = AList.map_entry client_id (tx_send m) clients"

definition client_count :: "ws_clients \<Rightarrow> nat" where
  "client_count clients = length clients"

definition client_new :: connected_client where
  "client_new = \<lparr>cc_did = None, cc_tx = [], cc_subscriptions = subscription_default\<rparr>"

subsection \<open>What a client gets\<close>

text \<open>The queue of a client after a broadcast: one more message, or none.\<close>

definition queue_of :: "ws_clients \<Rightarrow> string \<Rightarrow> ws_message list" where
  "queue_of clients client_id = (case map_of clients client_id of None \<Rightarrow> [] | Some c \<Rightarrow> cc_tx c)"

definition wants :: "ws_clients \<Rightarrow> string \<Rightarrow> ws_message \<Rightarrow> bool" where
  "wants clients client_id m =
     (case map_of clients client_id of None \<Rightarrow> False | Some c \<Rightarrow> accepts (cc_subscriptions c) (category m))"

lemma map_of_broadcast:
  "map_of (broadcast m clients) i
     = map_option (\<lambda>c. if accepts (cc_subscriptions c) (category m) then tx_send m c else c) (map_of clients i)"
  unfolding broadcast_def by (induction clients) auto

lemma queue_broadcast: "queue_of (broadcast m clients) i = queue_of clients i @ (if wants clients i m then [m] else [])"
  by (simp add: queue_of_def wants_def map_of_broadcast tx_send_def split: option.split)

lemma wants_broadcast [simp]: "wants (broadcast m clients) i m' = wants clients i m'"
  by (simp add: wants_def map_of_broadcast tx_send_def split: option.split)

lemma keys_broadcast [simp]: "map fst (broadcast m clients) = map fst clients"
  by (simp add: broadcast_def comp_def case_prod_unfold)

lemma map_of_send_to: "map_of (send_to clients i m) j = (if j = i then map_option (tx_send m) (map_of clients i) else map_of clients j)"
  by (simp add: send_to_def map_of_map_entry split: option.split)

end
