(* ===== verification/App_State.thy ===== *)
theory App_State
  imports Direct_Sessions Mls_Recovery Receipts Invite_Store Usernames Websocket Media_Signaling
begin

section \<open>The application's shared state (\<open>variance-app/src/event_router\<close>, \<open>state.rs\<close>)\<close>

text \<open>
  What the event listeners and the API handlers work on: the direct message handler, whose
  storage is the application's local message storage; the MLS handler; the username registry;
  the WebSocket clients; and what went out through the \<open>NodeHandle\<close>, as a list of calls
  (\<open>EmitDirectSent\<close> and \<open>EmitGroupSent\<close> are the events the API puts on the event channels). The answer of the
  network to a call is \<open>ae_answer\<close>. Clock readings, ULIDs and nonces come from
  \<open>draws\<close>, one index for each that a handler takes. \<open>MlsPersister::schedule\<close> sets a flag;
  \<open>mls_persist\<close> is the write it leads to. The log lines are left out.
\<close>

datatype handle_call =
    CallPublish string group_message
  | CallSubscribe string
  | CallUnsubscribe string
  | CallSendReceipt did read_receipt
  | CallSendDirect did direct_message
  | CallUpdateKeys "bytes list"
  | CallUpdateKeyPackage bytes
  | CallRequestSync did string int nat
  | CallRespondSync nat group_sync_response
  | CallSendTyping did typing_indicator
  | CallBroadcastTyping "did list" typing_indicator
  | CallSendSignaling did signaling_message
  | CallProvideUsername string
  | CallSetUsername string nat
  | CallBroadcastUsername did string nat bytes
  | CallSetIdentity did bytes "bytes list" "bytes option" bytes "(did_document \<times> bytes option) option"
  | EmitDirectSent string did
  | EmitGroupSent string string

datatype group_payload = PayloadMessage message_content | PayloadReceipt group_read_receipt

record ('acc, 'sess, 't, 'r, 'g, 'm, 'kp, 'q) app_env =
  ae_direct :: "('acc, 'sess, 't) direct_env"
  ae_mls :: "('r, 'g, 'm, 'kp, 'q, 't) mls_env"
  ae_payload :: "group_payload option codec"
  ae_sign_receipt :: "bytes \<Rightarrow> bytes"
  ae_unicode :: unicode
  ae_answer :: "handle_call \<Rightarrow> string option"

record draws =
  dr_now :: "nat \<Rightarrow> int"
  dr_ulid :: "nat \<Rightarrow> string"
  dr_nonce :: "nat \<Rightarrow> bytes"

record ('acc, 'sess, 't, 'r, 'g) app =
  ap_direct :: "('acc, 'sess, 't) direct_handler"
  ap_mls :: "('r, 'g) mls_handler"
  ap_local_did :: did
  ap_usernames :: username_registry
  ap_ws :: ws_clients
  ap_calls :: "handle_call list"
  ap_persist :: bool

definition app_store :: "('acc, 'sess, 't, 'r, 'g, 'm, 'kp, 'q) app_env \<Rightarrow> 't store_env" where
  "app_store E = de_store (ae_direct E)"

definition app_db :: "('acc, 'sess, 't, 'r, 'g) app \<Rightarrow> 't message_db" where
  "app_db A = dh_storage (ap_direct A)"

definition with_db :: "'t message_db \<Rightarrow> ('acc, 'sess, 't, 'r, 'g) app \<Rightarrow> ('acc, 'sess, 't, 'r, 'g) app" where
  "with_db db A = A\<lparr>ap_direct := (ap_direct A)\<lparr>dh_storage := db\<rparr>\<rparr>"

definition notify :: "ws_message \<Rightarrow> ('acc, 'sess, 't, 'r, 'g) app \<Rightarrow> ('acc, 'sess, 't, 'r, 'g) app" where
  "notify m A = A\<lparr>ap_ws := broadcast m (ap_ws A)\<rparr>"

definition ask :: "handle_call \<Rightarrow> ('acc, 'sess, 't, 'r, 'g) app \<Rightarrow> ('acc, 'sess, 't, 'r, 'g) app" where
  "ask c A = A\<lparr>ap_calls := ap_calls A @ [c]\<rparr>"

definition schedule_mls_persist :: "('acc, 'sess, 't, 'r, 'g) app \<Rightarrow> ('acc, 'sess, 't, 'r, 'g) app" where
  "schedule_mls_persist A = A\<lparr>ap_persist := True\<rparr>"

definition mls_persist ::
  "('acc, 'sess, 't, 'r, 'g, 'm, 'kp, 'q) app_env \<Rightarrow> ('acc, 'sess, 't, 'r, 'g) app \<Rightarrow> ('acc, 'sess, 't, 'r, 'g) app" where
  "mls_persist E A =
     (with_db (store_mls_state (app_store E) (app_db A) (ap_local_did A) (export_state (ae_mls E) (ap_mls A))) A)
       \<lparr>ap_persist := False\<rparr>"

definition group_topic :: "string \<Rightarrow> string" where
  "group_topic group_id = ''/variance/group/'' @ group_id"

text \<open>The MLS handler's operations on the application's state, and metadata read with \<open>if let Ok(Some(..))\<close>.\<close>

definition on_mls ::
  "(('r, 'g) mls_handler \<Rightarrow> ('r, 'g) mls_handler \<times> 'a) \<Rightarrow> ('acc, 'sess, 't, 'r, 'g) app \<Rightarrow> ('acc, 'sess, 't, 'r, 'g) app \<times> 'a" where
  "on_mls f A = (let (H, r) = f (ap_mls A) in (A\<lparr>ap_mls := H\<rparr>, r))"

definition members_or_empty ::
  "('acc, 'sess, 't, 'r, 'g, 'm, 'kp, 'q) app_env \<Rightarrow> ('acc, 'sess, 't, 'r, 'g) app \<Rightarrow> string \<Rightarrow> did list" where
  "members_or_empty E A group_id =
     (case list_members (ae_mls E) (ap_mls A) group_id of Inl _ \<Rightarrow> [] | Inr dids \<Rightarrow> dids)"

definition metadata_of ::
  "('acc, 'sess, 't, 'r, 'g, 'm, 'kp, 'q) app_env \<Rightarrow> ('acc, 'sess, 't, 'r, 'g) app \<Rightarrow> string \<Rightarrow> group_meta option" where
  "metadata_of E A group_id = fetch_group_metadata (app_store E) (app_db A) group_id"

definition put_metadata ::
  "('acc, 'sess, 't, 'r, 'g, 'm, 'kp, 'q) app_env \<Rightarrow> group_meta \<Rightarrow> ('acc, 'sess, 't, 'r, 'g) app \<Rightarrow> ('acc, 'sess, 't, 'r, 'g) app" where
  "put_metadata E meta A = with_db (store_group_metadata (app_store E) (app_db A) meta) A"

subsection \<open>Field lemmas\<close>

named_theorems app_simps \<open>fields after an update of the application's state\<close>

lemma app_fields [simp]:
  "app_db (with_db db A) = db" "ap_mls (with_db db A) = ap_mls A" "ap_local_did (with_db db A) = ap_local_did A"
  "ap_ws (with_db db A) = ap_ws A" "ap_calls (with_db db A) = ap_calls A" "ap_persist (with_db db A) = ap_persist A"
  "ap_usernames (with_db db A) = ap_usernames A" "dh_sessions (ap_direct (with_db db A)) = dh_sessions (ap_direct A)"
  "app_db (notify m A) = app_db A" "ap_mls (notify m A) = ap_mls A" "ap_local_did (notify m A) = ap_local_did A"
  "ap_ws (notify m A) = broadcast m (ap_ws A)" "ap_calls (notify m A) = ap_calls A" "ap_persist (notify m A) = ap_persist A"
  "ap_usernames (notify m A) = ap_usernames A" "ap_direct (notify m A) = ap_direct A"
  "app_db (ask c A) = app_db A" "ap_mls (ask c A) = ap_mls A" "ap_local_did (ask c A) = ap_local_did A"
  "ap_ws (ask c A) = ap_ws A" "ap_calls (ask c A) = ap_calls A @ [c]" "ap_persist (ask c A) = ap_persist A"
  "ap_usernames (ask c A) = ap_usernames A" "ap_direct (ask c A) = ap_direct A"
  "app_db (schedule_mls_persist A) = app_db A" "ap_mls (schedule_mls_persist A) = ap_mls A"
  "ap_local_did (schedule_mls_persist A) = ap_local_did A" "ap_ws (schedule_mls_persist A) = ap_ws A"
  "ap_calls (schedule_mls_persist A) = ap_calls A" "ap_persist (schedule_mls_persist A) = True"
  "ap_usernames (schedule_mls_persist A) = ap_usernames A" "ap_direct (schedule_mls_persist A) = ap_direct A"
  "app_db (A\<lparr>ap_mls := H\<rparr>) = app_db A" "app_db (A\<lparr>ap_usernames := u\<rparr>) = app_db A"
  by (simp_all add: with_db_def app_db_def notify_def ask_def schedule_mls_persist_def)

end
