(* ===== verification/Direct_Router.thy ===== *)
theory Direct_Router
  imports App_State
begin

section \<open>The direct message listener and the invitation sweep (\<open>event_router/messaging.rs\<close>)\<close>

text \<open>
  One definition per handler: the control messages of group invitations, which arrive as
  direct messages, the ordinary direct messages with their delivery receipt, the replenishment
  of one-time keys, the other events of the listener, and the sweep of expired invitations.
  The channel the events come from and the endless loop around it are left out.
\<close>

definition handle_group_invitation_dm ::
  "('acc, 'sess, 't, 'r, 'g, 'm, 'kp, 'q) app_env \<Rightarrow> string \<Rightarrow> did \<Rightarrow> ('acc, 'sess, 't, 'r, 'g) app
     \<Rightarrow> ('acc, 'sess, 't, 'r, 'g) app \<times> (string + unit)" where
  "handle_group_invitation_dm E invitation_hex from_did A =
     (case hex_decode invitation_hex of
        None \<Rightarrow> (A, Inl ''Invalid invitation hex'')
      | Some invitation_bytes \<Rightarrow>
          (case cd_decode (se_invitation (app_store E)) invitation_bytes of
             None \<Rightarrow> (A, Inl ''Failed to decode GroupInvitation proto'')
           | Some invitation \<Rightarrow>
               (let A = with_db (store_pending_invitation (app_store E) (app_db A) invitation) A
                in (notify (GroupInvitationReceived (gi_group_id invitation) (gi_group_name invitation) from_did
                      (get_display_name (ap_usernames A) from_did)) A, Inr ()))))"

definition broadcast_stored_commit ::
  "('acc, 'sess, 't, 'r, 'g, 'm, 'kp, 'q) app_env \<Rightarrow> draws \<Rightarrow> string \<Rightarrow> did \<Rightarrow> ('acc, 'sess, 't, 'r, 'g) app
     \<Rightarrow> ('acc, 'sess, 't, 'r, 'g) app" where
  "broadcast_stored_commit E D group_id invitee_did A =
     (case fetch_outbound_invite (app_store E) (app_db A) group_id invitee_did of
        Inr (Some (invitation, _)) \<Rightarrow>
          if gi_mls_commit invitation \<noteq> []
          then ask (CallPublish (group_topic group_id)
             \<lparr>gm_id = dr_ulid D 0, gm_sender_did = ap_local_did A, gm_group_id = group_id, gm_timestamp = dr_now D 0,
              gm_type = 0, gm_reply_to = None, gm_mls_ciphertext = gi_mls_commit invitation\<rparr>) A
          else A
      | _ \<Rightarrow> A)"

definition add_member_metadata ::
  "('acc, 'sess, 't, 'r, 'g, 'm, 'kp, 'q) app_env \<Rightarrow> int \<Rightarrow> string \<Rightarrow> did \<Rightarrow> ('acc, 'sess, 't, 'r, 'g) app
     \<Rightarrow> ('acc, 'sess, 't, 'r, 'g) app" where
  "add_member_metadata E now group_id invitee_did A =
     (case metadata_of E A group_id of
        None \<Rightarrow> A
      | Some meta \<Rightarrow>
          if list_ex (\<lambda>m. mb_did m = invitee_did) (gr_members meta) then A
          else put_metadata E (meta\<lparr>gr_members := gr_members meta @
             [\<lparr>mb_did = invitee_did, mb_role = 1, mb_joined_at = now, mb_nickname = None\<rparr>]\<rparr>) A)"

definition handle_invite_accepted_dm ::
  "('acc, 'sess, 't, 'r, 'g, 'm, 'kp, 'q) app_env \<Rightarrow> draws \<Rightarrow> string \<Rightarrow> did \<Rightarrow> ('acc, 'sess, 't, 'r, 'g) app
     \<Rightarrow> ('acc, 'sess, 't, 'r, 'g) app" where
  "handle_invite_accepted_dm E D group_id invitee_did A =
     (case on_mls (\<lambda>H. confirm_add_member (ae_mls E) H group_id) A of
        (A, Inl _) \<Rightarrow> A
      | (A, Inr _) \<Rightarrow>
          (let A = schedule_mls_persist A;
               A = broadcast_stored_commit E D group_id invitee_did A;
               A = add_member_metadata E (dr_now D 1) group_id invitee_did A;
               A = with_db (delete_outbound_invite (app_store E) (app_db A) group_id invitee_did) A
           in notify (GroupInvitationAccepted group_id invitee_did (get_display_name (ap_usernames A) invitee_did)) A))"

definition handle_invite_declined_dm ::
  "('acc, 'sess, 't, 'r, 'g, 'm, 'kp, 'q) app_env \<Rightarrow> string \<Rightarrow> did \<Rightarrow> ('acc, 'sess, 't, 'r, 'g) app
     \<Rightarrow> ('acc, 'sess, 't, 'r, 'g) app" where
  "handle_invite_declined_dm E group_id invitee_did A =
     (let A = fst (on_mls (\<lambda>H. cancel_add_member (ae_mls E) H group_id) A);
          A = schedule_mls_persist A;
          A = with_db (delete_outbound_invite (app_store E) (app_db A) group_id invitee_did) A
      in notify (GroupInvitationDeclined group_id invitee_did) A)"

text \<open>An ordinary message: shown, then acknowledged with a stored and sent receipt.\<close>

definition acknowledge_delivery ::
  "('acc, 'sess, 't, 'r, 'g, 'm, 'kp, 'q) app_env \<Rightarrow> int \<Rightarrow> did \<Rightarrow> string \<Rightarrow> ('acc, 'sess, 't, 'r, 'g) app
     \<Rightarrow> ('acc, 'sess, 't, 'r, 'g) app" where
  "acknowledge_delivery E now from_did message_id A =
     (let (db, receipt) = send_delivered (app_store E) (ae_sign_receipt E) (ap_local_did A) (app_db A) now message_id
      in ask (CallSendReceipt from_did receipt) (with_db (store_pending_receipt (app_store E) db from_did receipt) A))"

definition replenish_keys ::
  "('acc, 'sess, 't, 'r, 'g, 'm, 'kp, 'q) app_env \<Rightarrow> ('acc, 'sess, 't, 'r, 'g) app \<Rightarrow> ('acc, 'sess, 't, 'r, 'g) app" where
  "replenish_keys E A =
     (let H = generate_one_time_keys (ae_direct E) (ap_direct A) 10;
          fresh_otks = map snd (one_time_keys (ae_direct E) H);
          H = mark_one_time_keys_as_published (ae_direct E) H;
          A = ask (CallUpdateKeys fresh_otks) (A\<lparr>ap_direct := H\<rparr>)
      in with_db (store_olm_pickle (app_store E) (app_db A) (ap_local_did A) (account_pickle (ae_direct E) H)) A)"

definition handle_dm_content ::
  "('acc, 'sess, 't, 'r, 'g, 'm, 'kp, 'q) app_env \<Rightarrow> draws \<Rightarrow> direct_message \<Rightarrow> message_content \<Rightarrow> ('acc, 'sess, 't, 'r, 'g) app
     \<Rightarrow> ('acc, 'sess, 't, 'r, 'g) app" where
  "handle_dm_content E D message content A =
     (let from_did = dm_sender_did message;
          forget = (\<lambda>A. with_db (delete_direct_by_id (app_store E) (app_db A) from_did (ap_local_did A)
             (dm_timestamp message) (dm_id message)) A);
          dm_type = map_of (mc_metadata content) ''type''
      in if dm_type = Some ''mls_group_invitation''
         then forget (case map_of (mc_metadata content) ''invitation'' of
                None \<Rightarrow> A
              | Some invitation_hex \<Rightarrow> fst (handle_group_invitation_dm E invitation_hex from_did A))
         else if dm_type = Some ''mls_invite_accepted''
         then forget (case map_of (mc_metadata content) ''group_id'' of
                None \<Rightarrow> A
              | Some group_id \<Rightarrow> handle_invite_accepted_dm E D group_id from_did A)
         else if dm_type = Some ''mls_invite_declined''
         then forget (case map_of (mc_metadata content) ''group_id'' of
                None \<Rightarrow> A
              | Some group_id \<Rightarrow> handle_invite_declined_dm E group_id from_did A)
         else acknowledge_delivery E (dr_now D 2) from_did (dm_id message)
           (notify (DirectMessageReceived from_did (dm_id message) (mc_text content) (dm_timestamp message)
              (dm_reply_to message)) A))"

definition on_direct_received ::
  "('acc, 'sess, 't, 'r, 'g, 'm, 'kp, 'q) app_env \<Rightarrow> draws \<Rightarrow> direct_message \<Rightarrow> ('acc, 'sess, 't, 'r, 'g) app
     \<Rightarrow> ('acc, 'sess, 't, 'r, 'g) app" where
  "on_direct_received E D message A =
     (case receive_message (ae_direct E) (ap_direct A) (dr_nonce D 0) message of
        (H, Inl _) \<Rightarrow> A\<lparr>ap_direct := H\<rparr>
      | (H, Inr content) \<Rightarrow>
          (let A = handle_dm_content E D message content (A\<lparr>ap_direct := H\<rparr>)
           in if dm_olm_message_type message = 0 then replenish_keys E A else A))"

datatype direct_event =
    DirectReceived direct_message
  | DirectSent string did
  | DeliveryNack string string
  | DeliveryFailed string did

definition on_direct_event ::
  "('acc, 'sess, 't, 'r, 'g, 'm, 'kp, 'q) app_env \<Rightarrow> draws \<Rightarrow> direct_event \<Rightarrow> ('acc, 'sess, 't, 'r, 'g) app
     \<Rightarrow> ('acc, 'sess, 't, 'r, 'g) app" where
  "on_direct_event E D event A =
     (case event of
        DirectReceived message \<Rightarrow> on_direct_received E D message A
      | DirectSent _ _ \<Rightarrow> A
      | DeliveryNack message_id err \<Rightarrow> notify (DirectMessageNack message_id err) A
      | DeliveryFailed message_id _ \<Rightarrow> notify (DirectMessageStatusChanged message_id ''pending'') A)"

subsection \<open>The sweep of expired invitations\<close>

definition invite_timeout_ms :: int where
  "invite_timeout_ms = 5 * 60 * 1000"

definition expire_invite ::
  "('acc, 'sess, 't, 'r, 'g, 'm, 'kp, 'q) app_env \<Rightarrow> string \<times> did \<times> group_invitation \<Rightarrow> ('acc, 'sess, 't, 'r, 'g) app
     \<Rightarrow> ('acc, 'sess, 't, 'r, 'g) app" where
  "expire_invite E invite A =
     (case invite of (group_id, invitee_did, _) \<Rightarrow>
        (let A = fst (on_mls (\<lambda>H. cancel_add_member (ae_mls E) H group_id) A);
             A = with_db (delete_outbound_invite (app_store E) (app_db A) group_id invitee_did) A
         in notify (GroupInvitationExpired group_id invitee_did) A))"

definition invite_timeout_sweep ::
  "('acc, 'sess, 't, 'r, 'g, 'm, 'kp, 'q) app_env \<Rightarrow> int \<Rightarrow> ('acc, 'sess, 't, 'r, 'g) app \<Rightarrow> ('acc, 'sess, 't, 'r, 'g) app" where
  "invite_timeout_sweep E now_ms A =
     (let expired = fetch_expired_outbound_invites (app_store E) (app_db A) invite_timeout_ms now_ms;
          A = fold (expire_invite E) expired A
      in if expired \<noteq> [] then schedule_mls_persist A else A)"

end
