(* ===== verification/Social_Router.thy ===== *)
theory Social_Router
  imports App_State Typing Call_Handler Identity_Cache
begin

section \<open>The social listeners (\<open>event_router/social.rs\<close>)\<close>

text \<open>
  Typing, receipt, rename and identity events. Each function takes the parts of the program
  that its listener holds besides the application's state. When a peer connects, the pending
  messages and receipts for it go out and group sync is asked of it.
\<close>

definition on_typing_event ::
  "('acc, 'sess, 't, 'r, 'g, 'm, 'kp, 'q) app_env \<Rightarrow> int \<Rightarrow> did \<Rightarrow> string \<Rightarrow> bool
     \<Rightarrow> typing_handler \<times> ('acc, 'sess, 't, 'r, 'g) app \<Rightarrow> typing_handler \<times> ('acc, 'sess, 't, 'r, 'g) app" where
  "on_typing_event E now sender_did recipient is_typing st =
     (case st of (typing, A) \<Rightarrow>
        (let group_id = strip_prefix ''group:'' recipient;
             dropped = (case group_id of None \<Rightarrow> False | Some g \<Rightarrow> sender_did \<notin> set (members_or_empty E A g));
             indicator = \<lparr>ti_sender_did = sender_did,
               ti_recipient = Some (case group_id of Some g \<Rightarrow> GroupId g | None \<Rightarrow> RecipientDid recipient),
               ti_is_typing = is_typing, ti_timestamp = now\<rparr>
         in if dropped then (typing, A)
            else (receive_indicator typing now indicator,
                  notify (if is_typing then TypingStarted sender_did recipient else TypingStopped sender_did recipient) A)))"

definition on_receipt_event ::
  "('acc, 'sess, 't, 'r, 'g, 'm, 'kp, 'q) app_env \<Rightarrow> read_receipt \<Rightarrow> ('acc, 'sess, 't, 'r, 'g) app \<Rightarrow> ('acc, 'sess, 't, 'r, 'g) app" where
  "on_receipt_event E receipt A =
     notify (if rr_status receipt = receipt_read then ReceiptRead (rr_message_id receipt) else ReceiptDelivered (rr_message_id receipt))
       (with_db (receive_receipt (app_store E) (app_db A) receipt) A)"

definition learn_name ::
  "('acc, 'sess, 't, 'r, 'g, 'm, 'kp, 'q) app_env \<Rightarrow> did \<Rightarrow> string \<Rightarrow> nat \<Rightarrow> ('acc, 'sess, 't, 'r, 'g) app \<Rightarrow> ('acc, 'sess, 't, 'r, 'g) app" where
  "learn_name E did username discriminator A =
     with_db (store_peer_name (app_store E) (app_db A) did username discriminator)
       (A\<lparr>ap_usernames := cache_mapping (ae_unicode E) (ap_usernames A) username discriminator did\<rparr>)"

definition on_rename_event ::
  "('acc, 'sess, 't, 'r, 'g, 'm, 'kp, 'q) app_env \<Rightarrow> did \<Rightarrow> string \<Rightarrow> nat \<Rightarrow> ('acc, 'sess, 't, 'r, 'g) app \<Rightarrow> ('acc, 'sess, 't, 'r, 'g) app" where
  "on_rename_event E did username discriminator A =
     notify (PeerRenamedMsg did (format_username (uc_to_lowercase (ae_unicode E) username) discriminator))
       (learn_name E did username discriminator A)"

subsection \<open>Identity and presence\<close>

definition announced_name :: "identity_found \<Rightarrow> did_document \<Rightarrow> (string \<times> nat) option" where
  "announced_name found doc =
     (let parsed = (case dd_display_name doc of
            None \<Rightarrow> None
          | Some dn \<Rightarrow>
              (case rsplit_once CHR ''#'' dn of
                 None \<Rightarrow> None
               | Some (name, disc_str) \<Rightarrow> map_option (\<lambda>disc. (name, disc)) (parse_u32 disc_str)))
      in case (if_username found, if_discriminator found) of
           (Some name, Some disc) \<Rightarrow> if name \<noteq> [] \<and> disc > 0 then Some (name, disc) else parsed
         | _ \<Rightarrow> parsed)"

definition on_identity_answer ::
  "('acc, 'sess, 't, 'r, 'g, 'm, 'kp, 'q) app_env \<Rightarrow> identity_response \<Rightarrow> ('acc, 'sess, 't, 'r, 'g) app \<Rightarrow> ('acc, 'sess, 't, 'r, 'g) app" where
  "on_identity_answer E response A =
     (case ir_result response of
        Some (Found found) \<Rightarrow>
          (case if_did_document found of
             None \<Rightarrow> A
           | Some doc \<Rightarrow>
               (case announced_name found doc of
                  None \<Rightarrow> A
                | Some (name, disc) \<Rightarrow> learn_name E (dd_id doc) name disc A))
      | _ \<Rightarrow> A)"

definition purge_peer_nonces :: "'pc call_manager \<Rightarrow> did \<Rightarrow> string list \<Rightarrow> 'sk media_handler \<Rightarrow> 'sk media_handler" where
  "purge_peer_nonces M did active_calls h =
     fold (\<lambda>call_id h. if get_remote_peer M call_id = Some did then purge_call_nonces h call_id else h) active_calls h"

definition on_peer_offline ::
  "('ct, 'sk, 'xs) cache_env \<Rightarrow> 'pc call_manager \<Rightarrow> string list \<Rightarrow> did
     \<Rightarrow> ('ct, 'sk, 'xs) layered_cache \<times> 'mk media_handler \<times> ('acc, 'sess, 't, 'r, 'g) app
     \<Rightarrow> ('ct, 'sk, 'xs) layered_cache \<times> 'mk media_handler \<times> ('acc, 'sess, 't, 'r, 'g) app" where
  "on_peer_offline C M active_calls did st =
     (case st of (cache, h, A) \<Rightarrow>
        (cache_remove C cache did, purge_peer_nonces M did active_calls h,
         notify (PresenceUpdated did False (get_display_name (ap_usernames A) did)) A))"

definition flush_message ::
  "('acc, 'sess, 't, 'r, 'g, 'm, 'kp, 'q) app_env \<Rightarrow> did \<Rightarrow> direct_message \<Rightarrow> ('acc, 'sess, 't, 'r, 'g) app \<Rightarrow> ('acc, 'sess, 't, 'r, 'g) app" where
  "flush_message E did message A =
     (let c = CallSendDirect did message; A = ask c A
      in if ae_answer E c = None
         then A\<lparr>ap_direct := mark_pending_sent (ae_direct E) (ap_direct A) (dm_id message)\<rparr> else A)"

definition flush_messages ::
  "('acc, 'sess, 't, 'r, 'g, 'm, 'kp, 'q) app_env \<Rightarrow> did \<Rightarrow> ('acc, 'sess, 't, 'r, 'g) app \<Rightarrow> ('acc, 'sess, 't, 'r, 'g) app" where
  "flush_messages E did A =
     (case get_pending_messages (ae_direct E) (ap_direct A) did of
        Inl _ \<Rightarrow> A
      | Inr messages \<Rightarrow> fold (flush_message E did) messages A)"

definition flush_receipts ::
  "('acc, 'sess, 't, 'r, 'g, 'm, 'kp, 'q) app_env \<Rightarrow> did \<Rightarrow> ('acc, 'sess, 't, 'r, 'g) app \<Rightarrow> ('acc, 'sess, 't, 'r, 'g) app" where
  "flush_receipts E did A =
     (let (db, pending) = drain_pending_receipts (app_store E) (app_db A) did
      in fold (\<lambda>receipt. ask (CallSendReceipt did receipt)) pending (with_db db A))"

definition shared_groups ::
  "('acc, 'sess, 't, 'r, 'g, 'm, 'kp, 'q) app_env \<Rightarrow> did \<Rightarrow> ('acc, 'sess, 't, 'r, 'g) app \<Rightarrow> string list" where
  "shared_groups E did A = filter (\<lambda>g. did \<in> set (members_or_empty E A g)) (group_ids (ap_mls A))"

definition request_sync ::
  "('acc, 'sess, 't, 'r, 'g, 'm, 'kp, 'q) app_env \<Rightarrow> did \<Rightarrow> string \<Rightarrow> ('acc, 'sess, 't, 'r, 'g) app \<Rightarrow> ('acc, 'sess, 't, 'r, 'g) app" where
  "request_sync E did group_id A =
     (let since = (case latest_group_timestamp (app_store E) (app_db A) group_id of Inr (Some t) \<Rightarrow> t | _ \<Rightarrow> 0)
      in ask (CallRequestSync did group_id since 100) A)"

definition handle_peer_connected ::
  "('acc, 'sess, 't, 'r, 'g, 'm, 'kp, 'q) app_env \<Rightarrow> did \<Rightarrow> ('acc, 'sess, 't, 'r, 'g) app \<Rightarrow> ('acc, 'sess, 't, 'r, 'g) app" where
  "handle_peer_connected E did A =
     (let A = notify (PresenceUpdated did True (get_display_name (ap_usernames A) did)) A;
          A = flush_messages E did A;
          A = flush_receipts E did A
      in fold (request_sync E did) (shared_groups E did A) A)"

end
