(* ===== verification/Direct_Control.thy ===== *)
theory Direct_Control
  imports Direct_Router Social_Router Pending_Queue Group_Log
begin

section \<open>What the direct message listeners guarantee, and what they believe\<close>

text \<open>
  Lemmas on \<open>Direct_Router\<close> and \<open>Social_Router\<close>. A control message leaves the message log
  and the plaintexts of other ids as they were; a forged one is believed. A reconnecting peer
  is sent its queue, and the queue keeps exactly what could not be sent.
\<close>

subsection \<open>The parts of the application fit together\<close>

text \<open>One storage, shared by both handlers, as \<open>state.rs\<close> sets it up.\<close>

definition app_ok :: "('acc, 'sess, 't, 'r, 'g, 'm, 'kp, 'q) app_env \<Rightarrow> bool" where
  "app_ok E \<longleftrightarrow> direct_env_ok (ae_direct E) \<and> mv_store (ae_mls E) = de_store (ae_direct E)"

lemma app_okD [simp]:
  "app_ok E \<Longrightarrow> direct_env_ok (ae_direct E)"
  "app_ok E \<Longrightarrow> env_ok (app_store E)"
  "app_ok E \<Longrightarrow> mv_store (ae_mls E) = app_store E"
  "app_ok E \<Longrightarrow> env_ok (de_store (ae_direct E))"
  unfolding app_ok_def app_store_def direct_env_ok_def by blast+

text \<open>The application over the sample libraries.\<close>

definition counting_app_env ::
  "(handle_call \<Rightarrow> string option) \<Rightarrow> (unit, nat, (string, bytes) rbt, unit, ledger, ledger, bytes, ledger) app_env" where
  "counting_app_env answer =
     \<lparr>ae_direct = counting_env, ae_mls = ledger_env,
      ae_payload = \<lparr>cd_encode = (\<lambda>_. []), cd_decode = (\<lambda>_. None)\<rparr>, ae_sign_receipt = (\<lambda>_. replicate 64 0),
      ae_unicode = ascii_unicode, ae_answer = answer\<rparr>"

definition zero_draws :: draws where
  "zero_draws = \<lparr>dr_now = (\<lambda>_. 1000), dr_ulid = (\<lambda>_. ''u''), dr_nonce = (\<lambda>_. replicate 12 0)\<rparr>"

definition fresh_app :: "(string, bytes) rbt message_db \<Rightarrow> (unit, ledger) mls_handler \<Rightarrow> (unit, nat, (string, bytes) rbt, unit, ledger) app" where
  "fresh_app db H =
     \<lparr>ap_direct = direct_handler_new counting_env ''did:v:alice'' [] () db, ap_mls = H, ap_local_did = ''did:v:alice'',
      ap_usernames = registry_new, ap_ws = [], ap_calls = [], ap_persist = False\<rparr>"

lemma counting_app_ok: "app_ok (counting_app_env answer)"
proof -
  have "mv_store ledger_env = de_store counting_env" by (simp add: ledger_env_def counting_env_def)
  then show ?thesis by (simp add: app_ok_def counting_app_env_def counting_env_ok)
qed

subsection \<open>Control messages\<close>

lemma control_frames [simp]:
  "db_direct (store_pending_invitation S db iv) = db_direct db" "db_plaintext (store_pending_invitation S db iv) = db_plaintext db"
  "db_direct (store_group_metadata S db meta) = db_direct db" "db_plaintext (store_group_metadata S db meta) = db_plaintext db"
  "db_direct (delete_outbound_invite S db g d) = db_direct db" "db_plaintext (delete_outbound_invite S db g d) = db_plaintext db"
  by (simp_all add: store_pending_invitation_def store_group_metadata_def delete_outbound_invite_def)

text \<open>The log of direct messages and the plaintexts, which the handlers of control messages do not touch.\<close>

definition dm_trees :: "('acc, 'sess, 't, 'r, 'g) app \<Rightarrow> did \<times> 't \<times> 't" where
  "dm_trees A = (ap_local_did A, db_direct (app_db A), db_plaintext (app_db A))"

lemma dm_trees_fields [simp]:
  "dm_trees (notify m A) = dm_trees A" "dm_trees (ask c A) = dm_trees A" "dm_trees (schedule_mls_persist A) = dm_trees A"
  "dm_trees (A\<lparr>ap_mls := H\<rparr>) = dm_trees A" "dm_trees (put_metadata E meta A) = dm_trees A"
  "db_direct db = db_direct (app_db A) \<Longrightarrow> db_plaintext db = db_plaintext (app_db A) \<Longrightarrow> dm_trees (with_db db A) = dm_trees A"
  "dm_trees (fst (on_mls f A)) = dm_trees A"
  by (simp_all add: dm_trees_def put_metadata_def on_mls_def split: prod.split)

lemma dm_trees_invitation [simp]: "dm_trees (fst (handle_group_invitation_dm E h d A)) = dm_trees A"
  by (simp add: handle_group_invitation_dm_def Let_def split: option.split)

lemma dm_trees_on_mls: "on_mls f A = (A', r) \<Longrightarrow> dm_trees A' = dm_trees A"
  by (metis dm_trees_fields(7) fst_conv)

lemma dm_trees_commit [simp]: "dm_trees (broadcast_stored_commit E D g d A) = dm_trees A"
  by (simp add: broadcast_stored_commit_def split: sum.split option.split prod.split)

lemma dm_trees_member [simp]: "dm_trees (add_member_metadata E now g d A) = dm_trees A"
  by (simp add: add_member_metadata_def split: option.split)

lemma dm_trees_accepted [simp]: "dm_trees (handle_invite_accepted_dm E D g d A) = dm_trees A"
  by (auto simp: handle_invite_accepted_dm_def Let_def dest: dm_trees_on_mls split: sum.split prod.split)

lemma dm_trees_declined [simp]: "dm_trees (handle_invite_declined_dm E g d A) = dm_trees A"
  by (simp add: handle_invite_declined_dm_def Let_def)

definition control_types :: "string set" where
  "control_types = {''mls_group_invitation'', ''mls_invite_accepted'', ''mls_invite_declined''}"

definition is_control :: "message_content \<Rightarrow> bool" where
  "is_control content \<longleftrightarrow> (\<exists>k \<in> control_types. map_of (mc_metadata content) ''type'' = Some k)"

lemma control_content_trees:
  assumes "is_control content"
  shows "dm_trees (handle_dm_content E D m content A)
    = (ap_local_did A, sl_remove (se_sled (app_store E)) (db_direct (app_db A)) (direct_key (dm_sender_did m) (ap_local_did A) (dm_timestamp m) (dm_id m)),
       sl_remove (se_sled (app_store E)) (db_plaintext (app_db A)) (dm_id m))"
proof -
  have forget: "dm_trees (with_db (delete_direct_by_id (app_store E) (app_db B) (dm_sender_did m) (ap_local_did B) (dm_timestamp m) (dm_id m)) B)
      = (ap_local_did A, sl_remove (se_sled (app_store E)) (db_direct (app_db A)) (direct_key (dm_sender_did m) (ap_local_did A) (dm_timestamp m) (dm_id m)),
         sl_remove (se_sled (app_store E)) (db_plaintext (app_db A)) (dm_id m))" if "dm_trees B = dm_trees A" for B
    using that by (simp add: dm_trees_def delete_direct_by_id_def)
  consider "map_of (mc_metadata content) ''type'' = Some ''mls_group_invitation''"
    | "map_of (mc_metadata content) ''type'' = Some ''mls_invite_accepted''"
    | "map_of (mc_metadata content) ''type'' = Some ''mls_invite_declined''"
    using assms by (auto simp: is_control_def control_types_def)
  then show ?thesis
    by cases (simp_all add: handle_dm_content_def Let_def forget split: option.split)
qed

text \<open>A message that is taken in is in the log, under its key, and its plaintext under its id.\<close>

lemma olm_plaintext_trees:
  "olm_plaintext E H m om = (H1, x) \<Longrightarrow>
     db_direct (dh_storage H1) = db_direct (dh_storage H) \<and> db_plaintext (dh_storage H1) = db_plaintext (dh_storage H)"
  by (cases om; cases "dh_sessions H (dm_sender_did m)")
    (auto simp: olm_plaintext_def open_inbound_def decryption_failure_def Let_def
      split: option.splits sum.splits prod.splits if_splits inbound_error.splits)

lemma take_in_trees:
  assumes "take_in E H nonce m p = (H', Inr c)"
  shows "\<exists>v. db_direct (dh_storage H') = sl_insert (se_sled (de_store E)) (db_direct (dh_storage H)) (dm_key m) (cd_encode (se_direct (de_store E)) m) \<and>
     db_plaintext (dh_storage H') = sl_insert (se_sled (de_store E)) (db_plaintext (dh_storage H)) (dm_id m) v"
  using assms
  by (auto simp: take_in_def keep_message_def persist_plaintext_def store_direct_def store_plaintext_def dm_key_def
      split: option.splits sum.splits prod.splits)

lemma receive_trees:
  assumes "receive_message E H nonce m = (H', Inr c)"
  shows "\<exists>v. db_direct (dh_storage H') = sl_insert (se_sled (de_store E)) (db_direct (dh_storage H)) (dm_key m) (cd_encode (se_direct (de_store E)) m) \<and>
     db_plaintext (dh_storage H') = sl_insert (se_sled (de_store E)) (db_plaintext (dh_storage H)) (dm_id m) v"
proof (cases "dm_olm_message_type m = olm_message_type_self")
  case True
  then show ?thesis using assms take_in_trees [of E H nonce m "dm_ciphertext m" H' c] by (simp add: receive_message_def)
next
  case False
  then obtain om H1 p where "olm_plaintext E H m om = (H1, Inr p)" "take_in E H1 nonce m p = (H', Inr c)"
    using assms by (auto simp: receive_message_def split: sum.splits prod.splits)
  then show ?thesis using take_in_trees [of E H1 nonce m p H' c] olm_plaintext_trees [of E H m om H1 "Inr p"] by simp
qed

lemma dm_trees_replenish [simp]: "dm_trees (replenish_keys E A) = dm_trees A"
  by (simp add: replenish_keys_def Let_def dm_trees_def store_olm_pickle_def generate_one_time_keys_def
      mark_one_time_keys_as_published_def app_db_def with_db_def ask_def)


text \<open>A forged refusal, and a run in which it costs another message its plaintext.\<close>

definition sample_control :: "string \<Rightarrow> (string \<times> string) list \<Rightarrow> direct_message" where
  "sample_control i metadata =
     \<lparr>dm_id = i, dm_sender_did = ''did:v:eve'', dm_recipient_did = ''did:v:alice'',
      dm_ciphertext = cd_encode (unary_codec :: message_content codec)
        \<lparr>mc_text = [], mc_attachments = [], mc_mentions = [], mc_reply_to = None, mc_metadata = metadata\<rparr>,
      dm_olm_message_type = 999, dm_signature = [], dm_timestamp = 5, dm_type = 1, dm_reply_to = None,
      dm_sender_identity_key = None\<rparr>"

definition ledger_handler :: "(string \<times> ledger) list \<Rightarrow> (unit, ledger) mls_handler" where
  "ledger_handler gs =
     \<lparr>mg_local_did = ''did:v:alice'', mg_provider = \<lparr>mp_values = [], mp_rng = ()\<rparr>, mg_signature_keypair = ([], []),
      mg_credential_with_key = ([], []), mg_groups = gs, mg_storage_key = [], mg_desync_counters = Map.empty\<rparr>"

lemma counting_app_store [simp]:
  "app_store (counting_app_env answer) = rbt_env" "ae_direct (counting_app_env answer) = counting_env"
  "ae_mls (counting_app_env answer) = ledger_env" "ae_answer (counting_app_env answer) = answer"
  "ae_unicode (counting_app_env answer) = ascii_unicode"
  by (simp_all add: app_store_def counting_app_env_def counting_env_def)

lemma fresh_app_fields [simp]:
  "app_db (fresh_app db H) = db" "ap_mls (fresh_app db H) = H" "ap_local_did (fresh_app db H) = ''did:v:alice''"
  "ap_ws (fresh_app db H) = []" "ap_calls (fresh_app db H) = []" "ap_persist (fresh_app db H) = False"
  by (simp_all add: fresh_app_def app_db_def direct_handler_new_def)

lemma receive_forged:
  assumes "direct_env_ok E" and "length nonce = 12" and "dm_olm_message_type m = olm_message_type_self"
    and "cd_decode (de_content E) (dm_ciphertext m) = Some c"
  shows "receive_message E H nonce m = (kept E H nonce m c, Inr c)"
  using assms by (simp add: receive_message_def take_in_def keep_message_eq)

lemma sample_control_decodes:
  "cd_decode (de_content counting_env) (dm_ciphertext (sample_control i md))
     = Some \<lparr>mc_text = [], mc_attachments = [], mc_mentions = [], mc_reply_to = None, mc_metadata = md\<rparr>"
  using direct_env_okD(3) [OF counting_env_ok] by (simp add: sample_control_def counting_env_def)

lemma receive_sample_control:
  "receive_message counting_env H (dr_nonce zero_draws 0) (sample_control i md)
     = (kept counting_env H (dr_nonce zero_draws 0) (sample_control i md)
          \<lparr>mc_text = [], mc_attachments = [], mc_mentions = [], mc_reply_to = None, mc_metadata = md\<rparr>,
        Inr \<lparr>mc_text = [], mc_attachments = [], mc_mentions = [], mc_reply_to = None, mc_metadata = md\<rparr>)"
  by (rule receive_forged [OF counting_env_ok _ _ sample_control_decodes])
    (simp_all add: zero_draws_def sample_control_def olm_message_type_self_def)


subsection \<open>A forged acceptance\<close>

lemma metadata_put [simp]:
  assumes "app_ok E"
  shows "metadata_of E (put_metadata E meta A) g = (if g = gr_id meta then Some meta else metadata_of E A g)"
  using assms by (simp add: metadata_of_def put_metadata_def fetch_group_metadata_def store_group_metadata_def store_simps)

lemma metadata_frames [simp]:
  "metadata_of E (notify m A) = metadata_of E A" "metadata_of E (ask c A) = metadata_of E A"
  "metadata_of E (schedule_mls_persist A) = metadata_of E A" "metadata_of E (A\<lparr>ap_mls := H\<rparr>) = metadata_of E A"
  "db_group_metadata db = db_group_metadata (app_db A) \<Longrightarrow> metadata_of E (with_db db A) = metadata_of E A"
  by (auto simp: metadata_of_def fetch_group_metadata_def)

lemma metadata_commit [simp]: "metadata_of E (broadcast_stored_commit E D g d A) = metadata_of E A"
  by (simp add: broadcast_stored_commit_def split: sum.split option.split prod.split)

lemma mls_commit [simp]: "ap_mls (broadcast_stored_commit E D g d A) = ap_mls A"
  by (simp add: broadcast_stored_commit_def split: sum.split option.split prod.split)

lemma mls_member [simp]: "ap_mls (add_member_metadata E now g d A) = ap_mls A"
  by (simp add: add_member_metadata_def put_metadata_def split: option.split)

definition listed :: "('acc, 'sess, 't, 'r, 'g, 'm, 'kp, 'q) app_env \<Rightarrow> ('acc, 'sess, 't, 'r, 'g) app \<Rightarrow> string \<Rightarrow> did \<Rightarrow> bool" where
  "listed E A g d \<longleftrightarrow> (\<exists>meta. metadata_of E A g = Some meta \<and> d \<in> mb_did ` set (gr_members meta))"

lemma listed_add_member:
  assumes "app_ok E" and "metadata_of E A g = Some meta" and "gr_id meta = g"
  shows "listed E (add_member_metadata E now g d A) g d"
  using assms by (auto simp: listed_def add_member_metadata_def list_ex_iff image_iff)

text \<open>Whoever is named as the sender of an acceptance is believed to be a new member. Take
  an application that waits for one invitee to accept: the group has a commit in flight that
  would add the credential \<open>c\<close>. A direct message of the self-message type, from any DID, that
  says the invitation to the group was accepted merges that commit: \<open>c\<close> becomes a member in
  the next epoch without having answered, and the DID named as sender is listed as a member in
  the group's metadata.\<close>

theorem forged_accept_believed:
  assumes "app_ok E" and "length (dr_nonce D 0) = 12" and "dm_olm_message_type m = olm_message_type_self"
    and "cd_decode (de_content (ae_direct E)) (dm_ciphertext m) = Some content"
    and "map_of (mc_metadata content) ''type'' = Some ''mls_invite_accepted''"
    and "map_of (mc_metadata content) ''group_id'' = Some g"
    and "map_of (mg_groups (ap_mls A)) g = Some G" and "awaits (mv_lib (ae_mls E)) c G"
    and "metadata_of E A g = Some meta" and "gr_id meta = g"
  shows "let A' = on_direct_received E D m A; X = mv_lib (ae_mls E) in
    (\<exists>G'. map_of (mg_groups (ap_mls A')) g = Some G' \<and> \<not> ml_pending_commit X G' \<and>
       credentials X G' = insert c (credentials X G) \<and> ml_epoch X G' = ml_epoch X G + 1) \<and>
    listed E A' g (dm_sender_did m)"
proof -
  let ?X = "mv_lib (ae_mls E)" and ?d = "dm_sender_did m"
  let ?B = "A\<lparr>ap_direct := kept (ae_direct E) (ap_direct A) (dr_nonce D 0) m content\<rparr>"
  obtain p' G' where mg: "ml_merge_pending ?X (mg_provider (ap_mls A)) G = (p', G', Inr ())" "\<not> ml_pending_commit ?X G'"
      "credentials ?X G' = insert c (credentials ?X G)" "ml_epoch ?X G' = ml_epoch ?X G + 1"
    by (rule awaits_merge [OF assms(8)])
  let ?H = "(ap_mls A)\<lparr>mg_provider := p', mg_groups := AList.update g G' (mg_groups (ap_mls A))\<rparr>"
  have pc: "ml_pending_commit ?X G" using assms(8) by (simp add: awaits_def)
  have cf: "confirm_add_member (ae_mls E) (ap_mls A) g = (?H, Inr ())"
    unfolding confirm_add_member_def by (rule on_group_known [OF assms(7)]) (simp add: pc merge_pending_commit_def mg(1))
  have meta: "metadata_of E ?B g = Some meta"
    using assms(9) by (simp add: metadata_of_def fetch_group_metadata_def app_db_def kept_def keep_message_def
        persist_plaintext_def store_direct_def store_plaintext_def split: option.split)
  let ?C = "add_member_metadata E (dr_now D 1) g ?d (broadcast_stored_commit E D g ?d (schedule_mls_persist (?B\<lparr>ap_mls := ?H\<rparr>)))"
  have li: "listed E ?C g ?d"
    by (rule listed_add_member [OF assms(1) _ assms(10)]) (simp add: meta)
  have ac: "handle_invite_accepted_dm E D g ?d ?B
      = notify (GroupInvitationAccepted g ?d (get_display_name (ap_usernames (with_db (delete_outbound_invite (app_store E) (app_db ?C) g ?d) ?C)) ?d))
          (with_db (delete_outbound_invite (app_store E) (app_db ?C) g ?d) ?C)"
    by (simp add: handle_invite_accepted_dm_def on_mls_def cf Let_def)
  have mls: "ap_mls (handle_invite_accepted_dm E D g ?d ?B) = ?H" by (simp add: ac)
  have lst: "listed E (handle_invite_accepted_dm E D g ?d ?B) g ?d"
    using li by (simp add: ac listed_def delete_outbound_invite_def)
  have r: "on_direct_received E D m A
      = with_db (delete_direct_by_id (app_store E) (app_db (handle_invite_accepted_dm E D g ?d ?B)) ?d
          (ap_local_did (handle_invite_accepted_dm E D g ?d ?B)) (dm_timestamp m) (dm_id m)) (handle_invite_accepted_dm E D g ?d ?B)"
    using assms(3,5,6) by (simp add: on_direct_received_def receive_forged [OF _ assms(2-4)] assms(1) handle_dm_content_def Let_def
        olm_message_type_self_def)
  show ?thesis
    using lst mg by (auto simp: Let_def r mls listed_def delete_direct_by_id_def update_conv')
qed

theorem forged_accept_believed_witness:
  "let A = fresh_app (store_group_metadata rbt_env (db_new rbt_env) sample_group_meta)
         (ledger_handler [(''G'', (as_bytes ''G'', [(0, [1])], 0, Some [2]))]);
       A' = on_direct_received (counting_app_env (\<lambda>_. None)) zero_draws
         (sample_control ''m'' [(''type'', ''mls_invite_accepted''), (''group_id'', ''G'')]) A in
   listed (counting_app_env (\<lambda>_. None)) A' ''G'' ''did:v:eve'' \<and>
   (\<exists>g'. map_of (mg_groups (ap_mls A')) ''G'' = Some g' \<and> credentials ledger_mls g' = {[1], [2]})"
proof -
  let ?E = "counting_app_env (\<lambda>_. None)" and ?H = "ledger_handler [(''G'', (as_bytes ''G'', [(0, [1])], 0, Some [2]))]"
  let ?md = "[(''type'', ''mls_invite_accepted''), (''group_id'', ''G'')]"
  let ?A = "fresh_app (store_group_metadata rbt_env (db_new rbt_env) sample_group_meta) ?H"
  have me: "metadata_of ?E ?A ''G'' = Some sample_group_meta"
    using rbt_env_ok by (simp add: metadata_of_def fetch_group_metadata_def store_group_metadata_def sled_get_insert sample_group_meta_def)
  have g: "map_of (mg_groups (ap_mls ?A)) ''G'' = Some (as_bytes ''G'', [(0, [1])], 0, Some [2])"
    by (simp add: ledger_handler_def)
  have gid: "gr_id sample_group_meta = ''G''" by (simp add: sample_group_meta_def)
  have cr: "credentials ledger_mls (as_bytes ''G'', [(0, [1])], 0, Some [2]) = {[1]}"
    by (simp add: credentials_def ledger_mls_def)
  have "let A' = on_direct_received ?E zero_draws (sample_control ''m'' ?md) ?A; X = mv_lib (ae_mls ?E) in
    (\<exists>G'. map_of (mg_groups (ap_mls A')) ''G'' = Some G' \<and> \<not> ml_pending_commit X G' \<and>
       credentials X G' = insert [2] (credentials X (as_bytes ''G'', [(0, [1])], 0, Some [2])) \<and>
       ml_epoch X G' = ml_epoch X (as_bytes ''G'', [(0, [1])], 0, Some [2]) + 1) \<and>
    listed ?E A' ''G'' (dm_sender_did (sample_control ''m'' ?md))"
    by (rule forged_accept_believed [OF counting_app_ok, where meta = sample_group_meta and
          content = "\<lparr>mc_text = [], mc_attachments = [], mc_mentions = [], mc_reply_to = None, mc_metadata = ?md\<rparr>"])
      (use me g gid ledger_awaits sample_control_decodes in
        \<open>simp_all add: zero_draws_def ledger_env_def sample_control_def olm_message_type_self_def\<close>)
  then show ?thesis by (auto simp: Let_def ledger_env_def cr sample_control_def insert_commute)
qed

subsection \<open>Expired invitations\<close>

text \<open>The group an invitation was sent for, before and after its commit was taken back.\<close>

definition taken_back ::
  "('r, 'g, 'm, 'kp, 'q) openmls \<Rightarrow> 'g \<Rightarrow> string \<Rightarrow> ('acc, 'sess, 't, 'r, 'g) app \<Rightarrow> bool" where
  "taken_back X G g A \<longleftrightarrow> (\<exists>G'. map_of (mg_groups (ap_mls A)) g = Some G' \<and> \<not> ml_pending_commit X G' \<and> same_view X G G')"

lemma expire_mls: "ap_mls (expire_invite E iv A) = fst (cancel_add_member (ae_mls E) (ap_mls A) (fst iv))"
  by (cases iv) (simp add: expire_invite_def Let_def on_mls_def split: prod.split)

lemma cancel_other: "h \<noteq> g \<Longrightarrow> map_of (mg_groups (fst (cancel_add_member E H h))) g = map_of (mg_groups H) g"
  unfolding cancel_add_member_def by (rule on_group_other) simp

lemma cancel_awaited:
  assumes "map_of (mg_groups (ap_mls A)) g = Some G" and "awaits (mv_lib (ae_mls E)) c G" and "fst iv = g"
  shows "taken_back (mv_lib (ae_mls E)) G g (expire_invite E iv A)"
proof -
  let ?X = "mv_lib (ae_mls E)"
  obtain p' G' where cl: "ml_clear_pending ?X (mg_provider (ap_mls A)) G = (p', G', Inr ())" "\<not> ml_pending_commit ?X G'" "same_view ?X G G'"
    by (rule awaits_clear [OF assms(2)])
  have pc: "ml_pending_commit ?X G" using assms(2) by (simp add: awaits_def)
  have "cancel_add_member (ae_mls E) (ap_mls A) g
      = ((ap_mls A)\<lparr>mg_provider := p', mg_groups := AList.update g G' (mg_groups (ap_mls A))\<rparr>, Inr ())"
    unfolding cancel_add_member_def by (rule on_group_known [OF assms(1)]) (simp add: pc cl(1))
  then show ?thesis using cl(2,3) assms(3) by (simp add: taken_back_def expire_mls update_conv')
qed

lemma taken_back_kept:
  assumes "taken_back (mv_lib (ae_mls E)) G g A"
  shows "taken_back (mv_lib (ae_mls E)) G g (expire_invite E iv A)"
proof (cases "fst iv = g")
  case True
  let ?X = "mv_lib (ae_mls E)"
  obtain G' where G': "map_of (mg_groups (ap_mls A)) g = Some G'" "\<not> ml_pending_commit ?X G'" "same_view ?X G G'"
    using assms unfolding taken_back_def by blast
  have "cancel_add_member (ae_mls E) (ap_mls A) g
      = ((ap_mls A)\<lparr>mg_provider := mg_provider (ap_mls A), mg_groups := AList.update g G' (mg_groups (ap_mls A))\<rparr>,
         Inl (EMlsNoPendingCommit g))"
    unfolding cancel_add_member_def by (rule on_group_known [OF G'(1)]) (simp add: G'(2))
  then show ?thesis using G' True by (simp add: taken_back_def expire_mls update_conv')
next
  case False
  then show ?thesis using assms by (simp add: taken_back_def expire_mls cancel_other)
qed

text \<open>The sweep takes back whatever invitation of the group is in flight, not the one that
  expired: if any invitation for the group has expired, and the group waits for the credential
  \<open>c\<close> to accept, then afterwards nothing is pending in the group and its members and epoch
  are as before, whichever invitee the expired record names.\<close>

theorem expired_record_cancels_any_invite:
  assumes "(g, d, iv) \<in> set (fetch_expired_outbound_invites (app_store E) (app_db A) invite_timeout_ms now)"
    and "map_of (mg_groups (ap_mls A)) g = Some G" and "awaits (mv_lib (ae_mls E)) c G"
  shows "let X = mv_lib (ae_mls E); A' = invite_timeout_sweep E now A in
    \<exists>G'. map_of (mg_groups (ap_mls A')) g = Some G' \<and> \<not> ml_pending_commit X G' \<and> credentials X G' = credentials X G \<and>
      ml_epoch X G' = ml_epoch X G"
proof -
  let ?X = "mv_lib (ae_mls E)"
  have kept: "taken_back ?X G g (fold (expire_invite E) ivs B)" if "taken_back ?X G g B" for ivs B
    using that by (induction ivs arbitrary: B) (simp_all add: taken_back_kept)
  have "taken_back ?X G g (fold (expire_invite E) ivs B)"
    if "g \<in> fst ` set ivs" "map_of (mg_groups (ap_mls B)) g = Some G" for ivs B
    using that
  proof (induction ivs arbitrary: B)
    case (Cons iv ivs)
    show ?case
    proof (cases "fst iv = g")
      case True
      then show ?thesis using kept cancel_awaited [OF Cons.prems(2) assms(3)] by simp
    next
      case False
      then show ?thesis using Cons by (simp add: expire_mls cancel_other)
    qed
  qed simp
  then have "taken_back ?X G g (fold (expire_invite E) (fetch_expired_outbound_invites (app_store E) (app_db A) invite_timeout_ms now) A)"
    using assms(1,2) by force
  then show ?thesis using assms(1) by (auto simp: invite_timeout_sweep_def Let_def taken_back_def same_view_def)
qed

theorem expired_record_cancels_any_invite_witness:
  "let A' = invite_timeout_sweep (counting_app_env (\<lambda>_. None)) 300006
       (fresh_app (store_outbound_invite rbt_env (db_new rbt_env) ''G'' ''did:variance:bb'' sample_invitation 5)
          (ledger_handler [(''G'', (as_bytes ''G'', [(0, [1])], 4, Some [2]))])) in
   \<exists>G'. map_of (mg_groups (ap_mls A')) ''G'' = Some G' \<and> credentials ledger_mls G' = {[1]}"
proof -
  let ?db = "store_outbound_invite rbt_env (db_new rbt_env) ''G'' ''did:variance:bb'' sample_invitation 5"
  let ?g = "(as_bytes ''G'', [(0, [1])], 4, Some [2]) :: ledger"
  let ?A = "fresh_app ?db (ledger_handler [(''G'', ?g)])" and ?E = "counting_app_env (\<lambda>_. None)"
  have g: "no_colon ''G''" and d: "invitee_ok ''did:variance:bb''" and t: "in_i64 5"
    by (simp_all add: no_colon_def invitee_ok_def in_i64_def i64_min_def i64_max_def)
  have wf: "outbound_wf rbt_env ?db"
    by (rule outbound_wf_store [OF rbt_env_ok outbound_wf_new [OF rbt_env_ok] g d t])
  have o: "outbound rbt_env ?db = {(''G'', ''did:variance:bb'', sample_invitation, 5)}"
    unfolding outbound_store [OF rbt_env_ok g d] by (auto simp: rbt_env_ok)
  have "\<forall>(g, d, iv, t) \<in> outbound rbt_env ?db. in_i64 (t + invite_timeout_ms)"
    unfolding o by (simp add: in_i64_def i64_min_def i64_max_def invite_timeout_ms_def)
  from expired_invites_exact [OF rbt_env_ok wf this, of 300006]
  have "(''G'', ''did:variance:bb'', sample_invitation) \<in> set (fetch_expired_outbound_invites (app_store ?E) (app_db ?A) invite_timeout_ms 300006)"
    unfolding o by (simp add: invite_timeout_ms_def)
  moreover have "map_of (mg_groups (ap_mls ?A)) ''G'' = Some ?g" by (simp add: ledger_handler_def)
  moreover have "awaits (mv_lib (ae_mls ?E)) [2] ?g" using ledger_awaits by (simp add: ledger_env_def)
  ultimately show ?thesis
    using expired_record_cancels_any_invite [of "''G''" "''did:variance:bb''" sample_invitation ?E ?A 300006 ?g "[2]"]
    by (auto simp: Let_def ledger_env_def credentials_def ledger_mls_def)
qed

end
