(* ===== verification/Reconnect.thy ===== *)
theory Reconnect
  imports Direct_Control
begin

section \<open>What a reconnecting peer is sent (\<open>handle_peer_connected\<close>)\<close>

text \<open>
  The pending queue of the peer goes out once, in the order of its keys; what the network
  refuses stays queued, what it accepts leaves the queue, and the queues of others are not
  touched. The stored receipts go out too, and all of them leave the store, sent or not. Every
  shared group is asked for what came after its newest message.
\<close>

subsection \<open>The list that is flushed\<close>

lemma fetch_pending_distinct:
  assumes "env_ok S" and "pending_wf S db" and "did_ok p" and "fetch_pending_messages S db p = Inr ms"
  shows "distinct (map dm_id ms)"
proof -
  let ?es = "sl_scan_prefix (se_sled S) (db_pending_messages db) (p @ '':'')"
  let ?d = "\<lambda>e. the (cd_decode (se_direct S) (snd e))"
  have entry: "cd_decode (se_direct S) (snd e) \<noteq> None \<and> fst e = pending_key p (dm_id (?d e))" if "e \<in> set ?es" for e
  proof -
    have kv: "sl_get (se_sled S) (db_pending_messages db) (fst e) = Some (snd e)" "prefix (p @ '':'') (fst e)"
      using that assms(1) sled_scan_iff [of "se_sled S" "fst e" "snd e"] by simp_all
    from pending_entryE [OF assms(2) kv(1)] obtain q m where
      "fst e = pending_key q (dm_id m)" "cd_decode (se_direct S) (snd e) = Some m" "did_ok q" by metis
    with kv(2) assms(3) show ?thesis by (auto simp: prefix_pending_key)
  qed
  have ms: "ms = map ?d ?es"
    using assms(4) entry decode_all_ok [of ?es "se_direct S"] by (simp add: fetch_pending_messages_def)
  have "map fst ?es = map (pending_key p) (map dm_id ms)"
    using entry unfolding ms by simp
  moreover have "distinct (map fst ?es)"
    using sled_distinct [of "se_sled S"] assms(1) by (simp add: sled_scan distinct_map_filter)
  ultimately have "distinct (map (pending_key p) (map dm_id ms))" by (simp only:)
  then show ?thesis by (simp only: distinct_map)
qed

subsection \<open>Flushing the queue\<close>

lemma flush_message_fields:
  "ap_calls (flush_message E d m A) = ap_calls A @ [CallSendDirect d m]"
  "ap_mls (flush_message E d m A) = ap_mls A" "ap_ws (flush_message E d m A) = ap_ws A"
  "app_db (flush_message E d m A)
     = (if ae_answer E (CallSendDirect d m) = None then delete_pending_message (app_store E) (app_db A) (dm_id m) else app_db A)"
  by (simp_all add: flush_message_def Let_def ask_def mark_pending_sent_def app_db_def app_store_def)

lemma pending_frame:
  "db_pending_messages db' = db_pending_messages db \<Longrightarrow> pending S db' = pending S db"
  by (simp add: pending_def)

lemma pending_wf_frame:
  "db_pending_messages db' = db_pending_messages db \<Longrightarrow> db_message_index db' = db_message_index db \<Longrightarrow>
     pending_wf S db' = pending_wf S db"
  by (simp add: pending_wf_def pending_entry_ok_def indexed_key_def)

lemma delete_pending_trees:
  "db_group (delete_pending_message S db i) = db_group db"
  "db_pending_receipts (delete_pending_message S db i) = db_pending_receipts db"
  by (simp_all add: delete_pending_message_def Let_def split: option.split)

text \<open>Whether the network took a message.\<close>

definition accepted :: "('acc, 'sess, 't, 'r, 'g, 'm, 'kp, 'q) app_env \<Rightarrow> did \<Rightarrow> direct_message \<Rightarrow> bool" where
  "accepted E d m \<longleftrightarrow> ae_answer E (CallSendDirect d m) = None"

lemma flush_fold:
  assumes "env_ok (app_store E)" and "pending_wf (app_store E) (app_db A)" and "\<forall>m \<in> set ms. no_colon (dm_id m)"
  shows "pending_wf (app_store E) (app_db (fold (flush_message E d) ms A)) \<and>
    pending (app_store E) (app_db (fold (flush_message E d) ms A))
      = {(p, m) \<in> pending (app_store E) (app_db A). \<not> (\<exists>n \<in> set ms. accepted E d n \<and> dm_id n = dm_id m)} \<and>
    ap_calls (fold (flush_message E d) ms A) = ap_calls A @ map (CallSendDirect d) ms \<and>
    ap_mls (fold (flush_message E d) ms A) = ap_mls A \<and>
    db_group (app_db (fold (flush_message E d) ms A)) = db_group (app_db A) \<and>
    db_pending_receipts (app_db (fold (flush_message E d) ms A)) = db_pending_receipts (app_db A)"
  using assms(2,3)
proof (induction ms arbitrary: A)
  case Nil
  then show ?case by (simp add: case_prod_unfold)
next
  case (Cons n ms)
  let ?S = "app_store E" and ?B = "flush_message E d n A"
  have nc: "no_colon (dm_id n)" using Cons.prems(2) by simp
  have wf: "pending_wf ?S (app_db ?B)"
    using pending_wf_delete [OF assms(1) Cons.prems(1) nc] Cons.prems(1) by (simp add: flush_message_fields)
  have p: "pending ?S (app_db ?B) = {(p, m) \<in> pending ?S (app_db A). \<not> (accepted E d n \<and> dm_id n = dm_id m)}"
    using pending_delete [OF assms(1) Cons.prems(1) nc] by (auto simp: flush_message_fields accepted_def)
  have t: "db_group (app_db ?B) = db_group (app_db A)" "db_pending_receipts (app_db ?B) = db_pending_receipts (app_db A)"
    by (simp_all add: flush_message_fields delete_pending_trees)
  have "\<forall>m \<in> set ms. no_colon (dm_id m)" using Cons.prems(2) by simp
  note ih = Cons.IH [OF wf this]
  show ?case
    using ih unfolding p t by (auto simp: flush_message_fields)
qed

lemma flush_exact:
  assumes "env_ok (app_store E)" and "pending_wf (app_store E) (app_db A)" and "did_ok d"
  shows "\<exists>ms. fetch_pending_messages (app_store E) (app_db A) d = Inr ms \<and> distinct ms \<and>
    set ms = {m. (d, m) \<in> pending (app_store E) (app_db A)} \<and>
    flush_messages E d A = fold (flush_message E d) ms A \<and>
    pending_wf (app_store E) (app_db (flush_messages E d A)) \<and>
    pending (app_store E) (app_db (flush_messages E d A))
      = {(p, m) \<in> pending (app_store E) (app_db A). \<not> (p = d \<and> accepted E d m)} \<and>
    ap_calls (flush_messages E d A) = ap_calls A @ map (CallSendDirect d) ms \<and>
    ap_mls (flush_messages E d A) = ap_mls A \<and>
    db_group (app_db (flush_messages E d A)) = db_group (app_db A) \<and>
    db_pending_receipts (app_db (flush_messages E d A)) = db_pending_receipts (app_db A)"
proof -
  let ?S = "app_store E"
  obtain ms where ms: "fetch_pending_messages ?S (app_db A) d = Inr ms" "set ms = {m. (d, m) \<in> pending ?S (app_db A)}"
    using fetch_pending_set [OF assms] by blast
  have di: "distinct ms" using fetch_pending_distinct [OF assms ms(1)] by (simp add: distinct_map)
  have nc: "\<forall>m \<in> set ms. no_colon (dm_id m)" using ms(2) by (auto simp: pending_def)
  have fl: "flush_messages E d A = fold (flush_message E d) ms A"
    using ms(1) by (simp add: flush_messages_def get_pending_messages_def app_store_def app_db_def)
  note f = flush_fold [OF assms(1,2) nc, of d, folded fl]
  have same: "(\<exists>n \<in> set ms. accepted E d n \<and> dm_id n = dm_id m) \<longleftrightarrow> p = d \<and> accepted E d m"
    if "(p, m) \<in> pending ?S (app_db A)" for p m
    using that ms(2) pending_unique [OF assms(2)] by blast
  have "{(p, m) \<in> pending ?S (app_db A). \<not> (\<exists>n \<in> set ms. accepted E d n \<and> dm_id n = dm_id m)}
      = {(p, m) \<in> pending ?S (app_db A). \<not> (p = d \<and> accepted E d m)}"
    using same by blast
  with f show ?thesis using ms di fl by (intro exI [of _ ms]) (simp only: simp_thms)
qed

subsection \<open>The whole handler\<close>

definition since_of :: "'t store_env \<Rightarrow> 't message_db \<Rightarrow> string \<Rightarrow> int" where
  "since_of S db g = (case latest_group_timestamp S db g of Inr (Some t) \<Rightarrow> t | _ \<Rightarrow> 0)"

lemma since_frame: "db_group db' = db_group db \<Longrightarrow> since_of S db' g = since_of S db g"
  by (simp add: since_of_def latest_group_timestamp_def group_range_def)

lemma fold_ask: "fold (\<lambda>x. ask (c x)) xs A = A\<lparr>ap_calls := ap_calls A @ map c xs\<rparr>"
  by (induction xs arbitrary: A) (simp_all add: ask_def)

lemma drained:
  "env_ok S \<Longrightarrow> snd (drain_pending_receipts S (fst (drain_pending_receipts S db d)) d) = []"
  by (simp add: drain_pending_receipts_def Let_def decoded_def List.map_filter_def sled_scan_removed)

lemma flush_receipts_eq:
  "flush_receipts E d A = (with_db (fst (drain_pending_receipts (app_store E) (app_db A) d)) A)
     \<lparr>ap_calls := ap_calls A @ map (CallSendReceipt d) (snd (drain_pending_receipts (app_store E) (app_db A) d))\<rparr>"
  by (cases "drain_pending_receipts (app_store E) (app_db A) d") (simp add: flush_receipts_def fold_ask with_db_def)

text \<open>C14. When a peer connects, its queue is flushed exactly: each message queued for it is
  sent once, those that the network takes leave the queue, those it refuses and those for
  other peers stay, and the queue keeps its invariant. Then all stored receipts for the peer
  are sent and none is kept, whether or not it could be sent; and every group that the peer is
  a member of is asked for what came after its newest stored message.\<close>

theorem reconnect_exact:
  assumes "env_ok (app_store E)" and "pending_wf (app_store E) (app_db A)" and "did_ok d"
  shows "let A' = handle_peer_connected E d A; S = app_store E in
    pending S (app_db A') = {(p, m) \<in> pending S (app_db A). \<not> (p = d \<and> ae_answer E (CallSendDirect d m) = None)} \<and>
    pending_wf S (app_db A') \<and> snd (drain_pending_receipts S (app_db A') d) = [] \<and>
    (\<exists>ms. distinct ms \<and> set ms = {m. (d, m) \<in> pending S (app_db A)} \<and>
       ap_calls A' = ap_calls A @ map (CallSendDirect d) ms @ map (CallSendReceipt d) (snd (drain_pending_receipts S (app_db A) d))
         @ map (\<lambda>g. CallRequestSync d g (since_of S (app_db A) g) 100) (shared_groups E d A))"
proof -
  let ?S = "app_store E"
  let ?N = "notify (PresenceUpdated d True (get_display_name (ap_usernames A) d)) A"
  let ?F = "flush_messages E d ?N"
  let ?R = "flush_receipts E d ?F"
  obtain ms where ms: "distinct ms" "set ms = {m. (d, m) \<in> pending ?S (app_db A)}"
    and f: "pending_wf ?S (app_db ?F)" "pending ?S (app_db ?F) = {(p, m) \<in> pending ?S (app_db A). \<not> (p = d \<and> accepted E d m)}"
      "ap_calls ?F = ap_calls A @ map (CallSendDirect d) ms" "ap_mls ?F = ap_mls A"
      "db_group (app_db ?F) = db_group (app_db A)" "db_pending_receipts (app_db ?F) = db_pending_receipts (app_db A)"
    using flush_exact [OF assms(1) _ assms(3), of ?N] assms(2) by auto
  have dr: "snd (drain_pending_receipts ?S (app_db ?F) d) = snd (drain_pending_receipts ?S (app_db A) d)"
    using f(6) by (simp add: drain_pending_receipts_def Let_def)
  have R: "app_db ?R = fst (drain_pending_receipts ?S (app_db ?F) d)" "ap_mls ?R = ap_mls A"
      "ap_calls ?R = ap_calls ?F @ map (CallSendReceipt d) (snd (drain_pending_receipts ?S (app_db A) d))"
    unfolding flush_receipts_eq dr using f(4) by (simp_all add: app_db_def with_db_def)
  have db: "db_pending_messages (app_db ?R) = db_pending_messages (app_db ?F)" "db_message_index (app_db ?R) = db_message_index (app_db ?F)"
      "db_group (app_db ?R) = db_group (app_db A)"
    using f(5) by (simp_all add: R(1) drain_pending_receipts_def Let_def)
  have sg: "shared_groups E d ?R = shared_groups E d A"
    by (simp add: shared_groups_def members_or_empty_def R(2))
  have rq: "fold (request_sync E d) gs B = B\<lparr>ap_calls := ap_calls B @ map (\<lambda>g. CallRequestSync d g (since_of ?S (app_db B) g) 100) gs\<rparr>" for gs B
    by (induction gs arbitrary: B) (simp_all add: request_sync_def since_of_def ask_def app_db_def)
  have A': "handle_peer_connected E d A
      = ?R\<lparr>ap_calls := ap_calls ?R @ map (\<lambda>g. CallRequestSync d g (since_of ?S (app_db ?R) g) 100) (shared_groups E d A)\<rparr>"
    by (simp add: handle_peer_connected_def Let_def rq sg)
  have adb: "app_db (handle_peer_connected E d A) = app_db ?R" by (simp add: A' app_db_def)
  have cal: "ap_calls (handle_peer_connected E d A) = ap_calls A @ map (CallSendDirect d) ms
      @ map (CallSendReceipt d) (snd (drain_pending_receipts ?S (app_db A) d))
      @ map (\<lambda>g. CallRequestSync d g (since_of ?S (app_db A) g) 100) (shared_groups E d A)"
    by (simp add: A' R(3) f(3) since_frame [OF db(3)])
  have "pending ?S (app_db (handle_peer_connected E d A)) = {(p, m) \<in> pending ?S (app_db A). \<not> (p = d \<and> ae_answer E (CallSendDirect d m) = None)}"
    unfolding adb pending_frame [OF db(1)] f(2) accepted_def ..
  moreover have "pending_wf ?S (app_db (handle_peer_connected E d A))"
    unfolding adb pending_wf_frame [OF db(1,2)] by (rule f(1))
  moreover have "snd (drain_pending_receipts ?S (app_db (handle_peer_connected E d A)) d) = []"
    unfolding adb R(1) by (rule drained [OF assms(1)])
  ultimately show ?thesis using cal ms by (auto simp: Let_def)
qed

theorem reconnect_exact_witness:
  "pending rbt_env (app_db (handle_peer_connected (counting_app_env (\<lambda>_. None)) ''did:variance:bb''
       (fresh_app sample_pending_db (ledger_handler [])))) = {(''did:variance:cc'', sample_direct ''B'' 7)}"
proof -
  let ?E = "counting_app_env (\<lambda>_. None)" and ?A = "fresh_app sample_pending_db (ledger_handler [])"
  have "env_ok (app_store ?E)" "pending_wf (app_store ?E) (app_db ?A)" "did_ok ''did:variance:bb''"
    using rbt_env_ok sample_pending_db(1) sample_dids by simp_all
  note r = reconnect_exact [OF this]
  show ?thesis
    using conjunct1 [OF r [unfolded Let_def]] by (auto simp: sample_pending_db(2))
qed

end
