(* ===== verification/Group_Router.thy ===== *)
theory Group_Router
  imports App_State
begin

section \<open>The group message and group sync listeners (\<open>event_router/messaging.rs\<close>)\<close>

text \<open>
  What a message of a group topic does: an application message is stored, shown and
  acknowledged, or changes roles, or freezes the group; a receipt is stored; a commit may
  remove members, the local user among them; a stored proposal is committed at once; a
  failure counts towards desync. And what a page of group sync does, on either side.
\<close>

definition role_of :: "string \<Rightarrow> int" where
  "role_of new_role = (if new_role = ''admin'' then 3 else if new_role = ''moderator'' then 2 else 1)"

definition freeze_group ::
  "('acc, 'sess, 't, 'r, 'g, 'm, 'kp, 'q) app_env \<Rightarrow> string \<Rightarrow> did option \<Rightarrow> ('acc, 'sess, 't, 'r, 'g) app
     \<Rightarrow> ('acc, 'sess, 't, 'r, 'g) app" where
  "freeze_group E group_id admin_did A =
     (case metadata_of E A group_id of
        None \<Rightarrow> A
      | Some meta \<Rightarrow>
          put_metadata E (meta\<lparr>gr_frozen := True,
            gr_members := (case admin_did of None \<Rightarrow> gr_members meta
              | Some d \<Rightarrow> filter (\<lambda>m. mb_did m \<noteq> d) (gr_members meta))\<rparr>) A)"

definition change_role ::
  "('acc, 'sess, 't, 'r, 'g, 'm, 'kp, 'q) app_env \<Rightarrow> string \<Rightarrow> did \<Rightarrow> string \<Rightarrow> did \<Rightarrow> ('acc, 'sess, 't, 'r, 'g) app
     \<Rightarrow> ('acc, 'sess, 't, 'r, 'g) app" where
  "change_role E group_id target_did new_role from_did A =
     notify (RoleChanged group_id target_did new_role from_did)
       (with_db (fst (update_member_role (app_store E) (app_db A) group_id target_did (role_of new_role))) A)"

definition publish_group_receipt_from_event_router ::
  "('acc, 'sess, 't, 'r, 'g, 'm, 'kp, 'q) app_env \<Rightarrow> draws \<Rightarrow> string \<Rightarrow> group_read_receipt \<Rightarrow> ('acc, 'sess, 't, 'r, 'g) app
     \<Rightarrow> ('acc, 'sess, 't, 'r, 'g) app \<times> (string + unit)" where
  "publish_group_receipt_from_event_router E D group_id receipt A =
     (let plaintext = cd_encode (ae_payload E) (Some (PayloadReceipt receipt))
      in case on_mls (\<lambda>H. encrypt_message (ae_mls E) H group_id plaintext) A of
           (A, Inl _) \<Rightarrow> (A, Inl ''MLS encrypt receipt'')
         | (A, Inr mls_msg) \<Rightarrow>
             (case serialize_message (ae_mls E) mls_msg of
                Inl _ \<Rightarrow> (A, Inl ''MLS serialize receipt'')
              | Inr mls_bytes \<Rightarrow>
                  (let c = CallPublish (group_topic group_id)
                     \<lparr>gm_id = dr_ulid D 1, gm_sender_did = ap_local_did A, gm_group_id = group_id, gm_timestamp = dr_now D 1,
                      gm_type = 0, gm_reply_to = None, gm_mls_ciphertext = mls_bytes\<rparr>;
                       A = ask c A
                   in if ae_answer E c \<noteq> None then (A, Inl ''GossipSub publish receipt'')
                      else (schedule_mls_persist A, Inr ()))))"

definition keep_group_message ::
  "('acc, 'sess, 't, 'r, 'g, 'm, 'kp, 'q) app_env \<Rightarrow> bytes \<Rightarrow> group_message \<Rightarrow> message_content \<Rightarrow> ('acc, 'sess, 't, 'r, 'g) app
     \<Rightarrow> ('acc, 'sess, 't, 'r, 'g) app" where
  "keep_group_message E nonce message content A =
     (let A = with_db (store_group (app_store E) (app_db A) message) A
      in with_db (fst (persist_group_plaintext (ae_mls E) (ap_mls A) (app_db A) nonce (gm_id message) content)) A)"

definition handle_group_message_content ::
  "('acc, 'sess, 't, 'r, 'g, 'm, 'kp, 'q) app_env \<Rightarrow> draws \<Rightarrow> message_content \<Rightarrow> group_message \<Rightarrow> ('acc, 'sess, 't, 'r, 'g) app
     \<Rightarrow> ('acc, 'sess, 't, 'r, 'g) app" where
  "handle_group_message_content E D content message A =
     (let group_id = gm_group_id message; from_did = gm_sender_did message;
          get = map_of (mc_metadata content)
      in if get ''type'' = Some ''admin_abandoned''
         then notify (GroupFrozen group_id) (freeze_group E group_id (get ''admin_did'') A)
         else if get ''type'' = Some ''role_change''
         then (case (get ''target_did'', get ''new_role'') of
                 (Some target_did, Some new_role) \<Rightarrow> change_role E group_id target_did new_role from_did A
               | _ \<Rightarrow> A)
         else (let A = keep_group_message E (dr_nonce D 0) message content A;
                   A = notify (GroupMessageReceived group_id from_did (gm_id message) (gm_timestamp message)) A
               in if from_did \<noteq> ap_local_did A
                  then (let (db, receipt) = send_group_delivered (app_store E) (ae_sign_receipt E) (ap_local_did A)
                              (app_db A) (dr_now D 0) group_id (gm_id message)
                        in fst (publish_group_receipt_from_event_router E D group_id receipt (with_db db A)))
                  else A))"

definition on_group_receipt ::
  "('acc, 'sess, 't, 'r, 'g, 'm, 'kp, 'q) app_env \<Rightarrow> string \<Rightarrow> group_read_receipt \<Rightarrow> ('acc, 'sess, 't, 'r, 'g) app
     \<Rightarrow> ('acc, 'sess, 't, 'r, 'g) app" where
  "on_group_receipt E group_id receipt A =
     (if gx_reader_did receipt = ap_local_did A then A
      else notify
        (if gx_status receipt = receipt_read
         then GroupReceiptRead group_id (gx_message_id receipt) (gx_reader_did receipt)
         else GroupReceiptDelivered group_id (gx_message_id receipt) (gx_reader_did receipt))
        (with_db (receive_group_receipt (app_store E) (app_db A) receipt) A))"

definition on_group_plaintext ::
  "('acc, 'sess, 't, 'r, 'g, 'm, 'kp, 'q) app_env \<Rightarrow> draws \<Rightarrow> group_message \<Rightarrow> bytes \<Rightarrow> ('acc, 'sess, 't, 'r, 'g) app
     \<Rightarrow> ('acc, 'sess, 't, 'r, 'g) app" where
  "on_group_plaintext E D message plaintext A =
     (case cd_decode (ae_payload E) plaintext of
        Some (Some (PayloadReceipt receipt)) \<Rightarrow> on_group_receipt E (gm_group_id message) receipt A
      | Some (Some (PayloadMessage content)) \<Rightarrow> handle_group_message_content E D content message A
      | _ \<Rightarrow>
          (case cd_decode (de_content (ae_direct E)) plaintext of
             None \<Rightarrow> A
           | Some content \<Rightarrow> handle_group_message_content E D content message A))"

subsection \<open>After a commit or a proposal\<close>

definition commit_proposals ::
  "('acc, 'sess, 't, 'r, 'g, 'm, 'kp, 'q) app_env \<Rightarrow> draws \<Rightarrow> string \<Rightarrow> ('acc, 'sess, 't, 'r, 'g) app
     \<Rightarrow> ('acc, 'sess, 't, 'r, 'g) app" where
  "commit_proposals E D group_id A =
     (case on_mls (\<lambda>H. commit_pending_proposals (ae_mls E) H group_id) A of
        (A, Inr (Some commit_msg)) \<Rightarrow>
          (let A = schedule_mls_persist A
           in case serialize_message (ae_mls E) commit_msg of
                Inl _ \<Rightarrow> A
              | Inr commit_bytes \<Rightarrow>
                  ask (CallPublish (group_topic group_id)
                    \<lparr>gm_id = dr_ulid D 0, gm_sender_did = ap_local_did A, gm_group_id = group_id, gm_timestamp = dr_now D 0,
                     gm_type = 0, gm_reply_to = None, gm_mls_ciphertext = commit_bytes\<rparr>) A)
      | (A, _) \<Rightarrow> A)"

definition republish_key_package ::
  "('acc, 'sess, 't, 'r, 'g, 'm, 'kp, 'q) app_env \<Rightarrow> ('acc, 'sess, 't, 'r, 'g) app \<Rightarrow> ('acc, 'sess, 't, 'r, 'g) app" where
  "republish_key_package E A =
     (case on_mls (generate_key_package (ae_mls E)) A of
        (A, Inl _) \<Rightarrow> A
      | (A, Inr kp) \<Rightarrow>
          (case serialize_message_bytes (ae_mls E) kp of
             Inl _ \<Rightarrow> A
           | Inr kp_bytes \<Rightarrow> schedule_mls_persist (ask (CallUpdateKeyPackage kp_bytes) A)))"

definition purge_group ::
  "('acc, 'sess, 't, 'r, 'g, 'm, 'kp, 'q) app_env \<Rightarrow> string \<Rightarrow> ('acc, 'sess, 't, 'r, 'g) app \<Rightarrow> ('acc, 'sess, 't, 'r, 'g) app" where
  "purge_group E group_id A =
     (let A = ask (CallUnsubscribe (group_topic group_id)) A;
          A = schedule_mls_persist (A\<lparr>ap_mls := remove_group (ae_mls E) (ap_mls A) group_id\<rparr>);
          S = app_store E;
          db = delete_group_metadata S (app_db A) group_id;
          db = delete_group_messages S db group_id;
          db = delete_group_last_read_at S db (ap_local_did A) group_id;
          db = delete_all_outbound_invites_for_group S db group_id
      in notify (MlsGroupRemoved group_id ''kicked'') (with_db db A))"

definition after_commit ::
  "('acc, 'sess, 't, 'r, 'g, 'm, 'kp, 'q) app_env \<Rightarrow> draws \<Rightarrow> string \<Rightarrow> did list \<Rightarrow> ('acc, 'sess, 't, 'r, 'g) app
     \<Rightarrow> ('acc, 'sess, 't, 'r, 'g) app" where
  "after_commit E D group_id members_before A =
     (let A = schedule_mls_persist A;
          A = (if members_or_empty E A group_id = members_before then commit_proposals E D group_id A else A);
          members_after = members_or_empty E A group_id;
          removed = filter (\<lambda>m. m \<notin> set members_after) members_before
      in if ap_local_did A \<notin> set members_after then republish_key_package E (purge_group E group_id A)
         else fold (\<lambda>removed_did. notify (GroupMemberRemoved group_id removed_did)) removed A)"

definition group_failure ::
  "('acc, 'sess, 't, 'r, 'g, 'm, 'kp, 'q) app_env \<Rightarrow> string \<Rightarrow> ('acc, 'sess, 't, 'r, 'g) app \<Rightarrow> ('acc, 'sess, 't, 'r, 'g) app" where
  "group_failure E group_id A =
     (case on_mls (\<lambda>H. record_processing_failure (ae_mls E) H group_id) A of
        (A, None) \<Rightarrow> A
      | (A, Some info) \<Rightarrow> notify (GroupDesyncDetected (di_group_id info) (di_failed_count info) (di_local_epoch info)) A)"

definition on_group_message ::
  "('acc, 'sess, 't, 'r, 'g, 'm, 'kp, 'q) app_env \<Rightarrow> draws \<Rightarrow> group_message \<Rightarrow> ('acc, 'sess, 't, 'r, 'g) app
     \<Rightarrow> ('acc, 'sess, 't, 'r, 'g) app" where
  "on_group_message E D message A =
     (let group_id = gm_group_id message
      in if gm_mls_ciphertext message = [] then A
         else (let members_before = members_or_empty E A group_id
               in case deserialize_message (ae_mls E) (gm_mls_ciphertext message) of
                    Inl _ \<Rightarrow> group_failure E group_id A
                  | Inr mls_msg \<Rightarrow>
                      (case on_mls (\<lambda>H. process_message (ae_mls E) H group_id mls_msg) A of
                         (A, Inl _) \<Rightarrow> group_failure E group_id A
                       | (A, Inr (Some decrypted)) \<Rightarrow>
                           schedule_mls_persist (on_group_plaintext E D message (dy_plaintext decrypted)
                             (A\<lparr>ap_mls := record_processing_success (ap_mls A) group_id\<rparr>))
                       | (A, Inr None) \<Rightarrow>
                           after_commit E D group_id members_before
                             (A\<lparr>ap_mls := record_processing_success (ap_mls A) group_id\<rparr>))))"

subsection \<open>Group sync\<close>

definition sync_limit :: "nat \<Rightarrow> nat" where
  "sync_limit limit = (if limit = 0 then 100 else min limit 500)"

definition on_sync_requested ::
  "('acc, 'sess, 't, 'r, 'g, 'm, 'kp, 'q) app_env \<Rightarrow> string \<Rightarrow> int \<Rightarrow> nat \<Rightarrow> nat \<Rightarrow> ('acc, 'sess, 't, 'r, 'g) app
     \<Rightarrow> ('acc, 'sess, 't, 'r, 'g) app" where
  "on_sync_requested E group_id since_timestamp limit request_id A =
     (let effective_limit = sync_limit limit
      in case fetch_group_since (app_store E) (app_db A) group_id since_timestamp effective_limit of
           Inr messages \<Rightarrow>
             ask (CallRespondSync request_id
               \<lparr>gs_messages = messages, gs_has_more = (length messages = effective_limit),
                gs_error_code = None, gs_error_message = None\<rparr>) A
         | Inl _ \<Rightarrow>
             ask (CallRespondSync request_id
               \<lparr>gs_messages = [], gs_has_more = False, gs_error_code = Some ''500'',
                gs_error_message = Some ''Storage error''\<rparr>) A)"

definition sync_message ::
  "('acc, 'sess, 't, 'r, 'g, 'm, 'kp, 'q) app_env \<Rightarrow> bytes \<Rightarrow> string \<Rightarrow> group_message
     \<Rightarrow> ('acc, 'sess, 't, 'r, 'g) app \<times> nat \<Rightarrow> ('acc, 'sess, 't, 'r, 'g) app \<times> nat" where
  "sync_message E nonce group_id message st =
     (case st of (A, new_count) \<Rightarrow>
        if has_group_message (app_store E) (app_db A) group_id (gm_id message) \<or> gm_mls_ciphertext message = [] then (A, new_count)
        else case deserialize_message (ae_mls E) (gm_mls_ciphertext message) of
            Inl _ \<Rightarrow> (A, new_count)
          | Inr mls_msg \<Rightarrow>
              (case on_mls (\<lambda>H. process_message (ae_mls E) H group_id mls_msg) A of
                 (A, Inl _) \<Rightarrow> (fst (on_mls (\<lambda>H. record_processing_failure (ae_mls E) H group_id) A), new_count)
               | (A, Inr None) \<Rightarrow> (A\<lparr>ap_mls := record_processing_success (ap_mls A) group_id\<rparr>, new_count)
               | (A, Inr (Some decrypted)) \<Rightarrow>
                   (let A = A\<lparr>ap_mls := record_processing_success (ap_mls A) group_id\<rparr>;
                        A = with_db (store_group (app_store E) (app_db A) message) A;
                        A = (case cd_decode (de_content (ae_direct E)) (dy_plaintext decrypted) of
                               None \<Rightarrow> A
                             | Some content \<Rightarrow>
                                 with_db (fst (persist_group_plaintext (ae_mls E) (ap_mls A) (app_db A) nonce (gm_id message) content)) A)
                    in (notify (GroupMessageReceived group_id (gm_sender_did message) (gm_id message) (gm_timestamp message)) A,
                        add_u32 new_count 1))))"

fun sync_loop ::
  "('acc, 'sess, 't, 'r, 'g, 'm, 'kp, 'q) app_env \<Rightarrow> draws \<Rightarrow> string \<Rightarrow> nat \<Rightarrow> group_message list
     \<Rightarrow> ('acc, 'sess, 't, 'r, 'g) app \<times> nat \<Rightarrow> ('acc, 'sess, 't, 'r, 'g) app \<times> nat" where
  "sync_loop E D group_id k [] st = st"
| "sync_loop E D group_id k (message # messages) st =
     sync_loop E D group_id (Suc k) messages (sync_message E (dr_nonce D k) group_id message st)"

definition on_sync_received ::
  "('acc, 'sess, 't, 'r, 'g, 'm, 'kp, 'q) app_env \<Rightarrow> draws \<Rightarrow> string \<Rightarrow> group_message list \<Rightarrow> ('acc, 'sess, 't, 'r, 'g) app
     \<Rightarrow> ('acc, 'sess, 't, 'r, 'g) app" where
  "on_sync_received E D group_id messages A =
     (case sync_loop E D group_id 0 messages (A, 0) of
        (A, new_count) \<Rightarrow> if new_count > 0 then schedule_mls_persist A else A)"

end
