(* ===== verification/Mls_Durability.thy ===== *)
theory Mls_Durability
  imports Direct_Control Group_Router
begin

section \<open>Whether the groups survive a restart of the application\<close>

text \<open>
  The MLS handler lives in memory; \<open>MlsPersister\<close> writes a snapshot some time after it was
  asked to. The application is durable when a write is due or the stored snapshot is the one
  of the present groups. The listeners keep it durable, except for the one that receives a
  page of group sync.
\<close>

definition snapshot_current :: "('acc, 'sess, 't, 'r, 'g, 'm, 'kp, 'q) app_env \<Rightarrow> ('acc, 'sess, 't, 'r, 'g) app \<Rightarrow> bool" where
  "snapshot_current E A \<longleftrightarrow>
     fetch_mls_state (app_store E) (app_db A) (ap_local_did A) = Some (export_state (ae_mls E) (ap_mls A))"

definition durable :: "('acc, 'sess, 't, 'r, 'g, 'm, 'kp, 'q) app_env \<Rightarrow> ('acc, 'sess, 't, 'r, 'g) app \<Rightarrow> bool" where
  "durable E A \<longleftrightarrow> ap_persist A \<or> snapshot_current E A"

text \<open>What the snapshot depends on, and a step after which it is no staler than before.\<close>

definition mls_core :: "('acc, 'sess, 't, 'r, 'g) app \<Rightarrow> did \<times> 't \<times> (string \<times> 'g) list \<times> 'r provider" where
  "mls_core A = (ap_local_did A, db_mls_state (app_db A), mg_groups (ap_mls A), mg_provider (ap_mls A))"

definition safe_step :: "('acc, 'sess, 't, 'r, 'g) app \<Rightarrow> ('acc, 'sess, 't, 'r, 'g) app \<Rightarrow> bool" where
  "safe_step A B \<longleftrightarrow> ap_persist B \<or> (\<not> ap_persist A \<and> mls_core B = mls_core A)"

lemma durable_step: "safe_step A B \<Longrightarrow> durable E A \<Longrightarrow> durable E B"
  by (auto simp: safe_step_def durable_def snapshot_current_def mls_core_def fetch_mls_state_def export_state_def group_ids_def)

named_theorems safe_intros \<open>safe steps\<close>

lemma safe_refl [safe_intros]: "safe_step A A"
  by (simp add: safe_step_def)

lemma safe_trans: "safe_step A B \<Longrightarrow> safe_step B C \<Longrightarrow> safe_step A C"
  by (auto simp: safe_step_def)

lemma safe_due: "ap_persist B \<Longrightarrow> safe_step A B"
  by (simp add: safe_step_def)

lemma safe_schedule [safe_intros]: "safe_step A (schedule_mls_persist B)"
  by (simp add: safe_step_def)

lemma safe_notify [safe_intros]: "safe_step A B \<Longrightarrow> safe_step A (notify m B)"
  by (simp add: safe_step_def mls_core_def)

lemma safe_ask [safe_intros]: "safe_step A B \<Longrightarrow> safe_step A (ask c B)"
  by (simp add: safe_step_def mls_core_def)

lemma safe_with_db [safe_intros]: "safe_step A B \<Longrightarrow> db_mls_state db = db_mls_state (app_db B) \<Longrightarrow> safe_step A (with_db db B)"
  by (simp add: safe_step_def mls_core_def)

lemma safe_direct [safe_intros]:
  "safe_step A B \<Longrightarrow> db_mls_state (dh_storage H) = db_mls_state (app_db B) \<Longrightarrow> safe_step A (B\<lparr>ap_direct := H\<rparr>)"
  by (auto simp: safe_step_def mls_core_def app_db_def)

lemma safe_mls [safe_intros]:
  "safe_step A B \<Longrightarrow> mg_groups H = mg_groups (ap_mls B) \<Longrightarrow> mg_provider H = mg_provider (ap_mls B) \<Longrightarrow> safe_step A (B\<lparr>ap_mls := H\<rparr>)"
  by (auto simp: safe_step_def mls_core_def app_db_def)

lemma safe_fold: "(\<And>x B. safe_step B (f x B)) \<Longrightarrow> safe_step A B \<Longrightarrow> safe_step A (fold f xs B)"
proof (induction xs arbitrary: B)
  case (Cons x xs)
  show ?case using Cons.IH [OF Cons.prems(1) safe_trans [OF Cons.prems(2) Cons.prems(1)]] by simp
qed simp

text \<open>The MLS snapshots are in a tree of their own.\<close>

named_theorems mls_tree \<open>operations that leave the tree of MLS snapshots alone\<close>

lemma mls_tree_ops [mls_tree, simp]:
  "db_mls_state (store_pending_invitation S db iv) = db_mls_state db"
  "db_mls_state (store_group_metadata S db meta) = db_mls_state db"
  "db_mls_state (delete_group_metadata S db g) = db_mls_state db"
  "db_mls_state (delete_outbound_invite S db g d) = db_mls_state db"
  "db_mls_state (delete_all_outbound_invites_for_group S db g) = db_mls_state db"
  "db_mls_state (delete_direct_by_id S db d e t i) = db_mls_state db"
  "db_mls_state (store_pending_receipt S db d rr) = db_mls_state db"
  "db_mls_state (store_group_receipt S db gr) = db_mls_state db"
  "db_mls_state (store_olm_pickle S db d p) = db_mls_state db"
  "db_mls_state (store_group S db gm) = db_mls_state db"
  "db_mls_state (store_group_plaintext S db i bs) = db_mls_state db"
  "db_mls_state (delete_group_messages S db g) = db_mls_state db"
  "db_mls_state (delete_group_last_read_at S db d g) = db_mls_state db"
  "db_mls_state (fst (update_member_role S db g d r)) = db_mls_state db"
  "db_mls_state (store_receipt S db rr) = db_mls_state db"
  "db_mls_state (delete_pending_message S db i) = db_mls_state db"
  "db_mls_state (fst (drain_pending_receipts S db d)) = db_mls_state db"
  by (simp_all add: store_pending_invitation_def store_group_metadata_def delete_group_metadata_def delete_outbound_invite_def
      delete_all_outbound_invites_for_group_def delete_direct_by_id_def store_pending_receipt_def store_group_receipt_def
      store_olm_pickle_def store_group_def store_group_plaintext_def delete_group_messages_def delete_group_last_read_at_def
      update_member_role_def store_receipt_def delete_pending_message_def drain_pending_receipts_def Let_def
      split: option.split)

subsection \<open>The library\<close>

text \<open>A call that fails has changed nothing, and what openmls has accepted can be stored and merged.\<close>

definition failures_quiet :: "('r, 'g, 'm, 'kp, 'q) openmls \<Rightarrow> bool" where
  "failures_quiet X \<longleftrightarrow>
     (\<forall>p m g p' g' e. ml_process X p m g = (p', g', Inl e) \<longrightarrow> p' = p \<and> g' = g) \<and>
     (\<forall>p g p' g' e. ml_merge_pending X p g = (p', g', Inl e) \<longrightarrow> p' = p \<and> g' = g) \<and>
     (\<forall>p q g. snd (snd (ml_store_proposal X p q g)) = Inr ()) \<and>
     (\<forall>p q g. snd (snd (ml_merge_staged X p q g)) = Inr ())"

lemma failures_quietD:
  assumes "failures_quiet X"
  shows "ml_process X p m g = (p', g', Inl e) \<Longrightarrow> p' = p \<and> g' = g"
    and "ml_merge_pending X p g = (p', g', Inl e) \<Longrightarrow> p' = p \<and> g' = g"
    and "ml_store_proposal X p q g \<noteq> (p', g', Inl e)" and "ml_merge_staged X p q g \<noteq> (p', g', Inl e)"
  using assms unfolding failures_quiet_def by (blast, blast, metis Inl_Inr_False snd_conv, metis Inl_Inr_False snd_conv)

lemma map_err_Inl: "map_err f r = Inl e \<longleftrightarrow> (\<exists>e'. r = Inl e' \<and> e = f e')"
  by (auto simp: map_err_def split: sum.splits)

lemma on_group_failed:
  assumes "on_group H i f = (H', Inl e)" and "\<And>p g p' g' e. f p g = (p', g', Inl e) \<Longrightarrow> p' = p \<and> g' = g"
  shows "H' = H"
proof (cases "map_of (mg_groups H) i")
  case None
  then show ?thesis using assms(1) by (simp add: on_group_unknown)
next
  case (Some g)
  obtain p' g' r where f: "f (mg_provider H) g = (p', g', r)" by (metis prod_cases3)
  with assms(1) Some have "r = Inl e" "H' = H\<lparr>mg_provider := p', mg_groups := AList.update i g' (mg_groups H)\<rparr>"
    by (simp_all add: on_group_known)
  then have "p' = mg_provider H \<and> g' = g" using f assms(2) by blast
  with Some \<open>H' = _\<close> show ?thesis by (simp add: update_triv)
qed

lemma process_failed:
  assumes "failures_quiet (mv_lib E)" and "process_message E H i m = (H', Inl e)"
  shows "H' = H"
  using assms(2) unfolding process_message_def
proof (rule on_group_failed)
  note q = failures_quietD [OF assms(1)]
  fix p g p' g' e
  assume "(case ml_protocol_message (mv_lib E) m of
       Inl e \<Rightarrow> (p, g, Inl (EDecryption (''Not a protocol message: '' @ e)))
     | Inr protocol_message \<Rightarrow>
         then_call (lib_call (\<lambda>e. EDecryption (''MLS process_message failed: '' @ e)) (ml_process (mv_lib E) p protocol_message g))
           (\<lambda>p g processed. apply_processed E p g processed)) = (p', g', Inl e)"
  then show "p' = p \<and> g' = g"
    using q(1) q(3,4)
    by (auto simp: then_call_def lib_call_def apply_processed_def map_err_Inl split: sum.splits prod.splits processed_content.splits)
qed

lemma confirm_failed:
  assumes "failures_quiet (mv_lib E)" and "confirm_add_member E H i = (H', Inl e)"
  shows "H' = H"
  using assms(2) unfolding confirm_add_member_def
  by (rule on_group_failed)
    (auto simp: merge_pending_commit_def lib_call_def then_call_def map_err_Inl dest: failures_quietD(2) [OF assms(1)]
      split: if_splits sum.splits prod.splits)

subsection \<open>The direct message listener and the sweep\<close>

lemma safe_put_metadata [safe_intros]: "safe_step A B \<Longrightarrow> safe_step A (put_metadata E meta B)"
  by (simp add: put_metadata_def safe_with_db)

lemma safe_invitation: "safe_step A (fst (handle_group_invitation_dm E h d A))"
  by (auto simp: handle_group_invitation_dm_def Let_def intro!: safe_intros split: option.split)

lemma persist_commit [simp]: "ap_persist (broadcast_stored_commit E D g d A) = ap_persist A"
  by (simp add: broadcast_stored_commit_def split: sum.split option.split prod.split)

lemma persist_member [simp]: "ap_persist (add_member_metadata E now g d A) = ap_persist A"
  by (simp add: add_member_metadata_def put_metadata_def split: option.split)

lemma safe_accepted:
  assumes "failures_quiet (mv_lib (ae_mls E))"
  shows "safe_step A (handle_invite_accepted_dm E D g d A)"
proof -
  obtain H r where c: "confirm_add_member (ae_mls E) (ap_mls A) g = (H, r)" by fastforce
  show ?thesis
  proof (cases r)
    case (Inl e)
    then have "H = ap_mls A" using c confirm_failed [OF assms, of "ap_mls A" g H e] by simp
    with c Inl show ?thesis by (simp add: handle_invite_accepted_dm_def on_mls_def safe_refl)
  next
    case (Inr u)
    then show ?thesis using c by (auto simp: handle_invite_accepted_dm_def on_mls_def Let_def intro!: safe_due)
  qed
qed

lemma safe_declined: "safe_step A (handle_invite_declined_dm E g d A)"
  by (rule safe_due) (simp add: handle_invite_declined_dm_def Let_def)

lemma safe_acknowledge: "safe_step A (acknowledge_delivery E now d i A)"
  by (cases "send_delivered (app_store E) (ae_sign_receipt E) (ap_local_did A) (app_db A) now i")
    (auto simp: acknowledge_delivery_def send_delivered_def send_receipt_def Let_def intro!: safe_intros)

lemma safe_dm_content:
  assumes "failures_quiet (mv_lib (ae_mls E))"
  shows "safe_step A (handle_dm_content E D m c A)"
  unfolding handle_dm_content_def Let_def
  by (auto intro!: safe_with_db safe_refl safe_invitation safe_accepted [OF assms] safe_declined
      safe_trans [OF safe_notify [OF safe_refl] safe_acknowledge] split: option.split)

lemma receive_mls_tree: "db_mls_state (dh_storage (fst (receive_message E H nonce m))) = db_mls_state (dh_storage H)"
proof -
  have p: "db_mls_state (dh_storage (persist_session E H p)) = db_mls_state (dh_storage H)" for H p
    by (simp add: persist_session_def store_session_pickle_def split: option.split)
  have k: "db_mls_state (dh_storage (fst (keep_message E H nonce m c))) = db_mls_state (dh_storage H)" for H c
    by (simp add: keep_message_def persist_plaintext_def store_direct_def store_plaintext_def split: option.split)
  have t: "db_mls_state (dh_storage (fst (take_in E H nonce m p))) = db_mls_state (dh_storage H)" for H p
  proof (cases "cd_decode (de_content E) p")
    case (Some c)
    then show ?thesis using k [of H c] by (auto simp: take_in_def split: prod.split sum.split)
  qed (simp add: take_in_def)
  have o: "olm_plaintext E H m om = (H1, x) \<Longrightarrow> db_mls_state (dh_storage H1) = db_mls_state (dh_storage H)" for om H1 x
    by (cases om; cases "dh_sessions H (dm_sender_did m)")
      (auto simp: olm_plaintext_def open_inbound_def Let_def p split: option.splits sum.splits prod.splits if_splits inbound_error.splits)
  show ?thesis
    by (auto simp: receive_message_def t dest: o split: sum.split prod.split)
qed

lemma safe_replenish: "safe_step A (replenish_keys E A)"
  unfolding replenish_keys_def Let_def
  by (intro safe_intros) (simp_all add: generate_one_time_keys_def mark_one_time_keys_as_published_def app_db_def)

lemma safe_direct_event:
  assumes "failures_quiet (mv_lib (ae_mls E))"
  shows "safe_step A (on_direct_event E D event A)"
proof (cases event)
  case (DirectReceived m)
  obtain H r where rc: "receive_message (ae_direct E) (ap_direct A) (dr_nonce D 0) m = (H, r)" by fastforce
  then have s: "safe_step A (A\<lparr>ap_direct := H\<rparr>)"
    using receive_mls_tree [of "ae_direct E" "ap_direct A" "dr_nonce D 0" m] by (auto simp: app_db_def intro!: safe_intros)
  show ?thesis
  proof (cases r)
    case Inl
    then show ?thesis using DirectReceived rc s by (simp add: on_direct_event_def on_direct_received_def)
  next
    case (Inr c)
    have "safe_step A (handle_dm_content E D m c (A\<lparr>ap_direct := H\<rparr>))"
      by (rule safe_trans [OF s safe_dm_content [OF assms]])
    with DirectReceived rc Inr show ?thesis
      by (auto simp: on_direct_event_def on_direct_received_def Let_def intro: safe_trans [OF _ safe_replenish])
  qed
qed (auto simp: on_direct_event_def intro!: safe_intros)

lemma safe_sweep: "safe_step A (invite_timeout_sweep E now A)"
  by (auto simp: invite_timeout_sweep_def Let_def intro!: safe_intros)

subsection \<open>The group message listener\<close>

lemma on_mls_eq: "on_mls f A = (A\<lparr>ap_mls := fst (f (ap_mls A))\<rparr>, snd (f (ap_mls A)))"
  by (simp add: on_mls_def split: prod.split)

lemma persist_on_mls: "on_mls f A = (B, r) \<Longrightarrow> ap_persist B = ap_persist A"
  by (auto simp: on_mls_eq)

lemma persist_commit_proposals: "ap_persist A \<Longrightarrow> ap_persist (commit_proposals E D g A)"
  by (auto simp: commit_proposals_def Let_def persist_on_mls split: sum.split prod.split option.split)

lemma persist_republish: "ap_persist A \<Longrightarrow> ap_persist (republish_key_package E A)"
  by (auto simp: republish_key_package_def persist_on_mls split: sum.split prod.split)

lemma persist_purge: "ap_persist (purge_group E g A)"
  by (simp add: purge_group_def Let_def)

lemma persist_fold_notify: "ap_persist (fold (\<lambda>x. notify (m x)) xs A) = ap_persist A"
  by (induction xs arbitrary: A) simp_all

lemma persist_after_commit: "ap_persist (after_commit E D g before A)"
  by (simp add: after_commit_def Let_def persist_fold_notify persist_republish persist_purge persist_commit_proposals)

lemma safe_group_failure: "safe_step A (group_failure E g A)"
  by (auto simp: group_failure_def on_mls_def record_processing_failure_def Let_def intro!: safe_intros split: option.split prod.split)

lemma safe_group_message:
  assumes "failures_quiet (mv_lib (ae_mls E))"
  shows "safe_step A (on_group_message E D m A)"
proof (cases "gm_mls_ciphertext m = []")
  case True
  then show ?thesis by (simp add: on_group_message_def Let_def safe_refl)
next
  case nonempty: False
  show ?thesis
  proof (cases "deserialize_message (ae_mls E) (gm_mls_ciphertext m)")
    case Inl
    then show ?thesis using nonempty safe_group_failure by (simp add: on_group_message_def Let_def)
  next
    case (Inr msg)
    obtain H r where p: "process_message (ae_mls E) (ap_mls A) (gm_group_id m) msg = (H, r)" by fastforce
    show ?thesis
    proof (cases r)
      case (Inl e)
      then have "H = ap_mls A" using p process_failed [OF assms, of "ap_mls A" "gm_group_id m" msg H e] by simp
      then show ?thesis using nonempty Inr Inl p safe_group_failure by (simp add: on_group_message_def Let_def on_mls_def)
    next
      case r: (Inr x)
      then show ?thesis using nonempty Inr p
        by (cases x) (auto simp: on_group_message_def Let_def on_mls_def persist_after_commit intro!: safe_intros safe_due)
    qed
  qed
qed

lemma safe_sync_requested: "safe_step A (on_sync_requested E g since limit r A)"
  by (auto simp: on_sync_requested_def Let_def intro!: safe_intros split: sum.split)

lemma safe_peer_connected: "safe_step A (handle_peer_connected E d A)"
proof -
  have f: "safe_step B (flush_message E d m B)" for m B
    by (auto simp: flush_message_def Let_def mark_pending_sent_def app_db_def ask_def safe_step_def mls_core_def)
  have "safe_step B (flush_messages E d B)" for B
    using f by (auto simp: flush_messages_def intro!: safe_fold safe_refl split: sum.split)
  moreover have "safe_step B (flush_receipts E d B)" for B
    by (cases "drain_pending_receipts (app_store E) (app_db B) d")
      (auto simp: flush_receipts_def drain_pending_receipts_def Let_def intro!: safe_fold safe_intros)
  moreover have "safe_step B (request_sync E d g B)" for g B
    by (simp add: request_sync_def Let_def safe_ask safe_refl)
  ultimately show ?thesis
    unfolding handle_peer_connected_def Let_def
    by (intro safe_fold) (blast intro: safe_trans safe_notify safe_refl)+
qed

subsection \<open>Runs of the application\<close>

datatype app_event =
    GroupMessageArrived draws group_message
  | DirectEventArrived draws direct_event
  | InvitesSwept int
  | PeerConnected did
  | GroupSyncServed string int nat nat
  | SnapshotWritten

fun app_step ::
  "('acc, 'sess, 't, 'r, 'g, 'm, 'kp, 'q) app_env \<Rightarrow> app_event \<Rightarrow> ('acc, 'sess, 't, 'r, 'g) app \<Rightarrow> ('acc, 'sess, 't, 'r, 'g) app" where
  "app_step E (GroupMessageArrived D m) A = on_group_message E D m A"
| "app_step E (DirectEventArrived D e) A = on_direct_event E D e A"
| "app_step E (InvitesSwept now) A = invite_timeout_sweep E now A"
| "app_step E (PeerConnected d) A = handle_peer_connected E d A"
| "app_step E (GroupSyncServed g since limit r) A = on_sync_requested E g since limit r A"
| "app_step E SnapshotWritten A = mls_persist E A"

lemma durable_written:
  assumes "app_ok E"
  shows "durable E (mls_persist E A)"
proof -
  have "export_state (ae_mls E) (ap_mls (mls_persist E A)) = export_state (ae_mls E) (ap_mls A)"
    by (simp add: mls_persist_def)
  then show ?thesis
    using assms by (simp add: durable_def snapshot_current_def mls_persist_def fetch_mls_state_def store_mls_state_def
        app_db_def with_db_def store_simps)
qed


lemma ledger_quiet: "failures_quiet ledger_mls"
proof -
  have m: "ledger_merge p g \<noteq> (p', g', Inl e)" for p g p' g' e
    by (cases "(p, g)" rule: ledger_merge.cases) (simp_all add: Let_def)
  show ?thesis by (simp add: failures_quiet_def ledger_mls_def m)
qed


subsection \<open>Group sync\<close>

text \<open>The listener for pages of group sync does not: when a page brings only a commit or a
  proposal that is new, the groups change, but no snapshot write becomes due, since only
  application messages are counted. If the application was durable with no write due, it no
  longer is; a restart brings back the groups from before the commit.\<close>

theorem synced_commit_unsaved:
  assumes "durable E A" and "\<not> ap_persist A"
    and "\<not> has_group_message (app_store E) (app_db A) g (gm_id m)" and "gm_mls_ciphertext m \<noteq> []"
    and "deserialize_message (ae_mls E) (gm_mls_ciphertext m) = Inr msg"
    and "process_message (ae_mls E) (ap_mls A) g msg = (H, Inr None)"
    and "export_state (ae_mls E) H \<noteq> export_state (ae_mls E) (ap_mls A)"
  shows "\<not> durable E (on_sync_received E D g [m] A)"
proof -
  have ex: "export_state (ae_mls E) (record_processing_success H g) = export_state (ae_mls E) H"
    by (simp add: record_processing_success_def export_state_def group_ids_def split: option.split)
  have "on_sync_received E D g [m] A = A\<lparr>ap_mls := record_processing_success H g\<rparr>"
    using assms(3-6) by (simp add: on_sync_received_def sync_message_def on_mls_def)
  then show ?thesis
    using assms(1,2,7) by (simp add: durable_def snapshot_current_def ex)
qed

text \<open>The sample library with commits that move to the next epoch.\<close>

definition ledger_commit :: "unit provider \<Rightarrow> ledger \<Rightarrow> ledger \<Rightarrow> unit provider \<times> ledger \<times> (string + bytes \<times> ledger processed_content)" where
  "ledger_commit p m g =
     (let g' = (fst g, fst (snd g), fst (snd (snd g)) + 1, None) in (ledger_save p g', g', Inr ([], StagedCommitMessage g')))"

definition committing_env :: "(unit, nat, (string, bytes) rbt, unit, ledger, ledger, bytes, ledger) app_env" where
  "committing_env = (counting_app_env (\<lambda>_. None))\<lparr>ae_mls := ledger_env\<lparr>mv_lib := ledger_mls\<lparr>ml_process := ledger_commit, ml_deserialize := (\<lambda>_. Inr ([], [], 0, None))\<rparr>\<rparr>\<rparr>"

theorem synced_commit_unsaved_witness:
  "\<not> durable committing_env (on_sync_received committing_env zero_draws ''G''
       [\<lparr>gm_id = ''c'', gm_sender_did = ''did:v:bob'', gm_group_id = ''G'', gm_timestamp = 5, gm_type = 0, gm_reply_to = None,
         gm_mls_ciphertext = [1]\<rparr>]
       (mls_persist committing_env (fresh_app (db_new rbt_env) (ledger_handler [(''G'', (as_bytes ''G'', [(0, [1])], 0, None))]))))"
proof -
  let ?g = "(as_bytes ''G'', [(0, [1])], 0, None) :: ledger"
  let ?m = "\<lparr>gm_id = ''c'', gm_sender_did = ''did:v:bob'', gm_group_id = ''G'', gm_timestamp = 5, gm_type = 0, gm_reply_to = None,
       gm_mls_ciphertext = [1]\<rparr>"
  let ?A = "mls_persist committing_env (fresh_app (db_new rbt_env) (ledger_handler [(''G'', ?g)]))"
  have ae: "ae_direct committing_env = counting_env" "app_store committing_env = rbt_env"
      "ae_mls committing_env = ledger_env\<lparr>mv_lib := ledger_mls\<lparr>ml_process := ledger_commit, ml_deserialize := (\<lambda>_. Inr ([], [], 0, None))\<rparr>\<rparr>"
    by (simp_all add: committing_env_def counting_app_env_def app_store_def counting_env_def)
  have ok: "app_ok committing_env"
  proof -
    have "mv_store (ae_mls committing_env) = de_store (ae_direct committing_env)" unfolding ae by (simp add: ledger_env_def counting_env_def)
    then show ?thesis unfolding app_ok_def using counting_env_ok ae(1) by metis
  qed
  have A: "ap_mls ?A = ledger_handler [(''G'', ?g)]" "\<not> ap_persist ?A" "db_group (app_db ?A) = db_group (db_new rbt_env)"
    by (simp_all add: mls_persist_def store_mls_state_def app_db_def with_db_def fresh_app_def direct_handler_new_def)
  have ds: "deserialize_message (ae_mls committing_env) (gm_mls_ciphertext ?m) = Inr ([], [], 0, None)"
    by (simp add: deserialize_message_def ae map_err_def)
  let ?g' = "(as_bytes ''G'', [(0, [1])], 1, None) :: ledger"
  let ?H = "(ledger_handler [(''G'', ?g)])\<lparr>mg_provider := ledger_save \<lparr>mp_values = [], mp_rng = ()\<rparr> ?g', mg_groups := [(''G'', ?g')]\<rparr>"
  have pr: "process_message (ae_mls committing_env) (ap_mls ?A) ''G'' ([], [], 0, None) = (?H, Inr None)"
    unfolding A(1) by (simp add: process_message_def on_group_def find_group_def ledger_handler_def ae ledger_mls_def ledger_commit_def
        then_call_def lib_call_def map_err_def apply_processed_def Let_def)
  have sn: "export_state (ae_mls committing_env) ?H \<noteq> export_state (ae_mls committing_env) (ap_mls ?A)"
    unfolding A(1) export_state_def ae
    using codec_inj [OF unary_codec_ok [where 'a = mls_snapshot]]
    by (simp add: ledger_env_def ledger_handler_def ledger_save_def)
  have hg: "\<not> has_group_message (app_store committing_env) (app_db ?A) ''G'' (gm_id ?m)"
  proof -
    have "group_range rbt_env (app_db ?A) ''G'' = []"
      unfolding group_range_def A(3) sled_range_colon [OF env_okD(1) [OF rbt_env_ok]] using rbt_env_ok by (simp add: sled_scan_new db_new_def Let_def)
    then show ?thesis by (simp add: has_group_message_def ae)
  qed
  have ne: "gm_mls_ciphertext ?m \<noteq> []" by simp
  show ?thesis
    by (rule synced_commit_unsaved [OF durable_written [OF ok] A(2) hg ne ds pr sn])
qed

end
