(* ===== verification/Group_Control.thy ===== *)
theory Group_Control
  imports Mls_Durability
begin

section \<open>What the group listeners guarantee\<close>

text \<open>
  Lemmas on \<open>Group_Router\<close>: a removal from a group purges it and nothing else; the answer to
  a sync request; and the desync report, which a page of group sync can use up unseen.
\<close>

subsection \<open>Removal from a group\<close>

lemma members_or_empty_mls: "ap_mls B = ap_mls A \<Longrightarrow> members_or_empty E B g = members_or_empty E A g"
  by (simp add: members_or_empty_def)

lemma republish_fields:
  "mg_groups (ap_mls (republish_key_package E A)) = mg_groups (ap_mls A)"
  "app_db (republish_key_package E A) = app_db A"
  "set (ap_calls A) \<subseteq> set (ap_calls (republish_key_package E A))"
  by (auto simp: republish_key_package_def on_mls_eq generate_key_package_def case_prod_unfold Let_def split: sum.split)

lemma purge_fields:
  "ap_mls (purge_group E g A) = remove_group (ae_mls E) (ap_mls A) g"
  "CallUnsubscribe (group_topic g) \<in> set (ap_calls (purge_group E g A))"
  "db_group_metadata (app_db (purge_group E g A)) = sl_remove (se_sled (app_store E)) (db_group_metadata (app_db A)) g"
  "db_group (app_db (purge_group E g A)) = db_group (delete_group_messages (app_store E) (app_db A) g)"
  "db_group_plaintext (app_db (purge_group E g A)) = db_group_plaintext (delete_group_messages (app_store E) (app_db A) g)"
  "db_outbound_invites (app_db (purge_group E g A)) = db_outbound_invites (delete_all_outbound_invites_for_group (app_store E) (app_db A) g)"
  by (simp_all add: purge_group_def Let_def ask_def app_db_def with_db_def notify_def schedule_mls_persist_def delete_group_metadata_def
      delete_group_messages_def delete_group_last_read_at_def delete_all_outbound_invites_for_group_def)

text \<open>C16. A commit after which the local user is no longer in the members list purges the group
  and only it: the MLS group is gone, and its metadata, its messages and the invitations sent
  for it; every other group keeps its MLS state, metadata and messages. The topic is
  unsubscribed, and a snapshot write is due.\<close>

theorem removal_purges_group:
  assumes "env_ok (app_store E)" and "group_wf (app_store E) (app_db A)" and "no_colon g"
    and "ap_local_did A \<notin> set (members_or_empty E A g)" and "before \<noteq> members_or_empty E A g"
  shows "let A' = after_commit E D g before A; S = app_store E in
    (\<forall>h. map_of (mg_groups (ap_mls A')) h = (if h = g then None else map_of (mg_groups (ap_mls A)) h)) \<and>
    (\<forall>h. metadata_of E A' h = (if h = g then None else metadata_of E A h)) \<and>
    group_messages S (app_db A') = {m \<in> group_messages S (app_db A). gm_group_id m \<noteq> g} \<and>
    fetch_outbound_invites_for_group S (app_db A') g = [] \<and>
    CallUnsubscribe (group_topic g) \<in> set (ap_calls A') \<and> ap_persist A'"
proof -
  let ?B = "purge_group E g (schedule_mls_persist A)" and ?A = "after_commit E D g before A" and ?S = "app_store E"
  have A: "?A = republish_key_package E ?B"
    using assms(4,5) by (auto simp: after_commit_def Let_def members_or_empty_mls [of "schedule_mls_persist A" A])
  have db: "app_db ?A = app_db ?B" by (simp add: A republish_fields)
  have gm: "group_messages ?S (app_db ?A) = group_messages ?S (delete_group_messages ?S (app_db A) g)"
    unfolding group_messages_def db purge_fields by simp
  have "\<forall>h. map_of (mg_groups (ap_mls ?A)) h = (if h = g then None else map_of (mg_groups (ap_mls A)) h)"
    by (simp add: A republish_fields purge_fields remove_group_forgets)
  moreover have "\<forall>h. metadata_of E ?A h = (if h = g then None else metadata_of E A h)"
    using assms(1) by (simp add: metadata_of_def fetch_group_metadata_def db purge_fields store_simps)
  moreover have "group_messages ?S (app_db ?A) = {m \<in> group_messages ?S (app_db A). gm_group_id m \<noteq> g}"
    unfolding gm by (rule conjunct1 [OF delete_group_exact [OF assms(1-3)]])
  moreover have "fetch_outbound_invites_for_group ?S (app_db ?A) g = []"
    using assms(1) by (simp add: fetch_outbound_invites_for_group_def db purge_fields delete_all_outbound_invites_for_group_def
        sled_scan_removed List.map_filter_def)
  moreover have "CallUnsubscribe (group_topic g) \<in> set (ap_calls ?A)"
    using republish_fields(3) [of ?B E] purge_fields(2) [of g E "schedule_mls_persist A"] by (auto simp: A)
  ultimately show ?thesis by (simp add: persist_after_commit Let_def)
qed

theorem removal_purges_group_witness:
  "let A' = after_commit (counting_app_env (\<lambda>_. None)) zero_draws ''G'' [''did:v:alice''] (fresh_app sample_group_db (ledger_handler []))
   in group_messages rbt_env (app_db A') = {sample_group_message ''H'' ''C'' 9} \<and> CallUnsubscribe (group_topic ''G'') \<in> set (ap_calls A')"
proof -
  let ?E = "counting_app_env (\<lambda>_. None)" and ?A = "fresh_app sample_group_db (ledger_handler [])"
  have m: "members_or_empty ?E ?A ''G'' = []"
    by (simp add: members_or_empty_def list_members_def find_group_def ledger_handler_def and_then_def)
  have e: "env_ok (app_store ?E)" "group_wf (app_store ?E) (app_db ?A)"
    using rbt_env_ok sample_group_db(1) by simp_all
  have a: "ap_local_did ?A \<notin> set (members_or_empty ?E ?A ''G'')" "[''did:v:alice''] \<noteq> members_or_empty ?E ?A ''G''"
    by (simp_all add: m)
  have "{n \<in> group_messages rbt_env sample_group_db. gm_group_id n \<noteq> ''G''} = {sample_group_message ''H'' ''C'' 9}"
    unfolding sample_group_db(2) by auto
  with removal_purges_group [OF e no_colon_G a, of zero_draws] show ?thesis by (simp add: Let_def)
qed

subsection \<open>Serving group sync\<close>

text \<open>The answer to a sync request for a group, whoever asks: the oldest stored messages of
  the group after the given time, in order, as many as the limit, where 0 means 100 and
  nothing above 500 is served; \<open>has_more\<close> is set when the page is full. It never fails, and
  nothing else changes.\<close>

theorem sync_page_exact:
  assumes "env_ok (app_store E)" and "group_wf (app_store E) (app_db A)" and "no_colon g" and "stamp_ok (since + 1)"
  shows "\<exists>out.
    (let new = {m \<in> group_messages (app_store E) (app_db A). gm_group_id m = g \<and> since < gm_timestamp m};
         n = (if limit = 0 then 100 else min limit 500)
     in on_sync_requested E g since limit r A
          = A\<lparr>ap_calls := ap_calls A @ [CallRespondSync r
               \<lparr>gs_messages = out, gs_has_more = (n \<le> card new), gs_error_code = None, gs_error_message = None\<rparr>]\<rparr> \<and>
        sorted (map gm_timestamp out) \<and> distinct out \<and> set out \<subseteq> new \<and> length out = min n (card new) \<and>
        (\<forall>m \<in> new - set out. \<forall>m' \<in> set out. gm_timestamp m' \<le> gm_timestamp m))"
proof -
  let ?n = "sync_limit limit"
  have n: "?n = (if limit = 0 then 100 else min limit 500)" "0 < ?n" by (simp_all add: sync_limit_def)
  obtain out where out: "fetch_group_since (app_store E) (app_db A) g since ?n = Inr out"
    "let new = {m \<in> group_messages (app_store E) (app_db A). gm_group_id m = g \<and> since < gm_timestamp m}
      in sorted (map gm_timestamp out) \<and> distinct out \<and> set out \<subseteq> new \<and>
         length out = min (max 1 ?n) (card new) \<and>
         (\<forall>m \<in> new - set out. \<forall>m' \<in> set out. gm_timestamp m' \<le> gm_timestamp m)"
    using fetch_group_since_oldest [OF assms, of ?n] by blast
  show ?thesis
    using out n(2) unfolding n(1) [symmetric] Let_def
    by (intro exI [of _ out]) (auto simp: on_sync_requested_def Let_def ask_def min_def)
qed

theorem sync_page_exact_witness:
  "on_sync_requested (counting_app_env (\<lambda>_. None)) ''G'' 5 0 3 (fresh_app sample_group_db (ledger_handler []))
     = (fresh_app sample_group_db (ledger_handler []))\<lparr>ap_calls := [CallRespondSync 3
         \<lparr>gs_messages = [sample_group_message ''G'' ''B'' 7], gs_has_more = False, gs_error_code = None, gs_error_message = None\<rparr>]\<rparr>"
proof -
  let ?E = "counting_app_env (\<lambda>_. None)" and ?A = "fresh_app sample_group_db (ledger_handler [])"
  have e: "env_ok (app_store ?E)" "group_wf (app_store ?E) (app_db ?A)"
    using rbt_env_ok sample_group_db(1) by simp_all
  have new: "{m \<in> group_messages (app_store ?E) (app_db ?A). gm_group_id m = ''G'' \<and> 5 < gm_timestamp m}
      = {sample_group_message ''G'' ''B'' 7}"
    using sample_group_db(2) by auto
  have "stamp_ok (5 + 1)" by simp
  from sync_page_exact [OF e no_colon_G this, of 0 3, unfolded Let_def new]
  obtain out where out: "on_sync_requested ?E ''G'' 5 0 3 ?A = ?A\<lparr>ap_calls := ap_calls ?A @ [CallRespondSync 3
         \<lparr>gs_messages = out, gs_has_more = False, gs_error_code = None, gs_error_message = None\<rparr>]\<rparr>"
      "set out \<subseteq> {sample_group_message ''G'' ''B'' 7}" "length out = 1"
    by auto
  have "out = [sample_group_message ''G'' ''B'' 7]" by (rule singleton_subset_list [OF out(3,2)])
  with out(1) show ?thesis by simp
qed

subsection \<open>The desync report\<close>

definition failed_once :: "('r, 'g, 'm, 'kp, 'q, 't) mls_env \<Rightarrow> string \<Rightarrow> ('r, 'g) mls_handler \<Rightarrow> ('r, 'g) mls_handler" where
  "failed_once E g H = fst (record_processing_failure E H g)"

lemma failed_once_fields [simp]:
  "mg_groups (failed_once E g H) = mg_groups H" "mg_provider (failed_once E g H) = mg_provider H"
  by (simp_all add: failed_once_def record_processing_failure_def Let_def)

lemma failed_once_counts:
  assumes "failure_count H g + 1 < 2 ^ 32"
  shows "failure_count (failed_once E g H) g = failure_count H g + 1 \<and>
    (is_desynced (failed_once E g H) g \<longleftrightarrow> is_desynced H g \<or> 3 \<le> failure_count H g + 1)"
proof (cases "mg_desync_counters H g")
  case (Some c)
  then show ?thesis using assms by (auto simp: failed_once_def desync_defs add_u32_def u32_modulus_def)
qed (simp add: failed_once_def desync_defs add_u32_def u32_modulus_def)

lemma failed_times:
  assumes "failure_count H g + n < 2 ^ 32"
  shows "failure_count ((failed_once E g ^^ n) H) g = failure_count H g + n \<and>
    (is_desynced ((failed_once E g ^^ n) H) g \<longleftrightarrow> is_desynced H g \<or> (0 < n \<and> 3 \<le> failure_count H g + n))"
  using assms
proof (induction n)
  case (Suc n)
  let ?H = "(failed_once E g ^^ n) H"
  have ih: "failure_count ?H g = failure_count H g + n" "is_desynced ?H g \<longleftrightarrow> is_desynced H g \<or> (0 < n \<and> 3 \<le> failure_count H g + n)"
    using Suc by simp_all
  have "failure_count ?H g + 1 < 2 ^ 32" using ih(1) Suc.prems by simp
  note c = failed_once_counts [OF this, of E]
  show ?case unfolding funpow.simps comp_apply conjunct1 [OF c] conjunct2 [OF c] ih by auto
qed simp

lemma flagged_silent: "is_desynced H g \<Longrightarrow> snd (record_processing_failure E H g) = None \<and> is_desynced (failed_once E g H) g"
  by (cases "mg_desync_counters H g") (simp_all add: failed_once_def desync_defs)

lemma group_failure_flagged:
  assumes "is_desynced (ap_mls A) g"
  shows "ap_ws ((group_failure E g ^^ n) A) = ap_ws A \<and> is_desynced (ap_mls ((group_failure E g ^^ n) A)) g"
proof (induction n)
  case (Suc n)
  let ?B = "(group_failure E g ^^ n) A"
  note f = flagged_silent [OF conjunct2 [OF Suc.IH], of "ae_mls E"]
  then have "record_processing_failure (ae_mls E) (ap_mls ?B) g = (failed_once (ae_mls E) g (ap_mls ?B), None)"
    unfolding failed_once_def by (metis prod.collapse)
  then have "group_failure E g ?B = ?B\<lparr>ap_mls := failed_once (ae_mls E) g (ap_mls ?B)\<rparr>"
    by (simp add: group_failure_def on_mls_def)
  then show ?case using f Suc.IH by simp
qed (use assms in simp)

text \<open>A message that openmls refuses, whatever the counters say.\<close>

definition refused :: "('r, 'g, 'm, 'kp, 'q, 't) mls_env \<Rightarrow> ('r, 'g) mls_handler \<Rightarrow> string \<Rightarrow> group_message \<Rightarrow> bool" where
  "refused E H g m \<longleftrightarrow> gm_mls_ciphertext m \<noteq> [] \<and>
     (\<exists>msg e. deserialize_message E (gm_mls_ciphertext m) = Inr msg \<and> process_message E H g msg = (H, Inl e))"

lemma on_group_counters:
  "on_group (H\<lparr>mg_desync_counters := c\<rparr>) i f = ((fst (on_group H i f))\<lparr>mg_desync_counters := c\<rparr>, snd (on_group H i f))"
  by (simp add: on_group_def find_group_def split: option.split prod.split)

lemma refused_failed: "refused E (failed_once E g H) g m = refused E H g m"
proof -
  obtain c where f: "failed_once E g H = H\<lparr>mg_desync_counters := c\<rparr>"
    by (simp add: failed_once_def record_processing_failure_def Let_def)
  have "process_message E (failed_once E g H) g msg = (failed_once E g H, Inl e) \<longleftrightarrow> process_message E H g msg = (H, Inl e)" for msg e
    unfolding f process_message_def on_group_counters
    by (cases H; cases "map_of (mg_groups H) g") (auto simp: on_group_def find_group_def split: prod.splits)
  then show ?thesis by (simp add: refused_def)
qed

lemma sync_refused:
  assumes "\<forall>m \<in> set ms. refused (ae_mls E) (ap_mls A) g m \<and> \<not> has_group_message (app_store E) (app_db A) g (gm_id m)"
  shows "sync_loop E D g k ms (A, n) = (A\<lparr>ap_mls := (failed_once (ae_mls E) g ^^ length ms) (ap_mls A)\<rparr>, n)"
  using assms
proof (induction ms arbitrary: A k)
  case (Cons m ms)
  let ?B = "A\<lparr>ap_mls := failed_once (ae_mls E) g (ap_mls A)\<rparr>"
  have s: "sync_message E (dr_nonce D k) g m (A, n) = (?B, n)"
    using Cons.prems by (auto simp: refused_def sync_message_def on_mls_eq failed_once_def)
  have "sync_loop E D g (Suc k) ms (?B, n)
      = (?B\<lparr>ap_mls := (failed_once (ae_mls E) g ^^ length ms) (ap_mls ?B)\<rparr>, n)"
    by (rule Cons.IH) (use Cons.prems in \<open>simp add: refused_failed\<close>)
  then show ?case by (simp add: s funpow_swap1)
qed simp

text \<open>A page of group sync can use up the desync report. Take a page of at least three new
  messages that openmls refuses, for a group that is not flagged as desynced: afterwards the
  group is flagged, the clients have been told nothing, and no later failure of a live message
  tells them, however many there are.\<close>

theorem sync_uses_up_desync_report:
  assumes "\<forall>m \<in> set ms. refused (ae_mls E) (ap_mls A) g m \<and> \<not> has_group_message (app_store E) (app_db A) g (gm_id m)"
    and "3 \<le> length ms" and "failure_count (ap_mls A) g + length ms < 2 ^ 32"
  shows "let A' = on_sync_received E D g ms A in
    is_desynced (ap_mls A') g \<and> ap_ws A' = ap_ws A \<and> (\<forall>n. ap_ws ((group_failure E g ^^ n) A') = ap_ws A)"
proof -
  let ?A = "on_sync_received E D g ms A"
  have A: "?A = A\<lparr>ap_mls := (failed_once (ae_mls E) g ^^ length ms) (ap_mls A)\<rparr>"
    by (simp add: on_sync_received_def sync_refused [OF assms(1)])
  have "is_desynced (ap_mls ?A) g"
    using failed_times [OF assms(3), of "ae_mls E"] assms(2) by (auto simp: A)
  moreover have "ap_ws ?A = ap_ws A" by (simp add: A)
  ultimately show ?thesis using group_failure_flagged [of ?A g _ E] by (simp add: Let_def)
qed

theorem sync_uses_up_desync_report_witness:
  "let m = (\<lambda>i. \<lparr>gm_id = i, gm_sender_did = ''did:v:bob'', gm_group_id = ''G'', gm_timestamp = 5, gm_type = 0, gm_reply_to = None,
         gm_mls_ciphertext = [1]\<rparr>);
       A' = on_sync_received committing_env zero_draws ''G'' [m ''a'', m ''b'', m ''c''] (fresh_app (db_new rbt_env) (ledger_handler []))
   in is_desynced (ap_mls A') ''G'' \<and> ap_ws ((group_failure committing_env ''G'' ^^ 7) A') = []"
proof -
  let ?m = "\<lambda>i. \<lparr>gm_id = i, gm_sender_did = ''did:v:bob'', gm_group_id = ''G'', gm_timestamp = 5, gm_type = 0, gm_reply_to = None,
         gm_mls_ciphertext = [1]\<rparr>"
  let ?A = "fresh_app (db_new rbt_env) (ledger_handler [])"
  have st: "app_store committing_env = rbt_env" by (simp add: committing_env_def counting_app_env_def app_store_def counting_env_def)
  have "group_range rbt_env (db_new rbt_env) ''G'' = []"
    unfolding group_range_def sled_range_colon [OF env_okD(1) [OF rbt_env_ok]] using rbt_env_ok by (simp add: sled_scan_new db_new_def Let_def)
  then have new: "\<not> has_group_message (app_store committing_env) (app_db ?A) ''G'' i" for i
    by (simp add: has_group_message_def st)
  have ref: "refused (ae_mls committing_env) (ap_mls ?A) ''G'' (?m i)" for i
    by (simp add: refused_def process_message_def on_group_unknown ledger_handler_def deserialize_message_def committing_env_def
        ledger_mls_def ledger_env_def map_err_def)
  have "\<forall>m \<in> set [?m ''a'', ?m ''b'', ?m ''c'']. refused (ae_mls committing_env) (ap_mls ?A) ''G'' m \<and>
      \<not> has_group_message (app_store committing_env) (app_db ?A) ''G'' (gm_id m)"
    using new ref by simp
  from sync_uses_up_desync_report [OF this, of zero_draws]
  show ?thesis by (simp add: Let_def ledger_handler_def failure_count_def)
qed

text \<open>The report itself comes with the third failure in a row, and once.\<close>

definition epoch_or_zero :: "('r, 'g, 'm, 'kp, 'q, 't) mls_env \<Rightarrow> ('r, 'g) mls_handler \<Rightarrow> string \<Rightarrow> nat" where
  "epoch_or_zero E H g = (case epoch E H g of Inl _ \<Rightarrow> 0 | Inr n \<Rightarrow> n)"

lemma epoch_failed [simp]: "epoch_or_zero E (failed_once E g H) h = epoch_or_zero E H h"
  by (simp add: epoch_or_zero_def epoch_def find_group_def)

lemma record_failure_eq:
  assumes "\<not> is_desynced H g" and "failure_count H g < 2"
  shows "record_processing_failure E H g = (failed_once E g H, None)"
  using assms by (cases "mg_desync_counters H g") (auto simp: failed_once_def desync_defs add_u32_def u32_modulus_def)

lemma record_failure_third:
  assumes "\<not> is_desynced H g" and "failure_count H g = 2"
  shows "record_processing_failure E H g
    = (failed_once E g H, Some \<lparr>di_group_id = g, di_failed_count = 3, di_local_epoch = epoch_or_zero E H g\<rparr>)"
  using assms by (cases "mg_desync_counters H g") (auto simp: failed_once_def desync_defs add_u32_def u32_modulus_def epoch_or_zero_def)

lemma three_failures:
  assumes "\<not> is_desynced (ap_mls A) g" and "failure_count (ap_mls A) g = 0"
  shows "(group_failure E g ^^ 3) A = notify (GroupDesyncDetected g 3 (epoch_or_zero (ae_mls E) (ap_mls A) g))
     (A\<lparr>ap_mls := (failed_once (ae_mls E) g ^^ 3) (ap_mls A)\<rparr>)"
proof -
  let ?f = "failed_once (ae_mls E) g" and ?H = "ap_mls A"
  have a: "\<not> is_desynced (?f ?H) g \<and> failure_count (?f ?H) g = 1"
    using failed_times [of ?H g 1 "ae_mls E"] assms by simp
  have b: "\<not> is_desynced (?f (?f ?H)) g \<and> failure_count (?f (?f ?H)) g = 2"
    using failed_times [of "?f ?H" g 1 "ae_mls E"] a by simp
  have 1: "group_failure E g A = A\<lparr>ap_mls := ?f ?H\<rparr>"
    using record_failure_eq [of ?H g "ae_mls E"] assms by (simp add: group_failure_def on_mls_def)
  have 2: "group_failure E g (A\<lparr>ap_mls := ?f ?H\<rparr>) = A\<lparr>ap_mls := ?f (?f ?H)\<rparr>"
    using record_failure_eq [of "?f ?H" g "ae_mls E"] a by (simp add: group_failure_def on_mls_def)
  have 3: "group_failure E g (A\<lparr>ap_mls := ?f (?f ?H)\<rparr>)
      = notify (GroupDesyncDetected g 3 (epoch_or_zero (ae_mls E) ?H g)) (A\<lparr>ap_mls := ?f (?f (?f ?H))\<rparr>)"
    using record_failure_third [of "?f (?f ?H)" g "ae_mls E"] b by (simp add: group_failure_def on_mls_def)
  show ?thesis by (simp only: numeral_3_eq_3 funpow.simps comp_apply id_apply 1 2 3)
qed

text \<open>Anybody who can publish on a group's topic can raise the desync report. Whoever sent
  them, three or more messages in a row that do not parse flag the group as desynced and
  tell the clients exactly once, with a failure count of three.\<close>

theorem junk_raises_desync:
  assumes "\<forall>m \<in> set ms. gm_group_id m = g \<and> gm_mls_ciphertext m \<noteq> [] \<and> (\<exists>e. deserialize_message (ae_mls E) (gm_mls_ciphertext m) = Inl e)"
    and "3 \<le> length ms" and "\<not> is_desynced (ap_mls A) g" and "failure_count (ap_mls A) g = 0"
  shows "let A' = fold (on_group_message E D) ms A in is_desynced (ap_mls A') g \<and>
    ap_ws A' = broadcast (GroupDesyncDetected g 3 (epoch_or_zero (ae_mls E) (ap_mls A) g)) (ap_ws A)"
proof -
  have f: "fold (on_group_message E D) ms B = (group_failure E g ^^ length ms) B" for B
    using assms(1) by (induction ms arbitrary: B) (auto simp: on_group_message_def Let_def funpow_swap1)
  obtain k where k: "length ms = k + 3" using assms(2) by (metis add.commute le_Suc_ex)
  let ?B = "(group_failure E g ^^ 3) A"
  note B = three_failures [OF assms(3,4), of E]
  have "is_desynced (ap_mls ?B) g"
    using failed_times [of "ap_mls A" g 3 "ae_mls E"] assms(4) unfolding B by simp
  note s = group_failure_flagged [OF this, of k E]
  have "ap_ws ?B = broadcast (GroupDesyncDetected g 3 (epoch_or_zero (ae_mls E) (ap_mls A) g)) (ap_ws A)"
    unfolding B by simp
  with s show ?thesis unfolding f k funpow_add comp_apply Let_def by (simp only: simp_thms)
qed

theorem junk_raises_desync_witness:
  "let m = (\<lambda>i. \<lparr>gm_id = i, gm_sender_did = ''did:v:eve'', gm_group_id = ''G'', gm_timestamp = 5, gm_type = 0, gm_reply_to = None,
         gm_mls_ciphertext = [1]\<rparr>);
       E = (counting_app_env (\<lambda>_. None))\<lparr>ae_mls := ledger_env\<lparr>mv_lib := ledger_mls\<lparr>ml_deserialize := (\<lambda>_. Inl ''bad'')\<rparr>\<rparr>\<rparr>
   in is_desynced (ap_mls (fold (on_group_message E zero_draws) [m ''a'', m ''b'', m ''c'', m ''d'']
        (fresh_app (db_new rbt_env) (ledger_handler [(''G'', (as_bytes ''G'', [(0, [1])], 4, None))])))) ''G''"
proof -
  let ?m = "\<lambda>i. \<lparr>gm_id = i, gm_sender_did = ''did:v:eve'', gm_group_id = ''G'', gm_timestamp = 5, gm_type = 0, gm_reply_to = None,
         gm_mls_ciphertext = [1]\<rparr>"
  let ?E = "(counting_app_env (\<lambda>_. None))\<lparr>ae_mls := ledger_env\<lparr>mv_lib := ledger_mls\<lparr>ml_deserialize := (\<lambda>_. Inl ''bad'')\<rparr>\<rparr>\<rparr>"
  have "\<forall>m \<in> set [?m ''a'', ?m ''b'', ?m ''c'', ?m ''d'']. gm_group_id m = ''G'' \<and> gm_mls_ciphertext m \<noteq> [] \<and>
      (\<exists>e. deserialize_message (ae_mls ?E) (gm_mls_ciphertext m) = Inl e)"
    by (simp add: deserialize_message_def map_err_def)
  from junk_raises_desync [OF this, where D = zero_draws and A = "fresh_app (db_new rbt_env) (ledger_handler [(''G'', (as_bytes ''G'', [(0, [1])], 4, None))])"]
  show ?thesis by (simp add: Let_def ledger_handler_def failure_count_def is_desynced_def)
qed

end
