(* ===== verification/Api_Helpers.thy ===== *)
theory Api_Helpers
  imports App_State Calls Identity_Handler
begin

section \<open>Helpers of the HTTP handlers (\<open>variance-app/src/api/helpers.rs\<close>, \<open>error.rs\<close>)\<close>

text \<open>
  A handler is a function from the application's state to the state and a result. The texts of
  the errors are left out: an \<open>api_error\<close> is the variant, which fixes the status code. What
  the network answers to the queries of a handler is \<open>network\<close>: the resolution of a DID, and
  whether the ten seconds of \<open>tokio::time::timeout\<close> pass before it is there, where the code sets
  that limit; the providers of a name in the DHT; the answer of a peer to an identity request;
  and the peers that are connected.
\<close>

datatype api_error = ApiBadRequest | ApiNotFound | ApiUnauthorized | ApiForbidden | ApiSessionRequired | ApiApp

fun http_status :: "api_error \<Rightarrow> nat" where
  "http_status ApiBadRequest = 400"
| "http_status ApiNotFound = 404"
| "http_status ApiUnauthorized = 401"
| "http_status ApiForbidden = 403"
| "http_status ApiSessionRequired = 422"
| "http_status ApiApp = 500"

record network =
  nw_resolve :: "did \<Rightarrow> string + identity_found"
  nw_times_out :: "did \<Rightarrow> bool"
  nw_providers :: "string \<Rightarrow> string + string list"
  nw_identity :: "string \<Rightarrow> identity_request \<Rightarrow> string + identity_response"
  nw_connected :: "did list"

subsection \<open>Plumbing\<close>

fun api_bind :: "'s \<times> ('e + 'a) \<Rightarrow> ('s \<Rightarrow> 'a \<Rightarrow> 's \<times> ('e + 'b)) \<Rightarrow> 's \<times> ('e + 'b)" where
  "api_bind (A, Inl e) k = (A, Inl e)"
| "api_bind (A, Inr x) k = k A x"

definition on_direct ::
  "(('acc, 'sess, 't) direct_handler \<Rightarrow> ('acc, 'sess, 't) direct_handler \<times> 'a) \<Rightarrow> ('acc, 'sess, 't, 'r, 'g) app
     \<Rightarrow> ('acc, 'sess, 't, 'r, 'g) app \<times> 'a" where
  "on_direct f A = (let (H, r) = f (ap_direct A) in (A\<lparr>ap_direct := H\<rparr>, r))"

definition as_error :: "api_error \<Rightarrow> 's \<times> ('e + 'a) \<Rightarrow> 's \<times> (api_error + 'a)" where
  "as_error e r = (case r of (A, Inl _) \<Rightarrow> (A, Inl e) | (A, Inr x) \<Rightarrow> (A, Inr x))"

text \<open>\<open>str::trim\<close> takes the characters with the Unicode property White\_Space off both ends; in
  UTF-8 they are these byte sequences.\<close>

definition white_space :: "nat list list" where
  "white_space =
     map (\<lambda>b. [b]) [9, 10, 11, 12, 13, 32] @ [[0xC2, 0x85], [0xC2, 0xA0], [0xE1, 0x9A, 0x80]] @
     map (\<lambda>b. [0xE2, 0x80, b]) ([0x80..<0x8B] @ [0xA8, 0xA9, 0xAF]) @ [[0xE2, 0x81, 0x9F], [0xE3, 0x80, 0x80]]"

function skip_codes :: "nat list list \<Rightarrow> nat list \<Rightarrow> nat list" where
  "skip_codes ws s =
     (case find (\<lambda>w. w \<noteq> [] \<and> take (length w) s = w) ws of
        None \<Rightarrow> s
      | Some w \<Rightarrow> skip_codes ws (drop (length w) s))"
  by pat_completeness auto

lemma found_in: "find P xs = Some w \<Longrightarrow> w \<in> set xs \<and> P w"
  by (auto simp: find_Some_iff)

termination skip_codes
proof (relation "measure (length \<circ> snd)")
  fix ws s w assume "find (\<lambda>w. w \<noteq> [] \<and> take (length w) s = w) ws = Some w"
  then have "w \<noteq> []" and "take (length w) s = w" using found_in by fastforce+
  then show "((ws, drop (length w) s), (ws, s)) \<in> measure (length \<circ> snd)" by (cases s) auto
qed simp

declare skip_codes.simps [simp del]

definition trim :: "string \<Rightarrow> string" where
  "trim s = map char_of (rev (skip_codes (map rev white_space) (rev (skip_codes white_space (map of_char s)))))"

definition trim_is_empty :: "string \<Rightarrow> bool" where
  "trim_is_empty s \<longleftrightarrow> trim s = []"

lemma skip_codes_stop:
  assumes "\<And>w. w \<in> set ws \<Longrightarrow> w \<noteq> [] \<Longrightarrow> hd w \<noteq> c"
  shows "skip_codes ws (c # s) = c # s"
proof -
  have "find (\<lambda>w. w \<noteq> [] \<and> take (length w) (c # s) = w) ws = None"
    using assms by (fastforce simp: find_None_iff Cons_eq_append_conv take_Cons' dest: arg_cong [where f = hd])
  then show ?thesis by (subst skip_codes.simps) simp
qed

lemma white_space_ends:
  "w \<in> set white_space \<Longrightarrow> hd w < 33 \<or> 127 < hd w" "w \<in> set white_space \<Longrightarrow> last w < 33 \<or> 127 < last w"
  by (auto simp: white_space_def)

text \<open>A text that begins and ends with a visible ASCII character is as it is.\<close>

lemma trim_visible:
  assumes "s \<noteq> []" and "(33 :: nat) \<le> of_char (hd s)" "of_char (hd s) < (128 :: nat)"
    and "(33 :: nat) \<le> of_char (last s)" "of_char (last s) < (128 :: nat)"
  shows "trim s = s"
proof -
  obtain c t where s: "s = c # t" using assms(1) by (cases s) auto
  obtain u d where r: "s = u @ [d]" using assms(1) by (metis append_butlast_last_id)
  have "skip_codes white_space (map of_char s) = map of_char s"
    using assms(2,3) unfolding s by (force intro!: skip_codes_stop dest: white_space_ends(1))
  moreover have "skip_codes (map rev white_space) (rev (map of_char s)) = rev (map of_char s)"
    using assms(4,5) unfolding r by (force intro!: skip_codes_stop simp: hd_rev dest: white_space_ends(2))
  ultimately show ?thesis by (simp add: trim_def)
qed

text \<open>The text of a message or of a group's content is accepted up to 4096 bytes.\<close>

definition text_refused :: "string \<Rightarrow> bool" where
  "text_refused text \<longleftrightarrow> trim_is_empty text \<or> length text > 4096"

subsection \<open>Sessions, names and sending\<close>

definition api_conversation_id :: "did \<Rightarrow> did \<Rightarrow> string" where
  "api_conversation_id did1 did2 = (let dids = sort [did1, did2] in dids ! 0 @ '':'' @ dids ! 1)"

text \<open>\<open>init_session_if_needed\<close> has no failing path, so the first one-time key of 32 bytes is the one used.\<close>

fun try_one_time_keys ::
  "('acc, 'sess, 't, 'r, 'g, 'm, 'kp, 'q) app_env \<Rightarrow> did \<Rightarrow> bytes \<Rightarrow> bytes list \<Rightarrow> ('acc, 'sess, 't, 'r, 'g) app
     \<Rightarrow> ('acc, 'sess, 't, 'r, 'g) app" where
  "try_one_time_keys E recipient_did ik [] A = A"
| "try_one_time_keys E recipient_did ik (otk # otks) A =
     (if length otk = 32
      then A\<lparr>ap_direct := init_session_if_needed (ae_direct E) (ap_direct A) recipient_did ik otk\<rparr>
      else try_one_time_keys E recipient_did ik otks A)"

definition ensure_olm_session ::
  "('acc, 'sess, 't, 'r, 'g, 'm, 'kp, 'q) app_env \<Rightarrow> network \<Rightarrow> did \<Rightarrow> ('acc, 'sess, 't, 'r, 'g) app
     \<Rightarrow> ('acc, 'sess, 't, 'r, 'g) app \<times> (api_error + unit)" where
  "ensure_olm_session E N recipient_did A =
     (if recipient_did = ap_local_did A then (A, Inr ())
      else if has_session (ap_direct A) recipient_did then (A, Inr ())
      else if nw_times_out N recipient_did then (A, Inl ApiSessionRequired)
      else (case nw_resolve N recipient_did of
          Inl _ \<Rightarrow> (A, Inl ApiSessionRequired)
        | Inr found \<Rightarrow>
            if length (if_olm_identity_key found) \<noteq> 32 then (A, Inl ApiSessionRequired)
            else if if_one_time_keys found = [] then (A, Inl ApiSessionRequired)
            else (try_one_time_keys E recipient_did (if_olm_identity_key found) (if_one_time_keys found) A, Inr ())))"

definition ensure_olm_session_with_keys ::
  "('acc, 'sess, 't, 'r, 'g, 'm, 'kp, 'q) app_env \<Rightarrow> network \<Rightarrow> did \<Rightarrow> string option \<Rightarrow> string option
     \<Rightarrow> ('acc, 'sess, 't, 'r, 'g) app \<Rightarrow> ('acc, 'sess, 't, 'r, 'g) app \<times> (api_error + unit)" where
  "ensure_olm_session_with_keys E N recipient_did identity_key_hex one_time_key_hex A =
     (if recipient_did = ap_local_did A then (A, Inr ())
      else if has_session (ap_direct A) recipient_did then (A, Inr ())
      else (case (identity_key_hex, one_time_key_hex) of
          (Some ik_hex, Some otk_hex) \<Rightarrow>
            (case hex_decode ik_hex of
               None \<Rightarrow> (A, Inl ApiBadRequest)
             | Some ik \<Rightarrow>
                 if length ik \<noteq> 32 then (A, Inl ApiBadRequest)
                 else (case hex_decode otk_hex of
                     None \<Rightarrow> (A, Inl ApiBadRequest)
                   | Some otk \<Rightarrow>
                       if length otk \<noteq> 32 then (A, Inl ApiBadRequest)
                       else (A\<lparr>ap_direct := init_session_if_needed (ae_direct E) (ap_direct A) recipient_did ik otk\<rparr>,
                             Inr ())))
        | _ \<Rightarrow> ensure_olm_session E N recipient_did A))"

fun query_providers ::
  "('acc, 'sess, 't, 'r, 'g, 'm, 'kp, 'q) app_env \<Rightarrow> network \<Rightarrow> int \<Rightarrow> string \<Rightarrow> nat option \<Rightarrow> string list
     \<Rightarrow> ('acc, 'sess, 't, 'r, 'g) app \<Rightarrow> ('acc, 'sess, 't, 'r, 'g) app \<times> (api_error + did)" where
  "query_providers E N now base_name requested_disc [] A = (A, Inl ApiNotFound)"
| "query_providers E N now base_name requested_disc (peer_id # providers) A =
     (case map_sum id ir_result (nw_identity N peer_id (create_peer_id_request now peer_id (Some (ap_local_did A)))) of
        Inr (Some (Found found)) \<Rightarrow>
          (case if_did_document found of
             Some doc \<Rightarrow>
               (let disc = (case if_discriminator found of Some d \<Rightarrow> d | None \<Rightarrow> 1)
                in if (case requested_disc of Some req_disc \<Rightarrow> disc \<noteq> req_disc | None \<Rightarrow> False)
                   then query_providers E N now base_name requested_disc providers A
                   else (A\<lparr>ap_usernames := fst (register_with_discriminator (ae_unicode E) (ap_usernames A) base_name disc (dd_id doc))\<rparr>,
                         Inr (dd_id doc)))
           | None \<Rightarrow> query_providers E N now base_name requested_disc providers A)
      | _ \<Rightarrow> query_providers E N now base_name requested_disc providers A)"

definition resolve_invitee_did ::
  "('acc, 'sess, 't, 'r, 'g, 'm, 'kp, 'q) app_env \<Rightarrow> network \<Rightarrow> int \<Rightarrow> string \<Rightarrow> ('acc, 'sess, 't, 'r, 'g) app
     \<Rightarrow> ('acc, 'sess, 't, 'r, 'g) app \<times> (api_error + did)" where
  "resolve_invitee_did E N now invitee A =
     (if prefix ''did:'' invitee then (A, Inr invitee)
      else
       (let (base_name, requested_disc) =
              (case parse_username invitee of Some (name, disc) \<Rightarrow> (name, Some disc) | None \<Rightarrow> (invitee, None));
            known = (case requested_disc of
                Some disc \<Rightarrow> (case lookup_exact (ae_unicode E) (ap_usernames A) base_name disc of
                    Some did \<Rightarrow> Some (Inr did) | None \<Rightarrow> None)
              | None \<Rightarrow> (case lookup_all (ae_unicode E) (ap_usernames A) base_name of
                    [] \<Rightarrow> None | [(_, did)] \<Rightarrow> Some (Inr did) | _ \<Rightarrow> Some (Inl ApiBadRequest)))
        in case known of
             Some r \<Rightarrow> (A, r)
           | None \<Rightarrow>
               (case nw_providers N base_name of
                  Inl _ \<Rightarrow> (A, Inl ApiApp)
                | Inr [] \<Rightarrow> (A, Inl ApiNotFound)
                | Inr providers \<Rightarrow> query_providers E N now base_name requested_disc providers A)))"

definition send_dm_to_peer ::
  "('acc, 'sess, 't, 'r, 'g, 'm, 'kp, 'q) app_env \<Rightarrow> did \<Rightarrow> direct_message \<Rightarrow> ('acc, 'sess, 't, 'r, 'g) app
     \<Rightarrow> ('acc, 'sess, 't, 'r, 'g) app \<times> string" where
  "send_dm_to_peer E recipient_did message A =
     (let c = CallSendDirect recipient_did message; A = ask c A
      in case ae_answer E c of
           None \<Rightarrow> (A, ''sent'')
         | Some _ \<Rightarrow> (A\<lparr>ap_direct := queue_pending_message (ae_direct E) (ap_direct A) recipient_did message\<rparr>, ''pending''))"

definition emit_dm_sent_event :: "string \<Rightarrow> did \<Rightarrow> ('acc, 'sess, 't, 'r, 'g) app \<Rightarrow> ('acc, 'sess, 't, 'r, 'g) app" where
  "emit_dm_sent_event message_id recipient_did A = ask (EmitDirectSent message_id recipient_did) A"

subsection \<open>Names of the enumerations\<close>

record call_response =
  cp_call_id :: string
  cp_participants :: "did list"
  cp_call_type :: string
  cp_status :: string
  cp_started_at :: int
  cp_ended_at :: "int option"

definition call_type_to_string :: "int \<Rightarrow> string" where
  "call_type_to_string call_type =
     (if call_type = 1 then ''audio'' else if call_type = 2 then ''video'' else if call_type = 3 then ''screen''
      else ''unspecified'')"

fun call_status_to_string :: "call_status \<Rightarrow> string" where
  "call_status_to_string Unspecified = ''unspecified''"
| "call_status_to_string Ringing = ''ringing''"
| "call_status_to_string Connecting = ''connecting''"
| "call_status_to_string Active = ''active''"
| "call_status_to_string Ended = ''ended''"
| "call_status_to_string Failed = ''failed''"

definition call_to_response :: "'pc call \<Rightarrow> call_response" where
  "call_to_response c =
     \<lparr>cp_call_id = cl_id c, cp_participants = cl_participants c, cp_call_type = call_type_to_string (cl_call_type c),
      cp_status = call_status_to_string (cl_status c), cp_started_at = cl_started_at c, cp_ended_at = cl_ended_at c\<rparr>"

definition receipt_status_to_string :: "int \<Rightarrow> string" where
  "receipt_status_to_string status =
     (if status = receipt_delivered then ''delivered'' else if status = receipt_read then ''read'' else ''unknown'')"

definition parse_call_type :: "string \<Rightarrow> api_error + int" where
  "parse_call_type s =
     (if s = ''audio'' then Inr 1 else if s = ''video'' then Inr 2 else if s = ''screen'' then Inr 3
      else Inl ApiBadRequest)"

definition parse_control_type :: "string \<Rightarrow> api_error + int" where
  "parse_control_type s =
     (if s = ''ring'' then Inr 1 else if s = ''accept'' then Inr control_accept
      else if s = ''reject'' then Inr control_reject else if s = ''hangup'' then Inr control_hangup
      else Inl ApiApp)"

end
