(* ===== verification/Api_Conversations.thy ===== *)
theory Api_Conversations
  imports Api_Helpers
begin

section \<open>Conversations, direct messages and reactions (\<open>variance-app/src/api/conversations.rs\<close>)\<close>

text \<open>
  The handlers of \<open>/conversations\<close>, \<open>/messages/direct\<close> and \<open>/messages/../reactions\<close>. The
  extractors (\<open>Json\<close>, \<open>Path\<close>, \<open>Query\<close>) are arguments. A message's id, timestamp and nonce are
  the draws with index 0; the handler that lists a conversation takes nonce \<open>i\<close> for message \<open>i\<close>
  and the clock reading 0.
\<close>

definition text_content :: "string \<Rightarrow> string option \<Rightarrow> message_content" where
  "text_content text reply_to =
     \<lparr>mc_text = text, mc_attachments = [], mc_mentions = [], mc_reply_to = reply_to, mc_metadata = []\<rparr>"

definition reaction_content :: "string \<Rightarrow> string \<Rightarrow> string \<Rightarrow> message_content" where
  "reaction_content message_id emoji action =
     \<lparr>mc_text = [], mc_attachments = [], mc_mentions = [], mc_reply_to = None,
      mc_metadata = [(''type'', ''reaction''), (''message_id'', message_id), (''emoji'', emoji), (''action'', action)]\<rparr>"

definition api_send_message ::
  "('acc, 'sess, 't, 'r, 'g, 'm, 'kp, 'q) app_env \<Rightarrow> draws \<Rightarrow> did \<Rightarrow> message_content \<Rightarrow> ('acc, 'sess, 't, 'r, 'g) app
     \<Rightarrow> ('acc, 'sess, 't, 'r, 'g) app \<times> (msg_error + direct_message)" where
  "api_send_message E D recipient_did content A =
     on_direct (\<lambda>H. send_message (ae_direct E) H (dr_ulid D 0) (dr_now D 0) (dr_nonce D 0) recipient_did content) A"

text \<open>The end every sending handler has: to the peer or the queue, the event, the reply.\<close>

definition transmit ::
  "('acc, 'sess, 't, 'r, 'g, 'm, 'kp, 'q) app_env \<Rightarrow> did \<Rightarrow> direct_message \<Rightarrow> ('acc, 'sess, 't, 'r, 'g) app
     \<Rightarrow> ('acc, 'sess, 't, 'r, 'g) app \<times> string" where
  "transmit E recipient_did message A =
     (let (A, status) = send_dm_to_peer E recipient_did message A
      in (emit_dm_sent_event (dm_id message) recipient_did A, status))"

subsection \<open>Conversations\<close>

record conversation_response =
  cv_id :: string
  cv_peer_did :: did
  cv_last_message_timestamp :: int
  cv_peer_username :: "string option"
  cv_has_unread :: bool

definition list_conversations ::
  "('acc, 'sess, 't, 'r, 'g, 'm, 'kp, 'q) app_env \<Rightarrow> ('acc, 'sess, 't, 'r, 'g) app \<Rightarrow> conversation_response list" where
  "list_conversations E A =
     map (\<lambda>(peer_did, last_message_timestamp, last_peer_timestamp).
       let last_read = (case fetch_last_read_at (app_store E) (app_db A) (ap_local_did A) peer_did of Some t \<Rightarrow> t | None \<Rightarrow> 0)
       in \<lparr>cv_id = api_conversation_id (ap_local_did A) peer_did, cv_peer_did = peer_did,
           cv_last_message_timestamp = last_message_timestamp,
           cv_peer_username = get_display_name (ap_usernames A) peer_did,
           cv_has_unread = (case last_peer_timestamp of Some ts \<Rightarrow> ts > last_read | None \<Rightarrow> False)\<rparr>)
     (list_direct_conversations (app_store E) (app_db A) (ap_local_did A))"

definition start_conversation ::
  "('acc, 'sess, 't, 'r, 'g, 'm, 'kp, 'q) app_env \<Rightarrow> network \<Rightarrow> draws \<Rightarrow> did \<Rightarrow> string \<Rightarrow> string option \<Rightarrow> string option
     \<Rightarrow> ('acc, 'sess, 't, 'r, 'g) app \<Rightarrow> ('acc, 'sess, 't, 'r, 'g) app \<times> (api_error + string \<times> string)" where
  "start_conversation E N D recipient_did text identity_key one_time_key A =
     (if recipient_did = [] \<or> \<not> prefix ''did:'' recipient_did then (A, Inl ApiBadRequest)
      else if text_refused text then (A, Inl ApiBadRequest)
      else
       (let existing = list_direct_conversations (app_store E) (app_db A) (ap_local_did A);
            conversation_exists = list_ex (\<lambda>(did, _, _). did = recipient_did) existing;
            content = text_content text None;
            finish = (\<lambda>A message. (fst (transmit E recipient_did message A),
                        Inr (api_conversation_id (ap_local_did A) recipient_did, dm_id message)))
        in if conversation_exists \<and> has_session (ap_direct A) recipient_did
           then api_bind (as_error ApiApp (api_send_message E D recipient_did content A)) finish
           else api_bind (ensure_olm_session_with_keys E N recipient_did identity_key one_time_key A)
             (\<lambda>A _. case api_send_message E D recipient_did content A of
                  (A, Inl (EDoubleRatchet _)) \<Rightarrow> (A, Inl ApiSessionRequired)
                | (A, Inl _) \<Rightarrow> (A, Inl ApiApp)
                | (A, Inr message) \<Rightarrow> finish A message)))"

definition delete_conversation ::
  "('acc, 'sess, 't, 'r, 'g, 'm, 'kp, 'q) app_env \<Rightarrow> did \<Rightarrow> ('acc, 'sess, 't, 'r, 'g) app \<Rightarrow> ('acc, 'sess, 't, 'r, 'g) app" where
  "delete_conversation E peer_did A =
     (let A = with_db (delete_direct_conversation (app_store E) (app_db A) (ap_local_did A) peer_did) A
      in with_db (delete_last_read_at (app_store E) (app_db A) (ap_local_did A) peer_did) A)"

subsection \<open>Messages\<close>

definition send_direct_message ::
  "('acc, 'sess, 't, 'r, 'g, 'm, 'kp, 'q) app_env \<Rightarrow> network \<Rightarrow> draws \<Rightarrow> did \<Rightarrow> string \<Rightarrow> string option
     \<Rightarrow> ('acc, 'sess, 't, 'r, 'g) app \<Rightarrow> ('acc, 'sess, 't, 'r, 'g) app \<times> (api_error + string \<times> string)" where
  "send_direct_message E N D recipient_did text reply_to A =
     (if text_refused text then (A, Inl ApiBadRequest)
      else api_bind (ensure_olm_session E N recipient_did A)
        (\<lambda>A _. api_bind (as_error ApiApp (api_send_message E D recipient_did (text_content text reply_to) A))
        (\<lambda>A message.
           let (A, status) = transmit E recipient_did message A;
               A = notify (DirectMessageSent recipient_did (dm_id message) text (dm_timestamp message) reply_to) A
           in (A, Inr (dm_id message, ''Message '' @ status)))))"

record direct_message_response =
  dp_id :: string
  dp_sender_did :: did
  dp_recipient_did :: did
  dp_text :: string
  dp_timestamp :: int
  dp_reply_to :: "string option"
  dp_status :: "string option"
  dp_sender_username :: "string option"
  dp_metadata :: "(string \<times> string) list"

definition receipts_or_empty ::
  "('acc, 'sess, 't, 'r, 'g, 'm, 'kp, 'q) app_env \<Rightarrow> ('acc, 'sess, 't, 'r, 'g) app \<Rightarrow> string \<Rightarrow> read_receipt list" where
  "receipts_or_empty E A message_id =
     (case get_receipts (app_store E) (app_db A) message_id of Inl _ \<Rightarrow> [] | Inr rs \<Rightarrow> rs)"

definition message_status ::
  "('acc, 'sess, 't, 'r, 'g, 'm, 'kp, 'q) app_env \<Rightarrow> ('acc, 'sess, 't, 'r, 'g) app \<Rightarrow> direct_message \<Rightarrow> string option" where
  "message_status E A m =
     (if dm_sender_did m = ap_local_did A
      then if direct_is_pending (ae_direct E) (ap_direct A) (dm_id m) then Some ''pending''
        else (let receipt_status = receipts_or_empty E A (dm_id m)
              in if list_ex (\<lambda>r. rr_status r = receipt_read) receipt_status then Some ''read''
                 else if list_ex (\<lambda>r. rr_status r = receipt_delivered) receipt_status then Some ''delivered''
                 else Some ''sent'')
      else None)"

definition direct_response ::
  "('acc, 'sess, 't, 'r, 'g, 'm, 'kp, 'q) app_env \<Rightarrow> bytes \<Rightarrow> direct_message \<Rightarrow> ('acc, 'sess, 't, 'r, 'g) app
     \<Rightarrow> ('acc, 'sess, 't, 'r, 'g) app \<times> direct_message_response" where
  "direct_response E nonce m A =
     (let (A, r) = on_direct (\<lambda>H. get_message_content (ae_direct E) H nonce m) A;
          (text, metadata) = (case r of Inr content \<Rightarrow> (mc_text content, mc_metadata content)
            | Inl _ \<Rightarrow> (''[decryption failed]'', []))
      in (A, \<lparr>dp_id = dm_id m, dp_sender_did = dm_sender_did m, dp_recipient_did = dm_recipient_did m, dp_text = text,
              dp_timestamp = dm_timestamp m, dp_reply_to = dm_reply_to m, dp_status = message_status E A m,
              dp_sender_username = get_display_name (ap_usernames A) (dm_sender_did m), dp_metadata = metadata\<rparr>))"

fun direct_responses ::
  "('acc, 'sess, 't, 'r, 'g, 'm, 'kp, 'q) app_env \<Rightarrow> draws \<Rightarrow> nat \<Rightarrow> direct_message list \<Rightarrow> ('acc, 'sess, 't, 'r, 'g) app
     \<Rightarrow> ('acc, 'sess, 't, 'r, 'g) app \<times> direct_message_response list" where
  "direct_responses E D i [] A = (A, [])"
| "direct_responses E D i (m # ms) A =
     (let (A, r) = direct_response E (dr_nonce D i) m A; (A, rs) = direct_responses E D (Suc i) ms A in (A, r # rs))"

definition get_direct_messages ::
  "('acc, 'sess, 't, 'r, 'g, 'm, 'kp, 'q) app_env \<Rightarrow> draws \<Rightarrow> did \<Rightarrow> int option \<Rightarrow> nat option \<Rightarrow> ('acc, 'sess, 't, 'r, 'g) app
     \<Rightarrow> ('acc, 'sess, 't, 'r, 'g) app \<times> direct_message_response list" where
  "get_direct_messages E D did before limit A =
     (let messages = fetch_direct (app_store E) (app_db A) (ap_local_did A) did
            (case limit of Some l \<Rightarrow> l | None \<Rightarrow> 1024) before;
          A = with_db (store_last_read_at (app_store E) (app_db A) (ap_local_did A) did (dr_now D 0)) A
      in direct_responses E D 0 messages A)"

subsection \<open>Reactions\<close>

definition add_reaction ::
  "('acc, 'sess, 't, 'r, 'g, 'm, 'kp, 'q) app_env \<Rightarrow> draws \<Rightarrow> string \<Rightarrow> string \<Rightarrow> did \<Rightarrow> ('acc, 'sess, 't, 'r, 'g) app
     \<Rightarrow> ('acc, 'sess, 't, 'r, 'g) app \<times> (api_error + string \<times> string)" where
  "add_reaction E D message_id emoji recipient_did A =
     (if emoji = [] \<or> length emoji > 8 then (A, Inl ApiBadRequest)
      else if \<not> has_session (ap_direct A) recipient_did then (A, Inl ApiSessionRequired)
      else api_bind (as_error ApiApp (api_send_message E D recipient_did (reaction_content message_id emoji ''add'') A))
        (\<lambda>A message. let (A, status) = transmit E recipient_did message A in (A, Inr (dm_id message, ''Reaction '' @ status))))"

definition remove_reaction ::
  "('acc, 'sess, 't, 'r, 'g, 'm, 'kp, 'q) app_env \<Rightarrow> draws \<Rightarrow> string \<Rightarrow> string \<Rightarrow> did \<Rightarrow> ('acc, 'sess, 't, 'r, 'g) app
     \<Rightarrow> ('acc, 'sess, 't, 'r, 'g) app \<times> (api_error + string \<times> string)" where
  "remove_reaction E D message_id emoji recipient_did A =
     (if \<not> has_session (ap_direct A) recipient_did then (A, Inl ApiSessionRequired)
      else api_bind (as_error ApiApp (api_send_message E D recipient_did (reaction_content message_id emoji ''remove'') A))
        (\<lambda>A message. let (A, status) = transmit E recipient_did message A in (A, Inr (dm_id message, ''Reaction removed '' @ status))))"

end
