(* ===== verification/Api_Group_Content.thy ===== *)
theory Api_Group_Content
  imports Api_Conversations Group_Router "HOL-Library.Option_ord"
begin

section \<open>Group content and queries (\<open>variance-app/src/api/groups.rs\<close>)\<close>

text \<open>
  The roles and guards every group handler uses, the encryption and publication of a content or
  a receipt, the handlers that send, and the ones that only read. A published message takes the
  ULID and clock reading of its index in \<open>draws\<close>. The identity queries that warm the cache of
  peers when a chat is opened change nothing here and are left out.
\<close>

definition max_group_members :: nat where
  "max_group_members = 100"

definition invite_expiry_ms :: int where
  "invite_expiry_ms = 5 * 60 * 1000"

subsection \<open>Roles and guards\<close>

definition role_label :: "int \<Rightarrow> string" where
  "role_label role = (if role = 3 then ''admin'' else if role = 2 then ''moderator'' else ''member'')"

definition member_role_from_metadata :: "group_meta option \<Rightarrow> did \<Rightarrow> string" where
  "member_role_from_metadata group_meta did =
     (case Option.bind group_meta (\<lambda>g. find (\<lambda>m. mb_did m = did) (gr_members g)) of
        Some m \<Rightarrow> role_label (mb_role m)
      | None \<Rightarrow> ''member'')"

definition role_rank :: "string \<Rightarrow> nat" where
  "role_rank role = (if role = ''admin'' then 3 else if role = ''moderator'' then 2 else 1)"

definition require_role ::
  "('acc, 'sess, 't, 'r, 'g, 'm, 'kp, 'q) app_env \<Rightarrow> ('acc, 'sess, 't, 'r, 'g) app \<Rightarrow> string \<Rightarrow> string \<Rightarrow> api_error + unit" where
  "require_role E A group_id min_role =
     (let actual = member_role_from_metadata (metadata_of E A group_id) (ap_local_did A)
      in if role_rank actual < role_rank min_role then Inl ApiForbidden else Inr ())"

definition outranks :: "string \<Rightarrow> string \<Rightarrow> bool" where
  "outranks actor_role target_role \<longleftrightarrow> role_rank actor_role > role_rank target_role"

definition require_not_frozen ::
  "('acc, 'sess, 't, 'r, 'g, 'm, 'kp, 'q) app_env \<Rightarrow> ('acc, 'sess, 't, 'r, 'g) app \<Rightarrow> string \<Rightarrow> api_error + unit" where
  "require_not_frozen E A group_id =
     (if (case metadata_of E A group_id of Some g \<Rightarrow> gr_frozen g | None \<Rightarrow> False) then Inl ApiForbidden else Inr ())"

definition is_sole_admin ::
  "('acc, 'sess, 't, 'r, 'g, 'm, 'kp, 'q) app_env \<Rightarrow> ('acc, 'sess, 't, 'r, 'g) app \<Rightarrow> string \<Rightarrow> bool" where
  "is_sole_admin E A group_id =
     (case metadata_of E A group_id of
        None \<Rightarrow> False
      | Some g \<Rightarrow>
          member_role_from_metadata (Some g) (ap_local_did A) = ''admin'' \<and>
          length (filter (\<lambda>m. mb_role m = 3) (gr_members g)) = 1)"

definition has_other_members ::
  "('acc, 'sess, 't, 'r, 'g, 'm, 'kp, 'q) app_env \<Rightarrow> ('acc, 'sess, 't, 'r, 'g) app \<Rightarrow> string \<Rightarrow> bool" where
  "has_other_members E A group_id =
     (case metadata_of E A group_id of
        None \<Rightarrow> False
      | Some g \<Rightarrow> list_ex (\<lambda>m. mb_did m \<noteq> ap_local_did A) (gr_members g))"

text \<open>A guard in front of the rest of a handler.\<close>

definition guarded :: "(api_error + unit) \<Rightarrow> 's \<Rightarrow> ('s \<Rightarrow> 's \<times> (api_error + 'b)) \<Rightarrow> 's \<times> (api_error + 'b)" where
  "guarded g A k = (case g of Inl e \<Rightarrow> (A, Inl e) | Inr _ \<Rightarrow> k A)"

subsection \<open>Encrypting and publishing\<close>

definition group_wire :: "draws \<Rightarrow> nat \<Rightarrow> nat \<Rightarrow> did \<Rightarrow> string \<Rightarrow> int \<Rightarrow> bytes \<Rightarrow> group_message" where
  "group_wire D i t sender_did group_id type ciphertext =
     \<lparr>gm_id = dr_ulid D i, gm_sender_did = sender_did, gm_group_id = group_id, gm_timestamp = dr_now D t,
      gm_type = type, gm_reply_to = None, gm_mls_ciphertext = ciphertext\<rparr>"

definition send_group_content ::
  "('acc, 'sess, 't, 'r, 'g, 'm, 'kp, 'q) app_env \<Rightarrow> draws \<Rightarrow> string \<Rightarrow> message_content \<Rightarrow> bool
     \<Rightarrow> ('acc, 'sess, 't, 'r, 'g) app \<Rightarrow> ('acc, 'sess, 't, 'r, 'g) app \<times> (api_error + string)" where
  "send_group_content E D group_id content store A =
     (let plaintext = cd_encode (ae_payload E) (Some (PayloadMessage content))
      in api_bind (as_error ApiApp (on_mls (\<lambda>H. encrypt_message (ae_mls E) H group_id plaintext) A))
      (\<lambda>A mls_msg. case serialize_message (ae_mls E) mls_msg of
          Inl _ \<Rightarrow> (A, Inl ApiApp)
        | Inr mls_bytes \<Rightarrow>
            (let message = group_wire D 0 0 (ap_local_did A) group_id 1 mls_bytes;
                 A = ask (CallPublish (group_topic group_id) message) A;
                 A = (if store
                      then (let A = with_db (store_group (app_store E) (app_db A) message) A
                            in with_db (fst (persist_group_plaintext (ae_mls E) (ap_mls A) (app_db A) (dr_nonce D 0)
                                 (gm_id message) content)) A)
                      else A);
                 A = schedule_mls_persist A;
                 A = (if store then ask (EmitGroupSent (gm_id message) group_id) A else A)
             in (A, Inr (gm_id message)))))"

definition publish_group_receipt ::
  "('acc, 'sess, 't, 'r, 'g, 'm, 'kp, 'q) app_env \<Rightarrow> draws \<Rightarrow> nat \<Rightarrow> nat \<Rightarrow> string \<Rightarrow> group_read_receipt
     \<Rightarrow> ('acc, 'sess, 't, 'r, 'g) app \<Rightarrow> ('acc, 'sess, 't, 'r, 'g) app \<times> (string + unit)" where
  "publish_group_receipt E D i t group_id receipt A =
     (let plaintext = cd_encode (ae_payload E) (Some (PayloadReceipt receipt))
      in case on_mls (\<lambda>H. encrypt_message (ae_mls E) H group_id plaintext) A of
           (A, Inl _) \<Rightarrow> (A, Inl ''MLS encrypt receipt'')
         | (A, Inr mls_msg) \<Rightarrow>
             (case serialize_message (ae_mls E) mls_msg of
                Inl _ \<Rightarrow> (A, Inl ''MLS serialize receipt'')
              | Inr mls_bytes \<Rightarrow>
                  (let c = CallPublish (group_topic group_id) (group_wire D i t (ap_local_did A) group_id 0 mls_bytes);
                       A = ask c A
                   in if ae_answer E c \<noteq> None then (A, Inl ''GossipSub publish receipt'')
                      else (schedule_mls_persist A, Inr ()))))"

subsection \<open>Sending handlers\<close>

definition mls_send_group_message ::
  "('acc, 'sess, 't, 'r, 'g, 'm, 'kp, 'q) app_env \<Rightarrow> draws \<Rightarrow> string \<Rightarrow> string \<Rightarrow> string option \<Rightarrow> (string \<times> string) list
     \<Rightarrow> ('acc, 'sess, 't, 'r, 'g) app \<Rightarrow> ('acc, 'sess, 't, 'r, 'g) app \<times> (api_error + string)" where
  "mls_send_group_message E D group_id text reply_to metadata A =
     (if text_refused text then (A, Inl ApiBadRequest)
      else guarded (require_not_frozen E A group_id) A
        (send_group_content E D group_id ((text_content text reply_to)\<lparr>mc_metadata := metadata\<rparr>) True))"

definition add_group_reaction ::
  "('acc, 'sess, 't, 'r, 'g, 'm, 'kp, 'q) app_env \<Rightarrow> draws \<Rightarrow> string \<Rightarrow> string \<Rightarrow> string
     \<Rightarrow> ('acc, 'sess, 't, 'r, 'g) app \<Rightarrow> ('acc, 'sess, 't, 'r, 'g) app \<times> (api_error + string)" where
  "add_group_reaction E D message_id group_id emoji A =
     (if emoji = [] \<or> length emoji > 8 then (A, Inl ApiBadRequest)
      else send_group_content E D group_id (reaction_content message_id emoji ''add'') True A)"

definition remove_group_reaction ::
  "('acc, 'sess, 't, 'r, 'g, 'm, 'kp, 'q) app_env \<Rightarrow> draws \<Rightarrow> string \<Rightarrow> string \<Rightarrow> string
     \<Rightarrow> ('acc, 'sess, 't, 'r, 'g) app \<Rightarrow> ('acc, 'sess, 't, 'r, 'g) app \<times> (api_error + string)" where
  "remove_group_reaction E D message_id emoji group_id A =
     send_group_content E D group_id (reaction_content message_id emoji ''remove'') True A"

record group_receipt_response =
  gz_message_id :: string
  gz_reader_did :: did
  gz_status :: string
  gz_timestamp :: int

definition group_receipt_response_of :: "group_read_receipt \<Rightarrow> group_receipt_response" where
  "group_receipt_response_of r =
     \<lparr>gz_message_id = gx_message_id r, gz_reader_did = gx_reader_did r,
      gz_status = receipt_status_to_string (gx_status r), gz_timestamp = gx_timestamp r\<rparr>"

fun send_reads ::
  "('acc, 'sess, 't, 'r, 'g, 'm, 'kp, 'q) app_env \<Rightarrow> draws \<Rightarrow> string \<Rightarrow> nat \<Rightarrow> string list
     \<Rightarrow> ('acc, 'sess, 't, 'r, 'g) app \<Rightarrow> ('acc, 'sess, 't, 'r, 'g) app \<times> group_receipt_response list" where
  "send_reads E D group_id i [] A = (A, [])"
| "send_reads E D group_id i (message_id # ids) A =
     (let (db, receipt) = send_group_read (app_store E) (ae_sign_receipt E) (ap_local_did A) (app_db A)
            (dr_now D (2 * i)) group_id message_id;
          A = fst (publish_group_receipt E D i (2 * i + 1) group_id receipt (with_db db A));
          (A, rs) = send_reads E D group_id (Suc i) ids A
      in (A, group_receipt_response_of receipt # rs))"

definition send_group_read_receipts ::
  "('acc, 'sess, 't, 'r, 'g, 'm, 'kp, 'q) app_env \<Rightarrow> draws \<Rightarrow> string \<Rightarrow> string list option
     \<Rightarrow> ('acc, 'sess, 't, 'r, 'g) app \<Rightarrow> ('acc, 'sess, 't, 'r, 'g) app \<times> (api_error + group_receipt_response list)" where
  "send_group_read_receipts E D group_id message_ids A =
     (case message_ids of
        Some (i # is) \<Rightarrow> (let (A, rs) = send_reads E D group_id 0 (i # is) A in (A, Inr rs))
      | _ \<Rightarrow> (A, Inl ApiBadRequest))"

subsection \<open>Queries\<close>

definition get_group_message_receipts ::
  "('acc, 'sess, 't, 'r, 'g, 'm, 'kp, 'q) app_env \<Rightarrow> string \<Rightarrow> string \<Rightarrow> ('acc, 'sess, 't, 'r, 'g) app
     \<Rightarrow> api_error + group_receipt_response list" where
  "get_group_message_receipts E group_id message_id A =
     (case get_group_receipts (app_store E) (app_db A) group_id message_id of
        Inl _ \<Rightarrow> Inl ApiApp
      | Inr rs \<Rightarrow> Inr (map group_receipt_response_of rs))"

record group_message_response =
  gp_id :: string
  gp_group_id :: string
  gp_sender_did :: did
  gp_text :: string
  gp_timestamp :: int
  gp_reply_to :: "string option"
  gp_sender_username :: "string option"
  gp_metadata :: "(string \<times> string) list"
  gp_status :: "string option"

definition group_response ::
  "('acc, 'sess, 't, 'r, 'g, 'm, 'kp, 'q) app_env \<Rightarrow> ('acc, 'sess, 't, 'r, 'g) app \<Rightarrow> string \<Rightarrow> did list \<Rightarrow> group_message
     \<Rightarrow> group_message_response" where
  "group_response E A group_id other_members m =
     (let (text, reply_to, metadata) =
            (case load_group_plaintext (ae_mls E) (ap_mls A) (app_db A) (gm_id m) of
               Inr (Some content) \<Rightarrow> (mc_text content, mc_reply_to content, mc_metadata content)
             | _ \<Rightarrow> ([], None, []));
          status = (if gm_sender_did m = ap_local_did A
            then Some (case get_group_aggregate_status (app_store E) (app_db A) group_id (gm_id m) other_members of
                Inr s \<Rightarrow> s | Inl _ \<Rightarrow> ''sent'')
            else None)
      in \<lparr>gp_id = gm_id m, gp_group_id = gm_group_id m, gp_sender_did = gm_sender_did m, gp_text = text,
          gp_timestamp = gm_timestamp m, gp_reply_to = reply_to,
          gp_sender_username = get_display_name (ap_usernames A) (gm_sender_did m), gp_metadata = metadata,
          gp_status = status\<rparr>)"

definition get_group_messages ::
  "('acc, 'sess, 't, 'r, 'g, 'm, 'kp, 'q) app_env \<Rightarrow> draws \<Rightarrow> string \<Rightarrow> int option \<Rightarrow> nat option
     \<Rightarrow> ('acc, 'sess, 't, 'r, 'g) app \<Rightarrow> ('acc, 'sess, 't, 'r, 'g) app \<times> group_message_response list" where
  "get_group_messages E D group_id before limit A =
     (let messages = fetch_group (app_store E) (app_db A) group_id (case limit of Some l \<Rightarrow> l | None \<Rightarrow> 50) before;
          A = with_db (store_group_last_read_at (app_store E) (app_db A) (ap_local_did A) group_id (dr_now D 0)) A;
          other_members = filter (\<lambda>did. did \<noteq> ap_local_did A) (members_or_empty E A group_id)
      in (A, map (group_response E A group_id other_members) messages))"

record mls_group_info =
  mi_id :: string
  mi_name :: string
  mi_member_count :: nat
  mi_last_message_timestamp :: "int option"
  mi_has_unread :: bool
  mi_admin_did :: "did option"
  mi_your_role :: string
  mi_is_frozen :: bool

definition group_info ::
  "('acc, 'sess, 't, 'r, 'g, 'm, 'kp, 'q) app_env \<Rightarrow> ('acc, 'sess, 't, 'r, 'g) app \<Rightarrow> (string \<Rightarrow> group_meta option) \<Rightarrow> string
     \<Rightarrow> mls_group_info" where
  "group_info E A metadata_by_id group_id =
     (let last_message_timestamp = map_option gm_timestamp (fetch_group_latest (app_store E) (app_db A) group_id);
          last_read = (case fetch_group_last_read_at (app_store E) (app_db A) (ap_local_did A) group_id of
            Some t \<Rightarrow> t | None \<Rightarrow> 0)
      in \<lparr>mi_id = group_id,
          mi_name = (case metadata_by_id group_id of Some g \<Rightarrow> gr_name g | None \<Rightarrow> group_id),
          mi_member_count = length (members_or_empty E A group_id),
          mi_last_message_timestamp = last_message_timestamp,
          mi_has_unread = (case last_message_timestamp of Some ts \<Rightarrow> ts > last_read | None \<Rightarrow> False),
          mi_admin_did = (case metadata_by_id group_id of
            Some g \<Rightarrow> if gr_admin_did g = [] then None else Some (gr_admin_did g) | None \<Rightarrow> None),
          mi_your_role = member_role_from_metadata (metadata_by_id group_id) (ap_local_did A),
          mi_is_frozen = (case metadata_by_id group_id of Some g \<Rightarrow> gr_frozen g | None \<Rightarrow> False)\<rparr>)"

text \<open>\<open>sort_by_key(Reverse(..))\<close> is stable and puts the groups without a message at the end.\<close>

definition newest_first :: "mls_group_info list \<Rightarrow> mls_group_info list" where
  "newest_first infos = rev (sort_key mi_last_message_timestamp (rev infos))"

definition mls_list_groups ::
  "('acc, 'sess, 't, 'r, 'g, 'm, 'kp, 'q) app_env \<Rightarrow> ('acc, 'sess, 't, 'r, 'g) app \<Rightarrow> mls_group_info list" where
  "mls_list_groups E A =
     (let metadata = (case fetch_all_group_metadata (app_store E) (app_db A) of Inl _ \<Rightarrow> [] | Inr gs \<Rightarrow> gs);
          metadata_by_id = map_of (rev (map (\<lambda>g. (gr_id g, g)) metadata))
      in newest_first (map (group_info E A metadata_by_id) (group_ids (ap_mls A))))"

definition mls_list_members ::
  "('acc, 'sess, 't, 'r, 'g, 'm, 'kp, 'q) app_env \<Rightarrow> string \<Rightarrow> ('acc, 'sess, 't, 'r, 'g) app
     \<Rightarrow> api_error + (did \<times> string option \<times> string) list" where
  "mls_list_members E group_id A =
     (case list_members (ae_mls E) (ap_mls A) group_id of
        Inl _ \<Rightarrow> Inl ApiApp
      | Inr dids \<Rightarrow> Inr (map (\<lambda>did. (did, get_display_name (ap_usernames A) did,
            member_role_from_metadata (metadata_of E A group_id) did)) dids))"

definition mls_list_outbound_invitations ::
  "('acc, 'sess, 't, 'r, 'g, 'm, 'kp, 'q) app_env \<Rightarrow> string \<Rightarrow> ('acc, 'sess, 't, 'r, 'g) app
     \<Rightarrow> api_error + (did \<times> string option \<times> int \<times> int) list" where
  "mls_list_outbound_invitations E group_id A =
     and_then (require_role E A group_id ''admin'') (\<lambda>_.
       Inr (map (\<lambda>(invitee_did, _, created_at_ms).
           (invitee_did, get_display_name (ap_usernames A) invitee_did, created_at_ms, created_at_ms + invite_expiry_ms))
         (fetch_outbound_invites_for_group (app_store E) (app_db A) group_id)))"

end
