(* ===== verification/Api_Socket.thy ===== *)
theory Api_Socket
  imports Api_Group_Content
begin

section \<open>What a WebSocket client sends (\<open>variance-app/src/websocket.rs\<close>)\<close>

text \<open>
  The messages of a client and what each does, and the life of a connection: registered under a
  fresh id with default subscriptions, handed the peers that are online, unregistered at its
  end. What went to the socket before the queue's reader started is returned, and messages that
  do not parse are left out.
\<close>

datatype client_message =
    Authenticate did
  | Subscribe "bool option" "bool option" "bool option"
  | ClientPing
  | SendDirect did string "string option"
  | SendGroup string string "string option"

definition on_client ::
  "string \<Rightarrow> (connected_client \<Rightarrow> connected_client) \<Rightarrow> ('acc, 'sess, 't, 'r, 'g) app \<Rightarrow> ('acc, 'sess, 't, 'r, 'g) app" where
  "on_client client_id f A = A\<lparr>ap_ws := AList.map_entry client_id f (ap_ws A)\<rparr>"

definition subscribe_client :: "bool option \<Rightarrow> bool option \<Rightarrow> bool option \<Rightarrow> connected_client \<Rightarrow> connected_client" where
  "subscribe_client signaling messages presence c =
     (let s = cs_signaling (cc_subscriptions c); m = cs_messages (cc_subscriptions c); p = cs_presence (cc_subscriptions c)
      in c\<lparr>cc_subscriptions :=
            \<lparr>cs_signaling = (case signaling of Some x \<Rightarrow> x | None \<Rightarrow> s), cs_messages = (case messages of Some x \<Rightarrow> x | None \<Rightarrow> m),
             cs_presence = (case presence of Some x \<Rightarrow> x | None \<Rightarrow> p)\<rparr>\<rparr>)"

definition socket_send_direct ::
  "('acc, 'sess, 't, 'r, 'g, 'm, 'kp, 'q) app_env \<Rightarrow> draws \<Rightarrow> did \<Rightarrow> string \<Rightarrow> string option \<Rightarrow> ('acc, 'sess, 't, 'r, 'g) app
     \<Rightarrow> ('acc, 'sess, 't, 'r, 'g) app" where
  "socket_send_direct E D recipient_did text reply_to A =
     (case api_send_message E D recipient_did (text_content text reply_to) A of
        (A, Inl _) \<Rightarrow> A
      | (A, Inr message) \<Rightarrow>
          emit_dm_sent_event (dm_id message) recipient_did (ask (CallSendDirect recipient_did message) A))"

definition socket_send_group ::
  "('acc, 'sess, 't, 'r, 'g, 'm, 'kp, 'q) app_env \<Rightarrow> draws \<Rightarrow> string \<Rightarrow> string \<Rightarrow> string \<Rightarrow> string option
     \<Rightarrow> ('acc, 'sess, 't, 'r, 'g) app \<Rightarrow> ('acc, 'sess, 't, 'r, 'g) app" where
  "socket_send_group E D client_id group_id text reply_to A =
     (let plaintext = cd_encode (mv_content (ae_mls E)) (text_content text reply_to)
      in case on_mls (\<lambda>H. encrypt_message (ae_mls E) H group_id plaintext) A of
           (A, Inl _) \<Rightarrow> A
         | (A, Inr mls_msg) \<Rightarrow>
             (case serialize_message (ae_mls E) mls_msg of
                Inl _ \<Rightarrow> A
              | Inr mls_bytes \<Rightarrow>
                  (let message = (group_wire D 0 0 (ap_local_did A) group_id 1 mls_bytes)\<lparr>gm_reply_to := reply_to\<rparr>;
                       A = ask (CallPublish (group_topic group_id) message) A;
                       A = with_db (store_group (app_store E) (app_db A) message) A;
                       A = with_db (store_group_last_read_at (app_store E) (app_db A) (ap_local_did A) group_id
                         (gm_timestamp message)) A;
                       A = ask (EmitGroupSent (gm_id message) group_id) A
                   in on_client client_id (tx_send (GroupMessageReceived group_id (ap_local_did A) (gm_id message)
                        (gm_timestamp message))) A)))"

definition handle_client_message ::
  "('acc, 'sess, 't, 'r, 'g, 'm, 'kp, 'q) app_env \<Rightarrow> draws \<Rightarrow> string \<Rightarrow> client_message \<Rightarrow> ('acc, 'sess, 't, 'r, 'g) app
     \<Rightarrow> ('acc, 'sess, 't, 'r, 'g) app" where
  "handle_client_message E D client_id msg A =
     (case msg of
        Authenticate did \<Rightarrow> on_client client_id (\<lambda>c. tx_send (PresenceUpdated did True None) (c\<lparr>cc_did := Some did\<rparr>)) A
      | Subscribe signaling messages presence \<Rightarrow> on_client client_id (subscribe_client signaling messages presence) A
      | ClientPing \<Rightarrow> on_client client_id (tx_send PongMsg) A
      | SendDirect recipient_did text reply_to \<Rightarrow> socket_send_direct E D recipient_did text reply_to A
      | SendGroup group_id text reply_to \<Rightarrow> socket_send_group E D client_id group_id text reply_to A)"

definition socket_open :: "network \<Rightarrow> string \<Rightarrow> ('acc, 'sess, 't, 'r, 'g) app \<Rightarrow> ('acc, 'sess, 't, 'r, 'g) app \<times> ws_message list" where
  "socket_open N client_id A =
     (let A = A\<lparr>ap_ws := ws_register (ap_ws A) client_id client_new\<rparr>
      in (A, Connected client_id #
           map (\<lambda>did. PresenceUpdated did True (get_display_name (ap_usernames A) did)) (nw_connected N)))"

definition socket_close :: "string \<Rightarrow> ('acc, 'sess, 't, 'r, 'g) app \<Rightarrow> ('acc, 'sess, 't, 'r, 'g) app" where
  "socket_close client_id A = A\<lparr>ap_ws := ws_unregister (ap_ws A) client_id\<rparr>"

definition handle_socket ::
  "('acc, 'sess, 't, 'r, 'g, 'm, 'kp, 'q) app_env \<Rightarrow> network \<Rightarrow> string \<Rightarrow> (draws \<times> client_message) list
     \<Rightarrow> ('acc, 'sess, 't, 'r, 'g) app \<Rightarrow> ('acc, 'sess, 't, 'r, 'g) app" where
  "handle_socket E N client_id received A =
     socket_close client_id
       (fold (\<lambda>(D, msg). handle_client_message E D client_id msg) received (fst (socket_open N client_id A)))"

end
