(* ===== verification/Api_Groups.thy ===== *)
theory Api_Groups
  imports Api_Group_Content
begin

section \<open>Group administration (\<open>variance-app/src/api/groups.rs\<close>)\<close>

text \<open>
  The handlers that create a group, change who is in it or what a member may do, join it, leave
  it and rebuild it. Index 0 of \<open>draws\<close> is the group id or the content sent first; the leave
  proposal of an abandoned group takes index 1. A loop over members takes index \<open>i\<close> (for clock
  readings \<open>2 i\<close> and \<open>2 i + 1\<close>) for the member \<open>i\<close>.
\<close>

subsection \<open>Creating and inviting\<close>

definition mls_create_group ::
  "('acc, 'sess, 't, 'r, 'g, 'm, 'kp, 'q) app_env \<Rightarrow> draws \<Rightarrow> string \<Rightarrow> ('acc, 'sess, 't, 'r, 'g) app
     \<Rightarrow> ('acc, 'sess, 't, 'r, 'g) app \<times> (api_error + string)" where
  "mls_create_group E D name A =
     (let trimmed_name = trim name
      in if trimmed_name = [] \<or> length trimmed_name > 100 then (A, Inl ApiBadRequest)
      else
       (let group_id = dr_ulid D 0
        in api_bind (as_error ApiApp (on_mls (\<lambda>H. create_group (ae_mls E) H group_id) A))
        (\<lambda>A _.
          (let A = schedule_mls_persist A;
               group_meta = \<lparr>gr_id = group_id, gr_name = name, gr_admin_did = ap_local_did A,
                 gr_members = [\<lparr>mb_did = ap_local_did A, mb_role = 3, mb_joined_at = dr_now D 0, mb_nickname = None\<rparr>],
                 gr_created_at = dr_now D 1, gr_avatar_cid = None, gr_description = None, gr_frozen = False\<rparr>;
               A = put_metadata E group_meta A
           in (ask (CallSubscribe (group_topic group_id)) A, Inr group_id)))))"

text \<open>An invitation travels as the hex text of its encoding, in the metadata of a direct message.\<close>

definition invitation_content :: "bytes \<Rightarrow> string \<Rightarrow> message_content" where
  "invitation_content encoded group_id =
     \<lparr>mc_text = [], mc_attachments = [], mc_mentions = [], mc_reply_to = None,
      mc_metadata = [(''type'', ''mls_group_invitation''), (''group_id'', group_id), (''invitation'', hex_encode encoded)]\<rparr>"

definition meta_name :: "group_meta option \<Rightarrow> string" where
  "meta_name group_meta = (case group_meta of Some g \<Rightarrow> gr_name g | None \<Rightarrow> [])"

definition meta_members :: "group_meta option \<Rightarrow> group_member list" where
  "meta_members group_meta = (case group_meta of Some g \<Rightarrow> gr_members g | None \<Rightarrow> [])"

definition fetch_key_package ::
  "('acc, 'sess, 't, 'r, 'g, 'm, 'kp, 'q) app_env \<Rightarrow> bytes \<Rightarrow> msg_error + 'kp" where
  "fetch_key_package E kp_bytes = and_then (deserialize_key_package (ae_mls E) kp_bytes) (validate_key_package (ae_mls E))"

text \<open>A control message: sent or queued, and taken out of the local history again.\<close>

definition send_control_dm ::
  "('acc, 'sess, 't, 'r, 'g, 'm, 'kp, 'q) app_env \<Rightarrow> network \<Rightarrow> draws \<Rightarrow> did \<Rightarrow> message_content \<Rightarrow> ('acc, 'sess, 't, 'r, 'g) app
     \<Rightarrow> ('acc, 'sess, 't, 'r, 'g) app" where
  "send_control_dm E N D recipient_did content A =
     (case ensure_olm_session E N recipient_did A of
        (A, Inl _) \<Rightarrow> A
      | (A, Inr _) \<Rightarrow>
          (case api_send_message E D recipient_did content A of
             (A, Inl _) \<Rightarrow> A
           | (A, Inr message) \<Rightarrow>
               (let A = fst (send_dm_to_peer E recipient_did message A)
                in with_db (delete_direct_by_id (app_store E) (app_db A) (dm_sender_did message)
                     (dm_recipient_did message) (dm_timestamp message) (dm_id message)) A)))"

definition invitee_key_package ::
  "('acc, 'sess, 't, 'r, 'g, 'm, 'kp, 'q) app_env \<Rightarrow> network \<Rightarrow> did \<Rightarrow> api_error + 'kp" where
  "invitee_key_package E N invitee_did =
     (case nw_resolve N invitee_did of
        Inl _ \<Rightarrow> Inl ApiApp
      | Inr found \<Rightarrow>
          (case if_mls_key_package found of
             None \<Rightarrow> Inl ApiApp
           | Some kp_bytes \<Rightarrow> map_err (\<lambda>_. ApiApp) (fetch_key_package E kp_bytes)))"

definition serialize_add ::
  "('acc, 'sess, 't, 'r, 'g, 'm, 'kp, 'q) app_env \<Rightarrow> 'm add_member_result \<Rightarrow> api_error + bytes \<times> bytes" where
  "serialize_add E result =
     map_err (\<lambda>_. ApiApp)
       (and_then (serialize_message (ae_mls E) (ad_welcome result)) (\<lambda>welcome_bytes.
        and_then (serialize_message (ae_mls E) (ad_commit result)) (\<lambda>commit_bytes.
        Inr (welcome_bytes, commit_bytes))))"

definition mls_invite_to_group ::
  "('acc, 'sess, 't, 'r, 'g, 'm, 'kp, 'q) app_env \<Rightarrow> network \<Rightarrow> draws \<Rightarrow> string \<Rightarrow> string \<Rightarrow> ('acc, 'sess, 't, 'r, 'g) app
     \<Rightarrow> ('acc, 'sess, 't, 'r, 'g) app \<times> (api_error + did)" where
  "mls_invite_to_group E N D group_id invitee A =
     (if trim_is_empty invitee then (A, Inl ApiBadRequest)
      else guarded (require_not_frozen E A group_id) A (\<lambda>A.
        guarded (require_role E A group_id ''admin'') A (\<lambda>A.
        if length (members_or_empty E A group_id) \<ge> max_group_members then (A, Inl ApiBadRequest)
        else
          api_bind (resolve_invitee_did E N (dr_now D 1) invitee A) (\<lambda>A invitee_did.
          api_bind (A, invitee_key_package E N invitee_did) (\<lambda>A key_package.
          api_bind (as_error ApiApp (on_mls (\<lambda>H. add_member_deferred (ae_mls E) H group_id key_package) A)) (\<lambda>A result.
          api_bind (schedule_mls_persist A, serialize_add E result) (\<lambda>A (welcome_bytes, commit_bytes).
            (let group_meta = metadata_of E A group_id;
                 now = dr_now D 2;
                 invitation = \<lparr>gi_group_id = group_id, gi_group_name = meta_name group_meta, gi_inviter_did = ap_local_did A,
                   gi_invitee_did = invitee_did, gi_timestamp = now, gi_members = meta_members group_meta,
                   gi_mls_welcome = welcome_bytes, gi_mls_commit = commit_bytes\<rparr>;
                 A = with_db (store_outbound_invite (app_store E) (app_db A) group_id invitee_did invitation now) A
             in (send_control_dm E N D invitee_did
                   (invitation_content (cd_encode (se_invitation (app_store E)) invitation) group_id) A, Inr invitee_did)))))))))"

definition mls_accept_welcome ::
  "('acc, 'sess, 't, 'r, 'g, 'm, 'kp, 'q) app_env \<Rightarrow> draws \<Rightarrow> string \<Rightarrow> ('acc, 'sess, 't, 'r, 'g) app
     \<Rightarrow> ('acc, 'sess, 't, 'r, 'g) app \<times> (api_error + string)" where
  "mls_accept_welcome E D mls_welcome A =
     (case hex_decode mls_welcome of
        None \<Rightarrow> (A, Inl ApiBadRequest)
      | Some welcome_bytes \<Rightarrow>
          (case deserialize_message (ae_mls E) welcome_bytes of
             Inl _ \<Rightarrow> (A, Inl ApiApp)
           | Inr welcome_msg \<Rightarrow>
               api_bind (as_error ApiApp (on_mls (\<lambda>H. join_group_from_welcome (ae_mls E) H welcome_msg) A))
               (\<lambda>A group_id.
                 (let A = schedule_mls_persist A;
                      A = (if sl_get (se_sled (app_store E)) (db_group_metadata (app_db A)) group_id = None
                        then put_metadata E \<lparr>gr_id = group_id, gr_name = [], gr_admin_did = [],
                          gr_members = [\<lparr>mb_did = ap_local_did A, mb_role = 1, mb_joined_at = dr_now D 0, mb_nickname = None\<rparr>],
                          gr_created_at = 0, gr_avatar_cid = None, gr_description = None, gr_frozen = False\<rparr> A
                        else A)
                  in (ask (CallSubscribe (group_topic group_id)) A, Inr group_id)))))"

subsection \<open>Leaving\<close>

definition publish_leave ::
  "('acc, 'sess, 't, 'r, 'g, 'm, 'kp, 'q) app_env \<Rightarrow> draws \<Rightarrow> nat \<Rightarrow> string \<Rightarrow> ('acc, 'sess, 't, 'r, 'g) app
     \<Rightarrow> ('acc, 'sess, 't, 'r, 'g) app \<times> (api_error + unit)" where
  "publish_leave E D i group_id A =
     api_bind (as_error ApiApp (on_mls (\<lambda>H. leave_group (ae_mls E) H group_id) A))
     (\<lambda>A leave_msg. case serialize_message (ae_mls E) leave_msg of
         Inl _ \<Rightarrow> (A, Inl ApiApp)
       | Inr leave_bytes \<Rightarrow>
           (ask (CallPublish (group_topic group_id) (group_wire D i i (ap_local_did A) group_id 0 leave_bytes)) A, Inr ()))"

definition forget_group ::
  "('acc, 'sess, 't, 'r, 'g, 'm, 'kp, 'q) app_env \<Rightarrow> string \<Rightarrow> ('acc, 'sess, 't, 'r, 'g) app \<Rightarrow> ('acc, 'sess, 't, 'r, 'g) app" where
  "forget_group E group_id A =
     (let A = ask (CallUnsubscribe (group_topic group_id)) A;
          A = schedule_mls_persist (A\<lparr>ap_mls := remove_group (ae_mls E) (ap_mls A) group_id\<rparr>);
          S = app_store E;
          db = delete_group_messages S (app_db A) group_id;
          db = delete_group_metadata S db group_id;
          db = delete_group_last_read_at S db (ap_local_did A) group_id;
          db = delete_all_outbound_invites_for_group S db group_id
      in with_db db A)"

definition mls_leave_group ::
  "('acc, 'sess, 't, 'r, 'g, 'm, 'kp, 'q) app_env \<Rightarrow> draws \<Rightarrow> string \<Rightarrow> ('acc, 'sess, 't, 'r, 'g) app
     \<Rightarrow> ('acc, 'sess, 't, 'r, 'g) app \<times> (api_error + unit)" where
  "mls_leave_group E D group_id A =
     (if is_sole_admin E A group_id \<and> has_other_members E A group_id then (A, Inl ApiBadRequest)
      else api_bind (publish_leave E D 0 group_id A)
        (\<lambda>A _. (republish_key_package E (forget_group E group_id A), Inr ())))"

definition control_content :: "(string \<times> string) list \<Rightarrow> message_content" where
  "control_content metadata =
     \<lparr>mc_text = [], mc_attachments = [], mc_mentions = [], mc_reply_to = None, mc_metadata = metadata\<rparr>"

definition mls_abandon_group ::
  "('acc, 'sess, 't, 'r, 'g, 'm, 'kp, 'q) app_env \<Rightarrow> draws \<Rightarrow> string \<Rightarrow> ('acc, 'sess, 't, 'r, 'g) app
     \<Rightarrow> ('acc, 'sess, 't, 'r, 'g) app \<times> (api_error + unit)" where
  "mls_abandon_group E D group_id A =
     guarded (require_role E A group_id ''admin'') A (\<lambda>A.
       (let content = control_content [(''type'', ''admin_abandoned''), (''admin_did'', ap_local_did A)];
            A = fst (send_group_content E D group_id content False A)
        in api_bind (publish_leave E D 1 group_id A)
          (\<lambda>A _. (republish_key_package E (forget_group E group_id A), Inr ()))))"

definition mls_delete_group ::
  "('acc, 'sess, 't, 'r, 'g, 'm, 'kp, 'q) app_env \<Rightarrow> draws \<Rightarrow> string \<Rightarrow> ('acc, 'sess, 't, 'r, 'g) app
     \<Rightarrow> ('acc, 'sess, 't, 'r, 'g) app \<times> (api_error + unit)" where
  "mls_delete_group E D group_id A =
     guarded (require_role E A group_id ''admin'') A (\<lambda>A.
       (forget_group E group_id (fst (publish_leave E D 0 group_id A)), Inr ()))"

subsection \<open>Members and roles\<close>

definition mls_remove_member ::
  "('acc, 'sess, 't, 'r, 'g, 'm, 'kp, 'q) app_env \<Rightarrow> draws \<Rightarrow> string \<Rightarrow> did \<Rightarrow> ('acc, 'sess, 't, 'r, 'g) app
     \<Rightarrow> ('acc, 'sess, 't, 'r, 'g) app \<times> (api_error + unit)" where
  "mls_remove_member E D group_id member_did A =
     guarded (require_not_frozen E A group_id) A (\<lambda>A.
     guarded (require_role E A group_id ''moderator'') A (\<lambda>A.
     let meta = metadata_of E A group_id;
         my_role = member_role_from_metadata meta (ap_local_did A);
         target_role = member_role_from_metadata meta member_did
     in if \<not> outranks my_role target_role then (A, Inl ApiForbidden)
     else (case find_member_index (ae_mls E) (ap_mls A) group_id member_did of
         Inl _ \<Rightarrow> (A, Inl ApiApp)
       | Inr None \<Rightarrow> (A, Inl ApiNotFound)
       | Inr (Some member_index) \<Rightarrow>
           api_bind (as_error ApiApp (on_mls (\<lambda>H. remove_member (ae_mls E) H group_id member_index) A))
           (\<lambda>A result.
             (let A = schedule_mls_persist A;
                  A = (case metadata_of E A group_id of
                    Some group_meta \<Rightarrow>
                      put_metadata E (group_meta\<lparr>gr_members := filter (\<lambda>m. mb_did m \<noteq> member_did) (gr_members group_meta)\<rparr>) A
                  | None \<Rightarrow> A)
              in case serialize_message (ae_mls E) (rm_commit result) of
                   Inl _ \<Rightarrow> (A, Inl ApiApp)
                 | Inr commit_bytes \<Rightarrow>
                     (ask (CallPublish (group_topic group_id)
                        (group_wire D 0 0 (ap_local_did A) group_id 0 commit_bytes)) A, Inr ()))))))"

definition mls_change_member_role ::
  "('acc, 'sess, 't, 'r, 'g, 'm, 'kp, 'q) app_env \<Rightarrow> draws \<Rightarrow> string \<Rightarrow> did \<Rightarrow> string \<Rightarrow> ('acc, 'sess, 't, 'r, 'g) app
     \<Rightarrow> ('acc, 'sess, 't, 'r, 'g) app \<times> (api_error + unit)" where
  "mls_change_member_role E D group_id member_did new_role A =
     guarded (require_not_frozen E A group_id) A (\<lambda>A.
     guarded (require_role E A group_id ''admin'') A (\<lambda>A.
     if role_rank new_role = 0 then (A, Inl ApiBadRequest)
     else
      (let meta = metadata_of E A group_id;
           my_role = member_role_from_metadata meta (ap_local_did A);
           target_role = member_role_from_metadata meta member_did
       in if \<not> outranks my_role target_role \<and> new_role \<noteq> ''admin'' then (A, Inl ApiForbidden)
       else
        (let new_role_i32 = (if new_role = ''admin'' then 3 else if new_role = ''moderator'' then 2 else 1)
         in case update_member_role (app_store E) (app_db A) group_id member_did new_role_i32 of
              (db, Inl _) \<Rightarrow> (with_db db A, Inl ApiApp)
            | (db, Inr updated) \<Rightarrow>
                (let A = with_db db A
                 in if \<not> updated then (A, Inl ApiNotFound)
                 else (let content = control_content
                         [(''type'', ''role_change''), (''target_did'', member_did), (''new_role'', new_role)]
                       in (fst (send_group_content E D group_id content False A), Inr ())))))))"

subsection \<open>Recovery\<close>

fun collect_key_packages ::
  "('acc, 'sess, 't, 'r, 'g, 'm, 'kp, 'q) app_env \<Rightarrow> network \<Rightarrow> did \<Rightarrow> (did \<rightharpoonup> string) \<Rightarrow> did list \<Rightarrow> (did \<rightharpoonup> 'kp)
     \<Rightarrow> api_error + (did \<rightharpoonup> 'kp)" where
  "collect_key_packages E N local_did provided [] key_packages = Inr key_packages"
| "collect_key_packages E N local_did provided (member_did # members) key_packages =
     (if member_did = local_did then collect_key_packages E N local_did provided members key_packages
      else case provided member_did of
          Some kp_hex \<Rightarrow>
            (case hex_decode kp_hex of
               None \<Rightarrow> Inl ApiApp
             | Some kp_bytes \<Rightarrow>
                 (case fetch_key_package E kp_bytes of
                    Inl _ \<Rightarrow> Inl ApiApp
                  | Inr kp \<Rightarrow> collect_key_packages E N local_did provided members (key_packages(member_did \<mapsto> kp))))
        | None \<Rightarrow>
            collect_key_packages E N local_did provided members
              (case invitee_key_package E N member_did of
                 Inl _ \<Rightarrow> key_packages
               | Inr kp \<Rightarrow> key_packages(member_did \<mapsto> kp)))"

fun reinvite_members ::
  "('acc, 'sess, 't, 'r, 'g, 'm, 'kp, 'q) app_env \<Rightarrow> network \<Rightarrow> draws \<Rightarrow> string \<Rightarrow> group_meta option \<Rightarrow> nat \<Rightarrow> (did \<times> 'm) list
     \<Rightarrow> did list \<Rightarrow> ('acc, 'sess, 't, 'r, 'g) app \<Rightarrow> ('acc, 'sess, 't, 'r, 'g) app \<times> (api_error + did list)" where
  "reinvite_members E N D new_group_id group_meta i [] reinvited A = (A, Inr reinvited)"
| "reinvite_members E N D new_group_id group_meta i ((member_did, welcome) # ws) reinvited A =
     (case serialize_message (ae_mls E) welcome of
        Inl _ \<Rightarrow> (A, Inl ApiApp)
      | Inr welcome_bytes \<Rightarrow>
          (let invitation = \<lparr>gi_group_id = new_group_id, gi_group_name = meta_name group_meta, gi_inviter_did = ap_local_did A,
                 gi_invitee_did = member_did, gi_timestamp = dr_now D (2 * i), gi_members = meta_members group_meta,
                 gi_mls_welcome = welcome_bytes, gi_mls_commit = []\<rparr>
           in case ensure_olm_session E N member_did A of
                (A, Inl _) \<Rightarrow> reinvite_members E N D new_group_id group_meta (Suc i) ws reinvited A
              | (A, Inr _) \<Rightarrow>
                  (case on_direct (\<lambda>H. send_message (ae_direct E) H (dr_ulid D i) (dr_now D (2 * i + 1)) (dr_nonce D i) member_did
                     (invitation_content (cd_encode (se_invitation (app_store E)) invitation) new_group_id)) A of
                     (A, Inl _) \<Rightarrow> reinvite_members E N D new_group_id group_meta (Suc i) ws reinvited A
                   | (A, Inr _) \<Rightarrow> reinvite_members E N D new_group_id group_meta (Suc i) ws (reinvited @ [member_did]) A)))"

definition mls_reinitialize_group ::
  "('acc, 'sess, 't, 'r, 'g, 'm, 'kp, 'q) app_env \<Rightarrow> network \<Rightarrow> draws \<Rightarrow> string \<Rightarrow> (did \<rightharpoonup> string) \<Rightarrow> ('acc, 'sess, 't, 'r, 'g) app
     \<Rightarrow> ('acc, 'sess, 't, 'r, 'g) app \<times> (api_error + string \<times> did list \<times> nat)" where
  "mls_reinitialize_group E N D group_id provided A =
     guarded (require_role E A group_id ''admin'') A (\<lambda>A.
     if \<not> is_member (ap_mls A) group_id then (A, Inl ApiApp)
     else (case list_members (ae_mls E) (ap_mls A) group_id of
         Inl _ \<Rightarrow> (A, Inl ApiApp)
       | Inr members \<Rightarrow>
           (case collect_key_packages E N (ap_local_did A) provided members Map.empty of
              Inl e \<Rightarrow> (A, Inl e)
            | Inr key_packages \<Rightarrow>
                api_bind (as_error ApiApp (on_mls (\<lambda>H. reinitialize_group (ae_mls E) H group_id key_packages) A))
                (\<lambda>A result.
                  (let new_id = ri_new_group_id result;
                       A = ask (CallSubscribe (group_topic new_id)) A;
                       A = (case metadata_of E A group_id of
                         Some old_meta \<Rightarrow> put_metadata E (old_meta\<lparr>gr_id := new_id\<rparr>) A | None \<Rightarrow> A)
                   in api_bind (reinvite_members E N D new_id (metadata_of E A group_id) 0 (ri_welcomes result) [] A)
                     (\<lambda>A reinvited.
                       (let A = schedule_mls_persist A;
                            A = notify (GroupReinitialized group_id new_id) A
                        in (A, Inr (new_id, reinvited, length (ri_members result))))))))))"

end
