(* ===== verification/Api_Invitations.thy ===== *)
theory Api_Invitations
  imports Api_Groups
begin

section \<open>Pending invitations (\<open>variance-app/src/api/invitations.rs\<close>)\<close>

text \<open>
  What the invited user does with an invitation: list it, accept it, decline it. The answer goes
  to the inviter as a direct message, which the local history does not keep.
\<close>

record pending_invitation_response =
  pv_group_id :: string
  pv_group_name :: string
  pv_inviter_did :: did
  pv_inviter_display_name :: "string option"
  pv_timestamp :: int
  pv_member_count :: nat

definition list_invitations ::
  "('acc, 'sess, 't, 'r, 'g, 'm, 'kp, 'q) app_env \<Rightarrow> ('acc, 'sess, 't, 'r, 'g) app
     \<Rightarrow> api_error + pending_invitation_response list" where
  "list_invitations E A =
     (case fetch_pending_invitations (app_store E) (app_db A) of
        Inl _ \<Rightarrow> Inl ApiApp
      | Inr invitations \<Rightarrow> Inr (map (\<lambda>i.
          \<lparr>pv_group_id = gi_group_id i, pv_group_name = gi_group_name i, pv_inviter_did = gi_inviter_did i,
           pv_inviter_display_name = get_display_name (ap_usernames A) (gi_inviter_did i),
           pv_timestamp = gi_timestamp i, pv_member_count = length (gi_members i)\<rparr>) invitations))"

definition find_invitation ::
  "('acc, 'sess, 't, 'r, 'g, 'm, 'kp, 'q) app_env \<Rightarrow> string \<Rightarrow> ('acc, 'sess, 't, 'r, 'g) app \<Rightarrow> api_error + group_invitation" where
  "find_invitation E group_id A =
     (case fetch_pending_invitation (app_store E) (app_db A) group_id of
        Inl _ \<Rightarrow> Inl ApiApp
      | Inr None \<Rightarrow> Inl ApiNotFound
      | Inr (Some invitation) \<Rightarrow> Inr invitation)"

definition joined_meta :: "did \<Rightarrow> int \<Rightarrow> string \<Rightarrow> group_invitation \<Rightarrow> group_meta" where
  "joined_meta local_did now joined_group_id invitation =
     \<lparr>gr_id = joined_group_id, gr_name = gi_group_name invitation,
      gr_admin_did = (case find (\<lambda>m. mb_role m = 3) (gi_members invitation) of Some m \<Rightarrow> mb_did m | None \<Rightarrow> []),
      gr_members =
        (if list_ex (\<lambda>m. mb_did m = local_did) (gi_members invitation) then gi_members invitation
         else gi_members invitation @
           [\<lparr>mb_did = local_did, mb_role = 1, mb_joined_at = now, mb_nickname = None\<rparr>]),
      gr_created_at = gi_timestamp invitation, gr_avatar_cid = None, gr_description = None, gr_frozen = False\<rparr>"

definition advertise_key_package ::
  "('acc, 'sess, 't, 'r, 'g, 'm, 'kp, 'q) app_env \<Rightarrow> ('acc, 'sess, 't, 'r, 'g) app \<Rightarrow> ('acc, 'sess, 't, 'r, 'g) app" where
  "advertise_key_package E A =
     (case on_mls (generate_key_package (ae_mls E)) A of
        (A, Inl _) \<Rightarrow> A
      | (A, Inr kp) \<Rightarrow>
          (case serialize_message_bytes (ae_mls E) kp of
             Inl _ \<Rightarrow> A
           | Inr kp_bytes \<Rightarrow> ask (CallUpdateKeyPackage kp_bytes) A))"

definition accept_invitation ::
  "('acc, 'sess, 't, 'r, 'g, 'm, 'kp, 'q) app_env \<Rightarrow> network \<Rightarrow> draws \<Rightarrow> string \<Rightarrow> ('acc, 'sess, 't, 'r, 'g) app
     \<Rightarrow> ('acc, 'sess, 't, 'r, 'g) app \<times> (api_error + string)" where
  "accept_invitation E N D group_id A =
     api_bind (A, find_invitation E group_id A) (\<lambda>A invitation.
     api_bind (A, map_err (\<lambda>_. ApiApp) (deserialize_message (ae_mls E) (gi_mls_welcome invitation))) (\<lambda>A welcome_msg.
     api_bind (as_error ApiApp (on_mls (\<lambda>H. join_group_from_welcome (ae_mls E) H welcome_msg) A)) (\<lambda>A joined_group_id.
       (let A = schedule_mls_persist A;
            A = put_metadata E (joined_meta (ap_local_did A) (dr_now D 1) joined_group_id invitation) A;
            A = ask (CallSubscribe (group_topic joined_group_id)) A;
            A = advertise_key_package E A;
            A = send_control_dm E N D (gi_inviter_did invitation)
              (control_content [(''type'', ''mls_invite_accepted''), (''group_id'', joined_group_id)]) A
        in (with_db (delete_pending_invitation (app_store E) (app_db A) group_id) A, Inr joined_group_id)))))"

definition decline_invitation ::
  "('acc, 'sess, 't, 'r, 'g, 'm, 'kp, 'q) app_env \<Rightarrow> network \<Rightarrow> draws \<Rightarrow> string \<Rightarrow> ('acc, 'sess, 't, 'r, 'g) app
     \<Rightarrow> ('acc, 'sess, 't, 'r, 'g) app \<times> (api_error + string)" where
  "decline_invitation E N D group_id A =
     api_bind (A, find_invitation E group_id A) (\<lambda>A invitation.
       (let A = send_control_dm E N D (gi_inviter_did invitation)
              (control_content [(''type'', ''mls_invite_declined''), (''group_id'', group_id)]) A
        in (with_db (delete_pending_invitation (app_store E) (app_db A) group_id) A, Inr group_id)))"

end
