(* ===== verification/Api_Control.thy ===== *)
theory Api_Control
  imports Api_Socket Api_Invitations Group_Control
begin

section \<open>Who may do what to a group, and what the handlers leave out\<close>

text \<open>
  Lemmas on the group handlers: the table of rights they implement, the ways around it, and a
  rebuilt group whose Welcomes never leave the node.
\<close>

subsection \<open>The table of rights\<close>

datatype group_request =
    Invite string
  | Kick did
  | SetRole did string
  | Abandon
  | Delete
  | Reinitialize "did \<rightharpoonup> string"
  | Post string "string option" "(string \<times> string) list"
  | ListOutbound

fun served :: "'s \<times> ('e + 'a) \<Rightarrow> 's \<times> ('e + unit)" where
  "served (A, r) = (A, map_sum id (\<lambda>_. ()) r)"

fun serve ::
  "('acc, 'sess, 't, 'r, 'g, 'm, 'kp, 'q) app_env \<Rightarrow> network \<Rightarrow> draws \<Rightarrow> string \<Rightarrow> group_request \<Rightarrow> ('acc, 'sess, 't, 'r, 'g) app
     \<Rightarrow> ('acc, 'sess, 't, 'r, 'g) app \<times> (api_error + unit)" where
  "serve E N D g (Invite invitee) A = served (mls_invite_to_group E N D g invitee A)"
| "serve E N D g (Kick d) A = mls_remove_member E D g d A"
| "serve E N D g (SetRole d role) A = mls_change_member_role E D g d role A"
| "serve E N D g Abandon A = mls_abandon_group E D g A"
| "serve E N D g Delete A = mls_delete_group E D g A"
| "serve E N D g (Reinitialize kps) A = served (mls_reinitialize_group E N D g kps A)"
| "serve E N D g (Post text reply_to metadata) A = served (mls_send_group_message E D g text reply_to metadata A)"
| "serve E N D g ListOutbound A = served (A, mls_list_outbound_invitations E g A)"

text \<open>The ranks: 1 for a member, also an unknown one, 2 for a moderator, 3 for an admin.\<close>

definition rank_in :: "group_meta option \<Rightarrow> did \<Rightarrow> nat" where
  "rank_in meta d =
     (case Option.bind meta (\<lambda>g. find (\<lambda>m. mb_did m = d) (gr_members g)) of
        Some m \<Rightarrow> if mb_role m = 3 then 3 else if mb_role m = 2 then 2 else 1
      | None \<Rightarrow> 1)"

fun rights :: "nat \<Rightarrow> bool \<Rightarrow> (did \<Rightarrow> nat) \<Rightarrow> group_request \<Rightarrow> bool" where
  "rights own frozen ranked (Invite _) \<longleftrightarrow> own = 3 \<and> \<not> frozen"
| "rights own frozen ranked (Kick d) \<longleftrightarrow> 2 \<le> own \<and> ranked d < own \<and> \<not> frozen"
| "rights own frozen ranked (SetRole d role) \<longleftrightarrow> own = 3 \<and> (ranked d < 3 \<or> role = ''admin'') \<and> \<not> frozen"
| "rights own frozen ranked Abandon \<longleftrightarrow> own = 3"
| "rights own frozen ranked Delete \<longleftrightarrow> own = 3"
| "rights own frozen ranked (Reinitialize _) \<longleftrightarrow> own = 3"
| "rights own frozen ranked (Post _ _ _) \<longleftrightarrow> \<not> frozen"
| "rights own frozen ranked ListOutbound \<longleftrightarrow> own = 3"

definition frozen_in :: "group_meta option \<Rightarrow> bool" where
  "frozen_in meta = (case meta of Some g \<Rightarrow> gr_frozen g | None \<Rightarrow> False)"

definition permitted ::
  "('acc, 'sess, 't, 'r, 'g, 'm, 'kp, 'q) app_env \<Rightarrow> string \<Rightarrow> ('acc, 'sess, 't, 'r, 'g) app \<Rightarrow> group_request \<Rightarrow> bool" where
  "permitted E g A req =
     (let meta = metadata_of E A g
      in rights (rank_in meta (ap_local_did A)) (frozen_in meta) (rank_in meta) req)"

lemma rank_of_role: "role_rank (member_role_from_metadata meta d) = rank_in meta d"
  by (simp add: role_rank_def member_role_from_metadata_def role_label_def rank_in_def split: option.split)

lemma rank_bounds: "1 \<le> rank_in meta d" "rank_in meta d \<le> 3"
  by (simp_all add: rank_in_def split: option.split)

lemma require_role_iff:
  "require_role E A g ''admin'' = (if rank_in (metadata_of E A g) (ap_local_did A) = 3 then Inr () else Inl ApiForbidden)"
  "require_role E A g ''moderator'' = (if 2 \<le> rank_in (metadata_of E A g) (ap_local_did A) then Inr () else Inl ApiForbidden)"
  using rank_bounds(2) [of "metadata_of E A g" "ap_local_did A"]
  by (auto simp: require_role_def rank_of_role Let_def) (simp_all add: role_rank_def)

lemma require_not_frozen_iff:
  "require_not_frozen E A g = (if frozen_in (metadata_of E A g) then Inl ApiForbidden else Inr ())"
  by (simp add: require_not_frozen_def frozen_in_def)

text \<open>C8. The handlers enforce the table of rights. A request that it does not permit (an invitation, a
  change of role, abandoning, deleting, rebuilding or listing invitations by anyone who is not
  an admin, a kick by someone who does not outrank the target, anything that sends to or changes
  a frozen group) changes nothing at all and is answered with an error; that error is Forbidden
  unless the request is refused for a blank or too long text first.\<close>

theorem rights_enforced:
  assumes "\<not> permitted E g A req"
  shows "\<exists>e. serve E N D g req A = (A, Inl e) \<and> (e = ApiForbidden \<or>
    (e = ApiBadRequest \<and> (\<exists>t. (req = Invite t \<and> trim_is_empty t) \<or> (\<exists>r m. req = Post t r m \<and> text_refused t))))"
proof (cases req)
  case (SetRole d role)
  then show ?thesis
    using assms rank_bounds(2) [of "metadata_of E A g" d]
    by (auto simp: permitted_def mls_change_member_role_def guarded_def require_role_iff require_not_frozen_iff outranks_def
        rank_of_role Let_def role_rank_def [of role])
qed (use assms in \<open>auto simp: permitted_def mls_invite_to_group_def mls_remove_member_def mls_abandon_group_def mls_delete_group_def
      mls_reinitialize_group_def mls_send_group_message_def mls_list_outbound_invitations_def and_then_def
      guarded_def require_role_iff require_not_frozen_iff outranks_def rank_of_role Let_def\<close>)

definition silent_network :: network where
  "silent_network =
     \<lparr>nw_resolve = (\<lambda>_. Inl []), nw_times_out = (\<lambda>_. False), nw_providers = (\<lambda>_. Inl []), nw_identity = (\<lambda>_ _. Inl []),
      nw_connected = []\<rparr>"

definition ranked_app :: "(string \<times> ledger) list \<Rightarrow> bool \<Rightarrow> int \<Rightarrow> (unit, nat, (string, bytes) rbt, unit, ledger) app" where
  "ranked_app groups frozen role =
     put_metadata (counting_app_env (\<lambda>_. None))
       \<lparr>gr_id = ''G'', gr_name = ''Team'', gr_admin_did = [],
        gr_members = [\<lparr>mb_did = ''did:v:alice'', mb_role = role, mb_joined_at = 0, mb_nickname = None\<rparr>],
        gr_created_at = 0, gr_avatar_cid = None, gr_description = None, gr_frozen = frozen\<rparr>
       (fresh_app (db_new rbt_env) (ledger_handler groups))"

lemma ranked_meta:
  "metadata_of (counting_app_env (\<lambda>_. None)) (ranked_app groups frozen role) ''G'' = Some
     \<lparr>gr_id = ''G'', gr_name = ''Team'', gr_admin_did = [],
      gr_members = [\<lparr>mb_did = ''did:v:alice'', mb_role = role, mb_joined_at = 0, mb_nickname = None\<rparr>],
      gr_created_at = 0, gr_avatar_cid = None, gr_description = None, gr_frozen = frozen\<rparr>"
proof -
  have "app_store (counting_app_env (\<lambda>_. None)) = rbt_env" by (simp add: app_store_def counting_app_env_def counting_env_def)
  then show ?thesis
    using rbt_env_ok by (simp add: metadata_of_def ranked_app_def put_metadata_def fetch_group_metadata_def store_group_metadata_def
        sled_get_insert)
qed

lemma ranked_did: "ap_local_did (ranked_app groups frozen role) = ''did:v:alice''"
  by (simp add: ranked_app_def put_metadata_def fresh_app_def)

theorem rights_enforced_witness:
  "serve (counting_app_env (\<lambda>_. None)) silent_network zero_draws ''G'' (Kick ''did:v:bob'') (ranked_app [] False 1)
     = (ranked_app [] False 1, Inl ApiForbidden)"
proof -
  have "\<not> permitted (counting_app_env (\<lambda>_. None)) ''G'' (ranked_app [] False 1) (Kick ''did:v:bob'')"
    by (simp add: permitted_def ranked_meta ranked_did rank_in_def Let_def)
  from rights_enforced [OF this, of silent_network zero_draws] show ?thesis by auto
qed

subsection \<open>Around a frozen group\<close>

text \<open>Freezing does not stop a member from sending. In a frozen group a text is refused, but a
  reaction over HTTP, and any text over the WebSocket, is encrypted and published to the group's
  topic as ever.\<close>

theorem frozen_still_publishes:
  assumes "frozen_in (metadata_of E A g)" and "\<not> text_refused text" and "emoji \<noteq> []" and "length emoji \<le> 8"
    and "\<And>p. \<exists>H m b. encrypt_message (ae_mls E) (ap_mls A) g p = (H, Inr m) \<and> serialize_message (ae_mls E) m = Inr b"
  shows "mls_send_group_message E D g text None [] A = (A, Inl ApiForbidden) \<and>
    (\<exists>m. CallPublish (group_topic g) m \<in> set (ap_calls (fst (add_group_reaction E D i g emoji A)))) \<and>
    (\<exists>m. CallPublish (group_topic g) m \<in> set (ap_calls (handle_client_message E D c (SendGroup g text None) A)))"
proof -
  obtain H m b where r: "encrypt_message (ae_mls E) (ap_mls A) g
      (cd_encode (ae_payload E) (Some (PayloadMessage (reaction_content i emoji ''add'')))) = (H, Inr m)"
      "serialize_message (ae_mls E) m = Inr b" using assms(5) by blast
  obtain H' m' b' where w: "encrypt_message (ae_mls E) (ap_mls A) g
      (cd_encode (mv_content (ae_mls E)) (text_content text None)) = (H', Inr m')"
      "serialize_message (ae_mls E) m' = Inr b'" using assms(5) by blast
  show ?thesis
    using assms(1-4) r w
    by (auto simp: mls_send_group_message_def guarded_def require_not_frozen_iff add_group_reaction_def send_group_content_def
        handle_client_message_def socket_send_group_def on_mls_def as_error_def on_client_def Let_def)
qed

lemma ledger_encrypts:
  "\<exists>H m b. encrypt_message ledger_env (ledger_handler [(''G'', g)]) ''G'' p = (H, Inr m) \<and> serialize_message ledger_env m = Inr b"
  by (cases g) (simp add: encrypt_message_def on_group_def find_group_def ledger_handler_def ledger_env_def ledger_mls_def
      serialize_message_def lib_call_def)

theorem frozen_still_publishes_witness:
  "let E = counting_app_env (\<lambda>_. None);
       A = ranked_app [(''G'', (as_bytes ''G'', [(0, [1])], 0, None))] True 1
   in mls_send_group_message E zero_draws ''G'' ''hi'' None [] A = (A, Inl ApiForbidden) \<and>
     (\<exists>m. CallPublish (group_topic ''G'') m \<in> set (ap_calls (fst (add_group_reaction E zero_draws ''m'' ''G'' ''+1'' A)))) \<and>
     (\<exists>m. CallPublish (group_topic ''G'') m \<in> set (ap_calls (handle_client_message E zero_draws ''c'' (SendGroup ''G'' ''hi'' None) A)))"
  unfolding Let_def
proof (rule frozen_still_publishes)
  let ?A = "ranked_app [(''G'', (as_bytes ''G'', [(0, [1])], 0, None))] True 1"
  have m: "ap_mls ?A = ledger_handler [(''G'', (as_bytes ''G'', [(0, [1])], 0, None))]"
    by (simp add: ranked_app_def put_metadata_def fresh_app_def)
  show "\<exists>H m b. encrypt_message (ae_mls (counting_app_env (\<lambda>_. None))) (ap_mls ?A) ''G'' p = (H, Inr m) \<and>
      serialize_message (ae_mls (counting_app_env (\<lambda>_. None))) m = Inr b" for p
    unfolding m using ledger_encrypts by simp
  show "\<not> text_refused ''hi''"
    by (simp add: text_refused_def trim_is_empty_def trim_visible)
qed (simp_all add: ranked_meta frozen_in_def)

subsection \<open>A rebuilt group\<close>

text \<open>What has left the node, or waits to.\<close>

definition outbox :: "('acc, 'sess, 't, 'r, 'g) app \<Rightarrow> handle_call list \<times> 't" where
  "outbox A = (ap_calls A, db_pending_messages (app_db A))"

lemma pending_persist_session [simp]:
  "db_pending_messages (dh_storage (persist_session E H p)) = db_pending_messages (dh_storage H)"
  by (simp add: persist_session_def store_session_pickle_def split: option.split)

lemma pending_keep_message [simp]:
  "db_pending_messages (dh_storage (fst (keep_message E H nonce m c))) = db_pending_messages (dh_storage H)"
  by (simp add: keep_message_def persist_plaintext_def store_direct_def store_plaintext_def split: option.split)

lemma pending_send_message [simp]:
  "db_pending_messages (dh_storage (fst (send_message E H i now nonce d c))) = db_pending_messages (dh_storage H)"
proof -
  have k: "keep_message E G nonce m c = (G', r) \<Longrightarrow> db_pending_messages (dh_storage G') = db_pending_messages (dh_storage G)" for G m G' r
    using pending_keep_message [of E G nonce m c] by simp
  show ?thesis
    by (auto simp: send_message_def send_self_message_def Let_def dest!: k split: option.split sum.split prod.split)
qed

lemma outbox_direct: "db_pending_messages (dh_storage H) = db_pending_messages (app_db A) \<Longrightarrow> outbox (A\<lparr>ap_direct := H\<rparr>) = outbox A"
  by (simp add: outbox_def app_db_def)

lemma outbox_try: "outbox (try_one_time_keys E d ik otks A) = outbox A"
  by (induction E d ik otks A rule: try_one_time_keys.induct)
    (simp_all add: outbox_def app_db_def init_session_if_needed_def init_session_as_initiator_def)

lemma outbox_ensure: "outbox (fst (ensure_olm_session E N d A)) = outbox A"
  by (simp add: ensure_olm_session_def outbox_try split: sum.split)

lemma outbox_on_direct_send: "outbox (fst (on_direct (\<lambda>H. send_message E H i now nonce d c) A)) = outbox A"
proof -
  have "outbox (A\<lparr>ap_direct := fst (send_message E (ap_direct A) i now nonce d c)\<rparr>) = outbox A"
    by (rule outbox_direct) (simp add: app_db_def)
  then show ?thesis by (simp add: on_direct_def case_prod_unfold Let_def)
qed

lemma outbox_reinvite: "outbox (fst (reinvite_members E N D new_id meta i ws acc A)) = outbox A"
proof (induction E N D new_id meta i ws acc A rule: reinvite_members.induct)
  case (2 E N D new_id meta i d w ws acc A)
  show ?case
  proof (cases "serialize_message (ae_mls E) w")
    case (Inr b)
    let ?inv = "\<lparr>gi_group_id = new_id, gi_group_name = meta_name meta, gi_inviter_did = ap_local_did A, gi_invitee_did = d,
      gi_timestamp = dr_now D (2 * i), gi_members = meta_members meta, gi_mls_welcome = b, gi_mls_commit = []\<rparr>"
    obtain A1 r1 where e: "ensure_olm_session E N d A = (A1, r1)" by fastforce
    let ?f = "\<lambda>H. send_message (ae_direct E) H (dr_ulid D i) (dr_now D (2 * i + 1)) (dr_nonce D i) d
      (invitation_content (cd_encode (se_invitation (app_store E)) ?inv) new_id)"
    obtain A2 r2 where s: "on_direct ?f A1 = (A2, r2)" by fastforce
    have o: "outbox A1 = outbox A" "outbox A2 = outbox A1"
      using outbox_ensure [of E N d A] outbox_on_direct_send [of "ae_direct E" "dr_ulid D i" "dr_now D (2 * i + 1)" "dr_nonce D i" d
        "invitation_content (cd_encode (se_invitation (app_store E)) ?inv) new_id" A1] e s by auto
    show ?thesis
      using 2 [OF Inr refl e [symmetric]] o e s Inr by (auto simp: Let_def split: sum.splits)
  qed simp
qed simp

definition rebuilt_group where
  "rebuilt_group E N D g A result =
     (let new_id = ri_new_group_id result;
          A = ask (CallSubscribe (group_topic new_id)) A;
          A = (case metadata_of E A g of Some old_meta \<Rightarrow> put_metadata E (old_meta\<lparr>gr_id := new_id\<rparr>) A | None \<Rightarrow> A)
      in api_bind (reinvite_members E N D new_id (metadata_of E A g) 0 (ri_welcomes result) [] A)
        (\<lambda>A reinvited. (notify (GroupReinitialized g new_id) (schedule_mls_persist A),
           Inr (new_id, reinvited, length (ri_members result)))))"

lemma mls_reinitialize_group_eq:
  "mls_reinitialize_group E N D g provided A =
     guarded (require_role E A g ''admin'') A (\<lambda>A.
     if \<not> is_member (ap_mls A) g then (A, Inl ApiApp)
     else (case list_members (ae_mls E) (ap_mls A) g of
         Inl _ \<Rightarrow> (A, Inl ApiApp)
       | Inr members \<Rightarrow>
           (case collect_key_packages E N (ap_local_did A) provided members Map.empty of
              Inl e \<Rightarrow> (A, Inl e)
            | Inr key_packages \<Rightarrow>
                api_bind (as_error ApiApp (on_mls (\<lambda>H. reinitialize_group (ae_mls E) H g key_packages) A)) (rebuilt_group E N D g))))"
  unfolding mls_reinitialize_group_def rebuilt_group_def [abs_def] Let_def by (rule refl)

lemma outbox_put_metadata: "outbox (put_metadata E meta A) = outbox A"
  by (simp add: outbox_def put_metadata_def store_group_metadata_def)

lemma outbox_ask: "outbox (ask c A) = (ap_calls A @ [c], db_pending_messages (app_db A))"
  by (simp add: outbox_def)

lemma outbox_rebuilt:
  "outbox (fst (rebuilt_group E N D g A result)) =
     (ap_calls A @ [CallSubscribe (group_topic (ri_new_group_id result))], db_pending_messages (app_db A))"
proof -
  let ?new = "ri_new_group_id result"
  let ?A1 = "ask (CallSubscribe (group_topic ?new)) A"
  define B where "B = (case metadata_of E A g of Some old \<Rightarrow> put_metadata E (old\<lparr>gr_id := ?new\<rparr>) ?A1 | None \<Rightarrow> ?A1)"
  have B: "outbox B = outbox ?A1"
    by (simp add: B_def outbox_put_metadata split: option.split)
  obtain C r where c: "reinvite_members E N D ?new (metadata_of E B g) 0 (ri_welcomes result) [] B = (C, r)" by fastforce
  then have C: "outbox C = outbox B"
    using outbox_reinvite [of E N D ?new "metadata_of E B g" 0 "ri_welcomes result" "[]" B] by simp
  have "outbox (notify (GroupReinitialized g ?new) (schedule_mls_persist C)) = outbox C"
    by (simp add: outbox_def)
  then show ?thesis
    using C B c by (cases r) (simp_all add: rebuilt_group_def Let_def flip: B_def, simp_all add: outbox_ask)
qed

text \<open>Rebuilding a group tells nobody. Whatever the library and the network answer, the handler
  that rebuilds a group for its members hands the node nothing but, at most, one subscription
  to the new topic, and queues nothing for later: the Welcomes it encrypts for the members it
  reports as invited again are never sent.\<close>

theorem rebuild_tells_nobody:
  "let A' = fst (mls_reinitialize_group E N D g provided A) in
     (ap_calls A' = ap_calls A \<or> (\<exists>h. ap_calls A' = ap_calls A @ [CallSubscribe (group_topic h)])) \<and>
     db_pending_messages (app_db A') = db_pending_messages (app_db A)"
proof -
  let ?P = "\<lambda>A'. outbox A' = outbox A \<or> (\<exists>h. outbox A' = (ap_calls A @ [CallSubscribe (group_topic h)], db_pending_messages (app_db A)))"
  have step: "?P (fst (api_bind (as_error ApiApp (on_mls f A)) (rebuilt_group E N D g)))" for f
  proof (cases "snd (f (ap_mls A))")
    case (Inl e)
    then show ?thesis by (simp add: on_mls_eq as_error_def outbox_def app_db_def)
  next
    case (Inr x)
    then have "api_bind (as_error ApiApp (on_mls f A)) (rebuilt_group E N D g) = rebuilt_group E N D g (A\<lparr>ap_mls := fst (f (ap_mls A))\<rparr>) x"
      by (simp add: on_mls_eq as_error_def)
    then show ?thesis by (auto simp: outbox_rebuilt app_db_def)
  qed
  have "?P (fst (mls_reinitialize_group E N D g provided A))"
    by (simp add: mls_reinitialize_group_eq guarded_def step split: sum.split)
  then show ?thesis by (auto simp: Let_def outbox_def)
qed

end
