(* ===== verification/Api_Social.thy ===== *)
theory Api_Social
  imports Api_Helpers Typing Call_Handler
begin

section \<open>Receipts, typing, presence and calls (\<open>api/social.rs\<close>, \<open>api/calls.rs\<close>, \<open>event_router/media.rs\<close>)\<close>

text \<open>
  The handlers of \<open>/receipts\<close>, \<open>/typing\<close>, \<open>/presence\<close>, \<open>/calls\<close> and \<open>/signaling\<close>, and the listeners
  of call, signaling and offline message events. The typing handler, the call manager and the
  signaling handler are states of their own beside the application's. The readings of the
  monotonic clock that a start of typing takes are \<open>tick\<close>.
\<close>

subsection \<open>Receipts\<close>

record receipt_response =
  rz_message_id :: string
  rz_reader_did :: did
  rz_status :: string
  rz_timestamp :: int

definition receipt_response_of :: "read_receipt \<Rightarrow> receipt_response" where
  "receipt_response_of r =
     \<lparr>rz_message_id = rr_message_id r, rz_reader_did = rr_reader_did r, rz_status = receipt_status_to_string (rr_status r),
      rz_timestamp = rr_timestamp r\<rparr>"

definition post_receipt ::
  "('acc, 'sess, 't, 'r, 'g, 'm, 'kp, 'q) app_env \<Rightarrow> did \<Rightarrow> 't message_db \<times> read_receipt \<Rightarrow> ('acc, 'sess, 't, 'r, 'g) app
     \<Rightarrow> ('acc, 'sess, 't, 'r, 'g) app \<times> receipt_response" where
  "post_receipt E sender_did sent A =
     (let (db, receipt) = sent;
          A = with_db (store_pending_receipt (app_store E) db sender_did receipt) A
      in (ask (CallSendReceipt sender_did receipt) A, receipt_response_of receipt))"

definition api_send_delivered_receipt ::
  "('acc, 'sess, 't, 'r, 'g, 'm, 'kp, 'q) app_env \<Rightarrow> draws \<Rightarrow> string \<Rightarrow> did \<Rightarrow> ('acc, 'sess, 't, 'r, 'g) app
     \<Rightarrow> ('acc, 'sess, 't, 'r, 'g) app \<times> receipt_response" where
  "api_send_delivered_receipt E D message_id sender_did A =
     post_receipt E sender_did
       (send_delivered (app_store E) (ae_sign_receipt E) (ap_local_did A) (app_db A) (dr_now D 0) message_id) A"

definition api_send_read_receipt ::
  "('acc, 'sess, 't, 'r, 'g, 'm, 'kp, 'q) app_env \<Rightarrow> draws \<Rightarrow> string \<Rightarrow> did \<Rightarrow> ('acc, 'sess, 't, 'r, 'g) app
     \<Rightarrow> ('acc, 'sess, 't, 'r, 'g) app \<times> receipt_response" where
  "api_send_read_receipt E D message_id sender_did A =
     post_receipt E sender_did
       (send_read (app_store E) (ae_sign_receipt E) (ap_local_did A) (app_db A) (dr_now D 0) message_id) A"

definition api_get_receipts ::
  "('acc, 'sess, 't, 'r, 'g, 'm, 'kp, 'q) app_env \<Rightarrow> string \<Rightarrow> ('acc, 'sess, 't, 'r, 'g) app
     \<Rightarrow> api_error + receipt_response list" where
  "api_get_receipts E message_id A =
     map_sum (\<lambda>_. ApiApp) (map receipt_response_of) (get_receipts (app_store E) (app_db A) message_id)"

subsection \<open>Typing and presence\<close>

definition start_typing ::
  "('acc, 'sess, 't, 'r, 'g, 'm, 'kp, 'q) app_env \<Rightarrow> (nat \<Rightarrow> nat) \<Rightarrow> millis \<Rightarrow> string \<Rightarrow> bool
     \<Rightarrow> typing_handler \<times> ('acc, 'sess, 't, 'r, 'g) app \<Rightarrow> typing_handler \<times> ('acc, 'sess, 't, 'r, 'g) app" where
  "start_typing E tick utc recipient is_group TA =
     (let (T, A) = TA in
      if is_group
      then (if \<not> is_member (ap_mls A) recipient then (T, A)
        else (case try_start_typing_group T (tick 0) (tick 1) (tick 2) (tick 3) utc recipient of
            (T, None) \<Rightarrow> (T, A)
          | (T, Some indicator) \<Rightarrow> (T, ask (CallBroadcastTyping (members_or_empty E A recipient) indicator) A)))
      else (case try_start_typing_direct T (tick 0) (tick 1) utc recipient of
          (T, None) \<Rightarrow> (T, A)
        | (T, Some indicator) \<Rightarrow> (T, ask (CallSendTyping recipient indicator) A)))"

definition stop_typing ::
  "millis \<Rightarrow> string \<Rightarrow> bool \<Rightarrow> typing_handler \<times> ('acc, 'sess, 't, 'r, 'g) app
     \<Rightarrow> typing_handler \<times> ('acc, 'sess, 't, 'r, 'g) app" where
  "stop_typing utc recipient is_group TA =
     (let (T, A) = TA in
      if is_group then (clear_cooldown T (''group:'' @ recipient), A)
      else (let indicator = send_typing_direct T utc recipient False;
                T = clear_cooldown T recipient
            in (T, ask (CallSendTyping recipient indicator) A)))"

definition get_typing_users :: "typing_handler \<Rightarrow> millis \<Rightarrow> string \<Rightarrow> typing_handler \<times> did list" where
  "get_typing_users T now recipient =
     (case strip_prefix ''group:'' recipient of
        Some group_id \<Rightarrow> get_typing_users_group T now group_id
      | None \<Rightarrow> get_typing_users_direct T now recipient)"

definition get_presence :: "network \<Rightarrow> did list" where
  "get_presence N = nw_connected N"

subsection \<open>Calls\<close>

definition call_reply :: "'s \<times> (media_error + 'pc call) \<Rightarrow> 's \<times> (api_error + call_response)" where
  "call_reply r = (case r of (M, Inl _) \<Rightarrow> (M, Inl ApiApp) | (M, Inr c) \<Rightarrow> (M, Inr (call_to_response c)))"

definition api_create_call ::
  "string \<Rightarrow> millis \<Rightarrow> did \<Rightarrow> string \<Rightarrow> 'pc call_manager \<Rightarrow> 'pc call_manager \<times> (api_error + call_response)" where
  "api_create_call call_id now recipient_did call_type M =
     (case parse_call_type call_type of
        Inl e \<Rightarrow> (M, Inl e)
      | Inr t \<Rightarrow> (let (M, c) = create_call M call_id now recipient_did t in (M, Inr (call_to_response c))))"

text \<open>The order in which the concurrent map is iterated is an argument, as the list of its keys.\<close>

definition api_list_active_calls :: "string list \<Rightarrow> 'pc call_manager \<Rightarrow> call_response list" where
  "api_list_active_calls keys M = map call_to_response (List.map_filter (\<lambda>k. map_option call_clone (cm_calls M k)) keys)"

definition api_accept_call :: "string \<Rightarrow> 'pc call_manager \<Rightarrow> 'pc call_manager \<times> (api_error + call_response)" where
  "api_accept_call call_id M = call_reply (accept_call M call_id)"

definition forget_nonces ::
  "string \<Rightarrow> 'sk media_handler \<Rightarrow> 's \<times> (api_error + 'a) \<Rightarrow> ('s \<times> 'sk media_handler) \<times> (api_error + 'a)" where
  "forget_nonces call_id G r =
     (case r of (M, Inl e) \<Rightarrow> ((M, G), Inl e) | (M, Inr c) \<Rightarrow> ((M, purge_call_nonces G call_id), Inr c))"

definition api_reject_call ::
  "millis \<Rightarrow> string \<Rightarrow> 'pc call_manager \<times> 'sk media_handler
     \<Rightarrow> ('pc call_manager \<times> 'sk media_handler) \<times> (api_error + call_response)" where
  "api_reject_call now call_id MG =
     (case MG of (M, G) \<Rightarrow> forget_nonces call_id G (call_reply (reject_call M now call_id)))"

definition api_end_call ::
  "'pc webrtc \<Rightarrow> millis \<Rightarrow> string \<Rightarrow> 'pc call_manager \<times> 'sk media_handler
     \<Rightarrow> ('pc call_manager \<times> 'sk media_handler) \<times> (api_error + call_response)" where
  "api_end_call W now call_id MG =
     (case MG of (M, G) \<Rightarrow> forget_nonces call_id G (call_reply (end_call W M now call_id)))"

subsection \<open>Signaling\<close>

definition post_signal ::
  "('acc, 'sess, 't, 'r, 'g, 'm, 'kp, 'q) app_env \<Rightarrow> did \<Rightarrow> signaling_message \<Rightarrow> ('acc, 'sess, 't, 'r, 'g) app
     \<Rightarrow> ('acc, 'sess, 't, 'r, 'g) app \<times> (api_error + unit)" where
  "post_signal E recipient_did message A =
     (let c = CallSendSignaling recipient_did message; A = ask c A
      in if ae_answer E c \<noteq> None then (A, Inl ApiApp) else (A, Inr ()))"

definition api_send_offer ::
  "('sk, 'xs) did_crypto \<Rightarrow> 'sk media_handler \<Rightarrow> ('acc, 'sess, 't, 'r, 'g, 'm, 'kp, 'q) app_env \<Rightarrow> draws \<Rightarrow> string \<Rightarrow> did \<Rightarrow> string
     \<Rightarrow> string \<Rightarrow> ('acc, 'sess, 't, 'r, 'g) app \<Rightarrow> ('acc, 'sess, 't, 'r, 'g) app \<times> (api_error + unit)" where
  "api_send_offer C G E D call_id recipient_did sdp call_type A =
     (case parse_call_type call_type of
        Inl e \<Rightarrow> (A, Inl e)
      | Inr t \<Rightarrow> post_signal E recipient_did (send_offer C G (dr_now D 0) (dr_nonce D 0) call_id recipient_did sdp t) A)"

definition api_send_answer ::
  "('sk, 'xs) did_crypto \<Rightarrow> 'sk media_handler \<Rightarrow> ('acc, 'sess, 't, 'r, 'g, 'm, 'kp, 'q) app_env \<Rightarrow> draws \<Rightarrow> string \<Rightarrow> did \<Rightarrow> string
     \<Rightarrow> ('acc, 'sess, 't, 'r, 'g) app \<Rightarrow> ('acc, 'sess, 't, 'r, 'g) app \<times> (api_error + unit)" where
  "api_send_answer C G E D call_id recipient_did sdp A =
     post_signal E recipient_did (send_answer C G (dr_now D 0) (dr_nonce D 0) call_id recipient_did sdp) A"

definition api_send_ice_candidate ::
  "('sk, 'xs) did_crypto \<Rightarrow> 'sk media_handler \<Rightarrow> ('acc, 'sess, 't, 'r, 'g, 'm, 'kp, 'q) app_env \<Rightarrow> draws \<Rightarrow> string \<Rightarrow> did \<Rightarrow> string
     \<Rightarrow> string \<Rightarrow> nat option \<Rightarrow> ('acc, 'sess, 't, 'r, 'g) app \<Rightarrow> ('acc, 'sess, 't, 'r, 'g) app \<times> (api_error + unit)" where
  "api_send_ice_candidate C G E D call_id recipient_did candidate sdp_mid index A =
     post_signal E recipient_did
       (send_ice_candidate C G (dr_now D 0) (dr_nonce D 0) call_id recipient_did candidate sdp_mid index) A"

definition api_send_control ::
  "('sk, 'xs) did_crypto \<Rightarrow> 'sk media_handler \<Rightarrow> ('acc, 'sess, 't, 'r, 'g, 'm, 'kp, 'q) app_env \<Rightarrow> draws \<Rightarrow> string \<Rightarrow> did \<Rightarrow> string
     \<Rightarrow> string option \<Rightarrow> ('acc, 'sess, 't, 'r, 'g) app \<Rightarrow> ('acc, 'sess, 't, 'r, 'g) app \<times> (api_error + unit)" where
  "api_send_control C G E D call_id recipient_did control_type reason A =
     (case parse_control_type control_type of
        Inl e \<Rightarrow> (A, Inl e)
      | Inr t \<Rightarrow> post_signal E recipient_did (send_control C G (dr_now D 0) (dr_nonce D 0) call_id recipient_did t reason) A)"

subsection \<open>The media listeners\<close>

definition on_call_event ::
  "('sk, 'xs) did_crypto \<Rightarrow> 'pc call_manager \<Rightarrow> 'sk media_handler \<Rightarrow> draws \<Rightarrow> call_event
     \<Rightarrow> ('acc, 'sess, 't, 'r, 'g) app \<Rightarrow> ('acc, 'sess, 't, 'r, 'g) app" where
  "on_call_event C M G D event A =
     (case event of
        StateChanged call_id status \<Rightarrow>
          notify (CallStateChanged call_id
            (case status of Active \<Rightarrow> ''active'' | Failed \<Rightarrow> ''failed'' | Ended \<Rightarrow> ''ended'' | _ \<Rightarrow> ''unknown'')) A
      | IceCandidateGathered call_id candidate sdp_mid index \<Rightarrow>
          (case get_remote_peer M call_id of
             None \<Rightarrow> A
           | Some recipient_did \<Rightarrow>
               ask (CallSendSignaling recipient_did
                 (send_ice_candidate C G (dr_now D 0) (dr_nonce D 0) call_id recipient_did candidate
                   (case sdp_mid of Some s \<Rightarrow> s | None \<Rightarrow> []) index)) A))"

datatype signaling_notice =
    CallOfferReceived string string signaling_message
  | CallAnswerReceived string string signaling_message
  | CallIceReceived string string signaling_message
  | CallControlReceived string string signaling_message
  | CallOver string string

definition on_signaling_notice ::
  "(signaling_message \<Rightarrow> string) \<Rightarrow> signaling_notice \<Rightarrow> ('acc, 'sess, 't, 'r, 'g) app \<Rightarrow> ('acc, 'sess, 't, 'r, 'g) app" where
  "on_signaling_notice encode event A =
     notify (case event of
        CallOfferReceived peer call_id message \<Rightarrow> CallIncoming call_id peer (encode message)
      | CallAnswerReceived peer call_id message \<Rightarrow> ws_message.CallAnswer call_id peer (encode message)
      | CallIceReceived peer call_id message \<Rightarrow> ws_message.IceCandidate call_id peer (encode message)
      | CallControlReceived peer call_id message \<Rightarrow> ws_message.CallControl call_id peer (encode message)
      | CallOver call_id reason \<Rightarrow> CallEnded call_id reason) A"

definition on_offline_messages :: "'e list \<Rightarrow> ('acc, 'sess, 't, 'r, 'g) app \<Rightarrow> ('acc, 'sess, 't, 'r, 'g) app" where
  "on_offline_messages messages A = notify (OfflineMessagesReceived (length messages)) A"

end
