(* ===== verification/Mls_Persister.thy ===== *)
theory Mls_Persister
  imports Main
begin

section \<open>The debounced snapshot writer (\<open>variance-app/src/mls_persister.rs\<close>)\<close>

text \<open>
  The task behind \<open>MlsPersister\<close> with its \<open>Notify\<close>, at the granularity of its awaits: every
  other operation can fall between two of its steps. The listeners and handlers see only
  \<open>schedule\<close>, which they model as a flag that is due; here is what becomes of it. A state of
  the groups is what \<open>export_state\<close> gives; times are in milliseconds. Failing writes are not
  modelled.
\<close>

subsection \<open>The task\<close>

text \<open>Where the loop stands: before it reads \<open>running\<close>; before its first \<open>notified\<close>; in it; in the
  \<open>timeout\<close> with its deadline; before \<open>export_state\<close>; before \<open>store_mls_state\<close>; past the loop.\<close>

datatype 'm task_point = AtHead | Armed | Waiting | Debouncing nat | Persisting | Exported 'm | Ended

record 'm persister =
  pe_point :: "'m task_point"
  pe_permit :: bool
  pe_running :: bool
  pe_clock :: nat
  pe_groups :: 'm
  pe_stored :: "'m option"

definition default_debounce_ms :: nat where
  "default_debounce_ms = 500"

definition with_debounce :: "nat \<Rightarrow> 'm \<Rightarrow> 'm option \<Rightarrow> 'm persister" where
  "with_debounce clock groups on_disk =
     \<lparr>pe_point = AtHead, pe_permit = False, pe_running = True, pe_clock = clock, pe_groups = groups, pe_stored = on_disk\<rparr>"

definition task_step :: "nat \<Rightarrow> 'm persister \<Rightarrow> 'm persister" where
  "task_step debounce P =
     (case pe_point P of
        AtHead \<Rightarrow> P\<lparr>pe_point := (if pe_running P then Armed else Ended)\<rparr>
      | Armed \<Rightarrow>
          (if pe_permit P then P\<lparr>pe_permit := False, pe_point := Debouncing (pe_clock P + debounce)\<rparr>
           else P\<lparr>pe_point := Waiting\<rparr>)
      | Waiting \<Rightarrow> P
      | Debouncing deadline \<Rightarrow> (if deadline \<le> pe_clock P then P\<lparr>pe_point := Persisting\<rparr> else P)
      | Persisting \<Rightarrow> P\<lparr>pe_point := Exported (pe_groups P)\<rparr>
      | Exported snapshot \<Rightarrow> P\<lparr>pe_stored := Some snapshot, pe_point := AtHead\<rparr>
      | Ended \<Rightarrow> P)"

subsection \<open>The calls of the others\<close>

text \<open>A call of \<open>notify_one\<close> reaches the task if it awaits a notification; otherwise it leaves one
  permit. \<open>notify_waiters\<close> reaches a waiting task only.\<close>

definition wake :: "nat \<Rightarrow> 'm persister \<Rightarrow> 'm persister option" where
  "wake debounce P =
     (case pe_point P of
        Waiting \<Rightarrow> Some (P\<lparr>pe_point := Debouncing (pe_clock P + debounce)\<rparr>)
      | Debouncing _ \<Rightarrow> Some (P\<lparr>pe_point := Debouncing (pe_clock P + debounce)\<rparr>)
      | _ \<Rightarrow> None)"

definition persister_schedule :: "nat \<Rightarrow> 'm persister \<Rightarrow> 'm persister" where
  "persister_schedule debounce P = (case wake debounce P of Some P \<Rightarrow> P | None \<Rightarrow> P\<lparr>pe_permit := True\<rparr>)"

definition persister_flush :: "'m persister \<Rightarrow> 'm persister" where
  "persister_flush P = P\<lparr>pe_stored := Some (pe_groups P)\<rparr>"

definition persister_stop :: "nat \<Rightarrow> 'm persister \<Rightarrow> 'm persister" where
  "persister_stop debounce P =
     (let P = P\<lparr>pe_running := False\<rparr> in case wake debounce P of Some P \<Rightarrow> P | None \<Rightarrow> P)"

datatype 'm persist_event = GroupsChanged 'm | ScheduleCalled | FlushCalled | StopCalled | TimePassed nat | TaskRan

fun persist_event_step :: "nat \<Rightarrow> 'm persist_event \<Rightarrow> 'm persister \<Rightarrow> 'm persister" where
  "persist_event_step debounce (GroupsChanged m) P = P\<lparr>pe_groups := m\<rparr>"
| "persist_event_step debounce ScheduleCalled P = persister_schedule debounce P"
| "persist_event_step debounce FlushCalled P = persister_flush P"
| "persist_event_step debounce StopCalled P = persister_stop debounce P"
| "persist_event_step debounce (TimePassed ms) P = P\<lparr>pe_clock := pe_clock P + ms\<rparr>"
| "persist_event_step debounce TaskRan P = task_step debounce P"

definition persister_run :: "nat \<Rightarrow> 'm persist_event list \<Rightarrow> 'm persister \<Rightarrow> 'm persister" where
  "persister_run debounce events P = fold (persist_event_step debounce) events P"

subsection \<open>Left alone\<close>

text \<open>The task with nothing else happening: time passes only up to its deadline.\<close>

definition alone :: "nat \<Rightarrow> 'm persister \<Rightarrow> 'm persister" where
  "alone debounce P =
     (case pe_point P of
        Debouncing deadline \<Rightarrow> task_step debounce (P\<lparr>pe_clock := max (pe_clock P) deadline\<rparr>)
      | _ \<Rightarrow> task_step debounce P)"

definition at_rest :: "'m persister \<Rightarrow> bool" where
  "at_rest P \<longleftrightarrow> pe_point P = Waiting \<or> pe_point P = Ended"

text \<open>Steps to the next rest. A permit costs one more round of the loop.\<close>

definition steps_left :: "'m persister \<Rightarrow> nat" where
  "steps_left P =
     (case pe_point P of
        Waiting \<Rightarrow> 0 | Ended \<Rightarrow> 0 | Armed \<Rightarrow> 1 | AtHead \<Rightarrow> 2 | Exported _ \<Rightarrow> 3 | Persisting \<Rightarrow> 4 | Debouncing _ \<Rightarrow> 5)
     + (if pe_permit P then 6 else 0)"

lemmas persister_defs = task_step_def alone_def at_rest_def steps_left_def wake_def persister_schedule_def
  persister_stop_def persister_flush_def

lemma alone_descends: "\<not> at_rest P \<Longrightarrow> steps_left (alone debounce P) < steps_left P"
  by (cases "pe_point P") (simp_all add: persister_defs)

function settle :: "nat \<Rightarrow> 'm persister \<Rightarrow> 'm persister" where
  "settle debounce P = (if at_rest P then P else settle debounce (alone debounce P))"
  by pat_completeness auto
termination
  by (relation "measure (\<lambda>(debounce, P). steps_left P)") (auto simp: alone_descends)

declare settle.simps [simp del]

lemma settle_at:
  "pe_point P = Waiting \<Longrightarrow> settle debounce P = P"
  "pe_point P = Ended \<Longrightarrow> settle debounce P = P"
  "pe_point P = AtHead \<Longrightarrow> settle debounce P = settle debounce (P\<lparr>pe_point := (if pe_running P then Armed else Ended)\<rparr>)"
  "pe_point P = Armed \<Longrightarrow> settle debounce P =
     settle debounce (if pe_permit P then P\<lparr>pe_permit := False, pe_point := Debouncing (pe_clock P + debounce)\<rparr>
       else P\<lparr>pe_point := Waiting\<rparr>)"
  "pe_point P = Debouncing d \<Longrightarrow> settle debounce P = settle debounce (P\<lparr>pe_clock := max (pe_clock P) d, pe_point := Persisting\<rparr>)"
  "pe_point P = Persisting \<Longrightarrow> settle debounce P = settle debounce (P\<lparr>pe_point := Exported (pe_groups P)\<rparr>)"
  "pe_point P = Exported m \<Longrightarrow> settle debounce P = settle debounce (P\<lparr>pe_stored := Some m, pe_point := AtHead\<rparr>)"
  by (simp_all add: settle.simps [of debounce P] persister_defs)

text \<open>C19. Left alone, the loop comes to rest: from any state whatever, with time passing only up to
  the deadline the task waits for, at most eleven of its steps lead to the wait for the next
  call or past the end of the loop.\<close>

theorem persister_comes_to_rest:
  "\<exists>n \<le> 11. at_rest ((alone debounce ^^ n) P) \<and> settle debounce P = (alone debounce ^^ n) P"
proof -
  have "\<exists>n \<le> steps_left P. at_rest ((alone debounce ^^ n) P) \<and> settle debounce P = (alone debounce ^^ n) P"
  proof (induction "steps_left P" arbitrary: P rule: less_induct)
    case less
    show ?case
    proof (cases "at_rest P")
      case True
      then show ?thesis by (intro exI [of _ 0]) (simp add: settle.simps [of debounce P])
    next
      case False
      note d = alone_descends [OF False, of debounce]
      from less [OF d] obtain n where n: "n \<le> steps_left (alone debounce P)" "at_rest ((alone debounce ^^ n) (alone debounce P))"
        "settle debounce (alone debounce P) = (alone debounce ^^ n) (alone debounce P)" by blast
      with d False show ?thesis
        by (intro exI [of _ "Suc n"]) (simp add: settle.simps [of debounce P] funpow_swap1)
    qed
  qed
  moreover have "steps_left P \<le> 11" by (simp add: steps_left_def split: task_point.split)
  ultimately show ?thesis by (meson le_trans)
qed

subsection \<open>Every scheduled state reaches the disk\<close>

text \<open>\<open>announced events\<close>: since the last change of the groups somebody has called \<open>schedule\<close>.\<close>

definition announced :: "'m persist_event list \<Rightarrow> bool" where
  "announced events =
     fold (\<lambda>e b. case e of GroupsChanged _ \<Rightarrow> False | ScheduleCalled \<Rightarrow> True | _ \<Rightarrow> b) events False"

definition covered :: "'m persister \<Rightarrow> bool" where
  "covered P \<longleftrightarrow> pe_permit P \<or>
     (case pe_point P of Debouncing _ \<Rightarrow> True | Persisting \<Rightarrow> True | Exported m \<Rightarrow> m = pe_groups P | _ \<Rightarrow> pe_stored P = Some (pe_groups P))"

definition task_ok :: "nat \<Rightarrow> 'm persister \<Rightarrow> bool" where
  "task_ok debounce P \<longleftrightarrow> pe_running P \<and> pe_point P \<noteq> Ended \<and>
     (case pe_point P of Waiting \<Rightarrow> \<not> pe_permit P | Debouncing d \<Rightarrow> \<not> pe_permit P \<and> d \<le> pe_clock P + debounce | _ \<Rightarrow> True)"

lemma task_ok_step: "task_ok debounce P \<Longrightarrow> e \<noteq> StopCalled \<Longrightarrow> task_ok debounce (persist_event_step debounce e P)"
  by (cases e; cases "pe_point P") (auto simp: task_ok_def persister_defs)

lemma covered_step:
  assumes "task_ok debounce P" and "e \<noteq> StopCalled" and "b \<longrightarrow> covered P"
  shows "(case e of GroupsChanged _ \<Rightarrow> False | ScheduleCalled \<Rightarrow> True | _ \<Rightarrow> b) \<longrightarrow> covered (persist_event_step debounce e P)"
  using assms by (cases e; cases "pe_point P") (auto simp: task_ok_def covered_def persister_defs)

lemma run_covered:
  assumes "StopCalled \<notin> set events" and "task_ok debounce P" and "b \<longrightarrow> covered P"
  shows "task_ok debounce (persister_run debounce events P) \<and>
    (fold (\<lambda>e b. case e of GroupsChanged _ \<Rightarrow> False | ScheduleCalled \<Rightarrow> True | _ \<Rightarrow> b) events b
       \<longrightarrow> covered (persister_run debounce events P))"
  using assms
proof (induction events arbitrary: P b)
  case (Cons e events)
  then have "task_ok debounce (persist_event_step debounce e P)" "StopCalled \<notin> set events" "e \<noteq> StopCalled"
    by (auto intro: task_ok_step)
  with Cons.IH [OF this(2,1) covered_step [OF Cons.prems(2) this(3) Cons.prems(3)]] show ?case
    by (simp add: persister_run_def)
qed (simp add: persister_run_def)

lemma settled_covered:
  assumes "task_ok debounce P" and "covered P"
  shows "pe_stored (settle debounce P) = Some (pe_groups P)" "pe_point (settle debounce P) = Waiting"
    "pe_clock (settle debounce P) \<le> pe_clock P + 2 * debounce"
proof -
  have "pe_stored (settle debounce P) = Some (pe_groups P) \<and> pe_point (settle debounce P) = Waiting \<and>
      pe_clock (settle debounce P) \<le> pe_clock P + 2 * debounce"
    using assms by (cases "pe_point P"; cases "pe_permit P") (auto simp: task_ok_def covered_def settle_at)
  then show "pe_stored (settle debounce P) = Some (pe_groups P)" "pe_point (settle debounce P) = Waiting"
    "pe_clock (settle debounce P) \<le> pe_clock P + 2 * debounce" by blast+
qed



subsection \<open>Stopping\<close>

text \<open>A stop drops what was scheduled during a write. When the groups change between the export
  and the write, and the change is scheduled, and then the task is stopped, the task writes
  the older snapshot and ends; the permit of the scheduled write is left behind. And a stop
  that falls between the test of the loop and its wait is not heard: the task waits for ever.\<close>

theorem stop_drops_scheduled:
  assumes "pe_point P = Exported old" and "new \<noteq> old" and "pe_point Q = Armed" and "\<not> pe_permit Q"
  shows "let P' = settle debounce (persister_run debounce [GroupsChanged new, ScheduleCalled, StopCalled] P);
        Q' = settle debounce (persister_run debounce [StopCalled] Q)
      in pe_point P' = Ended \<and> pe_stored P' = Some old \<and> pe_groups P' = new \<and> pe_permit P' \<and>
         pe_point Q' = Waiting \<and> \<not> pe_running Q'"
  using assms by (simp add: Let_def persister_run_def persister_defs settle_at)

theorem stop_drops_scheduled_witness:
  "let R = persister_run default_debounce_ms [ScheduleCalled, TaskRan, TaskRan, TimePassed 500, TaskRan, TaskRan] (with_debounce 0 (1 :: nat) None);
     P' = settle default_debounce_ms (persister_run default_debounce_ms [GroupsChanged 2, ScheduleCalled, StopCalled] R);
     Q' = settle default_debounce_ms (persister_run default_debounce_ms [StopCalled] (persister_run default_debounce_ms [TaskRan] (with_debounce 0 (1 :: nat) None)))
   in pe_point P' = Ended \<and> pe_stored P' = Some 1 \<and> pe_groups P' = 2 \<and> pe_permit P' \<and> pe_point Q' = Waiting \<and> \<not> pe_running Q'"
  unfolding Let_def
  by (rule stop_drops_scheduled [unfolded Let_def])
    (simp_all add: persister_run_def persister_defs with_debounce_def default_debounce_ms_def)

end
