(* ===== verification/Identity_Storage.thy ===== *)
theory Identity_Storage
  imports Identity_Cache Message_Store
begin

section \<open>Storage of DID documents (\<open>variance-identity/src/storage.rs\<close>)\<close>

text \<open>
  The trait \<open>IdentityStorage\<close> as a record of its four operations, the local implementation with
  its content tree and its names tree, and what a client of the trait relies on as a locale. An
  error of a read is \<open>Inl\<close>; the local storage's reads fail only where the stored text does not
  parse. SHA-256 is a parameter. The IPFS client is a service and not modelled.
\<close>

record ('s, 'd) identity_storage =
  is_store :: "'s \<Rightarrow> 'd \<Rightarrow> 's \<times> (identity_error + string)"
  is_fetch :: "'s \<Rightarrow> string \<Rightarrow> identity_error + 'd option"
  is_publish :: "'s \<Rightarrow> string \<Rightarrow> string \<Rightarrow> 's \<times> (identity_error + unit)"
  is_resolve :: "'s \<Rightarrow> string \<Rightarrow> identity_error + string option"

record 't local_storage =
  ls_content :: 't
  ls_names :: 't

definition generate_cid :: "(bytes \<Rightarrow> bytes) \<Rightarrow> ('t, 'sk, 'xs) cache_env \<Rightarrow> ('sk, 'xs) did_identity \<Rightarrow> string" where
  "generate_cid sha256 C d = ''local:'' @ hex_encode (sha256 (as_bytes (cn_js_encode C d)))"

definition local_store ::
  "(bytes \<Rightarrow> bytes) \<Rightarrow> ('t, 'sk, 'xs) cache_env \<Rightarrow> 't local_storage \<Rightarrow> ('sk, 'xs) did_identity
     \<Rightarrow> 't local_storage \<times> (identity_error + string)" where
  "local_store sha256 C S d =
     (let cid = generate_cid sha256 C d
      in (S\<lparr>ls_content := sl_insert (cn_sled C) (ls_content S) cid (as_bytes (cn_js_encode C d))\<rparr>, Inr cid))"

definition local_fetch ::
  "('t, 'sk, 'xs) cache_env \<Rightarrow> 't local_storage \<Rightarrow> string \<Rightarrow> identity_error + ('sk, 'xs) did_identity option" where
  "local_fetch C S cid =
     (case sl_get (cn_sled C) (ls_content S) cid of
        None \<Rightarrow> Inr None
      | Some data \<Rightarrow>
          (case cn_js_decode C (string_of_bytes data) of
             None \<Rightarrow> Inl EIdSerialization
           | Some d \<Rightarrow> Inr (Some d)))"

definition local_publish ::
  "('t, 'sk, 'xs) cache_env \<Rightarrow> 't local_storage \<Rightarrow> string \<Rightarrow> string \<Rightarrow> 't local_storage \<times> (identity_error + unit)" where
  "local_publish C S name content_id =
     (S\<lparr>ls_names := sl_insert (cn_sled C) (ls_names S) name (as_bytes content_id)\<rparr>, Inr ())"

definition local_resolve ::
  "('t, 'sk, 'xs) cache_env \<Rightarrow> 't local_storage \<Rightarrow> string \<Rightarrow> identity_error + string option" where
  "local_resolve C S name = Inr (map_option string_of_bytes (sl_get (cn_sled C) (ls_names S) name))"

definition local_identity_storage ::
  "(bytes \<Rightarrow> bytes) \<Rightarrow> ('t, 'sk, 'xs) cache_env \<Rightarrow> ('t local_storage, ('sk, 'xs) did_identity) identity_storage" where
  "local_identity_storage sha256 C =
     \<lparr>is_store = local_store sha256 C, is_fetch = local_fetch C, is_publish = local_publish C, is_resolve = local_resolve C\<rparr>"

subsection \<open>What clients do with it\<close>

text \<open>Storing a document and publishing its address under a name, as the node does at startup and
  after a registration; and the way back, from a name to a document.\<close>

definition publish_document :: "('s, 'd) identity_storage \<Rightarrow> string \<Rightarrow> 'd \<Rightarrow> 's \<Rightarrow> 's \<times> bool" where
  "publish_document B name d S =
     (case is_store B S d of
        (S, Inl _) \<Rightarrow> (S, False)
      | (S, Inr cid) \<Rightarrow> (case is_publish B S name cid of (S, Inl _) \<Rightarrow> (S, False) | (S, Inr _) \<Rightarrow> (S, True)))"

definition lookup_document :: "('s, 'd) identity_storage \<Rightarrow> string \<Rightarrow> 's \<Rightarrow> 'd option" where
  "lookup_document B name S =
     (case is_resolve B S name of
        Inr (Some cid) \<Rightarrow> (case is_fetch B S cid of Inr (Some d) \<Rightarrow> Some d | _ \<Rightarrow> None)
      | _ \<Rightarrow> None)"

locale document_storage =
  fixes B :: "('s, 'd) identity_storage"
    and ok :: "'s \<Rightarrow> bool"
    and shown :: "'d \<Rightarrow> 'd"
  assumes store: "ok S \<Longrightarrow> \<exists>S' cid. is_store B S d = (S', Inr cid) \<and> ok S' \<and> is_fetch B S' cid = Inr (Some (shown d))"
    and publish: "ok S \<Longrightarrow> \<exists>S'. is_publish B S n c = (S', Inr ()) \<and> ok S' \<and> is_fetch B S' = is_fetch B S \<and>
      is_resolve B S' = (is_resolve B S)(n := Inr (Some c))"
begin

lemma published:
  assumes "ok S"
  shows "\<exists>S'. publish_document B name d S = (S', True) \<and> ok S' \<and> lookup_document B name S' = Some (shown d)"
proof -
  obtain S1 cid where s: "is_store B S d = (S1, Inr cid)" "ok S1" "is_fetch B S1 cid = Inr (Some (shown d))"
    using store [OF assms] by blast
  obtain S2 where p: "is_publish B S1 name cid = (S2, Inr ())" "ok S2" "is_fetch B S2 = is_fetch B S1"
    "is_resolve B S2 = (is_resolve B S1)(name := Inr (Some cid))" using publish [OF s(2)] by blast
  then show ?thesis using s by (simp add: publish_document_def lookup_document_def)
qed

end

interpretation local_documents: document_storage "local_identity_storage sha256 C" "\<lambda>_. cache_env_ok C" without_secrets for sha256 C
proof (unfold_locales, goal_cases)
  case (1 S d)
  then show ?case
    by (simp add: local_identity_storage_def local_store_def local_fetch_def cache_env_ok_def Let_def sled_get_insert)
next
  case (2 S n c)
  then show ?case
    by (auto simp: local_identity_storage_def local_publish_def local_fetch_def local_resolve_def cache_env_ok_def
        sled_get_insert fun_eq_iff)
qed

end
