(* ===== verification/Identity_File.thy ===== *)
theory Identity_File
  imports Mls_Groups
begin

section \<open>The identity file (\<open>variance-app/src/identity_crypto.rs\<close>, \<open>state.rs\<close>)\<close>

text \<open>
  The identity of a user at rest: the JSON text of an \<open>IdentityFile\<close>, as it is or sealed with
  AES-256-GCM under a key that Argon2id derives from a passphrase. The file is \<open>bytes option\<close>,
  \<open>None\<close> when it is not there. The key derivation, the cipher and the JSON codec are
  parameters; the salt and the nonce of an encryption are arguments, as is the pickle of the
  account that a migration of an old file makes. Error texts are left out.
\<close>

record identity_file =
  idf_did :: did
  idf_signing_key :: string
  idf_verifying_key :: string
  idf_signaling_key :: string
  idf_olm_account_pickle :: string
  idf_username :: "string option"
  idf_discriminator :: "nat option"
  idf_created_at :: string
  idf_ipns_key :: "string option"

record file_env =
  fe_kdf :: "bytes \<Rightarrow> bytes \<Rightarrow> bytes option"
  fe_seal :: "bytes \<Rightarrow> bytes \<Rightarrow> bytes \<Rightarrow> bytes option"
  fe_open :: "bytes \<Rightarrow> bytes \<Rightarrow> bytes \<Rightarrow> bytes option"
  fe_json :: "identity_file codec"

text \<open>\<open>str::from_utf8\<close> accepts what consists of whole characters.\<close>

function utf8_valid :: "bytes \<Rightarrow> bool" where
  "utf8_valid [] = True"
| "utf8_valid (b # bs) = (let (valid, n) = utf8_chunk b bs in valid \<and> utf8_valid (drop (n - 1) bs))"
  by pat_completeness auto
termination
  by (relation "measure length") auto

subsection \<open>Encryption\<close>

definition identity_magic :: bytes where
  "identity_magic = as_bytes ''VEID''"

definition identity_version :: "8 word" where
  "identity_version = 1"

definition is_encrypted :: "bytes \<Rightarrow> bool" where
  "is_encrypted data = prefix identity_magic data"

definition identity_encrypt :: "file_env \<Rightarrow> bytes \<Rightarrow> bytes \<Rightarrow> bytes \<Rightarrow> string \<Rightarrow> bytes option" where
  "identity_encrypt F salt nonce plaintext passphrase =
     Option.bind (fe_kdf F (as_bytes passphrase) salt) (\<lambda>key.
     map_option (\<lambda>ciphertext. identity_magic @ [identity_version, word_of_nat (length salt)] @ salt @ nonce @ ciphertext)
       (fe_seal F key nonce plaintext))"

text \<open>\<open>data.get(from..to)\<close>\<close>

definition slice :: "nat \<Rightarrow> nat \<Rightarrow> bytes \<Rightarrow> bytes option" where
  "slice start len data = (if start + len \<le> length data then Some (take len (drop start data)) else None)"

definition identity_decrypt :: "file_env \<Rightarrow> bytes \<Rightarrow> string \<Rightarrow> bytes option" where
  "identity_decrypt F data passphrase =
     (if \<not> is_encrypted data then None
      else if length data \<le> 4 then None
      else if data ! 4 \<noteq> identity_version then None
      else if length data \<le> 5 then None
      else
       (let salt_len = unat (data ! 5)
        in Option.bind (slice 6 salt_len data) (\<lambda>salt.
           Option.bind (slice (6 + salt_len) 12 data) (\<lambda>nonce.
           if \<not> utf8_valid salt then None
           else Option.bind (fe_kdf F (as_bytes passphrase) salt) (\<lambda>key.
             Option.bind (fe_open F key nonce (drop (6 + salt_len + 12) data)) (\<lambda>plaintext.
             if utf8_valid plaintext then Some plaintext else None))))))"

subsection \<open>Loading and saving\<close>

text \<open>The random bytes of one write: the salt and the nonce.\<close>

definition save_identity ::
  "file_env \<Rightarrow> bytes \<times> bytes \<Rightarrow> identity_file \<Rightarrow> string option \<Rightarrow> bytes option \<Rightarrow> bytes option \<times> bool" where
  "save_identity F salt_nonce identity passphrase file =
     (let json = cd_encode (fe_json F) identity
      in case (case passphrase of
                 None \<Rightarrow> Some json
               | Some pp \<Rightarrow> identity_encrypt F (fst salt_nonce) (snd salt_nonce) json pp) of
           None \<Rightarrow> (file, False)
         | Some data \<Rightarrow> (Some data, True))"

definition read_identity :: "file_env \<Rightarrow> string option \<Rightarrow> bytes option \<Rightarrow> identity_file option" where
  "read_identity F passphrase file =
     Option.bind file (\<lambda>data.
     Option.bind
       (if is_encrypted data then Option.bind passphrase (identity_decrypt F data)
        else if utf8_valid data then Some data else None)
       (cd_decode (fe_json F)))"

definition load_identity ::
  "file_env \<Rightarrow> bytes \<times> bytes \<Rightarrow> string \<Rightarrow> string option \<Rightarrow> bytes option \<Rightarrow> bytes option \<times> identity_file option" where
  "load_identity F salt_nonce fresh_pickle passphrase file =
     (case read_identity F passphrase file of
        None \<Rightarrow> (file, None)
      | Some identity \<Rightarrow>
          if idf_olm_account_pickle identity \<noteq> [] then (file, Some identity)
          else
           (let identity = identity\<lparr>idf_olm_account_pickle := fresh_pickle\<rparr>
            in case save_identity F salt_nonce identity passphrase file of
                 (file, False) \<Rightarrow> (file, None)
               | (file, True) \<Rightarrow> (file, Some identity)))"

subsection \<open>The library's documented behaviour\<close>

text \<open>What a decryption with the same passphrase, salt and nonce needs: the key derivation does
  not fail, GCM opens what it sealed, and JSON is UTF-8 text that does not begin with the magic
  bytes and parses to the value it was written from.\<close>

definition file_env_ok :: "file_env \<Rightarrow> bool" where
  "file_env_ok F \<longleftrightarrow>
     (\<forall>pp salt. fe_kdf F pp salt \<noteq> None) \<and>
     (\<forall>k n p. \<exists>c. fe_seal F k n p = Some c \<and> fe_open F k n c = Some p) \<and>
     (\<forall>i. cd_decode (fe_json F) (cd_encode (fe_json F) i) = Some i \<and>
          utf8_valid (cd_encode (fe_json F) i) \<and> \<not> is_encrypted (cd_encode (fe_json F) i))"

text \<open>\<open>SaltString::generate\<close> is 22 characters of base64 (at most 64 are possible); the nonce has 12 bytes.\<close>

definition random_ok :: "bytes \<times> bytes \<Rightarrow> bool" where
  "random_ok sn \<longleftrightarrow> length (fst sn) < 256 \<and> list_all (\<lambda>b. unat b < 128) (fst sn) \<and> length (snd sn) = 12"

lemma utf8_valid_ascii: "list_all (\<lambda>b. unat b < 128) bs \<Longrightarrow> utf8_valid bs"
  by (induction bs) (simp_all add: utf8_chunk_def)

lemma file_env_okD:
  assumes "file_env_ok F"
  shows "cd_decode (fe_json F) (cd_encode (fe_json F) i) = Some i" "utf8_valid (cd_encode (fe_json F) i)"
    "\<not> is_encrypted (cd_encode (fe_json F) i)" "\<exists>key. fe_kdf F pp salt = Some key"
    "\<exists>c. fe_seal F k n p = Some c \<and> fe_open F k n c = Some p"
  using assms unfolding file_env_ok_def by auto

text \<open>The layout: what \<open>identity_encrypt\<close> wrote is cut at the same places again.\<close>

lemma identity_decrypt_layout:
  assumes "random_ok (salt, nonce)"
  shows "identity_decrypt F (identity_magic @ [identity_version, word_of_nat (length salt)] @ salt @ nonce @ c) pp =
    Option.bind (fe_kdf F (as_bytes pp) salt) (\<lambda>key.
      Option.bind (fe_open F key nonce c) (\<lambda>p. if utf8_valid p then Some p else None))"
proof -
  have m: "length identity_magic = 4" by (simp add: identity_magic_def as_bytes_def)
  have n: "unat (word_of_nat (length salt) :: 8 word) = length salt"
    using assms by (simp add: random_ok_def unsigned_of_nat take_bit_nat_eq_self)
  have s: "utf8_valid salt" "length nonce = 12" using assms by (simp_all add: random_ok_def utf8_valid_ascii)
  have d: "drop (14 + length salt) (a # b # salt @ nonce @ c) = c" for a b by (simp add: drop_Cons' s(2))
  show ?thesis
    unfolding identity_decrypt_def
    by (simp add: is_encrypted_def m n s d slice_def nth_append Let_def)
qed

lemma identity_decrypt_encrypt:
  assumes "file_env_ok F" and "random_ok sn" and "identity_encrypt F (fst sn) (snd sn) (cd_encode (fe_json F) i) pp = Some data"
  shows "is_encrypted data \<and> identity_decrypt F data pp = Some (cd_encode (fe_json F) i)"
proof -
  obtain key where key: "fe_kdf F (as_bytes pp) (fst sn) = Some key" using file_env_okD(4) [OF assms(1)] by blast
  obtain c where c: "fe_seal F key (snd sn) (cd_encode (fe_json F) i) = Some c"
    "fe_open F key (snd sn) c = Some (cd_encode (fe_json F) i)" using file_env_okD(5) [OF assms(1)] by blast
  have data: "data = identity_magic @ [identity_version, word_of_nat (length (fst sn))] @ fst sn @ snd sn @ c"
    using assms(3) by (simp add: identity_encrypt_def key c)
  have r: "random_ok (fst sn, snd sn)" using assms(2) by simp
  show ?thesis
    unfolding data identity_decrypt_layout [OF r] by (simp add: key c file_env_okD(2) [OF assms(1)] is_encrypted_def)
qed

text \<open>A file is read back with the passphrase it was saved with.\<close>

lemma read_saved:
  assumes "file_env_ok F" and "random_ok sn"
  shows "read_identity F pp (fst (save_identity F sn i pp file)) = Some i \<and> snd (save_identity F sn i pp file)"
proof (cases pp)
  case None
  then show ?thesis by (simp add: save_identity_def read_identity_def file_env_okD [OF assms(1)])
next
  case (Some p)
  obtain key where key: "fe_kdf F (as_bytes p) (fst sn) = Some key" using file_env_okD(4) [OF assms(1)] by blast
  obtain c where c: "fe_seal F key (snd sn) (cd_encode (fe_json F) i) = Some c" using file_env_okD(5) [OF assms(1)] by blast
  obtain data where d: "identity_encrypt F (fst sn) (snd sn) (cd_encode (fe_json F) i) p = Some data"
    by (simp add: identity_encrypt_def key c)
  show ?thesis
    using identity_decrypt_encrypt [OF assms d]
    by (simp add: Some save_identity_def read_identity_def d file_env_okD(1) [OF assms(1)])
qed

subsection \<open>A sample library and file\<close>

instance identity_file_ext :: (countable) countable
  by (rule countable_classI [of "\<lambda>r. to_nat (idf_did r, idf_signing_key r, idf_verifying_key r, idf_signaling_key r,
        idf_olm_account_pickle r, idf_username r, idf_discriminator r, idf_created_at r, idf_ipns_key r, identity_file.more r)"]) simp

definition plain_files :: file_env where
  "plain_files = \<lparr>fe_kdf = (\<lambda>pp _. Some pp), fe_seal = (\<lambda>_ _ p. Some p), fe_open = (\<lambda>_ _ c. Some c), fe_json = unary_codec\<rparr>"

definition alice_identity :: identity_file where
  "alice_identity =
     \<lparr>idf_did = ''did:v:alice'', idf_signing_key = hex_encode (replicate 32 0), idf_verifying_key = [],
      idf_signaling_key = hex_encode (replicate 32 0), idf_olm_account_pickle = ''pickle'', idf_username = None,
      idf_discriminator = None, idf_created_at = [], idf_ipns_key = None\<rparr>"

definition alice_file :: "bytes option" where
  "alice_file = fst (save_identity plain_files ([], []) alice_identity None None)"

lemma plain_files_ok: "file_env_ok plain_files"
proof -
  have u: "utf8_valid (replicate n 0)" for n by (rule utf8_valid_ascii) (simp add: list_all_iff)
  have e: "\<not> is_encrypted (replicate n 0)" for n
    by (cases n) (simp_all add: is_encrypted_def identity_magic_def as_bytes_def)
  show ?thesis
    by (simp add: file_env_ok_def plain_files_def u e unary_codec_ok [unfolded codec_ok_def]) (simp add: unary_codec_def u e)
qed

lemma alice_loads: "load_identity plain_files sn p None alice_file = (alice_file, Some alice_identity)"
proof -
  have "read_identity plain_files None alice_file = Some alice_identity"
    by (simp add: alice_file_def save_identity_def read_identity_def file_env_okD [OF plain_files_ok])
  then show ?thesis by (simp add: load_identity_def alice_identity_def)
qed

end
