(* ===== verification/Api_Identity.thy ===== *)
theory Api_Identity
  imports Api_Helpers Identity_Storage Identity_File
begin

section \<open>Identity handlers (\<open>variance-app/src/api/identity.rs\<close>)\<close>

text \<open>
  The handlers of \<open>/identity\<close> and \<open>/usernames\<close>. Beside the application's state they work on the
  identity cache, the storage of documents and the identity file. The file's two random pairs,
  the pickle of a migration and the discriminators that are tried are arguments.
\<close>

record identity_status =
  st_did :: did
  st_olm_identity_key :: string
  st_one_time_keys :: "string list"
  st_username :: "string option"
  st_discriminator :: "nat option"
  st_display_name :: "string option"

definition get_identity ::
  "('acc, 'sess, 't, 'r, 'g, 'm, 'kp, 'q) app_env \<Rightarrow> ('acc, 'sess, 't, 'r, 'g) app \<Rightarrow> identity_status" where
  "get_identity E A =
     (let name = get_username (ap_usernames A) (ap_local_did A)
      in \<lparr>st_did = ap_local_did A, st_olm_identity_key = hex_encode (dh_identity_key (ap_direct A)),
          st_one_time_keys = map (\<lambda>(_, k). hex_encode k) (one_time_keys (ae_direct E) (ap_direct A)),
          st_username = map_option fst name, st_discriminator = map_option snd name,
          st_display_name = map_option (\<lambda>(n, d). format_username n d) name\<rparr>)"

subsection \<open>Resolution by DID\<close>

definition ipns_key_name :: "did \<Rightarrow> string" where
  "ipns_key_name did = ''variance-'' @ take 16 (hex_encode (as_bytes did))"

datatype identity_reply = OwnIdentity | FromStorage "string option" | Unresolved

definition resolve_identity ::
  "('t, 'sk, 'xs) cache_env \<Rightarrow> ('s, ('sk, 'xs) did_identity) identity_storage \<Rightarrow> nat \<Rightarrow> nat \<Rightarrow> did \<Rightarrow> 's \<Rightarrow> did
     \<Rightarrow> ('t, 'sk, 'xs) layered_cache \<Rightarrow> ('t, 'sk, 'xs) layered_cache \<times> identity_reply" where
  "resolve_identity C B now now_secs local_did S did cache =
     (if did = local_did then (cache, OwnIdentity)
      else case lookup_document B (ipns_key_name did) S of
          Some did_doc \<Rightarrow>
            (fst (cache_insert C cache now now_secs did did_doc), FromStorage (dd_display_name (di_document did_doc)))
        | None \<Rightarrow> (cache, Unresolved))"

subsection \<open>Registration\<close>

definition persist_username ::
  "file_env \<Rightarrow> (nat \<Rightarrow> bytes \<times> bytes) \<Rightarrow> string \<Rightarrow> string option \<Rightarrow> string \<Rightarrow> nat \<Rightarrow> bytes option \<Rightarrow> bytes option" where
  "persist_username F rnd fresh_pickle passphrase username discriminator file =
     (case load_identity F (rnd 0) fresh_pickle passphrase file of
        (file, None) \<Rightarrow> file
      | (file, Some identity) \<Rightarrow>
          fst (save_identity F (rnd 1) (identity\<lparr>idf_username := Some username, idf_discriminator := Some discriminator\<rparr>)
            passphrase file))"

definition named_document :: "did \<Rightarrow> int \<Rightarrow> string option \<Rightarrow> ('sk, 'xs) did_identity" where
  "named_document did now display_name =
     \<lparr>di_id = did,
      di_document = \<lparr>dd_id = did, dd_authentication = [], dd_key_agreement = [], dd_service = [], dd_created_at = now,
        dd_updated_at = now, dd_display_name = display_name, dd_avatar_cid = None, dd_bio = None\<rparr>,
      di_signing_key = None, di_x25519_secret = None, di_document_signature = None\<rparr>"

definition register_username ::
  "('acc, 'sess, 't, 'r, 'g, 'm, 'kp, 'q) app_env \<Rightarrow> file_env \<Rightarrow> ('s, ('sk, 'xs) did_identity) identity_storage
     \<Rightarrow> (nat \<Rightarrow> bytes \<times> bytes) \<Rightarrow> string \<Rightarrow> string option \<Rightarrow> bytes \<Rightarrow> nat list \<Rightarrow> int \<Rightarrow> string
     \<Rightarrow> ('acc, 'sess, 't, 'r, 'g) app \<times> 's \<times> bytes option
     \<Rightarrow> (('acc, 'sess, 't, 'r, 'g) app \<times> 's \<times> bytes option) \<times> (api_error + string \<times> nat)" where
  "register_username E F B rnd fresh_pickle passphrase signing_key discs now username st =
     (let (A, S, file) = st in
      case validate_username (ae_unicode E) username of
        Inl _ \<Rightarrow> (st, Inl ApiBadRequest)
      | Inr _ \<Rightarrow>
          (case register_local (ae_unicode E) (ap_usernames A) discs username (ap_local_did A) of
             (names, Inl _) \<Rightarrow> ((A\<lparr>ap_usernames := names\<rparr>, S, file), Inl ApiApp)
           | (names, Inr (display_name, discriminator)) \<Rightarrow>
               (let A = A\<lparr>ap_usernames := names\<rparr>;
                    file = persist_username F rnd fresh_pickle passphrase username discriminator file;
                    c = CallProvideUsername username;
                    A = ask c A
                in if ae_answer E c \<noteq> None then ((A, S, file), Inl ApiApp)
                else
                 (let A = ask (CallSetUsername username discriminator) A;
                      A = ask (CallBroadcastUsername (ap_local_did A) username discriminator signing_key) A;
                      S = fst (publish_document B (ipns_key_name (ap_local_did A))
                        (named_document (ap_local_did A) now (Some display_name)) S)
                  in ((A, S, file), Inr (display_name, discriminator))))))"

definition change_passphrase ::
  "file_env \<Rightarrow> (nat \<Rightarrow> bytes \<times> bytes) \<Rightarrow> string \<Rightarrow> string option \<Rightarrow> string option \<Rightarrow> string option \<Rightarrow> bytes option
     \<Rightarrow> bytes option \<times> (api_error + unit)" where
  "change_passphrase F rnd fresh_pickle startup_passphrase current_passphrase new_passphrase file =
     (if current_passphrase \<noteq> startup_passphrase then (file, Inl ApiBadRequest)
      else case load_identity F (rnd 0) fresh_pickle startup_passphrase file of
          (file, None) \<Rightarrow> (file, Inl ApiApp)
        | (file, Some identity) \<Rightarrow>
            (case save_identity F (rnd 1) identity new_passphrase file of
               (file, False) \<Rightarrow> (file, Inl ApiApp)
             | (file, True) \<Rightarrow> (file, Inr ())))"

subsection \<open>Resolution by name\<close>

datatype username_reply = OneMatch did string nat | Matches "(did \<times> string \<times> nat) list"

fun ask_providers ::
  "('acc, 'sess, 't, 'r, 'g, 'm, 'kp, 'q) app_env \<Rightarrow> network \<Rightarrow> int \<Rightarrow> string \<Rightarrow> nat option \<Rightarrow> string list
     \<Rightarrow> ('acc, 'sess, 't, 'r, 'g) app \<Rightarrow> ('acc, 'sess, 't, 'r, 'g) app \<times> (api_error + username_reply)" where
  "ask_providers E N now base_name requested_disc [] A = (A, Inl ApiNotFound)"
| "ask_providers E N now base_name requested_disc (peer_id # providers) A =
     (case map_sum id ir_result (nw_identity N peer_id (create_peer_id_request now peer_id (Some (ap_local_did A)))) of
        Inr (Some (Found found)) \<Rightarrow>
          (case if_did_document found of
             Some doc \<Rightarrow>
               (let disc = (case if_discriminator found of Some d \<Rightarrow> d | None \<Rightarrow> 1);
                    A = A\<lparr>ap_usernames := fst (register_with_discriminator (ae_unicode E) (ap_usernames A) base_name disc (dd_id doc))\<rparr>
                in if (case requested_disc of Some req_disc \<Rightarrow> disc \<noteq> req_disc | None \<Rightarrow> False)
                   then ask_providers E N now base_name requested_disc providers A
                   else (A, Inr (OneMatch (dd_id doc) base_name disc)))
           | None \<Rightarrow> ask_providers E N now base_name requested_disc providers A)
      | _ \<Rightarrow> ask_providers E N now base_name requested_disc providers A)"

definition api_resolve_username ::
  "('acc, 'sess, 't, 'r, 'g, 'm, 'kp, 'q) app_env \<Rightarrow> network \<Rightarrow> int \<Rightarrow> string \<Rightarrow> ('acc, 'sess, 't, 'r, 'g) app
     \<Rightarrow> ('acc, 'sess, 't, 'r, 'g) app \<times> (api_error + username_reply)" where
  "api_resolve_username E N now username A =
     (let (base_name, requested_disc) =
            (case parse_username username of Some (name, disc) \<Rightarrow> (name, Some disc) | None \<Rightarrow> (username, None));
          known = (case requested_disc of
              Some disc \<Rightarrow> map_option (\<lambda>did. OneMatch did base_name disc)
                (lookup_exact (ae_unicode E) (ap_usernames A) base_name disc)
            | None \<Rightarrow> (case lookup_all (ae_unicode E) (ap_usernames A) base_name of
                  [] \<Rightarrow> None
                | [(disc, did)] \<Rightarrow> Some (OneMatch did base_name disc)
                | ms \<Rightarrow> Some (Matches (map (\<lambda>(disc, did). (did, base_name, disc)) ms))))
      in case known of
           Some r \<Rightarrow> (A, Inr r)
         | None \<Rightarrow>
             (case nw_providers N base_name of
                Inl _ \<Rightarrow> (A, Inl ApiApp)
              | Inr [] \<Rightarrow> (A, Inl ApiNotFound)
              | Inr providers \<Rightarrow> ask_providers E N now base_name requested_disc providers A))"

end
