(* ===== verification/Startup.thy ===== *)
theory Startup
  imports Api_Identity Offline_Store
begin

section \<open>Starting a node, and its periodic tasks (\<open>variance-app/src/node.rs\<close>, \<open>state.rs\<close>)\<close>

text \<open>
  How the application's state comes out of the identity file and the message storage, what the
  start of a node does to both, and the ticks of the tasks it leaves running. The libp2p node,
  the configuration and the HTTP server are not part of it. \<open>unpickle\<close> is vodozemac's
  \<open>Account::from_pickle\<close> on the JSON text, \<open>None\<close> where that does not parse; \<open>public\<close> is the
  Ed25519 verifying key, and \<open>announced\<close> the signed document that the peer id and the signing
  key make, in its public part.
\<close>

record ('acc, 'r) boot_env =
  bo_unpickle :: "string \<Rightarrow> 'acc option"
  bo_rng :: 'r
  bo_sha256 :: "bytes \<Rightarrow> bytes"
  bo_public :: "bytes \<Rightarrow> bytes"
  bo_announced :: "did \<Rightarrow> bytes \<Rightarrow> (did_document \<times> bytes option) option"

subsection \<open>The state from an identity\<close>

definition secret_key :: "string \<Rightarrow> bytes option" where
  "secret_key hex = Option.bind (hex_decode hex) (\<lambda>k. if length k = 32 then Some k else None)"

definition seed_username :: "unicode \<Rightarrow> identity_file \<Rightarrow> username_registry option" where
  "seed_username U identity =
     (case (idf_username identity, idf_discriminator identity) of
        (Some username, Some discriminator) \<Rightarrow>
          (case register_with_discriminator U registry_new username discriminator (idf_did identity) of
             (_, Inl _) \<Rightarrow> None
           | (names, Inr _) \<Rightarrow> Some names)
      | _ \<Rightarrow> Some registry_new)"

definition newest_pickle :: "'t store_env \<Rightarrow> 't message_db \<Rightarrow> identity_file \<Rightarrow> string" where
  "newest_pickle S db identity =
     (case load_olm_pickle_sync S db (idf_did identity) of
        Some pickle \<Rightarrow> pickle
      | None \<Rightarrow> idf_olm_account_pickle identity)"

definition from_identity ::
  "('acc, 'sess, 't, 'r, 'g, 'm, 'kp, 'q) app_env \<Rightarrow> ('acc, 'r) boot_env \<Rightarrow> identity_file \<Rightarrow> 't message_db
     \<Rightarrow> (('acc, 'sess, 't, 'r, 'g) app \<times> bytes) option" where
  "from_identity E Y identity db =
     Option.bind (secret_key (idf_signing_key identity)) (\<lambda>signing_key.
     Option.bind (secret_key (idf_signaling_key identity)) (\<lambda>signaling_key.
     Option.bind (bo_unpickle Y (newest_pickle (app_store E) db identity)) (\<lambda>account.
     Option.bind (seed_username (ae_unicode E) identity) (\<lambda>names.
     (case mls_new (ae_mls E) (bo_rng Y) (idf_did identity) signing_key of
        Inl _ \<Rightarrow> None
      | Inr mls \<Rightarrow>
          Some (\<lparr>ap_direct = direct_handler_new (ae_direct E) (idf_did identity) signing_key account db,
                 ap_mls = mls, ap_local_did = idf_did identity, ap_usernames = names, ap_ws = [], ap_calls = [],
                 ap_persist = False\<rparr>, signing_key))))))"

definition seed_peer_names ::
  "('acc, 'sess, 't, 'r, 'g, 'm, 'kp, 'q) app_env \<Rightarrow> ('acc, 'sess, 't, 'r, 'g) app \<Rightarrow> ('acc, 'sess, 't, 'r, 'g) app" where
  "seed_peer_names E A =
     A\<lparr>ap_usernames := fold (\<lambda>(did, username, discriminator) names. cache_mapping (ae_unicode E) names username discriminator did)
         (load_all_peer_names (app_store E) (app_db A)) (ap_usernames A)\<rparr>"

subsection \<open>Restoring the cryptographic state\<close>

definition renew_account ::
  "('acc, 'sess, 't, 'r, 'g, 'm, 'kp, 'q) app_env \<Rightarrow> ('acc, 'sess, 't, 'r, 'g) app
     \<Rightarrow> ('acc, 'sess, 't, 'r, 'g) app \<times> bytes list \<times> string" where
  "renew_account E A =
     (let H = generate_one_time_keys (ae_direct E) (ap_direct A) 50;
          H = fst (generate_fallback_key (ae_direct E) H);
          otks = map snd (one_time_keys (ae_direct E) H);
          H = mark_one_time_keys_as_published (ae_direct E) H;
          pickle = account_pickle (ae_direct E) H;
          A = A\<lparr>ap_direct := H\<rparr>
      in (with_db (store_olm_pickle (app_store E) (app_db A) (ap_local_did A) pickle) A, otks, pickle))"

definition restore_groups ::
  "('acc, 'sess, 't, 'r, 'g, 'm, 'kp, 'q) app_env \<Rightarrow> ('acc, 'sess, 't, 'r, 'g) app \<Rightarrow> ('acc, 'sess, 't, 'r, 'g) app" where
  "restore_groups E A =
     (case fetch_mls_state (app_store E) (app_db A) (ap_local_did A) of
        None \<Rightarrow> A
      | Some state_bytes \<Rightarrow> fst (on_mls (\<lambda>H. restore_in_place (ae_mls E) H state_bytes) A))"

definition restore_crypto_state ::
  "('acc, 'sess, 't, 'r, 'g, 'm, 'kp, 'q) app_env \<Rightarrow> ('acc, 'sess, 't, 'r, 'g) app \<times> identity_file
     \<Rightarrow> ('acc, 'sess, 't, 'r, 'g) app \<times> identity_file \<times> bytes list" where
  "restore_crypto_state E AI =
     (let (A, identity) = AI;
          (A, otks, pickle) = renew_account E A;
          identity = identity\<lparr>idf_olm_account_pickle := pickle\<rparr>;
          A = A\<lparr>ap_direct := restore_sessions (ae_direct E) (ap_direct A)\<rparr>;
          A = restore_groups E A;
          A = fold (\<lambda>group_id. ask (CallSubscribe (group_topic group_id))) (group_ids (ap_mls A)) A
      in (A, identity, otks))"

subsection \<open>Announcing the node\<close>

definition generate_mls_key_package ::
  "('acc, 'sess, 't, 'r, 'g, 'm, 'kp, 'q) app_env \<Rightarrow> ('acc, 'sess, 't, 'r, 'g) app
     \<Rightarrow> ('acc, 'sess, 't, 'r, 'g) app \<times> bytes option" where
  "generate_mls_key_package E A =
     (case on_mls (generate_key_package (ae_mls E)) A of
        (A, Inl _) \<Rightarrow> (A, None)
      | (A, Inr kp) \<Rightarrow> (case serialize_message_bytes (ae_mls E) kp of Inl _ \<Rightarrow> (A, None) | Inr kp_bytes \<Rightarrow> (A, Some kp_bytes)))"

definition register_with_network ::
  "('acc, 'sess, 't, 'r, 'g, 'm, 'kp, 'q) app_env \<Rightarrow> ('acc, 'r) boot_env \<Rightarrow> bytes \<Rightarrow> bytes list \<Rightarrow> ('acc, 'sess, 't, 'r, 'g) app
     \<Rightarrow> ('acc, 'sess, 't, 'r, 'g) app" where
  "register_with_network E Y signing_key otks A =
     (let (A, mls_key_package) = generate_mls_key_package E A;
          A = (if mls_key_package \<noteq> None
            then with_db (store_mls_state (app_store E) (app_db A) (ap_local_did A) (export_state (ae_mls E) (ap_mls A))) A
            else A);
          A = ask (CallSetIdentity (ap_local_did A) (dh_identity_key (ap_direct A)) otks mls_key_package
            (mailbox_token (bo_sha256 Y) (bo_public Y signing_key)) (bo_announced Y (ap_local_did A) signing_key)) A
      in case get_username (ap_usernames A) (ap_local_did A) of
           None \<Rightarrow> A
         | Some (username, disc) \<Rightarrow> ask (CallProvideUsername username) (ask (CallSetUsername username disc) A))"

definition publish_local_identity ::
  "('s, ('sk, 'xs) did_identity) identity_storage \<Rightarrow> int \<Rightarrow> ('acc, 'sess, 't, 'r, 'g) app \<Rightarrow> 's \<times> identity_file
     \<Rightarrow> 's \<times> identity_file" where
  "publish_local_identity B now A SI =
     (let (S, identity) = SI;
          display_name = map_option (\<lambda>(name, disc). format_username name disc) (get_username (ap_usernames A) (ap_local_did A));
          key_name = ipns_key_name (ap_local_did A)
      in case publish_document B key_name (named_document (ap_local_did A) now display_name) S of
           (S, False) \<Rightarrow> (S, identity)
         | (S, True) \<Rightarrow> (S, identity\<lparr>idf_ipns_key := Some key_name\<rparr>))"

subsection \<open>The start of a node\<close>

definition start_node ::
  "('acc, 'sess, 't, 'r, 'g, 'm, 'kp, 'q) app_env \<Rightarrow> ('acc, 'r) boot_env \<Rightarrow> file_env \<Rightarrow> ('s, ('sk, 'xs) did_identity) identity_storage
     \<Rightarrow> (nat \<Rightarrow> bytes \<times> bytes) \<Rightarrow> string \<Rightarrow> int \<Rightarrow> string option \<Rightarrow> bytes option \<times> 't message_db \<times> 's
     \<Rightarrow> (bytes option \<times> 's) \<times> ('acc, 'sess, 't, 'r, 'g) app option" where
  "start_node E Y F B rnd fresh_pickle now passphrase disk =
     (let (file, db, S) = disk in
      case load_identity F (rnd 0) fresh_pickle passphrase file of
        (file, None) \<Rightarrow> ((file, S), None)
      | (file, Some identity) \<Rightarrow>
          (case from_identity E Y identity db of
             None \<Rightarrow> ((file, S), None)
           | Some (A, signing_key) \<Rightarrow>
               (let (A, identity, otks) = restore_crypto_state E (seed_peer_names E A, identity);
                    A = register_with_network E Y signing_key otks A;
                    (S, identity) = publish_local_identity B now A (S, identity);
                    file = fst (save_identity F (rnd 1) identity passphrase file)
                in ((file, S), Some A))))"

subsection \<open>Periodic tasks\<close>

text \<open>The hourly maintenance; \<open>max_age\<close> is the configured number of days in milliseconds.\<close>

definition maintenance_tick ::
  "('acc, 'sess, 't, 'r, 'g, 'm, 'kp, 'q) app_env \<Rightarrow> ('ct, 'sk, 'xs) cache_env \<Rightarrow> nat \<Rightarrow> (nat \<Rightarrow> int) \<Rightarrow> nat \<Rightarrow> nat
     \<Rightarrow> ('acc, 'sess, 't, 'r, 'g) app \<times> ('ct, 'sk, 'xs) layered_cache \<Rightarrow> ('acc, 'sess, 't, 'r, 'g) app \<times> ('ct, 'sk, 'xs) layered_cache" where
  "maintenance_tick E C max_age now mono_now now_secs AC =
     (let (A, cache) = AC;
          A = with_db (fst (offline_cleanup_expired (app_store E) (app_db A) (now 0))) A;
          A = (if max_age > 0
            then (let A = with_db (fst (cleanup_old_group_messages (app_store E) (app_db A) (now 1) max_age)) A
                  in with_db (fst (cleanup_old_direct_messages (app_store E) (app_db A) (now 2) max_age)) A)
            else A)
      in (A, cache_evict_expired C cache mono_now now_secs))"

definition fallback_rotation_tick ::
  "('acc, 'sess, 't, 'r, 'g, 'm, 'kp, 'q) app_env \<Rightarrow> ('acc, 'sess, 't, 'r, 'g) app \<Rightarrow> ('acc, 'sess, 't, 'r, 'g) app" where
  "fallback_rotation_tick E A =
     (let H = forget_previous_fallback_key (ae_direct E) (ap_direct A);
          H = fst (generate_fallback_key (ae_direct E) H);
          H = mark_one_time_keys_as_published (ae_direct E) H;
          A = A\<lparr>ap_direct := H\<rparr>
      in with_db (store_olm_pickle (app_store E) (app_db A) (ap_local_did A) (account_pickle (ae_direct E) H)) A)"

text \<open>The rotation of the leaf keys, every six hours, group by group. The counters of failures
  serve only to choose the level of the log.\<close>

definition update_one_group ::
  "('acc, 'sess, 't, 'r, 'g, 'm, 'kp, 'q) app_env \<Rightarrow> (nat \<Rightarrow> string) \<Rightarrow> (nat \<Rightarrow> int) \<Rightarrow> nat \<times> string
     \<Rightarrow> ('acc, 'sess, 't, 'r, 'g) app \<Rightarrow> ('acc, 'sess, 't, 'r, 'g) app" where
  "update_one_group E ulid now ig A =
     (let (i, group_id) = ig in
      case on_mls (\<lambda>H. self_update (ae_mls E) H group_id) A of
        (A, Inl _) \<Rightarrow> A
      | (A, Inr commit) \<Rightarrow>
          (case serialize_message (ae_mls E) commit of
             Inl _ \<Rightarrow> A
           | Inr commit_bytes \<Rightarrow>
               ask (CallPublish (group_topic group_id)
                 \<lparr>gm_id = ulid i, gm_sender_did = ap_local_did A, gm_group_id = group_id, gm_timestamp = now i,
                  gm_type = 0, gm_reply_to = None, gm_mls_ciphertext = commit_bytes\<rparr>) A))"

definition self_update_tick ::
  "('acc, 'sess, 't, 'r, 'g, 'm, 'kp, 'q) app_env \<Rightarrow> (nat \<Rightarrow> string) \<Rightarrow> (nat \<Rightarrow> int) \<Rightarrow> ('acc, 'sess, 't, 'r, 'g) app
     \<Rightarrow> ('acc, 'sess, 't, 'r, 'g) app" where
  "self_update_tick E ulid now A =
     (let ids = group_ids (ap_mls A)
      in if ids = [] then A
         else schedule_mls_persist (fold (update_one_group E ulid now) (enumerate 0 ids) A))"

end
