(* ===== verification/Startup_Recovery.thy ===== *)
theory Startup_Recovery
  imports Startup Mls_Durability Mls_Recovery
begin

section \<open>What a restart brings back\<close>

text \<open>
  The start of a node on the disk that a running node left: its groups and sessions when the
  stored snapshot is the current one, and what happens to a snapshot that cannot be read.
\<close>

subsection \<open>The pieces of the start\<close>

lemma from_identity_fresh:
  assumes "from_identity E Y identity db = Some (A, key)"
  shows "app_db A = db" "ap_local_did A = idf_did identity" "mg_groups (ap_mls A) = []" "ap_persist A = False"
    "dh_sessions (ap_direct A) = Map.empty"
  using assms
  by (auto simp: from_identity_def app_db_def direct_handler_new_def mls_new_def Let_def bind_eq_Some_conv
      split: sum.splits prod.splits)

lemma seed_fields [simp]:
  "app_db (seed_peer_names E A) = app_db A" "ap_local_did (seed_peer_names E A) = ap_local_did A"
  "ap_mls (seed_peer_names E A) = ap_mls A" "ap_direct (seed_peer_names E A) = ap_direct A"
  by (simp_all add: seed_peer_names_def app_db_def)

lemma renew_fields:
  assumes "renew_account E A = (B, otks, pickle)"
  shows "ap_mls B = ap_mls A" "ap_local_did B = ap_local_did A" "dh_sessions (ap_direct B) = dh_sessions (ap_direct A)"
    "db_mls_state (app_db B) = db_mls_state (app_db A)" "db_session_pickles (app_db B) = db_session_pickles (app_db A)"
  using assms
  by (auto simp: renew_account_def Let_def with_db_def app_db_def store_olm_pickle_def generate_one_time_keys_def
      generate_fallback_key_def mark_one_time_keys_as_published_def split: prod.splits)

lemma ask_all: "fold (\<lambda>g. ask (CallSubscribe (t g))) gs A = A\<lparr>ap_calls := ap_calls A @ map (\<lambda>g. CallSubscribe (t g)) gs\<rparr>"
  by (induction gs arbitrary: A) (simp_all add: ask_def)


lemma map_of_dom: "map_of xs = map_of ys \<Longrightarrow> fst ` set xs = fst ` set ys"
  by (metis dom_map_of_conv_image_fst)

lemma restored_state:
  assumes E: "app_ok E" "storage_ok (mv_lib (ae_mls E))" "codec_ok (mv_snapshot (ae_mls E))"
    and A: "sessions_saved (ae_direct E) (ap_direct A)" "persisted (ae_mls E) (ap_mls A)" "snapshot_current E A"
    and B: "app_db B = app_db A" "ap_local_did B = ap_local_did A" "mg_groups (ap_mls B) = []" "dh_sessions (ap_direct B) = Map.empty"
    and r: "restore_crypto_state E (B, identity) = (C, identity', otks)"
  shows "dh_sessions (ap_direct C) = dh_sessions (ap_direct A)" and "map_of (mg_groups (ap_mls C)) = map_of (mg_groups (ap_mls A))"
    and "\<forall>g \<in> fst ` set (mg_groups (ap_mls A)). CallSubscribe (group_topic g) \<in> set (ap_calls C)"
    and "ap_local_did C = ap_local_did A"
proof -
  obtain B1 keys pickle where b: "renew_account E B = (B1, keys, pickle)" by (metis prod_cases3)
  note f = renew_fields [OF b]
  let ?H = "restore_sessions (ae_direct E) (ap_direct B1)"
  let ?B2 = "B1\<lparr>ap_direct := ?H\<rparr>"
  have h: "dh_storage ?H = dh_storage (ap_direct B1)" by (simp add: restore_sessions_def)
  obtain R where R: "restore_in_place (ae_mls E) (ap_mls B) (export_state (ae_mls E) (ap_mls A)) = (R, Inr (length (mg_groups (ap_mls A))))"
      "map_of (mg_groups R) = map_of (mg_groups (ap_mls A))"
    using restore_persisted [OF E(2,3) A(2) B(3)] by blast
  have m: "fetch_mls_state (app_store E) (app_db ?B2) (ap_local_did ?B2) = Some (export_state (ae_mls E) (ap_mls A))"
    using A(3) f(4) B h f(2) by (simp add: snapshot_current_def fetch_mls_state_def app_db_def)
  have g: "restore_groups E ?B2 = ?B2\<lparr>ap_mls := R\<rparr>"
    unfolding restore_groups_def m using R(1) f(1) by (simp add: on_mls_eq)
  have C: "C = ?B2\<lparr>ap_mls := R, ap_calls := ap_calls B1 @ map (\<lambda>g. CallSubscribe (group_topic g)) (group_ids R)\<rparr>"
    using r by (simp add: restore_crypto_state_def b g ask_all)
  show "map_of (mg_groups (ap_mls C)) = map_of (mg_groups (ap_mls A))" using R(2) by (simp add: C)
  show "ap_local_did C = ap_local_did A" using f(2) B(2) by (simp add: C)
  show "\<forall>g \<in> fst ` set (mg_groups (ap_mls A)). CallSubscribe (group_topic g) \<in> set (ap_calls C)"
  proof
    fix g assume "g \<in> fst ` set (mg_groups (ap_mls A))"
    then have "g \<in> set (group_ids R)" by (simp add: group_ids_def map_of_dom [OF R(2)])
    then show "CallSubscribe (group_topic g) \<in> set (ap_calls C)" by (simp add: C)
  qed
  have "fetch_session_pickle (de_store (ae_direct E)) (dh_storage (ap_direct B1)) p
      = map_option (ol_pickle (de_olm (ae_direct E))) (dh_sessions (ap_direct A) p)" for p
    using A(1) f(5) B(1) by (simp add: sessions_saved_def saved_at_def fetch_session_pickle_def app_db_def)
  then have "dh_sessions ?H = dh_sessions (ap_direct A)"
    using olm_okD(1) [of "de_olm (ae_direct E)"] E(1) f(3) B(4)
    by (intro ext) (simp add: restore_eq split: option.split)
  then show "dh_sessions (ap_direct C) = dh_sessions (ap_direct A)" by (simp add: C)
qed

lemma register_fields:
  "dh_sessions (ap_direct (register_with_network E Y key otks A)) = dh_sessions (ap_direct A)"
  "mg_groups (ap_mls (register_with_network E Y key otks A)) = mg_groups (ap_mls A)"
  "c \<in> set (ap_calls A) \<Longrightarrow> c \<in> set (ap_calls (register_with_network E Y key otks A))"
  by (auto simp: register_with_network_def generate_mls_key_package_def on_mls_eq generate_key_package_def Let_def
      with_db_def store_mls_state_def split: prod.split sum.split option.split)

lemma register_did: "ap_local_did (register_with_network E Y key otks A) = ap_local_did A"
  by (auto simp: register_with_network_def generate_mls_key_package_def on_mls_eq Let_def with_db_def split: prod.split sum.split option.split)

text \<open>The start, once the file was read and a state made of it.\<close>

lemma start_node_from:
  assumes "load_identity F (rnd 0) p pass file = (file', Some identity)" and "from_identity E Y identity db = Some (A, key)"
    and "restore_crypto_state E (seed_peer_names E A, identity) = (C, identity', otks)"
  shows "\<exists>disk'. start_node E Y F B rnd p now pass (file, db, S) = (disk', Some (register_with_network E Y key otks C))"
  using assms by (simp add: start_node_def Let_def split: prod.split)

subsection \<open>A restart\<close>

lemma restart_restores:
  assumes "app_ok E" and "storage_ok (mv_lib (ae_mls E))" and "codec_ok (mv_snapshot (ae_mls E))"
    and "sessions_saved (ae_direct E) (ap_direct A)" and "persisted (ae_mls E) (ap_mls A)" and "snapshot_current E A"
    and "load_identity F (rnd 0) p pass file = (file', Some identity)"
    and "from_identity E Y identity (app_db A) = Some (A0, key)" and "idf_did identity = ap_local_did A"
  shows "\<exists>disk' A'. start_node E Y F B rnd p now pass (file, app_db A, S) = (disk', Some A') \<and>
     dh_sessions (ap_direct A') = dh_sessions (ap_direct A) \<and>
     map_of (mg_groups (ap_mls A')) = map_of (mg_groups (ap_mls A)) \<and>
     (\<forall>g \<in> fst ` set (mg_groups (ap_mls A)). CallSubscribe (group_topic g) \<in> set (ap_calls A'))"
proof -
  note f = from_identity_fresh [OF assms(8)]
  obtain C identity' otks where r: "restore_crypto_state E (seed_peer_names E A0, identity) = (C, identity', otks)"
    by (metis prod_cases3)
  have b: "app_db (seed_peer_names E A0) = app_db A" "ap_local_did (seed_peer_names E A0) = ap_local_did A"
      "mg_groups (ap_mls (seed_peer_names E A0)) = []" "dh_sessions (ap_direct (seed_peer_names E A0)) = Map.empty"
    using f assms(9) by simp_all
  note s = restored_state [OF assms(1-6) b r]
  obtain disk' where "start_node E Y F B rnd p now pass (file, app_db A, S) = (disk', Some (register_with_network E Y key otks C))"
    using start_node_from [where S = S and B = B and now = now and rnd = rnd, OF assms(7,8) r] by blast
  then show ?thesis
    using s register_fields(1,2) [of E Y key otks C] register_fields(3) [of _ C E Y key otks] by fastforce
qed

text \<open>C3. A restart brings back the groups and the sessions. Take a running application whose
  stored snapshot is the one of its groups, whose Olm sessions are all filed and whose groups
  openmls has written through, and start a node on its message storage with an identity file
  that loads and makes a state for the same DID. Then the start succeeds; the new application
  has exactly the Olm sessions and the MLS groups of the old one, and has asked the network to
  subscribe to the topic of every group.\<close>

theorem startup_restores:
  assumes "app_ok E" and "storage_ok (mv_lib (ae_mls E))" and "codec_ok (mv_snapshot (ae_mls E))"
    and "sessions_saved (ae_direct E) (ap_direct A)" and "persisted (ae_mls E) (ap_mls A)" and "snapshot_current E A"
    and "load_identity F (rnd 0) p pass file = (file', Some identity)"
    and "from_identity E Y identity (app_db A) = Some (A0, key)" and "idf_did identity = ap_local_did A"
  shows "\<exists>disk' A'. start_node E Y F B rnd p now pass (file, app_db A, S) = (disk', Some A') \<and>
     dh_sessions (ap_direct A') = dh_sessions (ap_direct A) \<and>
     map_of (mg_groups (ap_mls A')) = map_of (mg_groups (ap_mls A)) \<and>
     (\<forall>g \<in> fst ` set (mg_groups (ap_mls A)). CallSubscribe (group_topic g) \<in> set (ap_calls A'))"
  using assms by (rule restart_restores)

lemma mls_persist_unset: "\<not> ap_persist (mls_persist E A)"
  by (simp add: mls_persist_def)

text \<open>A library that unpickles every account.\<close>

definition unit_boot :: "(unit, unit) boot_env" where
  "unit_boot = \<lparr>bo_unpickle = (\<lambda>_. Some ()), bo_rng = (), bo_sha256 = id, bo_public = id, bo_announced = (\<lambda>_ _. None)\<rparr>"

lemma alice_starts: "\<exists>A0 key. from_identity (counting_app_env answer) unit_boot alice_identity db = Some (A0, key)"
  by (simp add: from_identity_def secret_key_def alice_identity_def unit_boot_def seed_username_def mls_new_def ledger_env_def
      ledger_mls_def)

text \<open>A storage of documents that is never reached.\<close>

definition no_storage :: "(unit, (unit, unit) did_identity) identity_storage" where
  "no_storage = \<lparr>is_store = (\<lambda>S _. (S, Inl EIdSerialization)), is_fetch = (\<lambda>_ _. Inr None),
     is_publish = (\<lambda>S _ _. (S, Inl EIdSerialization)), is_resolve = (\<lambda>_ _. Inr None)\<rparr>"

theorem startup_restores_witness:
  "let E = counting_app_env (\<lambda>_. None);
       H = direct_run counting_env [InitSession ''did:v:bob'' [] []] (direct_handler_new counting_env ''did:v:alice'' [] () (db_new rbt_env));
       G = projr (mls_new ledger_env () ''did:v:alice'' []);
       A = mls_persist E ((fresh_app (db_new rbt_env) (mls_run ledger_env [CreateGroup ''g''] G))\<lparr>ap_direct := H\<rparr>)
   in \<exists>disk' A'. start_node E unit_boot plain_files no_storage (\<lambda>_. ([], [])) ''p'' 0 None (alice_file, app_db A, ()) =
        (disk', Some A') \<and>
     dh_sessions (ap_direct A') = dh_sessions (ap_direct A) \<and>
     map_of (mg_groups (ap_mls A')) = map_of (mg_groups (ap_mls A)) \<and>
     (\<forall>g \<in> fst ` set (mg_groups (ap_mls A)). CallSubscribe (group_topic g) \<in> set (ap_calls A')) \<and>
     ''g'' \<in> fst ` set (mg_groups (ap_mls A)) \<and> dh_sessions (ap_direct A) ''did:v:bob'' = Some 0"
proof -
  let ?E = "counting_app_env (\<lambda>_. None)"
  let ?H = "direct_run counting_env [InitSession ''did:v:bob'' [] []] (direct_handler_new counting_env ''did:v:alice'' [] () (db_new rbt_env))"
  obtain G where G: "mls_new ledger_env () ''did:v:alice'' [] = Inr G"
    by (simp add: mls_new_def ledger_env_def ledger_mls_def)
  let ?M = "mls_run ledger_env [CreateGroup ''g''] G"
  let ?A = "mls_persist ?E ((fresh_app (db_new rbt_env) ?M)\<lparr>ap_direct := ?H\<rparr>)"
  have X: "storage_ok (mv_lib ledger_env)" "codec_ok (mv_snapshot ledger_env)"
    using ledger_storage_ok by (simp_all add: ledger_env_def unary_codec_ok)
  have st: "de_store counting_env = rbt_env" by (simp add: counting_env_def)
  have p: "persisted ledger_env ?M" by (rule persisted_run [OF X(1) mls_new_ok(1) [OF X(1) G]]) simp
  have "sessions_saved counting_env ?H" unfolding st [symmetric] by (intro saved_run saved_new counting_env_ok)
  then have s: "sessions_saved counting_env (ap_direct ?A)"
    by (subst saved_cong [where H = ?H]) (simp_all add: mls_persist_def with_db_def store_mls_state_def app_db_def)
  have c: "snapshot_current ?E ?A"
    using durable_written [OF counting_app_ok, of "\<lambda>_. None" "(fresh_app (db_new rbt_env) ?M)\<lparr>ap_direct := ?H\<rparr>"]
    unfolding durable_def by (metis mls_persist_unset)
  obtain A0 key where f: "from_identity ?E unit_boot alice_identity (app_db ?A) = Some (A0, key)" using alice_starts by blast
  have d: "idf_did alice_identity = ap_local_did ?A" by (simp add: alice_identity_def mls_persist_def)
  have m: "ap_mls ?A = ?M" by (simp add: mls_persist_def)
  have g: "''g'' \<in> fst ` set (mg_groups ?M)"
    using G by (auto simp: mls_new_def ledger_env_def ledger_mls_def mls_run_def create_group_def Let_def)
  have b: "dh_sessions (ap_direct ?A) ''did:v:bob'' = Some 0"
    by (simp add: mls_persist_def with_db_def direct_run_def init_session_as_initiator_def) (simp add: counting_env_def counting_olm_def)
  show ?thesis
    using startup_restores [OF counting_app_ok _ _ _ _ c alice_loads f d, where B = no_storage and now = 0 and S = "()"] X p s m g b
    by (simp add: G)
qed

subsection \<open>A snapshot that cannot be read\<close>

lemma restore_failed: "restore_in_place M H bs = (H', Inl e) \<Longrightarrow> mg_groups H' = mg_groups H"
  by (auto simp: restore_in_place_def Let_def split: option.splits sum.splits prod.splits)

lemma register_writes:
  assumes "app_ok E" and "\<forall>p key cred. \<exists>p' kp. ml_key_package (mv_lib (ae_mls E)) p key cred = (p', Inr kp)"
    and "\<forall>kp. \<exists>bs. ml_serialize_key_package (mv_lib (ae_mls E)) kp = Inr bs"
  shows "snapshot_current E (register_with_network E Y key otks A)"
proof -
  obtain p kp where "ml_key_package (mv_lib (ae_mls E)) (mg_provider (ap_mls A)) (mg_signature_keypair (ap_mls A))
      (mg_credential_with_key (ap_mls A)) = (p, Inr kp)" using assms(2) by metis
  moreover obtain bs where "ml_serialize_key_package (mv_lib (ae_mls E)) kp = Inr bs" using assms(3) by blast
  ultimately have g: "generate_mls_key_package E A = (A\<lparr>ap_mls := (ap_mls A)\<lparr>mg_provider := p\<rparr>\<rparr>, Some bs)"
    by (simp add: generate_mls_key_package_def on_mls_eq generate_key_package_def serialize_message_bytes_def)
  show ?thesis
    using assms(1) by (simp add: register_with_network_def g Let_def snapshot_current_def with_db_def store_mls_state_def
        fetch_mls_state_def app_db_def store_simps split: option.split prod.split)
qed

text \<open>A snapshot that cannot be restored is destroyed. Start a node whose stored snapshot of
  the MLS groups is refused, for whatever reason: it does not parse, an entry is not
  hexadecimal, or the key store fails. The start goes on with no groups, and when it announces
  its new key package it writes the present state over the stored one: the node runs, the
  snapshot on disk names no group, and the bytes that a later version could have read are gone.\<close>

theorem unreadable_state_destroyed:
  assumes "app_ok E" and "codec_ok (mv_snapshot (ae_mls E))"
    and "\<forall>p key cred. \<exists>p' kp. ml_key_package (mv_lib (ae_mls E)) p key cred = (p', Inr kp)"
    and "\<forall>kp. \<exists>bs. ml_serialize_key_package (mv_lib (ae_mls E)) kp = Inr bs"
    and "load_identity F (rnd 0) p pass file = (file', Some identity)" and "from_identity E Y identity db = Some (A0, key)"
    and "fetch_mls_state (app_store E) db (idf_did identity) = Some bs"
    and "restore_in_place (ae_mls E) (ap_mls A0) bs = (H, Inl e)"
  shows "\<exists>disk' A' bs' snapshot. start_node E Y F B rnd p now pass (file, db, S) = (disk', Some A') \<and> mg_groups (ap_mls A') = [] \<and>
     fetch_mls_state (app_store E) (app_db A') (idf_did identity) = Some bs' \<and>
     cd_decode (mv_snapshot (ae_mls E)) bs' = Some snapshot \<and> ms_group_ids snapshot = []"
proof -
  note f = from_identity_fresh [OF assms(6)]
  let ?B = "seed_peer_names E A0"
  obtain C identity' otks where r: "restore_crypto_state E (?B, identity) = (C, identity', otks)" by (metis prod_cases3)
  obtain B1 keys pickle where b: "renew_account E ?B = (B1, keys, pickle)" by (metis prod_cases3)
  note g = renew_fields [OF b]
  let ?B2 = "B1\<lparr>ap_direct := restore_sessions (ae_direct E) (ap_direct B1)\<rparr>"
  have m: "fetch_mls_state (app_store E) (app_db ?B2) (ap_local_did ?B2) = Some bs"
    using assms(7) f g(2,4) by (simp add: fetch_mls_state_def restore_sessions_def app_db_def)
  have r2: "restore_groups E ?B2 = ?B2\<lparr>ap_mls := H\<rparr>"
    unfolding restore_groups_def m using assms(8) g(1) by (simp add: on_mls_eq)
  have H: "mg_groups H = []" using restore_failed [OF assms(8)] f(3) by simp
  have C: "mg_groups (ap_mls C) = []" "ap_local_did C = idf_did identity"
    using r f(2) g(2) H by (auto simp: restore_crypto_state_def b r2 ask_all)
  let ?A = "register_with_network E Y key otks C"
  obtain disk' where d: "start_node E Y F B rnd p now pass (file, db, S) = (disk', Some ?A)"
    using start_node_from [where S = S and B = B and now = now and rnd = rnd, OF assms(5,6) r] by blast
  have a: "mg_groups (ap_mls ?A) = []" "ap_local_did ?A = idf_did identity"
    using C register_fields(2) [of E Y key otks C] by (simp_all add: register_did)
  have "fetch_mls_state (app_store E) (app_db ?A) (idf_did identity) = Some (export_state (ae_mls E) (ap_mls ?A))"
    using register_writes [OF assms(1,3,4)] a(2) unfolding snapshot_current_def by metis
  moreover have "\<exists>snapshot. cd_decode (mv_snapshot (ae_mls E)) (export_state (ae_mls E) (ap_mls ?A)) = Some snapshot \<and> ms_group_ids snapshot = []"
    using assms(2) a(1) by (simp add: export_state_def codec_ok_def group_ids_def)
  ultimately show ?thesis using d a(1) by blast
qed

text \<open>A snapshot codec with a version byte, and the sample application over it.\<close>

definition versioned_codec :: "'m::countable codec" where
  "versioned_codec =
     \<lparr>cd_encode = (\<lambda>m. 0 # cd_encode unary_codec m),
      cd_decode = (\<lambda>bs. case bs of [] \<Rightarrow> None | b # bs \<Rightarrow> if b = 0 then cd_decode unary_codec bs else None)\<rparr>"

definition versioned_app_env :: "(unit, nat, (string, bytes) rbt, unit, ledger, ledger, bytes, ledger) app_env" where
  "versioned_app_env = (counting_app_env (\<lambda>_. None))\<lparr>ae_mls := ledger_env\<lparr>mv_snapshot := versioned_codec\<rparr>\<rparr>"

lemma versioned_app_ok: "app_ok versioned_app_env" "codec_ok (mv_snapshot (ae_mls versioned_app_env))" "app_store versioned_app_env = rbt_env"
proof -
  have "ae_direct versioned_app_env = counting_env" by (simp add: versioned_app_env_def)
  moreover have "mv_store (ae_mls versioned_app_env) = de_store counting_env"
    by (simp add: versioned_app_env_def ledger_env_def counting_env_def)
  ultimately show "app_ok versioned_app_env" unfolding app_ok_def using counting_env_ok by metis
  show "codec_ok (mv_snapshot (ae_mls versioned_app_env))"
    using unary_codec_ok by (simp add: versioned_app_env_def versioned_codec_def codec_ok_def)
  show "app_store versioned_app_env = rbt_env"
    by (simp add: versioned_app_env_def app_store_def counting_env_def)
qed

theorem unreadable_state_destroyed_witness:
  "let db = store_mls_state rbt_env (db_new rbt_env) ''did:v:alice'' [1]
   in fetch_mls_state rbt_env db ''did:v:alice'' = Some [1] \<and>
     (\<exists>disk' A' bs' snapshot. start_node versioned_app_env unit_boot plain_files no_storage (\<lambda>_. ([], [])) ''p'' 0 None (alice_file, db, ()) =
          (disk', Some A') \<and> mg_groups (ap_mls A') = [] \<and>
        fetch_mls_state rbt_env (app_db A') ''did:v:alice'' = Some bs' \<and>
        cd_decode versioned_codec bs' = Some (snapshot :: mls_snapshot) \<and> ms_group_ids snapshot = [])"
proof -
  let ?db = "store_mls_state rbt_env (db_new rbt_env) ''did:v:alice'' [1]" and ?E = versioned_app_env
  have i: "idf_did alice_identity = ''did:v:alice''" by (simp add: alice_identity_def)
  have st: "fetch_mls_state (app_store ?E) ?db (idf_did alice_identity) = Some [1]"
    by (simp add: i versioned_app_ok(3) fetch_mls_state_def store_mls_state_def store_simps rbt_env_ok)
  obtain A0 key where f: "from_identity ?E unit_boot alice_identity ?db = Some (A0, key)"
    by (simp add: from_identity_def secret_key_def alice_identity_def unit_boot_def seed_username_def mls_new_def ledger_env_def
      ledger_mls_def versioned_app_env_def)
  have x: "mv_snapshot (ae_mls ?E) = versioned_codec" "mv_lib (ae_mls ?E) = ledger_mls"
    by (simp_all add: versioned_app_env_def ledger_env_def)
  have k: "\<forall>p key cred. \<exists>p' kp. ml_key_package (mv_lib (ae_mls ?E)) p key cred = (p', Inr kp)"
    "\<forall>kp. \<exists>bs. ml_serialize_key_package (mv_lib (ae_mls ?E)) kp = Inr bs"
    by (simp_all add: x ledger_mls_def)
  have r: "restore_in_place (ae_mls ?E) (ap_mls A0) [1] = (ap_mls A0, Inl (EMlsGroup ''Failed to deserialize MLS state snapshot''))"
    by (simp add: restore_in_place_def x versioned_codec_def)
  show ?thesis
    using unreadable_state_destroyed [OF versioned_app_ok(1,2) k alice_loads f st r, where B = no_storage and now = 0 and S = "()" and rnd = "\<lambda>_. ([], [])" and p = "''p''"] st
    by (simp add: i x versioned_app_ok(3))
qed

end
