(* ===== verification/Api_Delivery.thy ===== *)
theory Api_Delivery
  imports Api_Control Mls_Durability
begin

section \<open>Direct messages are sent or queued, and group handlers leave a write due\<close>

text \<open>
  What the handler that sends a direct message promises, for any answers of the network, and
  which handlers schedule a snapshot of the groups they changed.
\<close>

subsection \<open>Sending on a session\<close>

lemma send_message_kept:
  assumes "direct_env_ok E" and "to \<noteq> dh_local_did H" and "send_message E H i now nonce to c = (H', Inr m)"
  shows "\<exists>S. H' = persist_session E (kept E (H\<lparr>dh_sessions := S\<rparr>) nonce m c) to"
    and "dm_id m = i" and "dm_sender_did m = dh_local_did H" and "dm_recipient_did m = to"
proof -
  obtain s where s: "dh_sessions H to = Some s" using assms by (auto simp: send_message_def split: option.splits)
  obtain s' om where e: "ol_encrypt (de_olm E) s (cd_encode (de_content E) c) = (s', om)" by fastforce
  note d = assms(3) [unfolded send_message_def, simplified s e assms(2) if_False option.case Let_def case_prod_unfold prod.sel
      fst_conv snd_conv keep_message_eq [OF assms(1)] sum.case, simplified]
  from d show "\<exists>S. H' = persist_session E (kept E (H\<lparr>dh_sessions := S\<rparr>) nonce m c) to"
    and "dm_id m = i" and "dm_sender_did m = dh_local_did H" and "dm_recipient_did m = to"
    by (auto simp: sign_direct_def assms(2))
qed

text \<open>Nothing before the queueing touches the trees of the queue.\<close>

definition queue_trees :: "'t message_db \<Rightarrow> 't \<times> 't" where
  "queue_trees db = (db_pending_messages db, db_message_index db)"

lemma queue_trees_same:
  assumes "queue_trees db' = queue_trees db"
  shows "pending S db' = pending S db" and "pending_wf S db' = pending_wf S db"
proof -
  have "db_pending_messages db' = db_pending_messages db" "db_message_index db' = db_message_index db"
    using assms by (simp_all add: queue_trees_def)
  then show "pending S db' = pending S db" and "pending_wf S db' = pending_wf S db"
    by (simp_all add: pending_def pending_wf_def pending_entry_ok_def indexed_key_def)
qed

lemma queue_trees_direct [simp]:
  "queue_trees (dh_storage (persist_session E H p)) = queue_trees (dh_storage H)"
  "queue_trees (dh_storage (kept E H nonce m c)) = queue_trees (dh_storage H)"
  by (simp_all add: queue_trees_def persist_session_def store_session_pickle_def kept_def keep_message_def persist_plaintext_def
      store_direct_def store_plaintext_def split: option.split)

lemma try_keys_frame:
  "queue_trees (app_db (try_one_time_keys E d ik otks A)) = queue_trees (app_db A) \<and>
   dh_local_did (ap_direct (try_one_time_keys E d ik otks A)) = dh_local_did (ap_direct A) \<and>
   ap_local_did (try_one_time_keys E d ik otks A) = ap_local_did A"
  by (induction E d ik otks A rule: try_one_time_keys.induct)
    (simp_all add: app_db_def init_session_if_needed_def init_session_as_initiator_def)

lemma ensure_frame:
  assumes "ensure_olm_session E N d A = (B, r)"
  shows "queue_trees (app_db B) = queue_trees (app_db A)" "dh_local_did (ap_direct B) = dh_local_did (ap_direct A)"
    "ap_local_did B = ap_local_did A"
  using assms by (auto simp: ensure_olm_session_def try_keys_frame split: if_splits sum.splits)

lemma pending_queued:
  assumes "env_ok S" and "pending_wf S db" and "did_ok r" and "no_colon (dm_id m)"
    and "\<forall>(p, n) \<in> pending S db. dm_id n \<noteq> dm_id m"
  shows "pending S (store_pending_message S db r m) = insert (r, m) (pending S db)"
    and "is_message_pending S (store_pending_message S db r m) (dm_id m)"
proof -
  have f: "pending_free S db r (dm_id m)" using assms(5) by (auto simp: pending_free_def)
  have "pending_wf S (store_pending_message S db r m)" by (rule pending_wf_store [OF assms(1-4) f])
  moreover have p: "pending S (store_pending_message S db r m) = insert (r, m) {(q, n) \<in> pending S db. dm_id n \<noteq> dm_id m}"
    by (rule pending_store [OF assms(1-4) f])
  ultimately show "is_message_pending S (store_pending_message S db r m) (dm_id m)"
    using is_message_pending_iff [OF assms(1)] assms(4) by fastforce
  show "pending S (store_pending_message S db r m) = insert (r, m) (pending S db)"
    using p assms(5) by auto
qed

text \<open>C9. A direct message that the handler accepts is sent or queued, and kept. With a fresh id and a
  queue in order, a successful answer means: the network was handed one message with that id
  from the local user to the recipient; its text can be read back; and either the network took
  it, the answer says sent and the queue is as it was, or it refused, the answer says pending,
  exactly that message joined the queue of the recipient, and its status is pending.\<close>

theorem sent_or_queued:
  assumes "app_ok E" and "pending_wf (app_store E) (app_db A)" and "did_ok r" and "no_colon (dr_ulid D 0)"
    and "\<forall>(p, n) \<in> pending (app_store E) (app_db A). dm_id n \<noteq> dr_ulid D 0" and "length (dr_nonce D 0) = 12"
    and "dh_local_did (ap_direct A) = ap_local_did A" and "r \<noteq> ap_local_did A"
    and "send_direct_message E N D r txt reply_to A = (A', Inr (i, status))"
  shows "\<exists>m. i = dm_id m \<and> i = dr_ulid D 0 \<and> dm_sender_did m = ap_local_did A \<and> dm_recipient_did m = r \<and>
     CallSendDirect r m \<in> set (ap_calls A') \<and>
     load_plaintext (ae_direct E) (ap_direct A') i = Inr (Some (text_content txt reply_to)) \<and>
     (if ae_answer E (CallSendDirect r m) = None
      then status = ''Message sent'' \<and> pending (app_store E) (app_db A') = pending (app_store E) (app_db A)
      else status = ''Message pending'' \<and> pending (app_store E) (app_db A') = insert (r, m) (pending (app_store E) (app_db A)) \<and>
        message_status E A' m = Some ''pending'')"
proof -
  let ?E = "ae_direct E" and ?c = "text_content txt reply_to"
  have E: "direct_env_ok ?E" "env_ok (app_store E)" using assms(1) by simp_all
  have st: "de_store ?E = app_store E" by (simp add: app_store_def)
  obtain B where b: "ensure_olm_session E N r A = (B, Inr ())"
    using assms(9) by (cases "ensure_olm_session E N r A"; cases "snd (ensure_olm_session E N r A)")
      (auto simp: send_direct_message_def split: if_splits)
  note f = ensure_frame [OF b]
  obtain H m where h: "send_message ?E (ap_direct B) (dr_ulid D 0) (dr_now D 0) (dr_nonce D 0) r ?c = (H, Inr m)"
    using assms(9) b by (cases "send_message ?E (ap_direct B) (dr_ulid D 0) (dr_now D 0) (dr_nonce D 0) r ?c";
        cases "snd (send_message ?E (ap_direct B) (dr_ulid D 0) (dr_now D 0) (dr_nonce D 0) r ?c)")
      (auto simp: send_direct_message_def api_send_message_def on_direct_def as_error_def split: if_splits)
  have n: "r \<noteq> dh_local_did (ap_direct B)" using f(2) assms(7,8) by simp
  note k = send_message_kept [OF E(1) n h]
  obtain X where X: "H = persist_session ?E (kept ?E ((ap_direct B)\<lparr>dh_sessions := X\<rparr>) (dr_nonce D 0) m ?c) r" using k(1) by blast
  let ?C = "B\<lparr>ap_direct := H\<rparr>"
  have q: "queue_trees (app_db ?C) = queue_trees (app_db A)" using f(1) by (simp add: app_db_def X)
  have pl: "load_plaintext ?E H (dm_id m) = Inr (Some ?c)" by (simp add: X load_kept [OF E(1) assms(6)])
  let ?t = "send_dm_to_peer E r m ?C"
  have A': "A' = notify (DirectMessageSent r (dm_id m) txt (dm_timestamp m) reply_to) (emit_dm_sent_event (dm_id m) r (fst ?t))"
    and i: "i = dm_id m" and s: "status = ''Message '' @ snd ?t"
    using assms(9) b h by (auto simp: send_direct_message_def api_send_message_def on_direct_def as_error_def transmit_def
        Let_def case_prod_unfold split: if_splits)
  have common: "CallSendDirect r m \<in> set (ap_calls A')" "app_db A' = app_db (fst ?t)" "ap_direct A' = ap_direct (fst ?t)"
    "ap_local_did A' = ap_local_did A"
    using f(3) by (simp_all add: A' emit_dm_sent_event_def send_dm_to_peer_def Let_def split: option.split)
  show ?thesis
  proof (cases "ae_answer E (CallSendDirect r m)")
    case None
    then have "fst ?t = ask (CallSendDirect r m) ?C" "snd ?t = ''sent''" by (simp_all add: send_dm_to_peer_def)
    then show ?thesis
      using None common k(2-4) i s pl queue_trees_same(1) [OF q] f(2) assms(7) by (intro exI [of _ m]) (simp add: app_db_def)
  next
    case (Some e)
    let ?Q = "queue_pending_message ?E H r m"
    have t: "fst ?t = (ask (CallSendDirect r m) ?C)\<lparr>ap_direct := ?Q\<rparr>" "snd ?t = ''pending''"
      using Some by (simp_all add: send_dm_to_peer_def)
    have db: "app_db A' = store_pending_message (app_store E) (app_db ?C) r m"
      using common(2) by (simp add: t(1) app_db_def queue_pending_message_def st)
    have p: "pending (app_store E) (app_db A') = insert (r, m) (pending (app_store E) (app_db A))"
      "is_message_pending (app_store E) (app_db A') (dm_id m)"
      using pending_queued [OF E(2) _ assms(3), of "app_db ?C" m] queue_trees_same [OF q] assms(2,4,5) k(2) by (simp_all add: db)
    have "direct_is_pending ?E (ap_direct A') (dm_id m)" using p(2) by (simp add: direct_is_pending_def st app_db_def)
    moreover have "load_plaintext ?E (ap_direct A') (dm_id m) = Inr (Some ?c)"
    proof -
      have a: "fetch_plaintext (de_store ?E) (dh_storage ?Q) j = fetch_plaintext (de_store ?E) (dh_storage H) j" for j
        by (simp add: queue_pending_message_def store_pending_message_def Let_def fetch_plaintext_def)
      have b: "dh_storage_key ?Q = dh_storage_key H" by (simp add: queue_pending_message_def)
      have "load_plaintext ?E ?Q (dm_id m) = load_plaintext ?E H (dm_id m)" by (simp only: load_plaintext_def a b)
      then show ?thesis using common(3) pl by (simp add: t(1))
    qed
    ultimately show ?thesis
      using Some common k(2-4) i s t(2) p(1) f(2) assms(7) by (intro exI [of _ m]) (simp add: message_status_def)
  qed
qed

text \<open>Alice with a session to Bob.\<close>

definition session_app :: "(unit, nat, (string, bytes) rbt, unit, ledger) app" where
  "session_app =
     (fresh_app (db_new rbt_env) (ledger_handler []))\<lparr>ap_direct :=
        init_session_as_initiator counting_env (direct_handler_new counting_env ''did:v:alice'' [] () (db_new rbt_env)) ''did:v:bob'' [] []\<rparr>"

lemma session_app_fields [simp]:
  "ap_local_did session_app = ''did:v:alice''" "dh_local_did (ap_direct session_app) = ''did:v:alice''"
  "dh_sessions (ap_direct session_app) ''did:v:bob'' = Some 0" "pending_wf rbt_env (app_db session_app)"
  "pending rbt_env (app_db session_app) = {}"
proof -
  have q: "queue_trees (app_db session_app) = queue_trees (db_new rbt_env)"
    by (simp add: session_app_def app_db_def init_session_as_initiator_def direct_handler_new_def)
  show "pending_wf rbt_env (app_db session_app)" "pending rbt_env (app_db session_app) = {}"
    using queue_trees_same [OF q] pending_wf_new [OF rbt_env_ok] pending_new [OF rbt_env_ok] by simp_all
  show "ap_local_did session_app = ''did:v:alice''" "dh_local_did (ap_direct session_app) = ''did:v:alice''"
    "dh_sessions (ap_direct session_app) ''did:v:bob'' = Some 0"
    by (simp_all add: session_app_def init_session_as_initiator_def direct_handler_new_def) (simp_all add: counting_env_def counting_olm_def)
qed

theorem sent_or_queued_witness:
  "\<exists>A' i m. send_direct_message (counting_app_env (\<lambda>_. Some ''offline'')) silent_network zero_draws ''did:v:bob'' ''hi'' None session_app
       = (A', Inr (i, ''Message pending'')) \<and> dm_recipient_did m = ''did:v:bob'' \<and>
     pending rbt_env (app_db A') = {(''did:v:bob'', m)} \<and>
     message_status (counting_app_env (\<lambda>_. Some ''offline'')) A' m = Some ''pending''"
proof -
  let ?E = "counting_app_env (\<lambda>_. Some ''offline'')"
  have b: "ensure_olm_session ?E silent_network ''did:v:bob'' session_app = (session_app, Inr ())"
    by (simp add: ensure_olm_session_def has_session_def)
  obtain s' om where e: "ol_encrypt (de_olm counting_env) 0 (cd_encode (de_content counting_env) (text_content ''hi'' None)) = (s', om)"
    by fastforce
  have ne: "''did:v:bob'' \<noteq> dh_local_did (ap_direct session_app)" by simp
  obtain H m where h: "send_message counting_env (ap_direct session_app) ''u'' 1000 (replicate 12 0) ''did:v:bob'' (text_content ''hi'' None) = (H, Inr m)"
    by (rule send_on_session [OF counting_env_ok session_app_fields(3) ne e])
  have "\<not> text_refused ''hi''" by (simp add: text_refused_def trim_is_empty_def trim_visible)
  then obtain A' i st where r: "send_direct_message ?E silent_network zero_draws ''did:v:bob'' ''hi'' None session_app = (A', Inr (i, st))"
    using b h by (auto simp: send_direct_message_def api_send_message_def on_direct_def as_error_def transmit_def zero_draws_def
        Let_def case_prod_unfold)
  have d: "did_ok ''did:v:bob''" "no_colon (dr_ulid zero_draws 0)" "length (dr_nonce zero_draws 0) = 12"
    by (simp_all add: did_ok_def colons_def no_colon_def zero_draws_def)
  have q: "pending_wf (app_store ?E) (app_db session_app)" "\<forall>(p, n) \<in> pending (app_store ?E) (app_db session_app). dm_id n \<noteq> dr_ulid zero_draws 0"
    "dh_local_did (ap_direct session_app) = ap_local_did session_app" "''did:v:bob'' \<noteq> ap_local_did session_app"
    by simp_all
  obtain m' where "i = dm_id m'" "dm_recipient_did m' = ''did:v:bob''" "st = ''Message pending''"
    "pending rbt_env (app_db A') = {(''did:v:bob'', m')}" "message_status ?E A' m' = Some ''pending''"
    using sent_or_queued [OF counting_app_ok q(1) d(1,2) q(2) d(3) q(3,4) r] by auto
  with r show ?thesis by blast
qed

subsection \<open>A successful handler leaves a write due\<close>

text \<open>The handlers that change the groups.\<close>

datatype group_action =
    Administer string group_request
  | CreateNamed string
  | AcceptWelcome string
  | LeaveIt string
  | React string string string
  | Unreact string string string
  | AcceptInvitation string

fun perform ::
  "('acc, 'sess, 't, 'r, 'g, 'm, 'kp, 'q) app_env \<Rightarrow> network \<Rightarrow> draws \<Rightarrow> group_action \<Rightarrow> ('acc, 'sess, 't, 'r, 'g) app
     \<Rightarrow> ('acc, 'sess, 't, 'r, 'g) app \<times> (api_error + unit)" where
  "perform E N D (Administer g req) A = serve E N D g req A"
| "perform E N D (CreateNamed name) A = served (mls_create_group E D name A)"
| "perform E N D (AcceptWelcome w) A = served (mls_accept_welcome E D w A)"
| "perform E N D (LeaveIt g) A = mls_leave_group E D g A"
| "perform E N D (React i g emoji) A = served (add_group_reaction E D i g emoji A)"
| "perform E N D (Unreact i emoji g) A = served (remove_group_reaction E D i emoji g A)"
| "perform E N D (AcceptInvitation g) A = served (accept_invitation E N D g A)"

lemma persist_send_control: "ap_persist (send_control_dm E N D d c A) = ap_persist A"
proof -
  have t: "ap_persist (try_one_time_keys E d ik otks A) = ap_persist A" for ik otks
    by (induction E d ik otks A rule: try_one_time_keys.induct) simp_all
  have "ensure_olm_session E N d A = (B, r) \<Longrightarrow> ap_persist B = ap_persist A" for B r
    by (auto simp: ensure_olm_session_def t split: if_splits sum.splits)
  then show ?thesis
    by (auto simp: send_control_dm_def api_send_message_def on_direct_def send_dm_to_peer_def Let_def split: prod.split sum.split option.split)
qed

lemma persist_simple [simp]:
  "ap_persist (put_metadata E meta A) = ap_persist A" "ap_persist (with_db db A) = ap_persist A"
  "ap_persist (advertise_key_package E A) = ap_persist A" "ap_persist (forget_group E g A)"
  by (simp_all add: put_metadata_def with_db_def advertise_key_package_def on_mls_eq forget_group_def Let_def split: sum.split)

lemma persist_send_content: "send_group_content E D g c st A = (A', Inr i) \<Longrightarrow> ap_persist A'"
  by (auto simp: send_group_content_def on_mls_eq as_error_def Let_def split: sum.splits)

lemmas served_cases = served.simps map_sum.simps

lemma served_Inr: "served X = (A', Inr u) \<longleftrightarrow> (\<exists>r. X = (A', Inr r))"
  by (cases X; cases "snd X") auto

lemma api_bind_Inr: "api_bind X k = (A', Inr r) \<longleftrightarrow> (\<exists>B x. X = (B, Inr x) \<and> k B x = (A', Inr r))"
  by (cases X; cases "snd X") auto

lemma guarded_Inr: "guarded g A k = (A', Inr r) \<longleftrightarrow> g = Inr () \<and> k A = (A', Inr r)"
  by (cases g) (auto simp: guarded_def)

lemma kicked:
  assumes "mls_remove_member E D g d A = (A', Inr u)"
  shows "ap_persist A'"
proof -
  have r: "(case s of Inl e \<Rightarrow> (B, Inl x) | Inr y \<Rightarrow> (f y, Inr ())) = (A', Inr ()) \<longleftrightarrow> (\<exists>y. s = Inr y \<and> A' = f y)"
    for s :: "msg_error + bytes" and B x f
    by (cases s) auto
  obtain n where "find_member_index (ae_mls E) (ap_mls A) g d = Inr (Some n)"
    using assms by (auto simp: mls_remove_member_def guarded_Inr Let_def split: if_splits sum.splits option.splits)
  then show ?thesis
    using assms by (auto simp: mls_remove_member_def guarded_Inr api_bind_Inr Let_def r split: if_splits option.splits)
qed

lemma success_schedules:
  assumes "perform E N D act A = (A', Inr u)" and "\<forall>g. act \<noteq> Administer g ListOutbound"
    and "\<forall>g d role. act \<noteq> Administer g (SetRole d role)"
  shows "ap_persist A'"
proof (cases act)
  case (Administer g req)
  then show ?thesis
    using assms
    by (cases req)
      (auto simp: served_Inr api_bind_Inr guarded_Inr mls_invite_to_group_def mls_abandon_group_def
        mls_delete_group_def mls_reinitialize_group_def mls_send_group_message_def persist_send_control persist_republish
        Let_def dest: persist_send_content kicked split: if_splits sum.splits option.splits)
qed (use assms(1) in \<open>auto simp: served_Inr api_bind_Inr mls_create_group_def mls_accept_welcome_def mls_leave_group_def
    add_group_reaction_def remove_group_reaction_def accept_invitation_def persist_send_control persist_republish Let_def
    dest: persist_send_content split: if_splits sum.splits option.splits\<close>)

text \<open>Every handler that changes the groups and reports success leaves a snapshot write due, so
  that the groups it made, joined, left or changed survive a restart: creating, inviting,
  accepting a Welcome or an invitation, posting, reacting, removing a member, leaving,
  abandoning, deleting and rebuilding. Nothing is assumed of openmls, the stores or the
  network.\<close>

theorem successful_handlers_durable:
  assumes "perform E N D act A = (A', Inr u)" and "\<forall>g. act \<noteq> Administer g ListOutbound"
    and "\<forall>g d role. act \<noteq> Administer g (SetRole d role)"
  shows "durable E A'"
  using success_schedules [OF assms] by (simp add: durable_def)

theorem successful_handlers_durable_witness:
  "\<exists>A'. perform (counting_app_env (\<lambda>_. None)) silent_network zero_draws (CreateNamed ''Team'') (fresh_app (db_new rbt_env) (ledger_handler []))
       = (A', Inr ()) \<and> is_member (ap_mls A') ''u'' \<and> durable (counting_app_env (\<lambda>_. None)) A'"
proof -
  let ?E = "counting_app_env (\<lambda>_. None)" and ?A = "fresh_app (db_new rbt_env) (ledger_handler [])"
  have t: "trim ''Team'' = ''Team''" by (simp add: trim_visible)
  obtain H where h: "create_group ledger_env (ledger_handler []) ''u'' = (H, Inr ())" "is_member H ''u''"
    by (simp add: create_group_def ledger_env_def ledger_mls_def ledger_handler_def is_member_def Let_def)
  then obtain A' where r: "perform ?E silent_network zero_draws (CreateNamed ''Team'') ?A = (A', Inr ())" "ap_mls A' = H"
    by (simp add: mls_create_group_def t Let_def on_mls_eq as_error_def zero_draws_def put_metadata_def)
  show ?thesis
    using successful_handlers_durable [OF r(1)] r h(2) by auto
qed

end
