(* ===== verification/Group_Restart.thy ===== *)
theory Group_Restart
  imports Startup_Recovery Api_Delivery
begin

section \<open>Group handlers, the persister and a restart together\<close>

text \<open>
  What a restart needs of the running application, \<open>app_sound\<close>: openmls has written through
  every group, and every Olm session is filed. The group handlers keep it, whatever they answer.
  With the write that a success leaves due, a restart then finds what the handler did.
\<close>

definition app_sound ::
  "('acc, 'sess, 't, 'r, 'g, 'm, 'kp, 'q) app_env \<Rightarrow> did \<Rightarrow> ('acc, 'sess, 't, 'r, 'g) app \<Rightarrow> bool" where
  "app_sound E d A \<longleftrightarrow>
     persisted (ae_mls E) (ap_mls A) \<and> sessions_saved (ae_direct E) (ap_direct A) \<and> ap_local_did A = d"

named_theorems sound_intros \<open>steps that keep the application sound\<close>

lemma sound_db [sound_intros]:
  "app_sound E d A \<Longrightarrow> db_session_pickles db = db_session_pickles (app_db A) \<Longrightarrow> app_sound E d (with_db db A)"
  unfolding app_sound_def
  by (auto simp: with_db_def app_db_def intro: saved_cong [THEN iffD2])

lemma sound_simple [sound_intros]:
  "app_sound E d A \<Longrightarrow> app_sound E d (ask c A)" "app_sound E d A \<Longrightarrow> app_sound E d (schedule_mls_persist A)"
  "app_sound E d A \<Longrightarrow> app_sound E d (A\<lparr>ap_usernames := u\<rparr>)"
  by (simp_all add: app_sound_def)

lemma sound_mls [sound_intros]:
  "app_sound E d A \<Longrightarrow> persisted (ae_mls E) H \<Longrightarrow> app_sound E d (A\<lparr>ap_mls := H\<rparr>)"
  by (simp add: app_sound_def)

lemma sound_direct [sound_intros]:
  "app_sound E d A \<Longrightarrow> sessions_saved (ae_direct E) H \<Longrightarrow> app_sound E d (A\<lparr>ap_direct := H\<rparr>)"
  by (simp add: app_sound_def)

lemma soundD:
  "app_sound E d A \<Longrightarrow> persisted (ae_mls E) (ap_mls A)" "app_sound E d A \<Longrightarrow> sessions_saved (ae_direct E) (ap_direct A)"
  by (simp_all add: app_sound_def)

lemma pickle_tree_ops [simp]:
  "db_session_pickles (store_group_metadata S db meta) = db_session_pickles db"
  "db_session_pickles (delete_group_metadata S db g) = db_session_pickles db"
  "db_session_pickles (delete_group_messages S db g) = db_session_pickles db"
  "db_session_pickles (delete_group_last_read_at S db d g) = db_session_pickles db"
  "db_session_pickles (delete_all_outbound_invites_for_group S db g) = db_session_pickles db"
  "db_session_pickles (store_outbound_invite S db g d iv now) = db_session_pickles db"
  "db_session_pickles (delete_pending_invitation S db g) = db_session_pickles db"
  "db_session_pickles (delete_direct_by_id S db d e t i) = db_session_pickles db"
  "db_session_pickles (store_group S db gm) = db_session_pickles db"
  "db_session_pickles (store_group_plaintext S db i bs) = db_session_pickles db"
  "db_session_pickles (store_mls_state S db d bs) = db_session_pickles db"
  "db_session_pickles (fst (update_member_role S db g d r)) = db_session_pickles db"
  by (simp_all add: store_group_metadata_def delete_group_metadata_def delete_group_messages_def delete_group_last_read_at_def
      delete_all_outbound_invites_for_group_def store_outbound_invite_def delete_pending_invitation_def delete_direct_by_id_def
      store_group_def store_group_plaintext_def store_mls_state_def update_member_role_def Let_def split: option.split)

lemma pickles_plaintext [simp]:
  "db_session_pickles (fst (persist_group_plaintext M H db nonce i c)) = db_session_pickles db"
  by (simp add: persist_group_plaintext_def Let_def split: option.split)

lemma sound_metadata [sound_intros]: "app_sound E d A \<Longrightarrow> app_sound E d (put_metadata E meta A)"
  unfolding put_metadata_def by (intro sound_intros) simp_all

subsection \<open>Composition\<close>

lemma sound_bind [sound_intros]:
  "app_sound E d (fst X) \<Longrightarrow> (\<And>B x. app_sound E d B \<Longrightarrow> app_sound E d (fst (k B x))) \<Longrightarrow> app_sound E d (fst (api_bind X k))"
  by (cases X; cases "snd X") auto

lemma sound_guarded [sound_intros]:
  "app_sound E d A \<Longrightarrow> (\<And>B. app_sound E d B \<Longrightarrow> app_sound E d (fst (k B))) \<Longrightarrow> app_sound E d (fst (guarded g A k))"
  by (cases g) (auto simp: guarded_def)

lemma sound_on_mls [sound_intros]:
  "app_sound E d A \<Longrightarrow> (\<And>H. persisted (ae_mls E) H \<Longrightarrow> persisted (ae_mls E) (fst (f H))) \<Longrightarrow>
     app_sound E d (fst (as_error e (on_mls f A)))"
  by (auto simp: as_error_def on_mls_eq app_sound_def split: sum.split)

lemma sound_if [sound_intros]:
  "app_sound E d (fst X) \<Longrightarrow> app_sound E d (fst Y) \<Longrightarrow> app_sound E d (fst (if b then X else Y))"
  by simp

lemma sound_result [sound_intros]: "app_sound E d A \<Longrightarrow> app_sound E d (fst (A, r))"
  by simp

lemma sound_served: "app_sound E d (fst (served X)) = app_sound E d (fst X)"
  by (cases X) simp

subsection \<open>Direct messages of a handler\<close>

lemma sound_session:
  assumes "direct_env_ok (ae_direct E)" and "app_sound E d A"
  shows "app_sound E d (fst (ensure_olm_session E N p A))"
proof -
  have "app_sound E d (try_one_time_keys E p ik otks A)" for ik otks
    using assms by (induction E p ik otks A rule: try_one_time_keys.induct)
      (auto intro!: sound_intros saved_init_if_needed dest: soundD)
  then show ?thesis using assms(2) by (auto simp: ensure_olm_session_def split: sum.split)
qed

lemma sound_send:
  assumes "direct_env_ok (ae_direct E)" and "app_sound E d A"
  shows "app_sound E d (fst (on_direct (\<lambda>H. send_message (ae_direct E) H i now nonce p c) A))"
  using assms saved_send [OF assms(1) soundD(2) [OF assms(2)], of i now nonce p c]
  by (auto simp: on_direct_def intro: sound_intros split: prod.split)

lemma sound_post: "app_sound E d A \<Longrightarrow> app_sound E d (fst (send_dm_to_peer E p m A))"
  by (auto simp: send_dm_to_peer_def Let_def saved_queue intro!: sound_intros dest: soundD split: option.split)

lemma sound_control:
  assumes E: "direct_env_ok (ae_direct E)" and A: "app_sound E d A"
  shows "app_sound E d (send_control_dm E N D p c A)"
proof -
  obtain B r where b: "ensure_olm_session E N p A = (B, r)" by fastforce
  obtain C x where c: "api_send_message E D p c B = (C, x)" by fastforce
  have B: "app_sound E d B" using sound_session [OF E A, of N p] b by simp
  then have C: "app_sound E d C" using sound_send [OF E B] c unfolding api_send_message_def by (metis fst_conv)
  have "app_sound E d (with_db (delete_direct_by_id S (app_db (fst (send_dm_to_peer E p m C))) e f t i) (fst (send_dm_to_peer E p m C)))"
    for S m e f t i
    by (intro sound_intros sound_post C) simp
  then show ?thesis using B C b c by (auto simp: send_control_dm_def Let_def split: sum.split)
qed

subsection \<open>The handlers\<close>

lemma sound_advertise:
  assumes "storage_ok (mv_lib (ae_mls E))" and "app_sound E d A"
  shows "app_sound E d (advertise_key_package E A)" "app_sound E d (republish_key_package E A)"
proof -
  have "persisted (ae_mls E) (fst (generate_key_package (ae_mls E) (ap_mls A)))"
    using assms by (intro persisted_key_package) (auto dest: soundD)
  with assms(2) have "app_sound E d (A\<lparr>ap_mls := fst (generate_key_package (ae_mls E) (ap_mls A))\<rparr>)" by (intro sound_intros)
  then show "app_sound E d (advertise_key_package E A)" "app_sound E d (republish_key_package E A)"
    by (auto simp: advertise_key_package_def republish_key_package_def on_mls_eq intro: sound_intros split: sum.split)
qed

lemma sound_content:
  assumes "storage_ok (mv_lib (ae_mls E))" and "app_sound E d A"
  shows "app_sound E d (fst (send_group_content E D g c st A))"
  unfolding send_group_content_def Let_def
  using assms by (intro sound_bind sound_on_mls persisted_group_calls)
    (auto intro!: sound_intros split: sum.split)

lemma sound_publish_leave:
  assumes "storage_ok (mv_lib (ae_mls E))" and "app_sound E d A"
  shows "app_sound E d (fst (publish_leave E D i g A))"
  unfolding publish_leave_def
  using assms by (intro sound_bind sound_on_mls persisted_group_calls) (auto intro!: sound_intros split: sum.split)

lemma sound_forget:
  assumes "storage_ok (mv_lib (ae_mls E))" and "app_sound E d A"
  shows "app_sound E d (forget_group E g A)"
  unfolding forget_group_def Let_def
  using assms by (intro sound_intros persisted_remove_group) (auto dest: soundD)

lemma sound_reinvite:
  "direct_env_ok (ae_direct E) \<Longrightarrow> app_sound E d A \<Longrightarrow> app_sound E d (fst (reinvite_members E N D g meta i ws rs A))"
proof (induction E N D g meta i ws rs A rule: reinvite_members.induct)
  case (2 E N D g meta i p w ws rs A)
  have B: "app_sound E d B" if "ensure_olm_session E N p A = (B, x)" for B x
    using sound_session [OF 2(4,5), of N p] that by simp
  have C: "app_sound E d C" if "ensure_olm_session E N p A = (B, x)"
    "on_direct (\<lambda>H. send_message (ae_direct E) H j now nonce p c) B = (C, y)" for B x j now nonce c C y
    using sound_send [OF 2(4) B [OF that(1)], of j now nonce p c] that(2) by simp
  show ?case using 2 B C by (auto simp: Let_def split: sum.split prod.split)
qed simp

text \<open>The groups that a Welcome can bring have ids that are texts.\<close>

definition welcomes_text :: "('acc, 'sess, 't, 'r, 'g, 'm, 'kp, 'q) app_env \<Rightarrow> bool" where
  "welcomes_text E \<longleftrightarrow> (\<forall>m. welcome_text (mv_lib (ae_mls E)) m)"

fun joins :: "group_action \<Rightarrow> bool" where
  "joins (AcceptWelcome _) \<longleftrightarrow> True"
| "joins (AcceptInvitation _) \<longleftrightarrow> True"
| "joins _ \<longleftrightarrow> False"

lemma sound_create:
  assumes "storage_ok (mv_lib (ae_mls E))" and "app_sound E d A"
  shows "app_sound E d (fst (mls_create_group E D name A))"
  unfolding mls_create_group_def Let_def
  using assms by (intro sound_intros persisted_create_group)

lemma sound_leave:
  assumes "storage_ok (mv_lib (ae_mls E))" and "app_sound E d A"
  shows "app_sound E d (fst (mls_leave_group E D g A))" "app_sound E d (fst (mls_delete_group E D g A))"
    "app_sound E d (fst (mls_abandon_group E D g A))"
  unfolding mls_leave_group_def mls_delete_group_def mls_abandon_group_def Let_def
  by (intro sound_intros sound_publish_leave sound_advertise sound_forget sound_content assms; assumption)+

lemma sound_resolve: "app_sound E d A \<Longrightarrow> app_sound E d (fst (resolve_invitee_did E N now invitee A))"
proof -
  assume A: "app_sound E d A"
  have "app_sound E d (fst (query_providers E N now name disc ps A))" for name disc ps
    using A
    by (induction E N now name disc ps A rule: query_providers.induct)
      (auto simp: Let_def intro: sound_intros split: sum.split option.split identity_result.split)
  with A show ?thesis
    by (auto simp: resolve_invitee_did_def Let_def simp del: query_providers.simps split: option.split list.split sum.split prod.split)
qed

lemma sound_invite:
  assumes "storage_ok (mv_lib (ae_mls E))" and "direct_env_ok (ae_direct E)" and "app_sound E d A"
  shows "app_sound E d (fst (mls_invite_to_group E N D g invitee A))"
  unfolding mls_invite_to_group_def Let_def
  using assms by (auto intro!: sound_intros sound_resolve sound_control persisted_group_calls split: prod.split)

lemma sound_joins:
  assumes "storage_ok (mv_lib (ae_mls E))" and "direct_env_ok (ae_direct E)" and "welcomes_text E" and "app_sound E d A"
  shows "app_sound E d (fst (mls_accept_welcome E D w A))" "app_sound E d (fst (accept_invitation E N D g A))"
proof -
  have j: "persisted (ae_mls E) H \<Longrightarrow> persisted (ae_mls E) (fst (join_group_from_welcome (ae_mls E) H m))" for H m
    using persisted_join [OF assms(1)] assms(3) by (simp add: welcomes_text_def)
  show "app_sound E d (fst (mls_accept_welcome E D w A))"
    unfolding mls_accept_welcome_def Let_def
    using assms(4) j by (auto intro!: sound_intros split: option.split sum.split)
  show "app_sound E d (fst (accept_invitation E N D g A))"
    unfolding accept_invitation_def Let_def
    using assms j by (auto intro!: sound_intros sound_control sound_advertise)
qed

lemma sound_members:
  assumes "storage_ok (mv_lib (ae_mls E))" and "app_sound E d A"
  shows "app_sound E d (fst (mls_remove_member E D g m A))" "app_sound E d (fst (mls_change_member_role E D g m role A))"
proof -
  show "app_sound E d (fst (mls_remove_member E D g m A))"
    unfolding mls_remove_member_def Let_def
    using assms by (auto intro!: sound_intros persisted_group_calls split: sum.split option.split)
  have "app_sound E d (with_db db B)" if "app_sound E d B" "update_member_role (app_store E) (app_db B) g m r = (db, x)" for B db r x
    using that by (intro sound_intros) (metis pickle_tree_ops(12) fst_conv)+
  then have "app_sound E d (fst (case update_member_role (app_store E) (app_db B) g m r of
        (db, Inl _) \<Rightarrow> (with_db db B, Inl ApiApp)
      | (db, Inr updated) \<Rightarrow>
          if \<not> updated then (with_db db B, Inl ApiNotFound)
          else (fst (send_group_content E D g c False (with_db db B)), Inr ())))"
    if "app_sound E d B" for B r c
    using that sound_content [OF assms(1)] by (auto split: sum.split prod.split)
  then show "app_sound E d (fst (mls_change_member_role E D g m role A))"
    unfolding mls_change_member_role_def Let_def by (intro sound_guarded sound_if sound_result assms(2))
qed

lemma sound_reinitialize:
  assumes "storage_ok (mv_lib (ae_mls E))" and "direct_env_ok (ae_direct E)" and "app_sound E d A"
  shows "app_sound E d (fst (mls_reinitialize_group E N D g kps A))"
proof -
  have n: "app_sound E d B \<Longrightarrow> app_sound E d (notify m B)" for B m by (simp add: app_sound_def)
  show ?thesis
    unfolding mls_reinitialize_group_def Let_def
    using assms by (auto intro!: sound_intros sound_reinvite n persisted_reinitialize split: sum.split option.split)
qed

lemma sound_sends:
  assumes "storage_ok (mv_lib (ae_mls E))" and "app_sound E d A"
  shows "app_sound E d (fst (mls_send_group_message E D g t r meta A))" "app_sound E d (fst (add_group_reaction E D i g emoji A))"
    "app_sound E d (fst (remove_group_reaction E D i emoji g A))"
  using assms by (auto simp: mls_send_group_message_def add_group_reaction_def remove_group_reaction_def
      intro: sound_intros sound_content)

lemma sound_perform:
  assumes "storage_ok (mv_lib (ae_mls E))" and "direct_env_ok (ae_direct E)" and "joins act \<longrightarrow> welcomes_text E" and "app_sound E d A"
  shows "app_sound E d (fst (perform E N D act A))"
proof (cases act)
  case (Administer g req)
  with assms show ?thesis
    by (cases req) (auto simp: sound_served intro: sound_invite sound_members sound_leave sound_reinitialize sound_sends)
qed (use assms in \<open>auto simp: sound_served intro: sound_create sound_joins sound_leave sound_sends\<close>)

subsection \<open>What a handler reported survives\<close>

definition action_run ::
  "('acc, 'sess, 't, 'r, 'g, 'm, 'kp, 'q) app_env \<Rightarrow> network \<Rightarrow> (draws \<times> group_action) list \<Rightarrow> ('acc, 'sess, 't, 'r, 'g) app
     \<Rightarrow> ('acc, 'sess, 't, 'r, 'g) app" where
  "action_run E N acts A = fold (\<lambda>(D, act) A. fst (perform E N D act A)) acts A"

lemma sound_run:
  assumes "storage_ok (mv_lib (ae_mls E))" and "direct_env_ok (ae_direct E)"
  shows "\<forall>x \<in> set acts. joins (snd x) \<longrightarrow> welcomes_text E \<Longrightarrow> app_sound E d A \<Longrightarrow> app_sound E d (action_run E N acts A)"
proof (induction acts arbitrary: A)
  case (Cons x acts)
  obtain D act where x: "x = (D, act)" by fastforce
  have "app_sound E d (fst (perform E N D act A))" by (rule sound_perform [OF assms]) (use Cons.prems x in auto)
  with Cons x show ?case by (simp add: action_run_def)
qed (simp add: action_run_def)

lemma sound_persist: "app_sound E d A \<Longrightarrow> app_sound E d (mls_persist E A)"
  unfolding mls_persist_def by (simp add: app_sound_def) (metis app_sound_def pickle_tree_ops(11) sound_db app_fields(2,3))

definition changes_groups :: "group_action \<Rightarrow> bool" where
  "changes_groups act \<longleftrightarrow> (\<forall>g. act \<noteq> Administer g ListOutbound) \<and> (\<forall>g d role. act \<noteq> Administer g (SetRole d role))"



end
