(* ===== verification/Identity_Lookup.thy ===== *)
theory Identity_Lookup
  imports Api_Identity Direct_Control
begin

section \<open>Names and passphrases: what the identity handlers promise\<close>

text \<open>
  Whose document a lookup returns after a registration, and what a change of the passphrase
  leaves in the identity file, for the running node and for the next start.
\<close>

subsection \<open>The names of documents\<close>

lemma hex_encode_append: "hex_encode (xs @ ys) = hex_encode xs @ hex_encode ys"
  by (simp add: hex_encode_def)

lemma ipns_key_of_scheme:
  assumes "prefix ''did:vari'' did"
  shows "ipns_key_name did = ''variance-6469643a76617269''"
proof -
  obtain r where "did = ''did:vari'' @ r" using assms by (auto simp: prefix_def)
  moreover have "hex_encode (as_bytes ''did:vari'') = ''6469643a76617269''" by code_simp
  ultimately show ?thesis by (simp add: ipns_key_name_def as_bytes_def hex_encode_append flip: append.append_Cons)
qed

text \<open>The local user's document is unsigned: nothing will cache it.\<close>

lemma unsigned_not_cached: "fst (cache_insert C c now n k (without_secrets (named_document did t name))) = c"
  by (simp add: cache_insert_def verify_document_def without_secrets_def named_document_def)

text \<open>After a registration every user looks like the local one. The name under which a
  document is published keeps only the first eight bytes of the DID, and those are the same
  for every DID of this method. So once the local user has registered a name, resolving the DID
  of any other user finds the local user's own document and answers with the local user's
  display name; and as the published document carries no signature, the cache never takes it.\<close>

theorem others_resolve_to_self:
  assumes "cache_env_ok C" and "prefix ''did:vari'' (ap_local_did A)" and "prefix ''did:vari'' other" and "other \<noteq> ap_local_did A"
    and "register_username E F (local_identity_storage sha256 C) rnd p pass key discs t username (A, S, file)
      = ((A', S', file'), Inr (display_name, disc))"
  shows "resolve_identity C (local_identity_storage sha256 C) now n (ap_local_did A') S' other cache
    = (cache, FromStorage (Some display_name))"
proof -
  let ?B = "local_identity_storage sha256 C"
  let ?d = "named_document (ap_local_did A) t (Some display_name)"
  have d: "ap_local_did A' = ap_local_did A" and S': "S' = fst (publish_document ?B (ipns_key_name (ap_local_did A)) ?d S)"
    using assms(5) by (auto simp: register_username_def Let_def split: sum.splits prod.splits if_splits)
  have "lookup_document ?B (ipns_key_name (ap_local_did A)) S' = Some (without_secrets ?d)"
    using local_documents.published [OF assms(1)] S' by (metis fst_conv)
  then have "lookup_document ?B (ipns_key_name other) S' = Some (without_secrets ?d)"
    by (simp add: ipns_key_of_scheme assms(2,3))
  moreover have "dd_display_name (di_document (without_secrets ?d)) = Some display_name"
    by (simp add: without_secrets_def named_document_def)
  ultimately show ?thesis
    using assms(4) d by (simp add: resolve_identity_def unsigned_not_cached)
qed

theorem others_resolve_to_self_witness:
  "let B = local_identity_storage id sample_cache_env;
       A = (fresh_app (db_new rbt_env) (ledger_handler []))\<lparr>ap_local_did := ''did:variance:aa''\<rparr>;
       (A', S', file') = fst (register_username (counting_app_env (\<lambda>_. None)) plain_files B (\<lambda>_. ([], [])) ''p'' None [] [7] 5 ''alice''
         (A, \<lparr>ls_content = sl_new rbt_sled, ls_names = sl_new rbt_sled\<rparr>, None))
   in resolve_identity sample_cache_env B 0 0 (ap_local_did A') S' ''did:variance:bb'' (cache_new sample_cache_env)
     = (cache_new sample_cache_env, FromStorage (Some ''alice''))"
proof -
  let ?B = "local_identity_storage id sample_cache_env"
  let ?A = "(fresh_app (db_new rbt_env) (ledger_handler []))\<lparr>ap_local_did := ''did:variance:aa''\<rparr>"
  let ?S = "\<lparr>ls_content = sl_new rbt_sled, ls_names = sl_new rbt_sled\<rparr>"
  let ?r = "register_username (counting_app_env (\<lambda>_. None)) plain_files ?B (\<lambda>_. ([], [])) ''p'' None [] [7] 5 ''alice'' (?A, ?S, None)"
  have v: "validate_username ascii_unicode ''alice'' = Inr ()"
    by (simp add: validate_username_def ascii_unicode_def min_username_length_def max_username_length_def)
  have l: "snd (register_local ascii_unicode registry_new [7] ''alice'' ''did:variance:aa'') = Inr (''alice'', 7)"
    by (simp add: register_local_def v evict_def registry_new_def compound_key_def max_discriminator_attempts_def) (simp add: ascii_unicode_def)
  have u: "ae_unicode (counting_app_env (\<lambda>_. None)) = ascii_unicode" "ae_answer (counting_app_env (\<lambda>_. None)) = (\<lambda>_. None)"
    by (simp_all add: counting_app_env_def)
  have n: "ap_usernames ?A = registry_new" "ap_local_did ?A = ''did:variance:aa''" by (simp_all add: fresh_app_def)
  obtain A' S' file' where r: "?r = ((A', S', file'), Inr (''alice'', 7))"
  proof -
    obtain names where "register_local ascii_unicode registry_new [7] ''alice'' ''did:variance:aa'' = (names, Inr (''alice'', 7))"
      using l by (metis prod.collapse)
    then show thesis using that v by (simp add: register_username_def u n Let_def)
  qed
  show ?thesis
    using others_resolve_to_self [OF sample_cache_env_ok _ _ _ r, of "''did:variance:bb''"] by (simp add: r n)
qed

subsection \<open>The passphrase\<close>

lemma load_kept_pickle: "read_identity F pp file = Some i \<Longrightarrow> idf_olm_account_pickle i \<noteq> [] \<Longrightarrow> load_identity F sn p pp file = (file, Some i)"
  by (simp add: load_identity_def)

lemma saved_file:
  assumes "file_env_ok F" and "random_ok sn"
  obtains data where "save_identity F sn i pp file = (Some data, True)" and "read_identity F pp (Some data) = Some i"
proof -
  obtain f b where s: "save_identity F sn i pp file = (f, b)" by fastforce
  with read_saved [OF assms, of pp i "file"] have "read_identity F pp f = Some i" "b" by simp_all
  with s show thesis using that by (cases f) (auto simp: read_identity_def)
qed

text \<open>A plain file opens under every passphrase; a sealed one not without.\<close>

lemma plain_opens: "read_identity F None file = Some i \<Longrightarrow> read_identity F pp file = Some i"
  by (cases "file") (auto simp: read_identity_def split: if_splits)

lemma sealed_closed:
  assumes "file_env_ok F" and "random_ok sn" and "save_identity F sn i (Some pp) file = (f, True)"
  shows "read_identity F None f = None"
proof -
  obtain data where d: "identity_encrypt F (fst sn) (snd sn) (cd_encode (fe_json F) i) pp = Some data" "f = Some data"
    using assms(3) by (auto simp: save_identity_def split: option.splits)
  then show ?thesis
    using identity_decrypt_encrypt [OF assms(1,2) d(1)] by (simp add: read_identity_def)
qed

lemma passphrase_change_kept:
  assumes "file_env_ok F" and "\<forall>i. random_ok (rnd i)" and "read_identity F pass file = Some i" and "idf_olm_account_pickle i \<noteq> []"
  shows "\<exists>file'. change_passphrase F rnd p pass pass new file = (file', Inr ()) \<and> read_identity F new file' = Some i"
proof -
  obtain data where "save_identity F (rnd 1) i new file = (Some data, True)" "read_identity F new (Some data) = Some i"
    using saved_file [OF assms(1)] assms(2) by metis
  then show ?thesis by (simp add: change_passphrase_def load_kept_pickle [OF assms(3,4)])
qed

text \<open>A removed passphrase comes back. The node keeps the passphrase it was started with.
  After the user has removed it, so that the file opens without one, the next registration of
  a username seals the file again under the old passphrase: the next start without a
  passphrase fails, although the user removed it and was told so.\<close>

theorem removed_passphrase_returns:
  assumes "file_env_ok F" and "\<forall>i. random_ok (rnd i)" and "read_identity F (Some pp) file = Some i"
    and "idf_olm_account_pickle i \<noteq> []"
  shows "\<exists>file1 file2. change_passphrase F rnd p (Some pp) (Some pp) None file = (file1, Inr ()) \<and> read_identity F None file1 = Some i \<and>
    persist_username F rnd p (Some pp) name disc file1 = file2 \<and> read_identity F None file2 = None \<and>
    read_identity F (Some pp) file2 = Some (i\<lparr>idf_username := Some name, idf_discriminator := Some disc\<rparr>)"
proof -
  let ?j = "i\<lparr>idf_username := Some name, idf_discriminator := Some disc\<rparr>"
  obtain file1 where c: "change_passphrase F rnd p (Some pp) (Some pp) None file = (file1, Inr ())" "read_identity F None file1 = Some i"
    using passphrase_change_kept assms by metis
  obtain data where s: "save_identity F (rnd 1) ?j (Some pp) file1 = (Some data, True)" "read_identity F (Some pp) (Some data) = Some ?j"
    using saved_file [OF assms(1)] assms(2) by metis
  have "persist_username F rnd p (Some pp) name disc file1 = Some data"
    by (simp add: persist_username_def load_kept_pickle [OF plain_opens [OF c(2)] assms(4)] s(1) [unfolded One_nat_def])
  moreover have "read_identity F None (Some data) = None" using sealed_closed [OF assms(1) _ s(1)] assms(2) by blast
  ultimately show ?thesis using c s(2) by blast
qed

theorem removed_passphrase_returns_witness:
  "let F = plain_files; rnd = (\<lambda>_. ([], replicate 12 0)); file = fst (save_identity F ([], replicate 12 0) alice_identity (Some ''pw'') None)
   in \<exists>file1 file2. change_passphrase F rnd ''p'' (Some ''pw'') (Some ''pw'') None file = (file1, Inr ()) \<and>
     read_identity F None file1 = Some alice_identity \<and> persist_username F rnd ''p'' (Some ''pw'') ''alice'' 7 file1 = file2 \<and>
     read_identity F None file2 = None \<and>
     read_identity F (Some ''pw'') file2 = Some (alice_identity\<lparr>idf_username := Some ''alice'', idf_discriminator := Some 7\<rparr>)"
proof -
  have r: "random_ok ([], replicate 12 0)" by (simp add: random_ok_def)
  have a: "idf_olm_account_pickle alice_identity \<noteq> []" by (simp add: alice_identity_def)
  show ?thesis
    unfolding Let_def
    by (rule removed_passphrase_returns [OF plain_files_ok _ _ a]) (simp_all add: r read_saved plain_files_ok)
qed

end
