(* ===== verification/Identity_Gen.thy ===== *)
theory Identity_Gen
  imports Startup_Recovery
begin

section \<open>Making and recovering an identity (\<open>variance-app/src/identity_gen.rs\<close>)\<close>

text \<open>
  The identity file of a new user and of a user who types in the twelve words. BIP39, the Olm
  account and the clock are parameters: \<open>mg_*\<close> are the operations of the crate \<open>bip39\<close>, the
  random bytes are the arguments \<open>entropy\<close> and \<open>signaling\<close> and the account's pickle is \<open>pickle\<close>.
\<close>

record 'w mnemonics =
  mn_from_entropy :: "bytes \<Rightarrow> 'w option"
  mn_parse :: "string \<Rightarrow> 'w option"
  mn_phrase :: "'w \<Rightarrow> string"
  mn_word_count :: "'w \<Rightarrow> nat"
  mn_to_seed :: "'w \<Rightarrow> string \<Rightarrow> bytes"

definition derive_signing_key :: "'w mnemonics \<Rightarrow> 'w \<Rightarrow> bytes" where
  "derive_signing_key N mnemonic = take 32 (mn_to_seed N mnemonic [])"

definition fresh_identity :: "(bytes \<Rightarrow> bytes) \<Rightarrow> bytes \<Rightarrow> bytes \<Rightarrow> string \<Rightarrow> string \<Rightarrow> identity_file" where
  "fresh_identity public signing_key signaling_key pickle created_at =
     \<lparr>idf_did = did_from_verifying_key (public signing_key), idf_signing_key = hex_encode signing_key,
      idf_verifying_key = hex_encode (public signing_key), idf_signaling_key = hex_encode signaling_key,
      idf_olm_account_pickle = pickle, idf_username = None, idf_discriminator = None, idf_created_at = created_at,
      idf_ipns_key = None\<rparr>"

definition identity_generate ::
  "'w mnemonics \<Rightarrow> (bytes \<Rightarrow> bytes) \<Rightarrow> bytes \<Rightarrow> bytes \<Rightarrow> string \<Rightarrow> string \<Rightarrow> (identity_file \<times> string) option" where
  "identity_generate N public entropy signaling pickle created_at =
     map_option (\<lambda>mnemonic. (fresh_identity public (derive_signing_key N mnemonic) signaling pickle created_at, mn_phrase N mnemonic))
       (mn_from_entropy N entropy)"

definition identity_recover ::
  "'w mnemonics \<Rightarrow> (bytes \<Rightarrow> bytes) \<Rightarrow> bytes \<Rightarrow> string \<Rightarrow> string \<Rightarrow> string \<Rightarrow> identity_file option" where
  "identity_recover N public signaling pickle created_at mnemonic_phrase =
     (case mn_parse N mnemonic_phrase of
        None \<Rightarrow> None
      | Some mnemonic \<Rightarrow>
          if mn_word_count N mnemonic \<noteq> 12 then None
          else Some (fresh_identity public (derive_signing_key N mnemonic) signaling pickle created_at))"

text \<open>BIP39: sixteen bytes make twelve words, which parse to the mnemonic they came from, and whose
  seed has 64 bytes.\<close>

definition mnemonics_ok :: "'w mnemonics \<Rightarrow> bool" where
  "mnemonics_ok N \<longleftrightarrow>
     (\<forall>e. length e = 16 \<longrightarrow> (\<exists>w. mn_from_entropy N e = Some w \<and> mn_word_count N w = 12 \<and> mn_parse N (mn_phrase N w) = Some w)) \<and>
     (\<forall>w pp. length (mn_to_seed N w pp) = 64)"

lemma secret_key_hex: "secret_key (hex_encode k) = (if length k = 32 then Some k else None)"
  by (simp add: secret_key_def)


definition plain_words :: "bytes mnemonics" where
  "plain_words =
     \<lparr>mn_from_entropy = Some, mn_parse = hex_decode, mn_phrase = hex_encode, mn_word_count = (\<lambda>_. 12),
      mn_to_seed = (\<lambda>w _. replicate 64 0)\<rparr>"

lemma plain_words_ok: "mnemonics_ok plain_words"
  by (simp add: mnemonics_ok_def plain_words_def)


end
