(* ===== verification/Configuration.thy ===== *)
theory Configuration
  imports Prelude "HOL-Library.Countable"
begin

section \<open>Configuration (\<open>variance-app/src/config.rs\<close>, \<open>variance-media\<close>, \<open>variance-identity\<close>)\<close>

text \<open>
  The settings of the application, of the media system and of the identity caches, with their
  defaults, files and conversions. Paths are Unix paths; serde's TOML is a parameter; a file is
  its contents, \<open>None\<close> when it cannot be read.
\<close>

type_synonym path = string

text \<open>\<open>PathBuf::join\<close> with a relative name.\<close>

definition path_join :: "path \<Rightarrow> string \<Rightarrow> path" where
  "path_join base name =
     (if base = [] then name else if last base = CHR 0x2F then base @ name else base @ CHR 0x2F # name)"

definition variance_data_dir :: "string option \<Rightarrow> bool \<Rightarrow> path option \<Rightarrow> path" where
  "variance_data_dir env_dir debug data_local_dir =
     (case env_dir of
        Some dir \<Rightarrow> dir
      | None \<Rightarrow> path_join (case data_local_dir of Some d \<Rightarrow> d | None \<Rightarrow> ''.'') (if debug then ''variance-dev'' else ''variance''))"

subsection \<open>The application\<close>

record server_config =
  sv_host :: string
  sv_port :: nat

record relay_peer_config =
  rp_peer_id :: string
  rp_multiaddr :: string

record p2p_config =
  pc_listen_addrs :: "string list"
  pc_bootstrap_peers :: "string list"
  pc_relay_peers :: "relay_peer_config list"

record identity_config =
  ic_ipfs_api :: string
  ic_cache_ttl_secs :: nat

record turn_server =
  tn_url :: string
  tn_username :: string
  tn_credential :: string

record app_media_config =
  md_stun_servers :: "string list"
  md_turn_servers :: "turn_server list"

record storage_config =
  sc_base_dir :: path
  sc_identity_path :: path
  sc_identity_cache_dir :: path
  sc_message_db_path :: path
  sc_group_message_max_age_days :: nat

record app_config =
  cf_server :: server_config
  cf_p2p :: p2p_config
  cf_identity :: identity_config
  cf_media :: app_media_config
  cf_storage :: storage_config

definition default_group_message_max_age_days :: nat where
  "default_group_message_max_age_days = 30"

definition storage_config_default :: storage_config where
  "storage_config_default =
     \<lparr>sc_base_dir = [], sc_identity_path = [], sc_identity_cache_dir = [], sc_message_db_path = [],
      sc_group_message_max_age_days = default_group_message_max_age_days\<rparr>"

definition for_base_dir :: "path \<Rightarrow> storage_config" where
  "for_base_dir base_dir =
     \<lparr>sc_base_dir = base_dir, sc_identity_path = path_join base_dir ''identity.json'',
      sc_identity_cache_dir = path_join base_dir ''identity_cache'', sc_message_db_path = path_join base_dir ''messages.db'',
      sc_group_message_max_age_days = default_group_message_max_age_days\<rparr>"

definition app_config_default :: "path \<Rightarrow> app_config" where
  "app_config_default data_dir =
     \<lparr>cf_server = \<lparr>sv_host = ''127.0.0.1'', sv_port = 3000\<rparr>,
      cf_p2p = \<lparr>pc_listen_addrs = [''/ip4/0.0.0.0/tcp/0''], pc_bootstrap_peers = [], pc_relay_peers = []\<rparr>,
      cf_identity = \<lparr>ic_ipfs_api = ''http://127.0.0.1:5001'', ic_cache_ttl_secs = 3600\<rparr>,
      cf_media = \<lparr>md_stun_servers = [''stun:stun.l.google.com:19302'', ''stun:stun1.l.google.com:19302''], md_turn_servers = []\<rparr>,
      cf_storage = for_base_dir data_dir\<rparr>"

text \<open>serde's TOML; parsing fails on a text that is not a configuration.\<close>

record toml =
  tm_encode :: "app_config \<Rightarrow> string option"
  tm_decode :: "string \<Rightarrow> app_config option"

definition with_base_dir :: "path \<Rightarrow> app_config \<Rightarrow> app_config" where
  "with_base_dir base_dir config =
     (let max_age = sc_group_message_max_age_days (cf_storage config)
      in config\<lparr>cf_storage := (for_base_dir base_dir)\<lparr>sc_group_message_max_age_days := max_age\<rparr>\<rparr>)"

definition config_from_file :: "toml \<Rightarrow> string option \<Rightarrow> path \<Rightarrow> app_config option" where
  "config_from_file T contents base_dir = Option.bind contents (\<lambda>text. map_option (with_base_dir base_dir) (tm_decode T text))"

definition config_to_file :: "toml \<Rightarrow> app_config \<Rightarrow> string option \<Rightarrow> string option \<times> bool" where
  "config_to_file T config file = (case tm_encode T config of None \<Rightarrow> (file, False) | Some text \<Rightarrow> (Some text, True))"

definition load_or_default :: "toml \<Rightarrow> path \<Rightarrow> path \<Rightarrow> string option \<Rightarrow> app_config" where
  "load_or_default T data_dir base_dir file =
     with_base_dir base_dir
       (case file of
          Some contents \<Rightarrow> (case tm_decode T contents of Some config \<Rightarrow> config | None \<Rightarrow> app_config_default data_dir)
        | None \<Rightarrow> app_config_default data_dir)"

text \<open>TOML gives back what was written, except for the four paths, which serde skips.\<close>

definition skip_paths :: "app_config \<Rightarrow> app_config" where
  "skip_paths config =
     config\<lparr>cf_storage := storage_config_default\<lparr>sc_group_message_max_age_days := sc_group_message_max_age_days (cf_storage config)\<rparr>\<rparr>"

definition toml_ok :: "toml \<Rightarrow> bool" where
  "toml_ok T \<longleftrightarrow> (\<forall>c text. tm_encode T c = Some text \<longrightarrow> tm_decode T text = Some (skip_paths c))"

subsection \<open>The handlers (\<open>variance-app/src/api/config.rs\<close>)\<close>

text \<open>Each handler reads the file of the configured directory, and the ones that change a setting
  write it back. \<open>disk\<close> is the contents of \<open>config.toml\<close>; the directories are fixed.\<close>

record config_dirs =
  dr_data_dir :: path
  dr_config_dir :: path

definition config_of :: "toml \<Rightarrow> config_dirs \<Rightarrow> string option \<Rightarrow> app_config" where
  "config_of T D disk = load_or_default T (dr_data_dir D) (dr_config_dir D) disk"

definition get_relays :: "toml \<Rightarrow> config_dirs \<Rightarrow> string option \<Rightarrow> relay_peer_config list" where
  "get_relays T D disk = pc_relay_peers (cf_p2p (config_of T D disk))"

definition add_relay :: "toml \<Rightarrow> config_dirs \<Rightarrow> string \<Rightarrow> string \<Rightarrow> string option \<Rightarrow> string option \<times> bool" where
  "add_relay T D peer_id multiaddr disk =
     (let config = config_of T D disk;
          p2p = (cf_p2p config)\<lparr>pc_relay_peers := pc_relay_peers (cf_p2p config) @ [\<lparr>rp_peer_id = peer_id, rp_multiaddr = multiaddr\<rparr>]\<rparr>
      in config_to_file T (config\<lparr>cf_p2p := p2p\<rparr>) disk)"

definition remove_relay :: "toml \<Rightarrow> config_dirs \<Rightarrow> string \<Rightarrow> string option \<Rightarrow> string option \<times> bool" where
  "remove_relay T D peer_id disk =
     (let config = config_of T D disk;
          p2p = (cf_p2p config)\<lparr>pc_relay_peers := filter (\<lambda>r. rp_peer_id r \<noteq> peer_id) (pc_relay_peers (cf_p2p config))\<rparr>
      in config_to_file T (config\<lparr>cf_p2p := p2p\<rparr>) disk)"

definition get_retention :: "toml \<Rightarrow> config_dirs \<Rightarrow> string option \<Rightarrow> nat" where
  "get_retention T D disk = sc_group_message_max_age_days (cf_storage (config_of T D disk))"

definition set_retention :: "toml \<Rightarrow> config_dirs \<Rightarrow> nat \<Rightarrow> string option \<Rightarrow> string option \<times> bool" where
  "set_retention T D days disk =
     (let config = config_of T D disk
      in config_to_file T (config\<lparr>cf_storage := (cf_storage config)\<lparr>sc_group_message_max_age_days := days\<rparr>\<rparr>) disk)"

datatype config_request = AddRelay string string | RemoveRelay string | SetRetention nat

fun config_request_step :: "toml \<Rightarrow> config_dirs \<Rightarrow> config_request \<Rightarrow> string option \<Rightarrow> string option" where
  "config_request_step T D (AddRelay peer_id multiaddr) disk = fst (add_relay T D peer_id multiaddr disk)"
| "config_request_step T D (RemoveRelay peer_id) disk = fst (remove_relay T D peer_id disk)"
| "config_request_step T D (SetRetention days) disk = fst (set_retention T D days disk)"

subsection \<open>The media system\<close>

record ice_server =
  is_urls :: "string list"
  is_username :: "string option"
  is_credential :: "string option"

record media_config =
  mf_ice_servers :: "ice_server list"
  mf_ice_transport_policy :: nat

record ice_server_proto =
  pi_urls :: "string list"
  pi_username :: "string option"
  pi_credential :: "string option"

record stun_turn_config =
  st_ice_servers :: "ice_server_proto list"
  st_ice_transport_policy :: "nat option"

definition media_config_default :: media_config where
  "media_config_default =
     \<lparr>mf_ice_servers = [\<lparr>is_urls = [''stun:stun.l.google.com:19302''], is_username = None, is_credential = None\<rparr>,
        \<lparr>is_urls = [''stun:stun1.l.google.com:19302''], is_username = None, is_credential = None\<rparr>],
      mf_ice_transport_policy = 0\<rparr>"

definition add_stun_server :: "string \<Rightarrow> media_config \<Rightarrow> media_config" where
  "add_stun_server url C =
     C\<lparr>mf_ice_servers := mf_ice_servers C @ [\<lparr>is_urls = [url], is_username = None, is_credential = None\<rparr>]\<rparr>"

definition add_turn_server :: "string \<Rightarrow> string \<Rightarrow> string \<Rightarrow> media_config \<Rightarrow> media_config" where
  "add_turn_server url username credential C =
     C\<lparr>mf_ice_servers := mf_ice_servers C @ [\<lparr>is_urls = [url], is_username = Some username, is_credential = Some credential\<rparr>]\<rparr>"

definition set_relay_only :: "media_config \<Rightarrow> media_config" where
  "set_relay_only C = C\<lparr>mf_ice_transport_policy := 1\<rparr>"

definition media_to_proto :: "media_config \<Rightarrow> stun_turn_config" where
  "media_to_proto C =
     \<lparr>st_ice_servers = map (\<lambda>s. \<lparr>pi_urls = is_urls s, pi_username = is_username s, pi_credential = is_credential s\<rparr>) (mf_ice_servers C),
      st_ice_transport_policy = Some (mf_ice_transport_policy C)\<rparr>"

definition media_from_proto :: "stun_turn_config \<Rightarrow> media_config" where
  "media_from_proto p =
     \<lparr>mf_ice_servers = map (\<lambda>s. \<lparr>is_urls = pi_urls s, is_username = pi_username s, is_credential = pi_credential s\<rparr>) (st_ice_servers p),
      mf_ice_transport_policy = (case st_ice_transport_policy p of Some n \<Rightarrow> n | None \<Rightarrow> 0)\<rparr>"

subsection \<open>What the settings promise\<close>

text \<open>The abstract settings: a list of relays and a number of days.\<close>

fun settings_step :: "config_request \<Rightarrow> (string \<times> string) list \<times> nat \<Rightarrow> (string \<times> string) list \<times> nat" where
  "settings_step (AddRelay peer_id multiaddr) (relays, days) = (relays @ [(peer_id, multiaddr)], days)"
| "settings_step (RemoveRelay peer_id) (relays, days) = (filter (\<lambda>r. fst r \<noteq> peer_id) relays, days)"
| "settings_step (SetRetention n) (relays, days) = (relays, n)"

definition settings_of :: "toml \<Rightarrow> config_dirs \<Rightarrow> string option \<Rightarrow> (string \<times> string) list \<times> nat" where
  "settings_of T D disk = (map (\<lambda>r. (rp_peer_id r, rp_multiaddr r)) (get_relays T D disk), get_retention T D disk)"

lemma loaded_after_save:
  assumes "toml_ok T" and "tm_encode T c \<noteq> None"
  shows "config_of T D (fst (config_to_file T c disk)) = with_base_dir (dr_config_dir D) c"
proof -
  obtain z where "tm_encode T c = Some z" using assms(2) by blast
  with assms(1) show ?thesis
    by (simp add: config_of_def config_to_file_def load_or_default_def toml_ok_def with_base_dir_def skip_paths_def)
qed

lemma with_base_dir_fields [simp]:
  "cf_p2p (with_base_dir b c) = cf_p2p c"
  "sc_group_message_max_age_days (cf_storage (with_base_dir b c)) = sc_group_message_max_age_days (cf_storage c)"
  by (simp_all add: with_base_dir_def)

lemma settings_refine:
  assumes "toml_ok T" and "\<forall>c. tm_encode T c \<noteq> None"
  shows "settings_of T D (config_request_step T D r disk) = settings_step r (settings_of T D disk)"
proof -
  have "config_of T D (fst (config_to_file T c disk)) = with_base_dir (dr_config_dir D) c" for c
    using loaded_after_save assms by blast
  then show ?thesis
    by (cases r) (simp_all add: settings_of_def get_relays_def get_retention_def add_relay_def remove_relay_def set_retention_def
        Let_def filter_map comp_def)
qed

text \<open>C17. The settings handlers implement a list of relays and a retention time. Over any sequence
  of requests, whatever the file held at first, absent or unreadable included, the relays and
  the retention read back are the ones that the requests give on the abstract settings, and
  every other setting and the paths of the storage stay as they were.\<close>

theorem config_requests_refine:
  assumes "toml_ok T" and "\<forall>c. tm_encode T c \<noteq> None"
  shows "let disk' = fold (config_request_step T D) rs disk; c = config_of T D disk; c' = config_of T D disk' in
    settings_of T D disk' = fold settings_step rs (settings_of T D disk) \<and>
    cf_server c' = cf_server c \<and> cf_identity c' = cf_identity c \<and> cf_media c' = cf_media c \<and>
    pc_listen_addrs (cf_p2p c') = pc_listen_addrs (cf_p2p c) \<and> pc_bootstrap_peers (cf_p2p c') = pc_bootstrap_peers (cf_p2p c) \<and>
    sc_message_db_path (cf_storage c') = path_join (dr_config_dir D) ''messages.db''"
  unfolding Let_def
proof (induction rs arbitrary: disk)
  case Nil
  then show ?case by (simp add: config_of_def load_or_default_def with_base_dir_def for_base_dir_def)
next
  case (Cons r rs)
  let ?d = "config_request_step T D r disk"
  have l: "config_of T D (fst (config_to_file T c disk)) = with_base_dir (dr_config_dir D) c" for c
    using loaded_after_save assms by blast
  have "cf_server (config_of T D ?d) = cf_server (config_of T D disk)" "cf_identity (config_of T D ?d) = cf_identity (config_of T D disk)"
    "cf_media (config_of T D ?d) = cf_media (config_of T D disk)"
    "pc_listen_addrs (cf_p2p (config_of T D ?d)) = pc_listen_addrs (cf_p2p (config_of T D disk))"
    "pc_bootstrap_peers (cf_p2p (config_of T D ?d)) = pc_bootstrap_peers (cf_p2p (config_of T D disk))"
    by (cases r; simp add: l add_relay_def remove_relay_def set_retention_def Let_def; simp add: with_base_dir_def)+
  with Cons.IH [of ?d] show ?case by (simp add: settings_refine [OF assms])
qed

instance server_config_ext :: (countable) countable
  by (rule countable_classI [of "\<lambda>r. to_nat (sv_host r, sv_port r, server_config.more r)"]) simp

instance relay_peer_config_ext :: (countable) countable
  by (rule countable_classI [of "\<lambda>r. to_nat (rp_peer_id r, rp_multiaddr r, relay_peer_config.more r)"]) simp

instance p2p_config_ext :: (countable) countable
  by (rule countable_classI [of "\<lambda>r. to_nat (pc_listen_addrs r, pc_bootstrap_peers r, pc_relay_peers r, p2p_config.more r)"]) simp

instance identity_config_ext :: (countable) countable
  by (rule countable_classI [of "\<lambda>r. to_nat (ic_ipfs_api r, ic_cache_ttl_secs r, identity_config.more r)"]) simp

instance turn_server_ext :: (countable) countable
  by (rule countable_classI [of "\<lambda>r. to_nat (tn_url r, tn_username r, tn_credential r, turn_server.more r)"]) simp

instance app_media_config_ext :: (countable) countable
  by (rule countable_classI [of "\<lambda>r. to_nat (md_stun_servers r, md_turn_servers r, app_media_config.more r)"]) simp

instance storage_config_ext :: (countable) countable
  by (rule countable_classI [of "\<lambda>r. to_nat (sc_base_dir r, sc_identity_path r, sc_identity_cache_dir r, sc_message_db_path r,
        sc_group_message_max_age_days r, storage_config.more r)"]) simp

instance app_config_ext :: (countable) countable
  by (rule countable_classI [of "\<lambda>r. to_nat (cf_server r, cf_p2p r, cf_identity r, cf_media r, cf_storage r, app_config.more r)"]) simp

definition unary_toml :: toml where
  "unary_toml = \<lparr>tm_encode = (\<lambda>c. Some (replicate (to_nat (skip_paths c)) CHR ''x'')), tm_decode = (\<lambda>s. Some (from_nat (length s)))\<rparr>"

theorem config_requests_refine_witness:
  "let D = \<lparr>dr_data_dir = ''/d'', dr_config_dir = ''/c''\<rparr>;
       disk' = fold (config_request_step unary_toml D) [AddRelay ''p'' ''/a'', AddRelay ''q'' ''/b'', SetRetention 7, RemoveRelay ''p''] None;
       c = config_of unary_toml D None; c' = config_of unary_toml D disk' in
    settings_of unary_toml D disk' = ([(''q'', ''/b'')], 7) \<and> cf_server c' = cf_server c \<and>
    sc_message_db_path (cf_storage c') = ''/c/messages.db''"
proof -
  have ok: "toml_ok unary_toml" "\<forall>c. tm_encode unary_toml c \<noteq> None"
    by (simp_all add: toml_ok_def unary_toml_def)
  have "settings_of unary_toml \<lparr>dr_data_dir = ''/d'', dr_config_dir = ''/c''\<rparr> None = ([], 30)"
    by (simp add: settings_of_def get_relays_def get_retention_def config_of_def load_or_default_def app_config_default_def
        for_base_dir_def default_group_message_max_age_days_def with_base_dir_def)
  then show ?thesis
    using config_requests_refine [OF ok, of "\<lparr>dr_data_dir = ''/d'', dr_config_dir = ''/c''\<rparr>"
        "[AddRelay ''p'' ''/a'', AddRelay ''q'' ''/b'', SetRetention 7, RemoveRelay ''p'']" None]
    unfolding Let_def by (simp add: path_join_def)
qed

text \<open>The media settings survive their wire form.\<close>

lemma media_config_roundtrip: "media_from_proto (media_to_proto C) = C"
  by (simp add: media_from_proto_def media_to_proto_def comp_def map_idI)

end
