(* ===== verification/Desktop.thy ===== *)
theory Desktop
  imports Identity_Gen Configuration
begin

section \<open>The desktop commands (\<open>app/src-tauri\<close>) and the node's configuration (\<open>node.rs\<close>)\<close>

text \<open>
  The commands that the desktop shell offers its window: making and recovering an identity,
  starting and stopping the node, changing the passphrase. The state is \<open>NodeState\<close>, and the
  disk: files by path, the message storage, the store of documents, \<open>config.toml\<close>. A command is
  atomic; \<open>start_lock\<close> sees to it for starts. Creating directories does not fail, error texts
  are left out (\<open>None\<close> is \<open>Err\<close>), and the lock of an open message storage is not modelled.
\<close>

subsection \<open>The configuration of the p2p node\<close>

record ('addr, 'k) node_config =
  nc_keypair :: "'k option"
  nc_listen_addresses :: "'addr list"
  nc_bootstrap_peers :: "(string \<times> 'addr) list"
  nc_relay_peers :: "(string \<times> 'addr) list"
  nc_enable_mdns :: bool
  nc_storage_path :: path
  nc_relay_discovery_interval_secs :: nat

fun split_char :: "char \<Rightarrow> string \<Rightarrow> string list" where
  "split_char c [] = [[]]"
| "split_char c (x # xs) =
     (if x = c then [] # split_char c xs
      else (case split_char c xs of [] \<Rightarrow> [[x]] | p # ps \<Rightarrow> (x # p) # ps))"

text \<open>A bootstrap peer is \<open>PEER_ID@MULTIADDR\<close>; other texts are passed over, a bad address is an error.\<close>

fun parse_addresses :: "(string \<Rightarrow> 'addr option) \<Rightarrow> string list \<Rightarrow> 'addr list option" where
  "parse_addresses parse [] = Some []"
| "parse_addresses parse (a # as) =
     Option.bind (parse a) (\<lambda>addr. map_option (\<lambda>addrs. addr # addrs) (parse_addresses parse as))"

fun parse_bootstrap_peers :: "(string \<Rightarrow> 'addr option) \<Rightarrow> string list \<Rightarrow> (string \<times> 'addr) list option" where
  "parse_bootstrap_peers parse [] = Some []"
| "parse_bootstrap_peers parse (peer # peers) =
     (let parts = split_char CHR 0x40 peer
      in if length parts = 2
         then Option.bind (parse (parts ! 1)) (\<lambda>addr.
                map_option (\<lambda>ps. (parts ! 0, addr) # ps) (parse_bootstrap_peers parse peers))
         else parse_bootstrap_peers parse peers)"

fun parse_relay_peers :: "(string \<Rightarrow> 'addr option) \<Rightarrow> relay_peer_config list \<Rightarrow> (string \<times> 'addr) list option" where
  "parse_relay_peers parse [] = Some []"
| "parse_relay_peers parse (relay # relays) =
     Option.bind (parse (rp_multiaddr relay)) (\<lambda>addr.
       map_option (\<lambda>ps. (rp_peer_id relay, addr) # ps) (parse_relay_peers parse relays))"

definition build_p2p_config ::
  "(string \<Rightarrow> 'addr option) \<Rightarrow> (bytes \<Rightarrow> 'k option) \<Rightarrow> app_config \<Rightarrow> identity_file \<Rightarrow> ('addr, 'k) node_config option" where
  "build_p2p_config parse keypair_from_ed25519 config identity =
     (let keypair = Option.bind (hex_decode (idf_signing_key identity)) keypair_from_ed25519
      in Option.bind (parse_addresses parse (pc_listen_addrs (cf_p2p config))) (\<lambda>listen_addresses.
         Option.bind (parse_bootstrap_peers parse (pc_bootstrap_peers (cf_p2p config))) (\<lambda>bootstrap_peers.
         Option.bind (parse_relay_peers parse (pc_relay_peers (cf_p2p config))) (\<lambda>relay_peers.
         Some \<lparr>nc_keypair = keypair, nc_listen_addresses = listen_addresses, nc_bootstrap_peers = bootstrap_peers,
           nc_relay_peers = relay_peers, nc_enable_mdns = True, nc_storage_path = sc_base_dir (cf_storage config),
           nc_relay_discovery_interval_secs = 300\<rparr>))))"

subsection \<open>The words of a phrase\<close>

text \<open>\<open>split_whitespace\<close> on the bytes of the text.\<close>

function split_codes :: "nat list list \<Rightarrow> nat list \<Rightarrow> nat list \<Rightarrow> nat list list" where
  "split_codes ws word s =
     (let ended = (if word = [] then [] else [word])
      in case find (\<lambda>w. w \<noteq> [] \<and> take (length w) s = w) ws of
           Some w \<Rightarrow> ended @ split_codes ws [] (drop (length w) s)
         | None \<Rightarrow> (case s of [] \<Rightarrow> ended | c # rest \<Rightarrow> split_codes ws (word @ [c]) rest))"
  by pat_completeness auto

termination split_codes
proof (relation "measure (length \<circ> snd \<circ> snd)")
  fix ws s w and word :: "nat list" and ended assume "find (\<lambda>w. w \<noteq> [] \<and> take (length w) s = w) ws = Some w"
  then have "w \<noteq> []" and "take (length w) s = w" using found_in by fastforce+
  then show "((ws, [], drop (length w) s), (ws, word, s)) \<in> measure (length \<circ> snd \<circ> snd)" by (cases s) auto
qed simp_all

declare split_codes.simps [simp del]

definition split_whitespace :: "string \<Rightarrow> string list" where
  "split_whitespace s = map (map char_of) (split_codes white_space [] (map of_char s))"

subsection \<open>State and libraries\<close>

record 'a desktop =
  dt_app :: "('a \<times> path \<times> string option) option"
  dt_port :: "nat option"
  dt_shutdown :: bool
  dt_task :: bool

definition desktop_default :: "'a desktop" where
  "desktop_default = \<lparr>dt_app = None, dt_port = None, dt_shutdown = False, dt_task = False\<rparr>"

record ('t, 's) desktop_disk =
  dk_files :: "path \<Rightarrow> bytes option"
  dk_db :: "'t message_db"
  dk_documents :: 's
  dk_config :: "string option"

record ('acc, 'sess, 't, 'r, 'g, 'm, 'kp, 'q, 's, 'sk, 'xs, 'w, 'addr, 'k) desktop_env =
  dx_app :: "('acc, 'sess, 't, 'r, 'g, 'm, 'kp, 'q) app_env"
  dx_boot :: "('acc, 'r) boot_env"
  dx_file :: file_env
  dx_documents :: "('s, ('sk, 'xs) did_identity) identity_storage"
  dx_words :: "'w mnemonics"
  dx_toml :: toml
  dx_data_dir :: path
  dx_parse_addr :: "string \<Rightarrow> 'addr option"
  dx_keypair :: "bytes \<Rightarrow> 'k option"

text \<open>The random values, clock readings and the port of one command; no port is a failed bind.\<close>

record desktop_draws =
  bd_entropy :: bytes
  bd_signaling :: bytes
  bd_pickle :: string
  bd_created_at :: string
  bd_now :: int
  bd_salt :: "nat \<Rightarrow> bytes \<times> bytes"
  bd_port :: "nat option"

subsection \<open>Identities\<close>

definition has_identity :: "path \<Rightarrow> ('t, 's) desktop_disk \<Rightarrow> bool" where
  "has_identity path K = (dk_files K path \<noteq> None)"

definition check_identity_encrypted :: "path \<Rightarrow> ('t, 's) desktop_disk \<Rightarrow> bool option" where
  "check_identity_encrypted path K = map_option is_encrypted (dk_files K path)"

definition write_identity ::
  "('acc, 'sess, 't, 'r, 'g, 'm, 'kp, 'q, 's, 'sk, 'xs, 'w, 'addr, 'k) desktop_env \<Rightarrow> desktop_draws \<Rightarrow> path \<Rightarrow> string option
     \<Rightarrow> identity_file \<Rightarrow> ('t, 's) desktop_disk \<Rightarrow> ('t, 's) desktop_disk \<times> bool" where
  "write_identity X d path passphrase identity K =
     (let (f, ok) = save_identity (dx_file X) (bd_salt d 0) identity passphrase (dk_files K path)
      in (K\<lparr>dk_files := (dk_files K)(path := f)\<rparr>, ok))"

definition generate_identity ::
  "('acc, 'sess, 't, 'r, 'g, 'm, 'kp, 'q, 's, 'sk, 'xs, 'w, 'addr, 'k) desktop_env \<Rightarrow> desktop_draws \<Rightarrow> path \<Rightarrow> string option
     \<Rightarrow> ('t, 's) desktop_disk \<Rightarrow> ('t, 's) desktop_disk \<times> (did \<times> string list) option" where
  "generate_identity X d output_path passphrase K =
     (case identity_generate (dx_words X) (bo_public (dx_boot X)) (bd_entropy d) (bd_signaling d) (bd_pickle d) (bd_created_at d) of
        None \<Rightarrow> (K, None)
      | Some (identity, phrase) \<Rightarrow>
          (case write_identity X d output_path passphrase identity K of
             (K, False) \<Rightarrow> (K, None)
           | (K, True) \<Rightarrow> (K, Some (idf_did identity, split_whitespace phrase))))"

definition recover_identity ::
  "('acc, 'sess, 't, 'r, 'g, 'm, 'kp, 'q, 's, 'sk, 'xs, 'w, 'addr, 'k) desktop_env \<Rightarrow> desktop_draws \<Rightarrow> string \<Rightarrow> path \<Rightarrow> string option
     \<Rightarrow> ('t, 's) desktop_disk \<Rightarrow> ('t, 's) desktop_disk \<times> did option" where
  "recover_identity X d mnemonic output_path passphrase K =
     (case identity_recover (dx_words X) (bo_public (dx_boot X)) (bd_signaling d) (bd_pickle d) (bd_created_at d) mnemonic of
        None \<Rightarrow> (K, None)
      | Some identity \<Rightarrow>
          (case write_identity X d output_path passphrase identity K of
             (K, False) \<Rightarrow> (K, None)
           | (K, True) \<Rightarrow> (K, Some (idf_did identity))))"

subsection \<open>The node\<close>

text \<open>\<open>node::start_node\<close> with the configuration of the p2p node, which comes after the file was read.\<close>

definition boot_node ::
  "('acc, 'sess, 't, 'r, 'g, 'm, 'kp, 'q, 's, 'sk, 'xs, 'w, 'addr, 'k) desktop_env \<Rightarrow> desktop_draws \<Rightarrow> app_config \<Rightarrow> string option
     \<Rightarrow> bytes option \<times> 't message_db \<times> 's \<Rightarrow> (bytes option \<times> 's) \<times> ('acc, 'sess, 't, 'r, 'g) app option" where
  "boot_node X d config passphrase disk =
     (let (f, db, S) = disk in
      case load_identity (dx_file X) (bd_salt d 0) (bd_pickle d) passphrase f of
        (f, None) \<Rightarrow> ((f, S), None)
      | (f', Some identity) \<Rightarrow>
          (case build_p2p_config (dx_parse_addr X) (dx_keypair X) config identity of
             None \<Rightarrow> ((f', S), None)
           | Some _ \<Rightarrow>
               start_node (dx_app X) (dx_boot X) (dx_file X) (dx_documents X) (bd_salt d) (bd_pickle d) (bd_now d) passphrase disk))"

definition desktop_config :: "toml \<Rightarrow> path \<Rightarrow> string option \<Rightarrow> string option \<times> app_config option" where
  "desktop_config T base_dir f =
     (case f of
        Some _ \<Rightarrow> (f, config_from_file T f base_dir)
      | None \<Rightarrow>
          (let default_cfg = (app_config_default base_dir)\<lparr>cf_storage := for_base_dir base_dir\<rparr>
           in (fst (config_to_file T default_cfg f), Some default_cfg)))"

definition desktop_start ::
  "('acc, 'sess, 't, 'r, 'g, 'm, 'kp, 'q, 's, 'sk, 'xs, 'w, 'addr, 'k) desktop_env \<Rightarrow> desktop_draws \<Rightarrow> path \<Rightarrow> string option
     \<Rightarrow> ('acc, 'sess, 't, 'r, 'g) app desktop \<times> ('t, 's) desktop_disk
     \<Rightarrow> (('acc, 'sess, 't, 'r, 'g) app desktop \<times> ('t, 's) desktop_disk) \<times> nat option" where
  "desktop_start X d identity_path passphrase DK =
     (let (D, K) = DK in
      case dt_port D of
        Some port \<Rightarrow> ((D, K), Some port)
      | None \<Rightarrow>
          (let (cfg, config) = desktop_config (dx_toml X) (dx_data_dir X) (dk_config K);
               K = K\<lparr>dk_config := cfg\<rparr>
           in case config of
                None \<Rightarrow> ((D, K), None)
              | Some config \<Rightarrow>
                  if \<not> has_identity identity_path K then ((D, K), None)
                  else
                   (let ((f, S), started) = boot_node X d config passphrase (dk_files K identity_path, dk_db K, dk_documents K);
                        K = K\<lparr>dk_files := (dk_files K)(identity_path := f), dk_documents := S\<rparr>
                    in case started of
                         None \<Rightarrow> ((D, K), None)
                       | Some A \<Rightarrow>
                           (let K = K\<lparr>dk_db := app_db A\<rparr>
                            in case bd_port d of
                                 None \<Rightarrow> ((D, K), None)
                               | Some port \<Rightarrow>
                                   ((D\<lparr>dt_app := Some (A, identity_path, passphrase), dt_port := Some port,
                                      dt_shutdown := True, dt_task := True\<rparr>, K), Some port)))))"

text \<open>\<open>NodeState::stop\<close>; what the node has written by then is in the message storage.\<close>

definition desktop_stop ::
  "('acc, 'sess, 't, 'r, 'g) app desktop \<times> ('t, 's) desktop_disk \<Rightarrow> ('acc, 'sess, 't, 'r, 'g) app desktop \<times> ('t, 's) desktop_disk" where
  "desktop_stop DK =
     (let (D, K) = DK;
          K = (case dt_app D of Some (A, _) \<Rightarrow> K\<lparr>dk_db := app_db A\<rparr> | None \<Rightarrow> K)
      in (D\<lparr>dt_shutdown := False, dt_task := False, dt_app := None, dt_port := None\<rparr>, K))"

definition desktop_change_passphrase ::
  "('acc, 'sess, 't, 'r, 'g, 'm, 'kp, 'q, 's, 'sk, 'xs, 'w, 'addr, 'k) desktop_env \<Rightarrow> desktop_draws \<Rightarrow> string option \<Rightarrow> string option
     \<Rightarrow> ('acc, 'sess, 't, 'r, 'g) app desktop \<times> ('t, 's) desktop_disk
     \<Rightarrow> (('acc, 'sess, 't, 'r, 'g) app desktop \<times> ('t, 's) desktop_disk) \<times> bool" where
  "desktop_change_passphrase X d current_passphrase new_passphrase DK =
     (let (D, K) = DK in
      case dt_app D of
        None \<Rightarrow> ((D, K), False)
      | Some (A, identity_path, stored_passphrase) \<Rightarrow>
          if current_passphrase \<noteq> stored_passphrase then ((D, K), False)
          else
           (case load_identity (dx_file X) (bd_salt d 0) (bd_pickle d) current_passphrase (dk_files K identity_path) of
              (f, None) \<Rightarrow> ((D, K\<lparr>dk_files := (dk_files K)(identity_path := f)\<rparr>), False)
            | (f, Some identity) \<Rightarrow>
                (case save_identity (dx_file X) (bd_salt d 1) identity new_passphrase f of
                   (f, False) \<Rightarrow> ((D, K\<lparr>dk_files := (dk_files K)(identity_path := f)\<rparr>), False)
                 | (f, True) \<Rightarrow> (desktop_stop (D, K\<lparr>dk_files := (dk_files K)(identity_path := f)\<rparr>), True))))"

definition get_api_port :: "'a desktop \<Rightarrow> nat option" where
  "get_api_port D = dt_port D"

definition get_node_status :: "('acc, 'sess, 't, 'r, 'g) app desktop \<Rightarrow> bool \<times> did option \<times> nat option" where
  "get_node_status D = (dt_port D \<noteq> None, map_option (\<lambda>(A, _). ap_local_did A) (dt_app D), dt_port D)"

subsection \<open>A file that starts a node\<close>

text \<open>What of an identity decides whether a state can be made from it.\<close>

definition bootable :: "unicode \<Rightarrow> identity_file \<Rightarrow> bool" where
  "bootable U i \<longleftrightarrow>
     secret_key (idf_signing_key i) \<noteq> None \<and> secret_key (idf_signaling_key i) \<noteq> None \<and> seed_username U i \<noteq> None"

definition opens_as :: "file_env \<Rightarrow> unicode \<Rightarrow> string option \<Rightarrow> did \<Rightarrow> bytes option \<Rightarrow> bool" where
  "opens_as F U pass d f \<longleftrightarrow> (\<exists>i. read_identity F pass f = Some i \<and> idf_did i = d \<and> bootable U i)"

lemma bootable_updates [simp]:
  "bootable U (i\<lparr>idf_olm_account_pickle := p\<rparr>) = bootable U i" "bootable U (i\<lparr>idf_ipns_key := k\<rparr>) = bootable U i"
  by (simp_all add: bootable_def seed_username_def cong: option.case_cong)

lemma opens_saved:
  "file_env_ok F \<Longrightarrow> random_ok sn \<Longrightarrow> idf_did i = d \<Longrightarrow> bootable U i \<Longrightarrow> save_identity F sn i pass f = (f', ok) \<Longrightarrow>
     opens_as F U pass d f' \<and> ok"
  using read_saved [of F sn pass i f] by (auto simp: opens_as_def)

lemma sealed_iff:
  assumes "file_env_ok F" and "random_ok sn" and "save_identity F sn i pass f = (f', ok)" and ok
  shows "\<exists>data. f' = Some data \<and> is_encrypted data = (pass \<noteq> None)"
proof (cases pass)
  case None
  with assms(3) file_env_okD(3) [OF assms(1)] show ?thesis by (auto simp: save_identity_def)
next
  case (Some pp)
  with assms(3,4) obtain data where "identity_encrypt F (fst sn) (snd sn) (cd_encode (fe_json F) i) pp = Some data" "f' = Some data"
    by (auto simp: save_identity_def split: option.splits)
  with identity_decrypt_encrypt [OF assms(1,2)] Some show ?thesis by blast
qed

lemma opens_load:
  assumes "file_env_ok F" and "random_ok sn" and "opens_as F U pass d f"
  shows "\<exists>f' i. load_identity F sn p pass f = (f', Some i) \<and> idf_did i = d \<and> bootable U i"
proof -
  obtain i where i: "read_identity F pass f = Some i" "idf_did i = d" "bootable U i" using assms(3) by (auto simp: opens_as_def)
  obtain f' ok where s: "save_identity F sn (i\<lparr>idf_olm_account_pickle := p\<rparr>) pass f = (f', ok)" by fastforce
  then have ok using read_saved [OF assms(1,2)] by (metis snd_conv)
  with i s show ?thesis by (simp add: load_identity_def)
qed

text \<open>What the command line of a start needs: the libraries make a state of every such identity.\<close>

definition boots :: "('acc, 'sess, 't, 'r, 'g, 'm, 'kp, 'q) app_env \<Rightarrow> ('acc, 'r) boot_env \<Rightarrow> bool" where
  "boots E Y \<longleftrightarrow> (\<forall>p. bo_unpickle Y p \<noteq> None) \<and> (\<forall>rng d key. \<exists>H. mls_new (ae_mls E) rng d key = Inr H)"

lemma boots_state:
  assumes "boots E Y" and "bootable (ae_unicode E) i"
  shows "\<exists>A key. from_identity E Y i db = Some (A, key)"
proof -
  obtain k s n where i: "secret_key (idf_signing_key i) = Some k" "secret_key (idf_signaling_key i) = Some s"
    "seed_username (ae_unicode E) i = Some n" using assms(2) by (auto simp: bootable_def)
  obtain a where a: "bo_unpickle Y (newest_pickle (app_store E) db i) = Some a" using assms(1) unfolding boots_def by blast
  obtain H where "mls_new (ae_mls E) (bo_rng Y) (idf_did i) k = Inr H" using assms(1) unfolding boots_def by blast
  with i a show ?thesis by (simp add: from_identity_def)
qed

lemma restored_fields:
  assumes "restore_crypto_state E (A, i) = (C, j, otks)"
  shows "ap_local_did C = ap_local_did A" and "\<exists>p. j = i\<lparr>idf_olm_account_pickle := p\<rparr>"
proof -
  obtain B keys p where b: "renew_account E A = (B, keys, p)" by (metis prod_cases3)
  have "ap_local_did (restore_groups E D) = ap_local_did D" for D
    by (simp add: restore_groups_def on_mls_eq split: option.split)
  with assms renew_fields(2) [OF b] show "ap_local_did C = ap_local_did A" and "\<exists>p. j = i\<lparr>idf_olm_account_pickle := p\<rparr>"
    by (auto simp: restore_crypto_state_def b ask_all Let_def)
qed

lemma published_fields: "\<exists>S' j. publish_local_identity B now A (S, i) = (S', j) \<and> (j = i \<or> (\<exists>k. j = i\<lparr>idf_ipns_key := k\<rparr>))"
  by (auto simp: publish_local_identity_def Let_def split: prod.split bool.split)

lemma opens_start:
  assumes F: "file_env_ok F" "\<forall>n. random_ok (rnd n)" and Y: "boots E Y" and f: "opens_as F (ae_unicode E) pass d f"
  shows "\<exists>f' S' A. start_node E Y F B rnd p now pass (f, db, S) = ((f', S'), Some A) \<and> ap_local_did A = d \<and>
    opens_as F (ae_unicode E) pass d f'"
proof -
  obtain f0 i where i: "load_identity F (rnd 0) p pass f = (f0, Some i)" "idf_did i = d" "bootable (ae_unicode E) i"
    using opens_load [OF F(1) _ f] F(2) by blast
  obtain A key where A: "from_identity E Y i db = Some (A, key)" using boots_state [OF Y i(3)] by blast
  obtain C j otks where C: "restore_crypto_state E (seed_peer_names E A, i) = (C, j, otks)" by (metis prod_cases3)
  let ?R = "register_with_network E Y key otks C"
  obtain S' k where k: "publish_local_identity B now ?R (S, j) = (S', k)" "k = j \<or> (\<exists>n. k = j\<lparr>idf_ipns_key := n\<rparr>)"
    using published_fields [of B now ?R S j] by blast
  have "idf_did k = d" "bootable (ae_unicode E) k" using k(2) restored_fields(2) [OF C] i(2,3) by auto
  then have "opens_as F (ae_unicode E) pass d (fst (save_identity F (rnd 1) k pass f0))"
    using opens_saved [OF F(1)] F(2) by (metis prod.collapse)
  moreover have "ap_local_did ?R = d"
    using restored_fields(1) [OF C] from_identity_fresh(2) [OF A] i(2) by (simp add: register_did)
  ultimately show ?thesis using i(1) A C k(1) by (simp add: start_node_def)
qed

lemma opens_boot:
  assumes "file_env_ok (dx_file X)" and "\<forall>n. random_ok (bd_salt d n)" and "boots (dx_app X) (dx_boot X)"
    and "opens_as (dx_file X) (ae_unicode (dx_app X)) pass did f"
    and "\<forall>i. build_p2p_config (dx_parse_addr X) (dx_keypair X) config i \<noteq> None"
  shows "\<exists>f' S' A. boot_node X d config pass (f, db, S) = ((f', S'), Some A) \<and> ap_local_did A = did \<and>
    opens_as (dx_file X) (ae_unicode (dx_app X)) pass did f'"
proof -
  obtain f0 i where "load_identity (dx_file X) (bd_salt d 0) (bd_pickle d) pass f = (f0, Some i)"
    using opens_load [OF assms(1) _ assms(4)] assms(2) by blast
  moreover obtain c where "build_p2p_config (dx_parse_addr X) (dx_keypair X) config i = Some c" using assms(5) by blast
  ultimately show ?thesis using opens_start [OF assms(1-4)] by (simp add: boot_node_def)
qed

subsection \<open>The life of an identity on the desktop\<close>

text \<open>A disk whose configuration is there and names addresses that parse.\<close>

definition configured ::
  "('acc, 'sess, 't, 'r, 'g, 'm, 'kp, 'q, 's, 'sk, 'xs, 'w, 'addr, 'k) desktop_env \<Rightarrow> ('t, 's) desktop_disk \<Rightarrow> bool" where
  "configured X K \<longleftrightarrow>
     (\<exists>config. desktop_config (dx_toml X) (dx_data_dir X) (dk_config K) = (dk_config K, Some config) \<and>
        (\<forall>i. build_p2p_config (dx_parse_addr X) (dx_keypair X) config i \<noteq> None))"

lemma desktop_started:
  assumes "file_env_ok (dx_file X)" and "\<forall>n. random_ok (bd_salt d n)" and "boots (dx_app X) (dx_boot X)" and "configured X K"
    and "opens_as (dx_file X) (ae_unicode (dx_app X)) pass did (dk_files K path)" and "bd_port d = Some port" and "dt_port D = None"
  shows "\<exists>A K'. desktop_start X d path pass (D, K) =
      ((D\<lparr>dt_app := Some (A, path, pass), dt_port := Some port, dt_shutdown := True, dt_task := True\<rparr>, K'), Some port) \<and>
    ap_local_did A = did \<and> configured X K' \<and> opens_as (dx_file X) (ae_unicode (dx_app X)) pass did (dk_files K' path)"
proof -
  obtain config where c: "desktop_config (dx_toml X) (dx_data_dir X) (dk_config K) = (dk_config K, Some config)"
    "\<forall>i. build_p2p_config (dx_parse_addr X) (dx_keypair X) config i \<noteq> None" using assms(4) unfolding configured_def by blast
  obtain f' S' A where b: "boot_node X d config pass (dk_files K path, dk_db K, dk_documents K) = ((f', S'), Some A)"
    "ap_local_did A = did" "opens_as (dx_file X) (ae_unicode (dx_app X)) pass did f'"
    using opens_boot [OF assms(1-3,5) c(2)] by blast
  have "has_identity path K" using assms(5) by (cases "dk_files K path") (auto simp: has_identity_def opens_as_def read_identity_def)
  with c b assms(6,7) show ?thesis
    by (intro exI [of _ A]) (auto simp: desktop_start_def configured_def has_identity_def)
qed

lemma fresh_bootable:
  "length k = 32 \<Longrightarrow> length s = 32 \<Longrightarrow> bootable U (fresh_identity public k s p t)"
  by (simp add: bootable_def fresh_identity_def secret_key_hex seed_username_def)


lemma build_total:
  assumes "\<forall>a. parse a \<noteq> None"
  shows "build_p2p_config parse k config i \<noteq> None"
proof -
  have "parse_addresses parse as \<noteq> None" for as
    by (induction as) (auto simp: bind_eq_None_conv assms [rule_format])
  moreover have "parse_bootstrap_peers parse bs \<noteq> None" for bs
    by (induction bs) (auto simp: Let_def bind_eq_None_conv assms [rule_format] simp del: not_None_eq)
  moreover have "parse_relay_peers parse rs \<noteq> None" for rs
    by (induction rs) (auto simp: bind_eq_None_conv assms [rule_format])
  ultimately obtain as bs rs where "parse_addresses parse (pc_listen_addrs (cf_p2p config)) = Some as"
    "parse_bootstrap_peers parse (pc_bootstrap_peers (cf_p2p config)) = Some bs"
    "parse_relay_peers parse (pc_relay_peers (cf_p2p config)) = Some rs"
    by (metis option.exhaust)
  then show ?thesis by (simp add: build_p2p_config_def)
qed

definition sample_desktop ::
  "(unit, nat, (string, bytes) rbt, unit, ledger, ledger, bytes, ledger, unit, unit, unit, bytes, string, bytes) desktop_env" where
  "sample_desktop =
     \<lparr>dx_app = counting_app_env (\<lambda>_. None), dx_boot = unit_boot, dx_file = plain_files, dx_documents = no_storage,
      dx_words = plain_words, dx_toml = unary_toml, dx_data_dir = ''/d'', dx_parse_addr = Some, dx_keypair = Some\<rparr>"

definition sample_draws :: "nat \<Rightarrow> desktop_draws" where
  "sample_draws i =
     \<lparr>bd_entropy = replicate 16 7, bd_signaling = replicate 32 1, bd_pickle = ''p'', bd_created_at = ''now'', bd_now = 0,
      bd_salt = (\<lambda>_. ([], replicate 12 0)), bd_port = Some (4000 + i)\<rparr>"


end
