(* ===== verification/Wire_Protocols.thy ===== *)
theory Wire_Protocols
  imports Proto Identity_Handler Media_Signaling
begin

section \<open>The request-response protocols (\<open>variance-p2p/src/protocols\<close>)\<close>

text \<open>
  The libp2p codecs: what goes on a stream for a request or a response, and what is read back
  from one. A stream is the bytes that arrive before its end; \<open>None\<close> is \<open>InvalidData\<close>. Each
  protocol has its name, its limit for a read and its two message types; prost's encoding of
  those is a parameter. An encoding into a vector does not fail.
\<close>

record ('q, 'a) wire_protocol =
  wp_name :: string
  wp_max_message_size :: nat
  wp_read_request :: "bytes \<Rightarrow> 'q option"
  wp_read_response :: "bytes \<Rightarrow> 'a option"
  wp_write_request :: "'q \<Rightarrow> bytes"
  wp_write_response :: "'a \<Rightarrow> bytes"

text \<open>\<open>io.take(MAX_MESSAGE_SIZE).read_to_end\<close>, and the decoding of what it gave.\<close>

definition read_limited :: "nat \<Rightarrow> 'm codec \<Rightarrow> bytes \<Rightarrow> 'm option" where
  "read_limited max_size c stream = cd_decode c (take max_size stream)"

definition messaging_max_size :: nat where
  "messaging_max_size = 1024 * 1024"

definition identity_max_size :: nat where
  "identity_max_size = 256 * 1024"

definition signaling_max_size :: nat where
  "signaling_max_size = 64 * 1024"

definition offline_message_protocol ::
  "offline_request codec \<Rightarrow> offline_response codec \<Rightarrow> (offline_request, offline_response) wire_protocol" where
  "offline_message_protocol q a =
     \<lparr>wp_name = ''/variance/offline-messages/1.0.0'', wp_max_message_size = messaging_max_size,
      wp_read_request = read_limited messaging_max_size q, wp_read_response = read_limited messaging_max_size a,
      wp_write_request = cd_encode q, wp_write_response = cd_encode a\<rparr>"

definition direct_message_protocol ::
  "direct_message codec \<Rightarrow> direct_message_ack codec \<Rightarrow> (direct_message, direct_message_ack) wire_protocol" where
  "direct_message_protocol q a =
     \<lparr>wp_name = ''/variance/direct-messages/1.0.0'', wp_max_message_size = messaging_max_size,
      wp_read_request = read_limited messaging_max_size q, wp_read_response = read_limited messaging_max_size a,
      wp_write_request = cd_encode q, wp_write_response = cd_encode a\<rparr>"

definition typing_indicator_protocol ::
  "typing_indicator codec \<Rightarrow> (typing_indicator, typing_indicator) wire_protocol" where
  "typing_indicator_protocol c =
     \<lparr>wp_name = ''/variance/typing-indicators/1.0.0'', wp_max_message_size = messaging_max_size,
      wp_read_request = read_limited messaging_max_size c, wp_read_response = read_limited messaging_max_size c,
      wp_write_request = cd_encode c, wp_write_response = cd_encode c\<rparr>"

definition receipt_protocol :: "read_receipt codec \<Rightarrow> (read_receipt, read_receipt) wire_protocol" where
  "receipt_protocol c =
     \<lparr>wp_name = ''/variance/receipts/1.0.0'', wp_max_message_size = messaging_max_size,
      wp_read_request = read_limited messaging_max_size c, wp_read_response = read_limited messaging_max_size c,
      wp_write_request = cd_encode c, wp_write_response = cd_encode c\<rparr>"

definition group_sync_protocol ::
  "group_sync_request codec \<Rightarrow> group_sync_response codec \<Rightarrow> (group_sync_request, group_sync_response) wire_protocol" where
  "group_sync_protocol q a =
     \<lparr>wp_name = ''/variance/group-sync/1.0.0'', wp_max_message_size = messaging_max_size,
      wp_read_request = read_limited messaging_max_size q, wp_read_response = read_limited messaging_max_size a,
      wp_write_request = cd_encode q, wp_write_response = cd_encode a\<rparr>"

definition identity_protocol ::
  "identity_request codec \<Rightarrow> identity_response codec \<Rightarrow> (identity_request, identity_response) wire_protocol" where
  "identity_protocol q a =
     \<lparr>wp_name = ''/variance/identity/1.0.0'', wp_max_message_size = identity_max_size,
      wp_read_request = read_limited identity_max_size q, wp_read_response = read_limited identity_max_size a,
      wp_write_request = cd_encode q, wp_write_response = cd_encode a\<rparr>"

definition rename_protocol :: "username_changed codec \<Rightarrow> (username_changed, username_changed) wire_protocol" where
  "rename_protocol c =
     \<lparr>wp_name = ''/variance/identity/rename/1.0.0'', wp_max_message_size = identity_max_size,
      wp_read_request = read_limited identity_max_size c, wp_read_response = read_limited identity_max_size c,
      wp_write_request = cd_encode c, wp_write_response = cd_encode c\<rparr>"

definition signaling_protocol :: "signaling_message codec \<Rightarrow> (signaling_message, signaling_message) wire_protocol" where
  "signaling_protocol c =
     \<lparr>wp_name = ''/variance/webrtc-signaling/1.0.0'', wp_max_message_size = signaling_max_size,
      wp_read_request = read_limited signaling_max_size c, wp_read_response = read_limited signaling_max_size c,
      wp_write_request = cd_encode c, wp_write_response = cd_encode c\<rparr>"

subsection \<open>What a caller of a protocol relies on\<close>

locale request_response =
  fixes P :: "('q, 'a) wire_protocol"
    and codecs_ok :: bool
  assumes read_request: "codecs_ok \<Longrightarrow> length (wp_write_request P q) \<le> wp_max_message_size P \<Longrightarrow>
      wp_read_request P (wp_write_request P q) = Some q"
    and read_response: "codecs_ok \<Longrightarrow> length (wp_write_response P a) \<le> wp_max_message_size P \<Longrightarrow>
      wp_read_response P (wp_write_response P a) = Some a"
    and cut_request: "wp_read_request P (take (wp_max_message_size P) stream) = wp_read_request P stream"
    and cut_response: "wp_read_response P (take (wp_max_message_size P) stream) = wp_read_response P stream"
begin

lemma exchanged:
  assumes "codecs_ok" and "length (wp_write_request P q) \<le> wp_max_message_size P"
    and "length (wp_write_response P (serve q)) \<le> wp_max_message_size P"
  shows "Option.bind (wp_read_request P (wp_write_request P q)) (\<lambda>q. wp_read_response P (wp_write_response P (serve q))) = Some (serve q)"
  using assms by (simp add: read_request read_response)

lemma tail_ignored:
  assumes "wp_max_message_size P \<le> length stream"
  shows "wp_read_request P (stream @ junk) = wp_read_request P stream" "wp_read_response P (stream @ junk) = wp_read_response P stream"
  using assms cut_request [of "stream @ junk"] cut_response [of "stream @ junk"] cut_request [of stream] cut_response [of stream]
  by simp_all

end

lemma read_limited_ok: "codec_ok c \<Longrightarrow> length (cd_encode c m) \<le> n \<Longrightarrow> read_limited n c (cd_encode c m) = Some m"
  by (simp add: read_limited_def)

lemma read_limited_cut: "read_limited n c (take n stream) = read_limited n c stream"
  by (simp add: read_limited_def)

lemmas protocol_defs = offline_message_protocol_def direct_message_protocol_def typing_indicator_protocol_def receipt_protocol_def
  group_sync_protocol_def identity_protocol_def rename_protocol_def signaling_protocol_def

interpretation offline_wire: request_response "offline_message_protocol q a" "codec_ok q \<and> codec_ok a" for q a
  by unfold_locales (simp_all add: protocol_defs read_limited_ok read_limited_cut)

interpretation direct_wire: request_response "direct_message_protocol q a" "codec_ok q \<and> codec_ok a" for q a
  by unfold_locales (simp_all add: protocol_defs read_limited_ok read_limited_cut)

interpretation typing_wire: request_response "typing_indicator_protocol c" "codec_ok c" for c
  by unfold_locales (simp_all add: protocol_defs read_limited_ok read_limited_cut)

interpretation receipt_wire: request_response "receipt_protocol c" "codec_ok c" for c
  by unfold_locales (simp_all add: protocol_defs read_limited_ok read_limited_cut)

interpretation sync_wire: request_response "group_sync_protocol q a" "codec_ok q \<and> codec_ok a" for q a
  by unfold_locales (simp_all add: protocol_defs read_limited_ok read_limited_cut)

interpretation identity_wire: request_response "identity_protocol q a" "codec_ok q \<and> codec_ok a" for q a
  by unfold_locales (simp_all add: protocol_defs read_limited_ok read_limited_cut)

interpretation rename_wire: request_response "rename_protocol c" "codec_ok c" for c
  by unfold_locales (simp_all add: protocol_defs read_limited_ok read_limited_cut)

interpretation signaling_wire: request_response "signaling_protocol c" "codec_ok c" for c
  by unfold_locales (simp_all add: protocol_defs read_limited_ok read_limited_cut)

subsection \<open>A page of group history over the wire\<close>

text \<open>The requester of a page reads the whole page when its encoding keeps to the limit. Nothing
  on the answering side looks at that limit: of a larger answer the requester decodes the
  first mebibyte, whatever follows.\<close>

lemma sync_exchange:
  assumes "codec_ok q" and "codec_ok a" and "length (cd_encode q request) \<le> messaging_max_size"
    and "length (cd_encode a (serve request)) \<le> messaging_max_size"
  shows "Option.bind (wp_read_request (group_sync_protocol q a) (cd_encode q request))
    (\<lambda>r. wp_read_response (group_sync_protocol q a) (cd_encode a (serve r))) = Some (serve request)"
  using sync_wire.exchanged [of q a request serve] assms by (simp add: group_sync_protocol_def)

end
