(* ===== verification/Relay_Server.thy ===== *)
theory Relay_Server
  imports Prelude Rust_Text "HOL-Library.AList"
begin

section \<open>The relay server (\<open>variance-relay/src/main.rs\<close>)\<close>

text \<open>
  The statistics that the relay keeps of libp2p's relay behaviour and serves at \<open>/stats\<close>, the
  specification of a bootstrap peer and the key file. The swarm itself, its configuration and
  the HTTP server are libp2p and axum. Counters are \<open>usize\<close>; subtraction saturates, as on
  naturals. A poisoned lock is not modelled.
\<close>

subsection \<open>Statistics\<close>

record 'p relay_stats =
  rs_active_reservations :: nat
  rs_active_circuits :: nat
  rs_total_reservations :: nat
  rs_total_circuits :: nat
  rs_denied_reservations :: nat
  rs_denied_circuits :: nat
  rs_peer_reservations :: "('p \<times> nat) list"

definition relay_stats_new :: "'p relay_stats" where
  "relay_stats_new =
     \<lparr>rs_active_reservations = 0, rs_active_circuits = 0, rs_total_reservations = 0, rs_total_circuits = 0,
      rs_denied_reservations = 0, rs_denied_circuits = 0, rs_peer_reservations = []\<rparr>"

definition reservation_accepted :: "'p \<Rightarrow> 'p relay_stats \<Rightarrow> 'p relay_stats" where
  "reservation_accepted peer S =
     S\<lparr>rs_active_reservations := rs_active_reservations S + 1, rs_total_reservations := rs_total_reservations S + 1,
       rs_peer_reservations := AList.update peer
         ((case map_of (rs_peer_reservations S) peer of None \<Rightarrow> 0 | Some n \<Rightarrow> n) + 1) (rs_peer_reservations S)\<rparr>"

definition reservation_timed_out :: "'p \<Rightarrow> 'p relay_stats \<Rightarrow> 'p relay_stats" where
  "reservation_timed_out peer S =
     (let S = S\<lparr>rs_active_reservations := rs_active_reservations S - 1\<rparr>
      in case map_of (rs_peer_reservations S) peer of
           None \<Rightarrow> S
         | Some count \<Rightarrow>
             if count - 1 = 0 then S\<lparr>rs_peer_reservations := AList.delete peer (rs_peer_reservations S)\<rparr>
             else S\<lparr>rs_peer_reservations := AList.update peer (count - 1) (rs_peer_reservations S)\<rparr>)"

definition relay_peer_disconnected :: "'p \<Rightarrow> 'p relay_stats \<Rightarrow> 'p relay_stats" where
  "relay_peer_disconnected peer S =
     (case map_of (rs_peer_reservations S) peer of
        None \<Rightarrow> S
      | Some count \<Rightarrow>
          (let S = S\<lparr>rs_peer_reservations := AList.delete peer (rs_peer_reservations S)\<rparr>
           in if 0 < count then S\<lparr>rs_active_reservations := rs_active_reservations S - count\<rparr> else S))"

record relay_snapshot =
  sn_active_reservations :: nat
  sn_active_circuits :: nat
  sn_total_reservations :: nat
  sn_total_circuits :: nat
  sn_denied_reservations :: nat
  sn_denied_circuits :: nat
  sn_tracked_peers :: nat

definition relay_snapshot_of :: "'p relay_stats \<Rightarrow> relay_snapshot" where
  "relay_snapshot_of S =
     \<lparr>sn_active_reservations = rs_active_reservations S, sn_active_circuits = rs_active_circuits S,
      sn_total_reservations = rs_total_reservations S, sn_total_circuits = rs_total_circuits S,
      sn_denied_reservations = rs_denied_reservations S, sn_denied_circuits = rs_denied_circuits S,
      sn_tracked_peers = length (rs_peer_reservations S)\<rparr>"

text \<open>libp2p's events, with the flag of a renewed reservation that the code passes over.\<close>

datatype 'p relay_server_event =
    ReservationReqAccepted 'p (renewed: bool)
  | ReservationReqDenied 'p
  | ReservationTimedOut 'p
  | CircuitReqAccepted 'p 'p
  | CircuitReqDenied 'p 'p
  | CircuitClosed 'p 'p
  | OtherRelayEvent

fun handle_relay_event :: "'p relay_server_event \<Rightarrow> 'p relay_stats \<Rightarrow> 'p relay_stats" where
  "handle_relay_event (ReservationReqAccepted src _) S = reservation_accepted src S"
| "handle_relay_event (ReservationReqDenied src) S = S\<lparr>rs_denied_reservations := rs_denied_reservations S + 1\<rparr>"
| "handle_relay_event (ReservationTimedOut src) S = reservation_timed_out src S"
| "handle_relay_event (CircuitReqAccepted src dst) S =
     S\<lparr>rs_active_circuits := rs_active_circuits S + 1, rs_total_circuits := rs_total_circuits S + 1\<rparr>"
| "handle_relay_event (CircuitReqDenied src dst) S = S\<lparr>rs_denied_circuits := rs_denied_circuits S + 1\<rparr>"
| "handle_relay_event (CircuitClosed src dst) S = S\<lparr>rs_active_circuits := rs_active_circuits S - 1\<rparr>"
| "handle_relay_event OtherRelayEvent S = S"

datatype 'p relay_swarm_event = RelayBehaviour "'p relay_server_event" | ConnectionClosed 'p nat | OtherSwarmEvent

fun relay_swarm_step :: "'p relay_swarm_event \<Rightarrow> 'p relay_stats \<Rightarrow> 'p relay_stats" where
  "relay_swarm_step (RelayBehaviour event) S = handle_relay_event event S"
| "relay_swarm_step (ConnectionClosed remote num_established) S =
     (if num_established = 0 then relay_peer_disconnected remote S else S)"
| "relay_swarm_step OtherSwarmEvent S = S"

subsection \<open>Bootstrap peers and the key file\<close>

text \<open>\<open>split_once\<close> at the first \<open>@\<close>; the parsers of the two parts are libp2p's.\<close>

definition split_once_at :: "string \<Rightarrow> (string \<times> string) option" where
  "split_once_at spec =
     (if CHR 0x40 \<in> set spec then Some (takeWhile (\<lambda>c. c \<noteq> CHR 0x40) spec, tl (dropWhile (\<lambda>c. c \<noteq> CHR 0x40) spec)) else None)"

definition parse_bootstrap_peer :: "(string \<Rightarrow> 'p option) \<Rightarrow> (string \<Rightarrow> 'addr option) \<Rightarrow> string \<Rightarrow> ('p \<times> 'addr) option" where
  "parse_bootstrap_peer parse_peer parse_addr spec =
     Option.bind (split_once_at spec) (\<lambda>(peer_id_str, addr_str).
     Option.bind (parse_peer peer_id_str) (\<lambda>peer_id.
     map_option (\<lambda>addr. (peer_id, addr)) (parse_addr addr_str)))"

text \<open>What the key file needs: serde's JSON of a string and libp2p's encoding of a keypair.\<close>

record 'k key_env =
  ke_json_encode :: "string \<Rightarrow> string"
  ke_json_decode :: "string \<Rightarrow> string option"
  ke_encode :: "'k \<Rightarrow> bytes option"
  ke_decode :: "bytes \<Rightarrow> 'k option"

definition load_or_generate_keypair :: "'k key_env \<Rightarrow> 'k \<Rightarrow> string option \<Rightarrow> string option \<times> 'k option" where
  "load_or_generate_keypair K generated file =
     (case file of
        Some json \<Rightarrow>
          (file, Option.bind (ke_json_decode K json) (\<lambda>hex. Option.bind (hex_decode hex) (ke_decode K)))
      | None \<Rightarrow>
          (case ke_encode K generated of
             None \<Rightarrow> (None, None)
           | Some bytes \<Rightarrow> (Some (ke_json_encode K (hex_encode bytes)), Some generated)))"

subsection \<open>The counters agree\<close>

definition relay_stats_run :: "'p relay_swarm_event list \<Rightarrow> 'p relay_stats" where
  "relay_stats_run events = fold relay_swarm_step events relay_stats_new"

text \<open>The reservations a peer holds, read off the events, latest first.\<close>

fun held :: "'p \<Rightarrow> 'p relay_swarm_event list \<Rightarrow> nat" where
  "held p [] = 0"
| "held p (RelayBehaviour (ReservationReqAccepted q _) # es) = held p es + (if q = p then 1 else 0)"
| "held p (RelayBehaviour (ReservationTimedOut q) # es) = held p es - (if q = p then 1 else 0)"
| "held p (ConnectionClosed q n # es) = (if q = p \<and> n = 0 then 0 else held p es)"
| "held p (_ # es) = held p es"

text \<open>libp2p reports a timeout only for a peer that holds a reservation.\<close>

fun timeouts_held :: "'p relay_swarm_event list \<Rightarrow> bool" where
  "timeouts_held [] = True"
| "timeouts_held (RelayBehaviour (ReservationTimedOut q) # es) \<longleftrightarrow> 0 < held q es \<and> timeouts_held es"
| "timeouts_held (_ # es) = timeouts_held es"

definition count_of :: "'p relay_stats \<Rightarrow> 'p \<Rightarrow> nat" where
  "count_of S p = (case map_of (rs_peer_reservations S) p of None \<Rightarrow> 0 | Some n \<Rightarrow> n)"

definition positive :: "('p \<times> nat) list \<Rightarrow> bool" where
  "positive xs \<longleftrightarrow> (\<forall>n \<in> snd ` set xs. 0 < n)"

definition stats_ok :: "'p relay_stats \<Rightarrow> bool" where
  "stats_ok S \<longleftrightarrow> distinct (map fst (rs_peer_reservations S)) \<and> positive (rs_peer_reservations S) \<and>
     rs_active_reservations S = sum_list (map snd (rs_peer_reservations S)) \<and>
     rs_active_reservations S \<le> rs_total_reservations S \<and> rs_active_circuits S \<le> rs_total_circuits S"

lemma sum_update:
  "distinct (map fst xs) \<Longrightarrow>
     sum_list (map snd (AList.update p n xs)) + (case map_of xs p of None \<Rightarrow> 0 | Some m \<Rightarrow> m) = sum_list (map snd xs) + (n :: nat)"
proof (induction xs)
  case (Cons x xs)
  then show ?case by (cases x) (auto simp: map_of_eq_None_iff split: option.splits)
qed simp

lemma sum_delete:
  "distinct (map fst xs) \<Longrightarrow>
     sum_list (map snd (AList.delete p xs)) + (case map_of xs p of None \<Rightarrow> 0 | Some m \<Rightarrow> m) = (sum_list (map snd xs) :: nat)"
proof (induction xs)
  case (Cons x xs)
  then show ?case
    by (cases x) (auto simp: map_of_eq_None_iff AList.delete_eq filter_id_conv image_iff split: option.splits)
qed (simp add: AList.delete_eq)

lemma positive_update: "positive xs \<Longrightarrow> 0 < n \<Longrightarrow> positive (AList.update p n xs)"
  by (induction xs) (auto simp: positive_def)

lemma positive_delete: "positive xs \<Longrightarrow> positive (AList.delete p xs)"
  by (auto simp: positive_def AList.delete_eq)

lemma stats_step:
  assumes "stats_ok S" and "\<forall>q. e = RelayBehaviour (ReservationTimedOut q) \<longrightarrow> 0 < count_of S q"
  shows "stats_ok (relay_swarm_step e S)"
proof (cases e)
  case (RelayBehaviour r)
  show ?thesis
  proof (cases r)
    case (ReservationReqAccepted p b)
    then show ?thesis
      using assms(1) sum_update [of "rs_peer_reservations S" p "count_of S p + 1"]
      by (auto simp: positive_update RelayBehaviour stats_ok_def reservation_accepted_def distinct_update count_of_def)
  next
    case (ReservationTimedOut p)
    obtain n where n: "map_of (rs_peer_reservations S) p = Some n" "0 < n"
      using assms(2) by (auto simp: RelayBehaviour ReservationTimedOut count_of_def split: option.splits)
    then show ?thesis
      using assms(1) sum_update [of "rs_peer_reservations S" p "n - 1"]
        sum_delete [of "rs_peer_reservations S" p]
      by (auto simp: positive_update positive_delete RelayBehaviour ReservationTimedOut stats_ok_def reservation_timed_out_def Let_def distinct_update distinct_delete)
  qed (use assms(1) in \<open>auto simp: RelayBehaviour stats_ok_def\<close>)
next
  case (ConnectionClosed p k)
  then show ?thesis
    using assms(1) sum_delete [of "rs_peer_reservations S" p]
    by (auto simp: positive_delete stats_ok_def relay_peer_disconnected_def Let_def distinct_delete split: option.split)
qed (use assms(1) in simp)

lemma count_step:
  assumes "stats_ok S"
  shows "count_of (relay_swarm_step e S) p =
    (case e of RelayBehaviour (ReservationReqAccepted q _) \<Rightarrow> count_of S p + (if q = p then 1 else 0)
     | RelayBehaviour (ReservationTimedOut q) \<Rightarrow> count_of S p - (if q = p then 1 else 0)
     | ConnectionClosed q n \<Rightarrow> (if q = p \<and> n = 0 then 0 else count_of S p) | _ \<Rightarrow> count_of S p)"
proof (cases e)
  case (RelayBehaviour r)
  then show ?thesis
    by (cases r) (auto simp: count_of_def reservation_accepted_def reservation_timed_out_def Let_def update_conv' AList.delete_conv'
        split: option.split)
next
  case (ConnectionClosed q k)
  then show ?thesis
    by (auto simp: count_of_def relay_peer_disconnected_def Let_def AList.delete_conv' split: option.split)
qed simp

lemma run_counts:
  "timeouts_held es \<Longrightarrow> stats_ok (foldr relay_swarm_step es relay_stats_new) \<and>
     (\<forall>p. count_of (foldr relay_swarm_step es relay_stats_new) p = held p es)"
proof (induction es)
  case Nil
  then show ?case by (simp add: stats_ok_def positive_def relay_stats_new_def count_of_def)
next
  case (Cons e es)
  let ?S = "foldr relay_swarm_step es relay_stats_new"
  have t: "timeouts_held es" "\<And>q. e = RelayBehaviour (ReservationTimedOut q) \<Longrightarrow> 0 < held q es"
    using Cons.prems by (cases "e # es" rule: timeouts_held.cases; auto)+
  with Cons.IH have ok: "stats_ok ?S" "\<And>p. count_of ?S p = held p es" by blast+
  have "stats_ok (relay_swarm_step e ?S)" by (rule stats_step [OF ok(1)]) (simp add: ok(2) t(2))
  moreover have "count_of (relay_swarm_step e ?S) p = held p (e # es)" for p
    unfolding count_step [OF ok(1)] ok(2) by (cases "(p, e # es)" rule: held.cases) auto
  ultimately show ?case by simp
qed



subsection \<open>The key file\<close>

definition key_env_ok :: "'k key_env \<Rightarrow> bool" where
  "key_env_ok K \<longleftrightarrow> (\<forall>t. ke_json_decode K (ke_json_encode K t) = Some t) \<and>
     (\<forall>k bs. ke_encode K k = Some bs \<longrightarrow> ke_decode K bs = Some k)"

text \<open>The key that a first start writes is the one that every later start loads.\<close>

lemma keypair_kept:
  assumes "key_env_ok K" and "load_or_generate_keypair K k None = (file, Some k')"
  shows "k' = k" and "load_or_generate_keypair K other file = (file, Some k)"
  using assms by (auto simp: load_or_generate_keypair_def key_env_ok_def split: option.splits)

end
