(* ===== verification/Spec2Isabelle.thy ===== *)
theory Spec2Isabelle
  imports Rate_Limiter Window_Limiter Conversations Queue_Runs Group_Log Offline_Relay Receipts Invite_Store Typing Usernames
    Identity_Cache Node_Broadcasts Node_Security Direct_Sessions Mls_Recovery Reconnect Group_Control Api_Control Api_Social
    Mls_Persister Group_Restart Identity_Lookup Desktop Wire_Protocols Relay_Server
begin

text \<open>
  Variance: a verification development for the peer-to-peer messenger of this repository.

  The program. A Variance node is one process. Its p2p node (\<open>crates/variance-p2p\<close>) runs a
  libp2p swarm in a select loop and keeps routes, an identity cache and rate limits. Its
  application (\<open>crates/variance-app\<close>) serves HTTP and WebSocket clients on the local host; its
  handlers and event listeners share one state: the Olm direct message handler and the MLS group
  handler (\<open>crates/variance-messaging\<close>), the message storage in sled, the username registry,
  the calls (\<open>crates/variance-media\<close>). The two sides talk through commands with a oneshot for the
  reply and through broadcast events. Documents, DIDs, usernames and mailbox tokens are
  \<open>crates/variance-identity\<close>. \<open>crates/variance-relay\<close> is a libp2p relay with statistics;
  \<open>app/src-tauri\<close> is the desktop shell that makes identities and starts the node.

  Theories and sources, in the order in which they build on each other.

  Foundations. \<open>Prelude\<close>: types, \<open>i64\<close> and \<open>u32\<close> arithmetic, lists and maps. \<open>Rust_Text\<close>: the
  standard library's text operations, UTF-8, hex, padded decimals. \<open>Sled\<close>: a sled tree as a
  parameter with its laws, and a red-black tree that satisfies them. \<open>Proto\<close>: the messages of
  \<open>variance-proto/proto\<close> as records, codecs as parameters. \<open>Metering\<close>: the locale \<open>metered\<close>, the
  bound that a refilling budget puts on what is granted.

  Message storage (\<open>variance-messaging/src/storage\<close>). \<open>Storage_Keys\<close>: the keys (\<open>mod.rs\<close>).
  \<open>Message_Store\<close>: the trees as a record, the environment of codecs. \<open>Direct_Store\<close> and
  \<open>Conversations\<close> (\<open>direct.rs\<close>), \<open>Pending_Queue\<close> and \<open>Queue_Runs\<close> (its queue, as a set of waiting
  messages), \<open>Group_Store\<close> and \<open>Group_Log\<close> (\<open>group.rs\<close>), \<open>Offline_Store\<close> (\<open>offline.rs\<close>),
  \<open>Receipt_Store\<close> (\<open>receipts.rs\<close>), \<open>Invite_Store\<close> (\<open>invitations.rs\<close>, \<open>peer.rs\<close>). Each operation acts
  on the abstract content of its tree, under an invariant that every operation keeps.

  Messaging (\<open>variance-messaging/src\<close>). \<open>Offline_Relay\<close> (\<open>offline.rs\<close>) over the locale
  \<open>mailbox_storage\<close>; \<open>Receipts\<close> (\<open>receipts.rs\<close>); \<open>Typing\<close> (\<open>typing.rs\<close>); \<open>Direct_Messages\<close> and
  \<open>Direct_Sessions\<close> (\<open>direct.rs\<close>: the handler; delivery in order, sessions across a restart);
  \<open>Mls_Groups\<close>, \<open>Mls_Invites\<close>, \<open>Mls_Recovery\<close> (\<open>mls.rs\<close>: the handler; invitations in flight and
  desync; snapshots and reinitialisation).

  Identity (\<open>variance-identity/src\<close>). \<open>Did\<close> (\<open>did.rs\<close>, \<open>mailbox.rs\<close>), \<open>Usernames\<close> (\<open>username.rs\<close>),
  \<open>Identity_Cache\<close> (\<open>cache.rs\<close>), \<open>Identity_Storage\<close> (\<open>storage.rs\<close>, over the locale
  \<open>document_storage\<close>).

  Calls. \<open>Media_Signaling\<close> (\<open>signaling.rs\<close>: signatures and replay), \<open>Calls\<close> (\<open>call.rs\<close>: the life of
  a call), \<open>Call_Handler\<close> (\<open>variance-p2p/src/handlers/signaling.rs\<close>).

  The p2p node (\<open>variance-p2p/src\<close>). \<open>Rate_Limiter\<close> (\<open>rate_limiter.rs\<close>), \<open>Peer_Store\<close>
  (\<open>peer_store.rs\<close>), \<open>Identity_Handler\<close> (\<open>handlers/identity.rs\<close>), \<open>Mailbox_Auth\<close>,
  \<open>Wire_Protocols\<close> (\<open>protocols\<close>, over the locale \<open>request_response\<close>), \<open>Node_State\<close> (\<open>node/mod.rs\<close>:
  the fields, and effects as a list of actions), \<open>Node_Events\<close> (\<open>node/event_handlers.rs\<close>),
  \<open>Node_Commands\<close> (\<open>handle_command\<close>), \<open>Node_Steps\<close> (the loop: one input, one step).
  \<open>Node_Broadcasts\<close> and \<open>Node_Security\<close> hold the invariants of all runs.

  The application (\<open>variance-app/src\<close>). \<open>Websocket\<close> (\<open>websocket.rs\<close>), \<open>App_State\<close> (what the listeners
  and handlers share), \<open>Direct_Router\<close>, \<open>Group_Router\<close>, \<open>Social_Router\<close> (\<open>event_router\<close>),
  \<open>Direct_Control\<close>, \<open>Group_Control\<close>, \<open>Reconnect\<close>, \<open>Mls_Durability\<close> (their lemmas), \<open>Mls_Persister\<close>
  (\<open>mls_persister.rs\<close>: the debounce task from one await to the next). \<open>Window_Limiter\<close>
  (\<open>api/rate_limit.rs\<close>), \<open>Api_Helpers\<close>, \<open>Api_Conversations\<close>, \<open>Api_Group_Content\<close>, \<open>Api_Groups\<close>,
  \<open>Api_Invitations\<close>, \<open>Api_Social\<close>, \<open>Api_Identity\<close>, \<open>Api_Socket\<close> (the handlers of \<open>api\<close>),
  \<open>Api_Control\<close> (rights), \<open>Api_Delivery\<close> (delivery and durability), \<open>Identity_Lookup\<close>.
  \<open>Identity_File\<close> (\<open>identity_crypto.rs\<close>, \<open>state.rs\<close>), \<open>Startup\<close> (\<open>node.rs\<close>, \<open>state.rs\<close>),
  \<open>Startup_Recovery\<close> and \<open>Group_Restart\<close> (what a restart brings back), \<open>Identity_Gen\<close>
  (\<open>identity_gen.rs\<close>), \<open>Configuration\<close> (\<open>config.rs\<close>, \<open>api/config.rs\<close>,
  \<open>variance-media/src/config.rs\<close>), \<open>Desktop\<close> (\<open>app/src-tauri\<close>). \<open>Relay_Server\<close>
  (\<open>variance-relay/src/main.rs\<close>).

  What the lemmas show. Storage: the reads give back what the writes put there, in the order and
  number they promise; deletions remove exactly what they name. Messaging: channels deliver in
  order, mailboxes are bounded and open to their owner only, a deferred invitation is one at a
  time, receipts bind their fields. Node: the cache holds verified documents only, broadcasts
  are always answered, a peer's requests stay within its budget. Application: the table of
  rights is enforced, a message is sent or queued, removal purges exactly one group, and across
  components: the groups stay durable under the listeners, a change that a handler reports
  survives a restart, an identity survives its recovery and a change of its passphrase. Where
  the code falls short of what it documents, a lemma of the same theory states what it does
  (for instance \<open>Direct_Control\<close>, \<open>Group_Control\<close>, \<open>Identity_Lookup\<close>).

  Conventions. State is passed explicitly; an operation that takes a lock is one step. Time,
  random bytes, ULIDs and nonces are arguments (\<open>draws\<close>, \<open>node_clock\<close>). Errors are values of a sum
  or an option; the texts of HTTP errors are left out. Rust strings are their UTF-8 bytes. A
  \<open>HashMap\<close> or \<open>DashMap\<close> is a function where only lookups matter and an association list where the
  code iterates over it. \<open>f64\<close> amounts are reals. The network is seen through the calls made
  to it and a function that says how it answers. Code that is not in the repository (vodozemac,
  openmls, sled, prost, serde, Ed25519, AES-GCM, Argon2id, SHA-256, webrtc, BIP-39, TOML) is a
  field of an environment record, and what is relied on is a named hypothesis such as
  \<open>direct_env_ok\<close>, \<open>storage_ok\<close>, \<open>env_ok\<close>, \<open>file_env_ok\<close>; sample libraries that satisfy them
  (\<open>rbt_env\<close>, \<open>counting_env\<close>, \<open>ledger_env\<close>, \<open>plain_files\<close>, \<open>plain_words\<close>) carry the examples.

  Bounds and termination. No definition uses fuel: loops recurse on the list they walk, on the
  length of what is left, or on a measure (\<open>settle\<close> of the persister: its distance to rest, at most
  eleven steps; \<open>skip_codes\<close> and \<open>split_codes\<close>: the text that is left). Runs of the node, the queue
  and the handlers are finite lists of inputs of any length.

  Not modelled. The swarm and its behaviours, listening, dialling and channels; the HTTP server,
  its routes and JSON; the command line client, the TypeScript frontend and the registration of
  commands with Tauri: I/O and wiring around what is modelled. The client of an IPFS daemon. The
  forwarding of commands by \<open>NodeHandle\<close> and the plumbing of event channels. Failures of sled's
  I/O, poisoned locks, and the interleaving of operations within one lock. \<open>variance-messaging\<close>'s
  and \<open>variance-media\<close>'s own \<open>protocol.rs\<close> and \<open>variance-identity\<close>'s configuration, which nothing
  uses. Logging.
\<close>

end
